(* ===== verification/Prelude.thy ===== *)
theory Prelude
  imports Main "HOL-Library.List_Lexorder" "HOL-Library.Char_ord"
    "HOL-Library.Product_Lexorder" "HOL-Library.Option_ord"
begin

text \<open>
  Shared material of the development: errors as values, JSON documents, instants and the text
  form in which the Agent stores them, the environment of code that is not part of the
  repository, and keyed tables (the SQLite tables of the control plane) with the interface
  \<open>keyed_store\<close> that every table of the model implements.
\<close>

named_theorems row_defs \<open>definitions that update or read one row\<close>
named_theorems op_defs \<open>definitions of the public operations\<close>
named_theorems inv_defs \<open>definitions of the invariants\<close>

section \<open>Errors and documents\<close>

text \<open>
  The exceptions the modelled code raises: \<open>ValueError\<close> (pydantic's ValidationError is one),
  \<open>LookupError\<close> (KeyError is one), \<open>RuntimeError\<close>, and the subclass
  \<open>DistributedJobConflictError\<close> of RuntimeError that jobs/job_types.py declares.
\<close>

datatype error =
    ValueError string
  | LookupError string
  | RuntimeError string
  | ConflictError string

text \<open>
  A decoded JSON document. Objects are kept as association lists in the canonical key order
  that \<open>_json\<close> writes (\<open>sort_keys=True\<close>), so equality of documents is equality of values;
  floats stay in their printed form, which JSON round-trips.
\<close>

datatype json =
    JNull
  | JBool bool
  | JInt int
  | JFloat string
  | JStr string
  | JArr "json list"
  | JObj "(string \<times> json) list"

text \<open>\<open>value.get(key)\<close> of a decoded object: an absent key is None, like a null.\<close>

fun jget :: "json \<Rightarrow> string \<Rightarrow> json" where
  "jget (JObj kvs) k = (case map_of kvs k of None \<Rightarrow> JNull | Some v \<Rightarrow> v)"
| "jget _ k = JNull"

text \<open>Python truth of a decoded value.\<close>

fun jtrue :: "json \<Rightarrow> bool" where
  "jtrue JNull = False"
| "jtrue (JBool b) = b"
| "jtrue (JInt i) = (i \<noteq> 0)"
| "jtrue (JFloat s) = (s \<noteq> ''0.0'' \<and> s \<noteq> ''-0.0'')"
| "jtrue (JStr s) = (s \<noteq> [])"
| "jtrue (JArr xs) = (xs \<noteq> [])"
| "jtrue (JObj kvs) = (kvs \<noteq> [])"

section \<open>Instants\<close>

text \<open>
  A timezone-aware datetime is the instant it denotes, in microseconds since the epoch (the
  resolution of Python's datetime). \<open>timedelta\<close> arithmetic on the fixed-offset values the
  repository uses (\<open>paris_instant\<close>) is exact, so it is integer arithmetic here.
\<close>

type_synonym instant = int

definition seconds :: "int \<Rightarrow> int" where
  "seconds n = n * 1000000"

definition days :: "int \<Rightarrow> int" where
  "days n = n * 86400000000"

lemma seconds_mono [simp]: "seconds a \<le> seconds b \<longleftrightarrow> a \<le> b"
  by (simp add: seconds_def)

lemma seconds_nonneg [simp]: "0 \<le> seconds a \<longleftrightarrow> 0 \<le> a"
  by (simp add: seconds_def)

lemma seconds_pos [simp]: "0 < seconds a \<longleftrightarrow> 0 < a"
  by (simp add: seconds_def)

section \<open>The environment: code that is not in the repository\<close>

text \<open>
  A datetime as pydantic parses it: the instant, whether it carries an offset (without one the
  instant is not meaningful), and the ISO text it is dumped as.
\<close>

record timestamp =
  ts_instant :: instant
  ts_aware :: bool
  ts_text :: string

text \<open>
  What the repository calls and does not define. \<open>paris_offset t\<close> is the UTC offset, in
  microseconds, that the tz database gives to Europe/Paris at instant \<open>t\<close>; \<open>julianday t\<close> is
  SQLite's julianday of the stored text of \<open>t\<close>, on SQLite's own integer scale; \<open>digest\<close> is
  SHA-256 of the canonical JSON text; \<open>secret_digest\<close> is SHA-256 of a secret; the \<open>lax_\<close> functions
  are pydantic's conversions of a JSON value to an int, a float (kept as its text), a bool, a
  datetime and a UUID (None: a validation error), and \<open>float_ge\<close>, \<open>float_le\<close> compare such a float
  with an integer. Theorems hold for every environment; the few that need a documented law of it
  name it.
\<close>

record env =
  paris_offset :: "instant \<Rightarrow> int"
  julianday :: "instant \<Rightarrow> int"
  digest :: "json \<Rightarrow> string"
  secret_digest :: "string \<Rightarrow> string"
  lax_int :: "json \<Rightarrow> int option"
  lax_float :: "json \<Rightarrow> string option"
  lax_bool :: "json \<Rightarrow> bool option"
  lax_datetime :: "json \<Rightarrow> timestamp option"
  lax_uuid :: "json \<Rightarrow> string option"
  float_ge :: "string \<Rightarrow> int \<Rightarrow> bool"
  float_le :: "string \<Rightarrow> int \<Rightarrow> bool"

text \<open>
  \<open>_timestamp\<close> writes \<open>value.astimezone(Europe/Paris).isoformat()\<close>. Where the SQL compares
  these texts directly (no \<open>julianday\<close>), the order is the one of the strings: the wall clock of
  Paris first (fixed-width fields, and a missing fraction sorts before any fraction), then the
  offset suffix. \<open>text_key\<close> is that order's key; within one offset it is the order of instants,
  across a clock change it is not.
\<close>

definition text_key :: "env \<Rightarrow> instant \<Rightarrow> int \<times> int" where
  "text_key e t = (t + paris_offset e t, paris_offset e t)"

lemma text_key_same_offset:
  assumes "paris_offset e a = paris_offset e b"
  shows "text_key e a \<le> text_key e b \<longleftrightarrow> a \<le> b" "text_key e a < text_key e b \<longleftrightarrow> a < b"
  using assms by (auto simp: text_key_def less_eq_prod_def less_prod_def)

text \<open>\<open>now.hour\<close> of a Paris instant, and the start of its local day.\<close>

definition paris_hour :: "env \<Rightarrow> instant \<Rightarrow> int" where
  "paris_hour e t = ((t + paris_offset e t) div 3600000000) mod 24"

definition paris_day_start :: "env \<Rightarrow> instant \<Rightarrow> int" where
  "paris_day_start e t =
     ((t + paris_offset e t) div 86400000000) * 86400000000 - paris_offset e t"

section \<open>Text of numbers\<close>

function show_pos :: "int \<Rightarrow> string" where
  "show_pos n = (if n < 10 then [char_of (48 + n)]
                 else show_pos (n div 10) @ [char_of (48 + n mod 10)])"
  by pat_completeness auto
termination by (relation "measure nat") auto

declare show_pos.simps [simp del]

definition show_int :: "int \<Rightarrow> string" where
  "show_int i = (if i < 0 then ''-'' @ show_pos (- i) else show_pos i)"

text \<open>Decimal text reads back, so it determines the number.\<close>

definition digits_value :: "string \<Rightarrow> int" where
  "digits_value s = foldl (\<lambda>a c. 10 * a + (of_char c - 48)) 0 s"

lemma digit_char: "0 \<le> d \<Longrightarrow> d < 10 \<Longrightarrow> (of_char (char_of (48 + d :: int)) :: int) = 48 + d"
  by (simp add: of_char_of)

lemma digits_value_show_pos: "0 \<le> n \<Longrightarrow> digits_value (show_pos n) = n"
proof (induction n rule: show_pos.induct)
  case (1 n)
  show ?case
  proof (cases "n < 10")
    case True
    then show ?thesis using 1(2) by (simp add: show_pos.simps[of n] digits_value_def digit_char)
  next
    case False
    with 1 have "digits_value (show_pos (n div 10)) = n div 10" by simp
    with False show ?thesis
      by (simp add: show_pos.simps[of n] digits_value_def digit_char)
  qed
qed

lemma show_pos_no_sign: "0 \<le> n \<Longrightarrow> CHR ''-'' \<notin> set (show_pos n)"
proof (induction n rule: show_pos.induct)
  case (1 n)
  have "CHR ''-'' \<noteq> char_of (48 + d)" if "0 \<le> d" "d < 10" for d :: int
  proof
    assume "CHR ''-'' = char_of (48 + d)"
    then have "(of_char (CHR ''-'') :: int) = 48 + d" using digit_char[OF that] by simp
    with that show False by simp
  qed
  then show ?case using 1 by (simp add: show_pos.simps[of n])
qed

lemma show_pos_inj: "0 \<le> a \<Longrightarrow> 0 \<le> b \<Longrightarrow> show_pos a = show_pos b \<Longrightarrow> a = b"
  by (metis digits_value_show_pos)

lemma show_int_inj: "show_int a = show_int b \<longleftrightarrow> a = b"
proof
  assume eq: "show_int a = show_int b"
  show "a = b"
  proof (cases "a < 0"; cases "b < 0")
    assume "a < 0" "b < 0"
    with eq show ?thesis using show_pos_inj[of "- a" "- b"] by (simp add: show_int_def)
  next
    assume "a < 0" "\<not> b < 0"
    with eq have "CHR ''-'' \<in> set (show_pos b)" by (simp add: show_int_def) (metis list.set_intros(1))
    with \<open>\<not> b < 0\<close> show ?thesis using show_pos_no_sign[of b] by simp
  next
    assume "\<not> a < 0" "b < 0"
    with eq have "CHR ''-'' \<in> set (show_pos a)" by (simp add: show_int_def)
    with \<open>\<not> a < 0\<close> show ?thesis using show_pos_no_sign[of a] by simp
  next
    assume "\<not> a < 0" "\<not> b < 0"
    with eq show ?thesis using show_pos_inj[of a b] by (simp add: show_int_def)
  qed
qed simp

text \<open>\<open>text.split(sep)\<close> for a separator of one character, and the ASCII digits.\<close>

fun split_on :: "char \<Rightarrow> string \<Rightarrow> string list" where
  "split_on d [] = [[]]"
| "split_on d (c # cs) =
     (if c = d then [] # split_on d cs
      else (case split_on d cs of [] \<Rightarrow> [[c]] | p # ps \<Rightarrow> (c # p) # ps))"

definition digit :: "char \<Rightarrow> bool" where
  "digit c = (c \<in> set ''0123456789'')"

text \<open>The ASCII blanks of \<open>str.isspace\<close>, and \<open>str.strip\<close>, \<open>str.lower\<close> on ASCII text.\<close>

definition py_space :: "char \<Rightarrow> bool" where
  "py_space c = (c \<in> set [CHR 0x09, CHR 0x0A, CHR 0x0B, CHR 0x0C, CHR 0x0D, CHR 0x1C, CHR 0x1D,
     CHR 0x1E, CHR 0x1F, CHR '' ''])"

definition strip :: "string \<Rightarrow> string" where
  "strip s = rev (dropWhile py_space (rev (dropWhile py_space s)))"

definition lower_char :: "char \<Rightarrow> char" where
  "lower_char c = (if c \<in> set ''ABCDEFGHIJKLMNOPQRSTUVWXYZ'' then char_of (of_char c + 32 :: nat) else c)"

section \<open>Keyed tables\<close>

text \<open>
  A table is the list of its rows in rowid order. \<open>SELECT ... WHERE key = ?\<close> with fetchone,
  \<open>UPDATE ... WHERE key = ?\<close> and the \<open>ORDER BY ... LIMIT\<close> forms the code uses.
\<close>

definition tbl_find :: "('r \<Rightarrow> 'k) \<Rightarrow> 'k \<Rightarrow> 'r list \<Rightarrow> 'r option" where
  "tbl_find key k rows = find (\<lambda>r. key r = k) rows"

definition tbl_update :: "('r \<Rightarrow> 'k) \<Rightarrow> 'k \<Rightarrow> ('r \<Rightarrow> 'r) \<Rightarrow> 'r list \<Rightarrow> 'r list" where
  "tbl_update key k f rows = map (\<lambda>r. if key r = k then f r else r) rows"

text \<open>\<open>ORDER BY k ASC LIMIT 1\<close>: the first row with the least key.\<close>

fun first_min :: "('r \<Rightarrow> 'k::linorder) \<Rightarrow> 'r list \<Rightarrow> 'r option" where
  "first_min k [] = None"
| "first_min k (x # xs) =
     (case first_min k xs of
        None \<Rightarrow> Some x
      | Some y \<Rightarrow> if k x \<le> k y then Some x else Some y)"

text \<open>
  \<open>ORDER BY k DESC\<close>. SQLite leaves the order of rows with equal keys open; here the younger row
  comes first, and no theorem depends on it.
\<close>

definition order_desc :: "('r \<Rightarrow> 'k::linorder) \<Rightarrow> 'r list \<Rightarrow> 'r list" where
  "order_desc k rows = rev (sort_key k rows)"

lemma first_min_None [simp]: "first_min k xs = None \<longleftrightarrow> xs = []"
  by (cases xs) (auto split: option.splits)

lemma first_min_in: "first_min k xs = Some x \<Longrightarrow> x \<in> set xs"
  by (induction xs arbitrary: x) (auto split: option.splits if_splits)

lemma first_min_least: "first_min k xs = Some x \<Longrightarrow> y \<in> set xs \<Longrightarrow> k x \<le> k y"
  by (induction xs arbitrary: x y)
     (auto split: option.splits if_splits intro: order.trans less_imp_le)

lemma set_order_desc [simp]: "set (order_desc k xs) = set xs"
  by (simp add: order_desc_def)

lemma length_order_desc [simp]: "length (order_desc k xs) = length xs"
  by (simp add: order_desc_def)

text \<open>\<open>ORDER BY k DESC LIMIT 1\<close>.\<close>

definition newest_row :: "('r \<Rightarrow> 'k::linorder) \<Rightarrow> 'r list \<Rightarrow> 'r option" where
  "newest_row k rows = (case order_desc k rows of [] \<Rightarrow> None | r # _ \<Rightarrow> Some r)"

lemma newest_row_None: "newest_row k rows = None \<longleftrightarrow> rows = []"
proof -
  have "length (order_desc k rows) = length rows" by simp
  then show ?thesis by (cases "order_desc k rows") (auto simp: newest_row_def)
qed

lemma newest_row_Some:
  assumes "newest_row k rows = Some r"
  shows "r \<in> set rows" "x \<in> set rows \<Longrightarrow> k x \<le> k r"
proof -
  obtain rs where o: "order_desc k rows = r # rs" using assms by (auto simp: newest_row_def split: list.splits)
  then show "r \<in> set rows" using set_order_desc[of k rows] by (metis list.set_intros(1))
  have "sort_key k rows = rev rs @ [r]" using o by (simp add: order_desc_def)
  then have "sorted (map k (rev rs @ [r]))" using sorted_sort_key[of k rows] by simp
  moreover assume "x \<in> set rows"
  then have "x \<in> set (rev rs @ [r])" using \<open>sort_key k rows = rev rs @ [r]\<close> by (metis set_sort)
  ultimately show "k x \<le> k r" by (auto simp: sorted_append)
qed

lemma tbl_find_Some_D: "tbl_find key k rows = Some r \<Longrightarrow> r \<in> set rows \<and> key r = k"
  by (auto simp: tbl_find_def find_Some_iff)

lemma tbl_find_None: "tbl_find key k rows = None \<longleftrightarrow> k \<notin> key ` set rows"
  by (auto simp: tbl_find_def find_None_iff)

lemma tbl_find_distinct:
  assumes "distinct (map key rows)"
  shows "tbl_find key k rows = Some r \<longleftrightarrow> r \<in> set rows \<and> key r = k"
proof
  assume "tbl_find key k rows = Some r"
  then show "r \<in> set rows \<and> key r = k" by (rule tbl_find_Some_D)
next
  assume r: "r \<in> set rows \<and> key r = k"
  then obtain r' where r': "tbl_find key k rows = Some r'"
    using tbl_find_None[of key k rows] by (cases "tbl_find key k rows") auto
  then have "r' \<in> set rows" "key r' = k"
    using tbl_find_Some_D[OF r'] by auto
  with assms r have "r' = r" by (auto simp: distinct_map inj_on_def)
  with r' show "tbl_find key k rows = Some r" by simp
qed

lemma tbl_update_keys:
  assumes "\<And>r. key (f r) = key r"
  shows "map key (tbl_update key k f rows) = map key rows"
  using assms by (auto simp: tbl_update_def)

lemma set_tbl_update:
  "r' \<in> set (tbl_update key k f rows) \<longleftrightarrow>
     (\<exists>r \<in> set rows. r' = (if key r = k then f r else r))"
  by (simp only: tbl_update_def set_map image_iff)

lemma tbl_find_update:
  assumes "\<And>r. key (f r) = key r"
  shows "tbl_find key k (tbl_update key k' f rows) =
    (if k = k' then map_option f (tbl_find key k rows) else tbl_find key k rows)"
  using assms by (induction rows) (auto simp: tbl_find_def tbl_update_def)

lemma tbl_update_const:
  assumes "distinct (map key rows)" "r \<in> set rows"
  shows "tbl_update key (key r) (\<lambda>_. f r) rows = tbl_update key (key r) f rows"
  using assms unfolding tbl_update_def by (intro map_cong) (auto simp: distinct_map inj_on_def)

lemma tbl_find_append:
  "tbl_find key k (xs @ ys) =
     (case tbl_find key k xs of None \<Rightarrow> tbl_find key k ys | Some r \<Rightarrow> Some r)"
  by (induction xs) (auto simp: tbl_find_def)

text \<open>
  A loop over a snapshot of rows, each iteration updating its own key, acts on every row once
  and with the snapshot's row.
\<close>

lemma fold_tbl_update:
  assumes "distinct (map key rs)" and "\<And>a r. key (g a r) = key r"
  shows "fold (\<lambda>a. tbl_update key (key a) (g a)) rs rows =
    map (\<lambda>r. case tbl_find key (key r) rs of None \<Rightarrow> r | Some a \<Rightarrow> g a r) rows"
  using assms(1)
proof (induction rs arbitrary: rows)
  case Nil
  then show ?case by (simp add: tbl_find_def)
next
  case (Cons a rs)
  then have "key a \<notin> key ` set rs" by simp
  then have "tbl_find key (key a) rs = None" by (simp add: tbl_find_None)
  with Cons assms(2) show ?case
    by (auto simp: tbl_update_def tbl_find_def)
qed

lemma tbl_find_filter:
  assumes "distinct (map key rows)" and "r \<in> set rows"
  shows "tbl_find key (key r) (filter P rows) = (if P r then Some r else None)"
proof -
  have d: "distinct (map key (filter P rows))"
    using assms(1) by (simp add: distinct_map_filter)
  show ?thesis
  proof (cases "P r")
    case True
    with assms(2) show ?thesis by (simp add: tbl_find_distinct[OF d])
  next
    case False
    have "key r \<notin> key ` set (filter P rows)"
    proof
      assume "key r \<in> key ` set (filter P rows)"
      then obtain q where q: "q \<in> set rows" "P q" "key q = key r" by auto
      with assms have "q = r" by (auto simp: distinct_map inj_on_def)
      with q False show False by simp
    qed
    with False show ?thesis by (simp add: tbl_find_None)
  qed
qed

lemma fold_tbl_update_filter:
  assumes "distinct (map key rows)" and "\<And>a r. key (g a r) = key r"
  shows "fold (\<lambda>a. tbl_update key (key a) (g a)) (filter P rows) rows =
    map (\<lambda>r. if P r then g r r else r) rows"
proof -
  have d: "distinct (map key (filter P rows))"
    using assms(1) by (simp add: distinct_map_filter)
  have "fold (\<lambda>a. tbl_update key (key a) (g a)) (filter P rows) rows =
    map (\<lambda>r. case tbl_find key (key r) (filter P rows) of None \<Rightarrow> r | Some a \<Rightarrow> g a r) rows"
    by (rule fold_tbl_update[of key "filter P rows" g rows]) (auto simp: d assms(2))
  also have "\<dots> = map (\<lambda>r. if P r then g r r else r) rows"
    by (rule map_cong) (auto simp: tbl_find_filter[OF assms(1)])
  finally show ?thesis .
qed

text \<open>
  The interface every table of the control plane implements: \<open>rows\<close> of a database, the primary
  key, the SELECT by key and the UPDATE by key. The clients of a table (the operations on jobs,
  workers, pairings and credentials) reason with the laws proved here.
\<close>

locale keyed_store =
  fixes rows :: "'s \<Rightarrow> 'r list"
    and key :: "'r \<Rightarrow> 'k"
    and lookup :: "'k \<Rightarrow> 's \<Rightarrow> 'r option"
    and modify :: "'k \<Rightarrow> ('r \<Rightarrow> 'r) \<Rightarrow> 's \<Rightarrow> 's"
  assumes lookup_rows: "lookup k s = tbl_find key k (rows s)"
    and rows_modify: "rows (modify k f s) = tbl_update key k f (rows s)"
begin

lemma lookup_member: "lookup k s = Some r \<Longrightarrow> r \<in> set (rows s) \<and> key r = k"
  unfolding lookup_rows by (rule tbl_find_Some_D)

lemma lookup_absent: "lookup k s = None \<longleftrightarrow> k \<notin> key ` set (rows s)"
  by (simp add: lookup_rows tbl_find_None)

lemma lookup_iff:
  "distinct (map key (rows s)) \<Longrightarrow> lookup k s = Some r \<longleftrightarrow> r \<in> set (rows s) \<and> key r = k"
  by (simp add: lookup_rows tbl_find_distinct)

lemma lookup_modify:
  "(\<And>r. key (f r) = key r) \<Longrightarrow>
   lookup k (modify k' f s) = (if k = k' then map_option f (lookup k s) else lookup k s)"
  by (simp add: lookup_rows rows_modify tbl_find_update)

lemma keys_modify: "(\<And>r. key (f r) = key r) \<Longrightarrow> map key (rows (modify k f s)) = map key (rows s)"
  by (simp add: rows_modify tbl_update_keys)

lemma distinct_modify:
  "(\<And>r. key (f r) = key r) \<Longrightarrow> distinct (map key (rows s)) \<Longrightarrow>
   distinct (map key (rows (modify k f s)))"
  by (simp add: keys_modify)

lemma modify_all:
  assumes "\<And>r. r \<in> set (rows s) \<Longrightarrow> P r"
    and "\<And>r. r \<in> set (rows s) \<Longrightarrow> key r = k \<Longrightarrow> P r \<Longrightarrow> P (f r)"
  shows "\<And>r. r \<in> set (rows (modify k f s)) \<Longrightarrow> P r"
  using assms by (auto simp: rows_modify set_tbl_update)

end

end
