(* ===== verification/Json_Text.thy ===== *)
theory Json_Text
  imports Prelude
begin

text \<open>
  The text of stored documents: \<open>_json\<close> of jobs/repository.py (\<open>json.dumps\<close> with sorted keys and
  no blanks), \<open>json.loads\<close> on such texts, and the proof that a canonical document reads back.
  Characters are ASCII; longer UTF-8 sequences pass through unchanged.
\<close>

section \<open>Printing\<close>

definition quote :: char where
  "quote = CHR 0x22"

definition backslash :: char where
  "backslash = CHR 0x5C"

definition hex_digit :: "nat \<Rightarrow> char" where
  "hex_digit n = ''0123456789abcdef'' ! (n mod 16)"

definition control :: "char \<Rightarrow> bool" where
  "control c = ((of_char c :: nat) < 32)"

lemma control_bits [code]: "control (Char b0 b1 b2 b3 b4 b5 b6 b7) \<longleftrightarrow> \<not> b5 \<and> \<not> b6 \<and> \<not> b7"
  by (simp add: control_def of_char_def)

definition escape_char :: "char \<Rightarrow> string" where
  "escape_char c =
     (if c = quote then [backslash, quote]
      else if c = backslash then [backslash, backslash]
      else if c = CHR 0x0A then [backslash, CHR ''n'']
      else if c = CHR 0x0D then [backslash, CHR ''r'']
      else if c = CHR 0x09 then [backslash, CHR ''t'']
      else if c = CHR 0x0C then [backslash, CHR ''f'']
      else if c = CHR 0x08 then [backslash, CHR ''b'']
      else if control c
        then [backslash, CHR ''u'', CHR ''0'', CHR ''0'', hex_digit (of_char c div 16), hex_digit (of_char c)]
      else [c])"

definition json_string :: "string \<Rightarrow> string" where
  "json_string s = quote # concat (map escape_char s) @ [quote]"

fun join :: "string \<Rightarrow> string list \<Rightarrow> string" where
  "join sep [] = []"
| "join sep [x] = x"
| "join sep (x # y # ys) = x @ sep @ join sep (y # ys)"

fun json_dumps :: "json \<Rightarrow> string" where
  "json_dumps JNull = ''null''"
| "json_dumps (JBool b) = (if b then ''true'' else ''false'')"
| "json_dumps (JInt i) = show_int i"
| "json_dumps (JFloat s) = s"
| "json_dumps (JStr s) = json_string s"
| "json_dumps (JArr xs) = ''['' @ join '','' (map json_dumps xs) @ '']''"
| "json_dumps (JObj kvs) = ''{'' @ join '','' (map (\<lambda>(k, v). json_string k @ '':'' @ json_dumps v) kvs) @ ''}''"

section \<open>Reading\<close>

text \<open>A decoded dict, keys in the canonical order; a repeated key keeps its last value.\<close>

fun dict_insert :: "string \<Rightarrow> 'a \<Rightarrow> (string \<times> 'a) list \<Rightarrow> (string \<times> 'a) list" where
  "dict_insert k v [] = [(k, v)]"
| "dict_insert k v ((k', v') # kvs) =
     (if k < k' then (k, v) # (k', v') # kvs
      else if k = k' then (k, v) # kvs
      else (k', v') # dict_insert k v kvs)"

definition dict_of :: "(string \<times> 'a) list \<Rightarrow> (string \<times> 'a) list" where
  "dict_of kvs = fold (\<lambda>(k, v). dict_insert k v) kvs []"

definition hex_value :: "char \<Rightarrow> nat option" where
  "hex_value c =
     (if digit c then Some (of_char c - 48)
      else if c \<in> set ''abcdef'' then Some (of_char c - 87)
      else if c \<in> set ''ABCDEF'' then Some (of_char c - 55) else None)"

fun hex_number :: "nat \<Rightarrow> string \<Rightarrow> nat option" where
  "hex_number acc [] = Some acc"
| "hex_number acc (c # cs) =
     (case hex_value c of None \<Rightarrow> None | Some d \<Rightarrow> hex_number (16 * acc + d) cs)"

definition unescape :: "char \<Rightarrow> char option" where
  "unescape c = map_of [(quote, quote), (backslash, backslash), (CHR ''/'', CHR ''/''),
     (CHR ''n'', CHR 0x0A), (CHR ''r'', CHR 0x0D), (CHR ''t'', CHR 0x09), (CHR ''f'', CHR 0x0C),
     (CHR ''b'', CHR 0x08)] c"

text \<open>
  The body of a string up to its closing quote, and what follows it. Control characters are
  refused, as in the strict mode \<open>json.loads\<close> uses. Code points above ASCII are written raw by
  \<open>_json\<close>, never as an escape, and are not read from one here.
\<close>

fun string_body :: "string \<Rightarrow> (string \<times> string) option" where
  "string_body [] = None"
| "string_body (c # cs) =
     (if c = quote then Some ([], cs)
      else if c = backslash then
        (case cs of
           [] \<Rightarrow> None
         | d # ds \<Rightarrow>
             if d = CHR ''u'' then
               (if length ds < 4 then None
                else case hex_number 0 (take 4 ds) of
                  None \<Rightarrow> None
                | Some n \<Rightarrow>
                    if n < 128 then map_option (\<lambda>(s, rest). (char_of n # s, rest)) (string_body (drop 4 ds))
                    else None)
             else (case unescape d of
                 None \<Rightarrow> None
               | Some e \<Rightarrow> map_option (\<lambda>(s, rest). (e # s, rest)) (string_body ds)))
      else if control c then None
      else map_option (\<lambda>(s, rest). (c # s, rest)) (string_body cs))"

text \<open>\<open>(-?(?:0|[1-9][0-9]*))([.][0-9]+)?([eE][-+]?[0-9]+)?\<close>, matched greedily.\<close>

definition integer_part :: "string \<Rightarrow> string" where
  "integer_part s = (if take 1 s = ''0'' then ''0'' else takeWhile digit s)"

definition fraction_part :: "string \<Rightarrow> string" where
  "fraction_part s =
     (case s of
        c # cs \<Rightarrow> if c = CHR ''.'' \<and> takeWhile digit cs \<noteq> [] then c # takeWhile digit cs else []
      | [] \<Rightarrow> [])"

definition exponent_sign :: "string \<Rightarrow> string" where
  "exponent_sign s = (case s of c # _ \<Rightarrow> if c \<in> set ''+-'' then [c] else [] | [] \<Rightarrow> [])"

definition exponent_part :: "string \<Rightarrow> string" where
  "exponent_part s =
     (case s of
        c # cs \<Rightarrow>
          let sg = exponent_sign cs; ds = takeWhile digit (drop (length sg) cs)
          in if c \<in> set ''eE'' \<and> ds \<noteq> [] then c # sg @ ds else []
      | [] \<Rightarrow> [])"

definition json_number :: "string \<Rightarrow> (json \<times> string) option" where
  "json_number s =
     (let sg = (if take 1 s = ''-'' then ''-'' else []);
          ip = integer_part (drop (length sg) s);
          s1 = drop (length (sg @ ip)) s;
          fp = fraction_part s1;
          ep = exponent_part (drop (length fp) s1);
          tok = sg @ ip @ fp @ ep
      in if ip = [] then None
         else if fp @ ep = []
           then Some (JInt (if sg = [] then digits_value ip else - digits_value ip), s1)
         else Some (JFloat tok, drop (length tok) s))"

definition json_space :: "char \<Rightarrow> bool" where
  "json_space c = (c \<in> set [CHR '' '', CHR 0x09, CHR 0x0A, CHR 0x0D])"

definition skip :: "string \<Rightarrow> string" where
  "skip s = dropWhile json_space s"

text \<open>What follows the character \<open>c\<close>, when it comes next.\<close>

definition after :: "char \<Rightarrow> string \<Rightarrow> string option" where
  "after c s = (case skip s of [] \<Rightarrow> None | d # rest \<Rightarrow> if d = c then Some rest else None)"

definition literals :: "(string \<times> json) list" where
  "literals = [(''null'', JNull), (''true'', JBool True), (''false'', JBool False),
     (''NaN'', JFloat ''NaN''), (''Infinity'', JFloat ''Infinity''), (''-Infinity'', JFloat ''-Infinity'')]"

definition json_literal :: "string \<Rightarrow> (json \<times> string) option" where
  "json_literal s =
     (case find (\<lambda>(w, _). take (length w) s = w) literals of
        Some (w, j) \<Rightarrow> Some (j, drop (length w) s)
      | None \<Rightarrow> json_number s)"

text \<open>
  The scanner. The fuel bounds the nesting of calls; \<open>json_loads\<close> gives twice the length of the
  text, and every pair of calls consumes a character.
\<close>

fun json_value :: "nat \<Rightarrow> string \<Rightarrow> (json \<times> string) option"
  and json_items :: "nat \<Rightarrow> string \<Rightarrow> (json list \<times> string) option"
  and json_pairs :: "nat \<Rightarrow> string \<Rightarrow> ((string \<times> json) list \<times> string) option" where
  "json_value 0 s = None"
| "json_value (Suc n) s =
     (case skip s of
        [] \<Rightarrow> None
      | c # cs \<Rightarrow>
          if c = quote then map_option (\<lambda>(t, rest). (JStr t, rest)) (string_body cs)
          else if c = CHR ''['' then
            (case after (CHR '']'') cs of
               Some rest \<Rightarrow> Some (JArr [], rest)
             | None \<Rightarrow> map_option (\<lambda>(xs, rest). (JArr xs, rest)) (json_items n cs))
          else if c = CHR ''{'' then
            (case after (CHR ''}'') cs of
               Some rest \<Rightarrow> Some (JObj [], rest)
             | None \<Rightarrow> map_option (\<lambda>(kvs, rest). (JObj (dict_of kvs), rest)) (json_pairs n cs))
          else json_literal (c # cs))"
| "json_items 0 s = None"
| "json_items (Suc n) s =
     (case json_value n s of
        None \<Rightarrow> None
      | Some (x, rest) \<Rightarrow>
          (case after (CHR '','') rest of
             Some rest' \<Rightarrow> map_option (\<lambda>(xs, r). (x # xs, r)) (json_items n rest')
           | None \<Rightarrow> map_option (\<lambda>r. ([x], r)) (after (CHR '']'') rest)))"
| "json_pairs 0 s = None"
| "json_pairs (Suc n) s =
     (case after quote s of
        None \<Rightarrow> None
      | Some cs \<Rightarrow>
          (case string_body cs of
             None \<Rightarrow> None
           | Some (k, rest) \<Rightarrow>
               (case after (CHR '':'') rest of
                  None \<Rightarrow> None
                | Some rest1 \<Rightarrow>
                    (case json_value n rest1 of
                       None \<Rightarrow> None
                     | Some (v, rest2) \<Rightarrow>
                         (case after (CHR '','') rest2 of
                            Some rest3 \<Rightarrow> map_option (\<lambda>(kvs, r). ((k, v) # kvs, r)) (json_pairs n rest3)
                          | None \<Rightarrow> map_option (\<lambda>r. ([(k, v)], r)) (after (CHR ''}'') rest2))))))"

definition json_loads :: "string \<Rightarrow> error + json" where
  "json_loads s =
     (case json_value (2 * length s) s of
        Some (j, rest) \<Rightarrow> if skip rest = [] then Inr j else Inl (ValueError ''Extra data'')
      | None \<Rightarrow> Inl (ValueError ''JSONDecodeError''))"

section \<open>What is printed reads back\<close>

lemma hex_control:
  assumes "control c"
  shows "hex_number 0 [CHR ''0'', CHR ''0'', hex_digit (of_char c div 16), hex_digit (of_char c)] = Some (of_char c)"
proof -
  obtain n :: nat where n: "c = char_of n" "n < 32" by (rule that[of "of_char c"]) (use assms in \<open>simp_all add: control_def\<close>)
  then have "n \<in> {0,1,2,3,4,5,6,7,8,9,10,11,12,13,14,15,16,17,18,19,20,21,22,23,24,25,26,27,28,29,30,31}"
    by (simp only: insert_iff empty_iff) arith
  with n(1) show ?thesis
    by (elim insertE emptyE) (simp_all add: hex_digit_def hex_value_def digit_def)
qed

text \<open>The steps of \<open>string_body\<close>, one for each form in which a character is written.\<close>

lemma string_body_end: "string_body (quote # cs) = Some ([], cs)"
  by simp

lemma string_body_plain:
  assumes "c \<noteq> quote" "c \<noteq> backslash" "\<not> control c"
  shows "string_body (c # cs) = map_option (\<lambda>(s, r). (c # s, r)) (string_body cs)"
  using assms by (subst string_body.simps) simp

lemma string_body_short:
  assumes "d \<noteq> CHR ''u''" "unescape d = Some e"
  shows "string_body (backslash # d # cs) = map_option (\<lambda>(s, r). (e # s, r)) (string_body cs)"
  using assms by (subst string_body.simps) (simp add: quote_def backslash_def)

lemma string_body_hex:
  assumes "hex_number 0 [a, b, x, y] = Some n" "n < 128"
  shows "string_body (backslash # CHR ''u'' # a # b # x # y # cs) =
    map_option (\<lambda>(s, r). (char_of n # s, r)) (string_body cs)"
  using assms by (subst string_body.simps) (simp add: quote_def backslash_def del: hex_number.simps)

declare string_body.simps(2) [simp del]

lemma string_body_escape:
  "string_body (escape_char c @ t) = map_option (\<lambda>(s, r). (c # s, r)) (string_body t)"
proof (cases "c \<in> set [quote, backslash, CHR 0x0A, CHR 0x0D, CHR 0x09, CHR 0x0C, CHR 0x08]")
  case True
  then show ?thesis
    by (auto simp: escape_char_def quote_def backslash_def unescape_def
        string_body_short[unfolded backslash_def quote_def])
next
  case c: False
  show ?thesis
  proof (cases "control c")
    case True
    with c have "escape_char c =
        [backslash, CHR ''u'', CHR ''0'', CHR ''0'', hex_digit (of_char c div 16), hex_digit (of_char c)]"
      by (simp add: escape_char_def)
    with True show ?thesis
      by (simp add: string_body_hex[OF hex_control] control_def del: hex_number.simps)
  next
    case False
    with c have "escape_char c = [c]" by (simp add: escape_char_def)
    with c False show ?thesis by (simp add: string_body_plain)
  qed
qed

lemma string_body_string: "string_body (concat (map escape_char s) @ quote # rest) = Some (s, rest)"
  by (induction s) (simp_all add: string_body_escape string_body_end)

text \<open>A printed value is followed by the end of the text or by a separator.\<close>

definition ends :: "string \<Rightarrow> bool" where
  "ends rest = (rest = [] \<or> hd rest \<in> set '',]}'')"

lemma ends_simps [simp]: "ends []" "ends (c # cs) \<longleftrightarrow> c \<in> set '',]}''"
  by (simp_all add: ends_def)

lemma takeWhile_ends: "ends rest \<Longrightarrow> takeWhile digit (s @ rest) = takeWhile digit s"
  by (induction s) (cases rest; auto simp: digit_def)+

lemma integer_part_ends: "ends rest \<Longrightarrow> integer_part (s @ rest) = integer_part s"
  by (cases s; cases rest) (auto simp: integer_part_def takeWhile_ends digit_def)

lemma fraction_part_ends: "ends rest \<Longrightarrow> fraction_part (s @ rest) = fraction_part s"
  by (cases s; cases rest) (auto simp: fraction_part_def takeWhile_ends)

lemma exponent_sign_ends: "ends rest \<Longrightarrow> exponent_sign (s @ rest) = exponent_sign s"
  by (cases s; cases rest) (auto simp: exponent_sign_def)

lemma exponent_sign_length: "length (exponent_sign s) \<le> length s"
  by (cases s) (auto simp: exponent_sign_def)

lemma exponent_part_ends: "ends rest \<Longrightarrow> exponent_part (s @ rest) = exponent_part s"
  by (cases s; cases rest)
     (auto simp: exponent_part_def Let_def exponent_sign_ends exponent_sign_length takeWhile_ends)

lemma integer_part_length: "length (integer_part s) \<le> length s"
  by (cases s) (auto simp: integer_part_def length_takeWhile_le)

lemma fraction_part_length: "length (fraction_part s) \<le> length s"
  by (cases s) (auto simp: fraction_part_def length_takeWhile_le)

lemma exponent_part_length: "length (exponent_part s) \<le> length s"
proof (cases s)
  case (Cons c cs)
  have "length (takeWhile digit (drop (length (exponent_sign cs)) cs)) \<le> length cs - length (exponent_sign cs)"
    using length_takeWhile_le[of digit "drop (length (exponent_sign cs)) cs"] by simp
  with exponent_sign_length[of cs]
  have "length (exponent_sign cs) + length (takeWhile digit (drop (length (exponent_sign cs)) cs)) \<le> length cs"
    by linarith
  with Cons show ?thesis by (simp add: exponent_part_def Let_def)
qed (simp add: exponent_part_def)

lemma json_number_parts:
  assumes "sg = (if take 1 s = ''-'' then ''-'' else [])" "ip = integer_part (drop (length sg) s)"
    "s1 = drop (length (sg @ ip)) s" "fp = fraction_part s1" "ep = exponent_part (drop (length fp) s1)"
  shows "json_number s =
    (if ip = [] then None
     else if fp @ ep = [] then Some (JInt (if sg = [] then digits_value ip else - digits_value ip), s1)
     else Some (JFloat (sg @ ip @ fp @ ep), drop (length (sg @ ip @ fp @ ep)) s))"
  unfolding json_number_def Let_def assms ..

lemma json_number_ends:
  assumes "ends rest" "s \<noteq> []"
  shows "json_number (s @ rest) = map_option (\<lambda>(j, r). (j, r @ rest)) (json_number s)"
proof -
  define sg where "sg = (if take 1 s = ''-'' then ''-'' else [])"
  define ip where "ip = integer_part (drop (length sg) s)"
  define s1 where "s1 = drop (length (sg @ ip)) s"
  define fp where "fp = fraction_part s1"
  define ep where "ep = exponent_part (drop (length fp) s1)"
  have sg: "take 1 (s @ rest) = take 1 s" using assms(2) by (cases s) auto
  have lsg: "length sg \<le> length s" using assms(2) by (cases s) (auto simp: sg_def)
  have lip: "length (sg @ ip) \<le> length s"
    using integer_part_length[of "drop (length sg) s"] lsg by (simp add: ip_def)
  have lfp: "length fp \<le> length s1" unfolding fp_def by (rule fraction_part_length)
  have lep: "length ep \<le> length s1 - length fp"
    using exponent_part_length[of "drop (length fp) s1"] by (simp add: ep_def)
  have all: "length (sg @ ip @ fp @ ep) \<le> length s" using lip lfp lep by (simp add: s1_def)
  have "integer_part (drop (length sg) (s @ rest)) = ip"
    using lsg integer_part_ends[OF assms(1)] by (simp add: ip_def)
  moreover have "drop (length (sg @ ip)) (s @ rest) = s1 @ rest" using lip by (simp add: s1_def)
  moreover have "fraction_part (s1 @ rest) = fp" by (simp add: fp_def fraction_part_ends[OF assms(1)])
  moreover have "exponent_part (drop (length fp) (s1 @ rest)) = ep"
    using lfp exponent_part_ends[OF assms(1)] by (simp add: ep_def)
  moreover have "sg = (if take 1 (s @ rest) = ''-'' then ''-'' else [])" by (simp only: sg sg_def)
  ultimately have "json_number (s @ rest) =
    (if ip = [] then None
     else if fp @ ep = []
       then Some (JInt (if sg = [] then digits_value ip else - digits_value ip), s1 @ rest)
     else Some (JFloat (sg @ ip @ fp @ ep), drop (length (sg @ ip @ fp @ ep)) (s @ rest)))"
    by (intro json_number_parts) simp_all
  moreover have "drop (length (sg @ ip @ fp @ ep)) (s @ rest) = drop (length (sg @ ip @ fp @ ep)) s @ rest"
    using all by simp
  ultimately show ?thesis
    unfolding json_number_parts[OF sg_def ip_def s1_def fp_def ep_def]
    by (cases "ip = []"; cases "fp @ ep = []") (simp_all only: if_True if_False option.map prod.case simp_thms)
qed

lemma word_ends:
  assumes "ends rest" "set w \<inter> set '',]}'' = {}"
  shows "take (length w) (s @ rest) = w \<longleftrightarrow> take (length w) s = w"
proof (cases "length w \<le> length s")
  case False
  then have "take (length w) s \<noteq> w" by (metis length_take min.absorb_iff2 nat_le_linear)
  moreover have "take (length w) (s @ rest) \<noteq> w"
  proof
    assume eq: "take (length w) (s @ rest) = w"
    show False
    proof (cases rest)
      case Nil
      with eq \<open>take (length w) s \<noteq> w\<close> show False by simp
    next
      case (Cons c cs)
      then have "c \<in> set (take (length w) (s @ rest))" using False by (simp add: take_Cons')
      with eq assms Cons show False by auto
    qed
  qed
  ultimately show ?thesis by simp
qed simp

lemma json_literal_ends:
  assumes "ends rest" "s \<noteq> []"
  shows "json_literal (s @ rest) = map_option (\<lambda>(j, r). (j, r @ rest)) (json_literal s)"
proof -
  have w: "take (length w) (s @ rest) = w \<longleftrightarrow> take (length w) s = w" if "(w, j) \<in> set literals" for w j
    using that by (intro word_ends[OF assms(1)]) (auto simp: literals_def)
  have f: "find (\<lambda>(w, _). take (length w) (s @ rest) = w) literals =
      find (\<lambda>(w, _). take (length w) s = w) literals"
    by (rule find_cong[OF refl]) (use w in fastforce)
  have len: "length w \<le> length s" if "find (\<lambda>(w, _). take (length w) s = w) literals = Some (w, j)" for w j
    using that by (auto simp: find_Some_iff) (metis length_take min.absorb_iff2 nat_le_linear)
  show ?thesis
    unfolding json_literal_def f
    using len by (auto simp: json_number_ends[OF assms] split: option.splits)
qed

text \<open>Numbers: the text of an integer is a sign and digits without a leading zero.\<close>

lemma digit_of: "0 \<le> d \<Longrightarrow> d < 10 \<Longrightarrow> digit (char_of (48 + d :: int))"
proof -
  assume "0 \<le> d" "d < 10"
  then have "d \<in> {0,1,2,3,4,5,6,7,8,9}" by (simp only: insert_iff empty_iff) arith
  then show ?thesis by (elim insertE emptyE) (hypsubst, code_simp)+
qed

lemma show_pos_digits: "0 \<le> n \<Longrightarrow> list_all digit (show_pos n) \<and> show_pos n \<noteq> []"
proof (induction n rule: show_pos.induct)
  case (1 n)
  then show ?case
    by (subst (1 2) show_pos.simps) (auto simp: digit_of show_pos.simps[of n])
qed

lemma show_pos_zero: "0 < n \<Longrightarrow> take 1 (show_pos n) \<noteq> ''0''"
proof (induction n rule: show_pos.induct)
  case (1 n)
  show ?case
  proof (cases "n < 10")
    case True
    with 1(2) have "(of_char (char_of (48 + n)) :: int) \<noteq> of_char (CHR ''0'')" by (subst digit_char) simp_all
    then have "char_of (48 + n) \<noteq> CHR ''0''" by metis
    with True show ?thesis by (simp add: show_pos.simps[of n])
  next
    case False
    moreover have "show_pos (n div 10) \<noteq> []" using show_pos_digits[of "n div 10"] False by simp
    ultimately show ?thesis using 1 by (cases "show_pos (n div 10)") (simp_all add: show_pos.simps[of n])
  qed
qed

lemma integer_part_show_pos: "0 \<le> n \<Longrightarrow> integer_part (show_pos n) = show_pos n"
proof (cases "n = 0")
  case True
  have "char_of (48 :: int) = CHR ''0''" by code_simp
  with True show ?thesis by (simp add: integer_part_def show_pos.simps)
next
  case False
  assume "0 \<le> n"
  with False show ?thesis
    using show_pos_digits[of n] show_pos_zero[of n]
    by (simp add: integer_part_def list_all_iff takeWhile_eq_all_conv)
qed

lemma json_number_int: "json_number (show_int i) = Some (JInt i, [])"
proof (cases "i < 0")
  case True
  then show ?thesis
    using show_pos_digits[of "- i"] integer_part_show_pos[of "- i"] digits_value_show_pos[of "- i"]
    by (simp add: json_number_def show_int_def fraction_part_def exponent_part_def)
next
  case False
  then have "take 1 (show_pos i) \<noteq> ''-''"
    using show_pos_no_sign[of i] by (cases "show_pos i") auto
  with False show ?thesis
    using show_pos_digits[of i] integer_part_show_pos[of i] digits_value_show_pos[of i]
    by (simp add: json_number_def show_int_def fraction_part_def exponent_part_def)
qed

definition number_start :: "char \<Rightarrow> bool" where
  "number_start c = (digit c \<or> c = CHR ''-'')"

lemma show_int_start: "number_start (hd (show_int i)) \<and> show_int i \<noteq> []"
proof (cases "i < 0")
  case False
  then show ?thesis using show_pos_digits[of i]
    by (cases "show_pos i") (auto simp: show_int_def number_start_def)
qed (simp add: show_int_def number_start_def)

lemma json_literal_int: "json_literal (show_int i) = Some (JInt i, [])"
proof (cases "take (length ''-Infinity'') (show_int i) = ''-Infinity''")
  case True
  then have "CHR ''I'' \<in> set (show_int i)"
    by (metis in_set_takeD list.set_intros(1) list.set_intros(2))
  moreover have "digit c \<or> c = CHR ''-''" if "c \<in> set (show_int i)" for c
    using that show_pos_digits[of i] show_pos_digits[of "- i"]
    by (auto simp: show_int_def list_all_iff split: if_splits)
  ultimately show ?thesis by (fastforce simp: digit_def)
next
  case False
  obtain c cs where c: "show_int i = c # cs" "number_start c"
    using show_int_start[of i] by (cases "show_int i") auto
  with False have "find (\<lambda>(w, _). take (length w) (show_int i) = w) literals = None"
    by (auto simp: literals_def number_start_def digit_def)
  then show ?thesis by (simp add: json_literal_def json_number_int)
qed

text \<open>The texts \<open>repr\<close> gives a float: one token that reads as a float and not as an integer.\<close>

definition float_text :: "string \<Rightarrow> bool" where
  "float_text s = (s \<noteq> [] \<and> hd s \<in> set ''-0123456789NI'' \<and> json_literal s = Some (JFloat s, []))"

text \<open>Canonical documents: keys in strict order, floats as printed.\<close>

fun json_ok :: "json \<Rightarrow> bool" where
  "json_ok (JFloat s) = float_text s"
| "json_ok (JArr xs) = list_all json_ok xs"
| "json_ok (JObj kvs) = (sorted_wrt (<) (map fst kvs) \<and> list_all (\<lambda>(k, v). json_ok v) kvs)"
| "json_ok _ = True"

lemma dict_insert_greatest: "\<forall>k' \<in> fst ` set kvs. k' < k \<Longrightarrow> dict_insert k v kvs = kvs @ [(k, v)]"
  by (induction kvs) (auto dest: less_asym)

lemma fold_dict_sorted:
  "sorted_wrt (<) (map fst (acc @ kvs)) \<Longrightarrow> fold (\<lambda>(k, v). dict_insert k v) kvs acc = acc @ kvs"
proof (induction kvs arbitrary: acc)
  case (Cons kv kvs)
  obtain k v where kv: "kv = (k, v)" by (cases kv)
  with Cons.prems have "dict_insert k v acc = acc @ [(k, v)]"
    by (intro dict_insert_greatest) (auto simp: sorted_wrt_append)
  with Cons kv show ?case by simp
qed simp

lemma dict_of_sorted: "sorted_wrt (<) (map fst kvs) \<Longrightarrow> dict_of kvs = kvs"
  using fold_dict_sorted[of "[]" kvs] by (simp add: dict_of_def)

lemma skip_Cons: "\<not> json_space c \<Longrightarrow> skip (c # cs) = c # cs"
  by (simp add: skip_def)

lemma after_Cons: "\<not> json_space d \<Longrightarrow> after c (d # cs) = (if d = c then Some cs else None)"
  by (simp add: after_def skip_Cons)

lemma seps_not_space [simp]:
  "\<not> json_space quote" "\<not> json_space (CHR '','')" "\<not> json_space (CHR '':'')" "\<not> json_space (CHR '']'')"
  "\<not> json_space (CHR ''}'')" "\<not> json_space (CHR ''['')" "\<not> json_space (CHR ''{'')"
  by (simp_all add: json_space_def quote_def)

definition value_start :: "char \<Rightarrow> bool" where
  "value_start c = (c \<in> set (quote # ''[{ntf-0123456789NI''))"

lemma value_startD: "value_start c \<Longrightarrow> \<not> json_space c \<and> c \<noteq> CHR '']'' \<and> c \<noteq> CHR ''}'' \<and> c \<noteq> CHR '',''"
  by (auto simp: value_start_def json_space_def quote_def)

lemma number_start_value: "number_start c \<Longrightarrow> value_start c"
  by (auto simp: number_start_def digit_def value_start_def)

lemma json_dumps_hd: "json_ok j \<Longrightarrow> json_dumps j \<noteq> [] \<and> value_start (hd (json_dumps j))"
proof (cases j)
  case (JInt i)
  then show ?thesis using show_int_start[of i] number_start_value by simp
qed (auto simp: value_start_def float_text_def json_string_def)

lemma json_dumps_start:
  assumes "json_ok j"
  obtains c cs where "json_dumps j = c # cs" "value_start c"
  using json_dumps_hd[OF assms] by (cases "json_dumps j") auto

text \<open>A scalar: what the reader does when no string, array or object starts.\<close>

lemma json_value_scalar:
  assumes "json_literal s = Some (j, [])" "s = c # cs" "value_start c" "c \<noteq> quote" "c \<noteq> CHR ''[''"
    "c \<noteq> CHR ''{''" "ends rest"
  shows "json_value (Suc n) (s @ rest) = Some (j, rest)"
proof -
  have "skip (c # cs @ rest) = c # cs @ rest" using value_startD[OF assms(3)] by (simp add: skip_Cons)
  moreover have "json_literal (c # cs @ rest) = Some (j, rest)"
    using json_literal_ends[of rest s] assms(1,2,7) by simp
  ultimately show ?thesis using assms(4-6) unfolding assms(2) json_value.simps append_Cons by simp
qed

definition json_reads :: "json \<Rightarrow> bool" where
  "json_reads j = (\<forall>n rest. 2 * length (json_dumps j) \<le> n \<longrightarrow> ends rest \<longrightarrow>
     json_value n (json_dumps j @ rest) = Some (j, rest))"

lemma json_readsD:
  "json_reads j \<Longrightarrow> 2 * length (json_dumps j) \<le> n \<Longrightarrow> ends rest \<Longrightarrow>
   json_value n (json_dumps j @ rest) = Some (j, rest)"
  by (simp add: json_reads_def)

lemma json_items_read:
  assumes "xs \<noteq> []" "\<And>x. x \<in> set xs \<Longrightarrow> json_reads x" "2 * length (join '','' (map json_dumps xs)) < n"
  shows "json_items n (join '','' (map json_dumps xs) @ CHR '']'' # rest) = Some (xs, rest)"
  using assms
proof (induction xs arbitrary: n)
  case (Cons x xs)
  then obtain m where n: "n = Suc m" by (cases n) auto
  show ?case
  proof (cases xs)
    case Nil
    with Cons.prems n show ?thesis
      by (simp add: json_readsD after_Cons)
  next
    case (Cons y ys)
    with Cons.prems Cons.IH[of m] n show ?thesis
      by (simp add: json_readsD after_Cons)
  qed
qed simp

definition pair_text :: "string \<times> json \<Rightarrow> string" where
  "pair_text kv = json_string (fst kv) @ '':'' @ json_dumps (snd kv)"

lemma json_dumps_object: "json_dumps (JObj kvs) = ''{'' @ join '','' (map pair_text kvs) @ ''}''"
proof -
  have "(\<lambda>(k, v). json_string k @ '':'' @ json_dumps v) = pair_text" by (auto simp: pair_text_def)
  then show ?thesis by simp
qed

lemma json_pairs_read:
  assumes "kvs \<noteq> []" "\<And>kv. kv \<in> set kvs \<Longrightarrow> json_reads (snd kv)" "2 * length (join '','' (map pair_text kvs)) < n"
  shows "json_pairs n (join '','' (map pair_text kvs) @ CHR ''}'' # rest) = Some (kvs, rest)"
  using assms
proof (induction kvs arbitrary: n)
  case (Cons kv kvs)
  from Cons.prems obtain m where n: "n = Suc m" by (cases n) auto
  have v: "json_value m (json_dumps (snd kv) @ t) = Some (snd kv, t)"
    if "ends t" "2 * length (pair_text kv) \<le> m" for t
    using that Cons.prems(2)[of kv] by (intro json_readsD) (auto simp: pair_text_def)
  have step: "json_pairs (Suc m) (pair_text kv @ t) =
      (case after (CHR '','') t of
         Some t' \<Rightarrow> map_option (\<lambda>(kvs, r). (kv # kvs, r)) (json_pairs m t')
       | None \<Rightarrow> map_option (\<lambda>r. ([kv], r)) (after (CHR ''}'') t))"
    if "ends t" "2 * length (pair_text kv) \<le> m" for t
    using v[OF that] by (simp add: pair_text_def json_string_def after_Cons string_body_string split: option.split)
  show ?case
  proof (cases kvs)
    case Nil
    with Cons.prems(3) n show ?thesis by (simp add: step after_Cons del: json_pairs.simps)
  next
    case (Cons kv' kvs')
    then have "json_pairs m (join '','' (map pair_text kvs) @ CHR ''}'' # rest) = Some (kvs, rest)"
      using Cons.prems n by (intro Cons.IH) auto
    with Cons Cons.prems(3) n show ?thesis by (simp add: step after_Cons del: json_pairs.simps)
  qed
qed simp

lemma join_start:
  assumes "xs \<noteq> []" "hd xs = c # cs"
  obtains ds where "join sep xs = c # ds"
proof -
  obtain x ys where xs: "xs = x # ys" using assms(1) by (cases xs) auto
  show ?thesis
    by (rule that[of "case ys of [] \<Rightarrow> cs | _ \<Rightarrow> cs @ sep @ join sep ys"])
       (use xs assms(2) in \<open>cases ys; simp\<close>)
qed

lemma json_reads_array:
  assumes "\<And>x. x \<in> set xs \<Longrightarrow> json_reads x" "list_all json_ok xs"
  shows "json_reads (JArr xs)"
  unfolding json_reads_def
proof (intro allI impI)
  fix n rest assume n: "2 * length (json_dumps (JArr xs)) \<le> n" and "ends rest"
  then obtain m where m: "n = Suc m" by (cases n) auto
  show "json_value n (json_dumps (JArr xs) @ rest) = Some (JArr xs, rest)"
  proof (cases "xs = []")
    case True
    then show ?thesis by (simp add: m skip_Cons after_Cons quote_def)
  next
    case False
    then have "json_ok (hd xs)" using assms(2) by (cases xs) auto
    then obtain c cs where c: "json_dumps (hd xs) = c # cs" "value_start c" by (rule json_dumps_start)
    obtain ds where ds: "join '','' (map json_dumps xs) = c # ds"
      using False c(1) by (elim join_start[rotated 2]) (simp_all add: hd_map)
    have "after (CHR '']'') (join '','' (map json_dumps xs) @ CHR '']'' # rest) = None"
      using value_startD[OF c(2)] by (simp add: ds after_Cons)
    moreover have "json_items m (join '','' (map json_dumps xs) @ CHR '']'' # rest) = Some (xs, rest)"
      using n m by (intro json_items_read[OF False assms(1)]) simp_all
    ultimately show ?thesis by (simp add: m skip_Cons quote_def)
  qed
qed

lemma json_reads_object:
  assumes "\<And>kv. kv \<in> set kvs \<Longrightarrow> json_reads (snd kv)" "sorted_wrt (<) (map fst kvs)"
  shows "json_reads (JObj kvs)"
  unfolding json_reads_def json_dumps_object
proof (intro allI impI)
  let ?t = "join '','' (map pair_text kvs)"
  fix n rest assume n: "2 * length (''{'' @ ?t @ ''}'') \<le> n" and "ends rest"
  then obtain m where m: "n = Suc m" by (cases n) auto
  show "json_value n ((''{'' @ ?t @ ''}'') @ rest) = Some (JObj kvs, rest)"
  proof (cases "kvs = []")
    case True
    then show ?thesis by (simp add: m skip_Cons after_Cons quote_def)
  next
    case False
    obtain cs where "hd (map pair_text kvs) = quote # cs"
      using False by (cases kvs) (auto simp: json_string_def pair_text_def)
    then obtain ds where ds: "?t = quote # ds" using False by (elim join_start[rotated]) simp_all
    have "after (CHR ''}'') (?t @ CHR ''}'' # rest) = None"
      unfolding ds append_Cons by (subst after_Cons) (simp, simp add: quote_def)
    moreover have "json_pairs m (?t @ CHR ''}'' # rest) = Some (kvs, rest)"
      using n m by (intro json_pairs_read[OF False assms(1)]) simp_all
    ultimately show ?thesis using dict_of_sorted[OF assms(2)] by (simp add: m skip_Cons quote_def)
  qed
qed

lemma json_reads_scalar:
  assumes "json_literal (json_dumps j) = Some (j, [])" "json_dumps j = c # cs"
    "c \<in> set ''ntf-0123456789NI''"
  shows "json_reads j"
  unfolding json_reads_def
proof (intro allI impI)
  fix n rest assume n: "2 * length (json_dumps j) \<le> n" and r: "ends rest"
  from n assms(2) obtain m where m: "n = Suc m" by (cases n) auto
  have "value_start c" "c \<noteq> quote" "c \<noteq> CHR ''[''" "c \<noteq> CHR ''{''"
    using assms(3) by (auto simp: value_start_def quote_def)
  with r show "json_value n (json_dumps j @ rest) = Some (j, rest)"
    unfolding m by (intro json_value_scalar[OF assms(1,2)])
qed

lemma json_reads_ok: "json_ok j \<Longrightarrow> json_reads j"
proof (induction j)
  case JNull
  show ?case by (rule json_reads_scalar[of _ "CHR ''n''" "''ull''"]) (simp_all add: json_literal_def literals_def)
next
  case (JBool b)
  show ?case
    by (rule json_reads_scalar[of _ "if b then CHR ''t'' else CHR ''f''" "if b then ''rue'' else ''alse''"])
       (simp_all add: json_literal_def literals_def)
next
  case (JInt i)
  obtain c cs where c: "show_int i = c # cs" "number_start c"
    using show_int_start[of i] by (cases "show_int i") auto
  moreover have "c \<in> set ''ntf-0123456789NI''" using c(2) by (auto simp: number_start_def digit_def)
  ultimately show ?case
    using json_literal_int[of i] by (intro json_reads_scalar[of _ c cs]) (simp_all only: json_dumps.simps)
next
  case (JFloat s)
  then show ?case
    by (cases s) (auto simp: float_text_def intro!: json_reads_scalar)
next
  case (JStr s)
  show ?case unfolding json_reads_def
  proof (intro allI impI)
    fix n rest assume "2 * length (json_dumps (JStr s)) \<le> n"
    then obtain m where "n = Suc m" by (cases n) (auto simp: json_string_def)
    then show "json_value n (json_dumps (JStr s) @ rest) = Some (JStr s, rest)"
      by (simp add: json_string_def skip_Cons string_body_string)
  qed
next
  case (JArr xs)
  then show ?case by (intro json_reads_array) (auto simp: list_all_iff)
next
  case (JObj kvs)
  then show ?case by (intro json_reads_object) (fastforce simp: list_all_iff)+
qed

lemma json_loads_dumps: "json_ok j \<Longrightarrow> json_loads (json_dumps j) = Inr j"
  using json_readsD[OF json_reads_ok, of j "2 * length (json_dumps j)" "[]"]
  by (simp add: json_loads_def skip_def)

end
