(* ===== verification/Stored_Json.thy ===== *)
theory Stored_Json
  imports Json_Text
begin

text \<open>
  The masking of camera sessions: \<open>redact_session_paths\<close> of tsunade/evidence_privacy.py, which
  \<open>_stored_json\<close> of jobs/repository.py applies to the text of a stored result before it decodes it.
\<close>

section \<open>Masking camera sessions\<close>

definition session_mark :: string where
  "session_mark = ''/stok=''"

definition session_char :: "char \<Rightarrow> bool" where
  "session_char c = (c \<notin> set (quote # CHR 0x27 # ''/<>'') \<and> \<not> py_space c)"

definition REDACTED :: string where
  "REDACTED = ''[redacted]''"

text \<open>Whether the pattern matches here up to its token, and the token.\<close>

definition marked :: "string \<Rightarrow> bool" where
  "marked s = (map lower_char (take 6 s) = session_mark)"

definition session_token :: "string \<Rightarrow> string" where
  "session_token s = takeWhile session_char (drop 6 s)"

function redact_session_paths :: "string \<Rightarrow> string" where
  "redact_session_paths [] = []"
| "redact_session_paths (c # cs) =
     (if marked (c # cs) \<and> session_token (c # cs) \<noteq> []
      then take 6 (c # cs) @ REDACTED @
           redact_session_paths (drop (6 + length (session_token (c # cs))) (c # cs))
      else c # redact_session_paths cs)"
  by pat_completeness auto
termination by (relation "measure length") auto

text \<open>\<open>_stored_json\<close>: the stored text is masked, then decoded.\<close>

definition stored_json :: "json \<Rightarrow> error + json" where
  "stored_json j = json_loads (redact_session_paths (json_dumps j))"

section \<open>What masking does\<close>

lemma lower_char_slash: "lower_char c = CHR ''/'' \<longleftrightarrow> c = CHR ''/''"
proof (cases "c \<in> set ''ABCDEFGHIJKLMNOPQRSTUVWXYZ''")
  case True
  moreover have "list_all (\<lambda>c. lower_char c \<noteq> CHR ''/'' \<and> c \<noteq> CHR ''/'') ''ABCDEFGHIJKLMNOPQRSTUVWXYZ''"
    by code_simp
  ultimately show ?thesis by (auto simp only: list_all_iff)
next
  case False
  then show ?thesis by (simp only: lower_char_def if_False)
qed

lemma marked_Cons: "marked (c # cs) \<longleftrightarrow> c = CHR ''/'' \<and> map lower_char (take 5 cs) = ''stok=''"
  by (simp add: marked_def session_mark_def lower_char_slash)

declare redact_session_paths.simps(2) [simp del]

lemma redact_keep: "\<not> marked (c # cs) \<or> session_token (c # cs) = [] \<Longrightarrow>
    redact_session_paths (c # cs) = c # redact_session_paths cs"
  by (auto simp: redact_session_paths.simps(2))

lemma redact_mask: "marked s \<Longrightarrow> session_token s \<noteq> [] \<Longrightarrow>
    redact_session_paths s = take 6 s @ REDACTED @ redact_session_paths (drop (6 + length (session_token s)) s)"
  by (cases s) (simp_all add: redact_session_paths.simps(2) session_token_def)

lemma redact_other: "c \<noteq> CHR ''/'' \<Longrightarrow> redact_session_paths (c # cs) = c # redact_session_paths cs"
  by (simp add: redact_keep marked_Cons)

lemma redact_code [code]:
  "redact_session_paths [] = []"
  "redact_session_paths (c # cs) =
     (if c = CHR ''/'' then
        (if marked (c # cs) \<and> session_token (c # cs) \<noteq> []
         then take 6 (c # cs) @ REDACTED @
              redact_session_paths (drop (6 + length (session_token (c # cs))) (c # cs))
         else c # redact_session_paths cs)
      else c # redact_session_paths cs)"
  using redact_other[of c cs] by (simp_all add: redact_session_paths.simps(2))

lemma redact_no_slash: "CHR ''/'' \<notin> set p \<Longrightarrow> redact_session_paths (p @ s) = p @ redact_session_paths s"
  by (induction p) (auto simp: redact_other)

text \<open>Masking never changes the first character, and keeps what the mark itself is made of.\<close>

lemma hd_redact: "s \<noteq> [] \<Longrightarrow> redact_session_paths s \<noteq> [] \<and> hd (redact_session_paths s) = hd s"
  by (cases s) (auto simp: redact_session_paths.simps(2))

lemma redact_prefix:
  "CHR ''/'' \<notin> set p \<Longrightarrow>
   map lower_char (take (length p) (redact_session_paths s)) = p \<longleftrightarrow> map lower_char (take (length p) s) = p"
proof (induction p arbitrary: s)
  case (Cons x p)
  show ?case
  proof (cases s)
    case (Cons c cs)
    then show ?thesis
    proof (cases "c = CHR ''/''")
      case True
      have "redact_session_paths s = c # tl (redact_session_paths s)"
        using hd_redact[of s] Cons by (metis list.collapse list.distinct(1) list.sel(1))
      then show ?thesis using Cons.prems True \<open>s = c # cs\<close> lower_char_slash[of c]
        by (metis length_Cons list.inject list.set_intros(1) list.simps(9) take_Suc_Cons)
    next
      case False
      then show ?thesis using Cons.prems Cons.IH[of cs] \<open>s = c # cs\<close> by (simp add: redact_other)
    qed
  qed simp
qed simp

lemma mark_tail: "length ''stok='' = 5" "CHR ''/'' \<notin> set ''stok=''"
  by simp_all

lemma marked_redact: "marked (c # redact_session_paths cs) \<longleftrightarrow> marked (c # cs)"
  using redact_prefix[OF mark_tail(2), of cs, unfolded mark_tail(1)] unfolding marked_Cons by (simp only:)

lemma marked_no_slash:
  assumes "marked (c # cs)"
  shows "CHR ''/'' \<notin> set (take 5 cs)"
proof
  assume "CHR ''/'' \<in> set (take 5 cs)"
  then have "lower_char (CHR ''/'') \<in> set (map lower_char (take 5 cs))" by (metis image_eqI list.set_map)
  with assms lower_char_slash[of "CHR ''/''"] show False by (simp add: marked_Cons)
qed

lemma marked_rest:
  assumes "marked (c # cs)"
  shows "redact_session_paths cs = take 5 cs @ redact_session_paths (drop 5 cs)" "length (take 5 cs) = 5"
proof -
  have l: "map lower_char (take 5 cs) = ''stok=''" using assms by (simp add: marked_Cons)
  then have "length (map lower_char (take 5 cs)) = length ''stok=''" by (simp only:)
  then show "length (take 5 cs) = 5" by (simp only: length_map mark_tail)
  from redact_no_slash[OF marked_no_slash[OF assms], of "drop 5 cs"]
  show "redact_session_paths cs = take 5 cs @ redact_session_paths (drop 5 cs)" by simp
qed

lemma takeWhile_redacted:
  assumes "t = [] \<or> \<not> session_char (hd t)"
  shows "takeWhile session_char (REDACTED @ t) = REDACTED"
proof -
  have "list_all session_char REDACTED" by code_simp
  then have "takeWhile session_char (REDACTED @ t) = REDACTED @ takeWhile session_char t"
    by (simp add: list_all_iff)
  with assms show ?thesis by (cases t) auto
qed

text \<open>What follows a masked token cannot extend the mask.\<close>

lemma after_token:
  fixes s :: string
  defines "r \<equiv> redact_session_paths (drop (6 + length (session_token s)) s)"
  shows "r = [] \<or> \<not> session_char (hd r)"
proof -
  have d: "drop (6 + length (session_token s)) s = dropWhile session_char (drop 6 s)"
    by (simp add: session_token_def dropWhile_eq_drop add.commute)
  show ?thesis
  proof (cases "dropWhile session_char (drop 6 s) = []")
    case True
    show ?thesis unfolding r_def d True by simp
  next
    case False
    then show ?thesis using hd_redact[OF False] hd_dropWhile[OF False] by (simp add: r_def d)
  qed
qed

lemma marked_length: "marked s \<Longrightarrow> length (take 6 s) = 6"
proof -
  assume "marked s"
  then have "length (map lower_char (take 6 s)) = length session_mark" by (simp only: marked_def)
  then show ?thesis by (simp add: session_mark_def)
qed

lemma marked_masked:
  assumes "marked s"
  shows "marked (take 6 s @ t)" "session_token (take 6 s @ t) = takeWhile session_char t"
proof -
  have l: "length (take 6 s) = 6" by (rule marked_length[OF assms])
  with assms show "marked (take 6 s @ t)" by (simp add: marked_def)
  from l show "session_token (take 6 s @ t) = takeWhile session_char t" by (simp add: session_token_def)
qed

text \<open>The two ways in which the recursion proceeds, as one induction.\<close>

lemma redact_cases:
  obtains (empty) "s = []" "redact_session_paths s = []"
  | (keep) c cs where "s = c # cs" "redact_session_paths s = c # redact_session_paths cs"
      "\<not> marked s \<or> session_token s = []"
  | (mask) "marked s" "session_token s \<noteq> []"
      "redact_session_paths s = take 6 s @ REDACTED @ redact_session_paths (drop (6 + length (session_token s)) s)"
proof (cases s)
  case (Cons c cs)
  show ?thesis
  proof (cases "marked s \<and> session_token s \<noteq> []")
    case True
    then show ?thesis using mask redact_mask by blast
  next
    case False
    then show ?thesis using keep[OF Cons] redact_keep[of c cs] Cons by blast
  qed
qed (use empty in simp)

lemma keep_token:
  assumes "marked (c # redact_session_paths cs)" "\<not> marked (c # cs) \<or> session_token (c # cs) = []"
  shows "session_token (c # redact_session_paths cs) = []"
proof -
  have m: "marked (c # cs)" using assms(1) by (simp add: marked_redact)
  with assms(2) have "takeWhile session_char (drop 5 cs) = []" by (simp add: session_token_def)
  then have "drop 5 cs = [] \<or> \<not> session_char (hd (drop 5 cs))"
    by (metis takeWhile.simps(2) list.collapse list.distinct(1))
  then have "takeWhile session_char (redact_session_paths (drop 5 cs)) = []"
    using hd_redact[of "drop 5 cs"]
    by (cases "drop 5 cs"; cases "redact_session_paths (drop 5 cs)") auto
  with marked_rest[OF m] show ?thesis by (simp add: session_token_def)
qed

lemma mask_token:
  assumes "marked s"
  shows "session_token (take 6 s @ REDACTED @ redact_session_paths (drop (6 + length (session_token s)) s)) = REDACTED"
  using marked_masked(2)[OF assms] takeWhile_redacted[OF after_token[of s]] by simp

lemma redact_idem: "redact_session_paths (redact_session_paths s) = redact_session_paths s"
proof (induction s rule: measure_induct_rule[of length])
  case (less s)
  show ?case
  proof (cases s rule: redact_cases)
    case (keep c cs)
    have IH: "redact_session_paths (redact_session_paths cs) = redact_session_paths cs"
      by (rule less) (simp add: keep(1))
    have "redact_session_paths (c # redact_session_paths cs) = c # redact_session_paths (redact_session_paths cs)"
      using keep_token[of c cs] keep(1,3) by (intro redact_keep) blast
    with keep IH show ?thesis by simp
  next
    case mask
    define r where "r = redact_session_paths (drop (6 + length (session_token s)) s)"
    have s: "s \<noteq> []" using mask(2) by (auto simp: session_token_def)
    then have IH: "redact_session_paths r = r" unfolding r_def by (intro less) simp
    have t: "session_token (take 6 s @ REDACTED @ r) = REDACTED"
      unfolding r_def by (rule mask_token[OF mask(1)])
    have "REDACTED \<noteq> []" by (simp add: REDACTED_def)
    moreover have "take 6 (take 6 s @ REDACTED @ r) = take 6 s"
      "drop (6 + length REDACTED) (take 6 s @ REDACTED @ r) = r"
      using marked_length[OF mask(1)] by simp_all
    ultimately have "redact_session_paths (take 6 s @ REDACTED @ r) =
        take 6 s @ REDACTED @ redact_session_paths r"
      using redact_mask[OF marked_masked(1)[OF mask(1), of "REDACTED @ r"]] unfolding t by (simp only: simp_thms)
    then show ?thesis using IH unfolding mask(3) r_def[symmetric] by (simp only:)
  qed simp
qed

text \<open>A text in which every session mark is followed by nothing or by the placeholder.\<close>

fun session_safe :: "string \<Rightarrow> bool" where
  "session_safe [] = True"
| "session_safe (c # cs) =
     ((marked (c # cs) \<longrightarrow> session_token (c # cs) \<in> {[], REDACTED}) \<and> session_safe cs)"

lemma session_safe_no_slash: "CHR ''/'' \<notin> set p \<Longrightarrow> session_safe t \<Longrightarrow> session_safe (p @ t)"
  by (induction p) (auto simp: marked_Cons)

lemma redact_safe: "session_safe (redact_session_paths s)"
proof (induction s rule: measure_induct_rule[of length])
  case (less s)
  show ?case
  proof (cases s rule: redact_cases)
    case (keep c cs)
    then have "session_safe (redact_session_paths cs)" using less by simp
    with keep keep_token[of c cs] show ?thesis by auto
  next
    case mask
    define r where "r = redact_session_paths (drop (6 + length (session_token s)) s)"
    obtain c cs where s: "s = c # cs" using mask(2) by (cases s) (auto simp: session_token_def)
    then have IH: "session_safe r" unfolding r_def by (intro less) simp
    have "CHR ''/'' \<notin> set (take 5 cs)" using mask(1) unfolding s by (rule marked_no_slash)
    moreover have "CHR ''/'' \<notin> set REDACTED" by (simp add: REDACTED_def)
    ultimately have "session_safe (take 5 cs @ REDACTED @ r)"
      using IH by (intro session_safe_no_slash)
    moreover have "session_token (c # take 5 cs @ REDACTED @ r) = REDACTED"
      using mask_token[OF mask(1)] unfolding r_def[symmetric] by (simp add: s)
    ultimately show ?thesis unfolding mask(3) r_def[symmetric] by (simp add: s)
  qed simp
qed

text \<open>A quote ends a token and is no part of a mark, so strings of a document are masked one by one.\<close>

lemma marked_quote: "marked (s @ quote # t) \<longleftrightarrow> marked s"
proof (cases "6 \<le> length s")
  case True
  then show ?thesis by (simp add: marked_def)
next
  case False
  then have "quote \<in> set (take 6 (s @ quote # t))" by (simp add: take_Cons')
  then have "lower_char quote \<in> set (map lower_char (take 6 (s @ quote # t)))" by (metis image_eqI list.set_map)
  moreover have "lower_char quote \<notin> set session_mark" by code_simp
  ultimately have "\<not> marked (s @ quote # t)" unfolding marked_def by metis
  moreover have "\<not> marked s" using marked_length[of s] False by auto
  ultimately show ?thesis by simp
qed

lemma token_quote: "marked s \<Longrightarrow> session_token (s @ quote # t) = session_token s"
proof -
  assume "marked s"
  moreover have "\<not> session_char quote" by (simp add: session_char_def)
  ultimately show ?thesis
    using marked_length[of s] by (simp add: session_token_def takeWhile_append) (metis takeWhile_eq_all_conv)
qed

lemma redact_quote: "redact_session_paths (s @ quote # t) = redact_session_paths s @ quote # redact_session_paths t"
proof (induction s rule: measure_induct_rule[of length])
  case (less s)
  show ?case
  proof (cases s rule: redact_cases)
    case empty
    then show ?thesis by (simp add: redact_other quote_def)
  next
    case (keep c cs)
    have "\<not> marked (c # cs @ quote # t) \<or> session_token (c # cs @ quote # t) = []"
      using keep marked_quote[of s t] token_quote[of s t] by auto
    then have "redact_session_paths (c # cs @ quote # t) = c # redact_session_paths (cs @ quote # t)"
      by (rule redact_keep)
    with keep less[of cs] show ?thesis by simp
  next
    case mask
    have "length (session_token s) \<le> length (drop 6 s)" unfolding session_token_def by (rule length_takeWhile_le)
    then have l: "6 + length (session_token s) \<le> length s"
      using marked_length[OF mask(1)] by simp
    have "s \<noteq> []" using mask(2) by (auto simp: session_token_def)
    then have IH: "redact_session_paths (drop (6 + length (session_token s)) s @ quote # t) =
        redact_session_paths (drop (6 + length (session_token s)) s) @ quote # redact_session_paths t"
      by (intro less) simp
    have "redact_session_paths (s @ quote # t) =
        take 6 s @ REDACTED @ redact_session_paths (drop (6 + length (session_token s)) s @ quote # t)"
      using redact_mask[of "s @ quote # t"] mask l by (simp add: marked_quote token_quote)
    with IH mask(3) show ?thesis by simp
  qed
qed

section \<open>Masked documents\<close>

text \<open>The document with the sessions of its strings masked; keys stay.\<close>

fun masked :: "json \<Rightarrow> json" where
  "masked (JStr s) = JStr (redact_session_paths s)"
| "masked (JArr xs) = JArr (map masked xs)"
| "masked (JObj kvs) = JObj (map (\<lambda>(k, v). (k, masked v)) kvs)"
| "masked j = j"

lemma masked_object: "masked (JObj kvs) = JObj (map (\<lambda>kv. (fst kv, masked (snd kv))) kvs)"
  by (simp add: case_prod_beta)

definition plain :: "string \<Rightarrow> bool" where
  "plain s = list_all (\<lambda>c. escape_char c = [c]) s"

text \<open>Documents whose strings are written without an escape, with ordinary keys and floats.\<close>

fun plain_json :: "json \<Rightarrow> bool" where
  "plain_json (JStr s) = plain s"
| "plain_json (JFloat s) = (CHR ''/'' \<notin> set s)"
| "plain_json (JArr xs) = list_all plain_json xs"
| "plain_json (JObj kvs) = list_all (\<lambda>(k, v). plain k \<and> CHR ''/'' \<notin> set k \<and> plain_json v) kvs"
| "plain_json _ = True"

lemma plain_text: "plain s \<Longrightarrow> concat (map escape_char s) = s"
  by (induction s) (simp_all add: plain_def)

lemma plain_redact: "plain s \<Longrightarrow> plain (redact_session_paths s)"
proof (induction s rule: measure_induct_rule[of length])
  case (less s)
  show ?case
  proof (cases s rule: redact_cases)
    case (keep c cs)
    with less.prems less.IH[of cs] show ?thesis by (simp add: plain_def)
  next
    case mask
    have "s \<noteq> []" using mask(2) by (auto simp: session_token_def)
    moreover have "plain (drop n s)" "plain (take n s)" for n
      using less.prems by (auto simp: plain_def list_all_iff dest: in_set_dropD in_set_takeD)
    ultimately have "plain (redact_session_paths (drop (6 + length (session_token s)) s))"
      by (intro less.IH) simp_all
    moreover have "plain REDACTED" by code_simp
    ultimately show ?thesis using \<open>\<And>n. plain (take n s)\<close> unfolding mask(3) by (simp add: plain_def)
  qed (simp add: plain_def)
qed

lemma redact_string: "plain s \<Longrightarrow>
  redact_session_paths (json_string s @ t) = json_string (redact_session_paths s) @ redact_session_paths t"
  using redact_other[of quote "s @ quote # t"]
  by (simp add: json_string_def plain_text plain_redact redact_quote) (simp add: quote_def)

lemma show_int_no_slash: "CHR ''/'' \<notin> set (show_int i)"
  using show_pos_digits[of i] show_pos_digits[of "- i"]
  by (auto simp: show_int_def list_all_iff digit_def)

lemma redact_join:
  assumes "\<And>x t. x \<in> set xs \<Longrightarrow> redact_session_paths (f x @ t) = g x @ redact_session_paths t"
  shows "redact_session_paths (join '','' (map f xs) @ t) = join '','' (map g xs) @ redact_session_paths t"
  using assms
proof (induction xs arbitrary: t)
  case (Cons x xs)
  then show ?case by (cases xs) (simp_all add: redact_other)
qed simp

lemma redact_dumps:
  "plain_json j \<Longrightarrow> redact_session_paths (json_dumps j @ t) = json_dumps (masked j) @ redact_session_paths t"
proof (induction j arbitrary: t)
  case (JInt i)
  then show ?case by (simp add: redact_no_slash show_int_no_slash)
next
  case (JArr xs)
  have "redact_session_paths (join '','' (map json_dumps xs) @ u) =
      join '','' (map (\<lambda>x. json_dumps (masked x)) xs) @ redact_session_paths u" for u
    using JArr by (intro redact_join) (simp add: list_all_iff)
  then show ?case by (simp add: redact_other comp_def)
next
  case (JObj kvs)
  have "redact_session_paths (pair_text kv @ u) = pair_text (fst kv, masked (snd kv)) @ redact_session_paths u"
    if kv: "kv \<in> set kvs" for kv u
  proof -
    have k: "plain (fst kv)" "CHR ''/'' \<notin> set (fst kv)" "plain_json (snd kv)"
      using JObj.prems kv by (auto simp: list_all_iff)
    then have "redact_session_paths (fst kv) = fst kv" using redact_no_slash[of "fst kv" "[]"] by simp
    with k JObj.IH[of kv "snd kv"] kv show ?thesis
      by (simp add: pair_text_def redact_string redact_other snds.intros)
  qed
  then have "redact_session_paths (join '','' (map pair_text kvs) @ u) =
      join '','' (map (\<lambda>kv. pair_text (fst kv, masked (snd kv))) kvs) @ redact_session_paths u" for u
    by (rule redact_join)
  then show ?case unfolding masked_object json_dumps_object
    by (simp add: redact_other comp_def del: json_dumps.simps)
qed (simp_all add: redact_string redact_no_slash redact_other)

lemma json_ok_mask: "json_ok j \<Longrightarrow> json_ok (masked j)"
proof (induction j)
  case (JObj kvs)
  have "json_ok (masked (snd kv))" if "kv \<in> set kvs" for kv
    using JObj that by (auto simp: list_all_iff snds.intros)
  with JObj.prems show ?case unfolding masked_object
    by (auto simp: list_all_iff comp_def)
qed (auto simp: list_all_iff)

lemma stored_json_masks: "json_ok j \<Longrightarrow> plain_json j \<Longrightarrow> stored_json j = Inr (masked j)"
  using redact_dumps[of j "[]"] json_loads_dumps[OF json_ok_mask] by (simp add: stored_json_def)

text \<open>
  An escaped quote ends the token inside its escape: the backslash is masked with the session and
  the quote that is left closes the string early, so the masked text is no longer a document.
\<close>

lemma stored_json_breaks:
  "stored_json (JObj [(''m'', JStr (''GET /stok=a'' @ [quote] @ ''b''))]) = Inl (ValueError ''JSONDecodeError'')"
  by code_simp

end
