(* ===== verification/Contracts.thy ===== *)
theory Contracts
  imports Stored_Json
begin

text \<open>
  The models of contracts/administration.py that validate the parameters and the results of the
  distributed job types, as functions from a decoded document to the normalised document that
  \<open>model_validate(...).model_dump(mode="json")\<close> gives, or None when the validation raises. A model
  is put together from its field declarations in the order of the source; the conversions of
  scalars are pydantic's own and come from the environment.
\<close>

type_synonym validator = "json \<Rightarrow> json option"

section \<open>Fields\<close>

text \<open>\<open>str_strip_whitespace\<close> of \<open>AdministrationModel\<close>: the blanks that pydantic-core trims.\<close>

definition blank :: "char \<Rightarrow> bool" where
  "blank c = (c \<in> set [CHR 0x09, CHR 0x0A, CHR 0x0B, CHR 0x0C, CHR 0x0D, CHR '' ''])"

definition trim :: "string \<Rightarrow> string" where
  "trim s = rev (dropWhile blank (rev (dropWhile blank s)))"

definition str_field :: "(string \<Rightarrow> bool) \<Rightarrow> validator" where
  "str_field ok j =
     (case j of JStr s \<Rightarrow> if ok (trim s) then Some (JStr (trim s)) else None | _ \<Rightarrow> None)"

definition sized :: "int \<Rightarrow> int \<Rightarrow> string \<Rightarrow> bool" where
  "sized lo hi s = (lo \<le> int (length s) \<and> int (length s) \<le> hi)"

definition int_field :: "env \<Rightarrow> (int \<Rightarrow> bool) \<Rightarrow> validator" where
  "int_field e ok j =
     (case lax_int e j of Some i \<Rightarrow> if ok i then Some (JInt i) else None | None \<Rightarrow> None)"

definition float_field :: "env \<Rightarrow> (string \<Rightarrow> bool) \<Rightarrow> validator" where
  "float_field e ok j =
     (case lax_float e j of Some s \<Rightarrow> if ok s then Some (JFloat s) else None | None \<Rightarrow> None)"

definition bool_field :: "env \<Rightarrow> validator" where
  "bool_field e j = map_option JBool (lax_bool e j)"

definition datetime_field :: "env \<Rightarrow> (timestamp \<Rightarrow> bool) \<Rightarrow> validator" where
  "datetime_field e ok j =
     (case lax_datetime e j of Some t \<Rightarrow> if ok t then Some (JStr (ts_text t)) else None | None \<Rightarrow> None)"

definition uuid_field :: "env \<Rightarrow> validator" where
  "uuid_field e j = map_option JStr (lax_uuid e j)"

definition literal :: "json list \<Rightarrow> validator" where
  "literal js j = (if j \<in> set js then Some j else None)"

definition optional :: "validator \<Rightarrow> validator" where
  "optional v j = (if j = JNull then Some JNull else v j)"

fun each :: "('a \<Rightarrow> 'b option) \<Rightarrow> 'a list \<Rightarrow> 'b list option" where
  "each f [] = Some []"
| "each f (x # xs) =
     (case f x of None \<Rightarrow> None | Some y \<Rightarrow> map_option (\<lambda>ys. y # ys) (each f xs))"

definition list_field :: "validator \<Rightarrow> int \<Rightarrow> int \<Rightarrow> validator" where
  "list_field v lo hi j =
     (case j of
        JArr xs \<Rightarrow>
          if lo \<le> int (length xs) \<and> int (length xs) \<le> hi then map_option JArr (each v xs) else None
      | _ \<Rightarrow> None)"

section \<open>Models\<close>

text \<open>
  A field is its name, its default if it has one, and its validator. A default is used as it is;
  an unknown key is refused (\<open>extra="forbid"\<close>); the checks of a \<open>model_validator(mode="after")\<close>
  run on the normalised fields.
\<close>

type_synonym field = "string \<times> json option \<times> validator"

definition required :: "string \<Rightarrow> validator \<Rightarrow> field" where
  "required name v = (name, None, v)"

definition defaults :: "string \<Rightarrow> json \<Rightarrow> validator \<Rightarrow> field" where
  "defaults name d v = (name, Some d, v)"

definition field_value :: "(string \<times> json) list \<Rightarrow> field \<Rightarrow> (string \<times> json) option" where
  "field_value kvs f =
     map_option (Pair (fst f))
       (case map_of kvs (fst f) of Some j \<Rightarrow> snd (snd f) j | None \<Rightarrow> fst (snd f))"

definition model :: "field list \<Rightarrow> (json \<Rightarrow> bool) \<Rightarrow> validator" where
  "model fs after_check j =
     (case j of
        JObj kvs \<Rightarrow>
          if list_all (\<lambda>kv. fst kv \<in> set (map fst fs)) kvs then
            (case each (field_value kvs) fs of
               None \<Rightarrow> None
             | Some out \<Rightarrow>
                 if after_check (JObj (dict_of out)) then Some (JObj (dict_of out)) else None)
          else None
      | _ \<Rightarrow> None)"

section \<open>Patterns\<close>

definition hex_lower :: "char \<Rightarrow> bool" where
  "hex_lower c = (c \<in> set ''0123456789abcdef'')"

definition lower_case :: "char \<Rightarrow> bool" where
  "lower_case c = (c \<in> set ''abcdefghijklmnopqrstuvwxyz'')"

definition upper_case :: "char \<Rightarrow> bool" where
  "upper_case c = (c \<in> set ''ABCDEFGHIJKLMNOPQRSTUVWXYZ'')"

definition sha256_pattern :: "string \<Rightarrow> bool" where
  "sha256_pattern s = (length s = 64 \<and> list_all hex_lower s)"

definition age_pattern :: "string \<Rightarrow> bool" where
  "age_pattern s = (sized 20 200 s \<and> take 4 s = ''age1'' \<and> drop 4 s \<noteq> [] \<and>
     list_all (\<lambda>c. digit c \<or> lower_case c) (drop 4 s))"

definition backup_id_pattern :: "string \<Rightarrow> bool" where
  "backup_id_pattern s = (length s = 16 \<and> list_all digit (take 8 s) \<and> s ! 8 = CHR ''T'' \<and>
     list_all digit (take 6 (drop 9 s)) \<and> s ! 15 = CHR ''Z'')"

definition day_pattern :: "string \<Rightarrow> bool" where
  "day_pattern s = (length s = 10 \<and> list_all digit (take 4 s) \<and> s ! 4 = CHR ''-'' \<and>
     list_all digit (take 2 (drop 5 s)) \<and> s ! 7 = CHR ''-'' \<and> list_all digit (drop 8 s))"

section \<open>Paths\<close>

text \<open>
  \<open>_workspace_relative_path\<close>. \<open>PurePosixPath\<close> drops empty parts and single dots; a value that does
  not start with a slash is relative.
\<close>

definition path_error :: error where
  "path_error = ValueError ''path must be a portable workspace-relative file path''"

definition posix_parts :: "string \<Rightarrow> string list" where
  "posix_parts s = filter (\<lambda>p. p \<noteq> [] \<and> p \<noteq> ''.'') (split_on (CHR ''/'') s)"

definition workspace_relative_path :: "string \<Rightarrow> error + string" where
  "workspace_relative_path value =
     (if CHR 0x5C \<in> set value \<or> CHR '':'' \<in> set value \<or> take 1 value = ''/'' \<or>
         (value \<noteq> [] \<and> List.last value = CHR ''/'')
      then Inl path_error
      else let parts = posix_parts value
           in if parts = [] \<or> list_ex (\<lambda>p. p \<in> set [[], ''.'', ''..'']) parts then Inl path_error
              else Inr (join ''/'' parts))"

definition path_field :: validator where
  "path_field j =
     (case str_field (sized 1 500) j of
        Some (JStr s) \<Rightarrow> (case workspace_relative_path s of Inr p \<Rightarrow> Some (JStr p) | Inl _ \<Rightarrow> None)
      | _ \<Rightarrow> None)"

end
