(* ===== verification/Job_Models.thy ===== *)
theory Job_Models
  imports Contracts
begin

text \<open>
  The parameter and result models of the nine distributed job types, class by class as
  contracts/administration.py declares them, and the registry \<open>JOB_TYPE_MODELS\<close> of
  jobs/job_types.py that selects one by the type of a job.
\<close>

section \<open>Reading a normalised document\<close>

fun jint :: "json \<Rightarrow> int" where
  "jint (JInt i) = i"
| "jint _ = 0"

fun jtext :: "json \<Rightarrow> string" where
  "jtext (JStr s) = s"
| "jtext _ = []"

fun jlist :: "json \<Rightarrow> json list" where
  "jlist (JArr xs) = xs"
| "jlist _ = []"

definition texts :: "string list \<Rightarrow> json list" where
  "texts ss = map JStr ss"

definition at_least :: "int \<Rightarrow> int \<Rightarrow> bool" where
  "at_least lo i = (lo \<le> i)"

definition within :: "int \<Rightarrow> int \<Rightarrow> int \<Rightarrow> bool" where
  "within lo hi i = (lo \<le> i \<and> i \<le> hi)"

definition any_text :: validator where
  "any_text = str_field (\<lambda>_. True)"

text \<open>The time a normalised field denotes: the datetime that its text parses to.\<close>

definition time_of :: "env \<Rightarrow> json \<Rightarrow> timestamp" where
  "time_of e j = (case lax_datetime e j of
     Some t \<Rightarrow> t | None \<Rightarrow> \<lparr>ts_instant = 0, ts_aware = False, ts_text = []\<rparr>)"

text \<open>Both ends carry an offset, and the window is positive and at most \<open>limit\<close> seconds long.\<close>

definition window_ok :: "env \<Rightarrow> int \<Rightarrow> json \<Rightarrow> bool" where
  "window_ok e limit j =
     (let a = time_of e (jget j ''window_started_at''); b = time_of e (jget j ''window_ended_at'')
      in ts_aware a \<and> ts_aware b \<and> 0 < ts_instant b - ts_instant a \<and>
         ts_instant b - ts_instant a \<le> seconds limit)"

section \<open>system.health\<close>

definition SystemHealthParameters :: "env \<Rightarrow> validator" where
  "SystemHealthParameters e = model [] (\<lambda>_. True)"

definition issue_code :: "string \<Rightarrow> bool" where
  "issue_code s = (sized 1 80 s \<and> list_all (\<lambda>c. lower_case c \<or> digit c \<or> c \<in> set ''_.-'') s)"

definition SystemHealthIssue :: validator where
  "SystemHealthIssue = model
     [required ''code'' (str_field issue_code),
      required ''message'' (str_field (sized 1 500))] (\<lambda>_. True)"

definition validate_health_consistency :: "json \<Rightarrow> bool" where
  "validate_health_consistency j =
     (\<not> jint (jget j ''memory_available_bytes'') > jint (jget j ''memory_total_bytes'') \<and>
      \<not> jint (jget j ''disk_free_bytes'') > jint (jget j ''disk_total_bytes'') \<and>
      \<not> (jget j ''status'' = JStr ''OK'' \<and> jlist (jget j ''issues'') \<noteq> []) \<and>
      \<not> (jget j ''status'' = JStr ''DEGRADED'' \<and> jlist (jget j ''issues'') = []))"

definition SystemHealthResult :: "env \<Rightarrow> validator" where
  "SystemHealthResult e = model
     [required ''status'' (literal (texts [''OK'', ''DEGRADED''])),
      required ''collected_at'' (datetime_field e ts_aware),
      required ''platform'' (str_field (sized 1 100)),
      required ''cpu_percent'' (float_field e (\<lambda>x. float_ge e x 0 \<and> float_le e x 100)),
      required ''memory_total_bytes'' (int_field e (at_least 1)),
      required ''memory_available_bytes'' (int_field e (at_least 0)),
      required ''disk_total_bytes'' (int_field e (at_least 1)),
      required ''disk_free_bytes'' (int_field e (at_least 0)),
      defaults ''temperature_c'' JNull
        (optional (float_field e (\<lambda>x. float_ge e x (- 50) \<and> float_le e x 150))),
      defaults ''issues'' (JArr []) (list_field SystemHealthIssue 0 32)]
     validate_health_consistency"

section \<open>Backups\<close>

definition require_distinct_paths :: "json \<Rightarrow> bool" where
  "require_distinct_paths j = (jget j ''source'' \<noteq> jget j ''destination'')"

definition sha256_field :: validator where
  "sha256_field = str_field sha256_pattern"

definition BackupCompressParameters :: "env \<Rightarrow> validator" where
  "BackupCompressParameters e = model
     [required ''source'' path_field,
      required ''destination'' path_field,
      defaults ''compression_level'' (JInt 6) (int_field e (within 1 9))] require_distinct_paths"

definition BackupCompressResult :: "env \<Rightarrow> validator" where
  "BackupCompressResult e = model
     [required ''source_sha256'' sha256_field,
      required ''source_size'' (int_field e (at_least 0)),
      required ''destination_sha256'' sha256_field,
      required ''destination_size'' (int_field e (at_least 1))] (\<lambda>_. True)"

definition BackupEncryptParameters :: "env \<Rightarrow> validator" where
  "BackupEncryptParameters e = model
     [required ''source'' path_field,
      required ''destination'' path_field,
      required ''recipient'' (str_field age_pattern)] require_distinct_paths"

definition BackupEncryptResult :: "env \<Rightarrow> validator" where
  "BackupEncryptResult e = model
     [required ''source_sha256'' sha256_field,
      required ''source_size'' (int_field e (at_least 0)),
      required ''destination_sha256'' sha256_field,
      required ''destination_size'' (int_field e (at_least 1)),
      required ''recipient'' (str_field age_pattern)] (\<lambda>_. True)"

definition BackupVerifyParameters :: "env \<Rightarrow> validator" where
  "BackupVerifyParameters e = model
     [required ''path'' path_field,
      required ''expected_sha256'' sha256_field,
      defaults ''expected_size'' JNull (optional (int_field e (at_least 0)))] (\<lambda>_. True)"

definition BackupVerifyResult :: "env \<Rightarrow> validator" where
  "BackupVerifyResult e = model
     [required ''valid'' (bool_field e),
      required ''sha256'' sha256_field,
      required ''size'' (int_field e (at_least 0)),
      required ''sha256_matches'' (bool_field e),
      defaults ''size_matches'' JNull (optional (bool_field e))] (\<lambda>_. True)"

definition InfraBackupParameters :: "env \<Rightarrow> validator" where
  "InfraBackupParameters e = model
     [required ''backup_id'' (str_field backup_id_pattern),
      required ''recipient'' (str_field age_pattern),
      defaults ''compression_level'' (JInt 6) (int_field e (within 1 9))] (\<lambda>_. True)"

definition InfraBackupResult :: "env \<Rightarrow> validator" where
  "InfraBackupResult e = model
     [required ''backup_id'' (str_field backup_id_pattern),
      required ''remote_path'' (str_field (sized 1 1000)),
      required ''source_sha256'' sha256_field,
      required ''source_size'' (int_field e (at_least 1)),
      required ''compressed_size'' (int_field e (at_least 1)),
      required ''sha256'' sha256_field,
      required ''size_bytes'' (int_field e (at_least 1)),
      defaults ''deleted_remote_backups'' (JInt 0) (int_field e (at_least 0)),
      required ''duration_seconds'' (float_field e (\<lambda>x. float_ge e x 0)),
      required ''cpu_seconds'' (float_field e (\<lambda>x. float_ge e x 0)),
      defaults ''peak_working_set_bytes'' JNull (optional (int_field e (at_least 0))),
      required ''logical_io_read_bytes'' (int_field e (at_least 0)),
      required ''logical_io_written_bytes'' (int_field e (at_least 0))] (\<lambda>_. True)"

section \<open>Logs\<close>

definition LogSourceId :: validator where
  "LogSourceId = literal (texts [''infra-01'', ''ha-01'', ''linky-01'', ''zwave-01''])"

definition LogBaseline :: "env \<Rightarrow> validator" where
  "LogBaseline e = model
     [required ''source'' LogSourceId,
      required ''signature'' (str_field (sized 1 160)),
      required ''occurrences'' (int_field e (within 0 1000000))] (\<lambda>_. True)"

definition any_time :: "env \<Rightarrow> validator" where
  "any_time e = datetime_field e (\<lambda>_. True)"

definition LogsHealthCheckParameters :: "env \<Rightarrow> validator" where
  "LogsHealthCheckParameters e = model
     [required ''sources'' (list_field LogSourceId 1 4),
      required ''window_started_at'' (any_time e),
      required ''window_ended_at'' (any_time e),
      defaults ''max_bytes_per_source'' (JInt (2 * 1024 * 1024))
        (int_field e (within 1024 (4 * 1024 * 1024))),
      defaults ''baseline'' (JArr []) (list_field (LogBaseline e) 0 192),
      defaults ''incident_id'' JNull (optional (uuid_field e))]
     (\<lambda>j. distinct (jlist (jget j ''sources'')) \<and> window_ok e (48 * 3600) j)"

definition plain_pattern :: "string \<Rightarrow> bool" where
  "plain_pattern s = list_all (\<lambda>c. c \<notin> set [CHR 0x0D, CHR 0x0A, CHR 0x00]) s"

definition LogsInvestigateParameters :: "env \<Rightarrow> validator" where
  "LogsInvestigateParameters e = model
     [required ''source'' LogSourceId,
      required ''window_started_at'' (any_time e),
      required ''window_ended_at'' (any_time e),
      required ''pattern'' (str_field (sized 1 160)),
      defaults ''max_bytes'' (JInt (2 * 1024 * 1024)) (int_field e (within 1024 (4 * 1024 * 1024))),
      required ''incident_id'' (uuid_field e)]
     (\<lambda>j. window_ok e (24 * 3600) j \<and> plain_pattern (jtext (jget j ''pattern'')))"

text \<open>\<open>LogsInvestigationAuthorization\<close>; its validator strips again, with \<open>str.strip\<close>.\<close>

definition LogsInvestigationAuthorization :: validator where
  "LogsInvestigationAuthorization = model
     [required ''pattern'' (\<lambda>j. case str_field (sized 1 160) j of
        Some (JStr s) \<Rightarrow> if strip s \<noteq> [] \<and> plain_pattern (strip s) then Some (JStr (strip s)) else None
      | _ \<Rightarrow> None)] (\<lambda>_. True)"

definition LogFinding :: "env \<Rightarrow> validator" where
  "LogFinding e = model
     [required ''source'' LogSourceId,
      required ''signature'' (str_field (sized 1 160)),
      required ''category'' (literal (texts [''exception'', ''timeout'', ''mqtt'', ''network'',
        ''restart'', ''serial'', ''zwave'', ''automation'', ''other''])),
      required ''severity'' (literal (texts [''warning'', ''error'', ''critical''])),
      required ''summary'' (str_field (sized 1 500)),
      defaults ''references'' (JArr []) (list_field any_text 0 16),
      required ''occurrences'' (int_field e (within 1 1000000)),
      defaults ''reference_occurrences'' JNull (optional (int_field e (within 0 1000000))),
      defaults ''first_at'' JNull (optional (any_time e)),
      defaults ''last_at'' JNull (optional (any_time e)),
      required ''trend'' (literal (texts [''new'', ''known'', ''stable'', ''increasing'',
        ''decreasing'', ''disappeared'']))] (\<lambda>_. True)"

definition LogSourceHealth :: "env \<Rightarrow> validator" where
  "LogSourceHealth e = model
     [required ''source'' LogSourceId,
      required ''status'' (literal (texts [''OK'', ''KO''])),
      required ''fetched_bytes'' (int_field e (within 0 (4 * 1024 * 1024))),
      required ''truncated'' (bool_field e),
      required ''analyzed_lines'' (int_field e (within 0 200000)),
      defaults ''findings'' (JArr []) (list_field (LogFinding e) 0 64)] (\<lambda>_. True)"

definition LogCorrelation :: "env \<Rightarrow> validator" where
  "LogCorrelation e = model
     [required ''sources'' (list_field LogSourceId 2 4),
      required ''occurred_at'' (any_time e),
      required ''summary'' (str_field (sized 1 500))] (\<lambda>_. True)"

definition LogsHealthCheckResult :: "env \<Rightarrow> validator" where
  "LogsHealthCheckResult e = model
     [required ''status'' (literal (texts [''OK'', ''KO''])),
      required ''analyzed_at'' (any_time e),
      required ''window_started_at'' (any_time e),
      required ''window_ended_at'' (any_time e),
      required ''sources'' (list_field (LogSourceHealth e) 1 4),
      required ''new_anomaly_count'' (int_field e (at_least 0)),
      required ''worsening_anomaly_count'' (int_field e (at_least 0)),
      defaults ''disappeared_anomalies'' (JArr []) (list_field (LogBaseline e) 0 192),
      defaults ''correlations'' (JArr []) (list_field (LogCorrelation e) 0 32),
      defaults ''recommended_investigations'' (JArr []) (list_field any_text 0 16)] (\<lambda>_. True)"

definition LogsInvestigateResult :: "env \<Rightarrow> validator" where
  "LogsInvestigateResult e = model
     [required ''status'' (literal (texts [''OK'', ''KO''])),
      required ''analyzed_at'' (any_time e),
      required ''source'' LogSourceId,
      required ''pattern'' (str_field (sized 1 160)),
      required ''matched_lines'' (int_field e (within 0 200000)),
      defaults ''findings'' (JArr []) (list_field (LogFinding e) 0 64),
      required ''truncated'' (bool_field e)] (\<lambda>_. True)"

section \<open>Trends\<close>

definition HistorySourceId :: validator where
  "HistorySourceId = literal (texts [''ha-01''])"

definition HistoryMetric :: validator where
  "HistoryMetric = literal (texts [''disk_percent''])"

text \<open>
  \<open>duration.days > 31\<close> compares whole days: a window of 31 days and any fraction of the 32nd is
  accepted.
\<close>

definition history_window_ok :: "env \<Rightarrow> json \<Rightarrow> bool" where
  "history_window_ok e j =
     (let a = time_of e (jget j ''window_started_at''); b = time_of e (jget j ''window_ended_at'')
      in ts_aware a \<and> ts_aware b \<and> 0 < ts_instant b - ts_instant a \<and>
         (ts_instant b - ts_instant a) div days 1 \<le> 31)"

definition TrendsHistoryBackfillParameters :: "env \<Rightarrow> validator" where
  "TrendsHistoryBackfillParameters e = model
     [required ''source'' HistorySourceId,
      required ''node_id'' (str_field (sized 1 64)),
      required ''metric'' HistoryMetric,
      required ''unique_id'' (str_field (sized 1 120)),
      required ''window_started_at'' (any_time e),
      required ''window_ended_at'' (any_time e)] (history_window_ok e)"

definition TrendsDailyValue :: "env \<Rightarrow> validator" where
  "TrendsDailyValue e = model
     [required ''day'' (str_field day_pattern),
      required ''minimum'' (float_field e (\<lambda>_. True)),
      required ''maximum'' (float_field e (\<lambda>_. True)),
      required ''last'' (float_field e (\<lambda>_. True)),
      required ''hours'' (int_field e (within 1 25))] (\<lambda>_. True)"

definition TrendsHistoryBackfillResult :: "env \<Rightarrow> validator" where
  "TrendsHistoryBackfillResult e = model
     [required ''status'' (literal (texts [''OK'', ''NO_DATA''])),
      required ''collected_at'' (any_time e),
      required ''source'' HistorySourceId,
      required ''node_id'' (str_field (sized 1 64)),
      required ''metric'' HistoryMetric,
      defaults ''entity_id'' JNull (optional (str_field (sized 0 255))),
      required ''rows_read'' (int_field e (within 0 100000)),
      defaults ''days'' (JArr []) (list_field (TrendsDailyValue e) 0 32)] (\<lambda>_. True)"

section \<open>ai.inference\<close>

definition evidence_source :: "string \<Rightarrow> bool" where
  "evidence_source s = (sized 1 80 s \<and>
     list_all (\<lambda>c. upper_case c \<or> lower_case c \<or> digit c \<or> c \<in> set ''_.:-'') s)"

definition AiInferenceEvidence :: validator where
  "AiInferenceEvidence = model
     [required ''source'' (str_field evidence_source),
      required ''content'' (str_field (sized 1 16000))] (\<lambda>_. True)"

definition bound_total_evidence :: "json \<Rightarrow> bool" where
  "bound_total_evidence j =
     (\<not> sum_list (map (\<lambda>x. int (length (jtext (jget x ''content'')))) (jlist (jget j ''evidence''))) > 48000)"

definition AiInferenceParameters :: "env \<Rightarrow> validator" where
  "AiInferenceParameters e = model
     [defaults ''task'' (JStr ''technical.diagnosis'') (literal (texts [''technical.diagnosis''])),
      required ''incident_id'' (uuid_field e),
      required ''question'' (str_field (sized 1 2000)),
      required ''evidence'' (list_field AiInferenceEvidence 1 8),
      defaults ''max_output_tokens'' (JInt 8192) (int_field e (within 128 16384))]
     bound_total_evidence"

definition finding_code :: "string \<Rightarrow> bool" where
  "finding_code s = (sized 1 80 s \<and> list_all (\<lambda>c. upper_case c \<or> digit c \<or> c \<in> set ''_.-'') s)"

definition unit_interval :: "env \<Rightarrow> validator" where
  "unit_interval e = float_field e (\<lambda>x. float_ge e x 0 \<and> float_le e x 1)"

definition AiInferenceFinding :: "env \<Rightarrow> validator" where
  "AiInferenceFinding e = model
     [required ''code'' (str_field finding_code),
      required ''evidence'' (str_field (sized 1 500)),
      required ''confidence'' (unit_interval e)] (\<lambda>_. True)"

definition AiInferenceMetrics :: "env \<Rightarrow> validator" where
  "AiInferenceMetrics e = model
     [required ''prompt_tokens'' (int_field e (at_least 0)),
      required ''completion_tokens'' (int_field e (at_least 0)),
      required ''ttft_ms'' (float_field e (\<lambda>x. float_ge e x 0)),
      required ''tokens_per_second'' (float_field e (\<lambda>x. float_ge e x 0)),
      required ''duration_seconds'' (float_field e (\<lambda>x. float_ge e x 0))] (\<lambda>_. True)"

text \<open>Every entry has between 1 and 500 characters, and not only blanks.\<close>

definition bounded_entries :: "json list \<Rightarrow> bool" where
  "bounded_entries xs =
     (\<not> list_ex (\<lambda>x. strip (jtext x) = [] \<or> int (length (jtext x)) > 500) xs)"

definition AiInferenceHypothesis :: "env \<Rightarrow> validator" where
  "AiInferenceHypothesis e = model
     [required ''statement'' (str_field (sized 1 1000)),
      required ''confidence'' (unit_interval e),
      defaults ''possible_causes'' (JArr []) (list_field any_text 0 8),
      defaults ''supporting_evidence'' (JArr []) (list_field any_text 0 8),
      defaults ''contradicting_evidence'' (JArr []) (list_field any_text 0 8)]
     (\<lambda>j. bounded_entries (jlist (jget j ''possible_causes'') @ jlist (jget j ''supporting_evidence'') @
        jlist (jget j ''contradicting_evidence'')))"

definition validate_diagnostic_consistency :: "json \<Rightarrow> bool" where
  "validate_diagnostic_consistency j =
     (let verdict = jget j ''verdict''; v2 = (jget j ''analysis_version'' = JInt 2)
      in \<not> (verdict = JStr ''OK'' \<and> jlist (jget j ''findings'') \<noteq> []) \<and>
         \<not> (verdict = JStr ''KO'' \<and> jlist (jget j ''findings'') = []) \<and>
         \<not> (v2 \<and> strip (jtext (jget j ''interpretation'')) = []) \<and>
         \<not> (v2 \<and> verdict = JStr ''KO'' \<and> jlist (jget j ''hypotheses'') = []) \<and>
         \<not> (verdict = JStr ''INSUFFICIENT_CONTEXT'' \<and> jlist (jget j ''missing_context'') = []) \<and>
         bounded_entries (jlist (jget j ''missing_context'') @ jlist (jget j ''recommended_investigation'')))"

definition AiInferenceResult :: "env \<Rightarrow> validator" where
  "AiInferenceResult e = model
     [defaults ''analysis_version'' (JInt 1) (literal [JInt 1, JInt 2]),
      required ''verdict'' (literal (texts [''OK'', ''KO'', ''INSUFFICIENT_CONTEXT''])),
      required ''generated_at'' (any_time e),
      required ''model_id'' (str_field (sized 1 120)),
      required ''model_sha256'' sha256_field,
      defaults ''interpretation'' (JStr []) (str_field (sized 0 2000)),
      required ''summary'' (str_field (sized 1 1000)),
      defaults ''findings'' (JArr []) (list_field (AiInferenceFinding e) 0 16),
      defaults ''hypotheses'' (JArr []) (list_field (AiInferenceHypothesis e) 0 8),
      defaults ''missing_context'' (JArr []) (list_field any_text 0 16),
      defaults ''recommended_investigation'' (JArr []) (list_field any_text 0 16),
      required ''metrics'' (AiInferenceMetrics e)] validate_diagnostic_consistency"

section \<open>The registry\<close>

definition job_models :: "(string \<times> (env \<Rightarrow> validator) \<times> (env \<Rightarrow> validator)) list" where
  "job_models =
     [(''system.health'', SystemHealthParameters, SystemHealthResult),
      (''backup.compress'', BackupCompressParameters, BackupCompressResult),
      (''backup.encrypt'', BackupEncryptParameters, BackupEncryptResult),
      (''backup.verify'', BackupVerifyParameters, BackupVerifyResult),
      (''backup.infra'', InfraBackupParameters, InfraBackupResult),
      (''logs.health_check'', LogsHealthCheckParameters, LogsHealthCheckResult),
      (''logs.investigate'', LogsInvestigateParameters, LogsInvestigateResult),
      (''ai.inference'', AiInferenceParameters, AiInferenceResult),
      (''trends.history_backfill'', TrendsHistoryBackfillParameters, TrendsHistoryBackfillResult)]"

definition parameters_model :: "env \<Rightarrow> string \<Rightarrow> validator" where
  "parameters_model e job_type value =
     (case map_of job_models job_type of None \<Rightarrow> None | Some ms \<Rightarrow> fst ms e value)"

definition result_model :: "env \<Rightarrow> string \<Rightarrow> validator" where
  "result_model e job_type value =
     (case map_of job_models job_type of None \<Rightarrow> None | Some ms \<Rightarrow> snd ms e value)"

end
