(* ===== verification/Job_Types.thy ===== *)
theory Job_Types
  imports Job_Models
begin

text \<open>
  The vocabulary of the distributed job protocol: statuses and requests of
  contracts/administration.py, the finite type lists of jobs/job_types.py, the rows of
  jobs/schema.py and the settings that \<open>DistributedJobRepository.__init__\<close> accepts.
\<close>

section \<open>Statuses\<close>

datatype job_status =
    CREATED | QUEUED | WAITING_WORKER | RUNNING
  | SUCCEEDED | FAILED | CANCELLED | TIMEOUT

fun status_value :: "job_status \<Rightarrow> string" where
  "status_value CREATED = ''CREATED''"
| "status_value QUEUED = ''QUEUED''"
| "status_value WAITING_WORKER = ''WAITING_WORKER''"
| "status_value RUNNING = ''RUNNING''"
| "status_value SUCCEEDED = ''SUCCEEDED''"
| "status_value FAILED = ''FAILED''"
| "status_value CANCELLED = ''CANCELLED''"
| "status_value TIMEOUT = ''TIMEOUT''"

definition TERMINAL_STATUSES :: "job_status list" where
  "TERMINAL_STATUSES = [SUCCEEDED, FAILED, CANCELLED, TIMEOUT]"

definition terminal :: "job_status \<Rightarrow> bool" where
  "terminal s = (s \<in> set TERMINAL_STATUSES)"

lemma terminal_simps [simp]:
  "\<not> terminal CREATED" "\<not> terminal QUEUED" "\<not> terminal WAITING_WORKER" "\<not> terminal RUNNING"
  "terminal SUCCEEDED" "terminal FAILED" "terminal CANCELLED" "terminal TIMEOUT"
  by (simp_all add: terminal_def TERMINAL_STATUSES_def)

text \<open>The text of a status determines it, so the status column round-trips.\<close>

lemma status_value_inj [simp]: "status_value a = status_value b \<longleftrightarrow> a = b"
  by (cases a; cases b) simp_all

section \<open>Type lists\<close>

definition JOB_TYPE_MODELS :: "string list" where
  "JOB_TYPE_MODELS =
     [''system.health'', ''backup.compress'', ''backup.encrypt'', ''backup.verify'',
      ''backup.infra'', ''logs.health_check'', ''logs.investigate'', ''ai.inference'',
      ''trends.history_backfill'']"

definition AUTOMATIC_WAKE_JOB_TYPES :: "string list" where
  "AUTOMATIC_WAKE_JOB_TYPES =
     [''backup.infra'', ''logs.health_check'', ''logs.investigate'', ''ai.inference'']"

definition DEFERRED_TO_BATCH_JOB_TYPES :: "string list" where
  "DEFERRED_TO_BATCH_JOB_TYPES = [''logs.health_check'', ''logs.investigate'', ''ai.inference'']"

definition COMPLETION_PROCESSED_TYPES :: "string list" where
  "COMPLETION_PROCESSED_TYPES =
     [''logs.health_check'', ''logs.investigate'', ''ai.inference'', ''trends.history_backfill'']"

section \<open>Requests\<close>

text \<open>
  \<open>DistributedJobCreate\<close>. \<open>created_at\<close> keeps the offset it was sent with: the digest of the
  request covers its text.
\<close>

record job_create =
  cr_protocol_version :: int
  cr_job_id :: string
  cr_type :: string
  cr_created_at :: instant
  cr_created_offset :: int
  cr_parameters :: json
  cr_timeout :: int

definition job_create_dump :: "job_create \<Rightarrow> json" where
  "job_create_dump r = JObj
     [(''created_at'', JArr [JInt (cr_created_at r), JInt (cr_created_offset r)]),
      (''job_id'', JStr (cr_job_id r)),
      (''parameters'', cr_parameters r),
      (''protocol_version'', JInt (cr_protocol_version r)),
      (''timeout'', JInt (cr_timeout r)),
      (''type'', JStr (cr_type r))]"

lemma job_create_dump_inj: "job_create_dump a = job_create_dump b \<longleftrightarrow> a = b"
  by (cases a; cases b) (auto simp: job_create_dump_def)

text \<open>One part of \<open>[a-z][a-z0-9_]*\<close>, and the dotted pattern of a job type.\<close>

fun type_part :: "string \<Rightarrow> bool" where
  "type_part [] = False"
| "type_part (c # cs) =
     (lower_case c \<and> list_all (\<lambda>d. lower_case d \<or> digit d \<or> d = CHR ''_'') cs)"

definition type_pattern :: "string \<Rightarrow> bool" where
  "type_pattern s = (2 \<le> length (split_on CHR ''.'' s) \<and> list_all type_part (split_on CHR ''.'' s))"

definition job_create_ok :: "job_create \<Rightarrow> bool" where
  "job_create_ok r =
     (cr_protocol_version r = 1 \<and> type_pattern (cr_type r) \<and> 1 \<le> cr_timeout r \<and> cr_timeout r \<le> 86400)"

record job_error =
  err_code :: string
  err_message :: string
  err_retryable :: bool

record job_claim =
  cl_worker_id :: string
  cl_supported_types :: "string list"

record job_heartbeat =
  hb_worker_id :: string
  hb_attempt :: int
  hb_progress :: "json option"

record job_completion = job_heartbeat +
  co_status :: job_status
  co_result :: "json option"
  co_error :: "job_error option"

text \<open>\<open>DistributedJobCompletion\<close>: the two literals of its status and \<open>validate_terminal_payload\<close>.\<close>

definition validate_terminal_payload :: "job_completion \<Rightarrow> error + job_completion" where
  "validate_terminal_payload c =
     (if co_status c = SUCCEEDED then
        (if co_result c = None \<or> co_error c \<noteq> None
         then Inl (ValueError ''SUCCEEDED requires result and forbids error'') else Inr c)
      else if co_status c = FAILED then
        (if co_result c \<noteq> None \<or> co_error c = None
         then Inl (ValueError ''FAILED requires error and forbids result'') else Inr c)
      else Inl (ValueError ''status''))"

section \<open>Rows\<close>

record job_row =
  j_job_id :: string
  j_protocol_version :: int
  j_type :: string
  j_created_at :: instant
  j_parameters :: json
  j_timeout_seconds :: int
  j_status :: job_status
  j_started_at :: "instant option"
  j_finished_at :: "instant option"
  j_result :: "json option"
  j_result_sha256 :: "string option"
  j_error :: "job_error option"
  j_worker_id :: "string option"
  j_attempt :: int
  j_lease_expires_at :: "instant option"
  j_request_sha256 :: string
  j_updated_at :: instant
  j_progress :: "json option"
  j_completion_processed :: bool

record job_event =
  ev_event_id :: int
  ev_job_id :: string
  ev_occurred_at :: instant
  ev_previous_status :: "job_status option"
  ev_status :: job_status
  ev_detail :: string

datatype power_kind =
    WAKE_SENT | WAKE_FAILED | WAKE_TIMEOUT | WAKE_ABANDONED
  | WORKER_ONLINE | SHUTDOWN_GRANTED | SHUTDOWN_STARTED | SHUTDOWN_VETOED

record power_event =
  pe_event_id :: int
  pe_worker_id :: string
  pe_occurred_at :: instant
  pe_kind :: power_kind
  pe_detail :: json

record worker_row =
  w_worker_id :: string
  w_protocol_version :: int
  w_capabilities :: "string list"
  w_platform :: string
  w_worker_version :: string
  w_registered_at :: instant
  w_last_seen_at :: instant
  w_woken_by_ohana :: bool
  w_wake_requested_at :: "instant option"
  w_wake_deadline_at :: "instant option"
  w_wake_on_lan_mac_address :: "string option"
  w_runtimes :: "(string \<times> json) list option"
  w_runtimes_reported_at :: "instant option"
  w_host :: "json option"

datatype pairing_status = PENDING | APPROVED | CONSUMED | EXPIRED | REJECTED

record pairing_row =
  pr_pairing_id :: string
  pr_worker_id :: string
  pr_protocol_version :: int
  pr_capabilities :: "string list"
  pr_platform :: string
  pr_worker_version :: string
  pr_polling_secret_sha256 :: string
  pr_verification_code :: string
  pr_status :: pairing_status
  pr_created_at :: instant
  pr_expires_at :: instant
  pr_approved_at :: "instant option"
  pr_consumed_at :: "instant option"

record credential_row =
  cd_worker_id :: string
  cd_token_sha256 :: string
  cd_created_at :: instant
  cd_revoked_at :: "instant option"

text \<open>The database file: the six tables, and the AUTOINCREMENT counters of the two journals.\<close>

record jobdb =
  db_jobs :: "job_row list"
  db_events :: "job_event list"
  db_next_event :: int
  db_workers :: "worker_row list"
  db_power :: "power_event list"
  db_next_power :: int
  db_pairings :: "pairing_row list"
  db_credentials :: "credential_row list"

definition empty_db :: jobdb where
  "empty_db = \<lparr>db_jobs = [], db_events = [], db_next_event = 1, db_workers = [],
     db_power = [], db_next_power = 1, db_pairings = [], db_credentials = []\<rparr>"

text \<open>
  A public operation runs under the repository lock inside \<open>with self._connection\<close>: it either
  commits and returns, or raises and is rolled back. So it is a function of the database that
  gives an error, with the database unchanged, or a value and the new database.
\<close>

type_synonym 'a outcome = "error + 'a \<times> jobdb"

section \<open>Settings\<close>

record repo_config =
  lease_seconds :: int
  waiting_worker_after_seconds :: int
  retention_days :: int
  max_active_jobs :: int
  pairing_ttl_seconds :: int
  max_pending_pairings :: int
  worker_available_seconds :: int
  max_attempts :: int

definition default_config :: repo_config where
  "default_config = \<lparr>lease_seconds = 60, waiting_worker_after_seconds = 30, retention_days = 30,
     max_active_jobs = 1000, pairing_ttl_seconds = 600, max_pending_pairings = 10,
     worker_available_seconds = 30, max_attempts = 3\<rparr>"

text \<open>The checks of the constructor, in its order; the file is opened and initialised after them.\<close>

definition repo_init :: "repo_config \<Rightarrow> error + repo_config" where
  "repo_init c =
     (if lease_seconds c < 10 then Inl (ValueError ''lease_seconds must be at least 10'')
      else if waiting_worker_after_seconds c < 0
        then Inl (ValueError ''waiting_worker_after_seconds cannot be negative'')
      else if retention_days c < 1 then Inl (ValueError ''retention_days must be at least one'')
      else if max_active_jobs c < 1 then Inl (ValueError ''max_active_jobs must be at least one'')
      else if pairing_ttl_seconds c < 60 \<or> pairing_ttl_seconds c > 3600
        then Inl (ValueError ''pairing_ttl_seconds must be between 60 and 3600'')
      else if max_pending_pairings c < 1 \<or> max_pending_pairings c > 100
        then Inl (ValueError ''max_pending_pairings must be between 1 and 100'')
      else if worker_available_seconds c < 10 \<or> worker_available_seconds c > 600
        then Inl (ValueError ''worker_available_seconds must be between 10 and 600'')
      else if max_attempts c < 1 \<or> max_attempts c > 10
        then Inl (ValueError ''max_attempts must be between 1 and 10'')
      else Inr c)"

definition config_ok :: "repo_config \<Rightarrow> bool" where
  "config_ok c = (repo_init c = Inr c)"

lemma config_okD:
  assumes "config_ok c"
  shows "10 \<le> lease_seconds c" "0 \<le> waiting_worker_after_seconds c" "1 \<le> retention_days c"
    "1 \<le> max_active_jobs c" "60 \<le> pairing_ttl_seconds c" "1 \<le> max_pending_pairings c"
    "10 \<le> worker_available_seconds c" "1 \<le> max_attempts c"
  using assms by (auto simp: config_ok_def repo_init_def split: if_splits)

lemma default_config_ok [simp]: "config_ok default_config"
  by (simp add: config_ok_def repo_init_def default_config_def)

end
