(* ===== verification/Job_Store.thy ===== *)
theory Job_Store
  imports Job_Types
begin

text \<open>
  The locked helpers of jobs/repository.py: rows and their documents, the journal of
  transitions, the transition itself, the recovery that settles elapsed deadlines and lost
  leases, and the purge. Then what they do to the table of jobs and to the journal.
\<close>

section \<open>Rows of jobs and the journal\<close>

definition select_job :: "string \<Rightarrow> jobdb \<Rightarrow> job_row option" where
  "select_job job_id db = tbl_find j_job_id job_id (db_jobs db)"

definition select_required :: "string \<Rightarrow> jobdb \<Rightarrow> error + job_row" where
  "select_required job_id db =
     (case select_job job_id db of
        None \<Rightarrow> Inl (LookupError (''distributed job not found: '' @ job_id))
      | Some row \<Rightarrow> Inr row)"

definition update_job :: "string \<Rightarrow> (job_row \<Rightarrow> job_row) \<Rightarrow> jobdb \<Rightarrow> jobdb" where
  "update_job job_id f db = db\<lparr>db_jobs := tbl_update j_job_id job_id f (db_jobs db)\<rparr>"

interpretation jt: keyed_store db_jobs j_job_id select_job update_job
  by unfold_locales (simp_all add: select_job_def update_job_def)

definition event_locked ::
  "string \<Rightarrow> job_status option \<Rightarrow> job_status \<Rightarrow> instant \<Rightarrow> string \<Rightarrow> jobdb \<Rightarrow> jobdb" where
  "event_locked job_id previous status now detail db =
     db\<lparr>db_events := db_events db @
          [\<lparr>ev_event_id = db_next_event db, ev_job_id = job_id, ev_occurred_at = now,
            ev_previous_status = previous, ev_status = status, ev_detail = detail\<rparr>],
        db_next_event := db_next_event db + 1\<rparr>"

definition deadline :: "job_row \<Rightarrow> instant" where
  "deadline row = j_created_at row + seconds (j_timeout_seconds row)"

text \<open>\<open>DistributedJobDocument\<close>, and \<open>_document\<close>: the exposed result is masked.\<close>

record job_document =
  doc_protocol_version :: int
  doc_job_id :: string
  doc_type :: string
  doc_created_at :: instant
  doc_parameters :: json
  doc_timeout :: int
  doc_status :: job_status
  doc_started_at :: "instant option"
  doc_finished_at :: "instant option"
  doc_result :: "json option"
  doc_result_sha256 :: "string option"
  doc_error :: "job_error option"
  doc_worker_id :: "string option"
  doc_attempt :: int
  doc_lease_expires_at :: "instant option"
  doc_progress :: "json option"
  doc_shutdown_after_completion :: bool

text \<open>
  The view of a row. Its result is the stored text, masked and decoded again, so building the
  view raises when the masked text is no longer a document.
\<close>

definition row_view :: "bool \<Rightarrow> json option \<Rightarrow> job_row \<Rightarrow> job_document" where
  "row_view shutdown result row =
     \<lparr>doc_protocol_version = j_protocol_version row, doc_job_id = j_job_id row,
      doc_type = j_type row, doc_created_at = j_created_at row,
      doc_parameters = j_parameters row, doc_timeout = j_timeout_seconds row,
      doc_status = j_status row, doc_started_at = j_started_at row,
      doc_finished_at = j_finished_at row, doc_result = result,
      doc_result_sha256 = j_result_sha256 row, doc_error = j_error row,
      doc_worker_id = j_worker_id row, doc_attempt = j_attempt row,
      doc_lease_expires_at = j_lease_expires_at row, doc_progress = j_progress row,
      doc_shutdown_after_completion = shutdown\<rparr>"

definition document :: "bool \<Rightarrow> job_row \<Rightarrow> error + job_document" where
  "document shutdown row =
     (case j_result row of
        None \<Rightarrow> Inr (row_view shutdown None row)
      | Some r \<Rightarrow>
          (case stored_json r of
             Inl err \<Rightarrow> Inl err
           | Inr v \<Rightarrow> Inr (row_view shutdown (Some v) row)))"

text \<open>An operation that ends by returning a view inside its transaction.\<close>

definition returning :: "error + 'a \<Rightarrow> jobdb \<Rightarrow> 'a outcome" where
  "returning d db = (case d of Inl err \<Rightarrow> Inl err | Inr v \<Rightarrow> Inr (v, db))"

text \<open>\<open>self._document(row) if row is not None else None\<close>.\<close>

definition document_option :: "job_row option \<Rightarrow> error + job_document option" where
  "document_option r =
     (case r of
        None \<Rightarrow> Inr None
      | Some row \<Rightarrow> (case document False row of Inl err \<Rightarrow> Inl err | Inr d \<Rightarrow> Inr (Some d)))"

lemma document_no_result: "j_result row = None \<Longrightarrow> document s row = Inr (row_view s None row)"
  by (simp add: document_def)

lemma returning_Inr [simp]: "returning (Inr v) db = Inr (v, db)" "returning (Inl err) db = Inl err"
  by (simp_all add: returning_def)

section \<open>Transitions\<close>

record transition =
  tr_status :: job_status
  tr_detail :: string
  tr_finished_at :: "instant option"
  tr_clear_lease :: bool
  tr_clear_owner :: bool
  tr_error :: "job_error option"

text \<open>The UPDATE statement of \<open>_transition_locked\<close>, with its COALESCE and CASE expressions.\<close>

definition transition_row :: "transition \<Rightarrow> instant \<Rightarrow> job_row \<Rightarrow> job_row" where
  "transition_row t now row = row\<lparr>
     j_status := tr_status t,
     j_finished_at := (case tr_finished_at t of None \<Rightarrow> j_finished_at row | Some f \<Rightarrow> Some f),
     j_worker_id := (if tr_clear_owner t then None else j_worker_id row),
     j_lease_expires_at := (if tr_clear_lease t then None else j_lease_expires_at row),
     j_error := (case tr_error t of None \<Rightarrow> j_error row | Some x \<Rightarrow> Some x),
     j_updated_at := now\<rparr>"

definition transition_locked :: "job_row \<Rightarrow> transition \<Rightarrow> instant \<Rightarrow> jobdb \<Rightarrow> jobdb" where
  "transition_locked row t now db =
     (let db1 = update_job (j_job_id row) (transition_row t now) db;
          db2 = (if terminal (tr_status t) \<and> j_type row \<in> set [''ai.inference'', ''logs.investigate'']
                 then update_job (j_job_id row) (\<lambda>r. r\<lparr>j_completion_processed := False\<rparr>) db1
                 else db1)
      in event_locked (j_job_id row) (Some (j_status row)) (tr_status t) now (tr_detail t) db2)"

section \<open>Recovery\<close>

text \<open>The two French messages of recovery, in UTF-8.\<close>

definition worker_unavailable_message :: string where
  "worker_unavailable_message =
     ''Aucun worker Katsuyu n'a pris ce travail avant son '' @ [CHR 0xC3, CHR 0xA9] @ ''ch'' @
     [CHR 0xC3, CHR 0xA9] @ ''ance (Bubule '' @ [CHR 0xC3, CHR 0xA9] @ ''teint ou injoignable).''"

definition worker_interrupted_message :: "int \<Rightarrow> string" where
  "worker_interrupted_message attempt =
     ''Katsuyu s'est arr'' @ [CHR 0xC3, CHR 0xAA] @ ''t'' @ [CHR 0xC3, CHR 0xA9] @ '' '' @
     show_int attempt @ '' fois pendant ce travail (PC '' @ [CHR 0xC3, CHR 0xA9] @ ''teint, red'' @
     [CHR 0xC3, CHR 0xA9] @ ''marr'' @ [CHR 0xC3, CHR 0xA9] @ '' ou worker arr'' @
     [CHR 0xC3, CHR 0xAA] @ ''t'' @ [CHR 0xC3, CHR 0xA9] @ '') : abandon.''"

definition timeout_transition :: "job_row \<Rightarrow> instant \<Rightarrow> transition" where
  "timeout_transition row now =
     (let unclaimed = (j_attempt row = 0)
      in \<lparr>tr_status = TIMEOUT,
          tr_detail = (if unclaimed then ''no worker claimed the job before its timeout''
                       else ''job timeout elapsed''),
          tr_finished_at = Some now, tr_clear_lease = True, tr_clear_owner = False,
          tr_error = (if unclaimed
            then Some \<lparr>err_code = ''worker.unavailable'',
                       err_message = worker_unavailable_message, err_retryable = True\<rparr>
            else None)\<rparr>)"

definition give_up_transition :: "job_row \<Rightarrow> instant \<Rightarrow> transition" where
  "give_up_transition row now =
     \<lparr>tr_status = FAILED,
      tr_detail = ''worker lease expired on attempt '' @ show_int (j_attempt row) @ ''; giving up'',
      tr_finished_at = Some now, tr_clear_lease = True, tr_clear_owner = False,
      tr_error = Some \<lparr>err_code = ''worker.interrupted'',
                       err_message = worker_interrupted_message (j_attempt row),
                       err_retryable = False\<rparr>\<rparr>"

definition retry_transition :: "repo_config \<Rightarrow> job_row \<Rightarrow> transition" where
  "retry_transition cfg row =
     \<lparr>tr_status = QUEUED,
      tr_detail = ''worker lease expired; queued for retry (attempt '' @ show_int (j_attempt row) @
                  ''/'' @ show_int (max_attempts cfg) @ '')'',
      tr_finished_at = None, tr_clear_lease = True, tr_clear_owner = True, tr_error = None\<rparr>"

definition waiting_transition :: transition where
  "waiting_transition =
     \<lparr>tr_status = WAITING_WORKER, tr_detail = ''no compatible worker has claimed the job'',
      tr_finished_at = None, tr_clear_lease = False, tr_clear_owner = False, tr_error = None\<rparr>"

definition lease_lost :: "job_row \<Rightarrow> instant \<Rightarrow> bool" where
  "lease_lost row now =
     (j_status row = RUNNING \<and>
      (case j_lease_expires_at row of None \<Rightarrow> False | Some l \<Rightarrow> l \<le> now))"

text \<open>The body of the loop of \<open>_recover_locked\<close>: which transition one row takes, if any.\<close>

definition recover_decision :: "repo_config \<Rightarrow> instant \<Rightarrow> job_row \<Rightarrow> transition option" where
  "recover_decision cfg now row =
     (if deadline row \<le> now then Some (timeout_transition row now)
      else if lease_lost row now then
        (if j_attempt row \<ge> max_attempts cfg then Some (give_up_transition row now)
         else Some (retry_transition cfg row))
      else if j_status row = QUEUED \<and>
              j_created_at row + seconds (waiting_worker_after_seconds cfg) \<le> now
        then Some waiting_transition
      else None)"

definition recover_row :: "repo_config \<Rightarrow> instant \<Rightarrow> job_row \<Rightarrow> jobdb \<Rightarrow> jobdb" where
  "recover_row cfg now row db =
     (case recover_decision cfg now row of
        None \<Rightarrow> db
      | Some t \<Rightarrow> transition_locked row t now db)"

definition recoverable :: "job_row \<Rightarrow> bool" where
  "recoverable row = (j_status row \<in> set [QUEUED, WAITING_WORKER, RUNNING])"

definition purge_expired :: "env \<Rightarrow> repo_config \<Rightarrow> instant \<Rightarrow> job_row \<Rightarrow> bool" where
  "purge_expired e cfg now row =
     (terminal (j_status row) \<and>
      (case j_finished_at row of
         None \<Rightarrow> False
       | Some f \<Rightarrow> text_key e f < text_key e (now - days (retention_days cfg))))"

definition purge_locked :: "env \<Rightarrow> repo_config \<Rightarrow> instant \<Rightarrow> jobdb \<Rightarrow> jobdb" where
  "purge_locked e cfg now db =
     (let identifiers = map j_job_id (filter (purge_expired e cfg now) (db_jobs db))
      in if identifiers = [] then db
         else db\<lparr>db_events := filter (\<lambda>ev. ev_job_id ev \<notin> set identifiers) (db_events db),
                 db_jobs := filter (\<lambda>r. j_job_id r \<notin> set identifiers) (db_jobs db)\<rparr>)"

definition recover_locked :: "env \<Rightarrow> repo_config \<Rightarrow> instant \<Rightarrow> jobdb \<Rightarrow> jobdb" where
  "recover_locked e cfg now db =
     purge_locked e cfg now (fold (recover_row cfg now) (filter recoverable (db_jobs db)) db)"

section \<open>Ownership\<close>

definition require_attempt_owner :: "job_row \<Rightarrow> string \<Rightarrow> int \<Rightarrow> error + unit" where
  "require_attempt_owner row worker_id attempt =
     (if j_worker_id row \<noteq> Some worker_id \<or> j_attempt row \<noteq> attempt
      then Inl (ConflictError ''worker does not own this job attempt'') else Inr ())"

definition require_owner :: "job_row \<Rightarrow> string \<Rightarrow> int \<Rightarrow> error + unit" where
  "require_owner row worker_id attempt =
     (if j_status row \<noteq> RUNNING
      then Inl (ConflictError (''job is not running (current status: '' @
                               status_value (j_status row) @ '')''))
      else require_attempt_owner row worker_id attempt)"

definition validate_parameters :: "env \<Rightarrow> string \<Rightarrow> json \<Rightarrow> error + json" where
  "validate_parameters e job_type value =
     (if job_type \<notin> set JOB_TYPE_MODELS
      then Inl (ValueError (''unsupported distributed job type: '' @ job_type))
      else (case parameters_model e job_type value of
              None \<Rightarrow> Inl (ValueError ''parameters'') | Some p \<Rightarrow> Inr p))"

definition validate_result :: "env \<Rightarrow> string \<Rightarrow> json \<Rightarrow> error + json" where
  "validate_result e job_type value =
     (if job_type \<notin> set JOB_TYPE_MODELS
      then Inl (ValueError (''unsupported distributed job type: '' @ job_type))
      else (case result_model e job_type value of
              None \<Rightarrow> Inl (ValueError ''result'') | Some p \<Rightarrow> Inr p))"

definition same_completion ::
  "job_row \<Rightarrow> job_status \<Rightarrow> json option \<Rightarrow> job_error option \<Rightarrow> bool" where
  "same_completion row status result err =
     (j_status row = status \<and> j_result row = result \<and> j_error row = err)"

lemma require_owner_ok:
  "require_owner row w a = Inr u \<longleftrightarrow>
     j_status row = RUNNING \<and> j_worker_id row = Some w \<and> j_attempt row = a"
  by (auto simp: require_owner_def require_attempt_owner_def)

end
