(* ===== verification/Workers.thy ===== *)
theory Workers
  imports Job_Store
begin

text \<open>
  jobs/workers.py, \<open>DistributedWorkerRegistry\<close>: registration and identity migration, computed
  availability, the Wake-on-LAN cycle and its journal of power events, and the permission to
  shut an Ohana-woken worker down.
\<close>

section \<open>Workers and their documents\<close>

definition LATE_ANSWER_SECONDS :: int where "LATE_ANSWER_SECONDS = 1800"
definition POWER_EVENT_RETENTION :: nat where "POWER_EVENT_RETENTION = 200"
definition POWER_EVENTS_SHOWN :: nat where "POWER_EVENTS_SHOWN = 30"

datatype availability = AVAILABLE | UNAVAILABLE | WAKING

record worker_view =
  wd_protocol_version :: int
  wd_worker_id :: string
  wd_capabilities :: "string list"
  wd_platform :: string
  wd_worker_version :: string
  wd_wake_on_lan_mac_address :: "string option"
  wd_registered_at :: instant
  wd_last_seen_at :: instant
  wd_availability :: availability
  wd_woken_by_ohana :: bool
  wd_wake_requested_at :: "instant option"
  wd_wake_deadline_at :: "instant option"

definition select_worker :: "string \<Rightarrow> jobdb \<Rightarrow> worker_row option" where
  "select_worker worker_id db = tbl_find w_worker_id worker_id (db_workers db)"

definition update_worker :: "string \<Rightarrow> (worker_row \<Rightarrow> worker_row) \<Rightarrow> jobdb \<Rightarrow> jobdb" where
  "update_worker worker_id f db =
     db\<lparr>db_workers := tbl_update w_worker_id worker_id f (db_workers db)\<rparr>"

interpretation wt: keyed_store db_workers w_worker_id select_worker update_worker
  by unfold_locales (simp_all add: select_worker_def update_worker_def)

definition worker_not_found :: "string \<Rightarrow> error" where
  "worker_not_found worker_id = LookupError (''distributed worker not found: '' @ worker_id)"

definition touch_worker_locked :: "string \<Rightarrow> instant \<Rightarrow> jobdb \<Rightarrow> jobdb" where
  "touch_worker_locked worker_id now db = update_worker worker_id (\<lambda>w. w\<lparr>w_last_seen_at := now\<rparr>) db"

definition availability_of :: "repo_config \<Rightarrow> worker_row \<Rightarrow> instant \<Rightarrow> availability" where
  "availability_of cfg row now =
     (if now \<le> w_last_seen_at row + seconds (worker_available_seconds cfg) then AVAILABLE
      else case w_wake_deadline_at row of
             None \<Rightarrow> UNAVAILABLE
           | Some d \<Rightarrow> if now \<le> d then WAKING else UNAVAILABLE)"

definition worker_document :: "repo_config \<Rightarrow> worker_row \<Rightarrow> instant \<Rightarrow> worker_view" where
  "worker_document cfg row now =
     \<lparr>wd_protocol_version = w_protocol_version row, wd_worker_id = w_worker_id row,
      wd_capabilities = w_capabilities row, wd_platform = w_platform row,
      wd_worker_version = w_worker_version row,
      wd_wake_on_lan_mac_address = w_wake_on_lan_mac_address row,
      wd_registered_at = w_registered_at row, wd_last_seen_at = w_last_seen_at row,
      wd_availability = availability_of cfg row now,
      wd_woken_by_ohana = w_woken_by_ohana row,
      wd_wake_requested_at = w_wake_requested_at row,
      wd_wake_deadline_at = w_wake_deadline_at row\<rparr>"

section \<open>The journal of power events\<close>

definition worker_power :: "string \<Rightarrow> jobdb \<Rightarrow> power_event list" where
  "worker_power worker_id db = filter (\<lambda>p. pe_worker_id p = worker_id) (db_power db)"

text \<open>The INSERT, then the DELETE that keeps the newest entries of this worker only.\<close>

definition power_event_locked ::
  "string \<Rightarrow> power_kind \<Rightarrow> instant \<Rightarrow> json \<Rightarrow> jobdb \<Rightarrow> jobdb" where
  "power_event_locked worker_id kind now detail db =
     (let inserted = db_power db @
            [\<lparr>pe_event_id = db_next_power db, pe_worker_id = worker_id, pe_occurred_at = now,
              pe_kind = kind, pe_detail = detail\<rparr>];
          kept = map pe_event_id (take POWER_EVENT_RETENTION
            (order_desc pe_event_id (filter (\<lambda>p. pe_worker_id p = worker_id) inserted)))
      in db\<lparr>db_power := filter (\<lambda>p. \<not> (pe_worker_id p = worker_id \<and> pe_event_id p \<notin> set kept)) inserted,
            db_next_power := db_next_power db + 1\<rparr>)"

definition last_power :: "string \<Rightarrow> jobdb \<Rightarrow> power_event option" where
  "last_power worker_id db =
     (case order_desc pe_event_id (worker_power worker_id db) of
        [] \<Rightarrow> None | p # _ \<Rightarrow> Some p)"

definition power_events_locked :: "string \<Rightarrow> nat \<Rightarrow> jobdb \<Rightarrow> power_event list" where
  "power_events_locked worker_id limit db =
     take limit (order_desc pe_event_id (worker_power worker_id db))"

fun count_unanswered :: "power_kind list \<Rightarrow> int" where
  "count_unanswered [] = 0"
| "count_unanswered (k # ks) =
     (if k = WORKER_ONLINE \<or> k = WAKE_ABANDONED then 0
      else if k = WAKE_TIMEOUT then 1 + count_unanswered ks
      else count_unanswered ks)"

definition unanswered_wakes_locked :: "string \<Rightarrow> jobdb \<Rightarrow> int" where
  "unanswered_wakes_locked worker_id db =
     count_unanswered (map pe_kind (order_desc pe_event_id (worker_power worker_id db)))"

text \<open>\<open>_wake_stats_locked\<close>: one pass over the journal, oldest entry first.\<close>

record wake_stats =
  ws_attempts :: int
  ws_on_time :: int
  ws_late :: int
  ws_unanswered :: int
  ws_abandoned :: int
  ws_send_failures :: int
  ws_median_seconds :: "int option"
  ws_max_seconds :: "int option"
  ws_since :: "instant option"

record stats_state = wake_stats +
  ss_delays :: "int list"
  ss_timed_out :: bool

definition stats_init :: stats_state where
  "stats_init = \<lparr>ws_attempts = 0, ws_on_time = 0, ws_late = 0, ws_unanswered = 0,
     ws_abandoned = 0, ws_send_failures = 0, ws_median_seconds = None, ws_max_seconds = None,
     ws_since = None, ss_delays = [], ss_timed_out = False\<rparr>"

definition stats_online :: "json \<Rightarrow> stats_state \<Rightarrow> stats_state" where
  "stats_online detail s =
     (let answered_after_timeout = ss_timed_out s;
          s1 = s\<lparr>ss_timed_out := False\<rparr>
      in if jtrue (jget detail ''manual'') then s1
         else
           let s2 = s1\<lparr>ss_delays := ss_delays s1 @ [jint (jget detail ''after_seconds'')]\<rparr>
           in if jtrue (jget detail ''late'') then
                (let s3 = s2\<lparr>ws_late := ws_late s2 + 1\<rparr>
                 in if answered_after_timeout
                    then s3\<lparr>ws_unanswered := ws_unanswered s3 - 1\<rparr> else s3)
              else s2\<lparr>ws_on_time := ws_on_time s2 + 1\<rparr>)"

definition stats_step :: "power_event \<Rightarrow> stats_state \<Rightarrow> stats_state" where
  "stats_step p s =
     (let s0 = (if ws_since s = None then s\<lparr>ws_since := Some (pe_occurred_at p)\<rparr> else s)
      in case pe_kind p of
           WAKE_SENT \<Rightarrow> s0\<lparr>ws_attempts := ws_attempts s0 + 1\<rparr>
         | WAKE_FAILED \<Rightarrow> s0\<lparr>ws_send_failures := ws_send_failures s0 + 1\<rparr>
         | WAKE_TIMEOUT \<Rightarrow>
             s0\<lparr>ws_unanswered := ws_unanswered s0 + 1, ss_timed_out := True\<rparr>
         | WAKE_ABANDONED \<Rightarrow> s0\<lparr>ws_abandoned := ws_abandoned s0 + 1\<rparr>
         | WORKER_ONLINE \<Rightarrow> stats_online (pe_detail p) s0
         | _ \<Rightarrow> s0)"

definition wake_stats_of :: "power_event list \<Rightarrow> stats_state" where
  "wake_stats_of events =
     (let s = fold stats_step events stats_init
      in if ss_delays s = [] then s
         else let ordered = sort (ss_delays s)
              in s\<lparr>ws_median_seconds := Some (ordered ! (length ordered div 2)),
                   ws_max_seconds := Some (last ordered)\<rparr>)"

definition wake_stats_locked :: "string \<Rightarrow> jobdb \<Rightarrow> stats_state" where
  "wake_stats_locked worker_id db =
     wake_stats_of (sort_key pe_event_id (worker_power worker_id db))"

section \<open>Work around a worker\<close>

definition type_counts :: "job_row list \<Rightarrow> (string \<times> int) list" where
  "type_counts rows =
     map (\<lambda>t. (t, int (length (filter (\<lambda>r. j_type r = t) rows)))) (sort (remdups (map j_type rows)))"

definition claimable :: "job_row \<Rightarrow> bool" where
  "claimable row = (j_status row \<in> set [QUEUED, WAITING_WORKER])"

definition pending_jobs_locked :: "worker_row \<Rightarrow> jobdb \<Rightarrow> (string \<times> int) list" where
  "pending_jobs_locked worker db =
     type_counts (filter (\<lambda>r. claimable r \<and> j_type r \<in> set (w_capabilities worker)) (db_jobs db))"

definition counts_json :: "(string \<times> int) list \<Rightarrow> json" where
  "counts_json kvs = JObj (map (\<lambda>(k, n). (k, JInt n)) kvs)"

definition executed_since_locked :: "env \<Rightarrow> worker_row \<Rightarrow> jobdb \<Rightarrow> json" where
  "executed_since_locked e worker db =
     (case w_wake_requested_at worker of
        None \<Rightarrow> JObj [(''executed'', JObj []), (''failed'', JInt 0)]
      | Some since \<Rightarrow>
          let ran = filter (\<lambda>r. j_worker_id r = Some (w_worker_id worker) \<and>
                (case j_started_at r of None \<Rightarrow> False
                 | Some t \<Rightarrow> julianday e since \<le> julianday e t)) (db_jobs db)
          in JObj [(''executed'', counts_json (type_counts ran)),
                   (''failed'', JInt (int (length
                      (filter (\<lambda>r. j_status r \<in> set [FAILED, TIMEOUT]) ran))))])"

text \<open>Python's \<open>round\<close> of a duration to seconds: to the nearest, halves to the even second.\<close>

definition round_seconds :: "int \<Rightarrow> int" where
  "round_seconds d =
     (let q = d div 1000000; r = d mod 1000000
      in if r < 500000 then q else if r > 500000 then q + 1
         else if even q then q else q + 1)"

definition record_worker_online_locked ::
  "string \<Rightarrow> instant \<Rightarrow> instant \<Rightarrow> bool \<Rightarrow> jobdb \<Rightarrow> jobdb" where
  "record_worker_online_locked worker_id requested_at now expired db =
     (case last_power worker_id db of
        None \<Rightarrow> db
      | Some p \<Rightarrow>
          if pe_kind p \<notin> set [WAKE_SENT, WAKE_TIMEOUT, WAKE_ABANDONED] then db
          else
            let elapsed = max 0 (round_seconds (now - requested_at));
                detail =
                  (if expired \<or> pe_kind p \<noteq> WAKE_SENT then
                     (if elapsed \<le> LATE_ANSWER_SECONDS
                      then JObj [(''after_seconds'', JInt elapsed), (''late'', JBool True)]
                      else JObj [(''manual'', JBool True)])
                   else JObj [(''after_seconds'', JInt elapsed)])
            in power_event_locked worker_id WORKER_ONLINE now detail db)"

section \<open>Registration\<close>

definition upper_char :: "char \<Rightarrow> char" where
  "upper_char c = (if lower_case c then char_of (of_char c - 32 :: nat) else c)"

definition hex_digit :: "char \<Rightarrow> bool" where
  "hex_digit c = (c \<in> set ''0123456789ABCDEFabcdef'')"

definition mac_pattern :: "string \<Rightarrow> bool" where
  "mac_pattern s =
     (length (split_on CHR '':'' s) = 6 \<and>
      list_all (\<lambda>p. length p = 2 \<and> list_all hex_digit p) (split_on CHR '':'' s))"

definition normalize_wake_on_lan_mac_address :: "string option \<Rightarrow> error + string option" where
  "normalize_wake_on_lan_mac_address value =
     (case value of
        None \<Rightarrow> Inr None
      | Some v \<Rightarrow>
          let normalized = map (\<lambda>c. upper_char (if c = CHR ''-'' then CHR '':'' else c)) v
          in if mac_pattern normalized then Inr (Some normalized)
             else Inl (ValueError ''wake_on_lan_mac_address must use the AA:BB:CC:DD:EE:FF format''))"

record registration =
  rg_protocol_version :: int
  rg_worker_id :: string
  rg_capabilities :: "string list"
  rg_platform :: string
  rg_worker_version :: string
  rg_wake_on_lan_mac_address :: "string option"

fun join :: "string \<Rightarrow> string list \<Rightarrow> string" where
  "join sep [] = []"
| "join sep [x] = x"
| "join sep (x # y # ys) = x @ sep @ join sep (y # ys)"

definition unsupported_capabilities :: "string list \<Rightarrow> string list" where
  "unsupported_capabilities caps =
     sort (remdups (filter (\<lambda>c. c \<notin> set JOB_TYPE_MODELS) caps))"

definition migrate_worker_identity_locked :: "string \<Rightarrow> string \<Rightarrow> jobdb \<Rightarrow> error + jobdb" where
  "migrate_worker_identity_locked previous_worker_id worker_id db =
     (if tbl_find cd_worker_id worker_id (db_credentials db) \<noteq> None
        then Inl (ConflictError (''worker identity already exists: '' @ worker_id))
      else if tbl_find cd_worker_id previous_worker_id (db_credentials db) = None
        then Inl (worker_not_found previous_worker_id)
      else if select_worker worker_id db \<noteq> None
        then Inl (ConflictError (''worker identity already exists: '' @ worker_id))
      else Inr (db\<lparr>
        db_credentials := tbl_update cd_worker_id previous_worker_id
          (\<lambda>c. c\<lparr>cd_worker_id := worker_id\<rparr>) (db_credentials db),
        db_workers := tbl_update w_worker_id previous_worker_id
          (\<lambda>w. w\<lparr>w_worker_id := worker_id\<rparr>) (db_workers db),
        db_pairings := map (\<lambda>p. if pr_worker_id p = previous_worker_id
          then p\<lparr>pr_worker_id := worker_id\<rparr> else p) (db_pairings db),
        db_jobs := map (\<lambda>j. if j_worker_id j = Some previous_worker_id
          then j\<lparr>j_worker_id := Some worker_id\<rparr> else j) (db_jobs db)\<rparr>))"

text \<open>The INSERT with its ON CONFLICT clause: \<open>registered_at\<close> and the runtime columns are kept.\<close>

definition upsert_worker ::
  "registration \<Rightarrow> string list \<Rightarrow> string option \<Rightarrow> instant \<Rightarrow> instant \<Rightarrow> bool \<Rightarrow>
   instant option \<Rightarrow> instant option \<Rightarrow> jobdb \<Rightarrow> jobdb" where
  "upsert_worker g capabilities mac registered_at now woken requested deadline_at db =
     (if select_worker (rg_worker_id g) db = None then
        db\<lparr>db_workers := db_workers db @
          [\<lparr>w_worker_id = rg_worker_id g, w_protocol_version = rg_protocol_version g,
            w_capabilities = capabilities, w_platform = rg_platform g,
            w_worker_version = rg_worker_version g, w_registered_at = registered_at,
            w_last_seen_at = now, w_woken_by_ohana = woken, w_wake_requested_at = requested,
            w_wake_deadline_at = deadline_at, w_wake_on_lan_mac_address = mac,
            w_runtimes = None, w_runtimes_reported_at = None, w_host = None\<rparr>]\<rparr>
      else update_worker (rg_worker_id g) (\<lambda>w. w\<lparr>
            w_protocol_version := rg_protocol_version g, w_capabilities := capabilities,
            w_platform := rg_platform g, w_worker_version := rg_worker_version g,
            w_last_seen_at := now, w_woken_by_ohana := woken, w_wake_requested_at := requested,
            w_wake_deadline_at := deadline_at, w_wake_on_lan_mac_address := mac\<rparr>) db)"

definition register_body ::
  "repo_config \<Rightarrow> instant \<Rightarrow> registration \<Rightarrow> string list \<Rightarrow> jobdb \<Rightarrow> worker_view \<times> jobdb" where
  "register_body cfg now g capabilities db =
     (let existing = select_worker (rg_worker_id g) db;
          mac = (case rg_wake_on_lan_mac_address g of
                   Some m \<Rightarrow> Some m
                 | None \<Rightarrow> (case existing of
                     None \<Rightarrow> None
                   | Some w \<Rightarrow> (case w_wake_on_lan_mac_address w of
                       None \<Rightarrow> None | Some m \<Rightarrow> if m = [] then None else Some m)));
          registered_at = (case existing of None \<Rightarrow> now | Some w \<Rightarrow> w_registered_at w);
          existing_deadline = (case existing of None \<Rightarrow> None | Some w \<Rightarrow> w_wake_deadline_at w);
          existing_requested = (case existing of None \<Rightarrow> None | Some w \<Rightarrow> w_wake_requested_at w);
          waking = (case existing_deadline of None \<Rightarrow> False | Some d \<Rightarrow> now \<le> d);
          woken = ((case existing of None \<Rightarrow> False | Some w \<Rightarrow> w_woken_by_ohana w) \<and> waking);
          wake_requested_at = (if woken then existing_requested else None);
          wake_deadline_at = (if woken then existing_deadline else None);
          db1 = upsert_worker g capabilities mac registered_at now woken
                  wake_requested_at wake_deadline_at db;
          db2 = (case existing_requested of
                   None \<Rightarrow> db1
                 | Some requested \<Rightarrow>
                     record_worker_online_locked (rg_worker_id g) requested now
                       (case existing_deadline of None \<Rightarrow> False | Some d \<Rightarrow> d < now) db1)
      in (\<lparr>wd_protocol_version = rg_protocol_version g, wd_worker_id = rg_worker_id g,
           wd_capabilities = capabilities, wd_platform = rg_platform g,
           wd_worker_version = rg_worker_version g, wd_wake_on_lan_mac_address = mac,
           wd_registered_at = registered_at, wd_last_seen_at = now,
           wd_availability = AVAILABLE, wd_woken_by_ohana = woken,
           wd_wake_requested_at = wake_requested_at, wd_wake_deadline_at = wake_deadline_at\<rparr>, db2))"

definition register_worker ::
  "repo_config \<Rightarrow> instant \<Rightarrow> registration \<Rightarrow> string option \<Rightarrow> jobdb \<Rightarrow> worker_view outcome" where
  "register_worker cfg now g previous db =
     (let capabilities = sort (remdups (rg_capabilities g));
          unsupported = unsupported_capabilities capabilities
      in if unsupported \<noteq> []
           then Inl (ValueError (''unsupported worker capabilities: '' @ join '', '' unsupported))
         else
           case (case previous of
                   None \<Rightarrow> Inr db
                 | Some p \<Rightarrow> if p \<noteq> [] \<and> p \<noteq> rg_worker_id g
                             then migrate_worker_identity_locked p (rg_worker_id g) db else Inr db) of
             Inl err \<Rightarrow> Inl err
           | Inr db1 \<Rightarrow> Inr (register_body cfg now g capabilities db1))"

definition report_worker_runtimes ::
  "instant \<Rightarrow> string \<Rightarrow> (string \<times> json) list \<Rightarrow> json option \<Rightarrow> jobdb \<Rightarrow> (string \<times> json) list outcome" where
  "report_worker_runtimes now worker_id runtimes host db =
     (case select_worker worker_id db of
        None \<Rightarrow> Inl (worker_not_found worker_id)
      | Some row \<Rightarrow>
          let kept = filter (\<lambda>kv. fst kv \<in> set (w_capabilities row)) (sort_key fst runtimes)
          in Inr (kept, update_worker worker_id (\<lambda>w. w\<lparr>
                w_runtimes := Some kept, w_runtimes_reported_at := Some now,
                w_last_seen_at := now,
                w_host := (case host of None \<Rightarrow> w_host w | Some h \<Rightarrow> Some h)\<rparr>) db))"

section \<open>The wake cycle\<close>

definition mark_worker_waking ::
  "repo_config \<Rightarrow> instant \<Rightarrow> string \<Rightarrow> int \<Rightarrow> string \<Rightarrow> jobdb \<Rightarrow> worker_view outcome" where
  "mark_worker_waking cfg now worker_id timeout_seconds trigger db =
     (if timeout_seconds < 10 \<or> timeout_seconds > 1800
        then Inl (ValueError ''wake timeout must be between 10 and 1800 seconds'')
      else case select_worker worker_id db of
        None \<Rightarrow> Inl (worker_not_found worker_id)
      | Some row \<Rightarrow>
          if availability_of cfg row now = AVAILABLE then Inr (worker_document cfg row now, db)
          else
            let woken = (\<lambda>w. w\<lparr>w_woken_by_ohana := True, w_wake_requested_at := Some now,
                            w_wake_deadline_at := Some (now + seconds timeout_seconds)\<rparr>);
                db1 = update_worker worker_id woken db;
                detail = JObj
                  [(''attempt'', JInt (unanswered_wakes_locked worker_id db1 + 1)),
                   (''pending_jobs'', counts_json (pending_jobs_locked row db1)),
                   (''timeout_seconds'', JInt timeout_seconds), (''trigger'', JStr trigger)];
                db2 = power_event_locked worker_id WAKE_SENT now detail db1
            in Inr (worker_document cfg (woken row) now, db2))"

definition record_wake_failure ::
  "instant \<Rightarrow> string \<Rightarrow> string \<Rightarrow> string \<Rightarrow> jobdb \<Rightarrow> unit outcome" where
  "record_wake_failure now worker_id err trigger db =
     Inr ((), power_event_locked worker_id WAKE_FAILED now
       (JObj [(''error'', JStr (take 200 err)), (''trigger'', JStr trigger)]) db)"

definition worker_supports :: "string \<Rightarrow> string \<Rightarrow> jobdb \<Rightarrow> bool" where
  "worker_supports worker_id job_type db =
     (case select_worker worker_id db of
        None \<Rightarrow> False | Some w \<Rightarrow> job_type \<in> set (w_capabilities w))"

definition has_worker_capability :: "string \<Rightarrow> jobdb \<Rightarrow> bool" where
  "has_worker_capability job_type db =
     (job_type \<in> set JOB_TYPE_MODELS \<and>
      (\<exists>w \<in> set (db_workers db). job_type \<in> set (w_capabilities w)))"

definition worker_availability ::
  "repo_config \<Rightarrow> instant \<Rightarrow> string \<Rightarrow> jobdb \<Rightarrow> error + worker_view" where
  "worker_availability cfg now worker_id db =
     (case select_worker worker_id db of
        None \<Rightarrow> Inl (worker_not_found worker_id)
      | Some row \<Rightarrow> Inr (worker_document cfg row now))"

definition wake_candidate ::
  "env \<Rightarrow> repo_config \<Rightarrow> instant \<Rightarrow> string \<Rightarrow> int \<Rightarrow> string option \<Rightarrow> string option \<Rightarrow> jobdb \<Rightarrow>
   error + worker_view option" where
  "wake_candidate e cfg now job_type minimum_interval_seconds fallback_id fallback_mac db =
     (if minimum_interval_seconds < 0
        then Inl (ValueError ''minimum_interval_seconds cannot be negative'')
      else
        let compatible = map (\<lambda>w. worker_document cfg w now)
              (filter (\<lambda>w. job_type \<in> set (w_capabilities w))
                 (order_desc (\<lambda>w. julianday e (w_last_seen_at w)) (db_workers db)))
        in if \<exists>d \<in> set compatible. wd_availability d \<in> set [AVAILABLE, WAKING] then Inr None
           else if minimum_interval_seconds > 0 \<and>
             (\<exists>d \<in> set compatible. case wd_wake_requested_at d of
                 None \<Rightarrow> False | Some t \<Rightarrow> now < t + seconds minimum_interval_seconds)
             then Inr None
           else case find (\<lambda>d. wd_wake_on_lan_mac_address d \<noteq> None) compatible of
             Some d \<Rightarrow> Inr (Some d)
           | None \<Rightarrow>
               (case (fallback_id, fallback_mac) of
                  (Some fid, Some mac) \<Rightarrow>
                    (case find (\<lambda>d. wd_worker_id d = fid) compatible of
                       None \<Rightarrow> Inr None
                     | Some d \<Rightarrow> Inr (Some (d\<lparr>wd_wake_on_lan_mac_address := Some mac\<rparr>)))
                | _ \<Rightarrow> Inr None))"

definition min_created :: "env \<Rightarrow> job_row list \<Rightarrow> int \<times> int" where
  "min_created e rows =
     (case first_min (\<lambda>r. text_key e (j_created_at r)) rows of
        None \<Rightarrow> (0, 0) | Some r \<Rightarrow> text_key e (j_created_at r))"

definition wake_ready_rows ::
  "env \<Rightarrow> instant \<Rightarrow> string list option \<Rightarrow> instant option \<Rightarrow> instant option \<Rightarrow> jobdb \<Rightarrow> job_row list" where
  "wake_ready_rows e ready_at job_types created_after created_before db =
     filter (\<lambda>r. claimable r \<and> text_key e (j_created_at r) \<le> text_key e ready_at \<and>
        (case job_types of None \<Rightarrow> True | Some ts \<Rightarrow> j_type r \<in> set ts) \<and>
        (case created_after of None \<Rightarrow> True
         | Some a \<Rightarrow> text_key e a \<le> text_key e (j_created_at r)) \<and>
        (case created_before of None \<Rightarrow> True
         | Some b \<Rightarrow> text_key e (j_created_at r) \<le> text_key e b)) (db_jobs db)"

definition wake_ready_job_types ::
  "env \<Rightarrow> repo_config \<Rightarrow> instant \<Rightarrow> int \<Rightarrow> string list option \<Rightarrow> instant option \<Rightarrow> instant option \<Rightarrow>
   jobdb \<Rightarrow> string list outcome" where
  "wake_ready_job_types e cfg now batch_window_seconds job_types created_after created_before db =
     (if batch_window_seconds < 0 \<or> batch_window_seconds > 3600
        then Inl (ValueError ''batch_window_seconds must be between 0 and 3600'')
      else if job_types = Some [] then Inr ([], db)
      else
        let db1 = recover_locked e cfg now db;
            rows = wake_ready_rows e (now - seconds batch_window_seconds) job_types created_after created_before db1
        in Inr (sort_key (\<lambda>t. (min_created e (filter (\<lambda>r. j_type r = t) rows), t))
                  (remdups (map j_type rows)), db1))"

definition settle_wake :: "repo_config \<Rightarrow> instant \<Rightarrow> int \<Rightarrow> worker_row \<Rightarrow> jobdb \<Rightarrow> jobdb" where
  "settle_wake cfg now max_wakes row db =
     (case (last_power (w_worker_id row) db, w_wake_deadline_at row) of
        (Some p, Some d) \<Rightarrow>
          if pe_kind p \<noteq> WAKE_SENT \<or> now \<le> d \<or> availability_of cfg row now = AVAILABLE then db
          else
            let attempt = unanswered_wakes_locked (w_worker_id row) db + 1;
                pending = pending_jobs_locked row db;
                db1 = power_event_locked (w_worker_id row) WAKE_TIMEOUT d
                        (JObj [(''attempt'', JInt attempt)]) db
            in if max_wakes \<le> attempt \<and> pending \<noteq> []
               then power_event_locked (w_worker_id row) WAKE_ABANDONED now
                      (JObj [(''attempts'', JInt attempt), (''pending_jobs'', counts_json pending)]) db1
               else db1
      | _ \<Rightarrow> db)"

definition settle_unanswered_wakes :: "repo_config \<Rightarrow> instant \<Rightarrow> int \<Rightarrow> jobdb \<Rightarrow> jobdb" where
  "settle_unanswered_wakes cfg now max_wakes db =
     fold (settle_wake cfg now max_wakes)
       (filter (\<lambda>w. w_wake_deadline_at w \<noteq> None) (db_workers db)) db"

definition retry_due ::
  "repo_config \<Rightarrow> instant \<Rightarrow> int \<Rightarrow> int \<Rightarrow> jobdb \<Rightarrow> worker_row \<Rightarrow> bool" where
  "retry_due cfg now retry_delay_seconds max_wakes db row =
     ((case last_power (w_worker_id row) db of
         None \<Rightarrow> False
       | Some p \<Rightarrow> pe_kind p = WAKE_TIMEOUT \<and>
                   pe_occurred_at p + seconds retry_delay_seconds \<le> now) \<and>
      unanswered_wakes_locked (w_worker_id row) db < max_wakes \<and>
      pending_jobs_locked row db \<noteq> [] \<and>
      availability_of cfg row now = UNAVAILABLE)"

text \<open>The clock is read again after the settlement.\<close>

definition unanswered_wake_retry ::
  "repo_config \<Rightarrow> instant \<Rightarrow> instant \<Rightarrow> int \<Rightarrow> int \<Rightarrow> jobdb \<Rightarrow> worker_view option \<times> jobdb" where
  "unanswered_wake_retry cfg settle_now now retry_delay_seconds max_wakes db =
     (let db1 = settle_unanswered_wakes cfg settle_now max_wakes db
      in (map_option (\<lambda>w. worker_document cfg w now)
            (find (retry_due cfg now retry_delay_seconds max_wakes db1) (db_workers db1)), db1))"

section \<open>Credentials and shutdown\<close>

definition authorize_worker ::
  "env \<Rightarrow> string \<Rightarrow> string \<Rightarrow> string option \<Rightarrow> jobdb \<Rightarrow> bool" where
  "authorize_worker e worker_id token previous db =
     (let active = (\<lambda>w. find (\<lambda>c. cd_worker_id c = w \<and> cd_revoked_at c = None) (db_credentials db));
          row = (case active worker_id of
                   Some c \<Rightarrow> Some c
                 | None \<Rightarrow> (case previous of
                     None \<Rightarrow> None
                   | Some p \<Rightarrow> if p \<noteq> [] \<and> p \<noteq> worker_id then active p else None))
      in case row of None \<Rightarrow> False | Some c \<Rightarrow> cd_token_sha256 c = secret_digest e token)"

definition idle_blocked :: "worker_row \<Rightarrow> string \<Rightarrow> job_row \<Rightarrow> bool" where
  "idle_blocked worker worker_id row =
     (recoverable row \<and> (j_type row \<in> set (w_capabilities worker) \<or> j_worker_id row = Some worker_id) \<or>
      \<not> j_completion_processed row)"

definition idle_shutdown_locked ::
  "env \<Rightarrow> string \<Rightarrow> instant \<Rightarrow> jobdb \<Rightarrow> bool \<times> jobdb" where
  "idle_shutdown_locked e worker_id now db =
     (case select_worker worker_id db of
        None \<Rightarrow> (False, db)
      | Some row \<Rightarrow>
          if \<not> w_woken_by_ohana row then (False, db)
          else if \<exists>r \<in> set (db_jobs db). idle_blocked row worker_id r then (False, db)
          else case last_power worker_id db of
            Some p \<Rightarrow>
              if pe_kind p = SHUTDOWN_GRANTED then (True, db)
              else (True, power_event_locked worker_id SHUTDOWN_GRANTED now
                            (executed_since_locked e row db) db)
          | None \<Rightarrow> (True, power_event_locked worker_id SHUTDOWN_GRANTED now
                            (executed_since_locked e row db) db))"

datatype power_outcome = OutcomeStarted | OutcomeVetoed

fun outcome_kind :: "power_outcome \<Rightarrow> power_kind" where
  "outcome_kind OutcomeStarted = SHUTDOWN_STARTED"
| "outcome_kind OutcomeVetoed = SHUTDOWN_VETOED"

definition report_worker_power ::
  "instant \<Rightarrow> string \<Rightarrow> power_outcome \<Rightarrow> string option \<Rightarrow> int option \<Rightarrow> jobdb \<Rightarrow> unit outcome" where
  "report_worker_power now worker_id outcome reason sessions db =
     (case select_worker worker_id db of
        None \<Rightarrow> Inl (worker_not_found worker_id)
      | Some row \<Rightarrow>
          let detail = JObj ((case reason of None \<Rightarrow> [] | Some r \<Rightarrow> [(''reason'', JStr r)]) @
                             (case sessions of None \<Rightarrow> [] | Some n \<Rightarrow> [(''sessions'', JInt n)]));
              db1 = power_event_locked worker_id (outcome_kind outcome) now detail db
          in Inr ((), update_worker worker_id (\<lambda>w. w\<lparr>w_woken_by_ohana := False,
                w_wake_requested_at := None, w_wake_deadline_at := None\<rparr>) db1))"

definition should_shutdown_after_claim_locked ::
  "string \<Rightarrow> string \<Rightarrow> string list \<Rightarrow> jobdb \<Rightarrow> bool" where
  "should_shutdown_after_claim_locked worker_id job_id compatible_types db =
     (case select_worker worker_id db of
        None \<Rightarrow> False
      | Some row \<Rightarrow>
          w_woken_by_ohana row \<and>
          \<not> (\<exists>r \<in> set (db_jobs db). j_job_id r \<noteq> job_id \<and> claimable r \<and>
                j_type r \<in> set compatible_types))"

end
