(* ===== verification/Job_Repository.thy ===== *)
theory Job_Repository
  imports Workers
begin

text \<open>
  The public operations of jobs/repository.py, \<open>DistributedJobRepository\<close>, each as a function of
  the environment, the settings, the clock reading and the database.
\<close>

section \<open>Creation\<close>

text \<open>
  Before 05:00 in Paris a job of an automatic-wake type is kept alive until the 05:00 batch:
  \<open>now.replace(hour=5, ...)\<close> in the fixed offset of \<open>now\<close>.
\<close>

definition normalized_timeout :: "env \<Rightarrow> instant \<Rightarrow> job_create \<Rightarrow> int" where
  "normalized_timeout e now request =
     (if cr_type request \<in> set AUTOMATIC_WAKE_JOB_TYPES \<and> paris_hour e now < 5
      then max (cr_timeout request)
             ((paris_day_start e now + seconds (5 * 3600) - now) div 1000000 + 1)
      else cr_timeout request)"

definition request_digest :: "env \<Rightarrow> instant \<Rightarrow> job_create \<Rightarrow> json \<Rightarrow> string" where
  "request_digest e now request parameters =
     digest e (job_create_dump (request\<lparr>cr_parameters := parameters,
                                        cr_timeout := normalized_timeout e now request\<rparr>))"

definition new_job_row :: "env \<Rightarrow> instant \<Rightarrow> job_create \<Rightarrow> json \<Rightarrow> job_row" where
  "new_job_row e now request parameters =
     \<lparr>j_job_id = cr_job_id request, j_protocol_version = cr_protocol_version request,
      j_type = cr_type request, j_created_at = cr_created_at request,
      j_parameters = parameters, j_timeout_seconds = normalized_timeout e now request,
      j_status = QUEUED, j_started_at = None, j_finished_at = None, j_result = None,
      j_result_sha256 = None, j_error = None, j_worker_id = None, j_attempt = 0,
      j_lease_expires_at = None, j_request_sha256 = request_digest e now request parameters,
      j_updated_at = now, j_progress = None, j_completion_processed = True\<rparr>"

definition active_count :: "jobdb \<Rightarrow> int" where
  "active_count db = int (length (filter (\<lambda>r. \<not> terminal (j_status r)) (db_jobs db)))"

definition enqueue_job :: "job_row \<Rightarrow> instant \<Rightarrow> jobdb \<Rightarrow> jobdb" where
  "enqueue_job row now db =
     event_locked (j_job_id row) (Some CREATED) QUEUED now ''queued''
       (event_locked (j_job_id row) None CREATED now ''accepted''
          (db\<lparr>db_jobs := db_jobs db @ [row]\<rparr>))"

definition create ::
  "env \<Rightarrow> repo_config \<Rightarrow> instant \<Rightarrow> job_create \<Rightarrow> jobdb \<Rightarrow> job_document outcome" where
  "create e cfg now request db =
     (if \<not> job_create_ok request then Inl (ValueError ''request'')
      else case validate_parameters e (cr_type request) (cr_parameters request) of
        Inl err \<Rightarrow> Inl err
      | Inr parameters \<Rightarrow>
          if now + seconds (5 * 60) < cr_created_at request
            then Inl (ValueError ''created_at cannot be more than five minutes in the future'')
          else if cr_created_at request + seconds (cr_timeout request) \<le> now
            then Inl (ValueError ''job timeout has already elapsed'')
          else
            let db1 = recover_locked e cfg now db
            in case select_job (cr_job_id request) db1 of
                 Some existing \<Rightarrow>
                   if j_request_sha256 existing \<noteq> request_digest e now request parameters
                   then Inl (ConflictError ''job_id already exists with a different request'')
                   else returning (document False existing) db1
               | None \<Rightarrow>
                   if active_count db1 \<ge> max_active_jobs cfg
                   then Inl (ValueError ''distributed job active queue limit reached'')
                   else
                     let row = new_job_row e now request parameters
                     in returning (document False row) (enqueue_job row now db1))"

section \<open>Reads\<close>

text \<open>
  \<open>latest\<close> and \<open>latest_for_incident\<close> build their view after the transaction has committed, so
  the recovery they ran stays even when the view raises: their value is itself an error or a view.
\<close>

definition get :: "env \<Rightarrow> repo_config \<Rightarrow> instant \<Rightarrow> string \<Rightarrow> jobdb \<Rightarrow> job_document outcome" where
  "get e cfg now job_id db =
     (let db1 = recover_locked e cfg now db
      in case select_required job_id db1 of
           Inl err \<Rightarrow> Inl err | Inr row \<Rightarrow> returning (document False row) db1)"

definition unsupported_type :: "string \<Rightarrow> error" where
  "unsupported_type job_type = ValueError (''unsupported distributed job type: '' @ job_type)"

definition latest_successful_result :: "env \<Rightarrow> string \<Rightarrow> jobdb \<Rightarrow> error + json option" where
  "latest_successful_result e job_type db =
     (if job_type \<notin> set JOB_TYPE_MODELS then Inl (unsupported_type job_type)
      else case order_desc (\<lambda>r. map_option (text_key e) (j_finished_at r))
             (filter (\<lambda>r. j_type r = job_type \<and> j_status r = SUCCEEDED \<and> j_result r \<noteq> None)
                (db_jobs db)) of
        [] \<Rightarrow> Inr None
      | r # _ \<Rightarrow> (case j_result r of
          None \<Rightarrow> Inr None
        | Some v \<Rightarrow> (case stored_json v of Inl err \<Rightarrow> Inl err | Inr w \<Rightarrow> Inr (Some w))))"

definition newest_first :: "env \<Rightarrow> job_row list \<Rightarrow> job_row list" where
  "newest_first e rows = order_desc (\<lambda>r. (julianday e (j_created_at r), j_job_id r)) rows"

definition latest ::
  "env \<Rightarrow> repo_config \<Rightarrow> instant \<Rightarrow> string \<Rightarrow> jobdb \<Rightarrow> (error + job_document option) outcome" where
  "latest e cfg now job_type db =
     (if job_type \<notin> set JOB_TYPE_MODELS then Inl (unsupported_type job_type)
      else let db1 = recover_locked e cfg now db
           in case newest_first e (filter (\<lambda>r. j_type r = job_type) (db_jobs db1)) of
                [] \<Rightarrow> Inr (document_option None, db1)
              | r # _ \<Rightarrow> Inr (document_option (Some r), db1))"

definition targets_incident :: "string option \<Rightarrow> job_row \<Rightarrow> bool" where
  "targets_incident incident_id row =
     (jget (j_parameters row) ''incident_id'' =
      (case incident_id of None \<Rightarrow> JNull | Some i \<Rightarrow> JStr i))"

definition latest_for_incident ::
  "env \<Rightarrow> repo_config \<Rightarrow> instant \<Rightarrow> string \<Rightarrow> string option \<Rightarrow> job_status option \<Rightarrow> jobdb \<Rightarrow>
   (error + job_document option) outcome" where
  "latest_for_incident e cfg now job_type incident_id status db =
     (if job_type \<notin> set JOB_TYPE_MODELS then Inl (unsupported_type job_type)
      else
        let db1 = recover_locked e cfg now db;
            rows = take 100 (newest_first e (filter (\<lambda>r. j_type r = job_type \<and>
                     (case status of None \<Rightarrow> True | Some s \<Rightarrow> j_status r = s)) (db_jobs db1)))
        in Inr (document_option (find (targets_incident incident_id) rows), db1))"

definition active_for_incident ::
  "env \<Rightarrow> repo_config \<Rightarrow> instant \<Rightarrow> string \<Rightarrow> string option \<Rightarrow> jobdb \<Rightarrow> job_document option outcome" where
  "active_for_incident e cfg now job_type incident_id db =
     (if job_type \<notin> set JOB_TYPE_MODELS then Inl (unsupported_type job_type)
      else
        let db1 = recover_locked e cfg now db;
            rows = sort_key (\<lambda>r. julianday e (j_created_at r))
                     (filter (\<lambda>r. j_type r = job_type \<and> \<not> terminal (j_status r)) (db_jobs db1))
        in returning (document_option (find (targets_incident incident_id) rows)) db1)"

definition count :: "string \<Rightarrow> jobdb \<Rightarrow> error + int" where
  "count job_type db =
     (if job_type \<notin> set JOB_TYPE_MODELS then Inl (unsupported_type job_type)
      else Inr (int (length (filter (\<lambda>r. j_type r = job_type) (db_jobs db)))))"

record vitals_view =
  vi_by_status :: "(job_status \<times> int) list"
  vi_active :: int
  vi_max_active :: int
  vi_retention_days :: int
  vi_oldest_finished_at :: "instant option"
  vi_retention_overdue :: bool

definition vitals :: "env \<Rightarrow> repo_config \<Rightarrow> instant \<Rightarrow> jobdb \<Rightarrow> vitals_view" where
  "vitals e cfg now db =
     (let by_status = map (\<lambda>s. (s, int (length (filter (\<lambda>r. j_status r = s) (db_jobs db)))))
                        (remdups (map j_status (db_jobs db)));
          oldest = Option.bind (first_min (\<lambda>r. map_option (text_key e) (j_finished_at r))
                     (filter (\<lambda>r. terminal (j_status r) \<and> j_finished_at r \<noteq> None) (db_jobs db)))
                   j_finished_at
      in \<lparr>vi_by_status = by_status,
          vi_active = sum_list (map snd (filter (\<lambda>(s, _). \<not> terminal s) by_status)),
          vi_max_active = max_active_jobs cfg, vi_retention_days = retention_days cfg,
          vi_oldest_finished_at = oldest,
          vi_retention_overdue = (case oldest of None \<Rightarrow> False
             | Some t \<Rightarrow> t < now - days (retention_days cfg + 1))\<rparr>)"

section \<open>Cancellation\<close>

definition cancel_transition :: "instant \<Rightarrow> transition" where
  "cancel_transition now =
     \<lparr>tr_status = CANCELLED, tr_detail = ''cancelled by Tsunade'', tr_finished_at = Some now,
      tr_clear_lease = True, tr_clear_owner = False, tr_error = None\<rparr>"

definition cancel :: "env \<Rightarrow> repo_config \<Rightarrow> instant \<Rightarrow> string \<Rightarrow> jobdb \<Rightarrow> job_document outcome" where
  "cancel e cfg now job_id db =
     (let db1 = recover_locked e cfg now db
      in case select_required job_id db1 of
           Inl err \<Rightarrow> Inl err
         | Inr row \<Rightarrow>
             if j_status row = CANCELLED then returning (document False row) db1
             else if terminal (j_status row)
               then Inl (ConflictError (''job is already terminal with status '' @
                                        status_value (j_status row)))
             else
               let db2 = transition_locked row (cancel_transition now) now db1
               in (case select_required job_id db2 of
                     Inl err \<Rightarrow> Inl err | Inr row2 \<Rightarrow> returning (document False row2) db2))"

section \<open>Claims\<close>

definition compatible_types :: "job_claim \<Rightarrow> string list" where
  "compatible_types cl = filter (\<lambda>t. t \<in> set JOB_TYPE_MODELS) (cl_supported_types cl)"

definition dispatch_key :: "env \<Rightarrow> job_row \<Rightarrow> int \<times> string" where
  "dispatch_key e row = (julianday e (j_created_at row), j_job_id row)"

definition next_claimable :: "env \<Rightarrow> string list \<Rightarrow> jobdb \<Rightarrow> job_row option" where
  "next_claimable e types db =
     first_min (dispatch_key e) (filter (\<lambda>r. claimable r \<and> j_type r \<in> set types) (db_jobs db))"

definition lease_until :: "repo_config \<Rightarrow> instant \<Rightarrow> job_row \<Rightarrow> instant" where
  "lease_until cfg now row = min (deadline row) (now + seconds (lease_seconds cfg))"

definition claim_row :: "repo_config \<Rightarrow> instant \<Rightarrow> string \<Rightarrow> job_row \<Rightarrow> job_row" where
  "claim_row cfg now worker_id row = row\<lparr>
     j_status := RUNNING,
     j_started_at := (case j_started_at row of None \<Rightarrow> Some now | Some t \<Rightarrow> Some t),
     j_worker_id := Some worker_id,
     j_attempt := j_attempt row + 1,
     j_lease_expires_at := Some (lease_until cfg now row),
     j_updated_at := now\<rparr>"

definition claim_locked :: "repo_config \<Rightarrow> instant \<Rightarrow> string \<Rightarrow> job_row \<Rightarrow> jobdb \<Rightarrow> jobdb" where
  "claim_locked cfg now worker_id row db =
     event_locked (j_job_id row) (Some (j_status row)) RUNNING now
       (''claimed by '' @ worker_id @ ''; attempt '' @ show_int (j_attempt row + 1))
       (update_job (j_job_id row) (\<lambda>_. claim_row cfg now worker_id row) db)"

text \<open>The value: the claimed job if any, and the shutdown request of a settled poll.\<close>

definition claim ::
  "env \<Rightarrow> repo_config \<Rightarrow> instant \<Rightarrow> job_claim \<Rightarrow> bool \<Rightarrow> bool \<Rightarrow> jobdb \<Rightarrow>
   (job_document option \<times> bool) outcome" where
  "claim e cfg now cl shutdown_after_completion settle db =
     (let types = compatible_types cl; worker_id = cl_worker_id cl
      in if types = [] then Inr ((None, False), db)
         else
           let db1 = touch_worker_locked worker_id now (recover_locked e cfg now db)
           in case next_claimable e types db1 of
                None \<Rightarrow>
                  if settle then
                    (if shutdown_after_completion then
                       (case idle_shutdown_locked e worker_id now db1 of
                          (granted, db2) \<Rightarrow> Inr ((None, granted), db2))
                     else Inr ((None, False), db1))
                  else Inr ((None, False), db1)
              | Some row \<Rightarrow>
                  let db2 = claim_locked cfg now worker_id row db1;
                      should_shutdown =
                        (if shutdown_after_completion \<and> \<not> settle
                         then should_shutdown_after_claim_locked worker_id (j_job_id row) types db2
                         else False)
                  in (case select_required (j_job_id row) db2 of
                        Inl err \<Rightarrow> Inl err
                      | Inr row2 \<Rightarrow>
                          (case document should_shutdown row2 of
                             Inl err \<Rightarrow> Inl err | Inr d \<Rightarrow> Inr ((Some d, False), db2))))"

section \<open>Completions waiting for Tsunade\<close>

fun documents :: "job_row list \<Rightarrow> error + job_document list" where
  "documents [] = Inr []"
| "documents (r # rs) =
     (case document False r of
        Inl err \<Rightarrow> Inl err
      | Inr d \<Rightarrow> (case documents rs of Inl err \<Rightarrow> Inl err | Inr ds \<Rightarrow> Inr (d # ds)))"

definition pending_completions ::
  "env \<Rightarrow> repo_config \<Rightarrow> instant \<Rightarrow> bool \<Rightarrow> jobdb \<Rightarrow> job_document list outcome" where
  "pending_completions e cfg now failures_only db =
     (let db1 = recover_locked e cfg now db;
          rows = take 16 (sort_key (\<lambda>r. (map_option (julianday e) (j_finished_at r), j_job_id r))
            (filter (\<lambda>r. \<not> j_completion_processed r \<and>
               (\<not> failures_only \<or> j_status r \<in> set [FAILED, TIMEOUT, CANCELLED])) (db_jobs db1)))
      in returning (documents rows) db1)"

definition mark_completion_processed :: "string \<Rightarrow> jobdb \<Rightarrow> jobdb" where
  "mark_completion_processed job_id db =
     update_job job_id (\<lambda>r. r\<lparr>j_completion_processed := True\<rparr>) db"

section \<open>What the owning worker may do\<close>

definition authorize_job_transfer ::
  "env \<Rightarrow> repo_config \<Rightarrow> instant \<Rightarrow> string \<Rightarrow> string \<Rightarrow> int \<Rightarrow> string list \<Rightarrow> jobdb \<Rightarrow>
   job_document outcome" where
  "authorize_job_transfer e cfg now job_id worker_id attempt permitted_types db =
     (let db1 = recover_locked e cfg now db
      in case select_required job_id db1 of
           Inl err \<Rightarrow> Inl err
         | Inr row \<Rightarrow>
             (case require_owner row worker_id attempt of
                Inl err \<Rightarrow> Inl err
              | Inr _ \<Rightarrow>
                  if j_type row \<notin> set permitted_types
                  then Inl (ConflictError (''job type does not permit this transfer: '' @ j_type row))
                  else returning (document False row) (touch_worker_locked worker_id now db1)))"

definition heartbeat_row :: "repo_config \<Rightarrow> instant \<Rightarrow> json option \<Rightarrow> job_row \<Rightarrow> job_row" where
  "heartbeat_row cfg now progress row = row\<lparr>
     j_lease_expires_at := Some (lease_until cfg now row),
     j_progress := (case progress of None \<Rightarrow> j_progress row | Some p \<Rightarrow> Some p),
     j_updated_at := now\<rparr>"

definition heartbeat ::
  "env \<Rightarrow> repo_config \<Rightarrow> instant \<Rightarrow> string \<Rightarrow> job_heartbeat \<Rightarrow> jobdb \<Rightarrow> job_document outcome" where
  "heartbeat e cfg now job_id hb db =
     (let db1 = recover_locked e cfg now db
      in case select_required job_id db1 of
           Inl err \<Rightarrow> Inl err
         | Inr row \<Rightarrow>
             if j_status row \<in> set [CANCELLED, TIMEOUT] then
               (case require_attempt_owner row (hb_worker_id hb) (hb_attempt hb) of
                  Inl err \<Rightarrow> Inl err | Inr _ \<Rightarrow> returning (document False row) db1)
             else
               (case require_owner row (hb_worker_id hb) (hb_attempt hb) of
                  Inl err \<Rightarrow> Inl err
                | Inr _ \<Rightarrow>
                    let db2 = touch_worker_locked (hb_worker_id hb) now db1;
                        db3 = update_job job_id (\<lambda>_. heartbeat_row cfg now (hb_progress hb) row) db2
                    in (case select_required job_id db3 of
                          Inl err \<Rightarrow> Inl err
                        | Inr row3 \<Rightarrow> returning (document False row3) db3)))"

definition complete_row ::
  "env \<Rightarrow> instant \<Rightarrow> job_status \<Rightarrow> json option \<Rightarrow> job_error option \<Rightarrow> job_row \<Rightarrow> job_row" where
  "complete_row e now status result err row = row\<lparr>
     j_status := status, j_finished_at := Some now, j_result := result,
     j_result_sha256 := map_option (digest e) result, j_error := err,
     j_lease_expires_at := None, j_updated_at := now\<rparr>"

text \<open>The validated outcome of a completion: its result, or its error.\<close>

definition completion_outcome ::
  "env \<Rightarrow> job_row \<Rightarrow> job_completion \<Rightarrow> error + json option \<times> job_error option" where
  "completion_outcome e row co =
     (if co_status co = SUCCEEDED then
        (case co_result co of
           None \<Rightarrow> Inl (RuntimeError ''assert'')
         | Some r \<Rightarrow> (case validate_result e (j_type row) r of
             Inl err \<Rightarrow> Inl err | Inr v \<Rightarrow> Inr (Some v, None)))
      else
        (case co_error co of
           None \<Rightarrow> Inl (RuntimeError ''assert'') | Some x \<Rightarrow> Inr (None, Some x)))"

definition complete_locked ::
  "env \<Rightarrow> instant \<Rightarrow> job_row \<Rightarrow> job_completion \<Rightarrow> json option \<Rightarrow> job_error option \<Rightarrow> jobdb \<Rightarrow> jobdb" where
  "complete_locked e now row co result err db =
     (let db1 = (if j_type row \<in> set COMPLETION_PROCESSED_TYPES
                 then update_job (j_job_id row) (\<lambda>r. r\<lparr>j_completion_processed := False\<rparr>) db else db);
          db2 = update_job (j_job_id row) (complete_row e now (co_status co) result err) db1
      in event_locked (j_job_id row) (Some RUNNING) (co_status co) now
           (''completed by '' @ hb_worker_id co) db2)"

definition complete ::
  "env \<Rightarrow> repo_config \<Rightarrow> instant \<Rightarrow> string \<Rightarrow> job_completion \<Rightarrow> jobdb \<Rightarrow> job_document outcome" where
  "complete e cfg now job_id completion db =
     (case validate_terminal_payload completion of
        Inl err \<Rightarrow> Inl err
      | Inr co \<Rightarrow>
          let db1 = recover_locked e cfg now db
          in case select_required job_id db1 of
               Inl err \<Rightarrow> Inl err
             | Inr row \<Rightarrow>
                 (case completion_outcome e row co of
                    Inl err \<Rightarrow> Inl err
                  | Inr (result, error_value) \<Rightarrow>
                      if j_status row \<in> set [SUCCEEDED, FAILED] then
                        (if same_completion row (co_status co) result error_value
                         then returning (document False row) db1
                         else Inl (ConflictError ''job already has a different result''))
                      else
                        (case require_owner row (hb_worker_id co) (hb_attempt co) of
                           Inl err \<Rightarrow> Inl err
                         | Inr _ \<Rightarrow>
                             let db2 = complete_locked e now row co result error_value db1
                             in (case select_required job_id db2 of
                                   Inl err \<Rightarrow> Inl err
                                 | Inr row2 \<Rightarrow> returning (document False row2) db2))))"

end
