(* ===== verification/Pairings.thy ===== *)
theory Pairings
  imports Workers
begin

text \<open>
  jobs/pairings.py, \<open>DistributedWorkerPairings\<close>: pairing requests of unpaired installers,
  approved or rejected from Tsunade, and the credential that one poll obtains. The random
  values (pairing id, polling secret, verification code, token) are arguments.
\<close>

section \<open>Model\<close>

definition PAIRING_ALPHABET :: string where
  "PAIRING_ALPHABET = ''ABCDEFGHJKLMNPQRSTUVWXYZ23456789''"

definition select_pairing :: "string \<Rightarrow> jobdb \<Rightarrow> pairing_row option" where
  "select_pairing pairing_id db = tbl_find pr_pairing_id pairing_id (db_pairings db)"

definition update_pairing :: "string \<Rightarrow> (pairing_row \<Rightarrow> pairing_row) \<Rightarrow> jobdb \<Rightarrow> jobdb" where
  "update_pairing pairing_id f db =
     db\<lparr>db_pairings := tbl_update pr_pairing_id pairing_id f (db_pairings db)\<rparr>"

interpretation pt: keyed_store db_pairings pr_pairing_id select_pairing update_pairing
  by unfold_locales (simp_all add: select_pairing_def update_pairing_def)

definition pairing_required :: "string \<Rightarrow> jobdb \<Rightarrow> error + pairing_row" where
  "pairing_required pairing_id db =
     (case select_pairing pairing_id db of
        None \<Rightarrow> Inl (LookupError ''worker pairing not found'') | Some row \<Rightarrow> Inr row)"

definition pairing_active :: "pairing_row \<Rightarrow> bool" where
  "pairing_active p = (pr_status p \<in> set [PENDING, APPROVED])"

fun pairing_status_value :: "pairing_status \<Rightarrow> string" where
  "pairing_status_value PENDING = ''PENDING''"
| "pairing_status_value APPROVED = ''APPROVED''"
| "pairing_status_value CONSUMED = ''CONSUMED''"
| "pairing_status_value EXPIRED = ''EXPIRED''"
| "pairing_status_value REJECTED = ''REJECTED''"

text \<open>The UPDATE compares the stored texts of \<open>expires_at\<close> and of the clock.\<close>

definition expire_row :: "env \<Rightarrow> instant \<Rightarrow> pairing_row \<Rightarrow> pairing_row" where
  "expire_row e now p =
     (if pairing_active p \<and> text_key e (pr_expires_at p) \<le> text_key e now
      then p\<lparr>pr_status := EXPIRED\<rparr> else p)"

definition expire_pairings_locked :: "env \<Rightarrow> instant \<Rightarrow> jobdb \<Rightarrow> jobdb" where
  "expire_pairings_locked e now db = db\<lparr>db_pairings := map (expire_row e now) (db_pairings db)\<rparr>"

text \<open>\<open>DistributedWorkerPairingDocument\<close>: no secret and no credential in it.\<close>

record pairing_view =
  pd_pairing_id :: string
  pd_protocol_version :: int
  pd_worker_id :: string
  pd_capabilities :: "string list"
  pd_platform :: string
  pd_worker_version :: string
  pd_verification_code :: string
  pd_status :: pairing_status
  pd_created_at :: instant
  pd_expires_at :: instant

definition pairing_document :: "pairing_row \<Rightarrow> pairing_view" where
  "pairing_document row =
     \<lparr>pd_pairing_id = pr_pairing_id row, pd_protocol_version = pr_protocol_version row,
      pd_worker_id = pr_worker_id row, pd_capabilities = pr_capabilities row,
      pd_platform = pr_platform row, pd_worker_version = pr_worker_version row,
      pd_verification_code = pr_verification_code row, pd_status = pr_status row,
      pd_created_at = pr_created_at row, pd_expires_at = pr_expires_at row\<rparr>"

record pairing_created =
  pc_pairing_id :: string
  pc_polling_secret :: string
  pc_verification_code :: string
  pc_expires_at :: instant

definition verification_code :: "string \<Rightarrow> string" where
  "verification_code code_raw = take 4 code_raw @ ''-'' @ drop 4 code_raw"

definition new_pairing ::
  "env \<Rightarrow> repo_config \<Rightarrow> instant \<Rightarrow> registration \<Rightarrow> string \<Rightarrow> string \<Rightarrow> string \<Rightarrow> pairing_row" where
  "new_pairing e cfg now g pairing_id polling_secret code_raw =
     \<lparr>pr_pairing_id = pairing_id, pr_worker_id = rg_worker_id g,
      pr_protocol_version = rg_protocol_version g,
      pr_capabilities = sort (remdups (rg_capabilities g)), pr_platform = rg_platform g,
      pr_worker_version = rg_worker_version g,
      pr_polling_secret_sha256 = secret_digest e polling_secret,
      pr_verification_code = verification_code code_raw, pr_status = PENDING,
      pr_created_at = now, pr_expires_at = now + seconds (pairing_ttl_seconds cfg),
      pr_approved_at = None, pr_consumed_at = None\<rparr>"

definition create_pairing ::
  "env \<Rightarrow> repo_config \<Rightarrow> instant \<Rightarrow> registration \<Rightarrow> string \<Rightarrow> string \<Rightarrow> string \<Rightarrow> jobdb \<Rightarrow>
   pairing_created outcome" where
  "create_pairing e cfg now g pairing_id polling_secret code_raw db =
     (let unsupported = unsupported_capabilities (rg_capabilities g)
      in if unsupported \<noteq> []
           then Inl (ValueError (''unsupported worker capabilities: '' @ join '', '' unsupported))
         else
           let db1 = expire_pairings_locked e now db
           in if \<exists>p \<in> set (db_pairings db1). pr_worker_id p = rg_worker_id g \<and> pairing_active p
                then Inl (ConflictError ''an active pairing already exists for this worker'')
              else if int (length (filter pairing_active (db_pairings db1))) \<ge> max_pending_pairings cfg
                then Inl (ValueError ''worker pairing queue limit reached'')
              else if select_pairing pairing_id db1 \<noteq> None
                then Inl (RuntimeError ''UNIQUE constraint failed: pairing_id'')
              else
                let row = new_pairing e cfg now g pairing_id polling_secret code_raw
                in Inr (\<lparr>pc_pairing_id = pairing_id, pc_polling_secret = polling_secret,
                         pc_verification_code = pr_verification_code row,
                         pc_expires_at = pr_expires_at row\<rparr>,
                        db1\<lparr>db_pairings := db_pairings db1 @ [row]\<rparr>))"

definition list_pairings :: "env \<Rightarrow> instant \<Rightarrow> jobdb \<Rightarrow> pairing_view list outcome" where
  "list_pairings e now db =
     (let db1 = expire_pairings_locked e now db
      in Inr (map pairing_document
                (take 100 (order_desc (\<lambda>p. julianday e (pr_created_at p)) (db_pairings db1))), db1))"

definition approve_pairing ::
  "env \<Rightarrow> instant \<Rightarrow> string \<Rightarrow> jobdb \<Rightarrow> pairing_view outcome" where
  "approve_pairing e now pairing_id db =
     (let db1 = expire_pairings_locked e now db
      in case pairing_required pairing_id db1 of
           Inl err \<Rightarrow> Inl err
         | Inr row \<Rightarrow>
             if pr_status row = APPROVED then Inr (pairing_document row, db1)
             else if pr_status row \<noteq> PENDING
               then Inl (ConflictError (''pairing cannot be approved from '' @
                                        pairing_status_value (pr_status row)))
             else
               let approved = (\<lambda>p. p\<lparr>pr_status := APPROVED, pr_approved_at := Some now\<rparr>)
               in Inr (pairing_document (approved row), update_pairing pairing_id approved db1))"

definition reject_pairing ::
  "env \<Rightarrow> instant \<Rightarrow> string \<Rightarrow> jobdb \<Rightarrow> pairing_view outcome" where
  "reject_pairing e now pairing_id db =
     (let db1 = expire_pairings_locked e now db
      in case pairing_required pairing_id db1 of
           Inl err \<Rightarrow> Inl err
         | Inr row \<Rightarrow>
             if pr_status row = REJECTED then Inr (pairing_document row, db1)
             else if \<not> pairing_active row
               then Inl (ConflictError (''pairing cannot be rejected from '' @
                                        pairing_status_value (pr_status row)))
             else
               let rejected = (\<lambda>p. p\<lparr>pr_status := REJECTED\<rparr>)
               in Inr (pairing_document (rejected row), update_pairing pairing_id rejected db1))"

text \<open>The INSERT of a credential with its ON CONFLICT clause.\<close>

definition put_credential :: "string \<Rightarrow> string \<Rightarrow> instant \<Rightarrow> jobdb \<Rightarrow> jobdb" where
  "put_credential worker_id token_sha256 now db =
     (if tbl_find cd_worker_id worker_id (db_credentials db) = None then
        db\<lparr>db_credentials := db_credentials db @
          [\<lparr>cd_worker_id = worker_id, cd_token_sha256 = token_sha256, cd_created_at = now,
            cd_revoked_at = None\<rparr>]\<rparr>
      else db\<lparr>db_credentials := tbl_update cd_worker_id worker_id (\<lambda>c. c\<lparr>
            cd_token_sha256 := token_sha256, cd_created_at := now, cd_revoked_at := None\<rparr>)
            (db_credentials db)\<rparr>)"

record pairing_result =
  po_pairing_id :: string
  po_status :: pairing_status
  po_expires_at :: instant
  po_worker_token :: "string option"

definition poll_pairing ::
  "env \<Rightarrow> instant \<Rightarrow> string \<Rightarrow> string \<Rightarrow> string \<Rightarrow> jobdb \<Rightarrow> pairing_result outcome" where
  "poll_pairing e now pairing_id polling_secret fresh_token db =
     (let db1 = expire_pairings_locked e now db
      in case pairing_required pairing_id db1 of
           Inl err \<Rightarrow> Inl err
         | Inr row \<Rightarrow>
             if pr_polling_secret_sha256 row \<noteq> secret_digest e polling_secret
               then Inl (LookupError ''worker pairing not found'')
             else if pr_status row = APPROVED then
               let db2 = put_credential (pr_worker_id row) (secret_digest e fresh_token) now db1;
                   consumed = (\<lambda>p. p\<lparr>pr_status := CONSUMED, pr_consumed_at := Some now\<rparr>)
               in Inr (\<lparr>po_pairing_id = pairing_id, po_status = CONSUMED,
                        po_expires_at = pr_expires_at row, po_worker_token = Some fresh_token\<rparr>,
                       update_pairing pairing_id consumed db2)
             else Inr (\<lparr>po_pairing_id = pairing_id, po_status = pr_status row,
                        po_expires_at = pr_expires_at row, po_worker_token = None\<rparr>, db1))"

end
