(* ===== verification/Job_Recovery.thy ===== *)
theory Job_Recovery
  imports Job_Store
begin

text \<open>
  What recovery does to the table: the loop over a snapshot of the active rows is one pointwise
  function of the table followed by the purge, it never touches the worker tables, and after it
  no active job is past its deadline and no running job is past its lease.
\<close>

section \<open>Frames\<close>

definition ids :: "jobdb \<Rightarrow> string list" where
  "ids db = map j_job_id (db_jobs db)"

lemma event_locked_frame [simp]:
  "db_jobs (event_locked k p s now d db) = db_jobs db"
  "db_workers (event_locked k p s now d db) = db_workers db"
  "db_power (event_locked k p s now d db) = db_power db"
  "db_next_power (event_locked k p s now d db) = db_next_power db"
  "db_pairings (event_locked k p s now d db) = db_pairings db"
  "db_credentials (event_locked k p s now d db) = db_credentials db"
  by (simp_all add: event_locked_def)

lemma update_job_frame [simp]:
  "db_events (update_job k f db) = db_events db"
  "db_next_event (update_job k f db) = db_next_event db"
  "db_workers (update_job k f db) = db_workers db"
  "db_power (update_job k f db) = db_power db"
  "db_next_power (update_job k f db) = db_next_power db"
  "db_pairings (update_job k f db) = db_pairings db"
  "db_credentials (update_job k f db) = db_credentials db"
  by (simp_all add: update_job_def)

lemma transition_row_id [simp]: "j_job_id (transition_row t now r) = j_job_id r"
  by (simp add: transition_row_def)

text \<open>What a transition of the snapshot row \<open>a\<close> makes of a row of the table.\<close>

definition settle_row :: "job_row \<Rightarrow> transition \<Rightarrow> instant \<Rightarrow> job_row \<Rightarrow> job_row" where
  "settle_row a t now r =
     (if terminal (tr_status t) \<and> j_type a \<in> set [''ai.inference'', ''logs.investigate'']
      then (transition_row t now r)\<lparr>j_completion_processed := False\<rparr>
      else transition_row t now r)"

lemma settle_row_id [simp]: "j_job_id (settle_row a t now r) = j_job_id r"
  by (simp add: settle_row_def)

lemma settle_row_simps [simp]:
  "j_status (settle_row a t now r) = tr_status t"
  "j_attempt (settle_row a t now r) = j_attempt r"
  "j_type (settle_row a t now r) = j_type r"
  "j_created_at (settle_row a t now r) = j_created_at r"
  "j_timeout_seconds (settle_row a t now r) = j_timeout_seconds r"
  "j_request_sha256 (settle_row a t now r) = j_request_sha256 r"
  "j_parameters (settle_row a t now r) = j_parameters r"
  "j_result (settle_row a t now r) = j_result r"
  "j_result_sha256 (settle_row a t now r) = j_result_sha256 r"
  "j_started_at (settle_row a t now r) = j_started_at r"
  "j_progress (settle_row a t now r) = j_progress r"
  "j_finished_at (settle_row a t now r) =
     (case tr_finished_at t of None \<Rightarrow> j_finished_at r | Some f \<Rightarrow> Some f)"
  "j_worker_id (settle_row a t now r) = (if tr_clear_owner t then None else j_worker_id r)"
  "j_lease_expires_at (settle_row a t now r) = (if tr_clear_lease t then None else j_lease_expires_at r)"
  "j_error (settle_row a t now r) = (case tr_error t of None \<Rightarrow> j_error r | Some x \<Rightarrow> Some x)"
  by (simp_all add: settle_row_def transition_row_def)

lemma deadline_settle_row [simp]: "deadline (settle_row a t now r) = deadline r"
  by (simp add: deadline_def)

lemma jobs_transition_locked:
  "db_jobs (transition_locked a t now db) =
     tbl_update j_job_id (j_job_id a) (settle_row a t now) (db_jobs db)"
  by (auto simp: transition_locked_def Let_def update_job_def tbl_update_def settle_row_def)

lemma transition_locked_frame [simp]:
  "db_workers (transition_locked a t now db) = db_workers db"
  "db_power (transition_locked a t now db) = db_power db"
  "db_next_power (transition_locked a t now db) = db_next_power db"
  "db_pairings (transition_locked a t now db) = db_pairings db"
  "db_credentials (transition_locked a t now db) = db_credentials db"
  by (simp_all add: transition_locked_def Let_def)

lemma ids_transition_locked [simp]: "ids (transition_locked a t now db) = ids db"
  by (simp add: ids_def jobs_transition_locked tbl_update_keys)

lemma ids_recover_row [simp]: "ids (recover_row cfg now a db) = ids db"
  by (simp add: recover_row_def split: option.splits)

lemma recover_row_frame [simp]:
  "db_workers (recover_row cfg now a db) = db_workers db"
  "db_power (recover_row cfg now a db) = db_power db"
  "db_next_power (recover_row cfg now a db) = db_next_power db"
  "db_pairings (recover_row cfg now a db) = db_pairings db"
  "db_credentials (recover_row cfg now a db) = db_credentials db"
  by (simp_all add: recover_row_def split: option.splits)

lemma recover_fold_frame [simp]:
  "db_workers (fold (recover_row cfg now) rs db) = db_workers db"
  "db_power (fold (recover_row cfg now) rs db) = db_power db"
  "db_next_power (fold (recover_row cfg now) rs db) = db_next_power db"
  "db_pairings (fold (recover_row cfg now) rs db) = db_pairings db"
  "db_credentials (fold (recover_row cfg now) rs db) = db_credentials db"
  "ids (fold (recover_row cfg now) rs db) = ids db"
  by (induction rs arbitrary: db) simp_all

lemma purge_locked_frame [simp]:
  "db_workers (purge_locked e cfg now db) = db_workers db"
  "db_power (purge_locked e cfg now db) = db_power db"
  "db_next_power (purge_locked e cfg now db) = db_next_power db"
  "db_pairings (purge_locked e cfg now db) = db_pairings db"
  "db_credentials (purge_locked e cfg now db) = db_credentials db"
  by (simp_all add: purge_locked_def Let_def)

lemma recover_locked_frame [simp]:
  "db_workers (recover_locked e cfg now db) = db_workers db"
  "db_power (recover_locked e cfg now db) = db_power db"
  "db_next_power (recover_locked e cfg now db) = db_next_power db"
  "db_pairings (recover_locked e cfg now db) = db_pairings db"
  "db_credentials (recover_locked e cfg now db) = db_credentials db"
  by (simp_all add: recover_locked_def)

section \<open>Recovery as a pointwise function\<close>

definition recovered_row :: "repo_config \<Rightarrow> instant \<Rightarrow> job_row \<Rightarrow> job_row" where
  "recovered_row cfg now r =
     (if recoverable r then
        (case recover_decision cfg now r of None \<Rightarrow> r | Some t \<Rightarrow> settle_row r t now r)
      else r)"

lemma recovered_row_id [simp]: "j_job_id (recovered_row cfg now r) = j_job_id r"
  by (simp add: recovered_row_def split: option.splits)

definition row_action :: "repo_config \<Rightarrow> instant \<Rightarrow> job_row \<Rightarrow> job_row \<Rightarrow> job_row" where
  "row_action cfg now a r =
     (case recover_decision cfg now a of None \<Rightarrow> r | Some t \<Rightarrow> settle_row a t now r)"

lemma row_action_id [simp]: "j_job_id (row_action cfg now a r) = j_job_id r"
  by (simp add: row_action_def split: option.splits)

lemma jobs_recover_row:
  "db_jobs (recover_row cfg now a db) =
     tbl_update j_job_id (j_job_id a) (row_action cfg now a) (db_jobs db)"
  by (cases "recover_decision cfg now a")
     (simp_all add: recover_row_def row_action_def[abs_def] jobs_transition_locked tbl_update_def)

lemma jobs_recover_fold:
  "db_jobs (fold (recover_row cfg now) rs db) =
     fold (\<lambda>a. tbl_update j_job_id (j_job_id a) (row_action cfg now a)) rs (db_jobs db)"
  by (induction rs arbitrary: db) (simp_all add: jobs_recover_row)

lemma jobs_recover_loop:
  assumes "distinct (ids db)"
  shows "db_jobs (fold (recover_row cfg now) (filter recoverable (db_jobs db)) db) =
    map (recovered_row cfg now) (db_jobs db)"
proof -
  have "db_jobs (fold (recover_row cfg now) (filter recoverable (db_jobs db)) db) =
    map (\<lambda>r. if recoverable r then row_action cfg now r r else r) (db_jobs db)"
    unfolding jobs_recover_fold
    by (rule fold_tbl_update_filter) (use assms in \<open>simp_all add: ids_def\<close>)
  then show ?thesis by (simp add: recovered_row_def row_action_def)
qed

lemma purge_rows:
  assumes "distinct (ids db)"
  shows "db_jobs (purge_locked e cfg now db) =
    filter (\<lambda>r. \<not> purge_expired e cfg now r) (db_jobs db)"
proof -
  have "j_job_id r \<in> set (map j_job_id (filter (purge_expired e cfg now) (db_jobs db))) \<longleftrightarrow>
      purge_expired e cfg now r" if "r \<in> set (db_jobs db)" for r
    using assms that by (auto simp: ids_def distinct_map inj_on_def)
  then show ?thesis
    by (auto simp: purge_locked_def Let_def intro!: filter_cong)
       (auto simp: filter_empty_conv intro!: filter_True[symmetric])
qed

lemma jobs_recover_locked:
  assumes "distinct (ids db)"
  shows "db_jobs (recover_locked e cfg now db) =
    filter (\<lambda>r. \<not> purge_expired e cfg now r) (map (recovered_row cfg now) (db_jobs db))"
proof -
  let ?db = "fold (recover_row cfg now) (filter recoverable (db_jobs db)) db"
  have "distinct (ids ?db)" using assms by simp
  then show ?thesis
    by (simp add: recover_locked_def purge_rows jobs_recover_loop[OF assms])
qed

lemma distinct_ids_recover:
  "distinct (ids db) \<Longrightarrow> distinct (ids (recover_locked e cfg now db))"
  by (simp add: ids_def jobs_recover_locked[unfolded ids_def] comp_def distinct_map_filter)

text \<open>An induction over the loop: the row that an iteration handles is still in the table.\<close>

lemma recover_fold_induct:
  assumes step: "\<And>a db. P db \<Longrightarrow> distinct (ids db) \<Longrightarrow> a \<in> set (db_jobs db) \<Longrightarrow> recoverable a \<Longrightarrow>
      P (recover_row cfg now a db)"
    and "P db" and "distinct (ids db)"
  shows "P (fold (recover_row cfg now) (filter recoverable (db_jobs db)) db)"
proof -
  have "P (fold (recover_row cfg now) rs db)"
    if "P db" "distinct (ids db)" "distinct (map j_job_id rs)" "set rs \<subseteq> set (db_jobs db)"
      "\<forall>r \<in> set rs. recoverable r" for rs db
    using that
  proof (induction rs arbitrary: db)
    case Nil
    then show ?case by simp
  next
    case (Cons a rs)
    have "set rs \<subseteq> set (db_jobs (recover_row cfg now a db))"
    proof
      fix r assume r: "r \<in> set rs"
      with Cons.prems(4) have "r \<in> set (db_jobs db)" by auto
      moreover from Cons.prems(3) have "j_job_id a \<notin> j_job_id ` set rs" by simp
      with r have "j_job_id r \<noteq> j_job_id a" by (metis imageI)
      ultimately show "r \<in> set (db_jobs (recover_row cfg now a db))"
        by (auto simp: jobs_recover_row set_tbl_update intro!: bexI[of _ r])
    qed
    with Cons step show ?case by simp
  qed
  moreover have "distinct (map j_job_id (filter recoverable (db_jobs db)))"
    using assms(3) by (simp add: ids_def distinct_map_filter)
  ultimately show ?thesis using assms(2,3) by auto
qed

section \<open>After recovery\<close>

lemma recoverable_cases:
  "recoverable r \<longleftrightarrow> j_status r = QUEUED \<or> j_status r = WAITING_WORKER \<or> j_status r = RUNNING"
  by (auto simp: recoverable_def)

lemma recover_decision_cases:
  assumes "recover_decision cfg now r = Some t"
  obtains "deadline r \<le> now" "t = timeout_transition r now"
  | "now < deadline r" "lease_lost r now" "max_attempts cfg \<le> j_attempt r" "t = give_up_transition r now"
  | "now < deadline r" "lease_lost r now" "j_attempt r < max_attempts cfg" "t = retry_transition cfg r"
  | "now < deadline r" "\<not> lease_lost r now" "j_status r = QUEUED" "t = waiting_transition"
  using assms by (auto simp: recover_decision_def split: if_splits)

lemmas transition_defs =
  timeout_transition_def give_up_transition_def retry_transition_def waiting_transition_def Let_def

lemma recovered_row_settled:
  assumes "recoverable (recovered_row cfg now r)"
  shows "now < deadline (recovered_row cfg now r)" "\<not> lease_lost (recovered_row cfg now r) now"
  using assms
  by (auto simp: recovered_row_def recover_decision_def transition_defs recoverable_cases lease_lost_def
      split: option.splits if_splits)

lemma recover_locked_settled:
  assumes "distinct (ids db)" and "r \<in> set (db_jobs (recover_locked e cfg now db))" and "recoverable r"
  shows "now < deadline r \<and> \<not> lease_lost r now"
  using assms recovered_row_settled[of cfg now] by (auto simp: jobs_recover_locked)

end
