(* ===== verification/Job_Operations.thy ===== *)
theory Job_Operations
  imports Job_Repository Pairings Job_Recovery
begin

text \<open>
  The control plane as a state machine: one constructor per public operation, its execution on
  the database (an operation that raises is rolled back), and the reachable databases. The
  locale \<open>job_invariant\<close> states what an invariant of the jobs owes to the few statements that
  write them; every operation then keeps it, whatever the operation is.
\<close>

section \<open>Operations and reachable databases\<close>

datatype repo_op =
    OpCreate instant job_create
  | OpGet instant string
  | OpLatest instant string
  | OpLatestForIncident instant string "string option" "job_status option"
  | OpActiveForIncident instant string "string option"
  | OpCancel instant string
  | OpClaim instant job_claim bool bool
  | OpPendingCompletions instant bool
  | OpMarkProcessed string
  | OpAuthorizeTransfer instant string string int "string list"
  | OpHeartbeat instant string job_heartbeat
  | OpComplete instant string job_completion
  | OpRegister instant registration "string option"
  | OpReportRuntimes instant string "(string \<times> json) list" "json option"
  | OpMarkWaking instant string int string
  | OpWakeFailure instant string string string
  | OpWakeReady instant int "string list option" "instant option" "instant option"
  | OpSettleWakes instant int
  | OpWakeRetry instant instant int int
  | OpReportPower instant string power_outcome "string option" "int option"
  | OpCreatePairing instant registration string string string
  | OpListPairings instant
  | OpApprovePairing instant string
  | OpRejectPairing instant string
  | OpPollPairing instant string string string

fun commit :: "'a outcome \<Rightarrow> jobdb \<Rightarrow> jobdb" where
  "commit (Inl err) db = db"
| "commit (Inr (v, db')) db = db'"

lemma commit_Inr [simp]: "commit (Inr x) db = snd x"
  by (cases x) simp

lemma commit_returning: "commit (returning d db') db = (case d of Inl err \<Rightarrow> db | Inr v \<Rightarrow> db')"
  by (simp split: sum.splits)

fun exec_op :: "env \<Rightarrow> repo_config \<Rightarrow> repo_op \<Rightarrow> jobdb \<Rightarrow> jobdb" where
  "exec_op e cfg (OpCreate now q) db = commit (create e cfg now q db) db"
| "exec_op e cfg (OpGet now k) db = commit (get e cfg now k db) db"
| "exec_op e cfg (OpLatest now t) db = commit (latest e cfg now t db) db"
| "exec_op e cfg (OpLatestForIncident now t i s) db = commit (latest_for_incident e cfg now t i s db) db"
| "exec_op e cfg (OpActiveForIncident now t i) db = commit (active_for_incident e cfg now t i db) db"
| "exec_op e cfg (OpCancel now k) db = commit (cancel e cfg now k db) db"
| "exec_op e cfg (OpClaim now cl sh st) db = commit (claim e cfg now cl sh st db) db"
| "exec_op e cfg (OpPendingCompletions now f) db = commit (pending_completions e cfg now f db) db"
| "exec_op e cfg (OpMarkProcessed k) db = mark_completion_processed k db"
| "exec_op e cfg (OpAuthorizeTransfer now k w a ts) db =
     commit (authorize_job_transfer e cfg now k w a ts db) db"
| "exec_op e cfg (OpHeartbeat now k hb) db = commit (heartbeat e cfg now k hb db) db"
| "exec_op e cfg (OpComplete now k co) db = commit (complete e cfg now k co db) db"
| "exec_op e cfg (OpRegister now g p) db = commit (register_worker cfg now g p db) db"
| "exec_op e cfg (OpReportRuntimes now w rt h) db = commit (report_worker_runtimes now w rt h db) db"
| "exec_op e cfg (OpMarkWaking now w n tr) db = commit (mark_worker_waking cfg now w n tr db) db"
| "exec_op e cfg (OpWakeFailure now w er tr) db = commit (record_wake_failure now w er tr db) db"
| "exec_op e cfg (OpWakeReady now b ts a f) db = commit (wake_ready_job_types e cfg now b ts a f db) db"
| "exec_op e cfg (OpSettleWakes now m) db = settle_unanswered_wakes cfg now m db"
| "exec_op e cfg (OpWakeRetry n1 n2 d m) db = snd (unanswered_wake_retry cfg n1 n2 d m db)"
| "exec_op e cfg (OpReportPower now w oc rs ss) db = commit (report_worker_power now w oc rs ss db) db"
| "exec_op e cfg (OpCreatePairing now g i s c) db = commit (create_pairing e cfg now g i s c db) db"
| "exec_op e cfg (OpListPairings now) db = commit (list_pairings e now db) db"
| "exec_op e cfg (OpApprovePairing now i) db = commit (approve_pairing e now i db) db"
| "exec_op e cfg (OpRejectPairing now i) db = commit (reject_pairing e now i db) db"
| "exec_op e cfg (OpPollPairing now i s t) db = commit (poll_pairing e now i s t db) db"

inductive repo_step :: "env \<Rightarrow> repo_config \<Rightarrow> jobdb \<Rightarrow> jobdb \<Rightarrow> bool" for e cfg where
  step: "repo_step e cfg db (exec_op e cfg op db)"

inductive reachable :: "env \<Rightarrow> repo_config \<Rightarrow> jobdb \<Rightarrow> bool" for e cfg where
  start: "reachable e cfg empty_db"
| next_state: "reachable e cfg db \<Longrightarrow> repo_step e cfg db db' \<Longrightarrow> reachable e cfg db'"

inductive_cases repo_stepE: "repo_step e cfg db db'"

lemma reachable_exec: "reachable e cfg db \<Longrightarrow> reachable e cfg (exec_op e cfg op db)"
  by (blast intro: reachable.next_state repo_step.step)

lemma reachable_fold: "reachable e cfg db \<Longrightarrow> reachable e cfg (fold (exec_op e cfg) ops db)"
  by (induction ops arbitrary: db) (simp_all add: reachable_exec)

section \<open>Operations that leave the jobs alone\<close>

definition same_jobs :: "jobdb \<Rightarrow> jobdb \<Rightarrow> bool" where
  "same_jobs db db' = (db_jobs db' = db_jobs db \<and> db_events db' = db_events db)"

named_theorems same_jobs_intros \<open>worker and pairing statements that leave the jobs alone\<close>

lemma same_jobs_refl [simp, same_jobs_intros]: "same_jobs db db"
  by (simp add: same_jobs_def)

lemma same_jobs_trans [trans]: "same_jobs a b \<Longrightarrow> same_jobs b c \<Longrightarrow> same_jobs a c"
  by (simp add: same_jobs_def)

lemma same_jobs_update_worker [simp, same_jobs_intros]: "same_jobs db (update_worker k f db)"
  by (simp add: same_jobs_def update_worker_def)

lemma same_jobs_touch [simp, same_jobs_intros]: "same_jobs db (touch_worker_locked k now db)"
  by (simp add: touch_worker_locked_def)

lemma same_jobs_power [simp, same_jobs_intros]: "same_jobs db (power_event_locked w k now d db)"
  by (simp add: same_jobs_def power_event_locked_def Let_def)

lemma same_jobs_online [simp, same_jobs_intros]:
  "same_jobs db (record_worker_online_locked w r now x db)"
  by (simp add: record_worker_online_locked_def Let_def split: option.splits)

lemma same_jobs_upsert [simp, same_jobs_intros]:
  "same_jobs db (upsert_worker g c m r now w q d db)"
  by (simp add: upsert_worker_def) (simp add: same_jobs_def)

lemma same_jobs_register_body: "same_jobs db (snd (register_body cfg now g c db))"
  by (auto simp: register_body_def Let_def split: option.splits
      intro: same_jobs_trans[OF same_jobs_upsert same_jobs_online])

lemma same_jobs_settle_wake [simp, same_jobs_intros]: "same_jobs db (settle_wake cfg now m w db)"
  by (auto simp: settle_wake_def Let_def split: option.splits prod.splits
      intro: same_jobs_trans[OF same_jobs_power same_jobs_power])

lemma same_jobs_settle: "same_jobs db (settle_unanswered_wakes cfg now m db)"
proof -
  have "same_jobs db (fold (settle_wake cfg now m) ws db)" for ws
    by (induction ws arbitrary: db) (auto intro: same_jobs_trans[OF same_jobs_settle_wake])
  then show ?thesis by (simp add: settle_unanswered_wakes_def)
qed

lemma same_jobs_idle: "same_jobs db (snd (idle_shutdown_locked e w now db))"
  by (auto simp: idle_shutdown_locked_def split: option.splits)

lemma same_jobs_put_credential [simp, same_jobs_intros]: "same_jobs db (put_credential w t now db)"
  by (simp add: put_credential_def same_jobs_def)

lemma same_jobs_pairing [simp, same_jobs_intros]:
  "same_jobs db (update_pairing i f db)" "same_jobs db (expire_pairings_locked e now db)"
  by (simp_all add: same_jobs_def update_pairing_def expire_pairings_locked_def)

text \<open>The operations on workers and pairings, migration of an identity apart.\<close>

lemma same_jobs_report_runtimes: "same_jobs db (commit (report_worker_runtimes now w rt h db) db)"
  by (simp add: report_worker_runtimes_def Let_def split: option.splits)

lemma same_jobs_mark_waking: "same_jobs db (commit (mark_worker_waking cfg now w n tr db) db)"
  by (auto simp: mark_worker_waking_def Let_def split: option.splits
      intro: same_jobs_trans[OF same_jobs_update_worker same_jobs_power])

lemma same_jobs_wake_failure: "same_jobs db (commit (record_wake_failure now w er tr db) db)"
  by (simp add: record_wake_failure_def)

lemma same_jobs_report_power: "same_jobs db (commit (report_worker_power now w oc rs ss db) db)"
  by (auto simp: report_worker_power_def Let_def split: option.splits
      intro: same_jobs_trans[OF same_jobs_power same_jobs_update_worker])

lemma same_jobs_create_pairing: "same_jobs db (commit (create_pairing e cfg now g i s c db) db)"
  by (auto simp: create_pairing_def Let_def expire_pairings_locked_def same_jobs_def)

lemma same_jobs_list_pairings: "same_jobs db (commit (list_pairings e now db) db)"
  by (simp add: list_pairings_def Let_def)

lemma same_jobs_approve: "same_jobs db (commit (approve_pairing e now i db) db)"
  by (auto simp: approve_pairing_def Let_def split: sum.splits
      intro: same_jobs_trans[OF same_jobs_pairing(2) same_jobs_pairing(1)])

lemma same_jobs_reject: "same_jobs db (commit (reject_pairing e now i db) db)"
  by (auto simp: reject_pairing_def Let_def split: sum.splits
      intro: same_jobs_trans[OF same_jobs_pairing(2) same_jobs_pairing(1)])

lemma same_jobs_poll: "same_jobs db (commit (poll_pairing e now i s t db) db)"
  by (auto simp: poll_pairing_def Let_def split: sum.splits
      intro: same_jobs_trans[OF same_jobs_trans[OF same_jobs_pairing(2) same_jobs_put_credential]
               same_jobs_pairing(1)])

section \<open>Reading rows back\<close>

lemma select_required_Inr: "select_required k db = Inr row \<longleftrightarrow> select_job k db = Some row"
  by (auto simp: select_required_def split: option.splits)

lemma select_required_member: "select_required k db = Inr row \<Longrightarrow> row \<in> set (db_jobs db) \<and> j_job_id row = k"
  by (auto simp: select_required_Inr dest: jt.lookup_member)

lemma next_claimable_Some:
  assumes "next_claimable e ts db = Some row"
  shows "row \<in> set (db_jobs db)" "claimable row" "j_type row \<in> set ts"
  using first_min_in[OF assms[unfolded next_claimable_def]] by auto

lemma validate_terminal_payload_Inr:
  "validate_terminal_payload c = Inr co \<Longrightarrow>
     co = c \<and> (co_status co = SUCCEEDED \<and> co_result co \<noteq> None \<and> co_error co = None \<or>
                co_status co = FAILED \<and> co_result co = None \<and> co_error co \<noteq> None)"
  by (auto simp: validate_terminal_payload_def split: if_splits)

end
