(* ===== verification/Job_Contract.thy ===== *)
theory Job_Contract
  imports Job_Operations
begin

text \<open>
  What an operation does to the jobs. \<open>job_effect\<close> lists the statements that write the tables of
  jobs and of events, each with the guard the code checks before it, and \<open>exec_job_effect\<close> shows
  that every public operation is one of them, possibly after a recovery. The locale
  \<open>job_invariant\<close> is the contract between an invariant and these statements; its client lemmas
  give the invariant to every reachable database.
\<close>

definition migrate_jobs :: "string \<Rightarrow> string \<Rightarrow> jobdb \<Rightarrow> jobdb" where
  "migrate_jobs p w db = db\<lparr>db_jobs := map (\<lambda>j. if j_worker_id j = Some p
     then j\<lparr>j_worker_id := Some w\<rparr> else j) (db_jobs db)\<rparr>"

lemma migrate_same_jobs:
  "migrate_worker_identity_locked p w db = Inr db' \<Longrightarrow> same_jobs (migrate_jobs p w db) db'"
  by (auto simp: migrate_worker_identity_locked_def migrate_jobs_def same_jobs_def split: if_splits)

section \<open>The effect of an operation on the jobs\<close>

fun recovery_clock :: "repo_op \<Rightarrow> instant option" where
  "recovery_clock (OpCreate now q) = Some now"
| "recovery_clock (OpGet now k) = Some now"
| "recovery_clock (OpLatest now t) = Some now"
| "recovery_clock (OpLatestForIncident now t i s) = Some now"
| "recovery_clock (OpActiveForIncident now t i) = Some now"
| "recovery_clock (OpCancel now k) = Some now"
| "recovery_clock (OpClaim now cl sh st) = Some now"
| "recovery_clock (OpPendingCompletions now f) = Some now"
| "recovery_clock (OpAuthorizeTransfer now k w a ts) = Some now"
| "recovery_clock (OpHeartbeat now k hb) = Some now"
| "recovery_clock (OpComplete now k co) = Some now"
| "recovery_clock (OpWakeReady now b ts a f) = Some now"
| "recovery_clock _ = None"

inductive job_effect :: "env \<Rightarrow> repo_config \<Rightarrow> jobdb \<Rightarrow> repo_op \<Rightarrow> jobdb \<Rightarrow> bool"
  for e cfg db where
  frame: "same_jobs db db' \<Longrightarrow> job_effect e cfg db op db'"
| recovered: "recovery_clock op = Some now \<Longrightarrow> same_jobs (recover_locked e cfg now db) db' \<Longrightarrow>
    job_effect e cfg db op db'"
| enqueued: "db1 = recover_locked e cfg now db \<Longrightarrow> select_job (cr_job_id q) db1 = None \<Longrightarrow>
    active_count db1 < max_active_jobs cfg \<Longrightarrow> validate_parameters e (cr_type q) (cr_parameters q) = Inr p \<Longrightarrow>
    job_effect e cfg db (OpCreate now q) (enqueue_job (new_job_row e now q p) now db1)"
| cancelled: "db1 = recover_locked e cfg now db \<Longrightarrow> row \<in> set (db_jobs db1) \<Longrightarrow>
    \<not> terminal (j_status row) \<Longrightarrow>
    job_effect e cfg db (OpCancel now (j_job_id row)) (transition_locked row (cancel_transition now) now db1)"
| claimed: "same_jobs (recover_locked e cfg now db) db1 \<Longrightarrow> row \<in> set (db_jobs db1) \<Longrightarrow> claimable row \<Longrightarrow>
    job_effect e cfg db (OpClaim now cl sh st) (claim_locked cfg now (cl_worker_id cl) row db1)"
| renewed: "same_jobs (recover_locked e cfg now db) db1 \<Longrightarrow> row \<in> set (db_jobs db1) \<Longrightarrow>
    j_status row = RUNNING \<Longrightarrow> j_worker_id row = Some (hb_worker_id hb) \<Longrightarrow> j_attempt row = hb_attempt hb \<Longrightarrow>
    job_effect e cfg db (OpHeartbeat now (j_job_id row) hb)
      (update_job (j_job_id row) (\<lambda>_. heartbeat_row cfg now (hb_progress hb) row) db1)"
| completed: "db1 = recover_locked e cfg now db \<Longrightarrow> row \<in> set (db_jobs db1) \<Longrightarrow>
    j_status row = RUNNING \<Longrightarrow> j_worker_id row = Some (hb_worker_id co) \<Longrightarrow> j_attempt row = hb_attempt co \<Longrightarrow>
    completion_outcome e row co = Inr (res, er) \<Longrightarrow> co_status co = SUCCEEDED \<or> co_status co = FAILED \<Longrightarrow>
    job_effect e cfg db (OpComplete now (j_job_id row) co) (complete_locked e now row co res er db1)"
| processed: "job_effect e cfg db (OpMarkProcessed k) (mark_completion_processed k db)"
| migrated: "same_jobs (migrate_jobs p (rg_worker_id g) db) db' \<Longrightarrow>
    job_effect e cfg db (OpRegister now g (Some p)) db'"

text \<open>A view that raises rolls the operation back, which is an effect too.\<close>

lemma effect_returning [intro]:
  "job_effect e cfg db op db' \<Longrightarrow> job_effect e cfg db op (commit (returning d db') db)"
  by (cases d) (auto intro: frame)

lemma effect_recovered [intro]:
  "recovery_clock op = Some now \<Longrightarrow> same_jobs (recover_locked e cfg now db) db' \<Longrightarrow>
   job_effect e cfg db op (commit (returning d db') db)"
  by (intro effect_returning recovered)

lemma effect_create: "job_effect e cfg db (OpCreate now q) (commit (create e cfg now q db) db)"
  by (auto simp: create_def Let_def not_le
      intro: frame recovered enqueued split: sum.splits option.splits if_splits)

lemma effect_reads:
  "job_effect e cfg db (OpGet now k) (commit (get e cfg now k db) db)"
  "job_effect e cfg db (OpLatest now t) (commit (latest e cfg now t db) db)"
  "job_effect e cfg db (OpLatestForIncident now t i s) (commit (latest_for_incident e cfg now t i s db) db)"
  "job_effect e cfg db (OpActiveForIncident now t i) (commit (active_for_incident e cfg now t i db) db)"
  "job_effect e cfg db (OpPendingCompletions now f) (commit (pending_completions e cfg now f db) db)"
  "job_effect e cfg db (OpWakeReady now b ts a f') (commit (wake_ready_job_types e cfg now b ts a f' db) db)"
  by (auto simp: get_def latest_def latest_for_incident_def active_for_incident_def
      pending_completions_def wake_ready_job_types_def Let_def intro: frame recovered
      split: sum.splits list.splits)

lemma effect_cancel: "job_effect e cfg db (OpCancel now k) (commit (cancel e cfg now k db) db)"
  by (auto simp: cancel_def Let_def dest: select_required_member intro: frame recovered cancelled
      split: sum.splits)

lemma effect_claim: "job_effect e cfg db (OpClaim now cl sh st) (commit (claim e cfg now cl sh st db) db)"
proof -
  let ?db = "touch_worker_locked (cl_worker_id cl) now (recover_locked e cfg now db)"
  have touched: "same_jobs (recover_locked e cfg now db) ?db" by simp
  have idle: "same_jobs (recover_locked e cfg now db) (snd (idle_shutdown_locked e (cl_worker_id cl) now ?db))"
    by (rule same_jobs_trans[OF touched same_jobs_idle])
  have claimed: "job_effect e cfg db (OpClaim now cl sh st) (claim_locked cfg now (cl_worker_id cl) row ?db)"
    if "next_claimable e (compatible_types cl) ?db = Some row" for row
    using next_claimable_Some[OF that] by (intro job_effect.claimed[OF touched])
  show ?thesis
    using touched idle claimed recovered[of "OpClaim now cl sh st" now e cfg db]
    by (auto simp: claim_def Let_def intro: frame split: option.splits sum.splits prod.splits)
qed

lemma effect_authorize:
  "job_effect e cfg db (OpAuthorizeTransfer now k w a ts) (commit (authorize_job_transfer e cfg now k w a ts db) db)"
  by (auto simp: authorize_job_transfer_def Let_def intro: frame recovered split: sum.splits)

lemma effect_heartbeat: "job_effect e cfg db (OpHeartbeat now k hb) (commit (heartbeat e cfg now k hb db) db)"
proof -
  let ?db = "recover_locked e cfg now db"
  have renewed: "job_effect e cfg db (OpHeartbeat now k hb)
      (update_job k (\<lambda>_. heartbeat_row cfg now (hb_progress hb) row)
        (touch_worker_locked (hb_worker_id hb) now ?db))"
    if "select_required k ?db = Inr row" "require_owner row (hb_worker_id hb) (hb_attempt hb) = Inr u" for row u
  proof -
    have "row \<in> set (db_jobs (touch_worker_locked (hb_worker_id hb) now ?db))" "j_job_id row = k"
      using select_required_member[OF that(1)] by (auto simp: touch_worker_locked_def update_worker_def)
    with that(2) job_effect.renewed[OF same_jobs_touch, of row] show ?thesis
      by (auto simp: require_owner_ok)
  qed
  show ?thesis
    using renewed
    by (auto simp: heartbeat_def Let_def intro: frame recovered split: sum.splits)
qed

lemma effect_complete: "job_effect e cfg db (OpComplete now k c) (commit (complete e cfg now k c db) db)"
proof -
  let ?db = "recover_locked e cfg now db"
  have completed: "job_effect e cfg db (OpComplete now k c) (complete_locked e now row co res er ?db)"
    if "select_required k ?db = Inr row" "validate_terminal_payload c = Inr co"
      "completion_outcome e row co = Inr (res, er)"
      "require_owner row (hb_worker_id co) (hb_attempt co) = Inr u" for row co res er u
    using that select_required_member[OF that(1)] validate_terminal_payload_Inr[OF that(2)]
      job_effect.completed[OF refl, of row]
    by (auto simp: require_owner_ok)
  show ?thesis
    using completed
    by (auto simp: complete_def Let_def intro: frame recovered split: sum.splits prod.splits)
qed

lemma effect_register: "job_effect e cfg db (OpRegister now g p) (commit (register_worker cfg now g p db) db)"
  by (auto simp: register_worker_def Let_def intro: frame[OF same_jobs_register_body] frame
      migrated[OF same_jobs_trans[OF migrate_same_jobs same_jobs_register_body]]
      split: option.splits sum.splits if_splits)

lemma exec_job_effect: "job_effect e cfg db op (exec_op e cfg op db)"
  by (cases op)
     (simp_all add: effect_create effect_reads effect_cancel effect_claim effect_authorize
      effect_heartbeat effect_complete effect_register processed unanswered_wake_retry_def Let_def
      frame[OF same_jobs_report_runtimes] frame[OF same_jobs_mark_waking]
      frame[OF same_jobs_wake_failure] frame[OF same_jobs_settle]
      frame[OF same_jobs_report_power] frame[OF same_jobs_create_pairing]
      frame[OF same_jobs_list_pairings] frame[OF same_jobs_approve]
      frame[OF same_jobs_reject] frame[OF same_jobs_poll])

lemma validated_type: "validate_parameters e t j = Inr p \<Longrightarrow> t \<in> set JOB_TYPE_MODELS"
  by (auto simp: validate_parameters_def split: if_splits)

section \<open>Invariants of the jobs\<close>

locale job_invariant =
  fixes e :: env and cfg :: repo_config and inv :: "jobdb \<Rightarrow> bool"
  assumes inv_empty: "inv empty_db"
    and inv_recover: "inv db \<Longrightarrow> inv (recover_locked e cfg now db)"
    and inv_frame: "inv db \<Longrightarrow> same_jobs db db' \<Longrightarrow> inv db'"
    and inv_enqueue: "inv db \<Longrightarrow> select_job (cr_job_id q) db = None \<Longrightarrow>
      active_count db < max_active_jobs cfg \<Longrightarrow>
      validate_parameters e (cr_type q) (cr_parameters q) = Inr p \<Longrightarrow>
      inv (enqueue_job (new_job_row e now q p) now db)"
    and inv_cancel: "inv db \<Longrightarrow> row \<in> set (db_jobs db) \<Longrightarrow> \<not> terminal (j_status row) \<Longrightarrow>
      inv (transition_locked row (cancel_transition now) now db)"
    and inv_claim: "inv db \<Longrightarrow> row \<in> set (db_jobs db) \<Longrightarrow> claimable row \<Longrightarrow>
      inv (claim_locked cfg now w row db)"
    and inv_heartbeat: "inv db \<Longrightarrow> row \<in> set (db_jobs db) \<Longrightarrow> j_status row = RUNNING \<Longrightarrow>
      inv (update_job (j_job_id row) (\<lambda>_. heartbeat_row cfg now g row) db)"
    and inv_complete: "inv db \<Longrightarrow> row \<in> set (db_jobs db) \<Longrightarrow> j_status row = RUNNING \<Longrightarrow>
      completion_outcome e row co = Inr (res, er) \<Longrightarrow> co_status co = SUCCEEDED \<or> co_status co = FAILED \<Longrightarrow>
      inv (complete_locked e now row co res er db)"
    and inv_processed: "inv db \<Longrightarrow> inv (mark_completion_processed k db)"
    and inv_migrate: "inv db \<Longrightarrow> inv (migrate_jobs old new db)"
begin

lemma inv_effect: "job_effect e cfg db op db' \<Longrightarrow> inv db \<Longrightarrow> inv db'"
proof (induction rule: job_effect.induct)
  case (frame db' op)
  then show ?case by (blast intro: inv_frame)
next
  case (recovered op now db')
  then show ?case by (blast intro: inv_frame inv_recover)
next
  case (claimed now db1 row cl sh st)
  then show ?case by (blast intro: inv_claim inv_frame inv_recover)
next
  case (renewed now db1 row hb)
  then show ?case by (blast intro: inv_heartbeat inv_frame inv_recover)
next
  case (migrated p g db' now)
  then show ?case by (blast intro: inv_frame inv_migrate)
qed (blast intro: inv_recover inv_enqueue inv_cancel inv_complete inv_processed)+

lemma keeps_exec: "inv db \<Longrightarrow> inv (exec_op e cfg op db)"
  by (rule inv_effect[OF exec_job_effect])

lemma reachable_inv: "reachable e cfg db \<Longrightarrow> inv db"
proof (induction rule: reachable.induct)
  case start
  show ?case by (rule inv_empty)
next
  case (next_state db db')
  then show ?case by (auto elim: repo_stepE intro: keeps_exec)
qed

end

end
