(* ===== verification/Job_Invariants.thy ===== *)
theory Job_Invariants
  imports Job_Contract
begin

text \<open>
  The two invariants of the job table, proved through the contract \<open>job_invariant\<close>: the rows are
  well formed (\<open>jobs_ok\<close>), and the journal of every job replays, over legal edges only, to the
  status the job has (\<open>audit_ok\<close>).
\<close>

section \<open>Well-formed rows\<close>

definition lease_ok :: "job_row \<Rightarrow> bool" where
  "lease_ok r =
     (case j_lease_expires_at r of
        None \<Rightarrow> j_status r \<noteq> RUNNING
      | Some l \<Rightarrow> j_status r = RUNNING \<and> j_worker_id r \<noteq> None \<and> l \<le> deadline r)"

definition attempt_ok :: "repo_config \<Rightarrow> job_row \<Rightarrow> bool" where
  "attempt_ok cfg r =
     (0 \<le> j_attempt r \<and> j_attempt r \<le> max_attempts cfg \<and>
      (claimable r \<longrightarrow> j_worker_id r = None \<and> j_attempt r < max_attempts cfg) \<and>
      (j_status r \<in> set [RUNNING, SUCCEEDED, FAILED] \<longrightarrow> 1 \<le> j_attempt r) \<and>
      ((j_attempt r = 0) = (j_started_at r = None)))"

definition outcome_ok :: "env \<Rightarrow> job_row \<Rightarrow> bool" where
  "outcome_ok e r =
     (terminal (j_status r) = (j_finished_at r \<noteq> None) \<and>
      ((j_status r = SUCCEEDED) = (j_result r \<noteq> None)) \<and>
      j_result_sha256 r = map_option (digest e) (j_result r) \<and>
      (j_status r = FAILED \<longrightarrow> j_error r \<noteq> None) \<and>
      (j_error r \<noteq> None \<longrightarrow> j_status r \<in> set [FAILED, TIMEOUT]) \<and>
      (\<not> j_completion_processed r \<longrightarrow> terminal (j_status r)))"

definition job_ok :: "env \<Rightarrow> repo_config \<Rightarrow> job_row \<Rightarrow> bool" where
  "job_ok e cfg r =
     (j_status r \<noteq> CREATED \<and> j_type r \<in> set JOB_TYPE_MODELS \<and>
      lease_ok r \<and> attempt_ok cfg r \<and> outcome_ok e r)"

definition jobs_ok :: "env \<Rightarrow> repo_config \<Rightarrow> jobdb \<Rightarrow> bool" where
  "jobs_ok e cfg db =
     (distinct (ids db) \<and> list_all (job_ok e cfg) (db_jobs db) \<and>
      active_count db \<le> max_active_jobs cfg)"

lemma jobs_okD:
  assumes "jobs_ok e cfg db"
  shows "distinct (ids db)" "r \<in> set (db_jobs db) \<Longrightarrow> job_ok e cfg r"
    "active_count db \<le> max_active_jobs cfg"
  using assms by (auto simp: jobs_ok_def list_all_iff)

lemma completion_flag_simps [simp]:
  "j_completion_processed (settle_row a t now r) =
     (j_completion_processed r \<and>
      \<not> (terminal (tr_status t) \<and> j_type a \<in> set [''ai.inference'', ''logs.investigate'']))"
  by (auto simp: settle_row_def transition_row_def)

lemma claimable_cases: "claimable r \<longleftrightarrow> j_status r = QUEUED \<or> j_status r = WAITING_WORKER"
  by (auto simp: claimable_def)

lemma job_okI:
  assumes "lease_ok r" "attempt_ok cfg r" "outcome_ok e r" "j_status r \<noteq> CREATED"
    "j_type r \<in> set JOB_TYPE_MODELS"
  shows "job_ok e cfg r"
  using assms by (simp add: job_ok_def)

text \<open>A rewritten row is well formed when each group of its columns is.\<close>

lemmas job_ok_groups = job_ok_def lease_ok_def attempt_ok_def outcome_ok_def claimable_cases

lemma job_ok_settle_terminal:
  assumes "job_ok e cfg r" "\<not> terminal (j_status r)" "tr_finished_at t \<noteq> None" "tr_clear_lease t"
    "tr_status t = CANCELLED \<and> tr_error t = None \<or> tr_status t = TIMEOUT \<or>
     tr_status t = FAILED \<and> tr_error t \<noteq> None \<and> j_status r = RUNNING"
  shows "job_ok e cfg (settle_row a t now r)"
proof (rule job_okI)
  show "lease_ok (settle_row a t now r)" using assms by (auto simp: lease_ok_def)
  show "attempt_ok cfg (settle_row a t now r)"
    using assms by (auto simp: job_ok_def attempt_ok_def claimable_cases)
  show "outcome_ok e (settle_row a t now r)"
    using assms by (auto simp: job_ok_def outcome_ok_def split: option.splits)
qed (use assms in \<open>auto simp: job_ok_def\<close>)

lemma job_ok_recovered:
  assumes "job_ok e cfg r"
  shows "job_ok e cfg (recovered_row cfg now r)"
proof (cases "recover_decision cfg now r")
  case None
  with assms show ?thesis by (simp add: recovered_row_def)
next
  case (Some t)
  then show ?thesis
  proof (cases "recoverable r")
    case True
    then have nt: "\<not> terminal (j_status r)" by (auto simp: recoverable_cases)
    from Some have "job_ok e cfg (settle_row r t now r)"
    proof (cases rule: recover_decision_cases)
      case 1
      with assms nt show ?thesis
        by (intro job_ok_settle_terminal) (simp_all add: timeout_transition_def Let_def)
    next
      case 2
      with assms nt show ?thesis
        by (intro job_ok_settle_terminal) (simp_all add: give_up_transition_def lease_lost_def)
    next
      case 3
      with assms show ?thesis
        by (simp add: retry_transition_def job_ok_groups lease_lost_def)
    next
      case 4
      with assms show ?thesis
        by (cases "j_lease_expires_at r") (simp_all add: waiting_transition_def job_ok_groups)
    qed
    with True Some show ?thesis by (simp add: recovered_row_def)
  next
    case False
    with assms show ?thesis by (simp add: recovered_row_def)
  qed
qed

lemma recovered_terminal: "terminal (j_status r) \<Longrightarrow> recovered_row cfg now r = r"
  by (auto simp: recovered_row_def recoverable_cases)

lemma length_filter_le_map:
  assumes "\<And>x. x \<in> set xs \<Longrightarrow> P (f x) \<Longrightarrow> P x"
  shows "length (filter P (map f xs)) \<le> length (filter P xs)"
  using assms by (induction xs) (auto simp: le_SucI)

lemma active_count_recover:
  assumes "distinct (ids db)"
  shows "active_count (recover_locked e cfg now db) \<le> active_count db"
proof -
  let ?act = "\<lambda>r. \<not> terminal (j_status r)"
  have "length (filter ?act (filter (\<lambda>r. \<not> purge_expired e cfg now r) xs)) \<le> length (filter ?act xs)"
    for xs by (induction xs) auto
  also have "length (filter ?act (map (recovered_row cfg now) (db_jobs db))) \<le>
      length (filter ?act (db_jobs db))"
    by (rule length_filter_le_map) (auto simp: recovered_terminal)
  finally show ?thesis
    by (simp add: active_count_def jobs_recover_locked[OF assms])
qed

lemma jobs_ok_recover:
  assumes "jobs_ok e cfg db"
  shows "jobs_ok e cfg (recover_locked e cfg now db)"
  using assms distinct_ids_recover[of db e cfg now] active_count_recover[of db e cfg now]
  by (auto simp: jobs_ok_def list_all_iff jobs_recover_locked intro: job_ok_recovered)

text \<open>A statement that rewrites one row in place, with the row it read.\<close>

lemma active_count_update:
  assumes "\<And>r. \<not> terminal (j_status (f r)) \<Longrightarrow> \<not> terminal (j_status r)"
  shows "active_count (update_job k f db) \<le> active_count db"
proof -
  have "length (filter (\<lambda>r. \<not> terminal (j_status r))
          (map (\<lambda>r. if j_job_id r = k then f r else r) (db_jobs db))) \<le>
        length (filter (\<lambda>r. \<not> terminal (j_status r)) (db_jobs db))"
    by (rule length_filter_le_map) (auto dest: assms split: if_splits)
  then show ?thesis by (simp add: active_count_def update_job_def tbl_update_def)
qed

lemma jobs_ok_rewrite:
  assumes "jobs_ok e cfg db" "row \<in> set (db_jobs db)"
    and "db_jobs db' = tbl_update j_job_id (j_job_id row) f (db_jobs db)"
    and "job_ok e cfg (f row)" "j_job_id (f row) = j_job_id row"
    and "\<not> terminal (j_status row)"
  shows "jobs_ok e cfg db'"
proof -
  have d: "distinct (map j_job_id (db_jobs db))" using assms(1) by (simp add: jobs_ok_def ids_def)
  have same: "r = row" if "r \<in> set (db_jobs db)" "j_job_id r = j_job_id row" for r
    using d that assms(2) by (auto simp: distinct_map inj_on_def)
  have jobs: "db_jobs db' = map (\<lambda>r. if r = row then f row else r) (db_jobs db)"
    unfolding assms(3) tbl_update_def by (rule map_cong) (auto dest: same)
  have "map j_job_id (db_jobs db') = map j_job_id (db_jobs db)"
    unfolding jobs by (simp add: assms(5))
  then have 1: "distinct (ids db')" using d by (simp add: ids_def)
  have 2: "list_all (job_ok e cfg) (db_jobs db')"
    using assms(1,4) by (auto simp: jobs jobs_ok_def list_all_iff)
  have "length (filter (\<lambda>r. \<not> terminal (j_status r)) (db_jobs db')) \<le>
        length (filter (\<lambda>r. \<not> terminal (j_status r)) (db_jobs db))"
    unfolding jobs by (rule length_filter_le_map) (auto simp: assms(6) split: if_splits)
  then have "active_count db' \<le> max_active_jobs cfg"
    using assms(1) by (simp add: active_count_def jobs_ok_def)
  with 1 2 show ?thesis by (simp add: jobs_ok_def)
qed

lemma jobs_claim_locked:
  "db_jobs (claim_locked cfg now w row db) =
     tbl_update j_job_id (j_job_id row) (\<lambda>_. claim_row cfg now w row) (db_jobs db)"
  by (simp add: claim_locked_def update_job_def)

lemma deadline_claim_row [simp]: "deadline (claim_row cfg now w r) = deadline r"
  by (simp add: claim_row_def deadline_def)

lemma jobs_complete_locked:
  "db_jobs (complete_locked e now row co res er db) =
     tbl_update j_job_id (j_job_id row)
       (\<lambda>r. complete_row e now (co_status co) res er
          (if j_type row \<in> set COMPLETION_PROCESSED_TYPES then r\<lparr>j_completion_processed := False\<rparr> else r))
       (db_jobs db)"
  by (auto simp: complete_locked_def Let_def update_job_def tbl_update_def complete_row_def)

lemma job_ok_claim_row:
  assumes "job_ok e cfg row" "claimable row"
  shows "job_ok e cfg (claim_row cfg now w row)"
proof (rule job_okI)
  show "lease_ok (claim_row cfg now w row)"
    by (simp add: lease_ok_def claim_row_def lease_until_def deadline_def)
  show "attempt_ok cfg (claim_row cfg now w row)"
    using assms by (cases "j_started_at row") (auto simp: job_ok_def attempt_ok_def claimable_cases claim_row_def)
  show "outcome_ok e (claim_row cfg now w row)"
    using assms by (auto simp: job_ok_def outcome_ok_def claimable_cases claim_row_def)
qed (use assms in \<open>simp_all add: job_ok_def claim_row_def\<close>)

lemma job_ok_heartbeat_row:
  assumes "job_ok e cfg row" "j_status row = RUNNING"
  shows "job_ok e cfg (heartbeat_row cfg now g row)"
proof (rule job_okI)
  show "lease_ok (heartbeat_row cfg now g row)"
    using assms
    by (auto simp: job_ok_def lease_ok_def heartbeat_row_def lease_until_def deadline_def
        split: option.splits)
  show "attempt_ok cfg (heartbeat_row cfg now g row)"
    using assms by (simp add: job_ok_def attempt_ok_def claimable_cases heartbeat_row_def)
  show "outcome_ok e (heartbeat_row cfg now g row)"
    using assms by (simp add: job_ok_def outcome_ok_def heartbeat_row_def)
qed (use assms in \<open>simp_all add: job_ok_def heartbeat_row_def\<close>)

lemma completion_outcome_shape:
  assumes "completion_outcome e row co = Inr (res, er)"
  shows "(co_status co = SUCCEEDED) = (res \<noteq> None)" "(er \<noteq> None) = (co_status co \<noteq> SUCCEEDED)"
  using assms
  by (cases "co_result co"; cases "co_error co";
      auto simp: completion_outcome_def split: if_splits sum.splits)+

lemma job_ok_complete_row:
  assumes "job_ok e cfg row" "j_status row = RUNNING" "completion_outcome e row' co = Inr (res, er)"
    "co_status co = SUCCEEDED \<or> co_status co = FAILED"
  shows "job_ok e cfg (complete_row e now (co_status co) res er (row\<lparr>j_completion_processed := b\<rparr>))"
  using assms(1,2,4) completion_outcome_shape[OF assms(3)]
  by (elim disjE; cases "j_lease_expires_at row") (simp_all add: job_ok_groups complete_row_def)

lemma job_ok_new:
  assumes "config_ok cfg" "cr_type q \<in> set JOB_TYPE_MODELS"
  shows "job_ok e cfg (new_job_row e now q p)"
  using assms config_okD(8)[of cfg] by (simp add: job_ok_groups new_job_row_def)

lemma jobs_ok_enqueue:
  assumes "config_ok cfg" "jobs_ok e cfg db" "select_job (cr_job_id q) db = None"
    "active_count db < max_active_jobs cfg" "cr_type q \<in> set JOB_TYPE_MODELS"
  shows "jobs_ok e cfg (enqueue_job (new_job_row e now q p) now db)"
proof -
  have "cr_job_id q \<notin> set (ids db)"
    using assms(3) by (auto simp: jt.lookup_absent ids_def)
  with assms job_ok_new[of cfg q e now p] show ?thesis
    by (auto simp: jobs_ok_def enqueue_job_def ids_def active_count_def list_all_iff new_job_row_def)
qed

lemma job_ok_processed:
  assumes "job_ok e cfg r"
  shows "job_ok e cfg (r\<lparr>j_completion_processed := True\<rparr>)"
proof (rule job_okI)
  show "lease_ok (r\<lparr>j_completion_processed := True\<rparr>)"
    using assms by (cases "j_lease_expires_at r") (simp_all add: job_ok_def lease_ok_def deadline_def)
qed (use assms in \<open>simp_all add: job_ok_def attempt_ok_def claimable_def outcome_ok_def\<close>)

lemma job_ok_owner:
  assumes "job_ok e cfg r" "j_worker_id r = Some w"
  shows "job_ok e cfg (r\<lparr>j_worker_id := Some w'\<rparr>)"
proof (rule job_okI)
  show "lease_ok (r\<lparr>j_worker_id := Some w'\<rparr>)"
    using assms by (cases "j_lease_expires_at r") (simp_all add: job_ok_def lease_ok_def deadline_def)
  show "attempt_ok cfg (r\<lparr>j_worker_id := Some w'\<rparr>)"
    using assms by (simp add: job_ok_def attempt_ok_def claimable_cases)
qed (use assms in \<open>auto simp: job_ok_def outcome_ok_def\<close>)

lemma jobs_ok_processed:
  assumes "jobs_ok e cfg db"
  shows "jobs_ok e cfg (mark_completion_processed k db)"
proof -
  have "list_all (job_ok e cfg) (db_jobs (mark_completion_processed k db))"
    using assms by (auto simp: jobs_ok_def list_all_iff mark_completion_processed_def update_job_def
        tbl_update_def job_ok_processed)
  moreover have "active_count (mark_completion_processed k db) \<le> active_count db"
    unfolding mark_completion_processed_def by (rule active_count_update) simp
  moreover have "ids (mark_completion_processed k db) = ids db"
    by (simp add: ids_def mark_completion_processed_def jt.keys_modify)
  ultimately show ?thesis using assms by (simp add: jobs_ok_def)
qed

lemma jobs_ok_migrate:
  assumes "jobs_ok e cfg db"
  shows "jobs_ok e cfg (migrate_jobs old new db)"
proof -
  let ?f = "\<lambda>j. if j_worker_id j = Some old then j\<lparr>j_worker_id := Some new\<rparr> else j"
  have "list_all (job_ok e cfg) (db_jobs (migrate_jobs old new db))"
    using assms by (auto simp: jobs_ok_def list_all_iff migrate_jobs_def job_ok_owner)
  moreover have "length (filter (\<lambda>r. \<not> terminal (j_status r)) (map ?f (db_jobs db))) \<le>
      length (filter (\<lambda>r. \<not> terminal (j_status r)) (db_jobs db))"
    by (rule length_filter_le_map) (auto split: if_splits)
  moreover have "map j_job_id (map ?f (db_jobs db)) = map j_job_id (db_jobs db)"
    by simp
  ultimately show ?thesis
    using assms by (simp add: jobs_ok_def active_count_def migrate_jobs_def ids_def del: map_map)
qed

interpretation rows: job_invariant e cfg "\<lambda>db. config_ok cfg \<longrightarrow> jobs_ok e cfg db" for e cfg
proof (unfold_locales, goal_cases)
  case 1
  show ?case
    using config_okD(4)[of cfg] by (auto simp: jobs_ok_def empty_db_def ids_def active_count_def)
next
  case (2 db now)
  then show ?case by (simp add: jobs_ok_recover)
next
  case (3 db db')
  then show ?case by (simp add: jobs_ok_def same_jobs_def ids_def active_count_def)
next
  case (4 db q p now)
  then show ?case by (simp add: jobs_ok_enqueue validated_type)
next
  case (5 db row now)
  show ?case
  proof
    assume ok: "config_ok cfg"
    then have "job_ok e cfg row" using 5 by (auto simp: jobs_okD)
    then have "job_ok e cfg (settle_row row (cancel_transition now) now row)"
      using 5(3) by (intro job_ok_settle_terminal) (simp_all add: cancel_transition_def)
    with ok 5 show "jobs_ok e cfg (transition_locked row (cancel_transition now) now db)"
      by (intro jobs_ok_rewrite[OF _ _ jobs_transition_locked]) simp_all
  qed
next
  case (6 db row now w)
  show ?case
  proof
    assume ok: "config_ok cfg"
    then have "job_ok e cfg row" using 6 by (auto simp: jobs_okD)
    then have "job_ok e cfg (claim_row cfg now w row)" using 6(3) by (rule job_ok_claim_row)
    with ok 6 show "jobs_ok e cfg (claim_locked cfg now w row db)"
      by (intro jobs_ok_rewrite[OF _ _ jobs_claim_locked]) (auto simp: claim_row_def claimable_cases)
  qed
next
  case (7 db row now g)
  show ?case
  proof
    assume ok: "config_ok cfg"
    then have "job_ok e cfg row" using 7 by (auto simp: jobs_okD)
    then have "job_ok e cfg (heartbeat_row cfg now g row)" using 7(3) by (rule job_ok_heartbeat_row)
    with ok 7 show "jobs_ok e cfg (update_job (j_job_id row) (\<lambda>_. heartbeat_row cfg now g row) db)"
      by (intro jobs_ok_rewrite[OF _ _ jt.rows_modify]) (auto simp: heartbeat_row_def)
  qed
next
  case (8 db row co res er now)
  let ?flag = "\<lambda>r. if j_type row \<in> set COMPLETION_PROCESSED_TYPES
    then r\<lparr>j_completion_processed := False\<rparr> else r"
  show ?case
  proof
    assume ok: "config_ok cfg"
    then have "job_ok e cfg row" using 8 by (auto simp: jobs_okD)
    from job_ok_complete_row[OF this 8(3-5), of now False]
      job_ok_complete_row[OF this 8(3-5), of now "j_completion_processed row"]
    have "job_ok e cfg (complete_row e now (co_status co) res er (?flag row))" by simp
    with ok 8 show "jobs_ok e cfg (complete_locked e now row co res er db)"
      by (intro jobs_ok_rewrite[OF _ _ jobs_complete_locked]) (simp_all add: complete_row_def)
  qed
next
  case (9 db k)
  then show ?case by (simp add: jobs_ok_processed)
next
  case (10 db old new)
  then show ?case by (simp add: jobs_ok_migrate)
qed

end
