(* ===== verification/Job_Audit.thy ===== *)
theory Job_Audit
  imports Job_Invariants
begin

text \<open>
  The journal of transitions as a specification of the life of a job. A job is \<open>None\<close> (not
  accepted) or has a status; \<open>legal\<close> lists the edges of the life cycle; \<open>replay\<close> runs a journal
  over them. The audit invariant says that the journal of every job replays to the status that
  the table holds, so the abstract life cycle is refined by the stored tables.
\<close>

section \<open>The life cycle\<close>

type_synonym edge = "job_status option \<times> job_status"

fun legal :: "edge \<Rightarrow> bool" where
  "legal (None, s) = (s = CREATED)"
| "legal (Some CREATED, s) = (s = QUEUED)"
| "legal (Some QUEUED, s) = (s \<in> set [WAITING_WORKER, RUNNING, TIMEOUT, CANCELLED])"
| "legal (Some WAITING_WORKER, s) = (s \<in> set [RUNNING, TIMEOUT, CANCELLED])"
| "legal (Some RUNNING, s) = (s \<in> set [QUEUED, SUCCEEDED, FAILED, TIMEOUT, CANCELLED])"
| "legal (Some _, s) = False"

definition replay_step :: "edge \<Rightarrow> job_status option option \<Rightarrow> job_status option option" where
  "replay_step ed st =
     (case st of None \<Rightarrow> None
      | Some cur \<Rightarrow> if fst ed = cur \<and> legal ed then Some (Some (snd ed)) else None)"

definition replay :: "edge list \<Rightarrow> job_status option option" where
  "replay eds = fold replay_step eds (Some None)"

definition edges :: "string \<Rightarrow> jobdb \<Rightarrow> edge list" where
  "edges k db = map (\<lambda>ev. (ev_previous_status ev, ev_status ev))
     (filter (\<lambda>ev. ev_job_id ev = k) (db_events db))"

definition status_of :: "string \<Rightarrow> jobdb \<Rightarrow> job_status option" where
  "status_of k db = map_option j_status (select_job k db)"

definition audit_ok :: "jobdb \<Rightarrow> bool" where
  "audit_ok db = (distinct (ids db) \<and>
     (\<forall>k. replay (edges k db) = Some (status_of k db) \<and> status_of k db \<noteq> Some CREATED))"

lemma legal_not_created: "legal (Some s, t) \<Longrightarrow> t \<noteq> CREATED"
  by (cases s) auto

lemma legal_from_terminal: "terminal s \<Longrightarrow> \<not> legal (Some s, t)"
  by (cases s) simp_all

lemma replay_snoc: "replay (eds @ [ed]) = replay_step ed (replay eds)"
  by (simp add: replay_def)

lemma replay_append_stuck: "fold replay_step eds None = None"
  by (induction eds) (simp_all add: replay_step_def)

section \<open>The statements keep it\<close>

lemma edges_event_locked:
  "edges k (event_locked k' p s now d db) = edges k db @ (if k = k' then [(p, s)] else [])"
  by (simp add: edges_def event_locked_def)

lemma edges_update_job [simp]: "edges k (update_job k' f db) = edges k db"
  by (simp add: edges_def)

lemma status_event_locked [simp]: "status_of k (event_locked k' p s now d db) = status_of k db"
  by (simp add: status_of_def select_job_def)

lemma ids_event_locked [simp]: "ids (event_locked k' p s now d db) = ids db"
  by (simp add: ids_def)

lemma status_of_member:
  "distinct (ids db) \<Longrightarrow> row \<in> set (db_jobs db) \<Longrightarrow> status_of (j_job_id row) db = Some (j_status row)"
  using jt.lookup_iff[of db "j_job_id row" row] by (simp add: status_of_def ids_def)

text \<open>
  One statement: the row of a job is rewritten to a new status, and the journal gains the edge
  from the status that was read to the new one.
\<close>

lemma audit_rewrite:
  assumes "audit_ok db" "row \<in> set (db_jobs db)" "legal (Some (j_status row), s)"
    and jobs: "db_jobs db' = tbl_update j_job_id (j_job_id row) f (db_jobs db)"
    and f: "\<And>r. j_job_id r = j_job_id row \<Longrightarrow> j_job_id (f r) = j_job_id row \<and> j_status (f r) = s"
    and edges: "\<And>k. edges k db' = edges k db @ (if k = j_job_id row then [(Some (j_status row), s)] else [])"
  shows "audit_ok db'"
proof -
  let ?f = "\<lambda>r. if j_job_id r = j_job_id row then f r else r"
  have id: "j_job_id (?f r) = j_job_id r" for r using f[of r] by simp
  have d: "distinct (ids db)" using assms(1) by (simp add: audit_ok_def)
  have jobs': "db_jobs db' = tbl_update j_job_id (j_job_id row) ?f (db_jobs db)"
    by (simp add: jobs tbl_update_def)
  have sel: "select_job k db' =
      (if k = j_job_id row then map_option ?f (select_job k db) else select_job k db)" for k
    unfolding select_job_def jobs' by (rule tbl_find_update) (rule id)
  have "replay (edges k db') = Some (status_of k db') \<and> status_of k db' \<noteq> Some CREATED" for k
  proof (cases "k = j_job_id row")
    case True
    have "status_of k db = Some (j_status row)" using True status_of_member[OF d assms(2)] by simp
    moreover have "select_job k db = Some row"
      using True d assms(2) jt.lookup_iff[of db k row] by (simp add: ids_def)
    ultimately show ?thesis
      using True assms(1,3) f[of row] legal_not_created[OF assms(3)]
      by (simp add: edges replay_snoc replay_step_def audit_ok_def status_of_def sel)
  next
    case False
    with assms(1) show ?thesis by (simp add: edges audit_ok_def status_of_def sel)
  qed
  moreover have "ids db' = ids db"
    unfolding ids_def jobs' by (rule tbl_update_keys) (rule id)
  ultimately show ?thesis using d by (simp add: audit_ok_def)
qed

lemma audit_transition:
  assumes "audit_ok db" "row \<in> set (db_jobs db)" "legal (Some (j_status row), tr_status t)"
  shows "audit_ok (transition_locked row t now db)"
  using assms
  by (intro audit_rewrite[OF _ _ _ jobs_transition_locked, where s = "tr_status t"])
     (simp_all add: transition_locked_def Let_def edges_event_locked)

lemma audit_recover_row:
  assumes "audit_ok db" "row \<in> set (db_jobs db)" "recoverable row"
  shows "audit_ok (recover_row cfg now row db)"
proof (cases "recover_decision cfg now row")
  case None
  with assms show ?thesis by (simp add: recover_row_def)
next
  case (Some t)
  then have "legal (Some (j_status row), tr_status t)"
    using assms(3)
    by (cases rule: recover_decision_cases)
       (auto simp: transition_defs recoverable_cases lease_lost_def)
  with Some assms show ?thesis by (simp add: recover_row_def audit_transition)
qed

lemma edges_filter:
  "edges k (db\<lparr>db_events := filter (\<lambda>ev. ev_job_id ev \<notin> S) (db_events db), db_jobs := js\<rparr>) =
     (if k \<in> S then [] else edges k db)"
  by (simp add: edges_def) (intro conjI impI arg_cong[where f = "map _"], auto simp: filter_empty_conv intro!: filter_cong)

lemma tbl_find_filter_key:
  "tbl_find key k (filter (\<lambda>r. key r \<notin> S) rows) = (if k \<in> S then None else tbl_find key k rows)"
  by (induction rows) (auto simp: tbl_find_def)

text \<open>The purge forgets a job and its journal together.\<close>

lemma audit_purge:
  assumes "audit_ok db"
  shows "audit_ok (purge_locked e cfg now db)"
proof -
  let ?ids = "set (map j_job_id (filter (purge_expired e cfg now) (db_jobs db)))"
  have "distinct (ids (purge_locked e cfg now db))"
    using assms by (simp add: audit_ok_def ids_def purge_locked_def Let_def distinct_map_filter)
  moreover have "edges k (purge_locked e cfg now db) = (if k \<in> ?ids then [] else edges k db)" for k
    by (simp add: purge_locked_def Let_def edges_filter del: set_map set_filter)
  moreover have "status_of k (purge_locked e cfg now db) = (if k \<in> ?ids then None else status_of k db)" for k
    by (simp add: purge_locked_def Let_def status_of_def select_job_def tbl_find_filter_key
        del: set_map set_filter)
  ultimately show ?thesis using assms by (simp add: audit_ok_def replay_def)
qed

lemma audit_recover: "audit_ok db \<Longrightarrow> audit_ok (recover_locked e cfg now db)"
  unfolding recover_locked_def
  by (intro audit_purge recover_fold_induct[where P = audit_ok] audit_recover_row)
     (simp_all add: audit_ok_def)

lemma audit_enqueue:
  assumes "audit_ok db" "select_job (cr_job_id q) db = None"
  shows "audit_ok (enqueue_job (new_job_row e now q p) now db)"
proof -
  have "cr_job_id q \<notin> set (ids db)" using assms(2) by (auto simp: jt.lookup_absent ids_def)
  moreover have "edges k (db\<lparr>db_jobs := js\<rparr>) = edges k db" for k js by (simp add: edges_def)
  moreover have "replay (edges (cr_job_id q) db) = Some None"
    using assms by (simp add: audit_ok_def status_of_def)
  ultimately show ?thesis
    using assms
    by (auto simp: audit_ok_def enqueue_job_def new_job_row_def edges_event_locked replay_def
        replay_step_def ids_def status_of_def select_job_def tbl_find_append split: option.splits)
       (auto simp: tbl_find_def)
qed

lemma audit_same_status:
  assumes "audit_ok db" "db_events db' = db_events db" "ids db' = ids db"
    "\<And>k. status_of k db' = status_of k db"
  shows "audit_ok db'"
  using assms by (simp add: audit_ok_def edges_def)

lemma status_map:
  assumes "\<And>r. j_job_id (f r) = j_job_id r \<and> j_status (f r) = j_status r"
  shows "map_option j_status (tbl_find j_job_id k (map f rows)) =
    map_option j_status (tbl_find j_job_id k rows)"
  using assms by (induction rows) (auto simp: tbl_find_def)

interpretation audit: job_invariant e cfg audit_ok for e cfg
proof (unfold_locales, goal_cases)
  case 1
  show ?case by (simp add: audit_ok_def empty_db_def ids_def edges_def replay_def status_of_def
        select_job_def tbl_find_def)
next
  case (2 db now)
  then show ?case by (rule audit_recover)
next
  case (3 db db')
  then show ?case
    by (simp add: audit_ok_def same_jobs_def ids_def edges_def status_of_def select_job_def)
next
  case (4 db q now p)
  then show ?case by (intro audit_enqueue)
next
  case (5 db row now)
  then have "j_status row \<noteq> CREATED"
    using status_of_member[of db row] by (auto simp: audit_ok_def)
  with 5 show ?case
    by (intro audit_transition) (cases "j_status row"; simp_all add: cancel_transition_def)+
next
  case (6 db row now w)
  then show ?case
    by (intro audit_rewrite[OF _ _ _ jobs_claim_locked, where s = RUNNING])
       (auto simp: claimable_cases claim_row_def claim_locked_def edges_event_locked)
next
  case (7 db row now g)
  then have "update_job (j_job_id row) (\<lambda>_. heartbeat_row cfg now g row) db =
      update_job (j_job_id row) (heartbeat_row cfg now g) db"
    by (simp add: update_job_def audit_ok_def ids_def tbl_update_const)
  then show ?case
    by (intro audit_same_status[OF 7(1)])
       (auto simp: ids_def update_job_def heartbeat_row_def status_of_def select_job_def
        tbl_update_def intro!: status_map)
next
  case (8 db row co res er now)
  then show ?case
    by (intro audit_rewrite[OF _ _ _ jobs_complete_locked, where s = "co_status co"])
       (auto simp: complete_row_def complete_locked_def Let_def edges_event_locked)
next
  case (9 db k)
  show ?case
    by (rule audit_same_status[OF 9])
       (simp_all add: mark_completion_processed_def update_job_def ids_def tbl_update_keys status_of_def select_job_def
        status_map tbl_update_def)
next
  case (10 db old new)
  show ?case
    by (rule audit_same_status[OF 10])
       (auto simp: migrate_jobs_def ids_def status_of_def select_job_def intro!: status_map)
qed

end
