(* ===== verification/Job_History.thy ===== *)
theory Job_History
  imports Job_Audit
begin

text \<open>
  The history of one job across operations: what any operation may do to a finished job, to a
  job that a worker holds under a live lease, and to the attempt counter.
\<close>

section \<open>One row across one operation\<close>

text \<open>What a recovery at \<open>now\<close> leaves of a row: None when the purge removes it.\<close>

definition survivor :: "env \<Rightarrow> repo_config \<Rightarrow> instant \<Rightarrow> job_row \<Rightarrow> job_row option" where
  "survivor e cfg now r =
     (let r' = recovered_row cfg now r in if purge_expired e cfg now r' then None else Some r')"

lemma select_recover:
  assumes "distinct (ids db)"
  shows "select_job k (recover_locked e cfg now db) = Option.bind (select_job k db) (survivor e cfg now)"
proof -
  have "tbl_find j_job_id k (filter (\<lambda>r. \<not> purge_expired e cfg now r) (map (recovered_row cfg now) rows)) =
      Option.bind (tbl_find j_job_id k rows) (survivor e cfg now)" if "distinct (map j_job_id rows)" for rows
    using that
  proof (induction rows)
    case (Cons r rows)
    show ?case
    proof (cases "j_job_id r = k")
      case True
      with Cons.prems have "tbl_find j_job_id k rows = None" by (auto simp: tbl_find_None)
      with True Cons show ?thesis by (simp add: tbl_find_def survivor_def Let_def)
    next
      case False
      with Cons show ?thesis by (simp add: tbl_find_def)
    qed
  qed (simp add: tbl_find_def)
  with assms show ?thesis
    by (simp add: select_job_def ids_def jobs_recover_locked)
qed

lemma select_same_jobs: "same_jobs db db' \<Longrightarrow> select_job k db' = select_job k db"
  by (simp add: same_jobs_def select_job_def)

lemma tbl_find_map:
  "(\<And>r. key (f r) = key r) \<Longrightarrow> tbl_find key k (map f rows) = map_option f (tbl_find key k rows)"
  by (induction rows) (simp_all add: tbl_find_def)

lemma tbl_find_update_at:
  assumes "\<And>r. key r = k' \<Longrightarrow> key (f r) = k'"
  shows "tbl_find key k (tbl_update key k' f rows) =
    (if k = k' then map_option f (tbl_find key k rows) else tbl_find key k rows)"
  using assms by (induction rows) (auto simp: tbl_find_def tbl_update_def)

lemma select_of_jobs:
  "db_jobs db' = tbl_update j_job_id k' f (db_jobs db) \<Longrightarrow> (\<And>r. j_job_id r = k' \<Longrightarrow> j_job_id (f r) = k') \<Longrightarrow>
   select_job k db' = (if k = k' then map_option f (select_job k db) else select_job k db)"
  by (simp add: select_job_def tbl_find_update_at)

lemma select_enqueue:
  "select_job k (enqueue_job row now db) =
     (case select_job k db of None \<Rightarrow> (if k = j_job_id row then Some row else None) | Some x \<Rightarrow> Some x)"
  by (simp add: enqueue_job_def select_job_def tbl_find_append)
     (simp add: tbl_find_def split: option.splits)

lemma new_job_row_id [simp]: "j_job_id (new_job_row e now q p) = cr_job_id q"
  by (simp add: new_job_row_def)

lemma distinct_same_jobs: "same_jobs db db' \<Longrightarrow> distinct (ids db) \<Longrightarrow> distinct (ids db')"
  by (simp add: same_jobs_def ids_def)

lemma select_member:
  "distinct (ids db) \<Longrightarrow> row \<in> set (db_jobs db) \<Longrightarrow> select_job (j_job_id row) db = Some row"
  by (simp add: jt.lookup_iff ids_def)

text \<open>
  The rows an operation may leave for a job that is there before it: the row untouched by the
  operation, or recovered, or rewritten by the one statement of the operation that names it.
\<close>

inductive row_effect :: "env \<Rightarrow> repo_config \<Rightarrow> string \<Rightarrow> repo_op \<Rightarrow> job_row \<Rightarrow> job_row option \<Rightarrow> bool"
  for e cfg k where
  kept: "row_effect e cfg k op r (Some r)"
| survived: "recovery_clock op = Some now \<Longrightarrow> row_effect e cfg k op r (survivor e cfg now r)"
| recreated: "survivor e cfg now r = None \<Longrightarrow> cr_job_id q = k \<Longrightarrow>
    row_effect e cfg k (OpCreate now q) r (Some (new_job_row e now q p))"
| cancelled: "survivor e cfg now r = Some r' \<Longrightarrow> \<not> terminal (j_status r') \<Longrightarrow>
    row_effect e cfg k (OpCancel now k) r (Some (settle_row r' (cancel_transition now) now r'))"
| claimed: "survivor e cfg now r = Some r' \<Longrightarrow> claimable r' \<Longrightarrow>
    row_effect e cfg k (OpClaim now cl sh st) r (Some (claim_row cfg now (cl_worker_id cl) r'))"
| renewed: "survivor e cfg now r = Some r' \<Longrightarrow> j_status r' = RUNNING \<Longrightarrow>
    j_worker_id r' = Some (hb_worker_id hb) \<Longrightarrow> j_attempt r' = hb_attempt hb \<Longrightarrow>
    row_effect e cfg k (OpHeartbeat now k hb) r (Some (heartbeat_row cfg now (hb_progress hb) r'))"
| completed: "survivor e cfg now r = Some r' \<Longrightarrow> j_status r' = RUNNING \<Longrightarrow>
    j_worker_id r' = Some (hb_worker_id co) \<Longrightarrow> j_attempt r' = hb_attempt co \<Longrightarrow>
    row_effect e cfg k (OpComplete now k co) r
      (Some (complete_row e now (co_status co) res er
        (if j_type r' \<in> set COMPLETION_PROCESSED_TYPES then r'\<lparr>j_completion_processed := False\<rparr> else r')))"
| processed: "row_effect e cfg k (OpMarkProcessed k) r (Some (r\<lparr>j_completion_processed := True\<rparr>))"
| migrated: "j_worker_id r = Some p \<Longrightarrow>
    row_effect e cfg k (OpRegister now g (Some p)) r (Some (r\<lparr>j_worker_id := Some (rg_worker_id g)\<rparr>))"

lemma bind_rewrite:
  assumes "distinct (ids db)" "same_jobs (recover_locked e cfg now db) db1" "row \<in> set (db_jobs db1)"
    and "select_job k db = Some r"
  shows "select_job k db1 = survivor e cfg now r"
    and "k = j_job_id row \<Longrightarrow> survivor e cfg now r = Some row"
proof -
  show *: "select_job k db1 = survivor e cfg now r"
    using select_recover[OF assms(1), of k e cfg now] assms(4)
    by (simp add: select_same_jobs[OF assms(2)])
  have "distinct (ids db1)"
    by (rule distinct_same_jobs[OF assms(2) distinct_ids_recover[OF assms(1)]])
  then show "survivor e cfg now r = Some row" if "k = j_job_id row"
    using select_member[of db1 row] assms(3) * that by simp
qed

lemma job_effect_row:
  assumes "job_effect e cfg db op db'" "distinct (ids db)" "select_job k db = Some r"
  shows "row_effect e cfg k op r (select_job k db')"
  using assms(1)
proof cases
  case frame
  then show ?thesis using assms(3) row_effect.kept by (simp add: select_same_jobs)
next
  case (recovered now)
  then show ?thesis
    using assms(3) select_recover[OF assms(2), of k e cfg now] row_effect.survived
    by (simp add: select_same_jobs)
next
  case (enqueued db1 now q p)
  have "select_job k db1 = survivor e cfg now r"
    using select_recover[OF assms(2), of k e cfg now] assms(3) enqueued(3) by simp
  moreover have "select_job k db' = (case select_job k db1 of
      None \<Rightarrow> (if k = cr_job_id q then Some (new_job_row e now q p) else None) | Some x \<Rightarrow> Some x)"
    unfolding enqueued(2) by (simp add: select_enqueue)
  ultimately show ?thesis
    using row_effect.recreated[of e cfg now r q k p] row_effect.survived[of op now e cfg k r] enqueued(1)
    by (auto split: option.splits)
next
  case (cancelled db1 now row)
  note sel = bind_rewrite[OF assms(2) same_jobs_refl[of "recover_locked e cfg now db"] _ assms(3), of row]
  show ?thesis
    using cancelled sel row_effect.cancelled[of e cfg now r row k] row_effect.survived[of op now e cfg k r]
    by (cases "k = j_job_id row") (auto simp: select_of_jobs[OF jobs_transition_locked])
next
  case (claimed now db1 row cl sh st)
  note sel = bind_rewrite[OF assms(2) claimed(3,4) assms(3)]
  show ?thesis
    using claimed sel row_effect.claimed[of e cfg now r row k] row_effect.survived[of op now e cfg k r]
    by (cases "k = j_job_id row")
       (auto simp: select_of_jobs[OF jobs_claim_locked] claim_row_def)
next
  case (renewed now db1 row hb)
  note sel = bind_rewrite[OF assms(2) renewed(3,4) assms(3)]
  show ?thesis
    using renewed sel row_effect.renewed[of e cfg now r row hb k] row_effect.survived[of op now e cfg k r]
    by (cases "k = j_job_id row") (auto simp: select_of_jobs[OF jt.rows_modify] heartbeat_row_def)
next
  case (completed db1 now row co res er)
  note sel = bind_rewrite[OF assms(2) same_jobs_refl[of "recover_locked e cfg now db"] _ assms(3), of row]
  show ?thesis
    using completed sel row_effect.completed[of e cfg now r row co k res er]
      row_effect.survived[of op now e cfg k r]
    by (cases "k = j_job_id row") (auto simp: select_of_jobs[OF jobs_complete_locked] complete_row_def)
next
  case (processed k')
  then show ?thesis
    using assms(3) row_effect.processed[of e cfg k r] row_effect.kept[of e cfg k op r]
    by (auto simp: mark_completion_processed_def jt.lookup_modify)
next
  case (migrated p g now)
  have "select_job k (migrate_jobs p (rg_worker_id g) db) = map_option (\<lambda>j. if j_worker_id j = Some p
     then j\<lparr>j_worker_id := Some (rg_worker_id g)\<rparr> else j) (select_job k db)"
    by (simp add: migrate_jobs_def select_job_def tbl_find_map)
  with migrated show ?thesis
    using assms(3) row_effect.migrated[of r p e cfg k now g] row_effect.kept[of e cfg k op r]
    by (auto simp: select_same_jobs)
qed

lemmas exec_row = job_effect_row[OF exec_job_effect]

section \<open>A finished job\<close>

text \<open>The columns that carry the outcome of a job.\<close>

definition outcome_of :: "job_row \<Rightarrow> job_status \<times> instant option \<times> json option \<times> string option \<times>
    job_error option \<times> int \<times> instant option" where
  "outcome_of r = (j_status r, j_finished_at r, j_result r, j_result_sha256 r, j_error r,
     j_attempt r, j_started_at r)"

lemma survivor_terminal:
  "terminal (j_status r) \<Longrightarrow> survivor e cfg now r = (if purge_expired e cfg now r then None else Some r)"
  by (simp add: survivor_def recovered_terminal Let_def)

lemma row_effect_terminal:
  assumes "row_effect e cfg k op r res" "terminal (j_status r)"
  shows "(\<exists>r'. res = Some r' \<and> outcome_of r' = outcome_of r) \<or>
    (\<exists>now. recovery_clock op = Some now \<and> purge_expired e cfg now r)"
  using assms
  by (cases rule: row_effect.cases)
     (auto simp: survivor_terminal outcome_of_def claimable_cases split: if_splits)

section \<open>A job under a live lease\<close>

definition held :: "string \<Rightarrow> int \<Rightarrow> job_row \<Rightarrow> bool" where
  "held w a r = (j_status r = RUNNING \<and> j_worker_id r = Some w \<and> j_attempt r = a)"

lemma survivor_held:
  assumes "held w a r" "j_lease_expires_at r = Some l" "now < l" "l \<le> deadline r"
  shows "survivor e cfg now r = Some r"
  using assms
  by (simp add: survivor_def recovered_row_def held_def recover_decision_def lease_lost_def
      purge_expired_def)

text \<open>The operations that may take a job from the worker that holds it before its lease is over.\<close>

fun ends_hold :: "string \<Rightarrow> string \<Rightarrow> int \<Rightarrow> repo_op \<Rightarrow> bool" where
  "ends_hold k w a (OpCancel now k') = (k' = k)"
| "ends_hold k w a (OpComplete now k' co) = (k' = k \<and> hb_worker_id co = w \<and> hb_attempt co = a)"
| "ends_hold k w a (OpRegister now g p) = (p = Some w)"
| "ends_hold k w a _ = False"

lemma row_effect_held:
  assumes "row_effect e cfg k op r res" "held w a r" "j_lease_expires_at r = Some l" "l \<le> deadline r"
    "\<And>now. recovery_clock op = Some now \<Longrightarrow> now < l" "\<not> ends_hold k w a op"
  shows "\<exists>r'. res = Some r' \<and> held w a r'"
proof -
  have s: "survivor e cfg now r = Some r" if "recovery_clock op = Some now" for now
    by (rule survivor_held[OF assms(2,3) assms(5)[OF that] assms(4)])
  from assms(1) show ?thesis
    by (cases rule: row_effect.cases)
       (use s assms(2,6) in \<open>auto simp: held_def claimable_cases heartbeat_row_def\<close>)
qed

section \<open>The attempt counter\<close>

lemma survivor_attempt: "survivor e cfg now r = Some r' \<Longrightarrow> j_attempt r' = j_attempt r"
  by (auto simp: survivor_def Let_def recovered_row_def split: if_splits option.splits)

lemma row_effect_attempt:
  assumes "row_effect e cfg k op r (Some r')"
  shows "j_attempt r' = j_attempt r \<or>
    j_attempt r' = j_attempt r + 1 \<and> j_status r' = RUNNING \<and> (\<exists>now cl sh st. op = OpClaim now cl sh st) \<or>
    (\<exists>now q. op = OpCreate now q \<and> survivor e cfg now r = None)"
  using assms
  by (cases rule: row_effect.cases)
     (auto dest: survivor_attempt survivor_attempt[OF sym] simp: claim_row_def heartbeat_row_def complete_row_def)

section \<open>Outcomes that Tsunade has to process\<close>

lemma survivor_flag:
  assumes "survivor e cfg now r = Some r'" "\<not> terminal (j_status r)" "terminal (j_status r')"
    "j_type r \<in> set [''ai.inference'', ''logs.investigate'']"
  shows "\<not> j_completion_processed r'"
  using assms
  by (auto simp: survivor_def Let_def recovered_row_def split: if_splits option.splits)

lemma survivor_type: "survivor e cfg now r = Some r' \<Longrightarrow> j_type r' = j_type r"
  by (auto simp: survivor_def Let_def recovered_row_def split: if_splits option.splits)

lemma row_effect_flag:
  assumes "row_effect e cfg k op r (Some r')" "\<not> terminal (j_status r)" "terminal (j_status r')"
    "j_type r \<in> set [''ai.inference'', ''logs.investigate'']"
  shows "\<not> j_completion_processed r'"
  using assms(1)
proof cases
  case (survived now)
  then show ?thesis using survivor_flag[OF survived(1)[symmetric] assms(2-4)] by simp
next
  case (cancelled now r1)
  then show ?thesis
    using assms(4) survivor_type[OF cancelled(3)] by (auto simp: cancel_transition_def)
next
  case (completed now r1 co res er)
  then show ?thesis
    using assms(4) survivor_type[OF completed(3)]
    by (auto simp: complete_row_def COMPLETION_PROCESSED_TYPES_def)
next
  case (renewed now r1 hb)
  then show ?thesis using assms(3) by (simp add: heartbeat_row_def)
qed (use assms in \<open>auto simp: claim_row_def new_job_row_def\<close>)

end
