(* ===== verification/Samples.thy ===== *)
theory Samples
  imports Job_Types
begin

text \<open>
  Concrete inputs at which the theorems are applied: an environment (Paris on a fixed winter
  offset, digests that print what they cover, conversions of plain values), requests, and workers.
\<close>

definition demo_digest :: "json \<Rightarrow> string" where
  "demo_digest j = (case jget j ''timeout'' of JInt n \<Rightarrow> show_int n | _ \<Rightarrow> ''digest'')"

text \<open>
  Conversions that accept a value of the type itself; a datetime is a count of seconds, a float
  one of two readings.
\<close>

fun demo_int :: "json \<Rightarrow> int option" where
  "demo_int (JInt i) = Some i"
| "demo_int _ = None"

definition demo_floats :: "string list" where
  "demo_floats = [''0.5'', ''12.5'']"

fun demo_float :: "json \<Rightarrow> string option" where
  "demo_float (JFloat s) = (if s \<in> set demo_floats then Some s else None)"
| "demo_float _ = None"

fun demo_bool :: "json \<Rightarrow> bool option" where
  "demo_bool (JBool b) = Some b"
| "demo_bool _ = None"

fun demo_datetime :: "json \<Rightarrow> timestamp option" where
  "demo_datetime (JStr s) =
     (if s \<noteq> [] \<and> list_all digit s
      then Some \<lparr>ts_instant = seconds (digits_value s), ts_aware = True, ts_text = s\<rparr> else None)"
| "demo_datetime _ = None"

fun demo_uuid :: "json \<Rightarrow> string option" where
  "demo_uuid (JStr s) = (if length s = 36 then Some s else None)"
| "demo_uuid _ = None"

definition demo_ge :: "string \<Rightarrow> int \<Rightarrow> bool" where
  "demo_ge s n = (n \<le> digits_value (takeWhile digit s))"

definition demo_le :: "string \<Rightarrow> int \<Rightarrow> bool" where
  "demo_le s n = (digits_value (takeWhile digit s) < n)"

definition demo_secret :: "string \<Rightarrow> string" where
  "demo_secret s = CHR ''#'' # s"

definition demo_env :: env where
  "demo_env = \<lparr>paris_offset = (\<lambda>_. 3600000000), julianday = (\<lambda>t. t), digest = demo_digest,
     secret_digest = demo_secret, lax_int = demo_int, lax_float = demo_float, lax_bool = demo_bool,
     lax_datetime = demo_datetime, lax_uuid = demo_uuid, float_ge = demo_ge, float_le = demo_le\<rparr>"

text \<open>A healthy host, as the worker reports it.\<close>

definition demo_report :: json where
  "demo_report = JObj
     [(''collected_at'', JStr ''28800''), (''cpu_percent'', JFloat ''12.5''),
      (''disk_free_bytes'', JInt 5), (''disk_total_bytes'', JInt 9), (''issues'', JArr []),
      (''memory_available_bytes'', JInt 3), (''memory_total_bytes'', JInt 4),
      (''platform'', JStr ''linux''), (''status'', JStr ''OK''), (''temperature_c'', JNull)]"

text \<open>09:00 in Paris on the first day of the epoch, and a job created then.\<close>

definition demo_now :: instant where
  "demo_now = 28800000000"

definition demo_request :: "string \<Rightarrow> job_create" where
  "demo_request k = \<lparr>cr_protocol_version = 1, cr_job_id = k, cr_type = ''system.health'',
     cr_created_at = demo_now, cr_created_offset = 0, cr_parameters = JObj [], cr_timeout = 600\<rparr>"

definition demo_claim :: "string \<Rightarrow> job_claim" where
  "demo_claim w = \<lparr>cl_worker_id = w, cl_supported_types = [''system.health'']\<rparr>"

definition demo_completion :: "string \<Rightarrow> int \<Rightarrow> job_completion" where
  "demo_completion w a = \<lparr>hb_worker_id = w, hb_attempt = a, hb_progress = None,
     co_status = SUCCEEDED, co_result = Some demo_report, co_error = None\<rparr>"

text \<open>An inference about an incident, with its parameters in normal form.\<close>

definition demo_question :: json where
  "demo_question = JObj
     [(''evidence'', JArr [JObj [(''content'', JStr ''timeout''), (''source'', JStr ''mqtt'')]]),
      (''incident_id'', JStr ''00000000-0000-0000-0000-000000000001''),
      (''max_output_tokens'', JInt 8192), (''question'', JStr ''why''),
      (''task'', JStr ''technical.diagnosis'')]"

definition demo_inference :: job_create where
  "demo_inference = (demo_request ''i'')\<lparr>cr_type := ''ai.inference'', cr_parameters := demo_question\<rparr>"

lemma demo_report_ok: "result_model demo_env ''system.health'' demo_report = Some demo_report"
  by code_simp

lemma demo_report_stored: "stored_json demo_report = Inr demo_report"
  by code_simp

lemma demo_question_ok: "parameters_model demo_env ''ai.inference'' demo_question = Some demo_question"
  by code_simp

end
