(* ===== verification/Job_Properties.thy ===== *)
theory Job_Properties
  imports Job_History Samples
begin

text \<open>
  The properties of the job queue, over every database that the public operations reach.
\<close>

section \<open>Sample databases\<close>

definition demo_ops :: "repo_op list" where
  "demo_ops = [OpCreate demo_now (demo_request ''a''),
               OpClaim (demo_now + seconds 1) (demo_claim ''w'') False False]"

definition demo_db :: jobdb where
  "demo_db = fold (exec_op demo_env default_config) demo_ops empty_db"

lemma demo_reachable: "reachable demo_env default_config demo_db"
  unfolding demo_db_def by (intro reachable_fold reachable.start)

definition demo_done_db :: jobdb where
  "demo_done_db = exec_op demo_env default_config
     (OpComplete (demo_now + seconds 5) ''a'' (demo_completion ''w'' 1)) demo_db"

lemma demo_done_reachable: "reachable demo_env default_config demo_done_db"
  unfolding demo_done_db_def by (intro reachable_exec demo_reachable)

section \<open>Invariants\<close>

text \<open>
  C1. Every row of every reachable database is well formed: the lease exists exactly while the
  job runs, belongs to a worker and never outlives the deadline of the job; a claimable job is
  unowned and has attempts left; a finished job has a finishing time, a result exactly when it
  succeeded, the digest of that result, and an error when it failed; job ids are unique and the
  number of active jobs stays within its limit.
\<close>

theorem reachable_rows_well_formed:
  assumes "config_ok cfg" and "reachable e cfg db"
  shows "jobs_ok e cfg db"
  using rows.reachable_inv[OF assms(2)] assms(1) by blast

theorem reachable_rows_well_formed_witness:
  "jobs_ok demo_env default_config demo_db \<and> map j_status (db_jobs demo_db) = [RUNNING]"
  using reachable_rows_well_formed[OF default_config_ok demo_reachable]
  by (rule conjI) code_simp

text \<open>
  C4. The journal is the history: in every reachable database the recorded transitions of a job,
  read in order, form a path of the life cycle that starts before its creation and ends in the
  status its row has; a job that is not stored has no transitions.
\<close>

theorem reachable_journal_replays:
  assumes "reachable e cfg db"
  shows "replay (edges k db) = Some (status_of k db)"
  using audit.reachable_inv[OF assms] by (simp add: audit_ok_def)

theorem reachable_journal_replays_witness:
  "replay (edges ''a'' demo_done_db) = Some (status_of ''a'' demo_done_db) \<and>
   edges ''a'' demo_done_db = [(None, CREATED), (Some CREATED, QUEUED), (Some QUEUED, RUNNING),
                               (Some RUNNING, SUCCEEDED)]"
  using reachable_journal_replays[OF demo_done_reachable, of "''a''"]
  by (rule conjI) code_simp

lemma reachable_distinct: "reachable e cfg db \<Longrightarrow> distinct (ids db)"
  using audit.reachable_inv[of e cfg db] by (simp add: audit_ok_def)

section \<open>Histories\<close>

text \<open>
  C2. Exclusive ownership. While the lease of a running job lasts, no operation with a clock
  before the end of the lease takes the job from the worker that holds it, except a cancellation
  of the job, the completion by this worker of this attempt, and the renaming of the worker: no
  second claim, no recovery, no stale completion or heartbeat does.
\<close>

theorem lease_is_exclusive:
  assumes "config_ok cfg" and "reachable e cfg db" and "select_job k db = Some r"
    and "held w a r" and "j_lease_expires_at r = Some l"
    and "case recovery_clock op of None \<Rightarrow> True | Some now \<Rightarrow> now < l"
    and "\<not> ends_hold k w a op"
  shows "\<exists>r'. select_job k (exec_op e cfg op db) = Some r' \<and> held w a r'"
proof -
  have "job_ok e cfg r"
    using rows.reachable_inv[OF assms(2)] assms(1,3) by (auto simp: jobs_okD dest: jt.lookup_member)
  then have "l \<le> deadline r" using assms(5) by (simp add: job_ok_def lease_ok_def)
  with assms(4-7) show ?thesis
    by (intro row_effect_held[OF exec_row[OF reachable_distinct[OF assms(2)] assms(3)]]) auto
qed

theorem lease_is_exclusive_witness:
  "\<exists>r'. select_job ''a'' (exec_op demo_env default_config
      (OpClaim (demo_now + seconds 30) (demo_claim ''other'') False False) demo_db) = Some r' \<and>
    held ''w'' 1 r'"
proof (rule lease_is_exclusive[OF default_config_ok demo_reachable])
  show "select_job ''a'' demo_db = Some (the (select_job ''a'' demo_db))" by code_simp
  show "held ''w'' 1 (the (select_job ''a'' demo_db))" by code_simp
  show "j_lease_expires_at (the (select_job ''a'' demo_db)) = Some (demo_now + seconds 61)" by code_simp
qed (simp_all add: seconds_def)

text \<open>
  C3. A finished job is final: whatever operation runs, its status, finishing time, result,
  digest, error, attempt and start are unchanged, until the retention period is over and a
  recovery removes the row.
\<close>

theorem finished_job_is_final:
  assumes "reachable e cfg db" and "select_job k db = Some r" and "terminal (j_status r)"
  shows "(\<exists>r'. select_job k (exec_op e cfg op db) = Some r' \<and> outcome_of r' = outcome_of r) \<or>
    (\<exists>now. recovery_clock op = Some now \<and> purge_expired e cfg now r)"
  by (rule row_effect_terminal[OF exec_row[OF reachable_distinct[OF assms(1)] assms(2)] assms(3)])

theorem finished_job_is_final_witness:
  "\<exists>r'. select_job ''a'' (exec_op demo_env default_config (OpCancel (demo_now + seconds 6) ''a'') demo_done_db) =
      Some r' \<and> outcome_of r' = outcome_of (the (select_job ''a'' demo_done_db))"
proof -
  have "select_job ''a'' demo_done_db = Some (the (select_job ''a'' demo_done_db))" by code_simp
  moreover have "terminal (j_status (the (select_job ''a'' demo_done_db)))" by code_simp
  moreover have "\<not> purge_expired demo_env default_config (demo_now + seconds 6)
      (the (select_job ''a'' demo_done_db))" by code_simp
  ultimately show ?thesis
    using finished_job_is_final[OF demo_done_reachable, of "''a''" _ "OpCancel (demo_now + seconds 6) ''a''"]
    by auto
qed

text \<open>
  The attempt counter only moves by claims: an operation leaves it, or is a claim that adds
  one and starts the job, or is the creation of a new job under an id whose old row has just been
  removed. So a worker that quotes an attempt names one claim.
\<close>

theorem attempts_count_claims:
  assumes "reachable e cfg db" and "select_job k db = Some r"
    and "select_job k (exec_op e cfg op db) = Some r'"
  shows "j_attempt r' = j_attempt r \<or>
    j_attempt r' = j_attempt r + 1 \<and> j_status r' = RUNNING \<and> (\<exists>now cl sh st. op = OpClaim now cl sh st) \<or>
    (\<exists>now q. op = OpCreate now q \<and> survivor e cfg now r = None)"
  using exec_row[OF reachable_distinct[OF assms(1)] assms(2), of e cfg op] assms(3)
  by (intro row_effect_attempt) simp

theorem attempts_count_claims_witness:
  "j_attempt (the (select_job ''a'' (exec_op demo_env default_config (OpGet (demo_now + seconds 61) ''a'') demo_db))) =
   j_attempt (the (select_job ''a'' demo_db))"
proof -
  let ?op = "OpGet (demo_now + seconds 61) ''a''"
  have "select_job ''a'' demo_db = Some (the (select_job ''a'' demo_db))" by code_simp
  moreover have "select_job ''a'' (exec_op demo_env default_config ?op demo_db) =
      Some (the (select_job ''a'' (exec_op demo_env default_config ?op demo_db)))" by code_simp
  ultimately show ?thesis using attempts_count_claims[OF demo_reachable] by blast
qed

text \<open>
  No outcome of an inference or of an investigation is lost: whichever operation ends such a
  job (a completion, a cancellation, a timeout, a worker given up), the row waits for Tsunade.
\<close>

theorem outcome_awaits_processing:
  assumes "reachable e cfg db" and "select_job k db = Some r" and "\<not> terminal (j_status r)"
    and "select_job k (exec_op e cfg op db) = Some r'" and "terminal (j_status r')"
    and "j_type r \<in> set [''ai.inference'', ''logs.investigate'']"
  shows "\<not> j_completion_processed r'"
  using exec_row[OF reachable_distinct[OF assms(1)] assms(2), of e cfg op] assms(3-6)
  by (intro row_effect_flag) simp_all

theorem outcome_awaits_processing_witness:
  "\<not> j_completion_processed (the (select_job ''i'' (exec_op demo_env default_config
      (OpGet (demo_now + seconds 600) ''i'')
      (exec_op demo_env default_config (OpCreate demo_now demo_inference) empty_db))))"
proof (rule outcome_awaits_processing)
  let ?db = "exec_op demo_env default_config (OpCreate demo_now demo_inference) empty_db"
  show "reachable demo_env default_config ?db" by (intro reachable_exec reachable.start)
  show "select_job ''i'' ?db = Some (the (select_job ''i'' ?db))" by code_simp
  show "\<not> terminal (j_status (the (select_job ''i'' ?db)))" by code_simp
  show "j_type (the (select_job ''i'' ?db)) \<in> set [''ai.inference'', ''logs.investigate'']" by code_simp
  let ?op = "OpGet (demo_now + seconds 600) ''i''"
  show "select_job ''i'' (exec_op demo_env default_config ?op ?db) =
    Some (the (select_job ''i'' (exec_op demo_env default_config ?op ?db)))" by code_simp
  show "terminal (j_status (the (select_job ''i'' (exec_op demo_env default_config ?op ?db))))" by code_simp
qed

end
