(* ===== verification/Job_Behaviour.thy ===== *)
theory Job_Behaviour
  imports Job_Properties
begin

text \<open>
  What each operation on jobs returns and stores: recovery and retention, claims, creation and
  its replay, completion and its replay, cancellation, and the fencing of stale workers.
\<close>

section \<open>Retention\<close>

text \<open>
  What the tz database documents of Europe/Paris since 1976: the offset is one or two hours.
\<close>

definition paris_law :: "env \<Rightarrow> bool" where
  "paris_law e = (\<forall>t. seconds 3600 \<le> paris_offset e t \<and> paris_offset e t \<le> seconds 7200)"

lemma paris_lawD:
  "paris_law e \<Longrightarrow> 3600000000 \<le> paris_offset e t"
  "paris_law e \<Longrightarrow> paris_offset e t \<le> 7200000000"
  by (auto simp: paris_law_def seconds_def)

lemma text_key_apart:
  assumes "paris_law e" and "a + 3600000000 < b"
  shows "text_key e a < text_key e b"
  using paris_lawD[OF assms(1), of a] paris_lawD[OF assms(1), of b] assms(2)
  by (simp add: text_key_def less_prod_def)

lemma text_key_less_near:
  assumes "paris_law e" and "text_key e a < text_key e b"
  shows "a \<le> b + 3600000000"
  using paris_lawD[OF assms(1), of a] paris_lawD[OF assms(1), of b] assms(2)
  by (auto simp: text_key_def less_prod_def)

lemma fresh_not_purged:
  assumes "paris_law e" "config_ok cfg" "j_finished_at r = Some now"
  shows "\<not> purge_expired e cfg now r"
proof
  assume "purge_expired e cfg now r"
  then have "text_key e now < text_key e (now - days (retention_days cfg))"
    using assms(3) by (simp add: purge_expired_def)
  then have "now \<le> now - days (retention_days cfg) + 3600000000"
    by (rule text_key_less_near[OF assms(1)])
  then show False using config_okD(3)[OF assms(2)] by (simp add: days_def)
qed

text \<open>
  Retention, although it compares the texts of local times: a recovery removes only finished
  jobs, never one that finished less than the retention period minus one hour ago, always one
  that finished more than the retention period plus one hour ago. The hour is the clock change.
\<close>

theorem retention_window:
  assumes "paris_law e" and "j_finished_at r = Some f" and "terminal (j_status r)"
  shows "(f + days (retention_days cfg) + seconds 3600 < now \<longrightarrow> survivor e cfg now r = None) \<and>
    (now < f + days (retention_days cfg) - seconds 3600 \<longrightarrow> survivor e cfg now r = Some r)"
proof (intro conjI impI)
  assume "f + days (retention_days cfg) + seconds 3600 < now"
  then have "text_key e f < text_key e (now - days (retention_days cfg))"
    by (intro text_key_apart[OF assms(1)]) (simp add: seconds_def)
  with assms show "survivor e cfg now r = None"
    by (simp add: survivor_terminal purge_expired_def)
next
  assume "now < f + days (retention_days cfg) - seconds 3600"
  then have "\<not> text_key e f < text_key e (now - days (retention_days cfg))"
    using text_key_less_near[OF assms(1), of f "now - days (retention_days cfg)"]
    by (auto simp: seconds_def)
  with assms show "survivor e cfg now r = Some r"
    by (simp add: survivor_terminal purge_expired_def)
qed

lemma demo_paris_law: "paris_law demo_env"
  by (simp add: paris_law_def demo_env_def seconds_def)

theorem retention_window_witness:
  "survivor demo_env default_config (demo_now + days 31) (the (select_job ''a'' demo_done_db)) = None \<and>
   survivor demo_env default_config (demo_now + days 29) (the (select_job ''a'' demo_done_db)) =
     Some (the (select_job ''a'' demo_done_db))"
proof -
  let ?r = "the (select_job ''a'' demo_done_db)"
  have f: "j_finished_at ?r = Some (demo_now + seconds 5)" by code_simp
  have t: "terminal (j_status ?r)" by code_simp
  show ?thesis
    using retention_window[OF demo_paris_law f t, of default_config "demo_now + days 31"]
      retention_window[OF demo_paris_law f t, of default_config "demo_now + days 29"]
    by (simp add: default_config_def days_def seconds_def)
qed

section \<open>Recovery\<close>

text \<open>
  C27. A job whose worker stopped renewing its lease, before the job's deadline: with attempts
  left it is queued again, unowned and with its counter kept; at the last attempt it fails with
  the error worker.interrupted that no client should retry.
\<close>

theorem lost_lease_is_retried_or_failed:
  assumes "paris_law e" and "config_ok cfg" and "reachable e cfg db"
    and "select_job k db = Some r" and "j_status r = RUNNING"
    and "j_lease_expires_at r = Some l" and "l \<le> now" and "now < deadline r"
  shows "\<exists>r'. select_job k (recover_locked e cfg now db) = Some r' \<and> j_attempt r' = j_attempt r \<and>
    j_lease_expires_at r' = None \<and>
    (if j_attempt r < max_attempts cfg
     then j_status r' = QUEUED \<and> j_worker_id r' = None \<and> j_error r' = None
     else j_status r' = FAILED \<and> j_finished_at r' = Some now \<and>
       map_option err_code (j_error r') = Some ''worker.interrupted'' \<and>
       map_option err_retryable (j_error r') = Some False)"
proof -
  have ok: "job_ok e cfg r"
    using rows.reachable_inv[OF assms(3)] assms(2,4) by (auto simp: jobs_okD dest: jt.lookup_member)
  have dec: "recover_decision cfg now r = Some (if max_attempts cfg \<le> j_attempt r
      then give_up_transition r now else retry_transition cfg r)"
    using assms(5-8) by (simp add: recover_decision_def lease_lost_def)
  let ?r = "recovered_row cfg now r"
  have "\<not> purge_expired e cfg now ?r"
  proof (cases "max_attempts cfg \<le> j_attempt r")
    case True
    then show ?thesis
      using dec assms(5)
      by (intro fresh_not_purged[OF assms(1,2)]) (simp add: recovered_row_def recoverable_cases give_up_transition_def)
  next
    case False
    then show ?thesis
      using dec assms(5)
      by (simp add: purge_expired_def recovered_row_def recoverable_cases retry_transition_def)
  qed
  then have "select_job k (recover_locked e cfg now db) = Some ?r"
    using select_recover[OF reachable_distinct[OF assms(3)], of k e cfg now] assms(4)
    by (simp add: survivor_def)
  moreover have "j_error r = None"
    using ok assms(5) by (auto simp: job_ok_def outcome_ok_def)
  ultimately show ?thesis
    using dec assms(5)
    by (simp add: recovered_row_def recoverable_cases give_up_transition_def retry_transition_def)
qed

theorem lost_lease_is_retried_or_failed_witness:
  "\<exists>r'. select_job ''a'' (recover_locked demo_env default_config (demo_now + seconds 61) demo_db) = Some r' \<and>
     j_status r' = QUEUED"
proof -
  let ?r = "the (select_job ''a'' demo_db)"
  have s: "select_job ''a'' demo_db = Some ?r" by code_simp
  have "j_status ?r = RUNNING" "j_lease_expires_at ?r = Some (demo_now + seconds 61)"
    "demo_now + seconds 61 < deadline ?r" "j_attempt ?r < max_attempts default_config" by code_simp+
  with lost_lease_is_retried_or_failed[OF demo_paris_law default_config_ok demo_reachable s,
      of "demo_now + seconds 61" "demo_now + seconds 61"]
  show ?thesis by auto
qed

text \<open>
  A job whose timeout elapsed before it finished ends in TIMEOUT at the first operation that
  notices it, is released from its lease, and says worker.unavailable exactly when no worker ever
  claimed it.
\<close>

theorem elapsed_deadline_times_out:
  assumes "paris_law e" and "config_ok cfg" and "reachable e cfg db"
    and "select_job k db = Some r" and "\<not> terminal (j_status r)" and "deadline r \<le> now"
  shows "\<exists>r'. select_job k (recover_locked e cfg now db) = Some r' \<and> j_status r' = TIMEOUT \<and>
    j_finished_at r' = Some now \<and> j_lease_expires_at r' = None \<and> j_worker_id r' = j_worker_id r \<and>
    map_option err_code (j_error r') = (if j_attempt r = 0 then Some ''worker.unavailable'' else None)"
proof -
  have ok: "job_ok e cfg r"
    using rows.reachable_inv[OF assms(3)] assms(2,4) by (auto simp: jobs_okD dest: jt.lookup_member)
  then have rec: "recoverable r"
    using assms(5) by (cases "j_status r") (simp_all add: job_ok_def recoverable_cases)
  have dec: "recover_decision cfg now r = Some (timeout_transition r now)"
    using assms(6) by (simp add: recover_decision_def)
  let ?r = "recovered_row cfg now r"
  have "\<not> purge_expired e cfg now ?r"
    using dec rec by (intro fresh_not_purged[OF assms(1,2)]) (simp add: recovered_row_def transition_defs)
  then have "select_job k (recover_locked e cfg now db) = Some ?r"
    using select_recover[OF reachable_distinct[OF assms(3)], of k e cfg now] assms(4)
    by (simp add: survivor_def)
  moreover have "j_error r = None"
    using ok assms(5) by (cases "j_status r") (simp_all add: job_ok_def outcome_ok_def)
  ultimately show ?thesis
    using dec rec by (simp add: recovered_row_def transition_defs)
qed

theorem elapsed_deadline_times_out_witness:
  "\<exists>r'. select_job ''a'' (recover_locked demo_env default_config (demo_now + seconds 600) demo_db) = Some r' \<and>
     j_status r' = TIMEOUT \<and> j_error r' = None"
proof -
  let ?r = "the (select_job ''a'' demo_db)"
  have s: "select_job ''a'' demo_db = Some ?r" by code_simp
  have "\<not> terminal (j_status ?r)" "deadline ?r \<le> demo_now + seconds 600" "j_attempt ?r \<noteq> 0" by code_simp+
  with elapsed_deadline_times_out[OF demo_paris_law default_config_ok demo_reachable s,
      of "demo_now + seconds 600"]
  show ?thesis by auto
qed

end
