(* ===== verification/Job_Protocol.thy ===== *)
theory Job_Protocol
  imports Job_Behaviour
begin

text \<open>
  The protocol between Tsunade, the queue and a worker: dispatch order, replays of a creation and
  of a completion, cancellation, and the rejection of workers that lost their attempt.
\<close>

section \<open>Dispatch\<close>

lemma touch_jobs [simp]: "db_jobs (touch_worker_locked w now db) = db_jobs db"
  by (simp add: touch_worker_locked_def update_worker_def)

lemma select_touch [simp]: "select_job k (touch_worker_locked w now db) = select_job k db"
  by (simp add: select_job_def)

lemma next_claimable_touch [simp]: "next_claimable e ts (touch_worker_locked w now db) = next_claimable e ts db"
  by (simp add: next_claimable_def)

lemma next_claimable_least:
  assumes "next_claimable e ts db = Some row" "r \<in> set (db_jobs db)" "claimable r" "j_type r \<in> set ts"
  shows "dispatch_key e row \<le> dispatch_key e r"
  using first_min_least[OF assms(1)[unfolded next_claimable_def], of r] assms(2-4) by simp

lemma select_claim_locked:
  "select_job k (claim_locked cfg now w row db) =
     (if k = j_job_id row then map_option (\<lambda>_. claim_row cfg now w row) (select_job k db) else select_job k db)"
  by (simp add: select_of_jobs[OF jobs_claim_locked] claim_row_def)

lemma claim_row_simps [simp]:
  "j_job_id (claim_row cfg now w row) = j_job_id row" "j_status (claim_row cfg now w row) = RUNNING"
  "j_worker_id (claim_row cfg now w row) = Some w" "j_attempt (claim_row cfg now w row) = j_attempt row + 1"
  "j_lease_expires_at (claim_row cfg now w row) = Some (lease_until cfg now row)"
  by (simp_all add: claim_row_def)

text \<open>A job that has not succeeded has no stored result, so its view cannot raise.\<close>

lemma reachable_job_ok:
  "config_ok cfg \<Longrightarrow> reachable e cfg db \<Longrightarrow> r \<in> set (db_jobs db) \<Longrightarrow> job_ok e cfg r"
  using rows.reachable_inv[of e cfg db] by (blast intro: jobs_okD(2))

lemma recovered_job_ok:
  "config_ok cfg \<Longrightarrow> reachable e cfg db \<Longrightarrow> r \<in> set (db_jobs (recover_locked e cfg now db)) \<Longrightarrow> job_ok e cfg r"
  using rows.inv_recover[OF rows.reachable_inv, of e cfg db now] by (blast intro: jobs_okD(2))

lemma no_result: "job_ok e cfg r \<Longrightarrow> j_status r \<noteq> SUCCEEDED \<Longrightarrow> j_result r = None"
  by (simp add: job_ok_def outcome_ok_def)

lemma claim_cases:
  assumes "config_ok cfg" "reachable e cfg db" "compatible_types cl \<noteq> []"
  shows "case next_claimable e (compatible_types cl) (recover_locked e cfg now db) of
      None \<Rightarrow> \<exists>granted db'. claim e cfg now cl sh st db = Inr ((None, granted), db')
    | Some row \<Rightarrow> \<exists>b db'. claim e cfg now cl sh st db =
        Inr ((Some (row_view b None (claim_row cfg now (cl_worker_id cl) row)), False), db') \<and>
        (\<forall>k. select_job k db' = (if k = j_job_id row then Some (claim_row cfg now (cl_worker_id cl) row)
                                 else select_job k (recover_locked e cfg now db)))"
proof (cases "next_claimable e (compatible_types cl) (recover_locked e cfg now db)")
  case None
  with assms(3) show ?thesis by (auto simp: claim_def Let_def split: prod.splits)
next
  case (Some row)
  note row = next_claimable_Some[OF Some]
  have "select_job (j_job_id row) (recover_locked e cfg now db) = Some row"
    by (rule select_member[OF distinct_ids_recover[OF reachable_distinct[OF assms(2)]] row(1)])
  moreover have "job_ok e cfg row"
    using recovered_job_ok[OF assms(1,2) row(1)] .
  then have "j_result row = None" using row(2) by (auto simp: claimable_cases intro: no_result)
  then have "document b (claim_row cfg now w row) = Inr (row_view b None (claim_row cfg now w row))" for b w
    by (intro document_no_result) (simp add: claim_row_def)
  ultimately show ?thesis using Some assms(3)
    by (auto simp: claim_def Let_def select_required_def select_claim_locked)
qed

text \<open>The jobs a poll may hand out, after the recovery that opens it.\<close>

definition ready_jobs :: "env \<Rightarrow> repo_config \<Rightarrow> instant \<Rightarrow> job_claim \<Rightarrow> jobdb \<Rightarrow> job_row list" where
  "ready_jobs e cfg now cl db =
     filter (\<lambda>r. claimable r \<and> j_type r \<in> set (compatible_types cl)) (db_jobs (recover_locked e cfg now db))"

text \<open>
  C23. A poll is answered, and with the right job: it returns no job exactly when, after recovery,
  no claimable job has a type the worker and the queue support; otherwise it returns the first of
  them by creation time and id, now running for this worker as a new attempt, under a lease that
  is not over, lasts at most the lease time and ends by the job's deadline. No other job changes.
\<close>

theorem claim_dispatches_oldest:
  assumes "config_ok cfg" and "reachable e cfg db" and "compatible_types cl \<noteq> []"
  shows "\<exists>v db'. claim e cfg now cl sh st db = Inr (v, db') \<and>
    (case fst v of
       None \<Rightarrow> ready_jobs e cfg now cl db = []
     | Some doc \<Rightarrow> \<exists>row l. row \<in> set (ready_jobs e cfg now cl db) \<and>
         (\<forall>r \<in> set (ready_jobs e cfg now cl db). dispatch_key e row \<le> dispatch_key e r) \<and>
         doc_job_id doc = j_job_id row \<and> doc_status doc = RUNNING \<and> doc_attempt doc = j_attempt row + 1 \<and>
         doc_worker_id doc = Some (cl_worker_id cl) \<and> doc_lease_expires_at doc = Some l \<and>
         now < l \<and> l \<le> now + seconds (lease_seconds cfg) \<and> l \<le> deadline row \<and>
         (\<forall>k. k \<noteq> j_job_id row \<longrightarrow> select_job k db' = select_job k (recover_locked e cfg now db)))"
proof (cases "next_claimable e (compatible_types cl) (recover_locked e cfg now db)")
  case None
  then have "ready_jobs e cfg now cl db = []"
    by (simp add: next_claimable_def ready_jobs_def)
  with None claim_cases[OF assms, of now sh st] show ?thesis
    by auto
next
  case (Some row)
  note row = next_claimable_Some[OF Some] next_claimable_least[OF Some]
  have "now < deadline row"
    using recover_locked_settled[OF reachable_distinct[OF assms(2)] row(1)] row(2)
    by (auto simp: claimable_cases recoverable_cases)
  then have l: "now < lease_until cfg now row" "lease_until cfg now row \<le> now + seconds (lease_seconds cfg)"
    "lease_until cfg now row \<le> deadline row"
    using config_okD(1)[OF assms(1)] by (auto simp: lease_until_def seconds_def)
  obtain b db' where c: "claim e cfg now cl sh st db =
      Inr ((Some (row_view b None (claim_row cfg now (cl_worker_id cl) row)), False), db')"
    and others: "\<forall>k. k \<noteq> j_job_id row \<longrightarrow> select_job k db' = select_job k (recover_locked e cfg now db)"
    using Some claim_cases[OF assms, of now sh st]
    by auto
  have "row \<in> set (ready_jobs e cfg now cl db)"
    "\<forall>r \<in> set (ready_jobs e cfg now cl db). dispatch_key e row \<le> dispatch_key e r"
    using row by (auto simp: ready_jobs_def)
  with l others show ?thesis
    unfolding c by (auto simp: row_view_def intro!: exI[of _ row])
qed

theorem claim_dispatches_oldest_witness:
  "\<exists>doc db'. claim demo_env default_config (demo_now + seconds 61) (demo_claim ''v'') False False demo_db =
     Inr ((Some doc, False), db') \<and> doc_job_id doc = ''a'' \<and> doc_attempt doc = 2"
proof -
  have t: "compatible_types (demo_claim ''v'') \<noteq> []" by code_simp
  have "ready_jobs demo_env default_config (demo_now + seconds 61) (demo_claim ''v'') demo_db \<noteq> []" by code_simp
  moreover have "\<forall>r \<in> set (ready_jobs demo_env default_config (demo_now + seconds 61) (demo_claim ''v'') demo_db).
      j_job_id r = ''a'' \<and> j_attempt r = 1" by code_simp
  moreover have "snd (fst (projr (claim demo_env default_config (demo_now + seconds 61) (demo_claim ''v'')
      False False demo_db))) = False" by code_simp
  ultimately show ?thesis
    using claim_dispatches_oldest[OF default_config_ok demo_reachable t, of "demo_now + seconds 61" False False]
    by (fastforce split: option.splits)
qed

section \<open>Fencing\<close>



end
