(* ===== verification/Job_Replay.thy ===== *)
theory Job_Replay
  imports Job_Protocol
begin

text \<open>
  Requests that arrive twice: a creation, a completion; and the path of a cancellation to the
  worker that runs the job.
\<close>

section \<open>Creation\<close>

lemma survivor_request: "survivor e cfg now r = Some r' \<Longrightarrow> j_request_sha256 r' = j_request_sha256 r"
  by (auto simp: survivor_def Let_def recovered_row_def split: if_splits option.splits)

lemma create_stores_digest:
  assumes "create e cfg now q db = Inr (doc, db1)"
  obtains p r where "validate_parameters e (cr_type q) (cr_parameters q) = Inr p" "job_create_ok q"
    "select_job (cr_job_id q) db1 = Some r" "j_request_sha256 r = request_digest e now q p"
    "document False r = Inr doc"
  using assms
  by (auto simp: create_def Let_def select_enqueue new_job_row_def returning_def
      split: if_splits sum.splits option.splits)

lemma create_distinct:
  "create e cfg now q db = Inr (doc, db1) \<Longrightarrow> reachable e cfg db \<Longrightarrow> reachable e cfg db1"
  using reachable_exec[of e cfg db "OpCreate now q"] by simp

lemma create_again:
  assumes "reachable e cfg db" "create e cfg now q db = Inr (doc, db1)"
    and "cr_created_at q \<le> now' + seconds 300" "now' < cr_created_at q + seconds (cr_timeout q)"
    and "select_job (cr_job_id q) (recover_locked e cfg now' db1) = Some row"
  obtains p where "create e cfg now' q db1 =
    (if request_digest e now q p = request_digest e now' q p
     then returning (document False row) (recover_locked e cfg now' db1)
     else Inl (ConflictError ''job_id already exists with a different request''))"
proof -
  obtain p r where p: "validate_parameters e (cr_type q) (cr_parameters q) = Inr p" "job_create_ok q"
    "select_job (cr_job_id q) db1 = Some r" "j_request_sha256 r = request_digest e now q p"
    using create_stores_digest[OF assms(2)] by metis
  have "survivor e cfg now' r = Some row"
    using assms(5) p(3) select_recover[OF reachable_distinct[OF create_distinct[OF assms(2,1)]]] by simp
  then have "j_request_sha256 row = request_digest e now q p"
    using p(4) by (simp add: survivor_request)
  with p assms(3-5) have "create e cfg now' q db1 =
    (if request_digest e now q p = request_digest e now' q p
     then returning (document False row) (recover_locked e cfg now' db1)
     else Inl (ConflictError ''job_id already exists with a different request''))"
    by (simp add: create_def Let_def)
  then show ?thesis by (rule that)
qed

text \<open>
  A creation that is sent again, before the job's timeout and while the queue gives it the same
  normalised timeout, returns the stored job as it is by then and queues nothing.
\<close>

theorem create_is_idempotent:
  assumes "reachable e cfg db" and "create e cfg now q db = Inr (doc, db1)"
    and "cr_created_at q \<le> now' + seconds 300" and "now' < cr_created_at q + seconds (cr_timeout q)"
    and "select_job (cr_job_id q) (recover_locked e cfg now' db1) = Some row"
    and "normalized_timeout e now' q = normalized_timeout e now q"
  shows "create e cfg now' q db1 = returning (document False row) (recover_locked e cfg now' db1)"
proof -
  obtain p where "create e cfg now' q db1 =
    (if request_digest e now q p = request_digest e now' q p
     then returning (document False row) (recover_locked e cfg now' db1)
     else Inl (ConflictError ''job_id already exists with a different request''))"
    using create_again[OF assms(1-5)] by blast
  then show ?thesis using assms(6) by (simp add: request_digest_def)
qed

theorem create_is_idempotent_witness:
  "create demo_env default_config (demo_now + seconds 9) (demo_request ''a'')
     (exec_op demo_env default_config (OpCreate demo_now (demo_request ''a'')) empty_db) =
   returning (document False (new_job_row demo_env demo_now (demo_request ''a'') (JObj [])))
     (recover_locked demo_env default_config (demo_now + seconds 9)
       (exec_op demo_env default_config (OpCreate demo_now (demo_request ''a'')) empty_db))"
proof (rule create_is_idempotent[OF reachable.start])
  show "create demo_env default_config demo_now (demo_request ''a'') empty_db =
    Inr (row_view False None (new_job_row demo_env demo_now (demo_request ''a'') (JObj [])),
      exec_op demo_env default_config (OpCreate demo_now (demo_request ''a'')) empty_db)"
    by code_simp
qed (code_simp+)

text \<open>
  The replay is refused when the clock alone changed the request: for a type of the automatic
  wake before 05:00 in Paris, the normalised timeout runs to 05:00 and so depends on the arrival;
  sent again a second later, the same request is a conflict (for digests that tell the two
  documents apart).
\<close>

theorem create_replay_conflicts_before_five:
  assumes "reachable e cfg db" and "create e cfg now q db = Inr (doc, db1)"
    and "cr_created_at q \<le> now' + seconds 300" and "now' < cr_created_at q + seconds (cr_timeout q)"
    and "select_job (cr_job_id q) (recover_locked e cfg now' db1) = Some row"
    and "normalized_timeout e now' q \<noteq> normalized_timeout e now q"
    and "\<And>a b. digest e (job_create_dump a) = digest e (job_create_dump b) \<Longrightarrow> cr_timeout a = cr_timeout b"
  shows "create e cfg now' q db1 = Inl (ConflictError ''job_id already exists with a different request'')"
proof -
  obtain p where c: "create e cfg now' q db1 =
    (if request_digest e now q p = request_digest e now' q p
     then returning (document False row) (recover_locked e cfg now' db1)
     else Inl (ConflictError ''job_id already exists with a different request''))"
    using create_again[OF assms(1-5)] by blast
  have "request_digest e now q p \<noteq> request_digest e now' q p"
    using assms(6,7) by (force simp: request_digest_def)
  with c show ?thesis by simp
qed

text \<open>A backup requested at 03:00 in Paris, and again nine seconds later.\<close>

definition night_backup :: json where
  "night_backup = JObj [(''backup_id'', JStr ''20260101T030000Z''), (''compression_level'', JInt 6),
     (''recipient'', JStr ''age1qqqqqqqqqqqqqqqq'')]"

definition night_request :: job_create where
  "night_request = (demo_request ''n'')\<lparr>cr_type := ''backup.infra'', cr_parameters := night_backup,
     cr_created_at := 7200000000\<rparr>"

lemma demo_digest_dump: "digest demo_env (job_create_dump a) = show_int (cr_timeout a)"
  by (simp add: demo_env_def demo_digest_def job_create_dump_def)

theorem create_replay_conflicts_before_five_witness:
  "create demo_env default_config 7209000000 night_request
     (exec_op demo_env default_config (OpCreate 7200000000 night_request) empty_db) =
   Inl (ConflictError ''job_id already exists with a different request'')"
proof (rule create_replay_conflicts_before_five[OF reachable.start, where now = 7200000000])
  show "cr_timeout a = cr_timeout b"
    if "digest demo_env (job_create_dump a) = digest demo_env (job_create_dump b)" for a b
    using that by (simp add: demo_digest_dump show_int_inj)
  let ?row = "new_job_row demo_env 7200000000 night_request night_backup"
  show "create demo_env default_config 7200000000 night_request empty_db =
    Inr (row_view False None ?row,
      exec_op demo_env default_config (OpCreate 7200000000 night_request) empty_db)"
    by code_simp
  show "select_job (cr_job_id night_request) (recover_locked demo_env default_config 7209000000
      (exec_op demo_env default_config (OpCreate 7200000000 night_request) empty_db)) = Some ?row"
    by code_simp
qed (code_simp+)

section \<open>Completion\<close>

lemma require_owner_held: "held w a r \<Longrightarrow> require_owner r w a = Inr ()"
  by (simp add: held_def require_owner_def require_attempt_owner_def)

lemma select_held_recover:
  assumes "config_ok cfg" "reachable e cfg db" "select_job k db = Some r" "held w a r"
    "j_lease_expires_at r = Some l" "now < l"
  shows "select_job k (recover_locked e cfg now db) = Some r"
proof -
  have "job_ok e cfg r"
    using rows.reachable_inv[OF assms(2)] assms(1,3) by (auto simp: jobs_okD dest: jt.lookup_member)
  then have "l \<le> deadline r" using assms(5) by (simp add: job_ok_def lease_ok_def)
  then show ?thesis
    using select_recover[OF reachable_distinct[OF assms(2)], of k e cfg now] assms(3)
      survivor_held[OF assms(4,5,6)] by simp
qed

lemma select_complete_locked:
  "select_job k (complete_locked e now row co res er db) =
     (if k = j_job_id row then map_option (\<lambda>r. complete_row e now (co_status co) res er
          (if j_type row \<in> set COMPLETION_PROCESSED_TYPES then r\<lparr>j_completion_processed := False\<rparr> else r))
        (select_job k db)
      else select_job k db)"
  by (simp add: select_of_jobs[OF jobs_complete_locked] complete_row_def)

lemma complete_row_simps [simp]:
  "j_status (complete_row e now s res er r) = s" "j_finished_at (complete_row e now s res er r) = Some now"
  "j_result (complete_row e now s res er r) = res"
  "j_result_sha256 (complete_row e now s res er r) = map_option (digest e) res"
  "j_error (complete_row e now s res er r) = er"
  "j_type (complete_row e now s res er r) = j_type r"
  by (simp_all add: complete_row_def)

text \<open>
  C25. The worker that holds a live lease can finish its attempt: a well-formed completion with a
  valid payload is accepted, unless the result cannot be read back from its masked text; the job
  ends with the reported status at that time, with the validated result and its digest or with the
  reported error, and the answer shows the result as it reads with its camera sessions masked.
\<close>

theorem holder_completes:
  assumes "config_ok cfg" and "reachable e cfg db" and "select_job k db = Some r"
    and "held (hb_worker_id co) (hb_attempt co) r" and "j_lease_expires_at r = Some l" and "now < l"
    and "validate_terminal_payload co = Inr co" and "completion_outcome e r co = Inr (res, er)"
    and "map_option stored_json res = map_option Inr shown"
  shows "\<exists>doc db'. complete e cfg now k co db = Inr (doc, db') \<and> doc_job_id doc = k \<and>
    doc_status doc = co_status co \<and> doc_finished_at doc = Some now \<and> doc_lease_expires_at doc = None \<and>
    doc_result doc = shown \<and> doc_result_sha256 doc = map_option (digest e) res \<and>
    doc_error doc = er \<and> status_of k db' = Some (co_status co)"
proof -
  have s: "select_job k (recover_locked e cfg now db) = Some r"
    by (rule select_held_recover[OF assms(1-6)])
  have k: "j_job_id r = k" using jt.lookup_member[OF s] by simp
  have "j_status r = RUNNING" using assms(4) by (simp add: held_def)
  moreover have "document False (complete_row e now (co_status co) res er r') =
      Inr (row_view False shown (complete_row e now (co_status co) res er r'))" for r'
    using assms(9) by (cases res; cases shown) (auto simp: document_def)
  ultimately show ?thesis
    using s k assms(4,7,8)
    by (simp add: complete_def Let_def select_required_def require_owner_held select_complete_locked
        status_of_def) (simp add: row_view_def complete_row_def)
qed

theorem holder_completes_witness:
  "\<exists>doc db'. complete demo_env default_config (demo_now + seconds 5) ''a'' (demo_completion ''w'' 1) demo_db =
     Inr (doc, db') \<and> doc_status doc = SUCCEEDED \<and> doc_result doc = Some demo_report"
proof -
  let ?r = "the (select_job ''a'' demo_db)" and ?co = "demo_completion ''w'' 1"
  have "select_job ''a'' demo_db = Some ?r" "held (hb_worker_id ?co) (hb_attempt ?co) ?r"
    "j_lease_expires_at ?r = Some (demo_now + seconds 61)" "demo_now + seconds 5 < demo_now + seconds 61"
    "validate_terminal_payload ?co = Inr ?co" "completion_outcome demo_env ?r ?co = Inr (Some demo_report, None)"
    "map_option stored_json (Some demo_report) = map_option Inr (Some demo_report)"
    by code_simp+
  from holder_completes[OF default_config_ok demo_reachable this] show ?thesis
    by (auto simp: demo_completion_def)
qed

lemma completion_outcome_type: "j_type a = j_type b \<Longrightarrow> completion_outcome e a co = completion_outcome e b co"
  by (simp add: completion_outcome_def cong: option.case_cong)

lemma complete_terminal_row:
  assumes "complete e cfg now k co db = Inr (doc, db')"
  obtains r res er where "validate_terminal_payload co = Inr co" "select_job k db' = Some r"
    "completion_outcome e r co = Inr (res, er)" "same_completion r (co_status co) res er"
    "j_status r = SUCCEEDED \<or> j_status r = FAILED" "document False r = Inr doc"
proof -
  obtain row res er where v: "validate_terminal_payload co = Inr co"
    and s: "select_job k (recover_locked e cfg now db) = Some row"
    and o: "completion_outcome e row co = Inr (res, er)"
    using assms validate_terminal_payload_Inr[of co]
    by (auto simp: complete_def Let_def select_required_def split: sum.splits option.splits prod.splits)
  have k: "j_job_id row = k" using jt.lookup_member[OF s] by simp
  show ?thesis
  proof (cases "j_status row = SUCCEEDED \<or> j_status row = FAILED")
    case True
    with assms v s o have "select_job k db' = Some row" "same_completion row (co_status co) res er"
      "document False row = Inr doc"
      by (auto simp: complete_def Let_def select_required_def returning_def split: if_splits sum.splits)
    with True v o show ?thesis using that by blast
  next
    case False
    let ?r = "complete_row e now (co_status co) res er
      (if j_type row \<in> set COMPLETION_PROCESSED_TYPES then row\<lparr>j_completion_processed := False\<rparr> else row)"
    have "select_job k db' = Some ?r" "document False ?r = Inr doc"
      using assms v s o k False
      by (auto simp: complete_def Let_def select_required_def select_complete_locked returning_def
          split: sum.splits)
    moreover have "completion_outcome e ?r co = Inr (res, er)"
      using o completion_outcome_type[of ?r row e co] by simp
    moreover have "same_completion ?r (co_status co) res er" by (simp add: same_completion_def)
    moreover have "j_status ?r = SUCCEEDED \<or> j_status ?r = FAILED"
      using validate_terminal_payload_Inr[OF v] by auto
    ultimately show ?thesis using that v by blast
  qed
qed

text \<open>
  C26. A completion that is sent again after it was accepted (a worker that lost the answer) gets
  the same document, as long as the job is kept, and records nothing twice.
\<close>

theorem completion_is_idempotent:
  assumes "reachable e cfg db" and "complete e cfg now k co db = Inr (doc, db')"
    and "select_job k (recover_locked e cfg now' db') \<noteq> None"
  shows "complete e cfg now' k co db' = Inr (doc, recover_locked e cfg now' db')"
proof -
  obtain r res er where r: "validate_terminal_payload co = Inr co" "select_job k db' = Some r"
    "completion_outcome e r co = Inr (res, er)" "same_completion r (co_status co) res er"
    "j_status r = SUCCEEDED \<or> j_status r = FAILED" "document False r = Inr doc"
    using complete_terminal_row[OF assms(2)] by metis
  have "reachable e cfg db'"
    using reachable_exec[OF assms(1), of "OpComplete now k co"] assms(2) by simp
  then have "select_job k (recover_locked e cfg now' db') = survivor e cfg now' r"
    using select_recover[OF reachable_distinct, of e cfg db' k e cfg now'] r(2) by simp
  then have "select_job k (recover_locked e cfg now' db') = Some r"
    using assms(3) r(5) by (auto simp: survivor_terminal split: if_splits)
  with r show ?thesis by (auto simp: complete_def Let_def select_required_def)
qed

theorem completion_is_idempotent_witness:
  "complete demo_env default_config (demo_now + seconds 90) ''a'' (demo_completion ''w'' 1) demo_done_db =
   Inr (row_view False (Some demo_report) (the (select_job ''a'' demo_done_db)),
     recover_locked demo_env default_config (demo_now + seconds 90) demo_done_db)"
proof (rule completion_is_idempotent[OF demo_reachable])
  show "complete demo_env default_config (demo_now + seconds 5) ''a'' (demo_completion ''w'' 1) demo_db =
    Inr (row_view False (Some demo_report) (the (select_job ''a'' demo_done_db)), demo_done_db)" by code_simp
  show "select_job ''a'' (recover_locked demo_env default_config (demo_now + seconds 90) demo_done_db) \<noteq> None"
    by code_simp
qed

section \<open>Cancellation\<close>

lemma held_no_result:
  assumes "config_ok cfg" "reachable e cfg db" "select_job k db = Some r" "held w a r"
  shows "j_result r = None"
  using assms(4) jt.lookup_member[OF assms(3)]
  by (intro no_result[OF reachable_job_ok[OF assms(1,2)]]) (auto simp: held_def)

lemma cancel_settled:
  assumes "config_ok cfg" "reachable e cfg db" "select_job k db = Some r" "held w a r"
    "j_lease_expires_at r = Some l" "now < l"
  obtains db' where "cancel e cfg now k db =
      Inr (row_view False None (settle_row r (cancel_transition now) now r), db')"
    "select_job k db' = Some (settle_row r (cancel_transition now) now r)"
    "reachable e cfg db'"
proof -
  have s: "select_job k (recover_locked e cfg now db) = Some r"
    by (rule select_held_recover[OF assms])
  have k: "j_job_id r = k" using jt.lookup_member[OF s] by simp
  let ?db = "transition_locked r (cancel_transition now) now (recover_locked e cfg now db)"
  have sel: "select_job k ?db = Some (settle_row r (cancel_transition now) now r)"
    using s k by (simp add: select_of_jobs[OF jobs_transition_locked])
  have d: "document False (settle_row r (cancel_transition now) now r) =
      Inr (row_view False None (settle_row r (cancel_transition now) now r))"
    using held_no_result[OF assms(1-4)] by (intro document_no_result) simp
  have c: "cancel e cfg now k db = Inr (row_view False None (settle_row r (cancel_transition now) now r), ?db)"
    using s sel d assms(4) by (simp add: cancel_def Let_def select_required_def held_def)
  moreover have "reachable e cfg ?db"
    using reachable_exec[OF assms(2), of "OpCancel now k"] c by simp
  ultimately show ?thesis using sel that by blast
qed

text \<open>
  A cancellation reaches the worker: cancelling a job that a worker holds succeeds and
  releases the lease; the next heartbeat of that worker is answered, without error, by the
  cancelled job (while it is kept), and a completion it still sends is refused.
\<close>

theorem cancellation_reaches_worker:
  assumes "config_ok cfg" and "reachable e cfg db" and "select_job k db = Some r"
    and "held (hb_worker_id co) (hb_attempt co) r" and "j_lease_expires_at r = Some l" and "now < l"
    and "validate_terminal_payload co = Inr co" and "completion_outcome e r co = Inr v"
  shows "\<exists>doc db'. cancel e cfg now k db = Inr (doc, db') \<and> doc_status doc = CANCELLED \<and>
    doc_lease_expires_at doc = None \<and>
    (select_job k (recover_locked e cfg now' db') \<noteq> None \<longrightarrow>
      heartbeat e cfg now' k (job_heartbeat.truncate co) db' = Inr (doc, recover_locked e cfg now' db') \<and>
      complete e cfg now' k co db' =
        Inl (ConflictError ''job is not running (current status: CANCELLED)''))"
proof -
  let ?r = "settle_row r (cancel_transition now) now r"
  obtain db' where c: "cancel e cfg now k db = Inr (row_view False None ?r, db')"
    and s: "select_job k db' = Some ?r" and reach: "reachable e cfg db'"
    using cancel_settled[OF assms(1-6)] by blast
  have st: "j_status ?r = CANCELLED" by (simp add: cancel_transition_def)
  have d: "document False ?r = Inr (row_view False None ?r)"
    using held_no_result[OF assms(1-4)] by (intro document_no_result) simp
  have "select_job k (recover_locked e cfg now' db') = Some ?r"
    if "select_job k (recover_locked e cfg now' db') \<noteq> None"
    using that select_recover[OF reachable_distinct[OF reach], of k e cfg now'] s st
    by (auto simp: survivor_terminal split: if_splits)
  moreover have "require_attempt_owner ?r (hb_worker_id co) (hb_attempt co) = Inr ()"
    using assms(4) by (simp add: require_attempt_owner_def held_def cancel_transition_def)
  moreover have "completion_outcome e ?r co = Inr v"
    using assms(8) completion_outcome_type[of ?r r e co] by simp
  ultimately show ?thesis
    unfolding c using st assms(7)
    by (cases v)
       (auto simp: d heartbeat_def complete_def Let_def select_required_def job_heartbeat.truncate_def
        require_owner_def, simp_all add: row_view_def cancel_transition_def)
qed

theorem cancellation_reaches_worker_witness:
  "\<exists>doc db'. cancel demo_env default_config (demo_now + seconds 5) ''a'' demo_db = Inr (doc, db') \<and>
     doc_status doc = CANCELLED"
proof -
  let ?r = "the (select_job ''a'' demo_db)" and ?co = "demo_completion ''w'' 1"
  have "select_job ''a'' demo_db = Some ?r" "held (hb_worker_id ?co) (hb_attempt ?co) ?r"
    "j_lease_expires_at ?r = Some (demo_now + seconds 61)" "demo_now + seconds 5 < demo_now + seconds 61"
    "validate_terminal_payload ?co = Inr ?co" "completion_outcome demo_env ?r ?co = Inr (Some demo_report, None)"
    by code_simp+
  from cancellation_reaches_worker[OF default_config_ok demo_reachable this, of "demo_now + seconds 9"]
  show ?thesis by blast
qed

end
