(* ===== verification/Contract_Laws.thy ===== *)
theory Contract_Laws
  imports Job_Models "HOL-Library.Sublist"
begin

text \<open>
  What a job model guarantees: a normalised document is canonical, has exactly the declared keys,
  and is accepted again unchanged; a workspace path never leaves the workspace; the summaries of
  health, logs and diagnoses agree with the details they come with.
\<close>

section \<open>Trimming\<close>

lemma dropWhile_idem [simp]: "dropWhile P (dropWhile P s) = dropWhile P s"
  by (induction s) auto

lemma dropWhile_rev_hd:
  assumes "s = [] \<or> \<not> P (hd s)"
  shows "rev (dropWhile P (rev s)) = [] \<or> \<not> P (hd (rev (dropWhile P (rev s))))"
proof (cases "rev (dropWhile P (rev s))")
  case (Cons c cs)
  have "suffix (dropWhile P (rev s)) (rev s)" by (rule suffix_dropWhile)
  then have "prefix (c # cs) s" using Cons by (metis rev_rev_ident suffix_to_prefix)
  then have "hd s = c" "s \<noteq> []" by (auto simp: prefix_def)
  with assms Cons show ?thesis by simp
qed simp

lemma trim_trim [simp]: "trim (trim s) = trim s"
proof -
  let ?d = "dropWhile blank s"
  have "?d = [] \<or> \<not> blank (hd ?d)" using hd_dropWhile[of blank s] by blast
  then have "dropWhile blank (trim s) = trim s"
    using dropWhile_rev_hd[of ?d blank] unfolding trim_def[symmetric]
    by (cases "trim s") auto
  then show ?thesis by (simp add: trim_def)
qed

section \<open>Normalised documents are stable\<close>

definition stable :: "validator \<Rightarrow> bool" where
  "stable v = (\<forall>j j'. v j = Some j' \<longrightarrow> v j' = Some j')"

lemma stableD: "stable v \<Longrightarrow> v j = Some j' \<Longrightarrow> v j' = Some j'"
  by (auto simp: stable_def)

text \<open>The documented conversions of pydantic: what it dumps, it reads back.\<close>

definition coercion_law :: "env \<Rightarrow> bool" where
  "coercion_law e =
     ((\<forall>i. lax_int e (JInt i) = Some i) \<and>
      (\<forall>j s. lax_float e j = Some s \<longrightarrow> lax_float e (JFloat s) = Some s \<and> float_text s) \<and>
      (\<forall>b. lax_bool e (JBool b) = Some b) \<and>
      (\<forall>j t. lax_datetime e j = Some t \<longrightarrow> lax_datetime e (JStr (ts_text t)) = Some t) \<and>
      (\<forall>j u. lax_uuid e j = Some u \<longrightarrow> lax_uuid e (JStr u) = Some u))"

lemma stable_str [intro]: "stable (str_field ok)"
  by (auto simp: stable_def str_field_def split: json.splits if_splits)

lemma stable_scalars [intro]:
  assumes "coercion_law e"
  shows "stable (int_field e ok)" "stable (float_field e ok')" "stable (bool_field e)"
    "stable (datetime_field e ok'')" "stable (uuid_field e)"
  using assms
  by (auto simp: stable_def coercion_law_def int_field_def float_field_def bool_field_def
      datetime_field_def uuid_field_def split: option.splits if_splits)

lemma stable_literal [intro]: "stable (literal js)"
  by (auto simp: stable_def literal_def)

lemma stable_optional [intro]: "stable v \<Longrightarrow> stable (optional v)"
  by (auto simp: stable_def optional_def)

lemma each_Some: "each f xs = Some ys \<longleftrightarrow> list_all2 (\<lambda>x y. f x = Some y) xs ys"
  by (induction xs arbitrary: ys) (auto simp: list_all2_Cons1 split: option.splits)

lemma each_length: "each f xs = Some ys \<Longrightarrow> length ys = length xs"
  by (auto simp: each_Some dest: list_all2_lengthD)

lemma stable_list [intro]:
  assumes "stable v"
  shows "stable (list_field v lo hi)"
proof -
  have "each v ys = Some ys" if "each v xs = Some ys" for xs ys
    using that assms by (auto simp: each_Some list_all2_conv_all_nth stable_def)
  then show ?thesis
    by (auto simp: stable_def list_field_def each_length split: json.splits if_splits)
qed

section \<open>Dictionaries of a model\<close>

lemma map_of_dict_insert: "map_of (dict_insert k v kvs) = (map_of kvs)(k \<mapsto> v)"
  by (induction k v kvs rule: dict_insert.induct) (auto simp: fun_eq_iff)

lemma sorted_dict_insert:
  "sorted_wrt (<) (map fst kvs) \<Longrightarrow>
   sorted_wrt (<) (map fst (dict_insert k v kvs)) \<and> fst ` set (dict_insert k v kvs) = insert k (fst ` set kvs)"
  by (induction k v kvs rule: dict_insert.induct) (auto simp: not_less_iff_gr_or_eq)

lemma dict_of_fold:
  assumes "sorted_wrt (<) (map fst acc)"
  shows "map_of (fold (\<lambda>(k, v). dict_insert k v) kvs acc) = map_of acc ++ map_of (rev kvs) \<and>
    sorted_wrt (<) (map fst (fold (\<lambda>(k, v). dict_insert k v) kvs acc)) \<and>
    fst ` set (fold (\<lambda>(k, v). dict_insert k v) kvs acc) = fst ` set acc \<union> fst ` set kvs"
  using assms
proof (induction kvs arbitrary: acc)
  case (Cons kv kvs)
  obtain k v where kv: "kv = (k, v)" by (cases kv)
  have s: "sorted_wrt (<) (map fst (dict_insert k v acc))"
    "fst ` set (dict_insert k v acc) = insert k (fst ` set acc)"
    using sorted_dict_insert[OF Cons.prems] by simp_all
  show ?case
    using Cons.IH[OF s(1)] s(2) by (auto simp: kv map_of_dict_insert map_add_def fun_eq_iff split: option.splits)
qed simp

lemma map_of_rev_distinct: "distinct (map fst kvs) \<Longrightarrow> map_of (rev kvs) = map_of kvs"
  by (rule map_of_inject_set[THEN iffD2]) (simp_all add: rev_map[symmetric])

lemma map_of_dict_of:
  assumes "distinct (map fst kvs)"
  shows "map_of (dict_of kvs) = map_of kvs"
  using dict_of_fold[of "[]" kvs] map_of_rev_distinct[OF assms] by (simp add: dict_of_def)

lemma keys_dict_of: "fst ` set (dict_of kvs) = fst ` set kvs"
  using dict_of_fold[of "[]" kvs] by (simp add: dict_of_def)

lemma sorted_dict_of: "sorted_wrt (<) (map fst (dict_of kvs))"
  using dict_of_fold[of "[]" kvs] by (simp add: dict_of_def)

lemma value_dict_of: "distinct (map fst kvs) \<Longrightarrow> (k, v) \<in> set (dict_of kvs) \<longleftrightarrow> (k, v) \<in> set kvs"
  using map_of_dict_of[of kvs] sorted_dict_of[of kvs] map_of_eq_Some_iff[of kvs k v]
    map_of_eq_Some_iff[of "dict_of kvs" k v] strict_sorted_iff by metis

text \<open>A model that accepts a document read every declared field, and gives exactly those.\<close>

lemma field_value_Some: "field_value kvs f = Some kv \<longleftrightarrow>
    fst kv = fst f \<and> (case map_of kvs (fst f) of Some j \<Rightarrow> snd (snd f) j | None \<Rightarrow> fst (snd f)) = Some (snd kv)"
  by (cases kv) (auto simp: field_value_def split: option.splits)

lemma model_SomeE:
  assumes "model fs chk j = Some j'"
  obtains kvs out where "j = JObj kvs" "j' = JObj (dict_of out)" "chk j'" "map fst out = map fst fs"
    "list_all2 (\<lambda>f kv. field_value kvs f = Some kv) fs out"
proof -
  obtain kvs out where m: "j = JObj kvs" "each (field_value kvs) fs = Some out" "j' = JObj (dict_of out)" "chk j'"
    using assms by (auto simp: model_def split: json.splits if_splits option.splits)
  then have l: "list_all2 (\<lambda>f kv. field_value kvs f = Some kv) fs out" by (simp add: each_Some)
  then have "map fst out = map fst fs"
    by (induction rule: list_all2_induct) (auto simp: field_value_Some)
  with m l that show ?thesis by blast
qed

lemma model_values:
  assumes "model fs chk j = Some j'" "distinct (map fst fs)" "f \<in> set fs"
  shows "(\<exists>x. snd (snd f) x = Some (jget j' (fst f))) \<or> fst (snd f) = Some (jget j' (fst f))"
proof -
  obtain kvs out where m: "j' = JObj (dict_of out)" "map fst out = map fst fs"
    "list_all2 (\<lambda>f kv. field_value kvs f = Some kv) fs out" using assms(1) by (elim model_SomeE)
  obtain i where i: "i < length fs" "f = fs ! i" using assms(3) by (auto simp: in_set_conv_nth)
  define kv where "kv = out ! i"
  have kv: "kv \<in> set out" "field_value kvs f = Some kv"
    using m(3) i by (auto simp: list_all2_conv_all_nth kv_def)
  have "map_of (dict_of out) (fst f) = Some (snd kv)"
    using kv m(2) assms(2) by (simp add: map_of_dict_of map_of_eq_Some_iff field_value_Some) (metis prod.collapse)
  with kv m(1) show ?thesis by (auto simp: field_value_Some split: option.splits)
qed

lemma model_check: "model fs chk j = Some j' \<Longrightarrow> chk j'"
  by (elim model_SomeE)

lemma model_again:
  assumes "model fs chk j = Some j'" "distinct (map fst fs)"
    and "\<And>f. f \<in> set fs \<Longrightarrow> snd (snd f) (jget j' (fst f)) = Some (jget j' (fst f))"
  shows "model fs chk j' = Some j'"
proof -
  obtain kvs out where m: "j' = JObj (dict_of out)" "chk j'" "map fst out = map fst fs"
    "list_all2 (\<lambda>f kv. field_value kvs f = Some kv) fs out" using assms(1) by (elim model_SomeE)
  have d: "distinct (map fst out)" using m(3) assms(2) by simp
  have "field_value (dict_of out) (fs ! i) = Some (out ! i)" if "i < length fs" for i
  proof -
    have v: "field_value kvs (fs ! i) = Some (out ! i)" and i: "i < length out"
      using m(4) that by (auto simp: list_all2_conv_all_nth)
    then have "map_of (dict_of out) (fst (fs ! i)) = Some (snd (out ! i))"
      using d by (simp add: map_of_dict_of[OF d] map_of_eq_Some_iff field_value_Some)
        (metis nth_mem prod.collapse)
    with assms(3)[of "fs ! i"] that v m(1) show ?thesis by (simp add: field_value_Some)
  qed
  then have "each (field_value (dict_of out)) fs = Some out"
    using m(4) by (simp add: each_Some list_all2_conv_all_nth)
  moreover have "list_all (\<lambda>kv. fst kv \<in> set (map fst fs)) (dict_of out)"
    using keys_dict_of[of out] m(3) unfolding list_all_iff by (metis image_eqI list.set_map)
  ultimately show ?thesis using m(1,2) by (simp add: model_def)
qed

text \<open>A declaration whose conversion is stable and whose default it accepts.\<close>

definition field_ok :: "field \<Rightarrow> bool" where
  "field_ok f = (stable (snd (snd f)) \<and> (\<forall>d. fst (snd f) = Some d \<longrightarrow> snd (snd f) d = Some d))"

lemma field_ok_again:
  assumes "model fs chk j = Some j'" "distinct (map fst fs)" "f \<in> set fs" "field_ok f"
  shows "snd (snd f) (jget j' (fst f)) = Some (jget j' (fst f))"
  using model_values[OF assms(1-3)] assms(4) by (auto simp: field_ok_def stable_def)

lemma stable_model:
  assumes "distinct (map fst fs)" "list_all field_ok fs"
  shows "stable (model fs chk)"
  using assms unfolding stable_def list_all_iff by (blast intro: model_again field_ok_again)

lemma field_ok_simps:
  "field_ok (required n v) \<longleftrightarrow> stable v" "field_ok (defaults n d v) \<longleftrightarrow> stable v \<and> v d = Some d"
  by (auto simp: field_ok_def required_def defaults_def)

lemma field_names [simp]: "fst (required n v) = n" "fst (defaults n d v) = n"
  by (simp_all add: required_def defaults_def)

lemmas stable_fields = stable_str stable_literal stable_optional stable_list stable_scalars

lemma stable_any: "stable any_text" "stable LogSourceId" "stable HistorySourceId" "stable HistoryMetric"
  "stable sha256_field" "coercion_law e \<Longrightarrow> stable (any_time e)" "coercion_law e \<Longrightarrow> stable (unit_interval e)"
  unfolding any_text_def LogSourceId_def HistorySourceId_def HistoryMetric_def sha256_field_def
    any_time_def unit_interval_def
  by (auto intro: stable_fields)

lemma default_null: "optional v JNull = Some JNull"
  by (simp add: optional_def)

lemma default_empty: "0 \<le> n \<Longrightarrow> list_field v 0 n (JArr []) = Some (JArr [])"
  by (simp add: list_field_def)

lemma default_int: "coercion_law e \<Longrightarrow> ok i \<Longrightarrow> int_field e ok (JInt i) = Some (JInt i)"
  by (simp add: coercion_law_def int_field_def)

lemma default_literal: "d \<in> set js \<Longrightarrow> literal js d = Some d"
  by (simp add: literal_def)

lemmas field_rules = field_ok_simps stable_fields stable_any default_null default_empty default_int
  default_literal texts_def within_def at_least_def

lemma stable_parts:
  "stable SystemHealthIssue" "stable AiInferenceEvidence"
  unfolding SystemHealthIssue_def AiInferenceEvidence_def
  by (rule stable_model; simp add: field_rules)+

lemma stable_records:
  assumes "coercion_law e"
  shows "stable (LogBaseline e)" "stable (LogFinding e)" "stable (LogCorrelation e)" "stable (TrendsDailyValue e)"
    "stable (AiInferenceFinding e)" "stable (AiInferenceMetrics e)" "stable (AiInferenceHypothesis e)"
  unfolding LogBaseline_def LogFinding_def LogCorrelation_def TrendsDailyValue_def AiInferenceFinding_def
    AiInferenceMetrics_def AiInferenceHypothesis_def
  by (rule stable_model; simp add: assms field_rules)+

lemma stable_source_health: "coercion_law e \<Longrightarrow> stable (LogSourceHealth e)"
  unfolding LogSourceHealth_def by (rule stable_model; simp add: field_rules stable_records)

lemmas stable_components = stable_parts stable_records stable_source_health

lemma default_text: "0 \<le> n \<Longrightarrow> str_field (sized 0 n) (JStr []) = Some (JStr [])"
  by (simp add: str_field_def trim_def sized_def)

lemma stable_results:
  assumes "coercion_law e"
  shows "stable (SystemHealthResult e)" "stable (BackupCompressResult e)" "stable (BackupEncryptResult e)"
    "stable (BackupVerifyResult e)" "stable (InfraBackupResult e)" "stable (LogsHealthCheckResult e)"
    "stable (LogsInvestigateResult e)" "stable (AiInferenceResult e)" "stable (TrendsHistoryBackfillResult e)"
  unfolding SystemHealthResult_def BackupCompressResult_def BackupEncryptResult_def BackupVerifyResult_def
    InfraBackupResult_def LogsHealthCheckResult_def LogsInvestigateResult_def AiInferenceResult_def
    TrendsHistoryBackfillResult_def
  by (rule stable_model; simp add: assms field_rules stable_components default_text)+

lemma stable_parameters:
  assumes "coercion_law e"
  shows "stable (SystemHealthParameters e)" "stable (InfraBackupParameters e)"
    "stable (LogsHealthCheckParameters e)" "stable (LogsInvestigateParameters e)"
    "stable (AiInferenceParameters e)" "stable (TrendsHistoryBackfillParameters e)"
  unfolding SystemHealthParameters_def InfraBackupParameters_def LogsHealthCheckParameters_def
    LogsInvestigateParameters_def AiInferenceParameters_def TrendsHistoryBackfillParameters_def
  by (rule stable_model; simp add: assms field_rules stable_components default_text)+

section \<open>Workspace paths\<close>

lemma split_on_nonempty [simp]: "split_on d s \<noteq> []"
  by (induction s) (auto split: list.splits)

lemma split_on_parts: "p \<in> set (split_on d s) \<Longrightarrow> d \<notin> set p"
  by (induction s arbitrary: p) (auto split: list.splits if_splits)

lemma set_split_on: "p \<in> set (split_on d s) \<Longrightarrow> set p \<subseteq> set s"
  by (induction s arbitrary: p) (fastforce split: list.splits if_splits)+

lemma join_split_on: "join [d] (split_on d s) = s"
proof (induction s)
  case (Cons c s)
  obtain p ps where "split_on d s = p # ps" using split_on_nonempty[of d s] by (cases "split_on d s") auto
  with Cons show ?case by (cases ps) auto
qed simp

lemma split_on_append: "d \<notin> set p \<Longrightarrow> split_on d (p @ d # s) = p # split_on d s"
  by (induction p) auto

lemma split_on_snoc: "split_on d (s @ [d]) = split_on d s @ [[]]"
proof (induction s)
  case (Cons c s)
  then show ?case using split_on_nonempty[of d s] by (cases "split_on d s") auto
qed simp

lemma split_on_single: "d \<notin> set p \<Longrightarrow> split_on d p = [p]"
  by (induction p) auto

lemma split_on_join: "xs \<noteq> [] \<Longrightarrow> \<forall>p \<in> set xs. d \<notin> set p \<Longrightarrow> split_on d (join [d] xs) = xs"
proof (induction xs)
  case (Cons x xs)
  then show ?case by (cases xs) (simp_all add: split_on_single split_on_append)
qed simp

lemma set_join: "set (join [d] xs) \<subseteq> insert d (\<Union> (set ` set xs))"
proof (induction xs)
  case (Cons x xs)
  then show ?case by (cases xs) auto
qed simp

lemma length_join_filter: "length (join [d] (filter P xs)) \<le> length (join [d] xs)"
proof (induction xs)
  case (Cons x xs)
  show ?case
  proof (cases xs)
    case (Cons y ys)
    with Cons.IH show ?thesis by (cases "filter P xs") auto
  qed simp
qed simp

text \<open>The parts of an accepted path: real names, none of them a step up.\<close>

lemma workspace_path_parts:
  assumes "workspace_relative_path s = Inr p"
  shows "split_on (CHR ''/'') p = posix_parts s" "posix_parts s \<noteq> []"
    "x \<in> set (posix_parts s) \<Longrightarrow> x \<noteq> [] \<and> x \<noteq> ''.'' \<and> x \<noteq> ''..'' \<and> CHR ''/'' \<notin> set x"
    "p = join ''/'' (posix_parts s)" "CHR 0x5C \<notin> set p" "CHR '':'' \<notin> set p"
proof -
  have a: "posix_parts s \<noteq> []" "p = join ''/'' (posix_parts s)" "CHR 0x5C \<notin> set s" "CHR '':'' \<notin> set s"
    "\<And>x. x \<in> set (posix_parts s) \<Longrightarrow> x \<notin> set [[], ''.'', ''..'']"
    using assms by (auto simp: workspace_relative_path_def Let_def list_ex_iff split: if_splits)
  have n: "\<And>x. x \<in> set (posix_parts s) \<Longrightarrow> CHR ''/'' \<notin> set x"
    by (auto simp: posix_parts_def dest: split_on_parts)
  have "set p \<subseteq> insert (CHR ''/'') (\<Union> (set ` set (posix_parts s)))" unfolding a(2) by (rule set_join)
  also have "\<dots> \<subseteq> insert (CHR ''/'') (\<Union> (set ` set (split_on (CHR ''/'') s)))"
    by (auto simp: posix_parts_def)
  also have "\<dots> \<subseteq> insert (CHR ''/'') (set s)" using set_split_on by blast
  finally have "set p \<subseteq> insert (CHR ''/'') (set s)" .
  with a(3,4) show "CHR 0x5C \<notin> set p" "CHR '':'' \<notin> set p" by auto
  show "split_on (CHR ''/'') p = posix_parts s" unfolding a(2) using a(1) n by (intro split_on_join) auto
  show "x \<in> set (posix_parts s) \<Longrightarrow> x \<noteq> [] \<and> x \<noteq> ''.'' \<and> x \<noteq> ''..'' \<and> CHR ''/'' \<notin> set x"
    using a(5) n by auto
  show "p = join ''/'' (posix_parts s)" "posix_parts s \<noteq> []" using a by auto
qed

lemma posix_parts_again:
  assumes "workspace_relative_path s = Inr p"
  shows "posix_parts p = posix_parts s"
  using workspace_path_parts[OF assms] unfolding posix_parts_def[of p] by (auto simp: filter_id_conv)

lemma workspace_path_again:
  assumes "workspace_relative_path s = Inr p"
  shows "workspace_relative_path p = Inr p"
proof -
  note w = workspace_path_parts[OF assms]
  obtain x xs where x: "posix_parts s = x # xs" using w(2) by (cases "posix_parts s") auto
  have "take 1 p \<noteq> ''/''"
  proof
    assume "take 1 p = ''/''"
    then obtain q where "p = CHR ''/'' # q" by (cases p) auto
    then have "hd (split_on (CHR ''/'') p) = []" by simp
    with w(1,3) x show False by simp
  qed
  moreover have "List.last p \<noteq> CHR ''/''" if "p \<noteq> []"
  proof
    assume "List.last p = CHR ''/''"
    with that obtain q where "p = q @ [CHR ''/'']" by (metis append_butlast_last_id)
    then have "[] \<in> set (split_on (CHR ''/'') p)" by (simp add: split_on_snoc)
    with w(1,3) show False by auto
  qed
  ultimately show ?thesis
    using w posix_parts_again[OF assms]
    by (auto simp: workspace_relative_path_def Let_def list_ex_iff)
qed

text \<open>Where a path leads from a directory, given as its list of names from the root.\<close>

fun walk :: "string list \<Rightarrow> string list \<Rightarrow> string list" where
  "walk dir [] = dir"
| "walk dir (p # ps) =
     (if p = ''..'' then walk (butlast dir) ps
      else if p = [] \<or> p = ''.'' then walk dir ps
      else walk (dir @ [p]) ps)"

lemma walk_down: "(\<And>x. x \<in> set ps \<Longrightarrow> x \<noteq> [] \<and> x \<noteq> ''.'' \<and> x \<noteq> ''..'') \<Longrightarrow> walk dir ps = dir @ ps"
  by (induction ps arbitrary: dir) auto

lemma walk_skips: "walk dir (filter (\<lambda>p. p \<noteq> [] \<and> p \<noteq> ''.'') ps) = walk dir ps"
  by (induction ps arbitrary: dir) auto

lemma workspace_path_inside:
  assumes "workspace_relative_path s = Inr p"
  shows "walk dir (split_on (CHR ''/'') p) = dir @ split_on (CHR ''/'') p"
    "walk dir (split_on (CHR ''/'') s) = dir @ split_on (CHR ''/'') p"
proof -
  note w = workspace_path_parts[OF assms]
  have d: "walk dir (posix_parts s) = dir @ posix_parts s" using w(3) by (intro walk_down) auto
  then show "walk dir (split_on (CHR ''/'') p) = dir @ split_on (CHR ''/'') p" by (simp add: w(1))
  from d show "walk dir (split_on (CHR ''/'') s) = dir @ split_on (CHR ''/'') p"
    using walk_skips[of dir "split_on (CHR ''/'') s"] by (simp add: w(1) posix_parts_def)
qed

lemma path_field_Some:
  "path_field j = Some j' \<longleftrightarrow>
     (\<exists>s p. j = JStr s \<and> j' = JStr p \<and> sized 1 500 (trim s) \<and> workspace_relative_path (trim s) = Inr p)"
  by (auto simp: path_field_def str_field_def split: json.splits sum.splits option.splits if_splits)

lemma length_workspace_path: "workspace_relative_path s = Inr p \<Longrightarrow> length p \<le> length s"
  using workspace_path_parts(4)[of s p] length_join_filter[of "CHR ''/''" _ "split_on (CHR ''/'') s"]
  by (simp add: posix_parts_def join_split_on)

lemma path_field_again:
  assumes "path_field j = Some j'" "trim (jtext j') = jtext j'"
  shows "path_field j' = Some j'"
proof -
  obtain s p where j: "j' = JStr p" "sized 1 500 (trim s)" "workspace_relative_path (trim s) = Inr p"
    using assms(1) by (auto simp: path_field_Some)
  have "p \<noteq> []" using workspace_path_parts(1)[OF j(3)] workspace_path_parts(3)[OF j(3), of "[]"]
    by (metis list.set_intros(1) split_on.simps(1))
  then have "sized 1 500 p" using j(2) length_workspace_path[OF j(3)] by (cases p) (auto simp: sized_def)
  with j assms(2) workspace_path_again[OF j(3)] show ?thesis by (auto simp: path_field_Some)
qed

text \<open>Without the side condition this fails: the part after a dot may start with a blank.\<close>

lemma path_field_unstable:
  "path_field (JStr ''./ a'') = Some (JStr '' a'')" "path_field (JStr '' a'') = Some (JStr ''a'')"
  by code_simp+

section \<open>Normalised parameters of the backup jobs\<close>

definition trimmed :: "string \<Rightarrow> json \<Rightarrow> bool" where
  "trimmed k j = (trim (jtext (jget j k)) = jtext (jget j k))"

lemma path_required_again:
  assumes "model fs chk j = Some j'" "distinct (map fst fs)" "required k path_field \<in> set fs" "trimmed k j'"
  shows "path_field (jget j' k) = Some (jget j' k)"
proof -
  obtain x where "path_field x = Some (jget j' k)"
    using model_values[OF assms(1-3)] by (auto simp: required_def)
  then show ?thesis using assms(4) by (auto intro: path_field_again simp: trimmed_def)
qed

lemma backup_parameters_again:
  assumes "coercion_law e" "trimmed ''source'' j'" "trimmed ''destination'' j'" "trimmed ''path'' j'"
  shows "BackupCompressParameters e j = Some j' \<Longrightarrow> BackupCompressParameters e j' = Some j'"
    and "BackupEncryptParameters e j = Some j' \<Longrightarrow> BackupEncryptParameters e j' = Some j'"
    and "BackupVerifyParameters e j = Some j' \<Longrightarrow> BackupVerifyParameters e j' = Some j'"
proof -
  have again: "model fs chk j' = Some j'"
    if "model fs chk j = Some j'" "distinct (map fst fs)"
      "\<forall>f \<in> set fs. field_ok f \<or> (\<exists>k \<in> {''source'', ''destination'', ''path''}. f = required k path_field)"
    for fs chk
  proof (rule model_again[OF that(1,2)])
    fix f assume f: "f \<in> set fs"
    show "snd (snd f) (jget j' (fst f)) = Some (jget j' (fst f))"
    proof (cases "field_ok f")
      case True
      then show ?thesis by (rule field_ok_again[OF that(1,2) f])
    next
      case False
      with that(3) f obtain k where k: "f = required k path_field" "trimmed k j'" using assms(2-4) by auto
      with f path_required_again[OF that(1,2), of k] show ?thesis by (simp add: required_def)
    qed
  qed
  show "BackupCompressParameters e j = Some j' \<Longrightarrow> BackupCompressParameters e j' = Some j'"
    "BackupEncryptParameters e j = Some j' \<Longrightarrow> BackupEncryptParameters e j' = Some j'"
    "BackupVerifyParameters e j = Some j' \<Longrightarrow> BackupVerifyParameters e j' = Some j'"
    unfolding BackupCompressParameters_def BackupEncryptParameters_def BackupVerifyParameters_def
    by (rule again; simp add: assms(1) field_rules)+
qed

text \<open>The types whose parameters name files of the workspace, and the keys that do.\<close>

definition path_keys :: "(string \<times> string list) list" where
  "path_keys = [(''backup.compress'', [''source'', ''destination'']),
     (''backup.encrypt'', [''source'', ''destination'']), (''backup.verify'', [''path''])]"

text \<open>A type of the registry is one of nine; the models of a type, one by one.\<close>

lemma result_modelE:
  assumes "result_model e t j = Some r"
  obtains ms where "(t, ms) \<in> set job_models" "snd ms e j = Some r"
  using assms by (auto simp: result_model_def dest: map_of_SomeD split: option.splits)

lemma parameters_modelE:
  assumes "parameters_model e t j = Some p"
  obtains ms where "(t, ms) \<in> set job_models" "fst ms e j = Some p"
  using assms by (auto simp: parameters_model_def dest: map_of_SomeD split: option.splits)

lemma parameters_again:
  assumes "coercion_law e" "parameters_model e t j = Some j'"
    "\<forall>k \<in> {''source'', ''destination'', ''path''}. trimmed k j' \<or> t \<notin> fst ` set path_keys"
  shows "parameters_model e t j' = Some j'"
  using assms(2,3) backup_parameters_again[OF assms(1), of j' j] stableD[OF stable_parameters(1)[OF assms(1)]]
    stableD[OF stable_parameters(2)[OF assms(1)]] stableD[OF stable_parameters(3)[OF assms(1)]]
    stableD[OF stable_parameters(4)[OF assms(1)]] stableD[OF stable_parameters(5)[OF assms(1)]]
    stableD[OF stable_parameters(6)[OF assms(1)]]
  by (auto simp: parameters_model_def job_models_def path_keys_def split: if_splits)

lemma results_again:
  assumes "coercion_law e" "result_model e t j = Some j'"
  shows "result_model e t j' = Some j'"
  using assms(2) stable_results[OF assms(1)]
  by (auto simp: result_model_def job_models_def stable_def split: if_splits)

lemma path_parameters:
  assumes "parameters_model e t j = Some j'" "(t, ks) \<in> set path_keys" "k \<in> set ks"
  shows "\<exists>s p. jget j' k = JStr p \<and> workspace_relative_path s = Inr p"
proof -
  have "\<exists>x. path_field x = Some (jget j' k)"
    if "model fs chk j = Some j'" "distinct (map fst fs)" "required k path_field \<in> set fs" for fs chk
    using model_values[OF that] by (auto simp: required_def)
  then have "\<exists>x. path_field x = Some (jget j' k)"
    using assms
    by (auto simp: path_keys_def parameters_model_def job_models_def BackupCompressParameters_def
        BackupEncryptParameters_def BackupVerifyParameters_def)
  then show ?thesis by (auto simp: path_field_Some)
qed

lemma distinct_path_parameters:
  assumes "parameters_model e t j = Some p" "(t, ks) \<in> set path_keys" "k \<in> set ks" "k' \<in> set ks" "k' \<noteq> k"
  shows "jget p k \<noteq> jget p k'"
proof -
  have "require_distinct_paths p" if "t \<noteq> ''backup.verify''"
    using assms(1,2) that
    by (auto simp: path_keys_def parameters_model_def job_models_def BackupCompressParameters_def
        BackupEncryptParameters_def dest: model_check)
  with assms(2-5) show ?thesis by (auto simp: path_keys_def require_distinct_paths_def)
qed

end
