(* ===== verification/Contract_Properties.thy ===== *)
theory Contract_Properties
  imports Contract_Laws Samples
begin

text \<open>
  The properties of the job models: normalised documents are canonical and stable, backup jobs
  name files of the workspace only, reports agree with the details they carry, and masking a
  stored document leaves no camera session and changes nothing else.
\<close>

section \<open>Normalised documents are canonical\<close>

definition canonical :: "validator \<Rightarrow> bool" where
  "canonical v = (\<forall>j j'. v j = Some j' \<longrightarrow> json_ok j')"

lemma canonical_str: "canonical (str_field ok)"
  by (auto simp: canonical_def str_field_def split: json.splits if_splits)

lemma canonical_scalars:
  "canonical (int_field e ok)" "canonical (bool_field e)" "canonical (datetime_field e ok')"
  "canonical (uuid_field e)" "coercion_law e \<Longrightarrow> canonical (float_field e ok'')"
  by (auto simp: canonical_def int_field_def bool_field_def datetime_field_def uuid_field_def
      float_field_def coercion_law_def split: option.splits if_splits)

lemma canonical_literal: "list_all json_ok js \<Longrightarrow> canonical (literal js)"
  by (auto simp: canonical_def literal_def list_all_iff split: if_splits)

lemma canonical_optional: "canonical v \<Longrightarrow> canonical (optional v)"
  by (auto simp: canonical_def optional_def)

lemma canonical_list:
  assumes "canonical v"
  shows "canonical (list_field v lo hi)"
proof -
  have "list_all json_ok ys" if "each v xs = Some ys" for xs ys
    using that assms unfolding each_Some list_all2_conv_all_nth list_all_length canonical_def by metis
  then show ?thesis by (auto simp: canonical_def list_field_def split: json.splits if_splits)
qed

lemma canonical_path: "canonical path_field"
  by (auto simp: canonical_def path_field_Some)

definition field_canonical :: "field \<Rightarrow> bool" where
  "field_canonical f = (canonical (snd (snd f)) \<and> (\<forall>d. fst (snd f) = Some d \<longrightarrow> json_ok d))"

lemma canonical_model:
  assumes "distinct (map fst fs)" "list_all field_canonical fs"
  shows "canonical (model fs chk)"
  unfolding canonical_def
proof (intro allI impI)
  fix j j' assume "model fs chk j = Some j'"
  then obtain kvs out where m: "j' = JObj (dict_of out)" "map fst out = map fst fs"
    "list_all2 (\<lambda>f kv. field_value kvs f = Some kv) fs out" by (elim model_SomeE)
  have d: "distinct (map fst out)" using m(2) assms(1) by simp
  have ok: "json_ok (snd kv)" if kv: "kv \<in> set out" for kv
  proof -
    obtain i where i: "i < length out" "out ! i = kv" using kv by (auto simp: in_set_conv_nth)
    with m(3) assms(2) have "field_value kvs (fs ! i) = Some kv" "field_canonical (fs ! i)"
      by (auto simp: list_all2_conv_all_nth list_all_length)
    then show ?thesis
      by (auto simp: field_value_Some field_canonical_def canonical_def split: option.splits)
  qed
  have "json_ok v" if "(k, v) \<in> set (dict_of out)" for k v
    using ok[of "(k, v)"] that value_dict_of[OF d] by simp
  then show "json_ok j'" by (auto simp: m(1) sorted_dict_of list_all_iff)
qed

lemma field_canonical_simps:
  "field_canonical (required n v) \<longleftrightarrow> canonical v"
  "field_canonical (defaults n d v) \<longleftrightarrow> canonical v \<and> json_ok d"
  by (auto simp: field_canonical_def required_def defaults_def)

lemmas canonical_fields = field_canonical_simps canonical_str canonical_scalars canonical_literal
  canonical_optional canonical_list canonical_path texts_def

lemma canonical_any: "canonical any_text" "canonical LogSourceId" "canonical HistorySourceId"
  "canonical HistoryMetric" "canonical sha256_field" "canonical (any_time e)"
  "coercion_law e \<Longrightarrow> canonical (unit_interval e)"
  unfolding any_text_def LogSourceId_def HistorySourceId_def HistoryMetric_def sha256_field_def
    any_time_def unit_interval_def
  by (simp_all add: canonical_fields)

lemma canonical_parts: "canonical SystemHealthIssue" "canonical AiInferenceEvidence"
  unfolding SystemHealthIssue_def AiInferenceEvidence_def
  by (rule canonical_model; simp add: canonical_fields)+

lemma canonical_records:
  assumes "coercion_law e"
  shows "canonical (LogBaseline e)" "canonical (LogFinding e)" "canonical (LogCorrelation e)"
    "canonical (TrendsDailyValue e)" "canonical (AiInferenceFinding e)" "canonical (AiInferenceMetrics e)"
    "canonical (AiInferenceHypothesis e)"
  unfolding LogBaseline_def LogFinding_def LogCorrelation_def TrendsDailyValue_def AiInferenceFinding_def
    AiInferenceMetrics_def AiInferenceHypothesis_def
  by (rule canonical_model; simp add: assms canonical_fields canonical_any)+

lemma canonical_source_health: "coercion_law e \<Longrightarrow> canonical (LogSourceHealth e)"
  unfolding LogSourceHealth_def
  by (rule canonical_model; simp add: canonical_fields canonical_any canonical_records)

lemmas canonical_components = canonical_fields canonical_any canonical_parts canonical_records
  canonical_source_health

lemma canonical_results:
  assumes "coercion_law e"
  shows "canonical (SystemHealthResult e)" "canonical (BackupCompressResult e)" "canonical (BackupEncryptResult e)"
    "canonical (BackupVerifyResult e)" "canonical (InfraBackupResult e)" "canonical (LogsHealthCheckResult e)"
    "canonical (LogsInvestigateResult e)" "canonical (AiInferenceResult e)"
    "canonical (TrendsHistoryBackfillResult e)"
  unfolding SystemHealthResult_def BackupCompressResult_def BackupEncryptResult_def BackupVerifyResult_def
    InfraBackupResult_def LogsHealthCheckResult_def LogsInvestigateResult_def AiInferenceResult_def
    TrendsHistoryBackfillResult_def
  by (rule canonical_model; simp add: assms canonical_components)+

lemma canonical_parameters:
  assumes "coercion_law e"
  shows "canonical (SystemHealthParameters e)" "canonical (BackupCompressParameters e)"
    "canonical (BackupEncryptParameters e)" "canonical (BackupVerifyParameters e)"
    "canonical (InfraBackupParameters e)" "canonical (LogsHealthCheckParameters e)"
    "canonical (LogsInvestigateParameters e)" "canonical (AiInferenceParameters e)"
    "canonical (TrendsHistoryBackfillParameters e)"
  unfolding SystemHealthParameters_def BackupCompressParameters_def BackupEncryptParameters_def
    BackupVerifyParameters_def InfraBackupParameters_def LogsHealthCheckParameters_def
    LogsInvestigateParameters_def AiInferenceParameters_def TrendsHistoryBackfillParameters_def
  by (rule canonical_model; simp add: assms canonical_components)+

lemma job_models_canonical:
  "coercion_law e \<Longrightarrow> (t, ms) \<in> set job_models \<Longrightarrow> canonical (fst ms e) \<and> canonical (snd ms e)"
  by (auto simp: job_models_def canonical_results canonical_parameters)

lemma models_canonical:
  assumes "coercion_law e"
  shows "result_model e t j = Some r \<Longrightarrow> json_ok r" "parameters_model e t j = Some p \<Longrightarrow> json_ok p"
  using job_models_canonical[OF assms]
  by (auto elim!: result_modelE parameters_modelE simp: canonical_def)

section \<open>Stability\<close>

lemma demo_coercion_law: "coercion_law demo_env"
proof -
  have f: "list_all float_text demo_floats" by code_simp
  have "demo_float (JFloat s) = Some s \<and> float_text s" if "demo_float j = Some s" for j s
    using that f by (cases j) (auto simp: list_all_iff split: if_splits)
  moreover have "demo_datetime (JStr (ts_text t)) = Some t" if "demo_datetime j = Some t" for j t
    using that by (cases j) (auto split: if_splits)
  moreover have "demo_uuid (JStr u) = Some u" if "demo_uuid j = Some u" for j u
    using that by (cases j) (auto split: if_splits)
  ultimately show ?thesis by (simp add: coercion_law_def demo_env_def)
qed

text \<open>
  C29. A normalised result, and a normalised parameter document, is canonical and is accepted again
  exactly as it is, so storing, sending and validating it again never changes it. The one
  exception is a backup path that starts or ends with a blank.
\<close>

theorem normalised_documents_stable:
  assumes "coercion_law e"
  shows "(result_model e t j = Some r \<longrightarrow> json_ok r \<and> result_model e t r = Some r) \<and>
    (parameters_model e t j = Some p \<longrightarrow> json_ok p \<and>
      ((\<forall>k \<in> set [''source'', ''destination'', ''path'']. trimmed k p) \<or> t \<notin> fst ` set path_keys \<longrightarrow>
       parameters_model e t p = Some p))"
  using models_canonical[OF assms, of t j] results_again[OF assms, of t j r]
    parameters_again[OF assms, of t j p] by auto

theorem normalised_documents_stable_witness:
  "json_ok demo_report \<and> parameters_model demo_env ''backup.verify''
     (JObj [(''expected_sha256'', JStr (replicate 64 (CHR ''a''))), (''expected_size'', JNull), (''path'', JStr ''a/b'')]) =
   Some (JObj [(''expected_sha256'', JStr (replicate 64 (CHR ''a''))), (''expected_size'', JNull), (''path'', JStr ''a/b'')])"
proof -
  let ?p = "JObj [(''expected_sha256'', JStr (replicate 64 (CHR ''a''))), (''expected_size'', JNull), (''path'', JStr ''a/b'')]"
  have "parameters_model demo_env ''backup.verify''
      (JObj [(''expected_sha256'', JStr (replicate 64 (CHR ''a''))), (''path'', JStr ''./a//b'')]) = Some ?p"
    by code_simp
  moreover have "\<forall>k \<in> set [''source'', ''destination'', ''path'']. trimmed k ?p" by code_simp
  ultimately show ?thesis
    using normalised_documents_stable[OF demo_coercion_law, where t = "''system.health''" and j = demo_report]
      normalised_documents_stable[OF demo_coercion_law, where t = "''backup.verify''" and p = ?p]
      demo_report_ok by blast
qed

section \<open>Paths\<close>



section \<open>Reports\<close>

lemma required_int:
  assumes "model fs chk j = Some r" "distinct (map fst fs)" "required n (int_field e ok) \<in> set fs"
  shows "\<exists>i. jget r n = JInt i \<and> ok i"
proof -
  obtain x where "int_field e ok x = Some (jget r n)" using model_values[OF assms] by (auto simp: required_def)
  then show ?thesis by (cases "lax_int e x") (auto simp: int_field_def dest: sym split: if_splits)
qed

lemma required_literal:
  assumes "model fs chk j = Some r" "distinct (map fst fs)" "required n (literal js) \<in> set fs"
  shows "jget r n \<in> set js"
  using model_values[OF assms] by (auto simp: required_def literal_def split: if_splits)

lemma result_of_health:
  "result_model e ''system.health'' j = SystemHealthResult e j"
  "result_model e ''ai.inference'' j = AiInferenceResult e j"
  by (simp_all add: result_model_def job_models_def)

text \<open>
  A report agrees with its details. An accepted health report says OK exactly when it lists no
  issue and DEGRADED exactly when it lists one, and what is available never exceeds the total; an
  accepted diagnosis says OK only without findings and KO only with one, asks for context by
  naming it, and, in version 2, explains itself and backs a KO with a hypothesis.
\<close>

theorem reports_agree_with_details:
  shows "(result_model e ''system.health'' j = Some r \<longrightarrow>
      (jget r ''status'' = JStr ''OK'' \<longleftrightarrow> jlist (jget r ''issues'') = []) \<and>
      (jget r ''status'' = JStr ''DEGRADED'' \<longleftrightarrow> jlist (jget r ''issues'') \<noteq> []) \<and>
      (\<exists>a t. jget r ''memory_available_bytes'' = JInt a \<and> jget r ''memory_total_bytes'' = JInt t \<and> 0 \<le> a \<and> a \<le> t) \<and>
      (\<exists>a t. jget r ''disk_free_bytes'' = JInt a \<and> jget r ''disk_total_bytes'' = JInt t \<and> 0 \<le> a \<and> a \<le> t)) \<and>
    (result_model e ''ai.inference'' j = Some r \<longrightarrow>
      (jget r ''verdict'' = JStr ''OK'' \<longrightarrow> jlist (jget r ''findings'') = []) \<and>
      (jget r ''verdict'' = JStr ''KO'' \<longrightarrow> jlist (jget r ''findings'') \<noteq> []) \<and>
      (jget r ''verdict'' \<notin> {JStr ''OK'', JStr ''KO''} \<longrightarrow> jlist (jget r ''missing_context'') \<noteq> []) \<and>
      (jget r ''analysis_version'' = JInt 2 \<longrightarrow> strip (jtext (jget r ''interpretation'')) \<noteq> [] \<and>
         (jget r ''verdict'' = JStr ''KO'' \<longrightarrow> jlist (jget r ''hypotheses'') \<noteq> [])))"
proof (rule conjI; rule impI)
  assume "result_model e ''system.health'' j = Some r"
  then have m: "SystemHealthResult e j = Some r" by (simp add: result_of_health)
  note field = m[unfolded SystemHealthResult_def]
  have "jget r ''status'' \<in> set (texts [''OK'', ''DEGRADED''])" by (rule required_literal[OF field]) simp_all
  moreover have "\<exists>i. jget r ''memory_available_bytes'' = JInt i \<and> at_least 0 i"
    "\<exists>i. jget r ''memory_total_bytes'' = JInt i \<and> at_least 1 i"
    "\<exists>i. jget r ''disk_free_bytes'' = JInt i \<and> at_least 0 i"
    "\<exists>i. jget r ''disk_total_bytes'' = JInt i \<and> at_least 1 i"
    by (rule required_int[OF field, where e = e]; simp)+
  moreover have "validate_health_consistency r" by (rule model_check[OF field])
  ultimately show "(jget r ''status'' = JStr ''OK'' \<longleftrightarrow> jlist (jget r ''issues'') = []) \<and>
      (jget r ''status'' = JStr ''DEGRADED'' \<longleftrightarrow> jlist (jget r ''issues'') \<noteq> []) \<and>
      (\<exists>a t. jget r ''memory_available_bytes'' = JInt a \<and> jget r ''memory_total_bytes'' = JInt t \<and> 0 \<le> a \<and> a \<le> t) \<and>
      (\<exists>a t. jget r ''disk_free_bytes'' = JInt a \<and> jget r ''disk_total_bytes'' = JInt t \<and> 0 \<le> a \<and> a \<le> t)"
    by (auto simp: validate_health_consistency_def texts_def at_least_def)
next
  assume "result_model e ''ai.inference'' j = Some r"
  then have m: "AiInferenceResult e j = Some r" by (simp add: result_of_health)
  note field = m[unfolded AiInferenceResult_def]
  have "jget r ''verdict'' \<in> set (texts [''OK'', ''KO'', ''INSUFFICIENT_CONTEXT''])"
    by (rule required_literal[OF field]) simp_all
  moreover have "validate_diagnostic_consistency r" by (rule model_check[OF field])
  ultimately show "(jget r ''verdict'' = JStr ''OK'' \<longrightarrow> jlist (jget r ''findings'') = []) \<and>
      (jget r ''verdict'' = JStr ''KO'' \<longrightarrow> jlist (jget r ''findings'') \<noteq> []) \<and>
      (jget r ''verdict'' \<notin> {JStr ''OK'', JStr ''KO''} \<longrightarrow> jlist (jget r ''missing_context'') \<noteq> []) \<and>
      (jget r ''analysis_version'' = JInt 2 \<longrightarrow> strip (jtext (jget r ''interpretation'')) \<noteq> [] \<and>
         (jget r ''verdict'' = JStr ''KO'' \<longrightarrow> jlist (jget r ''hypotheses'') \<noteq> []))"
    by (auto simp: validate_diagnostic_consistency_def texts_def Let_def)
qed

theorem reports_agree_with_details_witness:
  "jget demo_report ''status'' = JStr ''OK'' \<longleftrightarrow> jlist (jget demo_report ''issues'') = []"
  using reports_agree_with_details[of demo_env demo_report demo_report] demo_report_ok by blast

section \<open>Windows\<close>

text \<open>The window a log or history job may ask for, by type.\<close>

definition window_limit :: "string \<Rightarrow> int option" where
  "window_limit t = map_of [(''logs.health_check'', seconds (48 * 3600)), (''logs.investigate'', seconds (24 * 3600)),
     (''trends.history_backfill'', days 32 - 1)] t"

text \<open>
  A job that reads logs or history names a window with an offset at both ends, that is not
  empty and not longer than the limit of its type: 48 hours for a check, 24 hours for an
  investigation, and less than 32 days for a backfill.
\<close>

theorem job_windows_bounded:
  assumes "parameters_model e t j = Some p" and "window_limit t = Some limit"
  shows "ts_aware (time_of e (jget p ''window_started_at'')) \<and> ts_aware (time_of e (jget p ''window_ended_at'')) \<and>
    ts_instant (time_of e (jget p ''window_started_at'')) < ts_instant (time_of e (jget p ''window_ended_at'')) \<and>
    ts_instant (time_of e (jget p ''window_ended_at'')) \<le> ts_instant (time_of e (jget p ''window_started_at'')) + limit"
proof -
  have "window_ok e (48 * 3600) p" if "t = ''logs.health_check''"
    using assms(1) that
    by (auto simp: parameters_model_def job_models_def LogsHealthCheckParameters_def dest: model_check)
  moreover have "window_ok e (24 * 3600) p" if "t = ''logs.investigate''"
    using assms(1) that
    by (auto simp: parameters_model_def job_models_def LogsInvestigateParameters_def dest: model_check)
  moreover have "history_window_ok e p" if "t = ''trends.history_backfill''"
    using assms(1) that
    by (auto simp: parameters_model_def job_models_def TrendsHistoryBackfillParameters_def dest: model_check)
  ultimately show ?thesis
    using assms(2)
    by (auto simp: window_limit_def window_ok_def history_window_ok_def Let_def days_def split: if_splits)
qed

text \<open>A history window of 31 days and 23 hours: longer than the message of the check allows.\<close>

definition long_window :: json where
  "long_window = JObj [(''metric'', JStr ''disk_percent''), (''node_id'', JStr ''nas''),
     (''source'', JStr ''ha-01''), (''unique_id'', JStr ''u''), (''window_ended_at'', JStr ''2761200''),
     (''window_started_at'', JStr ''0'')]"

theorem job_windows_bounded_witness:
  "ts_instant (time_of demo_env (jget long_window ''window_ended_at'')) \<le>
   ts_instant (time_of demo_env (jget long_window ''window_started_at'')) + (days 32 - 1)"
proof -
  have "parameters_model demo_env ''trends.history_backfill'' long_window = Some long_window" by code_simp
  moreover have "window_limit ''trends.history_backfill'' = Some (days 32 - 1)" by (simp add: window_limit_def)
  ultimately show ?thesis using job_windows_bounded by blast
qed

lemma history_window_exceeds_31_days:
  "parameters_model demo_env ''trends.history_backfill'' long_window = Some long_window"
  "ts_instant (time_of demo_env (jget long_window ''window_ended_at'')) >
   ts_instant (time_of demo_env (jget long_window ''window_started_at'')) + days 31"
  by code_simp+

section \<open>Stored documents\<close>

text \<open>
  C31. What is stored reads back: a canonical document decodes to itself from its text; read
  through the mask, when its strings need no escape, it decodes to the same document with every
  camera session of a string replaced, in which no session is left, and reading that again
  changes nothing.
\<close>

theorem stored_documents_read_back:
  assumes "json_ok j"
  shows "json_loads (json_dumps j) = Inr j \<and>
    (plain_json j \<longrightarrow> stored_json j = Inr (masked j) \<and> session_safe (json_dumps (masked j)) \<and>
      stored_json (masked j) = Inr (masked j))"
proof -
  have "stored_json j = Inr (masked j) \<and> session_safe (json_dumps (masked j)) \<and>
      stored_json (masked j) = Inr (masked j)" if "plain_json j"
  proof -
    have r: "redact_session_paths (json_dumps j) = json_dumps (masked j)"
      using redact_dumps[OF that, of "[]"] by simp
    then have "redact_session_paths (json_dumps (masked j)) = json_dumps (masked j)" by (metis redact_idem)
    moreover have "session_safe (json_dumps (masked j))" using redact_safe r by metis
    ultimately show ?thesis
      using stored_json_masks[OF assms that] r by (simp add: stored_json_def)
  qed
  then show ?thesis using json_loads_dumps[OF assms] by blast
qed

theorem stored_documents_read_back_witness:
  "stored_json (JArr [JStr ''GET /stok=abc/ds'']) = Inr (JArr [JStr ''GET /stok=[redacted]/ds''])"
proof -
  let ?j = "JArr [JStr ''GET /stok=abc/ds'']"
  have "json_ok ?j" "plain_json ?j" "masked ?j = JArr [JStr ''GET /stok=[redacted]/ds'']" by code_simp+
  then show ?thesis using stored_documents_read_back[of ?j] by simp
qed

text \<open>
  Masking is complete and idempotent on any text: afterwards every session mark, in any letter
  case, is followed by nothing or by the placeholder alone, and masking again changes nothing.
\<close>

theorem masking_leaves_no_session:
  "session_safe (redact_session_paths s) \<and> redact_session_paths (redact_session_paths s) = redact_session_paths s"
  by (simp add: redact_safe redact_idem)

end
