(* ===== verification/Job_Payloads.thy ===== *)
theory Job_Payloads
  imports Job_Replay Contract_Properties
begin

text \<open>
  The payloads of stored jobs: every parameter document and every result in a reachable database
  was accepted by the model of its type; and what happens to a result whose masked text cannot be
  decoded.
\<close>

section \<open>Stored payloads were validated\<close>

definition payload_ok :: "env \<Rightarrow> job_row \<Rightarrow> bool" where
  "payload_ok e r =
     ((\<exists>j. parameters_model e (j_type r) j = Some (j_parameters r)) \<and>
      (\<forall>v. j_result r = Some v \<longrightarrow> (\<exists>j. result_model e (j_type r) j = Some v)))"

definition payloads_ok :: "env \<Rightarrow> jobdb \<Rightarrow> bool" where
  "payloads_ok e db = (distinct (ids db) \<and> (\<forall>r \<in> set (db_jobs db). payload_ok e r))"

lemma payload_okI:
  assumes "payload_ok e r" "j_type r' = j_type r" "j_parameters r' = j_parameters r" "j_result r' = j_result r"
  shows "payload_ok e r'"
  using assms by (simp add: payload_ok_def)

lemma payload_ok_settle: "payload_ok e r \<Longrightarrow> payload_ok e (settle_row a t now r)"
  by (erule payload_okI) (simp_all add: settle_row_def transition_row_def)

lemma payload_ok_rows:
  assumes "payload_ok e r"
  shows "payload_ok e (claim_row cfg now w r)" "payload_ok e (heartbeat_row cfg now g r)"
    "payload_ok e (r\<lparr>j_completion_processed := b\<rparr>)" "payload_ok e (r\<lparr>j_worker_id := w'\<rparr>)"
  by (rule payload_okI[OF assms]; simp add: claim_row_def heartbeat_row_def)+

lemma id_heartbeat_row: "j_job_id (heartbeat_row cfg now g r) = j_job_id r"
  by (simp add: heartbeat_row_def)

lemma payload_ok_recovered: "payload_ok e r \<Longrightarrow> payload_ok e (recovered_row cfg now r)"
  by (auto simp: recovered_row_def payload_ok_settle split: option.splits)

lemma payloads_ok_rewrite:
  assumes "payloads_ok e db" "row \<in> set (db_jobs db)"
    and "db_jobs db' = tbl_update j_job_id (j_job_id row) f (db_jobs db)"
    and "payload_ok e (f row)" "j_job_id (f row) = j_job_id row"
  shows "payloads_ok e db'"
proof -
  have same: "r = row" if "r \<in> set (db_jobs db)" "j_job_id r = j_job_id row" for r
    using assms(1,2) that by (auto simp: payloads_ok_def ids_def distinct_map inj_on_def)
  have "map j_job_id (db_jobs db') = map j_job_id (db_jobs db)"
    unfolding assms(3) tbl_update_def using same assms(5) by auto
  moreover have "payload_ok e r" if r: "r \<in> set (db_jobs db')" for r
  proof -
    obtain r' where r': "r' \<in> set (db_jobs db)" "r = (if j_job_id r' = j_job_id row then f r' else r')"
      using r unfolding assms(3) set_tbl_update by blast
    then show ?thesis using assms(1,4) same[of r'] by (cases "j_job_id r' = j_job_id row") (auto simp: payloads_ok_def)
  qed
  ultimately show ?thesis using assms(1) by (simp add: payloads_ok_def ids_def)
qed

lemma payload_ok_new:
  "validate_parameters e (cr_type q) (cr_parameters q) = Inr p \<Longrightarrow> payload_ok e (new_job_row e now q p)"
  by (auto simp: payload_ok_def new_job_row_def validate_parameters_def split: if_splits option.splits)

lemma payload_ok_complete:
  assumes "payload_ok e row" "completion_outcome e row co = Inr (res, er)"
  shows "payload_ok e (complete_row e now s res er (row\<lparr>j_completion_processed := b\<rparr>))"
  using assms
  by (auto simp: payload_ok_def complete_row_def completion_outcome_def validate_result_def
      split: if_splits option.splits sum.splits)

interpretation payloads: job_invariant e cfg "payloads_ok e" for e cfg
proof (unfold_locales, goal_cases)
  case 1
  show ?case by (simp add: payloads_ok_def empty_db_def ids_def)
next
  case (2 db now)
  then show ?case
    using distinct_ids_recover[of db e cfg now]
    by (auto simp: payloads_ok_def jobs_recover_locked payload_ok_recovered)
next
  case (3 db db')
  then show ?case by (simp add: payloads_ok_def same_jobs_def ids_def)
next
  case (4 db q p now)
  then have "cr_job_id q \<notin> set (ids db)" by (auto simp: jt.lookup_absent ids_def)
  with 4 payload_ok_new[OF 4(4), of now] show ?case
    by (auto simp: payloads_ok_def enqueue_job_def ids_def new_job_row_def)
next
  case (5 db row now)
  then show ?case
    by (intro payloads_ok_rewrite[OF _ _ jobs_transition_locked]) (auto simp: payloads_ok_def payload_ok_settle)
next
  case (6 db row now w)
  then show ?case
    by (intro payloads_ok_rewrite[OF _ _ jobs_claim_locked])
       (auto simp: payloads_ok_def payload_ok_rows)
next
  case (7 db row now g)
  then show ?case
    by (intro payloads_ok_rewrite[OF _ _ jt.rows_modify])
       (auto simp: payloads_ok_def payload_ok_rows id_heartbeat_row)
next
  case (8 db row co res er now)
  then have ok: "payload_ok e row" by (simp add: payloads_ok_def)
  have "row\<lparr>j_completion_processed := j_completion_processed row\<rparr> = row" by simp
  with payload_ok_complete[OF ok 8(4), of now "co_status co" False]
    payload_ok_complete[OF ok 8(4), of now "co_status co" "j_completion_processed row"]
  show ?case using 8(1,2)
    by (intro payloads_ok_rewrite[OF _ _ jobs_complete_locked]) (simp_all add: complete_row_def)
next
  case (9 db k)
  have "ids (mark_completion_processed k db) = ids db"
    by (simp add: ids_def mark_completion_processed_def jt.keys_modify)
  with 9 show ?case
    by (auto simp: payloads_ok_def mark_completion_processed_def jt.rows_modify set_tbl_update payload_ok_rows)
next
  case (10 db old new)
  then show ?case
    by (auto simp: payloads_ok_def migrate_jobs_def ids_def comp_def payload_ok_rows if_distrib cong: if_cong)
qed

text \<open>
  C28. In every reachable database, whatever the requests were, the parameters of a job are a
  document that the model of its type produced, and so is its result: no unvalidated payload is
  ever stored, handed to a worker or returned.
\<close>

theorem stored_payloads_validated:
  assumes "reachable e cfg db" and "r \<in> set (db_jobs db)"
  shows "(\<exists>j. parameters_model e (j_type r) j = Some (j_parameters r)) \<and>
    (\<forall>v. j_result r = Some v \<longrightarrow> (\<exists>j. result_model e (j_type r) j = Some v))"
  using payloads.reachable_inv[OF assms(1)] assms(2) by (auto simp: payloads_ok_def payload_ok_def)

theorem stored_payloads_validated_witness:
  "\<exists>j. result_model demo_env ''system.health'' j = Some demo_report"
proof -
  let ?r = "the (select_job ''a'' demo_done_db)"
  have "reachable demo_env default_config demo_done_db" by (simp add: demo_done_reachable)
  moreover have "?r \<in> set (db_jobs demo_done_db)" "j_result ?r = Some demo_report" "j_type ?r = ''system.health''"
    by code_simp+
  ultimately show ?thesis using stored_payloads_validated[of demo_env default_config demo_done_db ?r] by auto
qed

section \<open>Results that cannot be shown\<close>

text \<open>
  The holder of a job whose validated result cannot be decoded once masked never completes
  it: the call raises the decoding error and is rolled back, so nothing of the outcome is stored.
\<close>

theorem unreadable_result_is_refused:
  assumes "config_ok cfg" and "reachable e cfg db" and "select_job k db = Some r"
    and "held (hb_worker_id co) (hb_attempt co) r" and "j_lease_expires_at r = Some l" and "now < l"
    and "validate_terminal_payload co = Inr co" and "completion_outcome e r co = Inr (Some v, er)"
    and "stored_json v = Inl err"
  shows "complete e cfg now k co db = Inl err \<and> exec_op e cfg (OpComplete now k co) db = db"
proof -
  have s: "select_job k (recover_locked e cfg now db) = Some r"
    by (rule select_held_recover[OF assms(1-6)])
  have k: "j_job_id r = k" using jt.lookup_member[OF s] by simp
  have "j_status r = RUNNING" using assms(4) by (simp add: held_def)
  moreover have "document False (complete_row e now (co_status co) (Some v) er r') = Inl err" for r'
    using assms(9) by (simp add: document_def)
  ultimately have "complete e cfg now k co db = Inl err"
    using s k assms(4,7,8)
    by (simp add: complete_def Let_def select_required_def require_owner_held select_complete_locked)
  then show ?thesis by simp
qed

text \<open>A degraded host whose issue quotes the address of a camera.\<close>

definition quoting_report :: json where
  "quoting_report = JObj
     [(''collected_at'', JStr ''28800''), (''cpu_percent'', JFloat ''12.5''),
      (''disk_free_bytes'', JInt 5), (''disk_total_bytes'', JInt 9),
      (''issues'', JArr [JObj [(''code'', JStr ''camera''),
         (''message'', JStr ([quote] @ ''/stok=a'' @ [quote] @ '' failed''))]]),
      (''memory_available_bytes'', JInt 3), (''memory_total_bytes'', JInt 4),
      (''platform'', JStr ''linux''), (''status'', JStr ''DEGRADED''), (''temperature_c'', JNull)]"

definition quoting_completion :: job_completion where
  "quoting_completion = (demo_completion ''w'' 1)\<lparr>co_result := Some quoting_report\<rparr>"

theorem unreadable_result_is_refused_witness:
  "complete demo_env default_config (demo_now + seconds 5) ''a'' quoting_completion demo_db =
   Inl (ValueError ''JSONDecodeError'')"
proof -
  let ?r = "the (select_job ''a'' demo_db)" and ?co = quoting_completion
  have "select_job ''a'' demo_db = Some ?r" "held (hb_worker_id ?co) (hb_attempt ?co) ?r"
    "j_lease_expires_at ?r = Some (demo_now + seconds 61)" "demo_now + seconds 5 < demo_now + seconds 61"
    "validate_terminal_payload ?co = Inr ?co" "completion_outcome demo_env ?r ?co = Inr (Some quoting_report, None)"
    "stored_json quoting_report = Inl (ValueError ''JSONDecodeError'')"
    by code_simp+
  from unreadable_result_is_refused[OF default_config_ok demo_reachable this] show ?thesis by blast
qed

end
