(* ===== verification/Job_Views.thy ===== *)
theory Job_Views
  imports Job_Payloads
begin

text \<open>
  The views assembled for the administration API and for Tsunade: the newest complete log check of
  each source (\<open>latest_log_health_sources\<close> of jobs/repository.py), and the listing of workers with
  their activity (\<open>list_workers\<close>, \<open>_activity_locked\<close> of jobs/workers.py).
\<close>

section \<open>Log checks\<close>

text \<open>
  \<open>ROUND((julianday(b) - julianday(a)) * 86400)\<close> on SQLite's scale of milliseconds; half a second
  is rounded away from zero.
\<close>

definition sql_round_seconds :: "int \<Rightarrow> int" where
  "sql_round_seconds d = (if 0 \<le> d then (d + 500) div 1000 else - ((500 - d) div 1000))"

definition window_seconds_of :: "env \<Rightarrow> json \<Rightarrow> int" where
  "window_seconds_of e result =
     sql_round_seconds (julianday e (ts_instant (time_of e (jget result ''window_ended_at''))) -
                    julianday e (ts_instant (time_of e (jget result ''window_started_at''))))"

text \<open>The join of a job with \<open>json_each(result_json, '$.sources')\<close>, under the WHERE clause.\<close>

definition source_rows :: "env \<Rightarrow> string \<Rightarrow> int option \<Rightarrow> jobdb \<Rightarrow> (job_row \<times> json) list" where
  "source_rows e source window_seconds db =
     concat (map (\<lambda>row.
       case j_result row of
         None \<Rightarrow> []
       | Some result \<Rightarrow>
           if j_type row = ''logs.health_check'' \<and> j_status row = SUCCEEDED \<and>
              (case window_seconds of None \<Rightarrow> True | Some n \<Rightarrow> window_seconds_of e result = n)
           then map (Pair row) (filter (\<lambda>s. jget s ''source'' = JStr source \<and> jget s ''truncated'' = JBool False)
                  (jlist (jget result ''sources'')))
           else []) (db_jobs db))"

definition source_key :: "env \<Rightarrow> job_row \<times> json \<Rightarrow> int option \<times> string" where
  "source_key e rs = (map_option (julianday e) (j_finished_at (fst rs)), j_job_id (fst rs))"

definition latest_source :: "env \<Rightarrow> int option \<Rightarrow> jobdb \<Rightarrow> string \<Rightarrow> json option" where
  "latest_source e window_seconds db source =
     map_option snd (newest_row (source_key e) (source_rows e source window_seconds db))"

fun stored_all :: "json list \<Rightarrow> error + json list" where
  "stored_all [] = Inr []"
| "stored_all (j # js) =
     (case stored_json j of
        Inl err \<Rightarrow> Inl err
      | Inr v \<Rightarrow> (case stored_all js of Inl err \<Rightarrow> Inl err | Inr vs \<Rightarrow> Inr (v # vs)))"

text \<open>\<open>dict.fromkeys(sources)\<close>: the first occurrence of each source, in order.\<close>

definition from_keys :: "string list \<Rightarrow> string list" where
  "from_keys ks = rev (remdups (rev ks))"

definition latest_log_health_sources ::
  "env \<Rightarrow> string list \<Rightarrow> int option \<Rightarrow> jobdb \<Rightarrow> error + json list" where
  "latest_log_health_sources e sources window_seconds db =
     stored_all (List.map_filter (latest_source e window_seconds db) (from_keys sources))"

lemma source_rowsD:
  assumes "(r, s) \<in> set (source_rows e source w db)"
  obtains v where "r \<in> set (db_jobs db)" "j_result r = Some v" "j_type r = ''logs.health_check''"
    "j_status r = SUCCEEDED" "s \<in> set (jlist (jget v ''sources''))" "jget s ''source'' = JStr source"
    "jget s ''truncated'' = JBool False" "case w of None \<Rightarrow> True | Some n \<Rightarrow> window_seconds_of e v = n"
proof -
  obtain row where row: "row \<in> set (db_jobs db)"
    "(r, s) \<in> set (case j_result row of None \<Rightarrow> [] | Some result \<Rightarrow>
      if j_type row = ''logs.health_check'' \<and> j_status row = SUCCEEDED \<and>
         (case w of None \<Rightarrow> True | Some n \<Rightarrow> window_seconds_of e result = n)
      then map (Pair row) (filter (\<lambda>s. jget s ''source'' = JStr source \<and> jget s ''truncated'' = JBool False)
             (jlist (jget result ''sources''))) else [])"
    using assms by (auto simp: source_rows_def)
  then obtain v where "j_result row = Some v" by (cases "j_result row") auto
  with row show ?thesis by (intro that[of v]) (auto split: if_splits)
qed

text \<open>
  For each source asked, the check that is returned is the newest complete one: it is an entry
  of the stored result of a succeeded log check of a retained job, of that source, not truncated
  and of the requested length, and no other such entry finished later; a source without one is
  left out.
\<close>

theorem latest_log_check_is_newest:
  "case latest_source e w db source of
     None \<Rightarrow> source_rows e source w db = []
   | Some s \<Rightarrow> \<exists>r v. r \<in> set (db_jobs db) \<and> j_status r = SUCCEEDED \<and> j_type r = ''logs.health_check'' \<and>
       j_result r = Some v \<and> s \<in> set (jlist (jget v ''sources'')) \<and> jget s ''source'' = JStr source \<and>
       jget s ''truncated'' = JBool False \<and> (case w of None \<Rightarrow> True | Some n \<Rightarrow> window_seconds_of e v = n) \<and>
       list_all (\<lambda>rs. source_key e rs \<le> source_key e (r, s)) (source_rows e source w db)"
proof (cases "newest_row (source_key e) (source_rows e source w db)")
  case None
  then have "source_rows e source w db = []" by (simp only: newest_row_None)
  moreover have "latest_source e w db source = None" using None by (simp only: latest_source_def option.map)
  ultimately show ?thesis by simp
next
  case (Some rs)
  obtain r s where rs: "rs = (r, s)" by (cases rs)
  note newest = newest_row_Some[OF Some[unfolded rs]]
  from newest(1) obtain v where "r \<in> set (db_jobs db)" "j_result r = Some v" "j_type r = ''logs.health_check''"
    "j_status r = SUCCEEDED" "s \<in> set (jlist (jget v ''sources''))" "jget s ''source'' = JStr source"
    "jget s ''truncated'' = JBool False" "case w of None \<Rightarrow> True | Some n \<Rightarrow> window_seconds_of e v = n"
    by (rule source_rowsD)
  moreover have "latest_source e w db source = Some s" using Some rs by (simp add: latest_source_def)
  moreover have "list_all (\<lambda>rs. source_key e rs \<le> source_key e (r, s)) (source_rows e source w db)"
    using newest(2) by (simp add: list_all_iff)
  ultimately show ?thesis by auto
qed

section \<open>Workers\<close>

record capability_activity =
  ca_type :: string
  ca_last_succeeded_at :: "instant option"
  ca_last_failed_at :: "instant option"
  ca_last_failure_status :: "job_status option"
  ca_last_failure_message :: "string option"

text \<open>
  The rows of rank 1: for each type, the newest success and the newest failure of the worker among
  the retained jobs.
\<close>

definition finished_jobs :: "string \<Rightarrow> string \<Rightarrow> bool \<Rightarrow> jobdb \<Rightarrow> job_row list" where
  "finished_jobs worker_id job_type success db =
     filter (\<lambda>r. j_worker_id r = Some worker_id \<and> j_finished_at r \<noteq> None \<and> j_type r = job_type \<and>
       j_status r \<in> set (if success then [SUCCEEDED] else [FAILED, TIMEOUT])) (db_jobs db)"

definition last_finished :: "env \<Rightarrow> string \<Rightarrow> string \<Rightarrow> bool \<Rightarrow> jobdb \<Rightarrow> job_row option" where
  "last_finished e worker_id job_type success db =
     newest_row (\<lambda>r. map_option (julianday e) (j_finished_at r)) (finished_jobs worker_id job_type success db)"

definition activity_of :: "env \<Rightarrow> string \<Rightarrow> jobdb \<Rightarrow> string \<Rightarrow> capability_activity" where
  "activity_of e worker_id db job_type =
     (let ok = last_finished e worker_id job_type True db;
          ko = last_finished e worker_id job_type False db
      in \<lparr>ca_type = job_type,
          ca_last_succeeded_at = (case ok of None \<Rightarrow> None | Some r \<Rightarrow> j_finished_at r),
          ca_last_failed_at = (case ko of None \<Rightarrow> None | Some r \<Rightarrow> j_finished_at r),
          ca_last_failure_status = map_option j_status ko,
          ca_last_failure_message =
            (case ko of None \<Rightarrow> None
             | Some r \<Rightarrow> map_option (\<lambda>x. take 300 (err_message x)) (j_error r))\<rparr>)"

definition activity_locked :: "env \<Rightarrow> worker_row \<Rightarrow> jobdb \<Rightarrow> capability_activity list" where
  "activity_locked e worker db =
     map (activity_of e (w_worker_id worker) db)
       (sort (remdups (w_capabilities worker @
          filter (\<lambda>t. finished_jobs (w_worker_id worker) t True db \<noteq> [] \<or>
                      finished_jobs (w_worker_id worker) t False db \<noteq> []) (map j_type (db_jobs db)))))"

record worker_status =
  st_worker :: worker_view
  st_runtimes :: "(string \<times> json) list"
  st_runtimes_reported_at :: "instant option"
  st_activity :: "capability_activity list"
  st_power_events :: "power_event list"
  st_wake_stats :: stats_state
  st_host :: "json option"

text \<open>The listing settles the unanswered wakes first, with its own reading of the clock.\<close>

definition list_workers ::
  "env \<Rightarrow> repo_config \<Rightarrow> instant \<Rightarrow> instant \<Rightarrow> jobdb \<Rightarrow> worker_status list \<times> jobdb" where
  "list_workers e cfg now now' db =
     (let db1 = settle_unanswered_wakes cfg now 3 db
      in (map (\<lambda>row. \<lparr>st_worker = worker_document cfg row now',
                st_runtimes = (case w_runtimes row of None \<Rightarrow> [] | Some rt \<Rightarrow> rt),
                st_runtimes_reported_at = w_runtimes_reported_at row,
                st_activity = activity_locked e row db1,
                st_power_events = power_events_locked (w_worker_id row) POWER_EVENTS_SHOWN db1,
                st_wake_stats = wake_stats_locked (w_worker_id row) db1,
                st_host = w_host row\<rparr>) (sort_key w_worker_id (db_workers db1)), db1))"

text \<open>The listing is a step of the control plane: it settles wakes and changes nothing else.\<close>

lemma list_workers_step: "snd (list_workers e cfg now now' db) = exec_op e cfg (OpSettleWakes now 3) db"
  by (simp add: list_workers_def Let_def)

lemma list_workers_reachable: "reachable e cfg db \<Longrightarrow> reachable e cfg (snd (list_workers e cfg now now' db))"
  unfolding list_workers_step by (rule reachable_exec)

lemma activity_types:
  "map ca_type (activity_locked e w db) = sort (remdups (map ca_type (activity_locked e w db)))"
  by (simp add: activity_locked_def activity_of_def Let_def comp_def sorted_sort_id distinct_remdups_id)

lemma activity_announced: "t \<in> set (w_capabilities w) \<Longrightarrow> activity_of e (w_worker_id w) db t \<in> set (activity_locked e w db)"
  by (simp add: activity_locked_def)

lemma last_finished_newest:
  assumes "last_finished e w t b db = Some r"
  shows "r \<in> set (finished_jobs w t b db)"
    "x \<in> set (finished_jobs w t b db) \<Longrightarrow>
     map_option (julianday e) (j_finished_at x) \<le> map_option (julianday e) (j_finished_at r)"
  using newest_row_Some[OF assms[unfolded last_finished_def]] by auto

end
