(* ===== verification/Worker_Power.thy ===== *)
theory Worker_Power
  imports Job_Operations Samples
begin

text \<open>
  The journal of power events. \<open>power_effect\<close> says that an operation reaches the journal only
  through \<open>power_event_locked\<close>; the locale \<open>power_invariant\<close> is the contract an invariant of the
  journal owes, and its client lemmas give the invariant to every reachable database. Then the
  journal keeps, of each worker, exactly its newest entries.
\<close>

section \<open>What operations do to the journal\<close>

definition same_power :: "jobdb \<Rightarrow> jobdb \<Rightarrow> bool" where
  "same_power db db' = (db_power db' = db_power db \<and> db_next_power db' = db_next_power db)"

inductive power_effect :: "jobdb \<Rightarrow> jobdb \<Rightarrow> bool" for db where
  untouched: "same_power db db' \<Longrightarrow> power_effect db db'"
| recorded: "power_effect db db1 \<Longrightarrow> same_power (power_event_locked w k now d db1) db' \<Longrightarrow> power_effect db db'"

lemma same_power_refl [simp]: "same_power db db"
  by (simp add: same_power_def)

lemma power_effect_refl [simp]: "power_effect db db"
  by (rule power_effect.untouched) simp

lemma power_effect_event: "power_effect db db1 \<Longrightarrow> power_effect db (power_event_locked w k now d db1)"
  by (rule power_effect.recorded[OF _ same_power_refl])

lemma power_effect_same:
  assumes "power_effect db db1" "same_power db1 db'"
  shows "power_effect db db'"
  using assms(1)
proof cases
  case untouched
  with assms(2) show ?thesis by (auto simp: same_power_def intro: power_effect.untouched)
next
  case (recorded db2 w k now d)
  with assms(2) have "same_power (power_event_locked w k now d db2) db'" by (simp add: same_power_def)
  with recorded show ?thesis by (blast intro: power_effect.recorded)
qed

lemma power_frames [simp]:
  "db_power (update_worker w f db) = db_power db"
  "db_next_power (update_worker w f db) = db_next_power db"
  "db_power (touch_worker_locked w now db) = db_power db"
  "db_next_power (touch_worker_locked w now db) = db_next_power db"
  "db_power (enqueue_job row now db) = db_power db"
  "db_next_power (enqueue_job row now db) = db_next_power db"
  "db_power (claim_locked cfg now w row db) = db_power db"
  "db_next_power (claim_locked cfg now w row db) = db_next_power db"
  "db_power (complete_locked e now row co res er db) = db_power db"
  "db_next_power (complete_locked e now row co res er db) = db_next_power db"
  by (simp_all add: update_worker_def touch_worker_locked_def enqueue_job_def claim_locked_def
      complete_locked_def Let_def)

lemma same_power_trans: "same_power a b \<Longrightarrow> same_power b c \<Longrightarrow> same_power a c"
  by (simp add: same_power_def)

lemma power_effect_then_update: "power_effect db db1 \<Longrightarrow> power_effect db (update_worker w f db1)"
  by (erule power_effect_same) (simp add: same_power_def)

lemma power_effect_recover_update: "power_effect db (update_worker w f (recover_locked e cfg now db))"
  by (intro power_effect_then_update power_effect.untouched) (simp add: same_power_def)

lemma power_effect_online:
  "power_effect db db1 \<Longrightarrow> power_effect db (record_worker_online_locked w r now x db1)"
  by (auto simp: record_worker_online_locked_def Let_def intro: power_effect_event split: option.splits)

lemma power_effect_upsert: "power_effect db db1 \<Longrightarrow> power_effect db (upsert_worker g c m r now w q d db1)"
  by (erule power_effect_same) (simp add: upsert_worker_def, simp add: same_power_def)

lemma power_effect_register_body:
  "power_effect db db1 \<Longrightarrow> power_effect db (snd (register_body cfg now g c db1))"
  by (auto simp: register_body_def Let_def intro: power_effect_online power_effect_upsert split: option.splits)

lemma power_effect_settle_wake: "power_effect db db1 \<Longrightarrow> power_effect db (settle_wake cfg now m w db1)"
  by (auto simp: settle_wake_def Let_def intro: power_effect_event split: option.splits prod.splits)

lemma power_effect_settle:
  "power_effect db db1 \<Longrightarrow> power_effect db (settle_unanswered_wakes cfg now m db1)"
proof -
  have "power_effect db db1 \<Longrightarrow> power_effect db (fold (settle_wake cfg now m) ws db1)" for ws
    by (induction ws arbitrary: db1) (auto intro: power_effect_settle_wake)
  then show "power_effect db db1 \<Longrightarrow> ?thesis" by (simp add: settle_unanswered_wakes_def)
qed

lemma power_effect_idle: "power_effect db db1 \<Longrightarrow> power_effect db (snd (idle_shutdown_locked e w now db1))"
  by (auto simp: idle_shutdown_locked_def intro: power_effect_event split: option.splits)

lemma same_power_migrate: "migrate_worker_identity_locked p w db = Inr db' \<Longrightarrow> same_power db db'"
  by (auto simp: migrate_worker_identity_locked_def same_power_def split: if_splits)

lemma power_claim: "power_effect db (commit (claim e cfg now cl sh st db) db)"
proof -
  let ?db = "touch_worker_locked (cl_worker_id cl) now (recover_locked e cfg now db)"
  have t: "same_power db ?db" by (simp add: same_power_def)
  have i: "power_effect db (snd (idle_shutdown_locked e (cl_worker_id cl) now ?db))"
    by (intro power_effect_idle power_effect.untouched t)
  have c: "power_effect db (claim_locked cfg now (cl_worker_id cl) row ?db)" for row
    by (rule power_effect.untouched) (simp add: same_power_def)
  show ?thesis
    using t i c
    by (auto simp: claim_def Let_def intro: power_effect.untouched split: option.splits sum.splits prod.splits)
qed

lemma same_power_jobs:
  "same_power db (commit (create e cfg now q db) db)"
  "same_power db (commit (cancel e cfg now k db) db)"
  "same_power db (commit (authorize_job_transfer e cfg now k w a ts db) db)"
  "same_power db (commit (heartbeat e cfg now k hb db) db)"
  "same_power db (commit (complete e cfg now k co db) db)"
  by (auto simp: create_def cancel_def authorize_job_transfer_def heartbeat_def complete_def Let_def
      commit_returning same_power_def split: sum.splits option.splits prod.splits)

lemma same_power_reads:
  "same_power db (commit (get e cfg now k db) db)"
  "same_power db (commit (latest e cfg now t db) db)"
  "same_power db (commit (latest_for_incident e cfg now t i s db) db)"
  "same_power db (commit (active_for_incident e cfg now t i db) db)"
  "same_power db (commit (pending_completions e cfg now f db) db)"
  "same_power db (commit (wake_ready_job_types e cfg now b ts a f' db) db)"
  by (auto simp: get_def latest_def latest_for_incident_def active_for_incident_def
      pending_completions_def wake_ready_job_types_def Let_def commit_returning same_power_def
      split: sum.splits list.splits)

lemma same_power_pairings:
  "same_power db (commit (create_pairing e cfg now g i s c db) db)"
  "same_power db (commit (list_pairings e now db) db)"
  "same_power db (commit (approve_pairing e now i db) db)"
  "same_power db (commit (reject_pairing e now i db) db)"
  "same_power db (commit (poll_pairing e now i s t db) db)"
  by (auto simp: create_pairing_def list_pairings_def approve_pairing_def reject_pairing_def poll_pairing_def
      Let_def expire_pairings_locked_def update_pairing_def put_credential_def same_power_def split: sum.splits)

lemma power_register: "power_effect db (commit (register_worker cfg now g p db) db)"
  by (auto simp: register_worker_def Let_def
      intro: power_effect_register_body power_effect.untouched same_power_migrate
      split: option.splits sum.splits if_splits)

lemma power_wakes:
  "power_effect db (commit (mark_worker_waking cfg now w n tr db) db)"
  "power_effect db (commit (record_wake_failure now w er tr db) db)"
  "power_effect db (commit (report_worker_power now w oc rs ss db) db)"
  "power_effect db (commit (report_worker_runtimes now w rt h db) db)"
  by (auto simp: mark_worker_waking_def record_wake_failure_def report_worker_power_def report_worker_runtimes_def
      Let_def intro!: power_effect_event power_effect_then_update split: option.splits)

lemma same_power_processed: "same_power db (mark_completion_processed k db)"
  by (simp add: mark_completion_processed_def same_power_def)

lemma exec_power_effect: "power_effect db (exec_op e cfg op db)"
  by (cases op)
     (simp_all add: power_claim power_register power_wakes same_power_jobs[THEN power_effect.untouched]
      same_power_reads[THEN power_effect.untouched] same_power_pairings[THEN power_effect.untouched]
      same_power_processed[THEN power_effect.untouched] power_effect_settle unanswered_wake_retry_def Let_def)

section \<open>The contract\<close>

locale power_invariant =
  fixes inv :: "jobdb \<Rightarrow> bool"
  assumes inv_empty: "inv empty_db"
    and inv_same: "inv db \<Longrightarrow> same_power db db' \<Longrightarrow> inv db'"
    and inv_event: "inv db \<Longrightarrow> inv (power_event_locked w k now d db)"
begin

lemma inv_effect: "power_effect db db' \<Longrightarrow> inv db \<Longrightarrow> inv db'"
  by (induction rule: power_effect.induct) (blast intro: inv_same inv_event)+

lemma reachable_inv: "reachable e cfg db \<Longrightarrow> inv db"
proof (induction rule: reachable.induct)
  case start
  show ?case by (rule inv_empty)
next
  case (next_state db db')
  then show ?case by (auto elim: repo_stepE intro: inv_effect[OF exec_power_effect])
qed

end

end
