(* ===== verification/Worker_Properties.thy ===== *)
theory Worker_Properties
  imports Worker_Power
begin

text \<open>
  The properties of the worker registry: the bounded journal of power events, the statistics read
  from it, the settlement of unanswered wakes, and the permission to shut a worker down.
\<close>

section \<open>The journal keeps the newest entries\<close>

definition power_ids_ok :: "jobdb \<Rightarrow> bool" where
  "power_ids_ok db =
     (sorted_wrt (<) (map pe_event_id (db_power db)) \<and>
      list_all (\<lambda>p. pe_event_id p < db_next_power db) (db_power db))"

definition last_entries :: "nat \<Rightarrow> 'a list \<Rightarrow> 'a list" where
  "last_entries n xs = drop (length xs - n) xs"

lemma length_last_entries [simp]: "length (last_entries n xs) = min n (length xs)"
  by (simp add: last_entries_def)

lemma last_last_entries [simp]: "xs \<noteq> [] \<Longrightarrow> 0 < n \<Longrightarrow> last (last_entries n xs) = last xs"
  by (simp add: last_entries_def)

lemma order_desc_sorted:
  "sorted_wrt (<) (map k xs) \<Longrightarrow> order_desc k xs = rev xs"
  by (simp add: order_desc_def sort_key_id_if_sorted strict_sorted_iff)

lemma take_rev_last: "take n (rev xs) = rev (last_entries n xs)"
  by (simp add: last_entries_def take_rev)

lemma filter_suffix:
  assumes "distinct (map key xs)"
  shows "filter (\<lambda>x. key x \<in> key ` set (drop n xs)) xs = drop n xs"
proof -
  have "key x \<notin> key ` set (drop n xs)" if "x \<in> set (take n xs)" for x
  proof
    assume "key x \<in> key ` set (drop n xs)"
    moreover have "distinct (map key (take n xs) @ map key (drop n xs))"
      using assms by (simp flip: map_append)
    ultimately show False using that by auto
  qed
  then have "filter (\<lambda>x. key x \<in> key ` set (drop n xs)) (take n xs @ drop n xs) = drop n xs"
    unfolding filter_append by (simp add: filter_empty_conv filter_True)
  then show ?thesis by simp
qed

definition new_power :: "string \<Rightarrow> power_kind \<Rightarrow> instant \<Rightarrow> json \<Rightarrow> jobdb \<Rightarrow> power_event" where
  "new_power w k now d db = \<lparr>pe_event_id = db_next_power db, pe_worker_id = w, pe_occurred_at = now,
     pe_kind = k, pe_detail = d\<rparr>"

lemma sorted_filter_ids: "sorted_wrt (<) (map f xs) \<Longrightarrow> sorted_wrt (<) (map f (filter P xs))"
  by (induction xs) auto

definition kept_ids :: "string \<Rightarrow> power_event list \<Rightarrow> int list" where
  "kept_ids w evs = map pe_event_id (take POWER_EVENT_RETENTION
     (order_desc pe_event_id (filter (\<lambda>p. pe_worker_id p = w) evs)))"

lemma db_power_event:
  "db_power (power_event_locked w k now d db) =
     filter (\<lambda>p. \<not> (pe_worker_id p = w \<and> pe_event_id p \<notin> set (kept_ids w (db_power db @ [new_power w k now d db]))))
       (db_power db @ [new_power w k now d db])"
  by (simp only: power_event_locked_def Let_def new_power_def kept_ids_def) simp

lemma worker_power_event:
  assumes "power_ids_ok db"
  shows "worker_power v (power_event_locked w k now d db) =
    (if v = w then last_entries POWER_EVENT_RETENTION (worker_power w db @ [new_power w k now d db])
     else worker_power v db)"
proof -
  let ?ins = "db_power db @ [new_power w k now d db]"
  let ?W = "filter (\<lambda>p. pe_worker_id p = w) ?ins"
  have s: "sorted_wrt (<) (map pe_event_id ?ins)"
    using assms by (auto simp: power_ids_ok_def sorted_wrt_append list_all_iff new_power_def)
  then have sW: "sorted_wrt (<) (map pe_event_id ?W)" by (rule sorted_filter_ids)
  then have dW: "distinct (map pe_event_id ?W)" by (simp add: strict_sorted_iff)
  let ?kept = "kept_ids w ?ins"
  have kept: "set ?kept = pe_event_id ` set (last_entries POWER_EVENT_RETENTION ?W)"
    unfolding kept_ids_def order_desc_sorted[OF sW] take_rev_last by (simp only: set_map set_rev)
  note db' = db_power_event[of w k now d db]
  show ?thesis
  proof (cases "v = w")
    case True
    have "filter (\<lambda>p. pe_worker_id p = w) (db_power (power_event_locked w k now d db)) =
        filter (\<lambda>p. pe_event_id p \<in> set ?kept) ?W"
      unfolding db' filter_filter by (intro filter_cong) auto
    also have "\<dots> = last_entries POWER_EVENT_RETENTION ?W"
      unfolding kept last_entries_def by (rule filter_suffix[OF dW])
    finally show ?thesis using True by (simp add: worker_power_def new_power_def)
  next
    case False
    have "filter (\<lambda>p. pe_worker_id p = v) (db_power (power_event_locked w k now d db)) =
        filter (\<lambda>p. pe_worker_id p = v) ?ins"
      unfolding db' filter_filter using False by (intro filter_cong) auto
    with False show ?thesis by (simp add: worker_power_def new_power_def)
  qed
qed

lemma power_ids_event:
  assumes "power_ids_ok db"
  shows "power_ids_ok (power_event_locked w k now d db)"
proof -
  let ?ins = "db_power db @ [new_power w k now d db]"
  have "sorted_wrt (<) (map pe_event_id ?ins)"
    using assms by (auto simp: power_ids_ok_def sorted_wrt_append list_all_iff new_power_def)
  moreover have "list_all (\<lambda>p. pe_event_id p < db_next_power db + 1) ?ins"
    using assms by (auto simp: power_ids_ok_def list_all_iff new_power_def)
  moreover have "db_next_power (power_event_locked w k now d db) = db_next_power db + 1"
    by (simp add: power_event_locked_def Let_def)
  ultimately show ?thesis
    unfolding power_ids_ok_def db_power_event by (simp only: sorted_filter_ids) (auto simp: list_all_iff)
qed

definition power_ok :: "jobdb \<Rightarrow> bool" where
  "power_ok db = (power_ids_ok db \<and> (\<forall>w. length (worker_power w db) \<le> POWER_EVENT_RETENTION))"

interpretation journal: power_invariant power_ok
proof (unfold_locales, goal_cases)
  case 1
  show ?case by (simp add: power_ok_def power_ids_ok_def worker_power_def empty_db_def)
next
  case (2 db db')
  then show ?case by (simp add: power_ok_def power_ids_ok_def worker_power_def same_power_def)
next
  case (3 db w k now d)
  then show ?case by (auto simp: power_ok_def power_ids_event worker_power_event)
qed

text \<open>
  The journal of power events is bounded and loses only its oldest entries: in every reachable
  database a worker has at most 200 entries, and recording one more appends it to the entries of
  this worker, keeps the newest 200 of them in order, and leaves the entries of every other worker.
\<close>

theorem power_journal_keeps_newest:
  assumes "reachable e cfg db"
  shows "length (worker_power v db) \<le> POWER_EVENT_RETENTION \<and>
    worker_power v (power_event_locked w k now d db) =
      (if v = w then last_entries POWER_EVENT_RETENTION (worker_power w db @ [new_power w k now d db])
       else worker_power v db)"
  using journal.reachable_inv[OF assms] by (simp add: power_ok_def worker_power_event)

theorem power_journal_keeps_newest_witness:
  "map pe_kind (worker_power ''w'' (power_event_locked ''w'' WAKE_FAILED 7 JNull empty_db)) = [WAKE_FAILED]"
  using power_journal_keeps_newest[OF reachable.start, of "''w''" "''w''" WAKE_FAILED 7 JNull]
  by (simp add: worker_power_def empty_db_def last_entries_def POWER_EVENT_RETENTION_def new_power_def)

section \<open>Statistics\<close>

definition stats_ok :: "stats_state \<Rightarrow> bool" where
  "stats_ok s = ((if ss_timed_out s then 1 else 0) \<le> ws_unanswered s \<and> 0 \<le> ws_on_time s \<and> 0 \<le> ws_late s \<and>
     ws_on_time s + ws_late s = int (length (ss_delays s)) \<and>
     ws_median_seconds s = None \<and> ws_max_seconds s = None)"

lemma stats_ok_step: "stats_ok s \<Longrightarrow> stats_ok (stats_step p s)"
  by (cases "pe_kind p")
     (auto simp: stats_ok_def stats_step_def stats_online_def Let_def split: if_splits)

lemma stats_ok_fold: "stats_ok s \<Longrightarrow> stats_ok (fold stats_step evs s)"
  by (induction evs arbitrary: s) (simp_all add: stats_ok_step)

lemma sorted_last_ge: "sorted xs \<Longrightarrow> y \<in> set xs \<Longrightarrow> y \<le> last xs"
  by (induction xs) auto

text \<open>
  The wake statistics make sense for any journal: no count is negative (a late answer cancels
  only a timeout that was counted), the answers on time and late are as many as the delays, and
  with any answer the median and the maximum are delays that occurred, the maximum the largest.
\<close>

theorem wake_stats_consistent:
  "0 \<le> ws_unanswered (wake_stats_of evs) \<and> 0 \<le> ws_on_time (wake_stats_of evs) \<and> 0 \<le> ws_late (wake_stats_of evs) \<and>
   ws_on_time (wake_stats_of evs) + ws_late (wake_stats_of evs) = int (length (ss_delays (wake_stats_of evs))) \<and>
   (if ss_delays (wake_stats_of evs) = []
    then ws_median_seconds (wake_stats_of evs) = None \<and> ws_max_seconds (wake_stats_of evs) = None
    else \<exists>m. ws_median_seconds (wake_stats_of evs) = Some m \<and> m \<in> set (ss_delays (wake_stats_of evs)) \<and>
      ws_max_seconds (wake_stats_of evs) = Some (Max (set (ss_delays (wake_stats_of evs)))))"
proof -
  let ?s = "fold stats_step evs stats_init"
  have ok: "stats_ok ?s" by (rule stats_ok_fold) (simp add: stats_ok_def stats_init_def)
  show ?thesis
  proof (cases "ss_delays ?s = []")
    case True
    with ok show ?thesis by (auto simp: wake_stats_of_def Let_def stats_ok_def split: if_splits)
  next
    case False
    let ?o = "sort (ss_delays ?s)"
    have ne: "?o \<noteq> []" using False by (metis length_0_conv length_sort)
    have "?o ! (length ?o div 2) \<in> set ?o" using ne by (intro nth_mem) (cases ?o; simp)
    moreover have "last ?o = Max (set (ss_delays ?s))"
    proof (rule Max_eqI[symmetric])
      show "last ?o \<in> set (ss_delays ?s)" using last_in_set[OF ne] by simp
      show "y \<le> last ?o" if "y \<in> set (ss_delays ?s)" for y
        using that sorted_last_ge[of ?o y] by simp
    qed simp
    ultimately show ?thesis
      using False ok by (auto simp: wake_stats_of_def Let_def stats_ok_def split: if_splits)
  qed
qed

section \<open>Unanswered wakes\<close>

lemma last_power_event:
  assumes "power_ids_ok db"
  shows "last_power v (power_event_locked w k now d db) =
    (if v = w then Some (new_power w k now d db) else last_power v db)"
proof -
  let ?db = "power_event_locked w k now d db"
  have s: "sorted_wrt (<) (map pe_event_id (worker_power v x))" if "power_ids_ok x" for x
    using that by (simp add: power_ids_ok_def worker_power_def sorted_filter_ids)
  have "last_power v x = (if worker_power v x = [] then None else Some (last (worker_power v x)))"
    if "power_ids_ok x" for x
    using order_desc_sorted[OF s[OF that]]
    by (cases "worker_power v x" rule: rev_cases) (simp_all add: last_power_def)
  from this[OF assms] this[OF power_ids_event[OF assms, of w k now d]] show ?thesis
    using worker_power_event[OF assms, of v w k now d]
    by (auto simp: POWER_EVENT_RETENTION_def) (auto simp: last_entries_def)
qed

definition settled :: "string \<Rightarrow> jobdb \<Rightarrow> bool" where
  "settled w db = (case last_power w db of None \<Rightarrow> True | Some p \<Rightarrow> pe_kind p \<noteq> WAKE_SENT)"

text \<open>A wake that is still waiting: its deadline is not over, or its worker is there.\<close>

definition wake_overdue :: "repo_config \<Rightarrow> instant \<Rightarrow> worker_row \<Rightarrow> bool" where
  "wake_overdue cfg now row =
     ((case w_wake_deadline_at row of None \<Rightarrow> False | Some d \<Rightarrow> d < now) \<and>
      availability_of cfg row now \<noteq> AVAILABLE)"

lemma settle_wake_ids: "power_ids_ok db \<Longrightarrow> power_ids_ok (settle_wake cfg now m row db)"
  by (auto simp: settle_wake_def Let_def power_ids_event split: option.splits)

lemma settle_wake_settled:
  assumes "power_ids_ok db"
  shows "settled w db \<Longrightarrow> settled w (settle_wake cfg now m row db)"
    and "wake_overdue cfg now row \<Longrightarrow> settled (w_worker_id row) (settle_wake cfg now m row db)"
  using assms
  by (auto simp: settle_wake_def settled_def wake_overdue_def Let_def last_power_event power_ids_event new_power_def
      split: option.splits if_splits)

lemma settle_fold:
  assumes "power_ids_ok db"
  shows "settled w db \<Longrightarrow> settled w (fold (settle_wake cfg now m) rows db)"
    and "row \<in> set rows \<Longrightarrow> wake_overdue cfg now row \<Longrightarrow>
      settled (w_worker_id row) (fold (settle_wake cfg now m) rows db)"
proof -
  show keep: "settled w db \<Longrightarrow> settled w (fold (settle_wake cfg now m) rows db)"
    using assms by (induction rows arbitrary: db) (simp_all add: settle_wake_settled(1) settle_wake_ids)
  show "row \<in> set rows \<Longrightarrow> wake_overdue cfg now row \<Longrightarrow>
      settled (w_worker_id row) (fold (settle_wake cfg now m) rows db)"
    using assms
  proof (induction rows arbitrary: db)
    case (Cons r rows)
    show ?case
    proof (cases "r = row")
      case True
      have "settled (w_worker_id row) (fold (settle_wake cfg now m) rows db')"
        if "settled (w_worker_id row) db'" "power_ids_ok db'" for db'
        using that by (induction rows arbitrary: db') (simp_all add: settle_wake_settled(1) settle_wake_ids)
      with True Cons.prems show ?thesis by (simp add: settle_wake_settled(2) settle_wake_ids)
    next
      case False
      with Cons show ?thesis by (simp add: settle_wake_ids)
    qed
  qed simp
qed

text \<open>
  The settlement leaves no overdue wake open: after it, the last power event of every worker
  whose wake deadline is over and that did not come online is no longer the wake itself; it was
  recorded as unanswered, or abandoned.
\<close>

theorem overdue_wakes_are_settled:
  assumes "reachable e cfg db" and "row \<in> set (db_workers db)" and "wake_overdue cfg now row"
  shows "settled (w_worker_id row) (settle_unanswered_wakes cfg now m db)"
proof -
  have "power_ids_ok db" using journal.reachable_inv[OF assms(1)] by (simp add: power_ok_def)
  moreover have "w_wake_deadline_at row \<noteq> None"
    using assms(3) by (auto simp: wake_overdue_def split: option.splits)
  ultimately show ?thesis
    unfolding settle_unanswered_wakes_def using assms(2,3) by (intro settle_fold(2)) auto
qed

definition demo_registration :: "string \<Rightarrow> registration" where
  "demo_registration w = \<lparr>rg_protocol_version = 1, rg_worker_id = w, rg_capabilities = [''system.health''],
     rg_platform = ''linux'', rg_worker_version = ''1.0'', rg_wake_on_lan_mac_address = Some ''AA:BB:CC:DD:EE:FF''\<rparr>"

definition asleep_db :: jobdb where
  "asleep_db = fold (exec_op demo_env default_config)
     [OpRegister demo_now (demo_registration ''w'') None,
      OpMarkWaking (demo_now + seconds 3600) ''w'' 300 ''manual''] empty_db"

lemma asleep_reachable: "reachable demo_env default_config asleep_db"
  unfolding asleep_db_def by (intro reachable_fold reachable.start)

theorem overdue_wakes_are_settled_witness:
  "settled ''w'' (settle_unanswered_wakes default_config (demo_now + seconds 3901) 2 asleep_db) \<and>
   \<not> settled ''w'' asleep_db"
proof -
  let ?row = "the (select_worker ''w'' asleep_db)"
  have "?row \<in> set (db_workers asleep_db)" "wake_overdue default_config (demo_now + seconds 3901) ?row"
    "w_worker_id ?row = ''w''" "\<not> settled ''w'' asleep_db" by code_simp+
  with overdue_wakes_are_settled[OF asleep_reachable this(1,2), of 2] show ?thesis by simp
qed

end
