(* ===== verification/Worker_Shutdown.thy ===== *)
theory Worker_Shutdown
  imports Worker_Properties
begin

text \<open>
  Waking and shutting workers down: when an unanswered wake is retried or abandoned, who may be
  told to shut down, what a registration keeps, and what the renaming of a worker moves.
\<close>

section \<open>Retries\<close>

lemma count_unanswered_take: "count_unanswered (take n ks) \<le> count_unanswered ks"
proof (induction ks arbitrary: n)
  case (Cons k ks)
  have "0 \<le> count_unanswered ks" for ks by (induction ks) auto
  with Cons show ?case by (cases n) auto
qed simp

lemma unanswered_after_timeout:
  assumes "power_ids_ok db"
  shows "unanswered_wakes_locked w (power_event_locked w WAKE_TIMEOUT now d db) \<le>
    unanswered_wakes_locked w db + 1"
proof -
  let ?ev = "new_power w WAKE_TIMEOUT now d db" and ?db = "power_event_locked w WAKE_TIMEOUT now d db"
  have o: "order_desc pe_event_id (worker_power w x) = rev (worker_power w x)" if "power_ids_ok x" for x
    using that by (intro order_desc_sorted) (simp add: power_ids_ok_def worker_power_def sorted_filter_ids)
  have "order_desc pe_event_id (worker_power w ?db) = rev (worker_power w ?db)"
    by (rule o[OF power_ids_event[OF assms]])
  also have "\<dots> = take POWER_EVENT_RETENTION (?ev # rev (worker_power w db))"
    unfolding worker_power_event[OF assms]
    using take_rev_last[of POWER_EVENT_RETENTION "worker_power w db @ [?ev]"] by simp
  finally have "order_desc pe_event_id (worker_power w ?db) =
      take POWER_EVENT_RETENTION (?ev # rev (worker_power w db))" .
  then show ?thesis
    using count_unanswered_take[of "POWER_EVENT_RETENTION - 1" "map pe_kind (rev (worker_power w db))"]
    by (simp add: unanswered_wakes_locked_def o[OF assms] POWER_EVENT_RETENTION_def new_power_def take_map
        take_Cons')
qed

lemma pending_jobs_power [simp]: "pending_jobs_locked row (power_event_locked w k now d db) = pending_jobs_locked row db"
  by (simp add: pending_jobs_locked_def power_event_locked_def Let_def)

text \<open>
  The retry policy of a wake nobody answered, while work is pending for the worker: below the
  limit of attempts it becomes due again once the retry delay after the missed deadline is over
  and the worker is unavailable; at the limit it is abandoned and never becomes due by waiting.
\<close>

theorem unanswered_wake_retry_policy:
  assumes "reachable e cfg db" and "last_power (w_worker_id row) db = Some p" and "pe_kind p = WAKE_SENT"
    and "w_wake_deadline_at row = Some d" and "d < now" and "availability_of cfg row now \<noteq> AVAILABLE"
    and "pending_jobs_locked row db \<noteq> []"
  shows "if m \<le> unanswered_wakes_locked (w_worker_id row) db + 1
    then \<not> retry_due cfg now' delay m (settle_wake cfg now m row db) row
    else d + seconds delay \<le> now' \<and> availability_of cfg row now' = UNAVAILABLE \<longrightarrow>
      retry_due cfg now' delay m (settle_wake cfg now m row db) row"
proof -
  have ids: "power_ids_ok db" using journal.reachable_inv[OF assms(1)] by (simp add: power_ok_def)
  have u: "unanswered_wakes_locked (w_worker_id row)
      (power_event_locked (w_worker_id row) WAKE_TIMEOUT d x db) < m"
    if "\<not> m \<le> unanswered_wakes_locked (w_worker_id row) db + 1" for x
    using unanswered_after_timeout[OF ids, of "w_worker_id row" d x] that by linarith
  note lp = last_power_event[OF ids] last_power_event[OF power_ids_event[OF ids]]
  show ?thesis
    using assms(2-7) u by (auto simp: settle_wake_def Let_def retry_due_def new_power_def lp)
qed

theorem unanswered_wake_retry_policy_witness:
  "retry_due default_config (demo_now + seconds 4300) 300 2
     (settle_wake default_config (demo_now + seconds 3901) 2 (the (select_worker ''w'' asleep_db))
        (exec_op demo_env default_config (OpCreate (demo_now + seconds 3600)
           ((demo_request ''a'')\<lparr>cr_created_at := demo_now + seconds 3600\<rparr>)) asleep_db))
     (the (select_worker ''w'' asleep_db))"
proof -
  let ?db = "exec_op demo_env default_config (OpCreate (demo_now + seconds 3600)
     ((demo_request ''a'')\<lparr>cr_created_at := demo_now + seconds 3600\<rparr>)) asleep_db"
  let ?row = "the (select_worker ''w'' asleep_db)"
  have r: "reachable demo_env default_config ?db" by (intro reachable_exec asleep_reachable)
  have "last_power (w_worker_id ?row) ?db = Some (the (last_power (w_worker_id ?row) ?db))"
    "pe_kind (the (last_power (w_worker_id ?row) ?db)) = WAKE_SENT"
    "w_wake_deadline_at ?row = Some (demo_now + seconds 3900)"
    "demo_now + seconds 3900 < demo_now + seconds 3901"
    "availability_of default_config ?row (demo_now + seconds 3901) \<noteq> AVAILABLE"
    "pending_jobs_locked ?row ?db \<noteq> []" by code_simp+
  note u = unanswered_wake_retry_policy[OF r this, of 2 "demo_now + seconds 4300" 300]
  have "\<not> 2 \<le> unanswered_wakes_locked (w_worker_id ?row) ?db + 1"
    "demo_now + seconds 3900 + seconds 300 \<le> demo_now + seconds 4300"
    "availability_of default_config ?row (demo_now + seconds 4300) = UNAVAILABLE" by code_simp+
  with u show ?thesis by simp
qed

section \<open>Shutdown\<close>

definition unwoken :: "string \<Rightarrow> jobdb \<Rightarrow> bool" where
  "unwoken w db = (\<forall>r \<in> set (db_workers db). w_worker_id r = w \<longrightarrow> \<not> w_woken_by_ohana r)"

text \<open>The operations that may give a worker the mark of an Ohana wake.\<close>

fun may_wake :: "string \<Rightarrow> repo_op \<Rightarrow> bool" where
  "may_wake w (OpMarkWaking now v n tr) = (v = w)"
| "may_wake w (OpRegister now g p) = (p \<noteq> None)"
| "may_wake w _ = False"

lemma unwoken_same: "unwoken w db \<Longrightarrow> db_workers db' = db_workers db \<Longrightarrow> unwoken w db'"
  by (simp add: unwoken_def)

lemma unwoken_update:
  assumes "unwoken w db" "\<And>r. w_worker_id (f r) = w_worker_id r"
    and "v = w \<Longrightarrow> (\<And>r. w_worker_id r = w \<Longrightarrow> \<not> w_woken_by_ohana r \<Longrightarrow> \<not> w_woken_by_ohana (f r))"
  shows "unwoken w (update_worker v f db)"
  using assms by (auto simp: unwoken_def update_worker_def tbl_update_def split: if_splits)

lemma workers_frames [simp]:
  "db_workers (power_event_locked w k now d db) = db_workers db"
  "db_workers (enqueue_job row now db) = db_workers db"
  "db_workers (claim_locked cfg now w row db) = db_workers db"
  "db_workers (complete_locked e now row co res er db) = db_workers db"
  "db_workers (mark_completion_processed job db) = db_workers db"
  "db_workers (record_worker_online_locked w r now x db) = db_workers db"
  by (simp_all add: power_event_locked_def enqueue_job_def claim_locked_def complete_locked_def
      mark_completion_processed_def record_worker_online_locked_def Let_def split: option.splits)

lemma unwoken_frames [simp]:
  "unwoken v (power_event_locked w k now d db) = unwoken v db"
  "unwoken v (record_worker_online_locked w r now x db) = unwoken v db"
  "unwoken v (claim_locked cfg now w row db) = unwoken v db"
  by (simp_all add: unwoken_def)

lemma workers_settle [simp]: "db_workers (settle_unanswered_wakes cfg now m db) = db_workers db"
proof -
  have "db_workers (settle_wake cfg now m row db) = db_workers db" for row db
    by (simp add: settle_wake_def Let_def split: option.splits)
  then have "db_workers (fold (settle_wake cfg now m) rows db) = db_workers db" for rows
    by (induction rows arbitrary: db) simp_all
  then show ?thesis by (simp add: settle_unanswered_wakes_def)
qed

lemma unwoken_touch: "unwoken w db \<Longrightarrow> unwoken w (touch_worker_locked v now db)"
  unfolding touch_worker_locked_def by (erule unwoken_update) simp_all

lemma unwoken_recover [simp]: "unwoken w (recover_locked e cfg now db) \<longleftrightarrow> unwoken w db"
  by (simp add: unwoken_def)

lemma unwoken_register:
  assumes "unwoken w db"
  shows "unwoken w (snd (register_body cfg now g c db))"
proof -
  have 1: "unwoken w (upsert_worker g c mac reg now woken rq dl db)"
    if "rg_worker_id g = w \<Longrightarrow> \<not> woken" for mac reg woken rq dl
  proof (cases "select_worker (rg_worker_id g) db")
    case None
    with that assms show ?thesis by (auto simp: upsert_worker_def unwoken_def)
  next
    case (Some x)
    with that assms show ?thesis by (auto simp: upsert_worker_def intro!: unwoken_update)
  qed
  have "\<not> w_woken_by_ohana x" if "select_worker w db = Some x" for x
    using wt.lookup_member[OF that] assms by (auto simp: unwoken_def)
  then show ?thesis
    by (auto simp: register_body_def Let_def intro!: 1 split: option.splits)
qed

lemma unwoken_idle: "unwoken w db \<Longrightarrow> unwoken w (snd (idle_shutdown_locked e v now db))"
  by (auto simp: idle_shutdown_locked_def split: option.splits)

text \<open>The operations that leave the table of workers alone, and those that touch one worker.\<close>

lemma workers_jobs:
  "db_workers (commit (create e cfg now q db) db) = db_workers db"
  "db_workers (commit (cancel e cfg now k db) db) = db_workers db"
  "db_workers (commit (complete e cfg now k co db) db) = db_workers db"
  "db_workers (commit (get e cfg now k db) db) = db_workers db"
  "db_workers (commit (latest e cfg now t db) db) = db_workers db"
  "db_workers (commit (latest_for_incident e cfg now t i s db) db) = db_workers db"
  "db_workers (commit (active_for_incident e cfg now t i db) db) = db_workers db"
  "db_workers (commit (pending_completions e cfg now f db) db) = db_workers db"
  "db_workers (commit (wake_ready_job_types e cfg now b ts a f' db) db) = db_workers db"
  by (auto simp: create_def cancel_def complete_def get_def latest_def latest_for_incident_def
      active_for_incident_def pending_completions_def wake_ready_job_types_def Let_def commit_returning
      split: sum.splits option.splits prod.splits list.splits)

lemma workers_pairings:
  "db_workers (commit (create_pairing e cfg now g i s c db) db) = db_workers db"
  "db_workers (commit (list_pairings e now db) db) = db_workers db"
  "db_workers (commit (approve_pairing e now i db) db) = db_workers db"
  "db_workers (commit (reject_pairing e now i db) db) = db_workers db"
  "db_workers (commit (poll_pairing e now i s t db) db) = db_workers db"
  by (auto simp: create_pairing_def list_pairings_def approve_pairing_def reject_pairing_def poll_pairing_def
      Let_def expire_pairings_locked_def update_pairing_def put_credential_def split: sum.splits)

lemma unwoken_leases:
  assumes "unwoken w db"
  shows "unwoken w (commit (claim e cfg now cl sh st db) db)"
    and "unwoken w (commit (authorize_job_transfer e cfg now k v a ts db) db)"
    and "unwoken w (commit (heartbeat e cfg now k hb db) db)"
proof -
  have t: "unwoken w (touch_worker_locked v now (recover_locked e cfg now db))" for v
    by (rule unwoken_touch) (use assms in simp)
  have c: "unwoken w (claim_locked cfg now v row (touch_worker_locked v now (recover_locked e cfg now db)))" for v row
    by (simp add: t)
  show "unwoken w (commit (claim e cfg now cl sh st db) db)"
    using assms t c unwoken_idle[OF t, of e "cl_worker_id cl" now "cl_worker_id cl"]
    by (auto simp: claim_def Let_def split: option.splits sum.splits prod.splits)
  show "unwoken w (commit (authorize_job_transfer e cfg now k v a ts db) db)"
    using assms t by (auto simp: authorize_job_transfer_def Let_def commit_returning split: sum.splits)
  show "unwoken w (commit (heartbeat e cfg now k hb db) db)"
    using assms t by (auto simp: heartbeat_def Let_def commit_returning unwoken_def split: sum.splits)
qed

lemma unwoken_wakes:
  assumes "unwoken w db"
  shows "v \<noteq> w \<Longrightarrow> unwoken w (commit (mark_worker_waking cfg now v n tr db) db)"
    and "unwoken w (commit (record_wake_failure now v er tr db) db)"
    and "unwoken w (commit (report_worker_power now v oc rs ss db) db)"
    and "unwoken w (commit (report_worker_runtimes now v rt h db) db)"
proof -
  show "v \<noteq> w \<Longrightarrow> unwoken w (commit (mark_worker_waking cfg now v n tr db) db)"
    using assms by (auto simp: mark_worker_waking_def Let_def intro!: unwoken_update split: option.splits)
  show "unwoken w (commit (record_wake_failure now v er tr db) db)"
    using assms by (simp add: record_wake_failure_def)
  show "unwoken w (commit (report_worker_power now v oc rs ss db) db)"
    using assms by (simp add: report_worker_power_def Let_def unwoken_update split: option.splits)
  show "unwoken w (commit (report_worker_runtimes now v rt h db) db)"
    using assms by (simp add: report_worker_runtimes_def Let_def unwoken_update split: option.splits)
qed

lemma unwoken_exec:
  assumes "unwoken w db" "\<not> may_wake w op"
  shows "unwoken w (exec_op e cfg op db)"
  using assms
  by (cases op)
     (simp_all add: unwoken_same[OF assms(1)] workers_jobs workers_pairings unwoken_leases unwoken_wakes
      unwoken_register register_worker_def Let_def unanswered_wake_retry_def)

lemma unwoken_fold:
  "unwoken w db \<Longrightarrow> \<forall>op \<in> set ops. \<not> may_wake w op \<Longrightarrow> unwoken w (fold (exec_op e cfg) ops db)"
  by (induction ops arbitrary: db) (simp_all add: unwoken_exec)

lemma unwoken_no_shutdown:
  assumes "unwoken w db"
  shows "\<not> fst (idle_shutdown_locked e w now db) \<and> \<not> should_shutdown_after_claim_locked w k ts db"
proof -
  have "\<not> w_woken_by_ohana x" if "select_worker w db = Some x" for x
    using wt.lookup_member[OF that] assms by (auto simp: unwoken_def)
  then show ?thesis
    by (auto simp: idle_shutdown_locked_def should_shutdown_after_claim_locked_def split: option.splits)
qed

lemma unwoken_reset:
  "unwoken w (update_worker w (\<lambda>v. v\<lparr>w_woken_by_ohana := False, w_wake_requested_at := None,
     w_wake_deadline_at := None\<rparr>) db)"
  by (simp add: unwoken_def update_worker_def tbl_update_def ball_Un)

text \<open>
  Shutdown is only for workers that Ohana woke, and once: after a worker reported that it is
  shutting down or that a user vetoed it, no poll and no claim tells it to shut down, whatever
  operations run, until Ohana wakes this worker again.
\<close>

theorem power_report_ends_permission:
  assumes "report_worker_power now w oc reason sessions db = Inr (u, db1)"
    and "\<forall>op \<in> set ops. \<not> may_wake w op"
  shows "\<not> fst (idle_shutdown_locked e w now' (fold (exec_op e cfg) ops db1)) \<and>
    \<not> should_shutdown_after_claim_locked w k ts (fold (exec_op e cfg) ops db1)"
proof -
  have "unwoken w db1"
    using assms(1) unwoken_reset
    by (cases "select_worker w db") (auto simp: report_worker_power_def Let_def)
  then show ?thesis by (intro unwoken_no_shutdown unwoken_fold assms(2))
qed

theorem power_report_ends_permission_witness:
  "\<not> fst (idle_shutdown_locked demo_env ''w'' (demo_now + seconds 9000)
     (exec_op demo_env default_config (OpRegister (demo_now + seconds 8999) (demo_registration ''w'') None)
       (exec_op demo_env default_config (OpReportPower (demo_now + seconds 3700) ''w'' OutcomeVetoed None None) asleep_db)))"
proof -
  have r: "report_worker_power (demo_now + seconds 3700) ''w'' OutcomeVetoed None None asleep_db =
    Inr ((), exec_op demo_env default_config (OpReportPower (demo_now + seconds 3700) ''w'' OutcomeVetoed None None) asleep_db)"
    by code_simp
  show ?thesis
    using power_report_ends_permission[OF r, of "[OpRegister (demo_now + seconds 8999) (demo_registration ''w'') None]"
        demo_env "demo_now + seconds 9000" default_config] by simp
qed



section \<open>Registration and renaming\<close>

lemma select_upsert:
  "select_worker (rg_worker_id g) db = Some w \<Longrightarrow>
   select_worker (rg_worker_id g) (upsert_worker g c mac reg now woken rq dl db) =
     Some (w\<lparr>w_protocol_version := rg_protocol_version g, w_capabilities := c,
            w_platform := rg_platform g, w_worker_version := rg_worker_version g,
            w_last_seen_at := now, w_woken_by_ohana := woken, w_wake_requested_at := rq,
            w_wake_deadline_at := dl, w_wake_on_lan_mac_address := mac\<rparr>)"
  by (simp add: upsert_worker_def wt.lookup_modify)

definition wake_alive :: "worker_row \<Rightarrow> instant \<Rightarrow> bool" where
  "wake_alive row now = (w_woken_by_ohana row \<and>
     (case w_wake_deadline_at row of None \<Rightarrow> False | Some d \<Rightarrow> now \<le> d))"

lemma register_existing:
  assumes "select_worker (rg_worker_id g) db = Some row"
  obtains mac where "select_worker (rg_worker_id g) (snd (register_body cfg now g c db)) =
    Some (row\<lparr>w_protocol_version := rg_protocol_version g, w_capabilities := c,
            w_platform := rg_platform g, w_worker_version := rg_worker_version g,
            w_last_seen_at := now, w_woken_by_ohana := wake_alive row now,
            w_wake_requested_at := (if wake_alive row now then w_wake_requested_at row else None),
            w_wake_deadline_at := (if wake_alive row now then w_wake_deadline_at row else None),
            w_wake_on_lan_mac_address := mac\<rparr>)"
    "rg_wake_on_lan_mac_address g = None \<Longrightarrow> w_wake_on_lan_mac_address row \<noteq> Some [] \<Longrightarrow>
     mac = w_wake_on_lan_mac_address row"
proof -
  let ?mac = "case rg_wake_on_lan_mac_address g of Some m \<Rightarrow> Some m
    | None \<Rightarrow> (case w_wake_on_lan_mac_address row of None \<Rightarrow> None | Some m \<Rightarrow> if m = [] then None else Some m)"
  have online: "select_worker v (record_worker_online_locked w rq now x db1) = select_worker v db1" for v w rq x db1
    by (simp add: select_worker_def)
  show ?thesis
  proof (rule that[of ?mac])
    show "rg_wake_on_lan_mac_address g = None \<Longrightarrow> w_wake_on_lan_mac_address row \<noteq> Some [] \<Longrightarrow>
        ?mac = w_wake_on_lan_mac_address row"
      by (cases "w_wake_on_lan_mac_address row") auto
  qed (cases "w_wake_requested_at row"; cases "w_wake_deadline_at row";
       simp only: register_body_def Let_def assms online select_upsert wake_alive_def option.case snd_conv
         simp_thms if_True if_False)
qed

text \<open>
  A worker that registers again is available at once and keeps its first registration date,
  and its MAC address when the request has none; the mark of an Ohana wake survives exactly when
  the registration arrives before the wake deadline, so a machine its user started later is never
  shut down for an old wake.
\<close>

theorem registration_keeps_only_live_wake:
  assumes "config_ok cfg" and "select_worker (rg_worker_id g) db = Some row"
    and "register_worker cfg now g None db = Inr (doc, db')"
  shows "\<exists>row'. select_worker (rg_worker_id g) db' = Some row' \<and>
    w_registered_at row' = w_registered_at row \<and> w_last_seen_at row' = now \<and>
    availability_of cfg row' now = AVAILABLE \<and>
    w_capabilities row' = sort (remdups (rg_capabilities g)) \<and>
    w_woken_by_ohana row' = wake_alive row now \<and>
    w_wake_deadline_at row' = (if w_woken_by_ohana row' then w_wake_deadline_at row else None) \<and>
    (rg_wake_on_lan_mac_address g = None \<and> w_wake_on_lan_mac_address row \<noteq> Some [] \<longrightarrow>
       w_wake_on_lan_mac_address row' = w_wake_on_lan_mac_address row)"
proof -
  let ?c = "sort (remdups (rg_capabilities g))"
  have r: "db' = snd (register_body cfg now g ?c db)"
    using assms(3) by (auto simp: register_worker_def Let_def split: if_splits dest: arg_cong[of _ _ snd])
  have "0 \<le> seconds (worker_available_seconds cfg)" using config_okD(7)[OF assms(1)] by simp
  then have av: "availability_of cfg w now = AVAILABLE" if "w_last_seen_at w = now" for w
    using that by (simp add: availability_of_def)
  show ?thesis
    unfolding r
    by (rule register_existing[OF assms(2), of cfg now ?c]) (simp add: av)
qed

theorem registration_keeps_only_live_wake_witness:
  "\<exists>row'. select_worker ''w'' (exec_op demo_env default_config
      (OpRegister (demo_now + seconds 3901) (demo_registration ''w'') None) asleep_db) = Some row' \<and>
    \<not> w_woken_by_ohana row'"
proof -
  let ?now = "demo_now + seconds 3901" and ?g = "demo_registration ''w''"
  let ?row = "the (select_worker (rg_worker_id ?g) asleep_db)"
  have s: "select_worker (rg_worker_id ?g) asleep_db = Some ?row" by code_simp
  have "w_wake_deadline_at ?row = Some (demo_now + seconds 3900)" by code_simp
  moreover have "register_worker default_config ?now ?g None asleep_db =
      Inr (fst (projr (register_worker default_config ?now ?g None asleep_db)),
           exec_op demo_env default_config (OpRegister ?now ?g None) asleep_db)" by code_simp
  ultimately show ?thesis
    using registration_keeps_only_live_wake[OF default_config_ok s] by (fastforce simp: demo_registration_def seconds_def wake_alive_def)
qed

text \<open>
  Renaming a paired worker keeps its credential: the token that authenticated the old name
  authenticates the new one, and every job of the old name belongs to the new one. The journal of
  power events is not renamed: the new name starts without the history of the old one.
\<close>

theorem renaming_moves_credential_not_journal:
  assumes "migrate_worker_identity_locked old new db = Inr db'" and "old \<noteq> new"
    and "authorize_worker e old token None db"
  shows "authorize_worker e new token None db' \<and> \<not> authorize_worker e old token None db' \<and>
    (\<forall>r \<in> set (db_jobs db'). j_worker_id r \<noteq> Some old) \<and>
    worker_power old db' = worker_power old db \<and> worker_power new db' = worker_power new db"
proof -
  let ?f = "\<lambda>c. if cd_worker_id c = old then c\<lparr>cd_worker_id := new\<rparr> else c"
  have db': "db_credentials db' = map ?f (db_credentials db)" "new \<notin> cd_worker_id ` set (db_credentials db)"
    "db_power db' = db_power db" "db_jobs db' = map (\<lambda>j. if j_worker_id j = Some old
        then j\<lparr>j_worker_id := Some new\<rparr> else j) (db_jobs db)"
    using assms(1)
    by (auto simp: migrate_worker_identity_locked_def tbl_update_def tbl_find_None split: if_splits)
  have new: "find (\<lambda>c. cd_worker_id c = new \<and> cd_revoked_at c = None) (map ?f cs) =
      map_option (\<lambda>c. c\<lparr>cd_worker_id := new\<rparr>) (find (\<lambda>c. cd_worker_id c = old \<and> cd_revoked_at c = None) cs)"
    if "new \<notin> cd_worker_id ` set cs" for cs
    using that by (induction cs) auto
  have old: "find (\<lambda>c. cd_worker_id c = old \<and> cd_revoked_at c = None) (map ?f cs) = None" for cs
    using assms(2) by (induction cs) auto
  have "authorize_worker e new token None db'"
    using assms(3) unfolding authorize_worker_def Let_def db'(1) new[OF db'(2)]
    by (auto split: option.splits)
  moreover have "\<not> authorize_worker e old token None db'"
    unfolding authorize_worker_def Let_def db'(1) old by simp
  ultimately show ?thesis using assms(2) db'(3,4) by (auto simp: worker_power_def)
qed

definition paired_db :: jobdb where
  "paired_db = empty_db\<lparr>db_credentials := [\<lparr>cd_worker_id = ''old'', cd_token_sha256 = ''#t'',
     cd_created_at = demo_now, cd_revoked_at = None\<rparr>]\<rparr>"

theorem renaming_moves_credential_not_journal_witness:
  "authorize_worker demo_env ''new'' ''t'' None (projr (migrate_worker_identity_locked ''old'' ''new'' paired_db))"
proof -
  have "migrate_worker_identity_locked ''old'' ''new'' paired_db =
      Inr (projr (migrate_worker_identity_locked ''old'' ''new'' paired_db))"
    "''old'' \<noteq> ''new''" "authorize_worker demo_env ''old'' ''t'' None paired_db" by code_simp+
  from renaming_moves_credential_not_journal[OF this] show ?thesis by blast
qed

end
