(* ===== verification/Pairing_Properties.thy ===== *)
theory Pairing_Properties
  imports Job_Operations Samples
begin

text \<open>
  The properties of worker pairing: unique and bounded requests, a token that is issued once and
  only to the holder of the polling secret, the whole path from request to authentication, and
  the expiry around a clock change.
\<close>

section \<open>The table of pairings across operations\<close>

definition pairings_ok :: "repo_config \<Rightarrow> jobdb \<Rightarrow> bool" where
  "pairings_ok cfg db =
     (distinct (map pr_pairing_id (db_pairings db)) \<and>
      int (length (filter pairing_active (db_pairings db))) \<le> max_pending_pairings cfg)"

lemma expire_row_simps [simp]:
  "pr_pairing_id (expire_row e now p) = pr_pairing_id p" "pr_worker_id (expire_row e now p) = pr_worker_id p"
  "pr_expires_at (expire_row e now p) = pr_expires_at p"
  "pr_polling_secret_sha256 (expire_row e now p) = pr_polling_secret_sha256 p"
  by (simp_all add: expire_row_def)

lemma expire_row_active: "pairing_active (expire_row e now p) \<Longrightarrow> pairing_active p"
  by (auto simp: expire_row_def pairing_active_def split: if_splits)

lemma length_filter_map_le:
  "(\<And>x. x \<in> set xs \<Longrightarrow> P (f x) \<Longrightarrow> P x) \<Longrightarrow> length (filter P (map f xs)) \<le> length (filter P xs)"
  by (induction xs) (auto simp: le_SucI)

text \<open>A statement that maps the rows, keeping ids and never reactivating one.\<close>

lemma pairings_ok_map:
  assumes "pairings_ok cfg db" "db_pairings db' = map f (db_pairings db)"
    and "\<And>p. pr_pairing_id (f p) = pr_pairing_id p" "\<And>p. pairing_active (f p) \<Longrightarrow> pairing_active p"
  shows "pairings_ok cfg db'"
proof -
  have "length (filter pairing_active (map f (db_pairings db))) \<le> length (filter pairing_active (db_pairings db))"
    by (rule length_filter_map_le) (rule assms(4))
  then show ?thesis using assms(1-3) by (simp add: pairings_ok_def comp_def)
qed

lemma pairings_ok_expire: "pairings_ok cfg db \<Longrightarrow> pairings_ok cfg (expire_pairings_locked e now db)"
  by (erule pairings_ok_map[where f = "expire_row e now"]) (simp_all add: expire_pairings_locked_def expire_row_active)

lemma pairings_ok_same: "pairings_ok cfg db \<Longrightarrow> db_pairings db' = db_pairings db \<Longrightarrow> pairings_ok cfg db'"
  by (simp add: pairings_ok_def)

lemma pairings_ok_update:
  assumes "pairings_ok cfg db" "select_pairing i db = Some p"
    "\<And>q. pr_pairing_id (f q) = pr_pairing_id q" "pairing_active (f p) \<Longrightarrow> pairing_active p"
  shows "pairings_ok cfg (update_pairing i f db)"
proof -
  have "q = p" if "q \<in> set (db_pairings db)" "pr_pairing_id q = i" for q
    using that assms(1) pt.lookup_iff[of db i q] assms(2) by (simp add: pairings_ok_def)
  then have "length (filter pairing_active (map (\<lambda>r. if pr_pairing_id r = i then f r else r) (db_pairings db))) \<le>
      length (filter pairing_active (db_pairings db))"
    using assms(4) by (intro length_filter_map_le) (auto split: if_splits)
  moreover have "distinct (map pr_pairing_id (db_pairings (update_pairing i f db)))"
    using assms(1,3) by (intro pt.distinct_modify) (simp_all add: pairings_ok_def)
  ultimately show ?thesis
    using assms(1) by (simp add: pairings_ok_def update_pairing_def tbl_update_def)
qed

lemma pairing_required_Inr: "pairing_required i db = Inr p \<longleftrightarrow> select_pairing i db = Some p"
  by (auto simp: pairing_required_def split: option.splits)

lemma pairings_ok_create: "pairings_ok cfg db \<Longrightarrow> pairings_ok cfg (commit (create_pairing e cfg now g i s c db) db)"
  using pairings_ok_expire[of cfg db e now]
  by (auto simp: create_pairing_def Let_def pairings_ok_def new_pairing_def pt.lookup_absent)

lemma pairings_ok_decide:
  assumes "pairings_ok cfg db"
  shows "pairings_ok cfg (commit (approve_pairing e now i db) db)"
    and "pairings_ok cfg (commit (reject_pairing e now i db) db)"
    and "pairings_ok cfg (commit (poll_pairing e now i s t db) db)"
proof -
  note x = pairings_ok_expire[OF assms, of e now]
  show "pairings_ok cfg (commit (approve_pairing e now i db) db)"
    using assms x
    by (auto simp: approve_pairing_def Let_def pairing_required_Inr pairing_active_def
        intro!: pairings_ok_update[OF x] split: sum.splits)
  show "pairings_ok cfg (commit (reject_pairing e now i db) db)"
    using assms x
    by (auto simp: reject_pairing_def Let_def pairing_required_Inr pairing_active_def
        intro!: pairings_ok_update[OF x] split: sum.splits)
  have c: "pairings_ok cfg (put_credential w tk now (expire_pairings_locked e now db))" for w tk
    by (rule pairings_ok_same[OF x]) (simp add: put_credential_def)
  have "select_pairing i (put_credential w tk now db1) = select_pairing i db1" for w tk db1
    by (simp add: select_pairing_def put_credential_def)
  then show "pairings_ok cfg (commit (poll_pairing e now i s t db) db)"
    using assms x
    by (auto simp: poll_pairing_def Let_def pairing_required_Inr pairing_active_def
        intro!: pairings_ok_update[OF c] split: sum.splits)
qed

text \<open>Every other operation leaves the pairings, or renames the worker in them.\<close>

lemma pairings_frames [simp]:
  "db_pairings (update_worker w f db) = db_pairings db"
  "db_pairings (touch_worker_locked w now db) = db_pairings db"
  "db_pairings (power_event_locked w k now d db) = db_pairings db"
  "db_pairings (enqueue_job row now db) = db_pairings db"
  "db_pairings (claim_locked cfg now w row db) = db_pairings db"
  "db_pairings (complete_locked e now row co res er db) = db_pairings db"
  "db_pairings (mark_completion_processed job db) = db_pairings db"
  "db_pairings (record_worker_online_locked w r now x db) = db_pairings db"
  "db_pairings (snd (idle_shutdown_locked e w now db)) = db_pairings db"
  by (simp_all add: update_worker_def touch_worker_locked_def power_event_locked_def enqueue_job_def claim_locked_def
      complete_locked_def mark_completion_processed_def record_worker_online_locked_def idle_shutdown_locked_def
      Let_def split: option.splits)

lemma pairings_settle [simp]: "db_pairings (settle_unanswered_wakes cfg now m db) = db_pairings db"
proof -
  have "db_pairings (settle_wake cfg now m row db) = db_pairings db" for row db
    by (simp add: settle_wake_def Let_def split: option.splits)
  then have "db_pairings (fold (settle_wake cfg now m) rows db) = db_pairings db" for rows
    by (induction rows arbitrary: db) simp_all
  then show ?thesis by (simp add: settle_unanswered_wakes_def)
qed

lemma pairings_jobs:
  "db_pairings (commit (create e cfg now q db) db) = db_pairings db"
  "db_pairings (commit (cancel e cfg now k db) db) = db_pairings db"
  "db_pairings (commit (complete e cfg now k co db) db) = db_pairings db"
  "db_pairings (commit (get e cfg now k db) db) = db_pairings db"
  "db_pairings (commit (latest e cfg now t db) db) = db_pairings db"
  "db_pairings (commit (latest_for_incident e cfg now t i s db) db) = db_pairings db"
  "db_pairings (commit (active_for_incident e cfg now t i db) db) = db_pairings db"
  "db_pairings (commit (pending_completions e cfg now f db) db) = db_pairings db"
  "db_pairings (commit (wake_ready_job_types e cfg now b ts a f' db) db) = db_pairings db"
  "db_pairings (commit (authorize_job_transfer e cfg now k w n ts' db) db) = db_pairings db"
  "db_pairings (commit (heartbeat e cfg now k hb db) db) = db_pairings db"
  by (auto simp: create_def cancel_def complete_def get_def latest_def latest_for_incident_def
      active_for_incident_def pending_completions_def wake_ready_job_types_def authorize_job_transfer_def
      heartbeat_def Let_def commit_returning split: sum.splits option.splits prod.splits list.splits)

lemma pairings_workers:
  "db_pairings (commit (claim e cfg now cl sh st db) db) = db_pairings db"
  "db_pairings (commit (mark_worker_waking cfg now w n tr db) db) = db_pairings db"
  "db_pairings (commit (record_wake_failure now w er tr db) db) = db_pairings db"
  "db_pairings (commit (report_worker_power now w oc rs ss db) db) = db_pairings db"
  "db_pairings (commit (report_worker_runtimes now w rt h db) db) = db_pairings db"
  by (auto simp: claim_def mark_worker_waking_def record_wake_failure_def report_worker_power_def
      report_worker_runtimes_def Let_def split: option.splits sum.splits prod.splits
      dest: arg_cong[of _ _ "\<lambda>x. db_pairings (snd x)"])

lemma pairings_register:
  "\<exists>f. db_pairings (commit (register_worker cfg now g p db) db) = map f (db_pairings db) \<and>
     (\<forall>r. pr_pairing_id (f r) = pr_pairing_id r \<and> pr_status (f r) = pr_status r)"
proof -
  have u: "db_pairings (upsert_worker g c m r now w q d db1) = db_pairings db1" for c m r w q d db1
    by (simp add: upsert_worker_def)
  have b: "db_pairings (snd (register_body cfg now g c db1)) = db_pairings db1" for c db1
    by (simp add: register_body_def Let_def u split: option.splits)
  have m: "db_pairings db1 = map (\<lambda>r. if pr_worker_id r = o' then r\<lparr>pr_worker_id := rg_worker_id g\<rparr> else r) (db_pairings db)"
    if "migrate_worker_identity_locked o' (rg_worker_id g) db = Inr db1" for o' db1
    using that by (auto simp: migrate_worker_identity_locked_def split: if_splits)
  have "\<exists>f. db_pairings db = map f (db_pairings db) \<and> (\<forall>r. pr_pairing_id (f r) = pr_pairing_id r \<and> pr_status (f r) = pr_status r)"
    by (rule exI[of _ id]) simp
  then show ?thesis
    by (auto simp: register_worker_def Let_def b split: option.splits sum.splits if_splits dest!: m)
qed

lemma pairings_ok_register: "pairings_ok cfg db \<Longrightarrow> pairings_ok cfg (commit (register_worker c now g p db) db)"
  using pairings_register[of c now g p db]
  by (auto elim!: pairings_ok_map simp: pairing_active_def)

lemma pairings_ok_list: "pairings_ok cfg db \<Longrightarrow> pairings_ok cfg (commit (list_pairings e now db) db)"
  by (simp add: list_pairings_def Let_def pairings_ok_expire)

lemma pairings_ok_exec:
  assumes "pairings_ok cfg db"
  shows "pairings_ok cfg (exec_op e cfg op db)"
  using assms
  by (cases op)
     (simp_all add: pairings_ok_same[OF assms] pairings_jobs pairings_workers pairings_ok_register
      pairings_ok_create pairings_ok_decide pairings_ok_list unanswered_wake_retry_def Let_def)

text \<open>
  Pairing requests are bounded and have unique ids in every reachable database: an
  unauthenticated installer cannot grow the pending or approved requests over their limit.
\<close>

theorem pairing_requests_bounded:
  assumes "config_ok cfg" and "reachable e cfg db"
  shows "pairings_ok cfg db"
  using assms(2)
proof (induction rule: reachable.induct)
  case start
  show ?case using config_okD(6)[OF assms(1)] by (simp add: pairings_ok_def empty_db_def)
next
  case (next_state db db')
  then show ?case by (auto elim: repo_stepE intro: pairings_ok_exec)
qed

definition demo_installer :: registration where
  "demo_installer = \<lparr>rg_protocol_version = 1, rg_worker_id = ''pc'', rg_capabilities = [''system.health''],
     rg_platform = ''windows'', rg_worker_version = ''1.0'', rg_wake_on_lan_mac_address = None\<rparr>"

definition pairing_db :: jobdb where
  "pairing_db = exec_op demo_env default_config
     (OpCreatePairing demo_now demo_installer ''p1'' ''secret'' ''ABCD2345'') empty_db"

theorem pairing_requests_bounded_witness:
  "pairings_ok default_config pairing_db \<and> length (db_pairings pairing_db) = 1"
proof -
  have "reachable demo_env default_config pairing_db"
    unfolding pairing_db_def by (intro reachable_exec reachable.start)
  then have "pairings_ok default_config pairing_db" by (rule pairing_requests_bounded[OF default_config_ok])
  moreover have "length (db_pairings pairing_db) = 1" by code_simp
  ultimately show ?thesis by blast
qed

section \<open>A token is issued once\<close>

definition consumed :: "string \<Rightarrow> jobdb \<Rightarrow> bool" where
  "consumed i db = (i \<in> set (map pr_pairing_id (db_pairings db)) \<and>
     (\<forall>p \<in> set (db_pairings db). pr_pairing_id p = i \<longrightarrow> pr_status p = CONSUMED))"

lemma consumed_map:
  assumes "consumed i db" "db_pairings db' = map f (db_pairings db)"
    "\<And>p. pr_pairing_id (f p) = pr_pairing_id p"
    "\<And>p. pr_pairing_id p = i \<Longrightarrow> pr_status p = CONSUMED \<Longrightarrow> pr_status (f p) = CONSUMED"
  shows "consumed i db'"
proof -
  have "map pr_pairing_id (db_pairings db') = map pr_pairing_id (db_pairings db)"
    using assms(2,3) by simp
  moreover have "pr_status p = CONSUMED" if p: "p \<in> set (db_pairings db')" "pr_pairing_id p = i" for p
  proof -
    obtain q where "q \<in> set (db_pairings db)" "p = f q" using p(1) assms(2) by auto
    then show ?thesis using p(2) assms(1,3,4) by (simp add: consumed_def)
  qed
  ultimately show ?thesis using assms(1) by (simp only: consumed_def) blast
qed

lemma consumed_same: "consumed i db \<Longrightarrow> db_pairings db' = db_pairings db \<Longrightarrow> consumed i db'"
  by (simp add: consumed_def)

lemma consumed_expire: "consumed i db \<Longrightarrow> consumed i (expire_pairings_locked e now db)"
  by (erule consumed_map[where f = "expire_row e now"])
     (simp_all add: expire_pairings_locked_def expire_row_def pairing_active_def)

lemma consumed_select: "consumed i db \<Longrightarrow> select_pairing i db = Some p \<Longrightarrow> pr_status p = CONSUMED"
  by (auto simp: consumed_def dest: pt.lookup_member)

lemma consumed_update:
  assumes "consumed i db" "j \<noteq> i" "\<And>p. pr_pairing_id (f p) = pr_pairing_id p"
  shows "consumed i (update_pairing j f db)"
  by (rule consumed_map[OF assms(1), where f = "\<lambda>p. if pr_pairing_id p = j then f p else p"])
     (use assms(2,3) in \<open>auto simp: update_pairing_def tbl_update_def\<close>)

lemma consumed_decide:
  assumes "consumed i db"
  shows "consumed i (commit (approve_pairing e now j db) db)"
    and "consumed i (commit (reject_pairing e now j db) db)"
    and "consumed i (commit (poll_pairing e now j s t db) db)"
    and "consumed i (commit (create_pairing e cfg now g j s c db) db)"
proof -
  note x = consumed_expire[OF assms, of e now]
  have c: "consumed i (put_credential w tk now (expire_pairings_locked e now db))" for w tk
    by (rule consumed_same[OF x]) (simp add: put_credential_def)
  show "consumed i (commit (approve_pairing e now j db) db)"
    using assms x consumed_select[OF x]
    by (cases "j = i") (auto simp: approve_pairing_def Let_def pairing_required_Inr intro!: consumed_update split: sum.splits)
  show "consumed i (commit (reject_pairing e now j db) db)"
    using assms x consumed_select[OF x]
    by (cases "j = i") (auto simp: reject_pairing_def Let_def pairing_required_Inr pairing_active_def
        intro!: consumed_update split: sum.splits)
  show "consumed i (commit (poll_pairing e now j s t db) db)"
    using assms x c consumed_select[OF x]
    by (cases "j = i") (auto simp: poll_pairing_def Let_def pairing_required_Inr intro!: consumed_update split: sum.splits)
  show "consumed i (commit (create_pairing e cfg now g j s c db) db)"
    using assms x by (auto simp: create_pairing_def Let_def consumed_def new_pairing_def pt.lookup_absent)
qed

lemma consumed_register: "consumed i db \<Longrightarrow> consumed i (commit (register_worker c now g p db) db)"
  using pairings_register[of c now g p db] by (auto elim!: consumed_map)

lemma consumed_exec:
  assumes "consumed i db"
  shows "consumed i (exec_op e cfg op db)"
  using assms
  by (cases op)
     (simp_all add: consumed_same[OF assms] pairings_jobs pairings_workers consumed_register
      consumed_decide list_pairings_def consumed_expire unanswered_wake_retry_def Let_def)

lemma consumed_fold: "consumed i db \<Longrightarrow> consumed i (fold (exec_op e cfg) ops db)"
  by (induction ops arbitrary: db) (simp_all add: consumed_exec)

lemma poll_token_consumes:
  assumes "poll_pairing e now i s t db = Inr (r, db')" "po_worker_token r \<noteq> None"
  shows "consumed i db'"
proof -
  obtain p where p: "select_pairing i (expire_pairings_locked e now db) = Some p"
    using assms(1) by (auto simp: poll_pairing_def Let_def pairing_required_Inr split: sum.splits)
  let ?f = "\<lambda>q. if pr_pairing_id q = i then q\<lparr>pr_status := CONSUMED, pr_consumed_at := Some now\<rparr> else q"
  have rows: "db_pairings db' = map ?f (map (expire_row e now) (db_pairings db))"
    using assms p
    by (auto simp: poll_pairing_def Let_def pairing_required_Inr update_pairing_def tbl_update_def
        put_credential_def expire_pairings_locked_def split: if_splits sum.splits)
  have "i \<in> set (map pr_pairing_id (db_pairings db))"
    using pt.lookup_member[OF p] by (auto simp: expire_pairings_locked_def)
  moreover have "map pr_pairing_id (db_pairings db') = map pr_pairing_id (db_pairings db)"
    by (simp add: rows comp_def)
  ultimately have "i \<in> set (map pr_pairing_id (db_pairings db'))" by simp
  moreover have "pr_status q = CONSUMED" if q: "q \<in> set (db_pairings db')" "pr_pairing_id q = i" for q
  proof -
    obtain x where "q = ?f x" using q(1) unfolding rows by (auto simp only: set_map)
    with q(2) show ?thesis by (cases "pr_pairing_id x = i") simp_all
  qed
  ultimately show ?thesis by (simp add: consumed_def)
qed

text \<open>
  C37. One pairing yields at most one token: once a poll has returned a token, no later poll of
  that pairing returns one, whatever operations run in between and whatever secret it presents.
\<close>

theorem token_issued_once:
  assumes "poll_pairing e now i s t db = Inr (r, db1)" and "po_worker_token r \<noteq> None"
    and "poll_pairing e now' i s' t' (fold (exec_op e cfg) ops db1) = Inr (r', db2)"
  shows "po_worker_token r' = None \<and> po_status r' = CONSUMED"
proof -
  have "consumed i (expire_pairings_locked e now' (fold (exec_op e cfg) ops db1))"
    by (intro consumed_expire consumed_fold poll_token_consumes[OF assms(1,2)])
  from consumed_select[OF this] show ?thesis
    using assms(3) by (auto simp: poll_pairing_def Let_def pairing_required_Inr split: sum.splits if_splits)
qed

definition approved_db :: jobdb where
  "approved_db = exec_op demo_env default_config (OpApprovePairing (demo_now + seconds 60) ''p1'') pairing_db"

theorem token_issued_once_witness:
  "po_worker_token (fst (projr (poll_pairing demo_env (demo_now + seconds 70) ''p1'' ''secret'' ''token2''
     (exec_op demo_env default_config (OpPollPairing (demo_now + seconds 65) ''p1'' ''secret'' ''token'') approved_db)))) = None"
proof -
  let ?poll = "OpPollPairing (demo_now + seconds 65) ''p1'' ''secret'' ''token''"
  let ?db1 = "exec_op demo_env default_config ?poll approved_db"
  let ?r1 = "fst (projr (poll_pairing demo_env (demo_now + seconds 65) ''p1'' ''secret'' ''token'' approved_db))"
  let ?p2 = "poll_pairing demo_env (demo_now + seconds 70) ''p1'' ''secret'' ''token2'' ?db1"
  have 1: "poll_pairing demo_env (demo_now + seconds 65) ''p1'' ''secret'' ''token'' approved_db = Inr (?r1, ?db1)"
    by code_simp
  have 2: "po_worker_token ?r1 \<noteq> None" by code_simp
  have "?p2 = Inr (fst (projr ?p2), snd (projr ?p2))" by code_simp
  then have 3: "poll_pairing demo_env (demo_now + seconds 70) ''p1'' ''secret'' ''token2''
      (fold (exec_op demo_env default_config) [] ?db1) = Inr (fst (projr ?p2), snd (projr ?p2))"
    by (simp only: fold_Nil id_apply)
  show ?thesis by (rule token_issued_once[OF 1 2 3, THEN conjunct1])
qed

section \<open>From request to authentication\<close>

lemma select_expire: "select_pairing i (expire_pairings_locked e now db) = map_option (expire_row e now) (select_pairing i db)"
proof -
  have "tbl_find pr_pairing_id i (map (expire_row e now) ps) = map_option (expire_row e now) (tbl_find pr_pairing_id i ps)" for ps
    by (induction ps) (simp_all add: tbl_find_def)
  then show ?thesis by (simp add: select_pairing_def expire_pairings_locked_def)
qed

lemma expire_row_alive: "text_key e now < text_key e (pr_expires_at p) \<Longrightarrow> expire_row e now p = p"
  by (simp add: expire_row_def flip: not_less)

lemma authorize_active:
  "find (\<lambda>c. cd_worker_id c = w \<and> cd_revoked_at c = None) (db_credentials db) = Some c \<Longrightarrow>
   cd_token_sha256 c = secret_digest e t \<Longrightarrow> authorize_worker e w t None db"
  by (simp add: authorize_worker_def Let_def)

lemma find_new_credential:
  "tbl_find cd_worker_id w cs = None \<Longrightarrow> cd_worker_id c = w \<Longrightarrow> cd_revoked_at c = None \<Longrightarrow>
   find (\<lambda>c. cd_worker_id c = w \<and> cd_revoked_at c = None) (cs @ [c]) = Some (c :: credential_row)"
  by (induction cs) (auto simp: tbl_find_def split: if_splits)

lemma find_replaced_credential:
  fixes cs :: "credential_row list"
  assumes "tbl_find cd_worker_id w cs \<noteq> None"
  shows "\<exists>c. find (\<lambda>c. cd_worker_id c = w \<and> cd_revoked_at c = None)
      (tbl_update cd_worker_id w (\<lambda>c. c\<lparr>cd_token_sha256 := h, cd_created_at := now, cd_revoked_at := None\<rparr>) cs) =
      Some c \<and> cd_token_sha256 c = h"
  using assms by (induction cs) (auto simp: tbl_find_def tbl_update_def split: if_splits)

lemma authorize_put_credential:
  "authorize_worker e w t None (put_credential w (secret_digest e t) now db)"
proof (cases "tbl_find cd_worker_id w (db_credentials db)")
  case None
  then show ?thesis
    by (intro authorize_active[where c = "\<lparr>cd_worker_id = w, cd_token_sha256 = secret_digest e t,
          cd_created_at = now, cd_revoked_at = None\<rparr>"])
       (simp_all add: put_credential_def find_new_credential)
next
  case (Some y)
  then obtain c where "find (\<lambda>c. cd_worker_id c = w \<and> cd_revoked_at c = None)
      (db_credentials (put_credential w (secret_digest e t) now db)) = Some c" "cd_token_sha256 c = secret_digest e t"
    using find_replaced_credential[of w "db_credentials db" now "secret_digest e t"]
    by (auto simp: put_credential_def)
  then show ?thesis by (rule authorize_active)
qed

text \<open>
  C38. The pairing works end to end: a request that was accepted, then approved and polled with its
  secret before its stored expiry, yields the fresh token, and that token authenticates the worker;
  any other secret (with another digest) is answered as if the pairing did not exist.
\<close>

theorem pairing_leads_to_authentication:
  assumes "create_pairing e cfg t0 g i secret code db = Inr (c, db1)"
    and "text_key e t1 < text_key e (pc_expires_at c)" and "text_key e t2 < text_key e (pc_expires_at c)"
  shows "\<exists>doc db2 r db3. approve_pairing e t1 i db1 = Inr (doc, db2) \<and>
    poll_pairing e t2 i secret token db2 = Inr (r, db3) \<and> po_worker_token r = Some token \<and>
    authorize_worker e (rg_worker_id g) token None db3 \<and>
    (\<forall>other. secret_digest e other \<noteq> secret_digest e secret \<longrightarrow>
       poll_pairing e t2 i other token db2 = Inl (LookupError ''worker pairing not found''))"
proof -
  let ?p = "new_pairing e cfg t0 g i secret code"
  have s1: "select_pairing i db1 = Some ?p" and exp: "pc_expires_at c = pr_expires_at ?p"
    using assms(1)
    by (auto simp: create_pairing_def Let_def select_pairing_def tbl_find_append new_pairing_def
        split: if_splits option.splits) (auto simp: tbl_find_def new_pairing_def)
  let ?q = "?p\<lparr>pr_status := APPROVED, pr_approved_at := Some t1\<rparr>"
  have st: "pr_status ?p = PENDING" "pr_worker_id ?p = rg_worker_id g"
    "pr_polling_secret_sha256 ?p = secret_digest e secret" by (simp_all add: new_pairing_def)
  have x1: "select_pairing i (expire_pairings_locked e t1 db1) = Some ?p"
    using s1 assms(2) by (simp add: select_expire exp expire_row_alive)
  obtain doc db2 where a: "approve_pairing e t1 i db1 = Inr (doc, db2)" and s2: "select_pairing i db2 = Some ?q"
    using x1 st by (auto simp: approve_pairing_def Let_def pairing_required_def pt.lookup_modify)
  have x2: "select_pairing i (expire_pairings_locked e t2 db2) = Some ?q"
    using s2 assms(3) by (simp add: select_expire exp expire_row_alive)
  have c: "authorize_worker e w t None (update_pairing i f db') = authorize_worker e w t None db'" for w t f db'
    by (simp add: authorize_worker_def update_pairing_def)
  show ?thesis
    unfolding a using x2 st
    by (auto simp: poll_pairing_def Let_def pairing_required_def c authorize_put_credential)
qed

theorem pairing_leads_to_authentication_witness:
  "\<exists>db2 r db3. poll_pairing demo_env (demo_now + seconds 65) ''p1'' ''secret'' ''token'' db2 = Inr (r, db3) \<and>
     po_worker_token r = Some ''token'' \<and> authorize_worker demo_env ''pc'' ''token'' None db3"
proof -
  let ?c = "create_pairing demo_env default_config demo_now demo_installer ''p1'' ''secret'' ''ABCD2345'' empty_db"
  have "?c = Inr (fst (projr ?c), pairing_db)"
    "text_key demo_env (demo_now + seconds 60) < text_key demo_env (pc_expires_at (fst (projr ?c)))"
    "text_key demo_env (demo_now + seconds 65) < text_key demo_env (pc_expires_at (fst (projr ?c)))" by code_simp+
  from pairing_leads_to_authentication[OF this, of "''token''"] show ?thesis
    by (auto simp: demo_installer_def)
qed

text \<open>
  The expiry compares local times as text, so it fails around the autumn clock change: a
  pairing whose lifetime of at most one hour crosses the change is expired as soon as it exists,
  although its expiry lies ahead.
\<close>

theorem pairing_expires_at_once_in_autumn:
  assumes "config_ok cfg" and "create_pairing e cfg now g i secret code db = Inr (c, db1)"
    and "paris_offset e (pc_expires_at c) + seconds 3600 = paris_offset e now"
  shows "now < pc_expires_at c \<and>
    (\<exists>r db2. poll_pairing e now i secret token db1 = Inr (r, db2) \<and> po_status r = EXPIRED)"
proof -
  let ?p = "new_pairing e cfg now g i secret code"
  have s1: "select_pairing i db1 = Some ?p" and exp: "pc_expires_at c = pr_expires_at ?p"
    using assms(2)
    by (auto simp: create_pairing_def Let_def select_pairing_def tbl_find_append new_pairing_def
        split: if_splits option.splits) (auto simp: tbl_find_def new_pairing_def)
  have ttl: "60 \<le> pairing_ttl_seconds cfg" "pairing_ttl_seconds cfg \<le> 3600"
    using assms(1) by (auto simp: config_ok_def repo_init_def split: if_splits)
  have "text_key e (pr_expires_at ?p) \<le> text_key e now"
    using assms(3) ttl unfolding exp
    by (auto simp: text_key_def new_pairing_def seconds_def less_eq_prod_def)
  then have "expire_row e now ?p = ?p\<lparr>pr_status := EXPIRED\<rparr>"
    by (simp add: expire_row_def pairing_active_def new_pairing_def)
  then have "select_pairing i (expire_pairings_locked e now db1) = Some (?p\<lparr>pr_status := EXPIRED\<rparr>)"
    using s1 by (simp add: select_expire)
  moreover have "now < pc_expires_at c" unfolding exp using ttl by (simp add: new_pairing_def seconds_def)
  ultimately show ?thesis by (simp add: poll_pairing_def Let_def pairing_required_def new_pairing_def)
qed

text \<open>An autumn: summer time until instant 0, and a request five minutes before.\<close>

definition autumn_env :: env where
  "autumn_env = demo_env\<lparr>paris_offset := (\<lambda>t. if t < 0 then 7200000000 else 3600000000)\<rparr>"

theorem pairing_expires_at_once_in_autumn_witness:
  "\<exists>db1. po_status (fst (projr (poll_pairing autumn_env (- seconds 300) ''p1'' ''secret'' ''token'' db1))) = EXPIRED"
proof -
  let ?c = "create_pairing autumn_env default_config (- seconds 300) demo_installer ''p1'' ''secret'' ''ABCD2345'' empty_db"
  have "?c = Inr (fst (projr ?c), snd (projr ?c))"
    "paris_offset autumn_env (pc_expires_at (fst (projr ?c))) + seconds 3600 = paris_offset autumn_env (- seconds 300)"
    by code_simp+
  from pairing_expires_at_once_in_autumn[OF default_config_ok this, of "''token''"]
  show ?thesis by (auto intro!: exI[of _ "snd (projr ?c)"])
qed

end
