(* ===== verification/Calendar.thy ===== *)
theory Calendar
  imports Prelude
begin

text \<open>
  Wall-clock time. Arithmetic and comparison of Python datetimes that share one tzinfo ignore the
  UTC offset, so a local time is the number of microseconds its wall clock shows since
  1970-01-01 00:00, and \<open>timedelta\<close> arithmetic on it is integer arithmetic. The tz database is a
  parameter: \<open>zone_offset z t\<close> is the offset of zone \<open>z\<close> at instant \<open>t\<close>, and \<open>local_offset t\<close> the
  offset that \<open>datetime.now().astimezone()\<close> attaches.
\<close>

type_synonym wall = int

record clock_env =
  zone_offset :: "string \<Rightarrow> instant \<Rightarrow> int"
  local_offset :: "instant \<Rightarrow> int"

definition US_DAY :: int where "US_DAY = 86400000000"
definition US_MINUTE :: int where "US_MINUTE = 60000000"

definition day_number :: "wall \<Rightarrow> int" where
  "day_number w = w div US_DAY"

text \<open>\<open>date.weekday()\<close>: Monday is 0; 1970-01-01 was a Thursday.\<close>

definition weekday_of_day :: "int \<Rightarrow> int" where
  "weekday_of_day d = (d + 3) mod 7"

definition minute_of :: "wall \<Rightarrow> int" where
  "minute_of w = (w div US_MINUTE) mod 60"

definition hour_of :: "wall \<Rightarrow> int" where
  "hour_of w = (w div (60 * US_MINUTE)) mod 24"

text \<open>Month and day of a day number, in the proleptic Gregorian calendar of \<open>datetime\<close>.\<close>

definition civil :: "int \<Rightarrow> int \<times> int \<times> int" where
  "civil n =
     (let z = n + 719468; era = z div 146097; doe = z mod 146097;
          yoe = (doe - doe div 1460 + doe div 36524 - doe div 146096) div 365;
          doy = doe - (365 * yoe + yoe div 4 - yoe div 100);
          mp = (5 * doy + 2) div 153;
          m = (if mp < 10 then mp + 3 else mp - 9)
      in (yoe + era * 400 + (if m \<le> 2 then 1 else 0), m, doy - (153 * mp + 2) div 5 + 1))"

definition month_of :: "wall \<Rightarrow> int" where
  "month_of w = fst (snd (civil (day_number w)))"

definition day_of_month :: "wall \<Rightarrow> int" where
  "day_of_month w = snd (snd (civil (day_number w)))"

lemma civil_samples:
  "map civil [0, 58, 59, 11016, 11017, 19782, 20088, -719468, 20454] =
     [(1970, 1, 1), (1970, 2, 28), (1970, 3, 1), (2000, 2, 29), (2000, 3, 1), (2024, 2, 29),
      (2024, 12, 31), (0, 3, 1), (2026, 1, 1)]"
  by code_simp

text \<open>\<open>value.replace(second=0, microsecond=0)\<close>.\<close>

definition floor_minute :: "wall \<Rightarrow> wall" where
  "floor_minute w = w - w mod US_MINUTE"

lemma floor_minute_le: "floor_minute w \<le> w"
  by (simp add: floor_minute_def US_MINUTE_def)

lemma floor_minute_bounds: "w < floor_minute w + US_MINUTE"
  using pos_mod_bound[of US_MINUTE w] by (simp add: floor_minute_def US_MINUTE_def)

lemma floor_minute_dvd: "US_MINUTE dvd floor_minute w"
  by (simp add: floor_minute_def dvd_minus_mod)

lemma floor_minute_idem [simp]: "US_MINUTE dvd w \<Longrightarrow> floor_minute w = w"
  by (simp add: floor_minute_def)

lemma weekday_of_day_week [simp]: "weekday_of_day (d + 7 * k) = weekday_of_day d"
  by (metis ab_semigroup_add_class.add_ac(1) add.commute mod_mult_self2 weekday_of_day_def)

lemma weekday_of_day_range [simp]: "0 \<le> weekday_of_day d" "weekday_of_day d < 7"
  by (simp_all add: weekday_of_day_def)

end
