(* ===== verification/Cron.thy ===== *)
theory Cron
  imports Calendar
begin

text \<open>
  scheduler/cron_trigger.py: the five-field expressions, the search for the next run, and the
  test whether the trigger is due.
\<close>

section \<open>Parsing\<close>

text \<open>\<open>text.split(sep, 1)\<close>: the text before and after the first separator, if there is one.\<close>

fun split_once :: "char \<Rightarrow> string \<Rightarrow> (string \<times> string) option" where
  "split_once d [] = None"
| "split_once d (c # cs) =
     (if c = d then Some ([], cs)
      else map_option (\<lambda>(a, b). (c # a, b)) (split_once d cs))"

text \<open>\<open>text.split()\<close> on blanks.\<close>

fun words_acc :: "string \<Rightarrow> string \<Rightarrow> string list" where
  "words_acc acc [] = (if acc = [] then [] else [acc])"
| "words_acc acc (c # cs) =
     (if py_space c
      then (if acc = [] then words_acc [] cs else acc # words_acc [] cs)
      else words_acc (acc @ [c]) cs)"

text \<open>
  \<open>int(text)\<close> on ASCII text: an optional sign, digits, and single underscores between digits. The
  parts come out of \<open>split()\<close>, so no blanks surround them.
\<close>

definition digits_int :: "string \<Rightarrow> int option" where
  "digits_int s =
     (let groups = split_on CHR ''_'' s
      in if list_all (\<lambda>g. g \<noteq> [] \<and> list_all digit g) groups
         then Some (digits_value (concat groups)) else None)"

fun py_int :: "string \<Rightarrow> int option" where
  "py_int [] = None"
| "py_int (c # cs) =
     (if c = CHR ''-'' then map_option uminus (digits_int cs)
      else if c = CHR ''+'' then digits_int cs
      else digits_int (c # cs))"

definition int_or_error :: "string \<Rightarrow> error + int" where
  "int_or_error s = (case py_int s of
     None \<Rightarrow> Inl (ValueError (''invalid literal for int() with base 10: '' @ s)) | Some i \<Rightarrow> Inr i)"

text \<open>\<open>range(start, stop, step)\<close> with a positive step.\<close>

definition py_range :: "int \<Rightarrow> int \<Rightarrow> int \<Rightarrow> int list" where
  "py_range start stop step =
     map (\<lambda>i. start + step * int i) [0..<nat ((stop - start + step - 1) div step)]"

definition parse_part :: "int \<Rightarrow> int \<Rightarrow> string \<Rightarrow> error + int list" where
  "parse_part minimum maximum part =
     (case split_once CHR ''/'' part of
        Some (base, step_raw) \<Rightarrow>
          (case int_or_error step_raw of
             Inl err \<Rightarrow> Inl err
           | Inr step \<Rightarrow>
               if step \<le> 0 then Inl (ValueError ''cron step must be greater than zero'')
               else if base = ''*'' then Inr (py_range minimum (maximum + 1) step)
               else (case split_once CHR ''-'' base of
                 Some (start_raw, end_raw) \<Rightarrow>
                   (case (int_or_error start_raw, int_or_error end_raw) of
                      (Inl err, _) \<Rightarrow> Inl err
                    | (Inr start, Inl err) \<Rightarrow> Inl err
                    | (Inr start, Inr stop) \<Rightarrow> Inr (py_range start (stop + 1) step))
               | None \<Rightarrow>
                   (case int_or_error base of
                      Inl err \<Rightarrow> Inl err
                    | Inr start \<Rightarrow> Inr (py_range start (maximum + 1) step))))
      | None \<Rightarrow>
          (case split_once CHR ''-'' part of
             Some (start_raw, end_raw) \<Rightarrow>
               (case (int_or_error start_raw, int_or_error end_raw) of
                  (Inl err, _) \<Rightarrow> Inl err
                | (Inr start, Inl err) \<Rightarrow> Inl err
                | (Inr start, Inr stop) \<Rightarrow> Inr (py_range start (stop + 1) 1))
           | None \<Rightarrow>
               (case int_or_error part of Inl err \<Rightarrow> Inl err | Inr i \<Rightarrow> Inr [i])))"

fun parse_parts :: "int \<Rightarrow> int \<Rightarrow> string list \<Rightarrow> error + int list" where
  "parse_parts minimum maximum [] = Inr []"
| "parse_parts minimum maximum (p # ps) =
     (case parse_part minimum maximum p of
        Inl err \<Rightarrow> Inl err
      | Inr vs \<Rightarrow> (case parse_parts minimum maximum ps of
          Inl err \<Rightarrow> Inl err | Inr ws \<Rightarrow> Inr (vs @ ws)))"

definition parse_field :: "string \<Rightarrow> int \<Rightarrow> int \<Rightarrow> error + int list" where
  "parse_field field minimum maximum =
     (if field = ''*'' then Inr (py_range minimum (maximum + 1) 1)
      else case parse_parts minimum maximum (split_on CHR '','' field) of
        Inl err \<Rightarrow> Inl err
      | Inr values \<Rightarrow>
          if values = [] \<or> (\<exists>v \<in> set values. v < minimum) \<or> (\<exists>v \<in> set values. v > maximum)
          then Inl (ValueError (''cron field values must be between '' @ show_int minimum @
                                '' and '' @ show_int maximum))
          else Inr values)"

definition WEEKDAY_NAMES :: "(string \<times> string) list" where
  "WEEKDAY_NAMES = [(''mon'', ''0''), (''tue'', ''1''), (''wed'', ''2''), (''thu'', ''3''),
     (''fri'', ''4''), (''sat'', ''5''), (''sun'', ''6'')]"

text \<open>\<open>WEEKDAY_NAME.sub\<close>: the leftmost names, replaced by their numbers, ignoring case.\<close>

fun sub_weekdays :: "string \<Rightarrow> string" where
  "sub_weekdays (a # b # c # cs) =
     (case map_of WEEKDAY_NAMES (map lower_char [a, b, c]) of
        Some n \<Rightarrow> n @ sub_weekdays cs
      | None \<Rightarrow> a # sub_weekdays (b # c # cs))"
| "sub_weekdays cs = cs"

record cron_fields =
  cron_minutes :: "int list"
  cron_hours :: "int list"
  cron_days :: "int list"
  cron_months :: "int list"
  cron_weekdays :: "int list"

definition parse_cron :: "string \<Rightarrow> error + cron_fields" where
  "parse_cron expression =
     (case words_acc [] expression of
        [f0, f1, f2, f3, f4] \<Rightarrow>
          (case parse_field f0 0 59 of Inl err \<Rightarrow> Inl err | Inr minutes \<Rightarrow>
          (case parse_field f1 0 23 of Inl err \<Rightarrow> Inl err | Inr hours \<Rightarrow>
          (case parse_field f2 1 31 of Inl err \<Rightarrow> Inl err | Inr month_days \<Rightarrow>
          (case parse_field f3 1 12 of Inl err \<Rightarrow> Inl err | Inr months \<Rightarrow>
          (case parse_field (sub_weekdays f4) 0 6 of Inl err \<Rightarrow> Inl err | Inr weekdays \<Rightarrow>
             Inr \<lparr>cron_minutes = minutes, cron_hours = hours, cron_days = month_days,
                  cron_months = months, cron_weekdays = weekdays\<rparr>)))))
      | _ \<Rightarrow> Inl (ValueError ''cron expression must contain exactly five fields''))"

section \<open>Matching and the next run\<close>

definition cron_matches :: "cron_fields \<Rightarrow> wall \<Rightarrow> bool" where
  "cron_matches f w =
     (minute_of w \<in> set (cron_minutes f) \<and> hour_of w \<in> set (cron_hours f) \<and>
      day_of_month w \<in> set (cron_days f) \<and> month_of w \<in> set (cron_months f) \<and>
      weekday_of_day (day_number w) \<in> set (cron_weekdays f))"

text \<open>The loop \<open>for _ in range(n)\<close> of \<open>next_run_at\<close>, one minute a turn.\<close>

fun cron_search :: "cron_fields \<Rightarrow> nat \<Rightarrow> wall \<Rightarrow> wall option" where
  "cron_search f 0 candidate = None"
| "cron_search f (Suc n) candidate =
     (if cron_matches f candidate then Some candidate else cron_search f n (candidate + US_MINUTE))"

definition cron_next :: "cron_fields \<Rightarrow> wall \<Rightarrow> wall option" where
  "cron_next f after = cron_search f (366 * 24 * 60) (floor_minute after + US_MINUTE)"

lemma cron_search_Some:
  assumes "cron_search f n c = Some r"
  shows "\<exists>k < n. r = c + int k * US_MINUTE \<and> cron_matches f r \<and>
    (\<forall>j < k. \<not> cron_matches f (c + int j * US_MINUTE))"
  using assms
proof (induction n arbitrary: c)
  case (Suc n)
  show ?case
  proof (cases "cron_matches f c")
    case True
    with Suc.prems show ?thesis by (intro exI[of _ 0]) simp
  next
    case False
    with Suc obtain k where k: "k < n" "r = c + US_MINUTE + int k * US_MINUTE" "cron_matches f r"
      "\<forall>j < k. \<not> cron_matches f (c + US_MINUTE + int j * US_MINUTE)" by auto
    have "\<not> cron_matches f (c + int j * US_MINUTE)" if "j < Suc k" for j
      using that False k(4) by (cases j) (auto simp: algebra_simps)
    with k show ?thesis by (intro exI[of _ "Suc k"]) (auto simp: algebra_simps)
  qed
qed simp

lemma cron_search_None:
  "cron_search f n c = None \<Longrightarrow> k < n \<Longrightarrow> \<not> cron_matches f (c + int k * US_MINUTE)"
proof (induction n arbitrary: c k)
  case (Suc n)
  show ?case
  proof (cases k)
    case 0
    with Suc.prems show ?thesis by (auto split: if_splits)
  next
    case (Suc j)
    with Suc.prems Suc.IH[of "c + US_MINUTE" j] show ?thesis
      by (auto simp: algebra_simps split: if_splits)
  qed
qed simp

lemma parse_field_range:
  assumes "parse_field field lo hi = Inr vs" "v \<in> set vs" "lo \<le> hi"
  shows "lo \<le> v \<and> v \<le> hi"
proof (cases "field = ''*''")
  case True
  with assms have "v \<in> set (py_range lo (hi + 1) 1)" by (simp add: parse_field_def)
  then show ?thesis using assms(3) by (auto simp: py_range_def)
next
  case False
  with assms show ?thesis by (auto simp: parse_field_def not_less split: sum.splits if_splits)
qed

lemma parse_field_nonempty:
  "parse_field field lo hi = Inr vs \<Longrightarrow> lo \<le> hi \<Longrightarrow> vs \<noteq> []"
  by (auto simp: parse_field_def py_range_def split: sum.splits if_splits)

end
