(* ===== verification/Monitoring.thy ===== *)
theory Monitoring
  imports Calendar
begin

text \<open>
  observation/monitoring/schedule.py, \<open>MonitoringScheduleRegistry\<close>: parsing of the schedules that
  devices declare, and the decision whether a node is monitored at an instant. Times of one
  schedule share its tzinfo, so all comparisons in it are comparisons of wall clocks.
\<close>

section \<open>Schedules\<close>

record period =
  pp_days :: "int list"
  pp_start :: int
  pp_end :: int

record schedule =
  sd_timezone :: string
  sd_periods :: "period list"
  sd_startup_grace_seconds :: int

record decision =
  dc_active :: bool
  dc_reason :: "string option"
  dc_next_activation :: "wall option"
  dc_grace_until :: "wall option"

definition DAY_NAMES :: "(string \<times> int) list" where
  "DAY_NAMES = [(''monday'', 0), (''tuesday'', 1), (''wednesday'', 2), (''thursday'', 3),
     (''friday'', 4), (''saturday'', 5), (''sunday'', 6)]"

text \<open>
  \<open>time.fromisoformat\<close> on texts without UTC offset: HH, HH:MM, HH:MM:SS with an optional fraction,
  extended or basic, an optional leading T. A text with an offset suffix is outside the model and
  counts as malformed. The value is the minute of the day: \<open>_parse_time\<close> drops the seconds.
\<close>

definition two_digits :: "string \<Rightarrow> int option" where
  "two_digits s = (if length s = 2 \<and> list_all digit s then Some (digits_value s) else None)"

definition seconds_ok :: "string \<Rightarrow> bool" where
  "seconds_ok s =
     (let whole = take 2 s; rest = drop 2 s
      in (case two_digits whole of None \<Rightarrow> False | Some n \<Rightarrow> n \<le> 59) \<and>
         (rest = [] \<or> (hd rest \<in> set ''.,'' \<and> tl rest \<noteq> [] \<and> list_all digit (tl rest))))"

definition hour_minute :: "string \<Rightarrow> string \<Rightarrow> int option" where
  "hour_minute h m =
     (case (two_digits h, two_digits m) of
        (Some a, Some b) \<Rightarrow> if a \<le> 23 \<and> b \<le> 59 then Some (a * 60 + b) else None
      | _ \<Rightarrow> None)"

definition iso_time :: "string \<Rightarrow> int option" where
  "iso_time text =
     (let s = (case text of c # cs \<Rightarrow> if c = CHR ''T'' then cs else text | [] \<Rightarrow> [])
      in case split_on CHR '':'' s of
           [h] \<Rightarrow> if length h = 2 then hour_minute h ''00''
                  else if length h = 4 then hour_minute (take 2 h) (drop 2 h)
                  else if seconds_ok (drop 4 h) then hour_minute (take 2 h) (take 2 (drop 2 h))
                  else None
         | [h, m] \<Rightarrow> hour_minute h m
         | [h, m, sec] \<Rightarrow> if seconds_ok sec then hour_minute h m else None
         | _ \<Rightarrow> None)"

definition parse_time :: "json \<Rightarrow> string \<Rightarrow> error + int" where
  "parse_time value field_name =
     (case value of
        JStr s \<Rightarrow> (case iso_time (strip s) of
            None \<Rightarrow> Inl (ValueError (''Monitoring period '' @ field_name @ '' must use HH:MM.''))
          | Some m \<Rightarrow> Inr m)
      | _ \<Rightarrow> Inl (ValueError (''Monitoring period '' @ field_name @ '' must use HH:MM.'')))"

fun parse_days :: "json list \<Rightarrow> error + int list" where
  "parse_days [] = Inr []"
| "parse_days (JStr raw # ds) =
     (case map_of DAY_NAMES (map lower_char (strip raw)) of
        None \<Rightarrow> Inl (ValueError (''Unknown monitoring period day: '' @ raw))
      | Some d \<Rightarrow> (case parse_days ds of Inl err \<Rightarrow> Inl err | Inr rest \<Rightarrow> Inr (d # rest)))"
| "parse_days (_ # ds) = Inl (ValueError ''Monitoring period days must be strings.'')"

definition parse_period :: "json \<Rightarrow> error + period" where
  "parse_period payload =
     (case payload of
        JObj kvs \<Rightarrow>
          (case jget payload ''days'' of
             JArr (d # ds) \<Rightarrow>
               (case parse_days (d # ds) of Inl err \<Rightarrow> Inl err | Inr parsed \<Rightarrow>
               (case parse_time (jget payload ''start'') ''start'' of Inl err \<Rightarrow> Inl err | Inr s \<Rightarrow>
               (case parse_time (jget payload ''end'') ''end'' of Inl err \<Rightarrow> Inl err | Inr t \<Rightarrow>
                  Inr \<lparr>pp_days = parsed, pp_start = s, pp_end = t\<rparr>)))
           | _ \<Rightarrow> Inl (ValueError ''Each monitoring period must define days.''))
      | _ \<Rightarrow> Inl (ValueError ''Each monitoring period must be a mapping.''))"

fun parse_periods :: "json list \<Rightarrow> error + period list" where
  "parse_periods [] = Inr []"
| "parse_periods (p # ps) =
     (case parse_period p of
        Inl err \<Rightarrow> Inl err
      | Inr q \<Rightarrow> (case parse_periods ps of Inl err \<Rightarrow> Inl err | Inr qs \<Rightarrow> Inr (q # qs)))"

text \<open>\<open>payload.get(key, default)\<close>: a key that is present keeps even a null.\<close>

definition jget_default :: "(string \<times> json) list \<Rightarrow> string \<Rightarrow> json \<Rightarrow> json" where
  "jget_default kvs k d = (case map_of kvs k of None \<Rightarrow> d | Some v \<Rightarrow> v)"

text \<open>\<open>payload in (None, {}, False)\<close>, where 0 and 0.0 equal False.\<close>

definition no_schedule :: "json \<Rightarrow> bool" where
  "no_schedule payload = (payload \<in> set [JNull, JObj [], JBool False, JInt 0, JFloat ''0.0'', JFloat ''-0.0''])"

definition parse_schedule :: "(string \<Rightarrow> bool) \<Rightarrow> json \<Rightarrow> bool \<Rightarrow> error + schedule option" where
  "parse_schedule known_zone payload strict =
     (if no_schedule payload then Inr None
      else case payload of
        JObj kvs \<Rightarrow>
          if jget_default kvs ''enabled'' (JBool True) = JBool False then Inr None
          else (case jget_default kvs ''timezone'' (JStr ''Europe/Paris'') of
            JStr tz \<Rightarrow>
              if strip tz = [] then Inl (ValueError ''monitoring_schedule.timezone must not be empty.'')
              else if \<not> known_zone (strip tz)
                then Inl (ValueError (''Unknown monitoring schedule timezone: '' @ tz))
              else (case jget_default kvs ''startup_grace_seconds'' (JInt 0) of
                JInt grace \<Rightarrow>
                  if grace < 0 \<or> grace > 86400
                  then Inl (ValueError ''monitoring_schedule.startup_grace_seconds must be between 0 and 86400.'')
                  else (case jget payload ''periods'' of
                    JArr (p # ps) \<Rightarrow>
                      (case parse_periods (p # ps) of
                         Inl err \<Rightarrow> Inl err
                       | Inr qs \<Rightarrow> Inr (Some \<lparr>sd_timezone = strip tz, sd_periods = qs,
                                             sd_startup_grace_seconds = grace\<rparr>))
                  | _ \<Rightarrow> Inl (ValueError ''monitoring_schedule.periods must contain at least one period.''))
              | _ \<Rightarrow> Inl (ValueError ''monitoring_schedule.startup_grace_seconds must be an integer.''))
          | _ \<Rightarrow> Inl (ValueError ''monitoring_schedule.timezone must not be empty.''))
      | _ \<Rightarrow> if strict then Inl (ValueError ''monitoring_schedule must be a mapping.'') else Inr None)"

definition validate_payload :: "(string \<Rightarrow> bool) \<Rightarrow> json \<Rightarrow> error + unit" where
  "validate_payload known_zone payload =
     (if payload = JNull then Inr ()
      else case parse_schedule known_zone payload True of Inl err \<Rightarrow> Inl err | Inr _ \<Rightarrow> Inr ())"

section \<open>The registry\<close>

record device =
  dv_id :: "string option"
  dv_node :: "string option"
  dv_metadata :: json

type_synonym registry = "string \<rightharpoonup> schedule"

definition put_schedule :: "string option \<Rightarrow> schedule \<Rightarrow> registry \<Rightarrow> registry" where
  "put_schedule key s r =
     (case key of None \<Rightarrow> r | Some k \<Rightarrow> if strip k = [] then r else r(strip k \<mapsto> s))"

fun load_devices :: "(string \<Rightarrow> bool) \<Rightarrow> device list \<Rightarrow> registry \<Rightarrow> error + registry" where
  "load_devices known_zone [] r = Inr r"
| "load_devices known_zone (d # ds) r =
     (case dv_metadata d of
        JObj kvs \<Rightarrow>
          (case parse_schedule known_zone (jget (dv_metadata d) ''monitoring_schedule'') False of
             Inl err \<Rightarrow> Inl err
           | Inr None \<Rightarrow> load_devices known_zone ds r
           | Inr (Some s) \<Rightarrow> load_devices known_zone ds (put_schedule (dv_node d) s (put_schedule (dv_id d) s r)))
      | _ \<Rightarrow> load_devices known_zone ds r)"

text \<open>An error leaves the schedules in place: they are replaced only at the end.\<close>

definition replace_from_infrastructure ::
  "(string \<Rightarrow> bool) \<Rightarrow> device list option \<Rightarrow> registry \<Rightarrow> (error + unit) \<times> registry" where
  "replace_from_infrastructure known_zone topology r =
     (case load_devices known_zone (case topology of None \<Rightarrow> [] | Some ds \<Rightarrow> ds) Map.empty of
        Inl err \<Rightarrow> (Inl err, r)
      | Inr r' \<Rightarrow> (Inr (), r'))"

section \<open>The decision\<close>

definition period_bounds :: "period \<Rightarrow> wall \<Rightarrow> int \<Rightarrow> (wall \<times> wall) option" where
  "period_bounds p local_now day_offset =
     (let date = day_number local_now + day_offset
      in if weekday_of_day date \<notin> set (pp_days p) then None
         else
           let start = date * US_DAY + pp_start p * US_MINUTE;
               stop = date * US_DAY + pp_end p * US_MINUTE
           in Some (start, if pp_end p \<le> pp_start p then stop + US_DAY else stop))"

text \<open>The nested loops over day offsets and periods, as one pass over their pairs.\<close>

definition start_if_covered :: "wall \<Rightarrow> int \<times> period \<Rightarrow> wall option" where
  "start_if_covered local_now = (\<lambda>(day_offset, p).
     case period_bounds p local_now day_offset of
       None \<Rightarrow> None
     | Some (start, stop) \<Rightarrow> if start \<le> local_now \<and> local_now < stop then Some start else None)"

definition active_period_start :: "schedule \<Rightarrow> wall \<Rightarrow> wall option" where
  "active_period_start s local_now =
     (case List.map_filter (start_if_covered local_now) (List.product [-1, 0] (sd_periods s)) of
       [] \<Rightarrow> None | start # _ \<Rightarrow> Some start)"

definition candidate :: "schedule \<Rightarrow> wall \<Rightarrow> int \<times> period \<Rightarrow> wall option" where
  "candidate s local_now = (\<lambda>(day_offset, p).
     case period_bounds p local_now day_offset of
       None \<Rightarrow> None
     | Some (start, stop) \<Rightarrow>
         let activation = start + sd_startup_grace_seconds s * 1000000
         in if activation > local_now then Some activation else None)"

definition activation_candidates :: "schedule \<Rightarrow> wall \<Rightarrow> wall list" where
  "activation_candidates s local_now =
     List.map_filter (candidate s local_now) (List.product [0, 1, 2, 3, 4, 5, 6, 7] (sd_periods s))"

definition next_activation :: "schedule \<Rightarrow> wall \<Rightarrow> wall option" where
  "next_activation s local_now =
     (case activation_candidates s local_now of [] \<Rightarrow> None | c # cs \<Rightarrow> Some (fold min cs c))"

definition active_decision :: decision where
  "active_decision = \<lparr>dc_active = True, dc_reason = None, dc_next_activation = None, dc_grace_until = None\<rparr>"

definition grace_reason :: string where
  "grace_reason = ''D'' @ [CHR 0xC3, CHR 0xA9] @ ''lai de d'' @ [CHR 0xC3, CHR 0xA9] @ ''marrage de la surveillance.''"

definition schedule_decision :: "schedule \<Rightarrow> wall \<Rightarrow> decision" where
  "schedule_decision s local_now =
     (case active_period_start s local_now of
        Some active_start \<Rightarrow>
          let grace_until = active_start + sd_startup_grace_seconds s * 1000000
          in if local_now < grace_until
             then \<lparr>dc_active = False, dc_reason = Some grace_reason,
                   dc_next_activation = Some grace_until, dc_grace_until = Some grace_until\<rparr>
             else active_decision
      | None \<Rightarrow>
          \<lparr>dc_active = False,
           dc_reason = Some ''Surveillance suspendue en dehors de la plage horaire.'',
           dc_next_activation = next_activation s local_now, dc_grace_until = None\<rparr>)"

definition monitoring_decision :: "clock_env \<Rightarrow> registry \<Rightarrow> string option \<Rightarrow> instant \<Rightarrow> decision" where
  "monitoring_decision ce r node_id now =
     (case node_id of
        None \<Rightarrow> active_decision
      | Some n \<Rightarrow>
          if strip n = [] then active_decision
          else (case r (strip n) of
            None \<Rightarrow> active_decision
          | Some s \<Rightarrow> schedule_decision s (now + zone_offset ce (sd_timezone s) now)))"

end
