(* ===== verification/Scheduler.thy ===== *)
theory Scheduler
  imports Cron Monitoring
begin

text \<open>
  The scheduler package: triggers (interval_trigger.py, oneshot_trigger.py, cron_trigger.py over
  base_trigger.py), tasks (task.py), the registry (task_registry.py), the runtime and its
  statistics, the tick of scheduler.py, and the executors (task_executor.py,
  dispatcher_task_executor.py). The clock readings are arguments.
\<close>

section \<open>Triggers\<close>

datatype trigger_kind =
    IntervalTrigger int "instant option" "instant option"
  | OneShotTrigger instant bool
  | CronTrigger cron_fields "string option"

record trigger =
  tg_kind :: trigger_kind
  tg_fire_count :: int
  tg_last_executed_at :: "instant option"

definition new_trigger :: "trigger_kind \<Rightarrow> trigger" where
  "new_trigger k = \<lparr>tg_kind = k, tg_fire_count = 0, tg_last_executed_at = None\<rparr>"

definition interval_trigger :: "int \<Rightarrow> instant option \<Rightarrow> error + trigger" where
  "interval_trigger interval start_at =
     (if interval \<le> 0 then Inl (ValueError ''interval must be greater than zero'')
      else Inr (new_trigger (IntervalTrigger interval start_at None)))"

definition oneshot_trigger :: "instant \<Rightarrow> trigger" where
  "oneshot_trigger run_at = new_trigger (OneShotTrigger run_at False)"

definition cron_trigger :: "string \<Rightarrow> string option \<Rightarrow> error + trigger" where
  "cron_trigger expression timezone =
     (case parse_cron expression of
        Inl err \<Rightarrow> Inl err | Inr f \<Rightarrow> Inr (new_trigger (CronTrigger f timezone)))"

text \<open>
  A datetime that the code returns: an instant, or a wall-clock time of a zone (the result of
  wall-clock arithmetic, which names no single instant when the clock changes).
\<close>

datatype moment = At instant | LocalTime string wall

text \<open>
  \<open>next_run_at\<close>. The number of steps of an interval is computed exactly; the code divides floats
  of seconds, which agree for the whole-second intervals that the configuration accepts.
\<close>

definition interval_next_run_at :: "int \<Rightarrow> instant option \<Rightarrow> instant option \<Rightarrow> instant \<Rightarrow> moment option" where
  [simp]: "interval_next_run_at interval start_at last_run_at after =
     (case last_run_at of
        Some last_run \<Rightarrow> Some (At (last_run + interval))
      | None \<Rightarrow>
          (case start_at of
             Some start \<Rightarrow>
               if after \<le> start then Some (At start)
               else Some (At (start + interval * ((after - start) div interval + 1)))
           | None \<Rightarrow> Some (At (after + interval))))"

definition oneshot_next_run_at :: "instant \<Rightarrow> bool \<Rightarrow> instant \<Rightarrow> moment option" where
  [simp]: "oneshot_next_run_at run_at executed after =
     (if executed then None else if after \<le> run_at then Some (At run_at) else None)"

definition cron_next_run_at :: "clock_env \<Rightarrow> cron_fields \<Rightarrow> string option \<Rightarrow> instant \<Rightarrow> moment option" where
  [simp]: "cron_next_run_at ce f timezone after =
     (case timezone of
        None \<Rightarrow> map_option (\<lambda>w. At (w - local_offset ce after)) (cron_next f (after + local_offset ce after))
      | Some z \<Rightarrow> map_option (LocalTime z) (cron_next f (after + zone_offset ce z after)))"

fun kind_next_run_at :: "clock_env \<Rightarrow> trigger_kind \<Rightarrow> instant \<Rightarrow> moment option" where
  "kind_next_run_at ce (IntervalTrigger interval start_at last_run_at) after =
     interval_next_run_at interval start_at last_run_at after"
| "kind_next_run_at ce (OneShotTrigger run_at executed) after = oneshot_next_run_at run_at executed after"
| "kind_next_run_at ce (CronTrigger f timezone) after = cron_next_run_at ce f timezone after"

definition interval_is_due :: "int \<Rightarrow> instant option \<Rightarrow> instant option \<Rightarrow> instant \<Rightarrow> bool" where
  [simp]: "interval_is_due interval start_at last_run_at now =
     (case last_run_at of
        None \<Rightarrow> (case start_at of None \<Rightarrow> False | Some start \<Rightarrow> start \<le> now)
      | Some last_run \<Rightarrow> last_run + interval \<le> now)"

definition oneshot_is_due :: "instant \<Rightarrow> bool \<Rightarrow> instant \<Rightarrow> bool" where
  [simp]: "oneshot_is_due run_at executed now = (\<not> executed \<and> run_at \<le> now)"

definition cron_is_due :: "clock_env \<Rightarrow> cron_fields \<Rightarrow> string option \<Rightarrow> instant option \<Rightarrow> instant \<Rightarrow> bool" where
  [simp]: "cron_is_due ce f timezone last_execution now =
     (case timezone of
        None \<Rightarrow>
          let normalized = floor_minute (now + local_offset ce now)
          in cron_matches f normalized \<and>
             \<not> (case last_execution of None \<Rightarrow> False
                | Some t \<Rightarrow> floor_minute (t + local_offset ce t) - local_offset ce t =
                             normalized - local_offset ce now)
      | Some z \<Rightarrow>
          let normalized = floor_minute (now + zone_offset ce z now)
          in cron_matches f normalized \<and>
             \<not> (case last_execution of None \<Rightarrow> False
                | Some t \<Rightarrow> floor_minute (t + zone_offset ce z t) = normalized))"

fun kind_is_due :: "clock_env \<Rightarrow> trigger_kind \<Rightarrow> instant option \<Rightarrow> instant \<Rightarrow> bool" where
  "kind_is_due ce (IntervalTrigger interval start_at last_run_at) last_execution now =
     interval_is_due interval start_at last_run_at now"
| "kind_is_due ce (OneShotTrigger run_at executed) last_execution now = oneshot_is_due run_at executed now"
| "kind_is_due ce (CronTrigger f timezone) last_execution now = cron_is_due ce f timezone last_execution now"

fun kind_mark_executed :: "instant \<Rightarrow> trigger_kind \<Rightarrow> trigger_kind" where
  "kind_mark_executed t (IntervalTrigger interval start_at _) = IntervalTrigger interval start_at (Some t)"
| "kind_mark_executed t (OneShotTrigger run_at _) = OneShotTrigger run_at True"
| "kind_mark_executed t (CronTrigger f timezone) = CronTrigger f timezone"

definition next_run_at :: "clock_env \<Rightarrow> trigger \<Rightarrow> instant \<Rightarrow> moment option" where
  "next_run_at ce tg after = kind_next_run_at ce (tg_kind tg) after"

definition is_due :: "clock_env \<Rightarrow> trigger \<Rightarrow> instant \<Rightarrow> bool" where
  "is_due ce tg now = kind_is_due ce (tg_kind tg) (tg_last_executed_at tg) now"

definition mark_executed :: "instant \<Rightarrow> trigger \<Rightarrow> trigger" where
  "mark_executed t tg = tg\<lparr>tg_fire_count := tg_fire_count tg + 1, tg_last_executed_at := Some t,
     tg_kind := kind_mark_executed t (tg_kind tg)\<rparr>"

section \<open>Tasks\<close>

datatype task_state = TIdle | TRunning | TWaiting | TDisabled

record task =
  tk_command :: string
  tk_trigger :: trigger
  tk_name :: string
  tk_arguments :: json
  tk_metadata :: json
  tk_priority :: int
  tk_enabled :: bool
  tk_id :: string
  tk_state :: task_state
  tk_last_started_at :: "instant option"
  tk_last_finished_at :: "instant option"
  tk_last_failed_at :: "instant option"
  tk_last_error :: "string option"
  tk_run_requests :: "instant list"

definition new_task ::
  "string \<Rightarrow> trigger \<Rightarrow> string option \<Rightarrow> json \<Rightarrow> json \<Rightarrow> int \<Rightarrow> bool \<Rightarrow> string \<Rightarrow> error + task" where
  "new_task command trig name arguments metadata priority enabled ident =
     (if strip command = [] then Inl (ValueError ''task command must not be empty'')
      else if priority < 0 then Inl (ValueError ''task priority must be greater than or equal to zero'')
      else Inr \<lparr>tk_command = command, tk_trigger = trig,
        tk_name = (case name of None \<Rightarrow> command | Some n \<Rightarrow> n), tk_arguments = arguments,
        tk_metadata = metadata, tk_priority = priority, tk_enabled = enabled, tk_id = ident,
        tk_state = (if enabled then TIdle else TDisabled), tk_last_started_at = None,
        tk_last_finished_at = None, tk_last_failed_at = None, tk_last_error = None,
        tk_run_requests = []\<rparr>)"

definition task_is_due :: "clock_env \<Rightarrow> task \<Rightarrow> instant \<Rightarrow> bool" where
  "task_is_due ce t now = (tk_enabled t \<and> (is_due ce (tk_trigger t) now \<or> (\<exists>r \<in> set (tk_run_requests t). r \<le> now)))"

definition request_run :: "instant \<Rightarrow> task \<Rightarrow> task" where
  "request_run at t = t\<lparr>tk_run_requests := sort (tk_run_requests t @ [at])\<rparr>"

definition consume_run_requests :: "instant \<Rightarrow> task \<Rightarrow> task" where
  "consume_run_requests at t = t\<lparr>tk_run_requests := filter (\<lambda>r. r > at) (tk_run_requests t)\<rparr>"

definition task_next_run_at :: "clock_env \<Rightarrow> task \<Rightarrow> instant \<Rightarrow> moment option" where
  "task_next_run_at ce t after = (if \<not> tk_enabled t then None else next_run_at ce (tk_trigger t) after)"

definition mark_started :: "instant \<Rightarrow> task \<Rightarrow> task" where
  "mark_started at t = t\<lparr>tk_state := TRunning, tk_last_started_at := Some at, tk_last_error := None\<rparr>"

definition mark_finished :: "instant \<Rightarrow> task \<Rightarrow> task" where
  "mark_finished at t = consume_run_requests at (t\<lparr>tk_state := TWaiting, tk_last_finished_at := Some at,
     tk_trigger := mark_executed at (tk_trigger t)\<rparr>)"

definition mark_failed :: "instant \<Rightarrow> string \<Rightarrow> task \<Rightarrow> task" where
  "mark_failed at err t = consume_run_requests at (t\<lparr>tk_state := TWaiting, tk_last_failed_at := Some at,
     tk_last_error := Some err, tk_trigger := mark_executed at (tk_trigger t)\<rparr>)"

definition disable :: "task \<Rightarrow> task" where
  "disable t = t\<lparr>tk_enabled := False, tk_state := TDisabled\<rparr>"

definition enable :: "task \<Rightarrow> task" where
  "enable t = t\<lparr>tk_enabled := True, tk_state := TIdle\<rparr>"

section \<open>The registry\<close>

text \<open>The dict of tasks, in insertion order.\<close>

type_synonym tasks = "task list"

definition registry_add :: "task \<Rightarrow> tasks \<Rightarrow> error + tasks" where
  "registry_add t ts = (if tbl_find tk_id (tk_id t) ts \<noteq> None
     then Inl (ValueError (''task already exists: '' @ tk_id t)) else Inr (ts @ [t]))"

definition registry_remove :: "string \<Rightarrow> tasks \<Rightarrow> error + task \<times> tasks" where
  "registry_remove k ts = (case tbl_find tk_id k ts of
     None \<Rightarrow> Inl (LookupError (''task not found: '' @ k))
   | Some t \<Rightarrow> Inr (t, filter (\<lambda>x. tk_id x \<noteq> k) ts))"

definition registry_get :: "string \<Rightarrow> tasks \<Rightarrow> error + task" where
  "registry_get k ts = (case tbl_find tk_id k ts of
     None \<Rightarrow> Inl (LookupError (''task not found: '' @ k)) | Some t \<Rightarrow> Inr t)"

definition registry_exists :: "string \<Rightarrow> tasks \<Rightarrow> bool" where
  "registry_exists k ts = (tbl_find tk_id k ts \<noteq> None)"

definition task_order :: "task \<Rightarrow> int \<times> string" where
  "task_order t = (tk_priority t, tk_name t)"

definition registry_list :: "tasks \<Rightarrow> task list" where
  "registry_list ts = sort_key task_order ts"

definition due_tasks :: "clock_env \<Rightarrow> tasks \<Rightarrow> instant \<Rightarrow> task list" where
  "due_tasks ce ts now = sort_key task_order (filter (\<lambda>t. task_is_due ce t now) ts)"

end
