(* ===== verification/Monitoring_Properties.thy ===== *)
theory Monitoring_Properties
  imports Monitoring
begin

text \<open>
  The properties of monitoring schedules: what a parsed schedule guarantees, and that the next
  activation it announces exists and is never late.
\<close>

section \<open>Parsed schedules\<close>

definition period_ok :: "period \<Rightarrow> bool" where
  "period_ok p = (pp_days p \<noteq> [] \<and> (\<forall>d \<in> set (pp_days p). 0 \<le> d \<and> d \<le> 6) \<and>
     0 \<le> pp_start p \<and> pp_start p < 1440 \<and> 0 \<le> pp_end p \<and> pp_end p < 1440)"

definition schedule_ok :: "schedule \<Rightarrow> bool" where
  "schedule_ok s = (sd_periods s \<noteq> [] \<and> (\<forall>p \<in> set (sd_periods s). period_ok p) \<and>
     0 \<le> sd_startup_grace_seconds s \<and> sd_startup_grace_seconds s \<le> 86400)"

lemma digit_value: "digit c \<Longrightarrow> 0 \<le> (of_char c :: int) - 48"
  by (auto simp: digit_def)

lemma digits_value_nonneg:
  assumes "list_all digit s"
  shows "0 \<le> digits_value s"
proof -
  have "0 \<le> a \<Longrightarrow> list_all digit s \<Longrightarrow> 0 \<le> foldl (\<lambda>a c. 10 * a + (of_char c - 48)) a s" for a :: int
  proof (induction s arbitrary: a)
    case (Cons c s)
    then show ?case using digit_value[of c] by simp
  qed simp
  then show ?thesis using assms by (simp add: digits_value_def)
qed

lemma hour_minute_range: "hour_minute h m = Some v \<Longrightarrow> 0 \<le> v \<and> v < 1440"
  by (auto simp: hour_minute_def two_digits_def split: option.splits if_splits dest!: digits_value_nonneg)

lemma iso_time_range: "iso_time s = Some v \<Longrightarrow> 0 \<le> v \<and> v < 1440"
  by (auto simp: iso_time_def Let_def split: list.splits if_splits dest: hour_minute_range)

lemma parse_time_range: "parse_time j f = Inr v \<Longrightarrow> 0 \<le> v \<and> v < 1440"
  by (auto simp: parse_time_def split: json.splits option.splits dest: iso_time_range)

lemma parse_days_range: "parse_days ds = Inr vs \<Longrightarrow> length vs = length ds \<and> (\<forall>v \<in> set vs. 0 \<le> v \<and> v \<le> 6)"
proof (induction ds arbitrary: vs rule: parse_days.induct)
  case (2 raw ds)
  have "map_of DAY_NAMES k = Some d \<Longrightarrow> 0 \<le> d \<and> d \<le> 6" for k d
    by (auto simp: DAY_NAMES_def split: if_splits)
  with 2 show ?case by (auto split: option.splits sum.splits)
qed auto

lemma parse_period_ok: "parse_period j = Inr p \<Longrightarrow> period_ok p"
  by (auto simp: parse_period_def period_ok_def split: json.splits list.splits sum.splits
      dest!: parse_days_range parse_time_range)

lemma parse_periods_ok: "parse_periods js = Inr ps \<Longrightarrow> length ps = length js \<and> (\<forall>p \<in> set ps. period_ok p)"
  by (induction js arbitrary: ps) (auto split: sum.splits dest: parse_period_ok)

lemma parse_schedule_ok: "parse_schedule kz j strict = Inr (Some s) \<Longrightarrow> schedule_ok s"
  by (auto simp: parse_schedule_def schedule_ok_def split: json.splits list.splits sum.splits if_splits
      dest!: parse_periods_ok dest: parse_period_ok)

section \<open>Covered times\<close>

definition period_start :: "period \<Rightarrow> int \<Rightarrow> wall" where
  "period_start p D = D * US_DAY + pp_start p * US_MINUTE"

definition period_stop :: "period \<Rightarrow> int \<Rightarrow> wall" where
  "period_stop p D = D * US_DAY + pp_end p * US_MINUTE + (if pp_end p \<le> pp_start p then US_DAY else 0)"

lemma period_bounds_eq:
  "period_bounds p n k = (if weekday_of_day (day_number n + k) \<in> set (pp_days p)
     then Some (period_start p (day_number n + k), period_stop p (day_number n + k)) else None)"
  by (simp add: period_bounds_def Let_def period_start_def period_stop_def)

text \<open>The period \<open>p\<close> that starts on day \<open>D\<close> covers the time \<open>u\<close>.\<close>

definition covers :: "schedule \<Rightarrow> period \<Rightarrow> int \<Rightarrow> wall \<Rightarrow> bool" where
  "covers s p D u = (p \<in> set (sd_periods s) \<and> weekday_of_day D \<in> set (pp_days p) \<and>
     period_start p D \<le> u \<and> u < period_stop p D)"

lemma day_number_bounds: "day_number w * US_DAY \<le> w" "w < (day_number w + 1) * US_DAY"
  using pos_mod_bound[of US_DAY w] pos_mod_sign[of US_DAY w] div_mult_mod_eq[of w US_DAY]
  by (simp_all add: day_number_def US_DAY_def algebra_simps)

lemma covers_day:
  assumes "schedule_ok s" "covers s p D u"
  shows "D = day_number u - 1 \<or> D = day_number u"
proof -
  have p: "period_ok p" using assms by (auto simp: schedule_ok_def covers_def)
  have "D * US_DAY \<le> u" "u < (D + 2) * US_DAY"
    using assms(2) p
    by (auto simp: covers_def period_ok_def period_start_def period_stop_def US_DAY_def US_MINUTE_def split: if_splits)
  with day_number_bounds[of u] have "D * US_DAY < (day_number u + 1) * US_DAY" "day_number u * US_DAY < (D + 2) * US_DAY"
    by linarith+
  then show ?thesis by (auto simp: US_DAY_def)
qed

lemma set_map_filter: "set (List.map_filter f xs) = {y. \<exists>x \<in> set xs. f x = Some y}"
  by (force simp: List.map_filter_def)

lemma start_if_covered_iff:
  "start_if_covered u (k, p) = Some st \<longleftrightarrow> weekday_of_day (day_number u + k) \<in> set (pp_days p) \<and>
     st = period_start p (day_number u + k) \<and> st \<le> u \<and> u < period_stop p (day_number u + k)"
  by (auto simp: start_if_covered_def period_bounds_eq)

lemma candidate_iff:
  "candidate s n (k, p) = Some t \<longleftrightarrow> weekday_of_day (day_number n + k) \<in> set (pp_days p) \<and>
     t = period_start p (day_number n + k) + sd_startup_grace_seconds s * 1000000 \<and> n < t"
  by (auto simp: candidate_def period_bounds_eq Let_def)

lemma active_period_start_Some:
  assumes "active_period_start s u = Some st"
  shows "\<exists>p D. covers s p D u \<and> st = period_start p D"
proof -
  have "st \<in> set (List.map_filter (start_if_covered u) (List.product [-1, 0] (sd_periods s)))"
    using assms by (auto simp: active_period_start_def split: list.splits)
  then obtain k p where "p \<in> set (sd_periods s)" "start_if_covered u (k, p) = Some st"
    unfolding set_map_filter by auto
  then show ?thesis by (auto simp: start_if_covered_iff covers_def)
qed

lemma active_period_start_None:
  assumes "active_period_start s u = None" "schedule_ok s"
  shows "\<not> covers s p D u"
proof
  assume c: "covers s p D u"
  from covers_day[OF assms(2) c] obtain k where k: "k \<in> set [-1, 0]" "D = day_number u + k" by auto
  then have "start_if_covered u (k, p) = Some (period_start p D)" "(k, p) \<in> set (List.product [-1, 0] (sd_periods s))"
    using c by (auto simp: covers_def start_if_covered_iff)
  then have "period_start p D \<in> set (List.map_filter (start_if_covered u) (List.product [-1, 0] (sd_periods s)))"
    unfolding set_map_filter by blast
  with assms(1) show False by (auto simp: active_period_start_def split: list.splits)
qed

lemma candidates_iff:
  "t \<in> set (activation_candidates s n) \<longleftrightarrow>
     (\<exists>p \<in> set (sd_periods s). \<exists>k. 0 \<le> k \<and> k \<le> 7 \<and> candidate s n (k, p) = Some t)"
proof -
  have offsets: "k \<in> set [0, 1, 2, 3, 4, 5, 6, 7] \<longleftrightarrow> 0 \<le> k \<and> k \<le> 7" for k :: int by auto
  show ?thesis
    unfolding activation_candidates_def set_map_filter set_product Bex_def mem_Collect_eq
    by (simp only: mem_Times_iff offsets split_paired_Ex fst_conv snd_conv) blast
qed

lemma fold_min_Min: "fold min cs c = Min (set (c # cs))" for c :: int
  by (metis Min.set_eq_fold)

lemma next_activation_Min:
  "next_activation s n = (if activation_candidates s n = [] then None else Some (Min (set (activation_candidates s n))))"
  by (cases "activation_candidates s n") (simp_all add: next_activation_def fold_min_Min del: Min_insert)

text \<open>The day after \<open>d\<close>, up to a week later, with the weekday of \<open>D\<close>.\<close>

definition same_weekday_after :: "int \<Rightarrow> int \<Rightarrow> int" where
  "same_weekday_after d D = d + 1 + (D - d - 1) mod 7"

lemma same_weekday_after:
  "weekday_of_day (same_weekday_after d D) = weekday_of_day D"
  "d + 1 \<le> same_weekday_after d D" "same_weekday_after d D \<le> d + 7"
  "d < D \<Longrightarrow> same_weekday_after d D \<le> D"
proof -
  let ?r = "(D - d - 1) mod 7"
  have r: "0 \<le> ?r" "?r < 7" by simp_all
  show "d + 1 \<le> same_weekday_after d D" "same_weekday_after d D \<le> d + 7"
    using r by (auto simp: same_weekday_after_def)
  have "D = same_weekday_after d D + 7 * ((D - d - 1) div 7)"
    using div_mult_mod_eq[of "D - d - 1" 7] by (simp add: same_weekday_after_def)
  then show "weekday_of_day (same_weekday_after d D) = weekday_of_day D"
    using weekday_of_day_week[of "same_weekday_after d D" "(D - d - 1) div 7"] by simp
  show "same_weekday_after d D \<le> D" if "d < D"
  proof -
    have "0 \<le> (D - d - 1) div 7" using that by simp
    then show ?thesis using \<open>D = _\<close> by linarith
  qed
qed

lemma candidate_in_week:
  assumes "schedule_ok s" "p \<in> set (sd_periods s)" "weekday_of_day D \<in> set (pp_days p)"
  shows "period_start p (same_weekday_after (day_number n) D) + sd_startup_grace_seconds s * 1000000
    \<in> set (activation_candidates s n)"
proof -
  let ?D = "same_weekday_after (day_number n) D"
  have "n < period_start p ?D + sd_startup_grace_seconds s * 1000000"
    using day_number_bounds(2)[of n] same_weekday_after(2)[of "day_number n" D] assms(1,2)
    by (auto simp: schedule_ok_def period_ok_def period_start_def US_DAY_def US_MINUTE_def)
  then have "candidate s n (?D - day_number n, p) =
      Some (period_start p ?D + sd_startup_grace_seconds s * 1000000)"
    using assms(3) same_weekday_after(1)[of "day_number n" D] by (simp add: candidate_iff)
  then show ?thesis
    unfolding candidates_iff using assms(2) same_weekday_after(2,3)[of "day_number n" D]
    by (intro bexI[of _ p] exI[of _ "?D - day_number n"]) auto
qed

lemma candidate_before_activity:
  assumes "schedule_ok s" "active_period_start s n = None" "n < u" "dc_active (schedule_decision s u)"
  shows "\<exists>t \<in> set (activation_candidates s n). t \<le> u"
proof -
  let ?g = "sd_startup_grace_seconds s * 1000000"
  obtain st where st: "active_period_start s u = Some st" "st + ?g \<le> u"
    using assms(4) by (auto simp: schedule_decision_def Let_def split: option.splits if_splits)
  then obtain p D where c: "covers s p D u" "st = period_start p D"
    using active_period_start_Some by blast
  have p: "p \<in> set (sd_periods s)" "weekday_of_day D \<in> set (pp_days p)" "period_ok p"
    using c(1) assms(1) by (auto simp: covers_def schedule_ok_def)
  have "n < st"
  proof (rule ccontr)
    assume "\<not> n < st"
    with c assms(3) have "covers s p D n" by (auto simp: covers_def)
    with active_period_start_None[OF assms(2,1)] show False by blast
  qed
  have "day_number n \<le> D"
    using \<open>n < st\<close> c(2) p(3) day_number_bounds(1)[of n]
    by (auto simp: period_start_def period_ok_def US_DAY_def US_MINUTE_def)
  show ?thesis
  proof (cases "D = day_number n")
    case True
    then have "candidate s n (0, p) = Some (st + ?g)"
      using p c(2) \<open>n < st\<close> assms(1) by (auto simp: candidate_iff schedule_ok_def)
    then have "st + ?g \<in> set (activation_candidates s n)"
      unfolding candidates_iff using p(1) by (intro bexI[of _ p] exI[of _ 0]) auto
    then show ?thesis using st(2) by blast
  next
    case False
    with \<open>day_number n \<le> D\<close> have "same_weekday_after (day_number n) D \<le> D"
      by (intro same_weekday_after(4)) simp
    then have "period_start p (same_weekday_after (day_number n) D) + ?g \<le> u"
      using st(2) c(2) by (simp add: period_start_def US_DAY_def)
    then show ?thesis using candidate_in_week[OF assms(1) p(1,2), of n] by blast
  qed
qed

text \<open>
  C36. Outside its periods, a schedule read from a device always announces a next activation; it
  lies in the future, and monitoring is not active at any time before it: the announcement is
  never late, whatever periods, days over midnight and grace delay the schedule has.
\<close>

theorem next_activation_is_never_late:
  assumes "parse_schedule known payload strict = Inr (Some s)" and "active_period_start s n = None"
  shows "\<exists>t. dc_next_activation (schedule_decision s n) = Some t \<and> n < t \<and>
    (\<forall>u. n \<le> u \<and> u < t \<longrightarrow> \<not> dc_active (schedule_decision s u))"
proof -
  have ok: "schedule_ok s" by (rule parse_schedule_ok[OF assms(1)])
  then obtain p d where p: "p \<in> set (sd_periods s)" "d \<in> set (pp_days p)" "0 \<le> d" "d \<le> 6"
    unfolding schedule_ok_def period_ok_def
    by (metis list.set_sel(1))
  have "weekday_of_day (d - 3) = d" using p(3,4) by (simp add: weekday_of_day_def)
  then have ne: "activation_candidates s n \<noteq> []"
    using candidate_in_week[OF ok p(1), of "d - 3" n] p(2) by auto
  let ?t = "Min (set (activation_candidates s n))"
  have t: "dc_next_activation (schedule_decision s n) = Some ?t"
    using assms(2) ne by (simp add: schedule_decision_def next_activation_Min)
  have "?t \<in> set (activation_candidates s n)" using ne by (intro Min_in) auto
  then have "n < ?t" unfolding candidates_iff by (auto simp: candidate_iff)
  moreover have "\<not> dc_active (schedule_decision s u)" if "n \<le> u" "u < ?t" for u
  proof
    assume a: "dc_active (schedule_decision s u)"
    then have "n \<noteq> u" using assms(2) by (auto simp: schedule_decision_def)
    then have "n < u" using that(1) by simp
    then obtain t' where "t' \<in> set (activation_candidates s n)" "t' \<le> u"
      using candidate_before_activity[OF ok assms(2) _ a] by blast
    then have "?t \<le> u" using Min_le[OF List.finite_set, of t' "activation_candidates s n"] by linarith
    then show False using that(2) by simp
  qed
  ultimately show ?thesis using t by blast
qed

definition demo_schedule :: json where
  "demo_schedule = JObj [(''periods'', JArr [JObj [(''days'', JArr [JStr ''monday'', JStr ''Friday'']),
     (''end'', JStr ''06:30''), (''start'', JStr ''22:00'')]]), (''startup_grace_seconds'', JInt 600)]"

theorem next_activation_is_never_late_witness:
  "\<exists>s t. parse_schedule (\<lambda>_. True) demo_schedule False = Inr (Some s) \<and>
     dc_next_activation (schedule_decision s 0) = Some t \<and> 0 < t"
proof -
  let ?s = "the (projr (parse_schedule (\<lambda>_. True) demo_schedule False))"
  have "parse_schedule (\<lambda>_. True) demo_schedule False = Inr (Some ?s)" "active_period_start ?s 0 = None" by code_simp+
  from next_activation_is_never_late[OF this] this(1) show ?thesis by blast
qed

end
