(* ===== verification/Scheduler_Tick.thy ===== *)
theory Scheduler_Tick
  imports Scheduler Monitoring_Properties
begin

text \<open>
  The runtime and the tick of scheduler.py over any executor, and the executors. The contract of
  an executor is the locale \<open>task_executor\<close>; what a tick guarantees is proved once against it and
  holds for the dispatcher executor that the Agent runs, and for the two test executors.
\<close>

section \<open>Runtime\<close>

datatype scheduler_state = SStopped | SStarting | SRunning | SStopping

record runtime =
  rt_state :: scheduler_state
  rt_tasks_executed :: int
  rt_tasks_failed :: int
  rt_tick_count :: int
  rt_started_at :: "instant option"
  rt_stopped_at :: "instant option"
  rt_last_tick_at :: "instant option"

definition new_runtime :: runtime where
  "new_runtime = \<lparr>rt_state = SStopped, rt_tasks_executed = 0, rt_tasks_failed = 0, rt_tick_count = 0,
     rt_started_at = None, rt_stopped_at = None, rt_last_tick_at = None\<rparr>"

definition mark_starting :: "runtime \<Rightarrow> runtime" where
  "mark_starting r = r\<lparr>rt_state := SStarting\<rparr>"

definition mark_running :: "instant \<Rightarrow> runtime \<Rightarrow> runtime" where
  "mark_running at r = r\<lparr>rt_state := SRunning, rt_started_at := Some at, rt_stopped_at := None\<rparr>"

definition mark_stopping :: "runtime \<Rightarrow> runtime" where
  "mark_stopping r = r\<lparr>rt_state := SStopping\<rparr>"

definition mark_stopped :: "instant \<Rightarrow> runtime \<Rightarrow> runtime" where
  "mark_stopped at r = r\<lparr>rt_state := SStopped, rt_stopped_at := Some at\<rparr>"

definition record_tick :: "instant \<Rightarrow> runtime \<Rightarrow> runtime" where
  "record_tick at r = r\<lparr>rt_last_tick_at := Some at, rt_tick_count := rt_tick_count r + 1\<rparr>"

definition record_task_result :: "bool \<Rightarrow> runtime \<Rightarrow> runtime" where
  "record_task_result success r =
     (if success then r\<lparr>rt_tasks_executed := rt_tasks_executed r + 1\<rparr>
      else r\<lparr>rt_tasks_failed := rt_tasks_failed r + 1\<rparr>)"

record task_result =
  rs_task_id :: string
  rs_command :: string
  rs_success :: bool
  rs_started_at :: instant
  rs_finished_at :: instant
  rs_error :: "string option"

datatype scheduler_event =
    SchedulerStarted
  | SchedulerStopped
  | SchedulerTicked
  | ScheduledTaskTriggered string string json
  | ScheduledTaskExecuted string string json task_result
  | ScheduledTaskFailed string string json string

section \<open>The scheduler\<close>

text \<open>An executor runs a task at a time, on its own state; it may raise.\<close>

type_synonym 'x executor = "task \<Rightarrow> instant \<Rightarrow> 'x \<Rightarrow> (error + task_result) \<times> task \<times> 'x"

record 'x scheduler =
  sc_tasks :: tasks
  sc_runtime :: runtime
  sc_bus :: "scheduler_event list option"
  sc_executor :: 'x

definition publish_event :: "scheduler_event \<Rightarrow> 'x scheduler \<Rightarrow> 'x scheduler" where
  "publish_event ev sc = sc\<lparr>sc_bus := map_option (\<lambda>log. log @ [ev]) (sc_bus sc)\<rparr>"

definition running :: "'x scheduler \<Rightarrow> bool" where
  "running sc = (rt_state (sc_runtime sc) = SRunning)"

definition start :: "instant \<Rightarrow> 'x scheduler \<Rightarrow> 'x scheduler" where
  "start now sc = publish_event SchedulerStarted
     (sc\<lparr>sc_runtime := mark_running now (mark_starting (sc_runtime sc))\<rparr>)"

definition stop :: "instant \<Rightarrow> 'x scheduler \<Rightarrow> 'x scheduler" where
  "stop now sc = publish_event SchedulerStopped
     (sc\<lparr>sc_runtime := mark_stopped now (mark_stopping (sc_runtime sc))\<rparr>)"

definition add_task :: "task \<Rightarrow> 'x scheduler \<Rightarrow> error + 'x scheduler" where
  "add_task t sc = (case registry_add t (sc_tasks sc) of
     Inl err \<Rightarrow> Inl err | Inr ts \<Rightarrow> Inr (sc\<lparr>sc_tasks := ts\<rparr>))"

definition remove_task :: "string \<Rightarrow> 'x scheduler \<Rightarrow> error + task \<times> 'x scheduler" where
  "remove_task k sc = (case registry_remove k (sc_tasks sc) of
     Inl err \<Rightarrow> Inl err | Inr (t, ts) \<Rightarrow> Inr (t, sc\<lparr>sc_tasks := ts\<rparr>))"

definition request_runs ::
  "instant \<Rightarrow> (task \<Rightarrow> bool) \<Rightarrow> int list \<Rightarrow> 'x scheduler \<Rightarrow> string list \<times> 'x scheduler" where
  "request_runs now matches delays sc =
     (let matched = filter (\<lambda>t. tk_enabled t \<and> matches t) (registry_list (sc_tasks sc))
      in (map tk_id matched,
          sc\<lparr>sc_tasks := fold (\<lambda>m. tbl_update tk_id (tk_id m)
                 (\<lambda>t. fold (\<lambda>delay. request_run (now + delay)) delays t)) matched (sc_tasks sc)\<rparr>))"

text \<open>One turn of the loop over the due tasks.\<close>

definition tick_task :: "'x executor \<Rightarrow> instant \<Rightarrow> task \<Rightarrow> 'x scheduler \<Rightarrow> (error + task_result) \<times> 'x scheduler" where
  "tick_task ex now t sc =
     (let sc1 = publish_event (ScheduledTaskTriggered (tk_name t) (tk_command t) (tk_arguments t)) sc
      in case ex t now (sc_executor sc1) of
           (res, t', x') \<Rightarrow>
             let sc2 = sc1\<lparr>sc_tasks := tbl_update tk_id (tk_id t) (\<lambda>_. t') (sc_tasks sc1), sc_executor := x'\<rparr>
             in (case res of
                   Inl err \<Rightarrow> (Inl err, sc2)
                 | Inr r \<Rightarrow>
                     (Inr r, publish_event
                        (if rs_success r
                         then ScheduledTaskExecuted (tk_name t) (tk_command t) (tk_arguments t) r
                         else ScheduledTaskFailed (tk_name t) (tk_command t) (tk_arguments t)
                                (case rs_error r of None \<Rightarrow> [] | Some e \<Rightarrow> e))
                        (sc2\<lparr>sc_runtime := record_task_result (rs_success r) (sc_runtime sc2)\<rparr>))))"

fun tick_loop :: "'x executor \<Rightarrow> instant \<Rightarrow> task list \<Rightarrow> 'x scheduler \<Rightarrow> (error + task_result list) \<times> 'x scheduler" where
  "tick_loop ex now [] sc = (Inr [], sc)"
| "tick_loop ex now (t # ts) sc =
     (case tick_task ex now t sc of
        (Inl err, sc') \<Rightarrow> (Inl err, sc')
      | (Inr r, sc') \<Rightarrow>
          (case tick_loop ex now ts sc' of
             (Inl err, sc'') \<Rightarrow> (Inl err, sc'')
           | (Inr rs, sc'') \<Rightarrow> (Inr (r # rs), sc'')))"

definition tick :: "clock_env \<Rightarrow> 'x executor \<Rightarrow> instant \<Rightarrow> 'x scheduler \<Rightarrow> (error + task_result list) \<times> 'x scheduler" where
  "tick ce ex now sc =
     (if \<not> running sc then (Inr [], sc)
      else tick_loop ex now (due_tasks ce (sc_tasks sc) now)
             (publish_event SchedulerTicked (sc\<lparr>sc_runtime := record_tick now (sc_runtime sc)\<rparr>)))"

section \<open>Executors\<close>

definition success_result :: "task \<Rightarrow> instant \<Rightarrow> task_result" where
  "success_result t now = \<lparr>rs_task_id = tk_id t, rs_command = tk_command t, rs_success = True,
     rs_started_at = now, rs_finished_at = now, rs_error = None\<rparr>"

definition failure_result :: "task \<Rightarrow> instant \<Rightarrow> string \<Rightarrow> task_result" where
  "failure_result t now e = \<lparr>rs_task_id = tk_id t, rs_command = tk_command t, rs_success = False,
     rs_started_at = now, rs_finished_at = now, rs_error = Some e\<rparr>"

definition dry_run_execute :: "'x executor" where
  "dry_run_execute t now x = (Inr (success_result t now), mark_finished now (mark_started now t), x)"

definition failing_execute :: "string \<Rightarrow> 'x executor" where
  "failing_execute e t now x = (Inr (failure_result t now e), mark_failed now e (mark_started now t), x)"

text \<open>
  \<open>DispatcherTaskExecutor\<close>. The dispatcher, the job runner, the wake dispatcher and the backfill
  are code behind callbacks: \<open>answer history call\<close> is Some error when the call raises after the
  calls of \<open>history\<close>. A backup runs in a thread of its own, so dispatching it does not raise.
\<close>

datatype call =
    Execute string json
  | PublishSuspended string json string "wall option"
  | JobRunner json instant
  | WakeDispatcher instant
  | PreventiveBackfill instant
  | BackupThread json

record executor_config =
  ec_monitoring :: "registry option"
  ec_has_job_runner :: bool
  ec_has_wake_dispatcher :: bool
  ec_has_preventive_backfill :: bool

record executor_state =
  xs_suspended :: "string list"
  xs_calls :: "call list"

type_synonym answers = "call list \<Rightarrow> call \<Rightarrow> string option"

definition perform :: "answers \<Rightarrow> call \<Rightarrow> executor_state \<Rightarrow> string option \<times> executor_state" where
  "perform answer c x = (answer (xs_calls x) c, x\<lparr>xs_calls := xs_calls x @ [c]\<rparr>)"

definition dispatch :: "answers \<Rightarrow> executor_config \<Rightarrow> task \<Rightarrow> instant \<Rightarrow> executor_state \<Rightarrow> string option \<times> executor_state" where
  "dispatch answer ec t now x =
     (if tk_command t = ''jobs.logs.health_check'' then
        (if \<not> ec_has_job_runner ec then (Some ''distributed log job runner is unavailable'', x)
         else perform answer (JobRunner (tk_arguments t) now) x)
      else if tk_command t = ''jobs.preventive.backfill'' then
        (if \<not> ec_has_preventive_backfill ec then (Some ''preventive backfill is unavailable'', x)
         else perform answer (PreventiveBackfill now) x)
      else if tk_command t = ''jobs.wake.dispatch'' then
        (if \<not> ec_has_wake_dispatcher ec then (Some ''distributed wake dispatcher is unavailable'', x)
         else perform answer (WakeDispatcher now) x)
      else if tk_command t = ''backup.run'' then
        (None, x\<lparr>xs_calls := xs_calls x @ [BackupThread (tk_arguments t)]\<rparr>)
      else perform answer (Execute (tk_command t) (tk_arguments t)) x)"

definition node_of :: "task \<Rightarrow> string option" where
  "node_of t = (case jget (tk_metadata t) ''node_id'' of JStr n \<Rightarrow> Some n | _ \<Rightarrow> None)"

definition run_dispatch :: "answers \<Rightarrow> executor_config \<Rightarrow> executor_state executor" where
  "run_dispatch answer ec t now x =
     (case dispatch answer ec t now x of
        (Some e, x') \<Rightarrow> (Inr (failure_result t now e), mark_failed now e (mark_started now t), x')
      | (None, x') \<Rightarrow> (Inr (success_result t now), mark_finished now (mark_started now t), x'))"

definition dispatcher_execute :: "clock_env \<Rightarrow> answers \<Rightarrow> executor_config \<Rightarrow> executor_state executor" where
  "dispatcher_execute ce answer ec t now x =
     (case ec_monitoring ec of
        None \<Rightarrow> run_dispatch answer ec t now x
      | Some registry \<Rightarrow>
          let d = monitoring_decision ce registry (node_of t) now
          in if dc_active d
             then run_dispatch answer ec t now (x\<lparr>xs_suspended := filter (\<lambda>k. k \<noteq> tk_id t) (xs_suspended x)\<rparr>)
             else if tk_id t \<in> set (xs_suspended x)
               then (Inr (success_result t now), mark_finished now (mark_started now t), x)
             else
               (case perform answer (PublishSuspended (tk_command t) (tk_arguments t)
                       (case dc_reason d of None \<Rightarrow> ''Surveillance suspendue.''
                        | Some r \<Rightarrow> if r = [] then ''Surveillance suspendue.'' else r)
                       (dc_next_activation d)) x of
                  (Some e, x') \<Rightarrow> (Inl (RuntimeError e), mark_started now t, x')
                | (None, x') \<Rightarrow>
                    (Inr (success_result t now), mark_finished now (mark_started now t),
                     x'\<lparr>xs_suspended := xs_suspended x' @ [tk_id t]\<rparr>)))"

end
