(* ===== verification/Scheduler_Properties.thy ===== *)
theory Scheduler_Properties
  imports Scheduler_Tick
begin

text \<open>
  The properties of the scheduler: what a tick runs and counts, for any executor that keeps its
  contract; when triggers fire; and how often a suspension is announced.
\<close>

section \<open>Triggers\<close>

fun kind_ok :: "trigger_kind \<Rightarrow> bool" where
  "kind_ok (IntervalTrigger interval _ _) = (0 < interval)"
| "kind_ok _ = True"

definition task_ok :: "task \<Rightarrow> bool" where
  "task_ok t = kind_ok (tg_kind (tk_trigger t))"

lemma interval_trigger_ok: "interval_trigger i s = Inr tg \<Longrightarrow> kind_ok (tg_kind tg)"
  by (auto simp: interval_trigger_def new_trigger_def split: if_splits)

lemma cron_trigger_ok: "cron_trigger ex z = Inr tg \<Longrightarrow> kind_ok (tg_kind tg)"
  by (auto simp: cron_trigger_def new_trigger_def split: sum.splits)

lemma kind_ok_mark [simp]: "kind_ok (kind_mark_executed t k) = kind_ok k"
  by (cases k) simp_all

lemma not_due_after_execution: "kind_ok (tg_kind tg) \<Longrightarrow> \<not> is_due ce (mark_executed now tg) now"
  by (cases "tg_kind tg") (auto simp: is_due_def mark_executed_def Let_def split: option.splits)

definition executed_at :: "instant \<Rightarrow> task \<Rightarrow> task \<Rightarrow> bool" where
  "executed_at now t t' = (t' = mark_finished now (mark_started now t) \<or>
     (\<exists>e. t' = mark_failed now e (mark_started now t)))"

lemma executed_task:
  assumes "executed_at now t t'" "task_ok t"
  shows "tk_id t' = tk_id t" "task_ok t'" "\<not> task_is_due ce t' now"
  using assms not_due_after_execution[of "tk_trigger t" ce now]
  by (auto simp: executed_at_def mark_finished_def mark_failed_def mark_started_def consume_run_requests_def
      task_ok_def task_is_due_def) (simp_all add: mark_executed_def)

section \<open>The contract of an executor\<close>

definition sched_ok :: "'x scheduler \<Rightarrow> bool" where
  "sched_ok sc = (distinct (map tk_id (sc_tasks sc)) \<and> (\<forall>t \<in> set (sc_tasks sc). task_ok t))"

locale task_executor =
  fixes ex :: "'x executor"
  assumes executes: "ex t now x = (Inr r, t', x') \<Longrightarrow> executed_at now t t' \<and> rs_task_id r = tk_id t"
begin

lemma tick_task_result:
  assumes "tick_task ex now t sc = (Inr r, sc')"
  shows "\<exists>t'. executed_at now t t' \<and> rs_task_id r = tk_id t \<and>
    sc_tasks sc' = tbl_update tk_id (tk_id t) (\<lambda>_. t') (sc_tasks sc) \<and>
    sc_runtime sc' = record_task_result (rs_success r) (sc_runtime sc)"
proof -
  obtain res t' x' where x: "ex t now (sc_executor sc) = (res, t', x')" by (cases "ex t now (sc_executor sc)")
  with assms obtain r' where "res = Inr r'"
    by (cases res) (auto simp: tick_task_def publish_event_def Let_def)
  with assms x have "executed_at now t t' \<and> rs_task_id r = tk_id t"
    using executes[of t now "sc_executor sc" r' t' x'] by (auto simp: tick_task_def publish_event_def Let_def)
  with assms x \<open>res = Inr r'\<close> show ?thesis
    by (auto simp: tick_task_def publish_event_def Let_def)
qed

text \<open>The loop over a snapshot of tasks of the registry.\<close>

lemma tick_loop_result:
  assumes "tick_loop ex now ts sc = (Inr rs, sc')" "distinct (map tk_id (sc_tasks sc))"
    "\<forall>t \<in> set (sc_tasks sc). task_ok t" "distinct (map tk_id ts)" "set ts \<subseteq> set (sc_tasks sc)"
  shows "map rs_task_id rs = map tk_id ts \<and> map tk_id (sc_tasks sc') = map tk_id (sc_tasks sc) \<and>
    (\<forall>t \<in> set (sc_tasks sc'). task_ok t \<and>
       (if tk_id t \<in> tk_id ` set ts then \<forall>ce. \<not> task_is_due ce t now else t \<in> set (sc_tasks sc))) \<and>
    rt_tasks_executed (sc_runtime sc') + rt_tasks_failed (sc_runtime sc') =
      rt_tasks_executed (sc_runtime sc) + rt_tasks_failed (sc_runtime sc) + int (length rs) \<and>
    rt_tasks_executed (sc_runtime sc') = rt_tasks_executed (sc_runtime sc) + int (length (filter rs_success rs)) \<and>
    rt_tick_count (sc_runtime sc') = rt_tick_count (sc_runtime sc)"
  using assms
proof (induction ts arbitrary: sc rs)
  case Nil
  then show ?case by auto
next
  case (Cons t ts)
  obtain r sc1 rs' where r: "tick_task ex now t sc = (Inr r, sc1)" "tick_loop ex now ts sc1 = (Inr rs', sc')" "rs = r # rs'"
    using Cons.prems(1) by (auto split: prod.splits sum.splits)
  obtain t' where t': "executed_at now t t'" "rs_task_id r = tk_id t"
    "sc_tasks sc1 = tbl_update tk_id (tk_id t) (\<lambda>_. t') (sc_tasks sc)"
    "sc_runtime sc1 = record_task_result (rs_success r) (sc_runtime sc)"
    using tick_task_result[OF r(1)] by blast
  have ok: "task_ok t" using Cons.prems(3,5) by auto
  note e = executed_task[OF t'(1) ok]
  have ids: "map tk_id (sc_tasks sc1) = map tk_id (sc_tasks sc)"
    by (simp add: t'(3) tbl_update_def e(1))
  have members: "u = t' \<or> u \<in> set (sc_tasks sc) \<and> tk_id u \<noteq> tk_id t" if "u \<in> set (sc_tasks sc1)" for u
    using that by (auto simp: t'(3) tbl_update_def split: if_splits)
  have keep: "u \<in> set (sc_tasks sc1)" if "u \<in> set (sc_tasks sc)" "tk_id u \<noteq> tk_id t" for u
    using that by (auto simp: t'(3) tbl_update_def intro!: image_eqI[of _ _ u])
  have "set ts \<subseteq> set (sc_tasks sc1)" 
  proof
    fix u assume u: "u \<in> set ts"
    then have "tk_id u \<noteq> tk_id t" using Cons.prems(4) by (metis distinct.simps(2) image_eqI list.simps(9) set_map)
    with u show "u \<in> set (sc_tasks sc1)" using Cons.prems(5) by (intro keep) auto
  qed
  moreover have "\<forall>u \<in> set (sc_tasks sc1). task_ok u" using members e(2) Cons.prems(3) by blast
  ultimately have IH: "map rs_task_id rs' = map tk_id ts \<and> map tk_id (sc_tasks sc') = map tk_id (sc_tasks sc1) \<and>
    (\<forall>u \<in> set (sc_tasks sc'). task_ok u \<and>
       (if tk_id u \<in> tk_id ` set ts then \<forall>ce. \<not> task_is_due ce u now else u \<in> set (sc_tasks sc1))) \<and>
    rt_tasks_executed (sc_runtime sc') + rt_tasks_failed (sc_runtime sc') =
      rt_tasks_executed (sc_runtime sc1) + rt_tasks_failed (sc_runtime sc1) + int (length rs') \<and>
    rt_tasks_executed (sc_runtime sc') = rt_tasks_executed (sc_runtime sc1) + int (length (filter rs_success rs')) \<and>
    rt_tick_count (sc_runtime sc') = rt_tick_count (sc_runtime sc1)"
    using Cons.IH[OF r(2)] Cons.prems(2,4) ids by simp
  have "if tk_id u \<in> tk_id ` set (t # ts) then \<forall>ce. \<not> task_is_due ce u now else u \<in> set (sc_tasks sc)"
    if "u \<in> set (sc_tasks sc')" for u
    using IH that members[of u] e(1,3) by (auto split: if_splits)
  with IH r(3) t'(2,4) ids show ?case by (auto simp: record_task_result_def)
qed

lemma set_due_tasks: "set (due_tasks ce ts now) = {t \<in> set ts. task_is_due ce t now}"
  by (auto simp: due_tasks_def)

lemma distinct_due_tasks: "distinct (map tk_id ts) \<Longrightarrow> distinct (map tk_id (due_tasks ce ts now))"
  unfolding due_tasks_def
  by (metis distinct_map_filter distinct_map distinct_sort set_sort)

lemma tick_result:
  assumes "sched_ok sc" "running sc" "tick ce ex now sc = (Inr rs, sc')"
  shows "map rs_task_id rs = map tk_id (due_tasks ce (sc_tasks sc) now) \<and>
    due_tasks ce (sc_tasks sc') now = [] \<and> sched_ok sc' \<and>
    rt_tick_count (sc_runtime sc') = rt_tick_count (sc_runtime sc) + 1 \<and>
    rt_tasks_executed (sc_runtime sc') = rt_tasks_executed (sc_runtime sc) + int (length (filter rs_success rs)) \<and>
    rt_tasks_failed (sc_runtime sc') = rt_tasks_failed (sc_runtime sc) +
      int (length (filter (\<lambda>r. \<not> rs_success r) rs))"
proof -
  let ?sc = "publish_event SchedulerTicked (sc\<lparr>sc_runtime := record_tick now (sc_runtime sc)\<rparr>)"
  have s: "sc_tasks ?sc = sc_tasks sc" "sc_runtime ?sc = record_tick now (sc_runtime sc)"
    by (simp_all add: publish_event_def)
  have l: "tick_loop ex now (due_tasks ce (sc_tasks sc) now) ?sc = (Inr rs, sc')"
    using assms(2,3) by (simp add: tick_def)
  note R = tick_loop_result[OF l]
  have d: "distinct (map tk_id (sc_tasks ?sc))" "\<forall>t \<in> set (sc_tasks ?sc). task_ok t"
    "distinct (map tk_id (due_tasks ce (sc_tasks sc) now))" "set (due_tasks ce (sc_tasks sc) now) \<subseteq> set (sc_tasks ?sc)"
    using assms(1) by (auto simp: s sched_ok_def distinct_due_tasks set_due_tasks)
  note R = R[OF d]
  have "\<not> task_is_due ce t now" if "t \<in> set (sc_tasks sc')" for t
    using R that by (cases "tk_id t \<in> tk_id ` set (due_tasks ce (sc_tasks sc) now)") (auto simp: s set_due_tasks)
  then have "due_tasks ce (sc_tasks sc') now = []" by (simp add: due_tasks_def filter_empty_conv)
  moreover have "length rs = length (filter rs_success rs) + length (filter (\<lambda>r. \<not> rs_success r) rs)"
    by (simp add: sum_length_filter_compl)
  moreover have "sched_ok sc'" using R assms(1) by (simp add: sched_ok_def s)
  moreover have "rt_tick_count (sc_runtime ?sc) = rt_tick_count (sc_runtime sc) + 1"
    "rt_tasks_executed (sc_runtime ?sc) = rt_tasks_executed (sc_runtime sc)"
    "rt_tasks_failed (sc_runtime ?sc) = rt_tasks_failed (sc_runtime sc)"
    unfolding s(2) by (simp_all add: record_tick_def)
  ultimately show ?thesis using R by simp
qed

end

interpretation dry_run: task_executor dry_run_execute
  by unfold_locales (auto simp: dry_run_execute_def executed_at_def success_result_def)

interpretation failing: task_executor "failing_execute e" for e
  by unfold_locales (auto simp: failing_execute_def executed_at_def failure_result_def)

lemma run_dispatch_executes:
  "run_dispatch answer ec t now x = (Inr r, t', x') \<Longrightarrow> executed_at now t t' \<and> rs_task_id r = tk_id t"
  by (auto simp: run_dispatch_def executed_at_def success_result_def failure_result_def split: prod.splits option.splits)

interpretation dispatcher: task_executor "dispatcher_execute ce answer ec" for ce answer ec
  by unfold_locales
     (auto simp: dispatcher_execute_def perform_def Let_def executed_at_def success_result_def
       split: option.splits if_splits dest: run_dispatch_executes)

text \<open>
  C34. A tick of the running scheduler over the dispatcher executor, unless a callback outside the
  guarded part raises, runs exactly the due tasks, once each, by priority and name; afterwards
  nothing is due at that time (so a tick cannot run a task twice), the registry is still well
  formed, and the statistics count this tick, its successes and its failures.
\<close>

theorem tick_runs_each_due_task_once:
  assumes "sched_ok sc" and "running sc"
    and "tick ce (dispatcher_execute ce' answer ec) now sc = (Inr results, sc')"
  shows "map rs_task_id results = map tk_id (due_tasks ce (sc_tasks sc) now) \<and>
    due_tasks ce (sc_tasks sc') now = [] \<and> sched_ok sc' \<and>
    rt_tick_count (sc_runtime sc') = rt_tick_count (sc_runtime sc) + 1 \<and>
    rt_tasks_executed (sc_runtime sc') = rt_tasks_executed (sc_runtime sc) + int (length (filter rs_success results)) \<and>
    rt_tasks_failed (sc_runtime sc') = rt_tasks_failed (sc_runtime sc) +
      int (length (filter (\<lambda>r. \<not> rs_success r) results))"
  by (rule dispatcher.tick_result[OF assms])

definition utc :: clock_env where
  "utc = \<lparr>zone_offset = (\<lambda>_ _. 0), local_offset = (\<lambda>_. 0)\<rparr>"

definition demo_task :: "string \<Rightarrow> trigger \<Rightarrow> task" where
  "demo_task k tg = projr (new_task k tg None (JObj []) (JObj [(''node_id'', JStr ''nas'')]) 100 True k)"

definition demo_scheduler :: "executor_state scheduler" where
  "demo_scheduler = start 0 \<lparr>sc_tasks = [demo_task ''b'' (oneshot_trigger 5), demo_task ''a'' (oneshot_trigger 5),
     demo_task ''c'' (projr (interval_trigger 60 (Some 100)))], sc_runtime = new_runtime, sc_bus = Some [],
     sc_executor = \<lparr>xs_suspended = [], xs_calls = []\<rparr>\<rparr>"

definition demo_executor :: executor_config where
  "demo_executor = \<lparr>ec_monitoring = None, ec_has_job_runner = False, ec_has_wake_dispatcher = False,
     ec_has_preventive_backfill = False\<rparr>"

definition demo_answers :: answers where
  "demo_answers history c = (case c of Execute cmd _ \<Rightarrow> if cmd = ''b'' then Some ''boom'' else None | _ \<Rightarrow> None)"

theorem tick_runs_each_due_task_once_witness:
  "map rs_task_id (projr (fst (tick utc (dispatcher_execute utc demo_answers demo_executor) 7 demo_scheduler))) =
     [''a'', ''b''] \<and>
   rt_tasks_failed (sc_runtime (snd (tick utc (dispatcher_execute utc demo_answers demo_executor) 7 demo_scheduler))) = 1"
proof -
  let ?t = "tick utc (dispatcher_execute utc demo_answers demo_executor) 7 demo_scheduler"
  have ok: "sched_ok demo_scheduler" "running demo_scheduler" by code_simp+
  have "?t = (fst ?t, snd ?t)" by simp
  moreover have "fst ?t = Inr (projr (fst ?t))" by code_simp
  ultimately have "?t = (Inr (projr (fst ?t)), snd ?t)" by simp
  note T = tick_runs_each_due_task_once[OF ok this]
  have "map tk_id (due_tasks utc (sc_tasks demo_scheduler) 7) = [''a'', ''b'']" by code_simp
  moreover have "length (filter (\<lambda>r. \<not> rs_success r) (projr (fst ?t))) = 1" by code_simp
  moreover have "rt_tasks_failed (sc_runtime demo_scheduler) = 0" by code_simp
  ultimately show ?thesis using T by simp
qed

section \<open>When triggers fire\<close>

definition field_ok :: "int \<Rightarrow> int \<Rightarrow> int list \<Rightarrow> bool" where
  "field_ok lo hi vs = (vs \<noteq> [] \<and> (\<forall>v \<in> set vs. lo \<le> v \<and> v \<le> hi))"

lemma parse_field_ok: "parse_field s lo hi = Inr vs \<Longrightarrow> lo \<le> hi \<Longrightarrow> field_ok lo hi vs"
  using parse_field_range parse_field_nonempty by (simp add: field_ok_def)

lemma minute_steps:
  assumes "US_MINUTE dvd w" "US_MINUTE dvd c" "c \<le> w"
  obtains j where "w = c + int j * US_MINUTE"
proof -
  have "US_MINUTE dvd w - c" using assms by simp
  then obtain q where q: "w - c = US_MINUTE * q" by blast
  then have "0 \<le> q" using assms(3) by (simp add: US_MINUTE_def)
  with q show ?thesis using that[of "nat q"] by (simp add: algebra_simps)
qed

lemma next_minute_le: "US_MINUTE dvd w \<Longrightarrow> after < w \<Longrightarrow> floor_minute after + US_MINUTE \<le> w"
  using minute_steps[OF _ floor_minute_dvd, of w after] floor_minute_le[of after]
  by (metis US_MINUTE_def add_le_cancel_left int_one_le_iff_zero_less le_less_trans less_imp_le
      linorder_not_less mult.commute mult_le_cancel_left1 not_less_iff_gr_or_eq of_nat_0_less_iff
      zero_less_numeral add.right_neutral mult_zero_left of_nat_0 gr_zeroI)

text \<open>
  C35. The next run of a cron expression is the first: every field of an accepted expression is in
  its range; the announced time is a minute after the given one, matches, and no earlier minute
  does; and no announcement means that nothing matches for 366 days.
\<close>

theorem cron_next_is_first_match:
  assumes "parse_cron expression = Inr f"
  shows "field_ok 0 59 (cron_minutes f) \<and> field_ok 0 23 (cron_hours f) \<and> field_ok 1 31 (cron_days f) \<and>
    field_ok 1 12 (cron_months f) \<and> field_ok 0 6 (cron_weekdays f) \<and>
    (case cron_next f after of
       Some r \<Rightarrow> after < r \<and> US_MINUTE dvd r \<and> cron_matches f r \<and>
         (\<forall>w. US_MINUTE dvd w \<and> after < w \<and> w < r \<longrightarrow> \<not> cron_matches f w)
     | None \<Rightarrow> \<forall>w. US_MINUTE dvd w \<and> after < w \<and> w \<le> after + 366 * US_DAY \<longrightarrow> \<not> cron_matches f w)"
proof -
  let ?c = "floor_minute after + US_MINUTE"
  have fields: "field_ok 0 59 (cron_minutes f) \<and> field_ok 0 23 (cron_hours f) \<and> field_ok 1 31 (cron_days f) \<and>
    field_ok 1 12 (cron_months f) \<and> field_ok 0 6 (cron_weekdays f)"
    using assms by (auto simp: parse_cron_def split: list.splits sum.splits intro!: parse_field_ok)
  have c: "US_MINUTE dvd ?c" "after < ?c" using floor_minute_dvd[of after] floor_minute_bounds[of after] by simp_all
  show ?thesis
  proof (cases "cron_next f after")
    case None
    have "\<not> cron_matches f w" if w: "US_MINUTE dvd w" "after < w" "w \<le> after + 366 * US_DAY" for w
    proof -
      obtain j where j: "w = ?c + int j * US_MINUTE" using minute_steps[OF w(1) c(1) next_minute_le[OF w(1,2)]] .
      have "int j * US_MINUTE < 366 * US_DAY" using j w(3) c(2) by linarith
      then have "j < 366 * 24 * 60" by (simp add: US_MINUTE_def US_DAY_def)
      then show ?thesis unfolding j using None[unfolded cron_next_def] by (rule cron_search_None[rotated])
    qed
    with None fields show ?thesis by simp
  next
    case (Some r)
    from cron_search_Some[OF this[unfolded cron_next_def]] obtain k where
      k: "r = ?c + int k * US_MINUTE" "cron_matches f r" "\<forall>j < k. \<not> cron_matches f (?c + int j * US_MINUTE)" by blast
    have "\<not> cron_matches f w" if w: "US_MINUTE dvd w" "after < w" "w < r" for w
    proof -
      obtain j where j: "w = ?c + int j * US_MINUTE" using minute_steps[OF w(1) c(1) next_minute_le[OF w(1,2)]] .
      then have "j < k" using w(3) k(1) by (simp add: US_MINUTE_def)
      then show ?thesis using k(3) j by simp
    qed
    moreover have "after < r" "US_MINUTE dvd r" using c k(1) by (auto simp: US_MINUTE_def)
    ultimately show ?thesis using Some fields k(2) by simp
  qed
qed

lemma cron_next_at_once:
  assumes "cron_matches f (floor_minute after + US_MINUTE)"
  shows "cron_next f after = Some (floor_minute after + US_MINUTE)"
proof -
  have n: "(366 * 24 * 60 :: nat) = Suc 527039" by simp
  show ?thesis unfolding cron_next_def n by (simp only: cron_search.simps(2) assms if_True)
qed

theorem cron_next_is_first_match_witness:
  "\<exists>f r. parse_cron ''*/15 2,14 * * sun'' = Inr f \<and> field_ok 0 6 (cron_weekdays f) \<and>
     cron_next f (3 * US_DAY + 119 * US_MINUTE + 5) = Some r \<and> r = 3 * US_DAY + 120 * US_MINUTE \<and> cron_matches f r"
proof -
  let ?f = "projr (parse_cron ''*/15 2,14 * * sun'')" and ?w = "3 * US_DAY + 119 * US_MINUTE + 5"
  have p: "parse_cron ''*/15 2,14 * * sun'' = Inr ?f" by code_simp
  have w: "floor_minute ?w + US_MINUTE = 3 * US_DAY + 120 * US_MINUTE" by code_simp
  have "cron_matches ?f (3 * US_DAY + 120 * US_MINUTE)" by code_simp
  then have n: "cron_next ?f ?w = Some (3 * US_DAY + 120 * US_MINUTE)" using cron_next_at_once[of ?f ?w] w by simp
  from cron_next_is_first_match[OF p, of ?w] have "field_ok 0 6 (cron_weekdays ?f)"
    "cron_matches ?f (3 * US_DAY + 120 * US_MINUTE)" by (simp_all add: n)
  with p n show ?thesis by blast
qed

section \<open>Suspended monitoring\<close>

definition announcements :: "executor_state \<Rightarrow> string \<Rightarrow> nat" where
  "announcements x command = length (filter (\<lambda>c. case c of PublishSuspended cmd _ _ _ \<Rightarrow> cmd = command | _ \<Rightarrow> False) (xs_calls x))"

text \<open>A task executed at a list of times, by an executor that does not raise.\<close>

fun executions :: "executor_state executor \<Rightarrow> task \<Rightarrow> instant list \<Rightarrow> executor_state \<Rightarrow> executor_state" where
  "executions ex t [] x = x"
| "executions ex t (now # ts) x = (case ex t now x of (_, t', x') \<Rightarrow> executions ex t' ts x')"

lemma suspended_step:
  assumes "ec_monitoring ec = Some reg" "\<not> dc_active (monitoring_decision ce reg (node_of t) now)"
    and "\<And>h c. answer h c = None"
  shows "\<exists>r t'. dispatcher_execute ce answer ec t now x =
      (Inr r, t', if tk_id t \<in> set (xs_suspended x) then x
        else \<lparr>xs_suspended = xs_suspended x @ [tk_id t],
          xs_calls = xs_calls x @ [PublishSuspended (tk_command t) (tk_arguments t)
            (case dc_reason (monitoring_decision ce reg (node_of t) now) of None \<Rightarrow> ''Surveillance suspendue.''
             | Some r \<Rightarrow> if r = [] then ''Surveillance suspendue.'' else r)
            (dc_next_activation (monitoring_decision ce reg (node_of t) now))]\<rparr>) \<and>
    tk_id t' = tk_id t \<and> tk_command t' = tk_command t \<and> tk_metadata t' = tk_metadata t"
  using assms
  by (auto simp: dispatcher_execute_def Let_def perform_def mark_finished_def mark_started_def consume_run_requests_def)

text \<open>
  A suspended node is announced once: while monitoring of a task's node stays suspended, its
  executions publish the suspension the first time and run no command at all.
\<close>

theorem suspension_announced_once:
  assumes "ec_monitoring ec = Some reg"
    and "\<forall>now \<in> set moments. \<not> dc_active (monitoring_decision ce reg (node_of t) now)"
    and "\<And>h c. answer h c = None" and "tk_id t \<notin> set (xs_suspended x)" and "moments \<noteq> []"
  shows "\<exists>c. xs_calls (executions (dispatcher_execute ce answer ec) t moments x) = xs_calls x @ [c] \<and>
    announcements (executions (dispatcher_execute ce answer ec) t moments x) (tk_command t) =
      announcements x (tk_command t) + 1"
proof -
  have later: "executions (dispatcher_execute ce answer ec) u ts y = y"
    if "\<forall>now \<in> set ts. \<not> dc_active (monitoring_decision ce reg (node_of u) now)" "tk_id u \<in> set (xs_suspended y)"
    for u ts y
    using that
  proof (induction ts arbitrary: u)
    case (Cons now ts)
    obtain r u' where "dispatcher_execute ce answer ec u now y = (Inr r, u', y)" "tk_id u' = tk_id u" "tk_metadata u' = tk_metadata u"
      using suspended_step[where t = u and now = now and x = y and ce = ce and answer = answer, OF assms(1) _ assms(3)] Cons.prems by auto
    with Cons show ?case by (simp add: node_of_def)
  qed simp
  obtain now ts where moments: "moments = now # ts" using assms(5) by (cases moments) auto
  from suspended_step[where t = t and now = now and x = x and ce = ce and answer = answer, OF assms(1) _ assms(3)] assms(2,4) moments obtain r t' msg na where
    s: "dispatcher_execute ce answer ec t now x = (Inr r, t', \<lparr>xs_suspended = xs_suspended x @ [tk_id t],
          xs_calls = xs_calls x @ [PublishSuspended (tk_command t) (tk_arguments t) msg na]\<rparr>)"
      "tk_id t' = tk_id t" "tk_metadata t' = tk_metadata t" by auto
  have "executions (dispatcher_execute ce answer ec) t moments x = \<lparr>xs_suspended = xs_suspended x @ [tk_id t],
          xs_calls = xs_calls x @ [PublishSuspended (tk_command t) (tk_arguments t) msg na]\<rparr>"
    using later[of ts t'] s assms(2) moments by (simp add: node_of_def)
  then show ?thesis by (simp add: announcements_def)
qed

definition night_registry :: registry where
  "night_registry = Map.empty(''nas'' \<mapsto> the (projr (parse_schedule (\<lambda>_. True) demo_schedule False)))"

theorem suspension_announced_once_witness:
  "announcements (executions (dispatcher_execute utc (\<lambda>_ _. None) (demo_executor\<lparr>ec_monitoring := Some night_registry\<rparr>))
     (demo_task ''ping'' (oneshot_trigger 0)) [0, 60, 120] \<lparr>xs_suspended = [], xs_calls = []\<rparr>) ''ping'' = 1"
proof -
  let ?t = "demo_task ''ping'' (oneshot_trigger 0)" and ?x = "\<lparr>xs_suspended = [], xs_calls = []\<rparr>"
  have "\<forall>now \<in> set [0, 60, 120]. \<not> dc_active (monitoring_decision utc night_registry (node_of ?t) now)" by code_simp
  from suspension_announced_once[of "demo_executor\<lparr>ec_monitoring := Some night_registry\<rparr>" night_registry _ _ ?t _ ?x, OF _ this]
  have "announcements (executions (dispatcher_execute utc (\<lambda>_ _. None) (demo_executor\<lparr>ec_monitoring := Some night_registry\<rparr>))
     ?t [0, 60, 120] ?x) (tk_command ?t) = announcements ?x (tk_command ?t) + 1" by simp
  moreover have "tk_command ?t = ''ping''" by code_simp
  ultimately show ?thesis by (simp add: announcements_def)
qed

end
