(* ===== verification/Outbox.thy ===== *)
theory Outbox
  imports Py_Repr
begin

text \<open>
  The durable outbox of observations awaiting Ohana-Vision
  (observation/exporters/vision_observation_outbox.py): the SQLite table, its operations, the
  representation invariant \<open>outbox_ok\<close>, and the interface \<open>delivery_queue\<close> it implements: a
  bounded first-in first-out queue of observations, each held once by its identifier.
\<close>

section \<open>Identifiers\<close>

text \<open>\<open>str(payload.get("observation_id", "")).strip()\<close> of a payload object.\<close>

fun observation_key :: "json \<Rightarrow> string" where
  "observation_key (JObj kvs) =
     strip (case map_of kvs ''observation_id'' of None \<Rightarrow> [] | Some v \<Rightarrow> py_str v)"
| "observation_key _ = []"

section \<open>State\<close>

text \<open>
  What a call can raise: the validation error, SQLite's refusal of a closed connection, and the
  refusal of a database of a newer schema.
\<close>

datatype outbox_error = PayloadError string | ClosedError | SchemaError string | SettingError string

text \<open>
  A row of \<open>observation_outbox\<close>. The payload is stored as JSON text and read back; \<open>json\<close> values
  stand for it. \<open>VisionObservationOutboxEntry\<close> is what \<open>oldest\<close> returns of a row.
\<close>

record outbox_row =
  ob_sequence :: int
  ob_observation_id :: string
  ob_payload :: json
  ob_enqueued_at :: instant
  ob_attempts :: int
  ob_last_error :: "string option"
  ob_last_attempt_at :: "instant option"

record outbox_entry =
  en_observation_id :: string
  en_payload :: json
  en_attempts :: int

text \<open>
  The object with its database: the rows in insertion order, the AUTOINCREMENT counter, the time
  of the last warning on the monotonic clock (in microseconds), and the warnings logged, each the
  number of payloads dropped.
\<close>

record outbox =
  ox_max_entries :: int
  ox_rows :: "outbox_row list"
  ox_last_sequence :: int
  ox_last_limit_warning_at :: "int option"
  ox_warnings :: "nat list"
  ox_closed :: bool

section \<open>Operations\<close>

definition outbox_schema_version :: int where
  "outbox_schema_version = 1"

text \<open>
  \<open>__init__\<close> with \<open>_initialize_database\<close>, on a database file holding \<open>rows\<close>, the counter
  \<open>counter\<close> and the \<open>user_version\<close> \<open>version\<close> (a new file: no rows, 0, 0).
\<close>

definition open_outbox :: "int \<Rightarrow> outbox_row list \<Rightarrow> int \<Rightarrow> int \<Rightarrow> outbox_error + outbox" where
  "open_outbox version rows counter max_entries =
     (if max_entries \<le> 0 then Inl (SettingError ''max_entries must be greater than zero.'')
      else if version > outbox_schema_version
        then Inl (SchemaError ''Vision outbox schema is newer than this Agent version.'')
      else Inr \<lparr>ox_max_entries = max_entries, ox_rows = rows, ox_last_sequence = counter,
                ox_last_limit_warning_at = None, ox_warnings = [], ox_closed = False\<rparr>)"

definition outbox_pending_count :: "outbox \<Rightarrow> outbox_error + nat" where
  "outbox_pending_count ox = (if ox_closed ox then Inl ClosedError else Inr (length (ox_rows ox)))"

text \<open>
  The loop over the payloads, which runs before anything is written; \<open>stamps i\<close> is the clock
  reading for the payload of index \<open>i\<close>.
\<close>

fun prepare_rows :: "(nat \<Rightarrow> instant) \<Rightarrow> nat \<Rightarrow> json list \<Rightarrow> outbox_error + (string \<times> json \<times> instant) list" where
  "prepare_rows stamps i [] = Inr []"
| "prepare_rows stamps i (p # ps) =
     (if observation_key p = [] then Inl (PayloadError ''Vision observation payload must contain observation_id.'')
      else case prepare_rows stamps (Suc i) ps of
        Inl e \<Rightarrow> Inl e
      | Inr rows \<Rightarrow> Inr ((observation_key p, p, stamps i) # rows))"

text \<open>
  \<open>INSERT OR IGNORE\<close> of one prepared row: the UNIQUE constraint on the identifier makes it a
  no-op when the observation is already held. (SQLite may burn a number of the sequence then; only
  the order of the numbers matters here.)
\<close>

definition insert_or_ignore :: "string \<times> json \<times> instant \<Rightarrow> outbox \<Rightarrow> outbox" where
  "insert_or_ignore item ox = (case item of (k, p, at) \<Rightarrow>
     (if tbl_find ob_observation_id k (ox_rows ox) \<noteq> None then ox
      else ox\<lparr>ox_rows := ox_rows ox @
              [\<lparr>ob_sequence = ox_last_sequence ox + 1, ob_observation_id = k, ob_payload = p,
                ob_enqueued_at = at, ob_attempts = 0, ob_last_error = None, ob_last_attempt_at = None\<rparr>],
              ox_last_sequence := ox_last_sequence ox + 1\<rparr>))"

text \<open>
  The DELETE: the subquery is the sequence at position \<open>max_entries - 1\<close> of the rows ordered by
  descending sequence, 0 when there is none.
\<close>

definition limit_threshold :: "outbox \<Rightarrow> int" where
  "limit_threshold ox =
     (let newest = order_desc id (map ob_sequence (ox_rows ox)); offset = nat (ox_max_entries ox - 1)
      in if offset < length newest then newest ! offset else 0)"

definition delete_beyond_limit :: "outbox \<Rightarrow> nat \<times> outbox" where
  "delete_beyond_limit ox =
     (let kept = filter (\<lambda>r. \<not> ob_sequence r < limit_threshold ox) (ox_rows ox)
      in (length (ox_rows ox) - length kept, ox\<lparr>ox_rows := kept\<rparr>))"

definition warn_limit :: "int \<Rightarrow> nat \<Rightarrow> outbox \<Rightarrow> outbox" where
  "warn_limit uptime removed ox =
     (if removed > 0 \<and> (case ox_last_limit_warning_at ox of None \<Rightarrow> True | Some t \<Rightarrow> uptime - t \<ge> seconds 300)
      then ox\<lparr>ox_warnings := ox_warnings ox @ [removed], ox_last_limit_warning_at := Some uptime\<rparr>
      else ox)"

definition enqueue_many :: "(nat \<Rightarrow> instant) \<Rightarrow> int \<Rightarrow> json list \<Rightarrow> outbox \<Rightarrow> outbox_error + outbox" where
  "enqueue_many stamps uptime payloads ox =
     (case prepare_rows stamps 0 payloads of
        Inl e \<Rightarrow> Inl e
      | Inr rows \<Rightarrow>
          if rows = [] then Inr ox
          else if ox_closed ox then Inl ClosedError
          else case delete_beyond_limit (fold insert_or_ignore rows ox) of
            (removed, ox1) \<Rightarrow> Inr (warn_limit uptime removed ox1))"

definition outbox_enqueue :: "instant \<Rightarrow> int \<Rightarrow> json \<Rightarrow> outbox \<Rightarrow> outbox_error + outbox" where
  "outbox_enqueue now uptime payload ox = enqueue_many (\<lambda>_. now) uptime [payload] ox"

definition outbox_oldest :: "outbox \<Rightarrow> outbox_error + outbox_entry option" where
  "outbox_oldest ox =
     (if ox_closed ox then Inl ClosedError
      else Inr (map_option (\<lambda>r. \<lparr>en_observation_id = ob_observation_id r, en_payload = ob_payload r,
             en_attempts = ob_attempts r\<rparr>) (first_min ob_sequence (ox_rows ox))))"

definition mark_delivered :: "string \<Rightarrow> outbox \<Rightarrow> outbox_error + outbox" where
  "mark_delivered k ox =
     (if ox_closed ox then Inl ClosedError
      else Inr (ox\<lparr>ox_rows := filter (\<lambda>r. ob_observation_id r \<noteq> k) (ox_rows ox)\<rparr>))"

definition outbox_mark_failed :: "instant \<Rightarrow> string \<Rightarrow> string \<Rightarrow> outbox \<Rightarrow> outbox_error + outbox" where
  "outbox_mark_failed now k err ox =
     (if ox_closed ox then Inl ClosedError
      else Inr (ox\<lparr>ox_rows := tbl_update ob_observation_id k
             (\<lambda>r. r\<lparr>ob_attempts := ob_attempts r + 1, ob_last_error := Some err,
                     ob_last_attempt_at := Some now\<rparr>) (ox_rows ox)\<rparr>))"

definition outbox_close :: "outbox \<Rightarrow> outbox" where
  "outbox_close ox = ox\<lparr>ox_closed := True\<rparr>"

section \<open>The representation invariant\<close>

definition rows_ok :: "outbox \<Rightarrow> bool" where
  "rows_ok ox \<longleftrightarrow> sorted_wrt (<) (map ob_sequence (ox_rows ox)) \<and>
     distinct (map ob_observation_id (ox_rows ox)) \<and>
     (\<forall>r \<in> set (ox_rows ox). 0 < ob_sequence r \<and> ob_sequence r \<le> ox_last_sequence ox \<and>
        ob_observation_id r \<noteq> [] \<and> 0 \<le> ob_attempts r) \<and> 0 \<le> ox_last_sequence ox"

definition outbox_ok :: "outbox \<Rightarrow> bool" where
  "outbox_ok ox \<longleftrightarrow> 0 < ox_max_entries ox \<and> length (ox_rows ox) \<le> nat (ox_max_entries ox) \<and> rows_ok ox"

text \<open>What the outbox holds, oldest first, and the abstract operations on such queues.\<close>

definition pending :: "outbox \<Rightarrow> (string \<times> json) list" where
  "pending ox = map (\<lambda>r. (ob_observation_id r, ob_payload r)) (ox_rows ox)"

definition newest :: "nat \<Rightarrow> 'a list \<Rightarrow> 'a list" where
  "newest n xs = drop (length xs - n) xs"

definition admit1 :: "'k \<times> 'v \<Rightarrow> ('k \<times> 'v) list \<Rightarrow> ('k \<times> 'v) list" where
  "admit1 x q = (if fst x \<in> fst ` set q then q else q @ [x])"

definition admit :: "('k \<times> 'v) list \<Rightarrow> ('k \<times> 'v) list \<Rightarrow> ('k \<times> 'v) list" where
  "admit items q = fold admit1 items q"

lemma newest_all: "length xs \<le> n \<Longrightarrow> newest n xs = xs"
  by (simp add: newest_def)

lemma length_newest: "length (newest n xs) \<le> n"
  by (simp add: newest_def)

lemma set_newest: "set (newest n xs) \<subseteq> set xs"
  by (simp add: newest_def set_drop_subset)

lemma newest_map: "newest n (map f xs) = map f (newest n xs)"
  by (simp add: newest_def drop_map)

lemma admit_keys: "fst ` set (admit items q) = fst ` set items \<union> fst ` set q"
  unfolding admit_def by (induction items arbitrary: q) (auto simp: admit1_def)

lemma admit1_cases: "admit1 x q = q \<or> admit1 x q = q @ [x]"
  by (simp add: admit1_def)

lemma length_admit: "length (admit items q) \<le> length q + length items"
  unfolding admit_def
proof (induction items arbitrary: q)
  case (Cons x xs)
  have "length (admit1 x q) \<le> Suc (length q)" using admit1_cases[of x q] by auto
  then show ?case using Cons[of "admit1 x q"] by simp
qed simp

lemma admit_extends: "\<exists>added. admit items q = q @ added"
  unfolding admit_def
proof (induction items arbitrary: q)
  case (Cons x xs)
  then obtain added where "fold admit1 xs (admit1 x q) = admit1 x q @ added" by blast
  then show ?case using admit1_cases[of x q] by auto
qed simp

section \<open>The queue interface\<close>

text \<open>
  What a client of the outbox relies on. States that are \<open>ready\<close> accept operations; \<open>push\<close>, \<open>ack\<close>
  and \<open>nack\<close> relate a state to the one a successful call leaves.
\<close>

locale delivery_queue =
  fixes ready :: "'s \<Rightarrow> bool"
    and capacity :: "'s \<Rightarrow> nat"
    and queue :: "'s \<Rightarrow> ('k \<times> 'v) list"
    and push :: "('k \<times> 'v) list \<Rightarrow> 's \<Rightarrow> 's \<Rightarrow> bool"
    and head :: "'s \<Rightarrow> ('k \<times> 'v) option"
    and ack :: "'k \<Rightarrow> 's \<Rightarrow> 's \<Rightarrow> bool"
    and nack :: "'k \<Rightarrow> 's \<Rightarrow> 's \<Rightarrow> bool"
  assumes ready_queue: "ready s \<Longrightarrow> distinct (map fst (queue s)) \<and> length (queue s) \<le> capacity s"
    and push_law: "ready s \<Longrightarrow> push items s s' \<Longrightarrow>
      ready s' \<and> capacity s' = capacity s \<and> queue s' = newest (capacity s) (admit items (queue s))"
    and head_law: "ready s \<Longrightarrow> head s = (case queue s of [] \<Rightarrow> None | x # _ \<Rightarrow> Some x)"
    and ack_law: "ready s \<Longrightarrow> ack k s s' \<Longrightarrow>
      ready s' \<and> capacity s' = capacity s \<and> queue s' = filter (\<lambda>x. fst x \<noteq> k) (queue s)"
    and nack_law: "ready s \<Longrightarrow> nack k s s' \<Longrightarrow>
      ready s' \<and> capacity s' = capacity s \<and> queue s' = queue s"
begin

lemma ack_head:
  assumes "ready s" "head s = Some x" "ack (fst x) s s'"
  shows "queue s = x # queue s'"
proof -
  from assms(1,2) obtain q where q: "queue s = x # q" by (auto simp: head_law split: list.splits)
  moreover have "fst x \<notin> set (map fst q)" using ready_queue[OF assms(1)] q by simp
  then have "filter (\<lambda>y. fst y \<noteq> fst x) q = q" by (metis (mono_tags, lifting) filter_True image_eqI list.set_map)
  ultimately show ?thesis using ack_law[OF assms(1,3)] by simp
qed

lemma head_None: "ready s \<Longrightarrow> head s = None \<longleftrightarrow> queue s = []"
  by (simp add: head_law split: list.splits)

lemma push_within_capacity:
  assumes "ready s" "push items s s'" "length (queue s) + length items \<le> capacity s"
  shows "queue s' = admit items (queue s)"
  using push_law[OF assms(1,2)] assms(3) length_admit[of items "queue s"] by (simp add: newest_all)

lemma push_drops_oldest:
  assumes "ready s" "push items s s'"
  shows "\<exists>dropped. admit items (queue s) = dropped @ queue s' \<and>
    (dropped \<noteq> [] \<longrightarrow> length (queue s') = capacity s)"
proof -
  let ?q = "admit items (queue s)"
  have "?q = take (length ?q - capacity s) ?q @ queue s'"
    using push_law[OF assms] by (simp add: newest_def)
  moreover have "length (queue s') = capacity s" if "take (length ?q - capacity s) ?q \<noteq> []"
    using push_law[OF assms] that by (simp add: newest_def)
  ultimately show ?thesis by blast
qed

end

end
