(* ===== verification/Outbox_Refinement.thy ===== *)
theory Outbox_Refinement
  imports Outbox
begin

text \<open>
  The outbox implements the interface \<open>delivery_queue\<close>: its operations keep the representation
  invariant, and on what is pending they are those of a bounded first-in first-out queue.
\<close>

lemma filter_from:
  assumes "sorted_wrt (<) (map f xs)" "i < length xs"
  shows "filter (\<lambda>r. \<not> f r < (f (xs ! i) :: int)) xs = drop i xs"
proof -
  have s: "f (xs ! a) < f (xs ! b)" if "a < b" "b < length xs" for a b
    using assms(1) that by (simp add: sorted_wrt_iff_nth_less)
  have "filter (\<lambda>r. \<not> f r < f (xs ! i)) (take i xs) = []"
    using s[OF _ assms(2)] by (auto simp: filter_empty_conv in_set_conv_nth)
  moreover have "\<not> f (xs ! (i + j)) < f (xs ! i)" if "i + j < length xs" for j
    using s[of i "i + j"] that by (cases j) auto
  then have "filter (\<lambda>r. \<not> f r < f (xs ! i)) (drop i xs) = drop i xs"
    by (auto simp: filter_id_conv in_set_conv_nth)
  moreover have "filter P xs = filter P (take i xs) @ filter P (drop i xs)" for P
    by (metis append_take_drop_id filter_append)
  ultimately show ?thesis by simp
qed

lemma order_desc_strict:
  assumes "sorted_wrt (<) (xs :: int list)"
  shows "order_desc id xs = rev xs"
proof -
  have "sorted xs" using assms by (simp add: strict_sorted_iff)
  then have "sort_key id xs = xs" by (simp add: sorted_sort_id id_def)
  then show ?thesis by (simp add: order_desc_def)
qed

lemma delete_beyond_limit_newest:
  assumes "rows_ok ox" "0 < ox_max_entries ox"
  shows "delete_beyond_limit ox = (length (ox_rows ox) - nat (ox_max_entries ox),
    ox\<lparr>ox_rows := newest (nat (ox_max_entries ox)) (ox_rows ox)\<rparr>)"
proof -
  let ?n = "length (ox_rows ox)" and ?m = "nat (ox_max_entries ox)"
  have s: "sorted_wrt (<) (map ob_sequence (ox_rows ox))" using assms(1) by (simp add: rows_ok_def)
  have "filter (\<lambda>r. \<not> ob_sequence r < limit_threshold ox) (ox_rows ox) = newest ?m (ox_rows ox)"
  proof (cases "?m - 1 < ?n")
    case True
    then have i: "?n - ?m < ?n" "?n - Suc (?m - 1) = ?n - ?m" using assms(2) by auto
    have "limit_threshold ox = ob_sequence (ox_rows ox ! (?n - ?m))"
      using True i assms(2) by (simp add: limit_threshold_def order_desc_strict[OF s] rev_nth nat_diff_distrib Let_def)
    then show ?thesis using filter_from[OF s i(1)] by (simp add: newest_def)
  next
    case False
    then have "limit_threshold ox = 0" using assms(2)
      by (simp add: limit_threshold_def order_desc_strict[OF s] Let_def nat_diff_distrib)
    moreover have "\<not> ob_sequence r < 0" if "r \<in> set (ox_rows ox)" for r
      using assms(1) that by (auto simp: rows_ok_def dest!: bspec)
    ultimately show ?thesis using False by (simp add: newest_def filter_id_conv)
  qed
  then show ?thesis by (simp add: delete_beyond_limit_def Let_def) (simp add: newest_def)
qed

section \<open>Insertion\<close>

lemma pending_keys: "fst ` set (pending ox) = ob_observation_id ` set (ox_rows ox)"
  by (auto simp: pending_def image_iff)

lemma insert_or_ignore_step:
  assumes "rows_ok ox" "k \<noteq> []"
  shows "rows_ok (insert_or_ignore (k, p, at) ox)"
    and "pending (insert_or_ignore (k, p, at) ox) = admit1 (k, p) (pending ox)"
    and "ox_max_entries (insert_or_ignore (k, p, at) ox) = ox_max_entries ox"
    and "ox_closed (insert_or_ignore (k, p, at) ox) = ox_closed ox"
  using assms
  by (auto simp: insert_or_ignore_def rows_ok_def pending_keys admit1_def tbl_find_None sorted_wrt_append
        pending_def[of "ox_rows_update _ ox"] pending_def[of "ox_last_sequence_update _ _"]
      dest!: bspec split: if_splits) (auto simp: pending_def)

lemma insert_all:
  assumes "rows_ok ox" "\<forall>item \<in> set items. fst item \<noteq> []"
  shows "rows_ok (fold insert_or_ignore items ox) \<and>
    pending (fold insert_or_ignore items ox) = admit (map (\<lambda>(k, p, _). (k, p)) items) (pending ox) \<and>
    ox_max_entries (fold insert_or_ignore items ox) = ox_max_entries ox \<and>
    ox_closed (fold insert_or_ignore items ox) = ox_closed ox"
  using assms
proof (induction items arbitrary: ox)
  case (Cons item items)
  obtain k p at where item: "item = (k, p, at)" by (cases item)
  have k: "k \<noteq> []" using Cons.prems item by simp
  note step = insert_or_ignore_step[OF Cons.prems(1) k, of p at]
  show ?case using Cons.IH[OF step(1)] Cons.prems(2) step item by (simp add: admit_def)
qed (simp add: admit_def)

lemma prepare_rows_result:
  "prepare_rows stamps i ps = Inr rows \<Longrightarrow>
     map (\<lambda>(k, p, _). (k, p)) rows = map (\<lambda>p. (observation_key p, p)) ps \<and> (\<forall>item \<in> set rows. fst item \<noteq> [])"
proof (induction ps arbitrary: i rows)
  case (Cons p ps)
  from Cons.prems obtain rs where rs: "prepare_rows stamps (Suc i) ps = Inr rs" "observation_key p \<noteq> []"
      "rows = (observation_key p, p, stamps i) # rs"
    by (auto split: if_splits sum.splits)
  with Cons.IH[OF rs(1)] show ?case by simp
qed simp

lemma prepare_rows_total:
  "(\<forall>p \<in> set ps. observation_key p \<noteq> []) \<Longrightarrow> \<exists>rows. prepare_rows stamps i ps = Inr rows"
proof (induction ps arbitrary: i)
  case (Cons p ps)
  then obtain rows where "prepare_rows stamps (Suc i) ps = Inr rows" by fastforce
  with Cons.prems show ?case by simp
qed simp

definition outbox_ready :: "outbox \<Rightarrow> bool" where
  "outbox_ready ox = (outbox_ok ox \<and> \<not> ox_closed ox)"

definition outbox_capacity :: "outbox \<Rightarrow> nat" where
  "outbox_capacity ox = nat (ox_max_entries ox)"

lemma warn_limit_same [simp]:
  "ox_rows (warn_limit uptime n ox) = ox_rows ox" "ox_max_entries (warn_limit uptime n ox) = ox_max_entries ox"
  "ox_last_sequence (warn_limit uptime n ox) = ox_last_sequence ox" "ox_closed (warn_limit uptime n ox) = ox_closed ox"
  by (simp_all add: warn_limit_def)

lemma rows_ok_newest: "rows_ok ox \<Longrightarrow> rows_ok (ox\<lparr>ox_rows := newest n (ox_rows ox)\<rparr>)"
  unfolding rows_ok_def
  by (auto simp: newest_map[symmetric] simp del: dest: in_set_dropD)
     (auto simp: newest_def sorted_wrt_drop drop_map[symmetric] dest: in_set_dropD)

lemma enqueue_many_refines:
  assumes "outbox_ready ox" "enqueue_many stamps uptime ps ox = Inr ox'"
  shows "outbox_ready ox' \<and> outbox_capacity ox' = outbox_capacity ox \<and>
    pending ox' = newest (outbox_capacity ox) (admit (map (\<lambda>p. (observation_key p, p)) ps) (pending ox))"
proof -
  from assms(2) obtain rows where rows: "prepare_rows stamps 0 ps = Inr rows"
    by (auto simp: enqueue_many_def split: sum.splits)
  note R = prepare_rows_result[OF rows]
  have ok: "rows_ok ox" "0 < ox_max_entries ox" "length (ox_rows ox) \<le> nat (ox_max_entries ox)" "\<not> ox_closed ox"
    using assms(1) by (auto simp: outbox_ready_def outbox_ok_def)
  show ?thesis
  proof (cases "rows = []")
    case True
    with R assms rows ok show ?thesis
      by (auto simp: enqueue_many_def admit_def newest_all outbox_capacity_def pending_def)
  next
    case False
    let ?ox = "fold insert_or_ignore rows ox"
    note I = insert_all[OF ok(1), of rows]
    have I': "rows_ok ?ox" "0 < ox_max_entries ?ox" "ox_max_entries ?ox = ox_max_entries ox" "\<not> ox_closed ?ox"
      "pending ?ox = admit (map (\<lambda>p. (observation_key p, p)) ps) (pending ox)"
      using I R ok by auto
    have ox': "ox' = warn_limit uptime (length (ox_rows ?ox) - nat (ox_max_entries ?ox))
        (?ox\<lparr>ox_rows := newest (nat (ox_max_entries ?ox)) (ox_rows ?ox)\<rparr>)"
      using assms(2) rows False ok(4) by (simp add: enqueue_many_def delete_beyond_limit_newest[OF I'(1,2)])
    have "rows_ok ox'" using rows_ok_newest[OF I'(1)] unfolding ox' rows_ok_def by simp
    then have "outbox_ready ox'" unfolding outbox_ready_def outbox_ok_def
      using I' by (simp add: ox' length_newest)
    moreover have "pending ox' = newest (nat (ox_max_entries ox)) (pending ?ox)"
      by (simp add: ox' pending_def newest_map I'(3))
    ultimately show ?thesis using I' by (simp add: outbox_capacity_def ox')
  qed
qed

section \<open>Delivery\<close>

lemma first_min_sorted:
  assumes "sorted_wrt (<) (map (f :: 'r \<Rightarrow> int) xs)"
  shows "first_min f xs = (case xs of [] \<Rightarrow> None | x # _ \<Rightarrow> Some x)"
proof (cases xs)
  case (Cons x ys)
  have "f x \<le> f y" if "first_min f ys = Some y" for y
    using assms first_min_in[OF that] Cons by auto
  then show ?thesis using Cons by (auto split: option.splits)
qed simp

definition outbox_head :: "outbox \<Rightarrow> (string \<times> json) option" where
  "outbox_head ox = map_option (\<lambda>en. (en_observation_id en, en_payload en)) (projr (outbox_oldest ox))"

lemma outbox_head_pending: "outbox_ready ox \<Longrightarrow> outbox_head ox = (case pending ox of [] \<Rightarrow> None | x # _ \<Rightarrow> Some x)"
  by (auto simp: outbox_head_def outbox_oldest_def outbox_ready_def outbox_ok_def rows_ok_def first_min_sorted
      pending_def split: list.splits)

lemma mark_delivered_refines:
  assumes "outbox_ready ox" "mark_delivered k ox = Inr ox'"
  shows "outbox_ready ox' \<and> outbox_capacity ox' = outbox_capacity ox \<and>
    pending ox' = filter (\<lambda>x. fst x \<noteq> k) (pending ox)"
proof -
  have ox': "ox' = ox\<lparr>ox_rows := filter (\<lambda>r. ob_observation_id r \<noteq> k) (ox_rows ox)\<rparr>"
    using assms by (auto simp: mark_delivered_def outbox_ready_def)
  have "sorted_wrt (<) (map ob_sequence (filter P (ox_rows ox)))" for P
    using assms(1) by (simp add: outbox_ready_def outbox_ok_def rows_ok_def sorted_wrt_map sorted_wrt_filter)
  then have "rows_ok ox'" using assms(1) unfolding ox'
    by (auto simp: outbox_ready_def outbox_ok_def rows_ok_def distinct_map_filter)
  moreover have "length (ox_rows ox') \<le> nat (ox_max_entries ox)"
    using assms(1) by (auto simp: ox' outbox_ready_def outbox_ok_def intro: order.trans[OF length_filter_le])
  ultimately show ?thesis using assms(1)
    by (simp add: ox' outbox_ready_def outbox_ok_def outbox_capacity_def pending_def filter_map o_def)
qed

lemma outbox_mark_failed_refines:
  assumes "outbox_ready ox" "outbox_mark_failed now k err ox = Inr ox'"
  shows "outbox_ready ox' \<and> outbox_capacity ox' = outbox_capacity ox \<and> pending ox' = pending ox"
proof -
  let ?f = "\<lambda>r. r\<lparr>ob_attempts := ob_attempts r + 1, ob_last_error := Some err, ob_last_attempt_at := Some now\<rparr>"
  have ox': "ox' = ox\<lparr>ox_rows := tbl_update ob_observation_id k ?f (ox_rows ox)\<rparr>"
    using assms by (auto simp: outbox_mark_failed_def outbox_ready_def)
  have m: "map g (tbl_update ob_observation_id k ?f rows) = map g rows" if "\<And>r. g (?f r) = g r" for g :: "outbox_row \<Rightarrow> 'a" and rows
    using that by (auto simp: tbl_update_def)
  let ?P = "\<lambda>r. 0 < ob_sequence r \<and> ob_sequence r \<le> ox_last_sequence ox \<and> ob_observation_id r \<noteq> [] \<and> 0 \<le> ob_attempts r"
  have old: "\<forall>r \<in> set (ox_rows ox). ?P r" using assms(1) by (simp add: rows_ok_def outbox_ready_def outbox_ok_def)
  have "?P r" if "r \<in> set (tbl_update ob_observation_id k ?f (ox_rows ox))" for r
  proof -
    from that obtain q where "q \<in> set (ox_rows ox)" "r = (if ob_observation_id q = k then ?f q else q)"
      unfolding set_tbl_update by blast
    with old show ?thesis by (cases "ob_observation_id q = k") auto
  qed
  then have "rows_ok ox'" using assms(1) unfolding ox' rows_ok_def outbox_ready_def outbox_ok_def
    by (simp add: m)
  moreover have "length (ox_rows ox') = length (ox_rows ox)" by (simp add: ox' tbl_update_def)
  ultimately show ?thesis using assms(1)
    by (simp add: ox' outbox_ready_def outbox_ok_def outbox_capacity_def pending_def m)
qed

lemma open_calls_return:
  assumes "outbox_ready ox"
  shows "\<exists>ox'. mark_delivered k ox = Inr ox'" "\<exists>ox'. outbox_mark_failed now k err ox = Inr ox'"
    "outbox_oldest ox = Inr (projr (outbox_oldest ox))"
  using assms by (simp_all add: mark_delivered_def outbox_mark_failed_def outbox_oldest_def outbox_ready_def)

text \<open>The interface on the outbox's own operations.\<close>

definition outbox_push :: "(string \<times> json) list \<Rightarrow> outbox \<Rightarrow> outbox \<Rightarrow> bool" where
  "outbox_push items ox ox' = (\<exists>stamps uptime. enqueue_many stamps uptime (map snd items) ox = Inr ox' \<and>
     items = map (\<lambda>p. (observation_key p, p)) (map snd items))"

definition outbox_ack :: "string \<Rightarrow> outbox \<Rightarrow> outbox \<Rightarrow> bool" where
  "outbox_ack k ox ox' = (mark_delivered k ox = Inr ox')"

definition outbox_nack :: "string \<Rightarrow> outbox \<Rightarrow> outbox \<Rightarrow> bool" where
  "outbox_nack k ox ox' = (\<exists>now err. outbox_mark_failed now k err ox = Inr ox')"

interpretation box: delivery_queue outbox_ready outbox_capacity pending outbox_push outbox_head outbox_ack outbox_nack
proof unfold_locales
  fix s :: outbox assume "outbox_ready s"
  then show "distinct (map fst (pending s)) \<and> length (pending s) \<le> outbox_capacity s"
    by (simp add: outbox_ready_def outbox_ok_def rows_ok_def pending_def outbox_capacity_def o_def)
next
  fix s s' :: outbox and items assume "outbox_ready s" "outbox_push items s s'"
  then show "outbox_ready s' \<and> outbox_capacity s' = outbox_capacity s \<and>
      pending s' = newest (outbox_capacity s) (admit items (pending s))"
    unfolding outbox_push_def using enqueue_many_refines by metis
next
  fix s :: outbox assume "outbox_ready s"
  then show "outbox_head s = (case pending s of [] \<Rightarrow> None | x # _ \<Rightarrow> Some x)" by (rule outbox_head_pending)
next
  fix s s' :: outbox and k assume "outbox_ready s" "outbox_ack k s s'"
  then show "outbox_ready s' \<and> outbox_capacity s' = outbox_capacity s \<and> pending s' = filter (\<lambda>x. fst x \<noteq> k) (pending s)"
    unfolding outbox_ack_def by (rule mark_delivered_refines)
next
  fix s s' :: outbox and k assume "outbox_ready s" "outbox_nack k s s'"
  then show "outbox_ready s' \<and> outbox_capacity s' = outbox_capacity s \<and> pending s' = pending s"
    unfolding outbox_nack_def using outbox_mark_failed_refines by blast
qed

section \<open>The outbox is a bounded queue\<close>

text \<open>
  C32. The outbox refines a bounded first-in first-out queue of observations: on an open outbox
  that satisfies its invariant, recording payloads that all have an identifier succeeds and leaves
  the newest \<open>max_entries\<close> of the queue extended by the unknown ones, \<open>oldest\<close> returns the head,
  acknowledging removes exactly that observation, a failed delivery loses nothing; a payload
  without identifier is refused; and each step leaves an open outbox satisfying the invariant.
\<close>

theorem outbox_refines_bounded_queue:
  assumes "outbox_ready ox"
  shows "(if \<forall>p \<in> set ps. observation_key p \<noteq> [] then
      \<exists>ox'. enqueue_many stamps uptime ps ox = Inr ox' \<and> outbox_ready ox' \<and>
        pending ox' = newest (nat (ox_max_entries ox)) (admit (map (\<lambda>p. (observation_key p, p)) ps) (pending ox))
    else \<exists>e. enqueue_many stamps uptime ps ox = Inl e) \<and>
    (\<exists>en. outbox_oldest ox = Inr en \<and> map_option (\<lambda>en. (en_observation_id en, en_payload en)) en =
      (case pending ox of [] \<Rightarrow> None | x # _ \<Rightarrow> Some x)) \<and>
    (\<exists>ox'. mark_delivered k ox = Inr ox' \<and> outbox_ready ox' \<and> pending ox' = filter (\<lambda>x. fst x \<noteq> k) (pending ox)) \<and>
    (\<exists>ox'. outbox_mark_failed now k err ox = Inr ox' \<and> outbox_ready ox' \<and> pending ox' = pending ox)"
proof (intro conjI)
  show "if \<forall>p \<in> set ps. observation_key p \<noteq> [] then
      \<exists>ox'. enqueue_many stamps uptime ps ox = Inr ox' \<and> outbox_ready ox' \<and>
        pending ox' = newest (nat (ox_max_entries ox)) (admit (map (\<lambda>p. (observation_key p, p)) ps) (pending ox))
    else \<exists>e. enqueue_many stamps uptime ps ox = Inl e"
  proof (cases "\<forall>p \<in> set ps. observation_key p \<noteq> []")
    case True
    then obtain rows where "prepare_rows stamps 0 ps = Inr rows" using prepare_rows_total by blast
    then have "\<exists>ox'. enqueue_many stamps uptime ps ox = Inr ox'"
      using assms by (simp add: enqueue_many_def outbox_ready_def split: prod.splits)
    then obtain ox' where e: "enqueue_many stamps uptime ps ox = Inr ox'" ..
    then have "outbox_push (map (\<lambda>p. (observation_key p, p)) ps) ox ox'"
      by (auto simp: outbox_push_def o_def)
    with True e box.push_law[OF assms this] show ?thesis by (simp add: outbox_capacity_def)
  next
    case False
    have "prepare_rows stamps 0 ps \<noteq> Inr rows" for rows
    proof
      assume "prepare_rows stamps 0 ps = Inr rows"
      note r = prepare_rows_result[OF this]
      from arg_cong[OF conjunct1[OF r], of "map fst"] have "map fst rows = map observation_key ps"
        by (simp add: o_def split_def)
      from arg_cong[OF this, of set] have "fst ` set rows = observation_key ` set ps" by simp
      moreover have "[] \<in> observation_key ` set ps" using False by force
      ultimately show False using r by force
    qed
    then obtain e where "prepare_rows stamps 0 ps = Inl e" by (cases "prepare_rows stamps 0 ps") auto
    then have "enqueue_many stamps uptime ps ox = Inl e" by (simp add: enqueue_many_def)
    with False show ?thesis by simp
  qed
  show "\<exists>en. outbox_oldest ox = Inr en \<and> map_option (\<lambda>en. (en_observation_id en, en_payload en)) en =
      (case pending ox of [] \<Rightarrow> None | x # _ \<Rightarrow> Some x)"
  proof -
    from open_calls_return(3)[OF assms] show ?thesis using box.head_law[OF assms, unfolded outbox_head_def] by blast
  qed
  show "\<exists>ox'. mark_delivered k ox = Inr ox' \<and> outbox_ready ox' \<and> pending ox' = filter (\<lambda>x. fst x \<noteq> k) (pending ox)"
    using box.ack_law[OF assms, unfolded outbox_ack_def] open_calls_return(1)[OF assms] by blast
  show "\<exists>ox'. outbox_mark_failed now k err ox = Inr ox' \<and> outbox_ready ox' \<and> pending ox' = pending ox"
    using outbox_mark_failed_refines[OF assms] open_calls_return(2)[OF assms] by blast
qed

definition demo_observation :: "string \<Rightarrow> json" where
  "demo_observation k = JObj [(''observation_id'', JStr k), (''value'', JInt 1)]"

definition demo_outbox :: outbox where
  "demo_outbox = projr (enqueue_many (\<lambda>_. 0) 0 (map demo_observation [''a'', ''b'']) (projr (open_outbox 0 [] 0 3)))"

theorem outbox_refines_bounded_queue_witness:
  "\<exists>ox'. enqueue_many (\<lambda>_. 0) 0 (map demo_observation [''c'', ''a'', ''d'']) demo_outbox = Inr ox' \<and>
     map fst (pending ox') = [''b'', ''c'', ''d'']"
proof -
  let ?ps = "map demo_observation [''c'', ''a'', ''d'']"
  have r: "outbox_ready demo_outbox" by code_simp
  have p: "\<forall>p \<in> set ?ps. observation_key p \<noteq> []" by code_simp
  from conjunct1[OF outbox_refines_bounded_queue[OF r, of ?ps "\<lambda>_. 0" 0 "[]" 0 "[]"], unfolded if_P[OF p]] obtain ox' where
    e: "enqueue_many (\<lambda>_. 0) 0 ?ps demo_outbox = Inr ox'" "pending ox' = newest (nat (ox_max_entries demo_outbox))
        (admit (map (\<lambda>p. (observation_key p, p)) ?ps) (pending demo_outbox))" by blast
  moreover have "map fst (newest (nat (ox_max_entries demo_outbox))
        (admit (map (\<lambda>p. (observation_key p, p)) ?ps) (pending demo_outbox))) = [''b'', ''c'', ''d'']" by code_simp
  ultimately show ?thesis by metis
qed

end
