(* ===== verification/Vision_Client.thy ===== *)
theory Vision_Client
  imports Outbox_Refinement "HOL-Library.Sublist"
begin

text \<open>
  The durable delivery client (observation/exporters/durable_vision_client.py): observations are
  queued in memory by the producers, persisted and delivered in order by the worker. The HTTP
  client it wraps is the parameter \<open>answer\<close>: given the calls made so far and a payload, None when
  Vision accepts it and the text of the \<open>VisionClientError\<close> otherwise.
\<close>

datatype client_log = FirstFailure string string | LaterFailure string string | Restored int

text \<open>One call of \<open>client.send_observation\<close>: the entry's identifier, its payload, the outcome.\<close>

type_synonym vision_call = "string \<times> json \<times> string option"

record vision_client =
  dv_outbox :: outbox
  dv_incoming :: "json list"
  dv_failed_attempts :: int
  dv_stop_event :: bool
  dv_wake_event :: bool
  dv_worker :: bool
  dv_on_progress :: bool
  dv_progress_calls :: int
  dv_calls :: "vision_call list"
  dv_log :: "client_log list"

definition new_vision_client :: "outbox \<Rightarrow> int \<Rightarrow> bool \<Rightarrow> outbox_error + vision_client" where
  "new_vision_client ox retry_microseconds on_progress =
     (if retry_microseconds \<le> 0 then Inl (SettingError ''retry_seconds must be greater than zero.'')
      else Inr \<lparr>dv_outbox = ox, dv_incoming = [], dv_failed_attempts = 0, dv_stop_event = False,
        dv_wake_event = False, dv_worker = False, dv_on_progress = on_progress, dv_progress_calls = 0,
        dv_calls = [], dv_log = []\<rparr>)"

definition client_pending_count :: "vision_client \<Rightarrow> outbox_error + nat" where
  "client_pending_count d = (case outbox_pending_count (dv_outbox d) of
     Inl e \<Rightarrow> Inl e | Inr n \<Rightarrow> Inr (length (dv_incoming d) + n))"

definition client_start :: "vision_client \<Rightarrow> vision_client" where
  "client_start d = (if dv_worker d then d
     else d\<lparr>dv_stop_event := False, dv_worker := True, dv_wake_event := True\<rparr>)"

definition send_observation :: "json \<Rightarrow> vision_client \<Rightarrow> outbox_error + vision_client" where
  "send_observation payload d =
     (if observation_key payload = [] then Inl (PayloadError ''Vision observation payload must contain observation_id.'')
      else Inr (d\<lparr>dv_incoming := dv_incoming d @ [payload], dv_wake_event := True\<rparr>))"

text \<open>
  \<open>_persist_incoming\<close>: the batch is a copy of the queue; \<open>arrivals\<close> are the payloads producers
  append while it is being written: they stay queued, and \<open>send_observation\<close> has set the wake event.
\<close>

definition arrive :: "json list \<Rightarrow> vision_client \<Rightarrow> vision_client" where
  "arrive arrivals d = d\<lparr>dv_incoming := dv_incoming d @ arrivals, dv_wake_event := dv_wake_event d \<or> arrivals \<noteq> []\<rparr>"

definition persist_incoming ::
  "(nat \<Rightarrow> instant) \<Rightarrow> int \<Rightarrow> json list \<Rightarrow> vision_client \<Rightarrow> (outbox_error + unit) \<times> vision_client" where
  "persist_incoming stamps uptime arrivals d =
     (let batch = dv_incoming d; d1 = arrive arrivals d
      in case enqueue_many stamps uptime batch (dv_outbox d) of
           Inl e \<Rightarrow> (Inl e, d1)
         | Inr ox \<Rightarrow> (Inr (), d1\<lparr>dv_outbox := ox, dv_incoming := drop (length batch) (dv_incoming d1)\<rparr>))"

text \<open>
  The surroundings of a pass: Vision's answers, the clock, and \<open>halt\<close>, whether \<open>stop\<close> has set the
  stop event from another thread once the given calls were made.
\<close>

record delivery_world =
  dw_answer :: "vision_call list \<Rightarrow> json \<Rightarrow> string option"
  dw_clock :: "vision_call list \<Rightarrow> instant"
  dw_halt :: "vision_call list \<Rightarrow> bool"

text \<open>The bodies of the \<open>except\<close> branch and of the delivered branch of the loop.\<close>

definition note_failure :: "string \<Rightarrow> string \<Rightarrow> vision_client \<Rightarrow> vision_client" where
  "note_failure k err d = d\<lparr>dv_failed_attempts := dv_failed_attempts d + 1,
     dv_log := dv_log d @ [if dv_failed_attempts d + 1 = 1 then FirstFailure k err else LaterFailure k err]\<rparr>"

definition note_delivery :: "vision_client \<Rightarrow> vision_client" where
  "note_delivery d = (if dv_failed_attempts d \<noteq> 0
     then d\<lparr>dv_log := dv_log d @ [Restored (dv_failed_attempts d)], dv_failed_attempts := 0\<rparr> else d)"

text \<open>The \<open>while\<close> loop of \<open>flush\<close>; its value is the number delivered and whether it drained.\<close>

function flush_loop :: "delivery_world \<Rightarrow> int \<Rightarrow> vision_client \<Rightarrow> (outbox_error + int \<times> bool) \<times> vision_client" where
  "flush_loop w delivered d =
     (if dv_stop_event d \<or> dw_halt w (dv_calls d) then (Inr (delivered, False), d)
      else case outbox_oldest (dv_outbox d) of
        Inl e \<Rightarrow> (Inl e, d)
      | Inr None \<Rightarrow> (Inr (delivered, True), d)
      | Inr (Some en) \<Rightarrow>
          (let k = en_observation_id en; answer = dw_answer w (dv_calls d) (en_payload en);
               d1 = d\<lparr>dv_calls := dv_calls d @ [(k, en_payload en, answer)]\<rparr>
           in case answer of
                Some err \<Rightarrow>
                  (case outbox_mark_failed (dw_clock w (dv_calls d1)) k err (dv_outbox d) of
                     Inl e \<Rightarrow> (Inl e, d1)
                   | Inr ox \<Rightarrow> (Inr (delivered, False), note_failure k err (d1\<lparr>dv_outbox := ox\<rparr>)))
              | None \<Rightarrow>
                  (case mark_delivered k (dv_outbox d) of
                     Inl e \<Rightarrow> (Inl e, d1)
                   | Inr ox \<Rightarrow> flush_loop w (delivered + 1) (note_delivery (d1\<lparr>dv_outbox := ox\<rparr>)))))"
  by pat_completeness auto

lemma oldest_delivered_shrinks:
  assumes "outbox_oldest ox = Inr (Some en)" "mark_delivered (en_observation_id en) ox = Inr ox'"
  shows "length (ox_rows ox') < length (ox_rows ox)"
proof -
  from assms(1) obtain r where r: "first_min ob_sequence (ox_rows ox) = Some r" "en_observation_id en = ob_observation_id r"
    by (auto simp: outbox_oldest_def split: if_splits)
  from first_min_in[OF r(1)] have "r \<in> set (ox_rows ox)" .
  then show ?thesis using assms(2) r(2) length_filter_less[of r "ox_rows ox" "\<lambda>q. ob_observation_id q \<noteq> en_observation_id en"]
    by (auto simp: mark_delivered_def split: if_splits)
qed

lemma note_delivery_outbox [simp]: "dv_outbox (note_delivery d) = dv_outbox d"
  by (simp add: note_delivery_def)

termination flush_loop
  by (relation "measure (\<lambda>(w, n, d). length (ox_rows (dv_outbox d)))") (auto dest: oldest_delivered_shrinks)

declare flush_loop.simps [simp del]

definition flush :: "delivery_world \<Rightarrow> (nat \<Rightarrow> instant) \<Rightarrow> int \<Rightarrow> json list \<Rightarrow> vision_client \<Rightarrow>
    (outbox_error + int) \<times> vision_client" where
  "flush w stamps uptime arrivals d =
     (case persist_incoming stamps uptime arrivals d of
        (Inl e, d1) \<Rightarrow> (Inl e, d1)
      | (Inr _, d1) \<Rightarrow>
          (case flush_loop w 0 d1 of
             (Inl e, d2) \<Rightarrow> (Inl e, d2)
           | (Inr (delivered, drained), d2) \<Rightarrow>
               (Inr delivered, if (delivered \<noteq> 0 \<or> drained) \<and> dv_on_progress d2
                  then d2\<lparr>dv_progress_calls := dv_progress_calls d2 + 1\<rparr> else d2)))"

text \<open>
  One turn of \<open>_run\<close> after its wait; an exception of \<open>flush\<close> ends the thread. \<open>arrivals\<close> are the
  payloads producers append during the turn.
\<close>

definition run_turn :: "delivery_world \<Rightarrow> (nat \<Rightarrow> instant) \<Rightarrow> int \<Rightarrow> json list \<Rightarrow> vision_client \<Rightarrow> vision_client" where
  "run_turn w stamps uptime arrivals d =
     (if dv_stop_event d then arrive arrivals (d\<lparr>dv_worker := False\<rparr>)
      else let d1 = d\<lparr>dv_wake_event := False\<rparr>
           in if dw_halt w (dv_calls d1) then arrive arrivals d1
              else case flush w stamps uptime arrivals d1 of
                (Inl _, d2) \<Rightarrow> d2\<lparr>dv_worker := False\<rparr>
              | (Inr _, d2) \<Rightarrow> d2)"

definition client_stop :: "(nat \<Rightarrow> instant) \<Rightarrow> int \<Rightarrow> vision_client \<Rightarrow> (outbox_error + unit) \<times> vision_client" where
  "client_stop stamps uptime d =
     (case persist_incoming stamps uptime []
             (d\<lparr>dv_stop_event := True, dv_wake_event := True, dv_worker := False\<rparr>) of
        (Inl e, d1) \<Rightarrow> (Inl e, d1)
      | (Inr _, d1) \<Rightarrow> (Inr (), d1\<lparr>dv_outbox := outbox_close (dv_outbox d1)\<rparr>))"

end
