(* ===== verification/Delivery_Properties.thy ===== *)
theory Delivery_Properties
  imports Vision_Client
begin

text \<open>
  What the delivery client guarantees: one pass delivers the persisted queue in order up to the
  first refusal, and over any history of calls an observation that was accepted is delivered in
  order, still held, or dropped by the limit of the outbox.
\<close>

section \<open>One turn of the loop\<close>

lemma oldest_nil:
  assumes "outbox_ready ox" "pending ox = []"
  shows "outbox_oldest ox = Inr None"
  using open_calls_return(3)[OF assms(1)] box.head_None[OF assms(1)] assms(2) by (simp add: outbox_head_def)

lemma oldest_cons:
  assumes "outbox_ready ox" "pending ox = x # q"
  obtains en ox' where "outbox_oldest ox = Inr (Some en)" "en_observation_id en = fst x" "en_payload en = snd x"
    "mark_delivered (fst x) ox = Inr ox'" "outbox_ready ox'" "pending ox' = q"
    "outbox_capacity ox' = outbox_capacity ox"
proof -
  have h: "outbox_head ox = Some x" using box.head_law[OF assms(1)] assms(2) by simp
  then obtain en where en: "outbox_oldest ox = Inr (Some en)" "(en_observation_id en, en_payload en) = x"
    using open_calls_return(3)[OF assms(1)] unfolding outbox_head_def
    by (cases "projr (outbox_oldest ox)") auto
  obtain ox' where a: "mark_delivered (fst x) ox = Inr ox'" using open_calls_return(1)[OF assms(1)] by blast
  then have "outbox_ack (fst x) ox ox'" by (simp add: outbox_ack_def)
  note law = box.ack_law[OF assms(1) this] box.ack_head[OF assms(1) h this]
  show ?thesis by (rule that[OF en(1) _ _ a]) (use en(2) law assms(2) in auto)
qed

section \<open>One pass\<close>

text \<open>
  The calls of a pass that delivers the first \<open>k\<close> of the queue \<open>q\<close>, and how it ends: stopped,
  drained, or at the refusal of the next observation.
\<close>

definition delivered_calls :: "nat \<Rightarrow> (string \<times> json) list \<Rightarrow> vision_call list" where
  "delivered_calls k q = map (\<lambda>(i, p). (i, p, None)) (take k q)"

definition pass_end :: "delivery_world \<Rightarrow> vision_client \<Rightarrow> (string \<times> json) list \<Rightarrow> nat \<Rightarrow> bool \<Rightarrow> vision_client \<Rightarrow> bool" where
  "pass_end w d q k drained d' = (let calls = dv_calls d @ delivered_calls k q; reset = (if k = 0 then dv_failed_attempts d else 0) in
     if dv_stop_event d \<or> dw_halt w calls
     then \<not> drained \<and> dv_calls d' = calls \<and> dv_failed_attempts d' = reset
     else if k < length q
     then \<not> drained \<and> dv_failed_attempts d' = reset + 1 \<and>
       (\<exists>err. dw_answer w calls (snd (q ! k)) = Some err \<and> dv_calls d' = calls @ [(fst (q ! k), snd (q ! k), Some err)])
     else drained \<and> dv_calls d' = calls \<and> dv_failed_attempts d' = reset)"

lemma note_delivery_same [simp]:
  "dv_calls (note_delivery d) = dv_calls d" "dv_incoming (note_delivery d) = dv_incoming d"
  "dv_stop_event (note_delivery d) = dv_stop_event d" "dv_on_progress (note_delivery d) = dv_on_progress d"
  "dv_failed_attempts (note_delivery d) = 0" "dv_progress_calls (note_delivery d) = dv_progress_calls d"
  by (simp_all add: note_delivery_def)

lemma note_failure_same [simp]:
  "dv_calls (note_failure k err d) = dv_calls d" "dv_incoming (note_failure k err d) = dv_incoming d"
  "dv_outbox (note_failure k err d) = dv_outbox d" "dv_on_progress (note_failure k err d) = dv_on_progress d"
  "dv_failed_attempts (note_failure k err d) = dv_failed_attempts d + 1"
  "dv_progress_calls (note_failure k err d) = dv_progress_calls d"
  by (simp_all add: note_failure_def)

lemma flush_loop_pass:
  assumes "outbox_ready (dv_outbox d)"
  shows "\<exists>k drained d'. flush_loop w n d = (Inr (n + int k, drained), d') \<and> k \<le> length (pending (dv_outbox d)) \<and>
    outbox_ready (dv_outbox d') \<and> outbox_capacity (dv_outbox d') = outbox_capacity (dv_outbox d) \<and>
    pending (dv_outbox d') = drop k (pending (dv_outbox d)) \<and> dv_incoming d' = dv_incoming d \<and>
    dv_on_progress d' = dv_on_progress d \<and> dv_progress_calls d' = dv_progress_calls d \<and>
    pass_end w d (pending (dv_outbox d)) k drained d'"
  using assms
proof (induction "pending (dv_outbox d)" arbitrary: n d)
  case Nil
  then show ?case
    by (intro exI[of _ 0] exI[of _ "\<not> (dv_stop_event d \<or> dw_halt w (dv_calls d))"] exI[of _ d])
       (simp add: flush_loop.simps[of w n d] oldest_nil pass_end_def delivered_calls_def)
next
  case (Cons x q)
  show ?case
  proof (cases "dv_stop_event d \<or> dw_halt w (dv_calls d)")
    case True
    then show ?thesis using Cons.prems
      by (intro exI[of _ 0] exI[of _ False] exI[of _ d])
         (simp add: flush_loop.simps[of w n d] pass_end_def delivered_calls_def)
  next
    case running: False
    obtain en ox' where en: "outbox_oldest (dv_outbox d) = Inr (Some en)" "en_observation_id en = fst x"
      "en_payload en = snd x" "mark_delivered (fst x) (dv_outbox d) = Inr ox'" "outbox_ready ox'" "pending ox' = q"
      "outbox_capacity ox' = outbox_capacity (dv_outbox d)"
      using oldest_cons[OF Cons.prems Cons.hyps(2)[symmetric]] .
    let ?a = "dw_answer w (dv_calls d) (snd x)"
    let ?d1 = "d\<lparr>dv_calls := dv_calls d @ [(fst x, snd x, ?a)]\<rparr>"
    show ?thesis
    proof (cases ?a)
      case (Some err)
      let ?now = "dw_clock w (dv_calls ?d1)"
      obtain oxf where f: "outbox_mark_failed ?now (fst x) err (dv_outbox d) = Inr oxf"
        using open_calls_return(2)[OF Cons.prems] by blast
      have "flush_loop w n d = (Inr (n, False), note_failure (fst x) err (?d1\<lparr>dv_outbox := oxf\<rparr>))"
        using running en Some f by (simp add: flush_loop.simps[of w n d] Let_def)
      with running Some outbox_mark_failed_refines[OF Cons.prems f] show ?thesis
        by (intro exI[of _ 0] exI[of _ False] exI[of _ "note_failure (fst x) err (?d1\<lparr>dv_outbox := oxf\<rparr>)"])
           (simp add: pass_end_def delivered_calls_def Cons.hyps(2)[symmetric])
    next
      case None
      let ?d2 = "note_delivery (?d1\<lparr>dv_outbox := ox'\<rparr>)"
      have step: "flush_loop w n d = flush_loop w (n + 1) ?d2"
        using running en None by (simp add: flush_loop.simps[of w n d] Let_def)
      from Cons.hyps(1)[of ?d2 "n + 1"] en(5,6) obtain k drained d' where
        IH: "flush_loop w (n + 1) ?d2 = (Inr (n + 1 + int k, drained), d')" "k \<le> length q"
          "outbox_ready (dv_outbox d')" "outbox_capacity (dv_outbox d') = outbox_capacity ox'"
          "pending (dv_outbox d') = drop k q" "dv_incoming d' = dv_incoming d" "dv_on_progress d' = dv_on_progress d"
          "dv_progress_calls d' = dv_progress_calls d" "pass_end w ?d2 q k drained d'" by auto
      have "pass_end w d (x # q) (Suc k) drained d'"
      proof -
        have c: "dv_calls ?d2 @ delivered_calls k q = dv_calls d @ delivered_calls (Suc k) (x # q)"
          using None by (simp add: delivered_calls_def split_def)
        have s: "dv_stop_event ?d2 = dv_stop_event d" "(if k = 0 then dv_failed_attempts ?d2 else 0) = 0" by simp_all
        from IH(9) show ?thesis unfolding pass_end_def c s Let_def by (auto split: if_splits)
      qed
      with step IH en(7) show ?thesis
        by (intro exI[of _ "Suc k"] exI[of _ drained] exI[of _ d']) (simp add: Cons.hyps(2)[symmetric])
    qed
  qed
qed

lemma persist_ready:
  assumes "outbox_ready (dv_outbox d)" "\<forall>p \<in> set (dv_incoming d). observation_key p \<noteq> []"
  shows "\<exists>d'. persist_incoming stamps uptime arrivals d = (Inr (), d') \<and> outbox_ready (dv_outbox d') \<and>
    outbox_capacity (dv_outbox d') = outbox_capacity (dv_outbox d) \<and>
    pending (dv_outbox d') = newest (outbox_capacity (dv_outbox d))
      (admit (map (\<lambda>p. (observation_key p, p)) (dv_incoming d)) (pending (dv_outbox d))) \<and>
    d' = (arrive arrivals d)\<lparr>dv_outbox := dv_outbox d', dv_incoming := arrivals\<rparr>"
proof -
  obtain rows where "prepare_rows stamps 0 (dv_incoming d) = Inr rows" using prepare_rows_total[OF assms(2)] by blast
  then have "\<exists>ox'. enqueue_many stamps uptime (dv_incoming d) (dv_outbox d) = Inr ox'"
    using assms(1) by (simp add: enqueue_many_def outbox_ready_def split: prod.splits)
  then obtain ox' where e: "enqueue_many stamps uptime (dv_incoming d) (dv_outbox d) = Inr ox'" ..
  from enqueue_many_refines[OF assms(1) e] show ?thesis
    by (simp add: persist_incoming_def Let_def e arrive_def)
qed

text \<open>
  A pass delivers the queue in order up to the first refusal. Unless it is told to stop, one
  \<open>flush\<close> persists what producers queued, calls Vision with a prefix of the resulting queue in
  order, removes exactly that prefix, and ends either with the queue empty or at the first
  observation Vision refuses, which stays at the head and is the last call made; the failure
  counter restarts at every delivery; arrivals during the write stay queued; and progress is
  reported exactly when something was delivered or nothing is left.
\<close>

theorem flush_delivers_until_first_refusal:
  assumes "outbox_ready (dv_outbox d)" "\<forall>p \<in> set (dv_incoming d). observation_key p \<noteq> []"
    and "\<not> dv_stop_event d" "\<And>calls. \<not> dw_halt w calls"
  shows "\<exists>q k d'. q = newest (outbox_capacity (dv_outbox d))
        (admit (map (\<lambda>p. (observation_key p, p)) (dv_incoming d)) (pending (dv_outbox d))) \<and>
    flush w stamps uptime arrivals d = (Inr (int k), d') \<and> k \<le> length q \<and>
    pending (dv_outbox d') = drop k q \<and> outbox_ready (dv_outbox d') \<and> dv_incoming d' = arrivals \<and>
    (if k < length q then \<exists>err.
        dw_answer w (dv_calls d @ delivered_calls k q) (snd (q ! k)) = Some err \<and>
        dv_calls d' = dv_calls d @ delivered_calls k q @ [(fst (q ! k), snd (q ! k), Some err)]
      else dv_calls d' = dv_calls d @ delivered_calls k q) \<and>
    dv_failed_attempts d' = (if k = 0 then dv_failed_attempts d else 0) + (if k < length q then 1 else 0) \<and>
    dv_progress_calls d' = dv_progress_calls d + (if (0 < k \<or> q = []) \<and> dv_on_progress d then 1 else 0)"
proof -
  from persist_ready[OF assms(1,2), of stamps uptime arrivals] obtain d1 where
    d1: "persist_incoming stamps uptime arrivals d = (Inr (), d1)" "outbox_ready (dv_outbox d1)"
      "pending (dv_outbox d1) = newest (outbox_capacity (dv_outbox d))
        (admit (map (\<lambda>p. (observation_key p, p)) (dv_incoming d)) (pending (dv_outbox d)))" (is "_ = ?q")
      "d1 = (arrive arrivals d)\<lparr>dv_outbox := dv_outbox d1, dv_incoming := arrivals\<rparr>" by blast
  from d1(4) have same: "dv_calls d1 = dv_calls d" "dv_stop_event d1 = dv_stop_event d" "dv_incoming d1 = arrivals"
    "dv_failed_attempts d1 = dv_failed_attempts d" "dv_on_progress d1 = dv_on_progress d"
    "dv_progress_calls d1 = dv_progress_calls d"
    by (cases d1; cases d; simp add: arrive_def)+
  from flush_loop_pass[OF d1(2), of w 0] obtain k drained d2 where
    L: "flush_loop w 0 d1 = (Inr (int k, drained), d2)" "k \<le> length ?q" "outbox_ready (dv_outbox d2)"
      "pending (dv_outbox d2) = drop k ?q" "dv_incoming d2 = dv_incoming d1" "dv_on_progress d2 = dv_on_progress d1"
      "dv_progress_calls d2 = dv_progress_calls d1" "pass_end w d1 ?q k drained d2" by (auto simp: d1(3))
  have pe: "drained = (\<not> k < length ?q)"
    "if k < length ?q then \<exists>err. dw_answer w (dv_calls d @ delivered_calls k ?q) (snd (?q ! k)) = Some err \<and>
        dv_calls d2 = dv_calls d @ delivered_calls k ?q @ [(fst (?q ! k), snd (?q ! k), Some err)]
      else dv_calls d2 = dv_calls d @ delivered_calls k ?q"
    "dv_failed_attempts d2 = (if k = 0 then dv_failed_attempts d else 0) + (if k < length ?q then 1 else 0)"
    using L(8) same assms(3,4) by (auto simp: pass_end_def Let_def split: if_splits)
  let ?d' = "if (int k \<noteq> 0 \<or> drained) \<and> dv_on_progress d2
     then d2\<lparr>dv_progress_calls := dv_progress_calls d2 + 1\<rparr> else d2"
  have "flush w stamps uptime arrivals d = (Inr (int k), ?d')" by (simp add: flush_def d1(1) L(1))
  with L pe same show ?thesis by (intro exI[of _ ?q] exI[of _ k] exI[of _ ?d']) auto
qed

definition demo_client :: vision_client where
  "demo_client = (projr (new_vision_client demo_outbox (seconds 10) True))\<lparr>dv_incoming := [demo_observation ''c'']\<rparr>"

definition demo_world :: delivery_world where
  "demo_world = \<lparr>dw_answer = (\<lambda>_ p. if p = demo_observation ''b'' then Some ''503'' else None), dw_clock = (\<lambda>_. 5),
     dw_halt = (\<lambda>_. False)\<rparr>"

theorem flush_delivers_until_first_refusal_witness:
  "fst (flush demo_world (\<lambda>_. 1) 0 [] demo_client) = Inr 1 \<and>
   map fst (pending (dv_outbox (snd (flush demo_world (\<lambda>_. 1) 0 [] demo_client)))) = [''b'', ''c'']"
proof -
  let ?f = "flush demo_world (\<lambda>_. 1) 0 [] demo_client"
  have h: "outbox_ready (dv_outbox demo_client)" "\<forall>p \<in> set (dv_incoming demo_client). observation_key p \<noteq> []"
    "\<not> dv_stop_event demo_client" by code_simp+
  have "\<not> dw_halt demo_world calls" for calls by (simp add: demo_world_def)
  from flush_delivers_until_first_refusal[OF h this, of "\<lambda>_. 1" 0 "[]"] obtain q k d' where
    f: "q = newest (outbox_capacity (dv_outbox demo_client))
        (admit (map (\<lambda>p. (observation_key p, p)) (dv_incoming demo_client)) (pending (dv_outbox demo_client)))"
      "?f = (Inr (int k), d')" "pending (dv_outbox d') = drop k q" by blast
  have q: "map fst (newest (outbox_capacity (dv_outbox demo_client))
        (admit (map (\<lambda>p. (observation_key p, p)) (dv_incoming demo_client)) (pending (dv_outbox demo_client)))) =
      [''a'', ''b'', ''c'']" by code_simp
  have one: "fst ?f = Inr 1" by code_simp
  then have "k = 1" using f(2) by simp
  then have "map fst (pending (dv_outbox d')) = [''b'', ''c'']" using f(1,3) q by (simp add: drop_map[symmetric])
  with one f(2) show ?thesis by simp
qed

section \<open>Histories\<close>

definition item :: "json \<Rightarrow> string \<times> json" where
  "item p = (observation_key p, p)"

text \<open>What Vision accepted, in order, and everything the client still knows of.\<close>

definition delivered_items :: "vision_client \<Rightarrow> (string \<times> json) list" where
  "delivered_items d = map (\<lambda>(i, p, _). (i, p)) (filter (\<lambda>(_, _, a). a = None) (dv_calls d))"

definition known_items :: "vision_client \<Rightarrow> (string \<times> json) list" where
  "known_items d = delivered_items d @ pending (dv_outbox d) @ map item (dv_incoming d)"

text \<open>
  The histories of a client: opened on an outbox, then producers' calls, turns of the worker with
  any answers of Vision and any arrivals, stop and start. The list is what the client accepted,
  what it found in the outbox first.
\<close>

inductive session :: "(string \<times> json) list \<Rightarrow> vision_client \<Rightarrow> bool" where
  opened: "outbox_ok ox \<Longrightarrow> new_vision_client ox retry on_progress = Inr d \<Longrightarrow> session (pending ox) d"
| sent: "session acc d \<Longrightarrow> send_observation p d = Inr d' \<Longrightarrow> session (acc @ [item p]) d'"
| turned: "session acc d \<Longrightarrow> (\<forall>p \<in> set arrivals. observation_key p \<noteq> []) \<Longrightarrow>
    session (acc @ map item arrivals) (run_turn w stamps uptime arrivals d)"
| started: "session acc d \<Longrightarrow> session acc (client_start d)"
| stopped: "session acc d \<Longrightarrow> client_stop stamps uptime d = (r, d') \<Longrightarrow> session acc d'"

definition session_inv :: "(string \<times> json) list \<Rightarrow> vision_client \<Rightarrow> bool" where
  "session_inv acc d \<longleftrightarrow> outbox_ok (dv_outbox d) \<and> (\<forall>p \<in> set (dv_incoming d). observation_key p \<noteq> []) \<and>
     subseq (known_items d) acc \<and>
     (length acc \<le> outbox_capacity (dv_outbox d) \<longrightarrow> fst ` set acc \<subseteq> fst ` set (known_items d))"

lemma admit_subseq: "subseq (admit items q) (q @ items)"
  unfolding admit_def
proof (induction items arbitrary: q)
  case (Cons x xs)
  have "subseq (admit1 x q @ xs) (q @ x # xs)" using admit1_cases[of x q] by (auto intro: list_emb_append_mono)
  with Cons[of "admit1 x q"] show ?case by (auto intro: subseq_order.trans)
qed simp

lemma newest_subseq: "subseq (newest n xs) xs"
  unfolding newest_def by (rule suffix_imp_subseq[OF suffix_drop])

lemma session_inv_cong:
  assumes "session_inv acc d" "dv_outbox d' = dv_outbox d" "dv_incoming d' = dv_incoming d" "dv_calls d' = dv_calls d"
  shows "session_inv acc d'"
  using assms by (simp add: session_inv_def known_items_def delivered_items_def)

lemma session_inv_arrive:
  assumes "session_inv acc d" "\<forall>p \<in> set arrivals. observation_key p \<noteq> []"
  shows "session_inv (acc @ map item arrivals) (arrive arrivals d)"
proof -
  have k: "known_items (arrive arrivals d) = known_items d @ map item arrivals"
    by (simp add: known_items_def arrive_def delivered_items_def)
  have "outbox_ok (dv_outbox d)" "\<forall>p \<in> set (dv_incoming d). observation_key p \<noteq> []" "subseq (known_items d) acc"
    "length acc \<le> outbox_capacity (dv_outbox d) \<longrightarrow> fst ` set acc \<subseteq> fst ` set (known_items d)"
    using assms(1) by (simp_all add: session_inv_def)
  then show ?thesis unfolding session_inv_def k
    using assms(2) by (auto simp: arrive_def intro: list_emb_append_mono)
qed

text \<open>Writing the batch: the queue takes it over, dropping duplicates and, at the limit, the oldest.\<close>

lemma session_inv_push:
  assumes "session_inv acc d" "outbox_ok ox" "outbox_capacity ox = outbox_capacity (dv_outbox d)"
    and "pending ox = newest (outbox_capacity ox) (admit (map item (dv_incoming d)) (pending (dv_outbox d)))"
    and "dv_outbox d' = ox" "dv_incoming d' = []" "dv_calls d' = dv_calls d"
  shows "session_inv acc d'"
proof -
  let ?q = "pending (dv_outbox d) @ map item (dv_incoming d)" and ?a = "admit (map item (dv_incoming d)) (pending (dv_outbox d))"
  have k: "known_items d = delivered_items d @ ?q" "known_items d' = delivered_items d @ pending ox"
    using assms(5-7) by (simp_all add: known_items_def delivered_items_def)
  have "subseq (pending ox) ?q"
    using subseq_order.trans[OF newest_subseq admit_subseq] assms(4) by simp
  then have "subseq (known_items d') (known_items d)" unfolding k by (simp add: list_emb_append_mono)
  moreover have "subseq (known_items d) acc" using assms(1) by (simp add: session_inv_def)
  ultimately have sub: "subseq (known_items d') acc" by (rule subseq_order.trans)
  have "fst ` set acc \<subseteq> fst ` set (known_items d')" if cap: "length acc \<le> outbox_capacity ox"
  proof -
    have "length (known_items d) \<le> length acc" using \<open>subseq (known_items d) acc\<close> by (rule list_emb_length)
    then have "length ?a \<le> outbox_capacity ox"
      using cap length_admit[of "map item (dv_incoming d)" "pending (dv_outbox d)"] k(1) by simp
    then have "fst ` set (known_items d') = fst ` set (known_items d)"
      using assms(4) by (simp add: k newest_all image_Un admit_keys Un_ac)
    then show ?thesis using assms(1,3) cap by (simp add: session_inv_def)
  qed
  with sub assms show ?thesis by (simp add: session_inv_def)
qed

lemma session_inv_persist:
  assumes "session_inv acc d" "\<forall>p \<in> set arrivals. observation_key p \<noteq> []"
    and "persist_incoming stamps uptime arrivals d = (r, d')"
  shows "session_inv (acc @ map item arrivals) d'"
proof (cases "enqueue_many stamps uptime (dv_incoming d) (dv_outbox d)")
  case (Inl e)
  with assms show ?thesis using session_inv_arrive[OF assms(1,2)] by (simp add: persist_incoming_def Let_def)
next
  case (Inr ox)
  have ok: "outbox_ok (dv_outbox d)" using assms(1) by (simp add: session_inv_def)
  let ?d0 = "d\<lparr>dv_outbox := ox, dv_incoming := []\<rparr>"
  have law: "outbox_ok ox \<and> outbox_capacity ox = outbox_capacity (dv_outbox d) \<and>
      pending ox = newest (outbox_capacity ox) (admit (map item (dv_incoming d)) (pending (dv_outbox d)))"
  proof (cases "ox_closed (dv_outbox d)")
    case True
    with Inr have "dv_incoming d = []" "ox = dv_outbox d"
      by (auto simp: enqueue_many_def split: sum.splits if_splits dest: prepare_rows_result)
    with ok show ?thesis by (simp add: admit_def newest_all outbox_capacity_def outbox_ok_def pending_def)
  next
    case False
    then have "outbox_ready (dv_outbox d)" using ok by (simp add: outbox_ready_def)
    from enqueue_many_refines[OF this Inr] show ?thesis by (simp add: outbox_ready_def item_def[abs_def])
  qed
  have "session_inv acc ?d0" by (rule session_inv_push[OF assms(1)]) (use law in auto)
  from session_inv_arrive[OF this assms(2)] show ?thesis
    by (rule session_inv_cong) (use assms(3) Inr in \<open>auto simp: persist_incoming_def Let_def arrive_def\<close>)
qed

text \<open>Delivery moves the head of the queue to the end of what was delivered.\<close>

lemma pass_known:
  assumes "pass_end w d q k drained d'" "pending (dv_outbox d) = q" "pending (dv_outbox d') = drop k q"
    and "dv_incoming d' = dv_incoming d"
  shows "known_items d' = known_items d"
proof -
  have "filter (\<lambda>(_, _, a). a = None) (delivered_calls k q) = delivered_calls k q"
    "map (\<lambda>(i, p, _). (i, p)) (delivered_calls k q) = take k q"
    by (auto simp: delivered_calls_def filter_id_conv o_def split_def)
  then have "delivered_items d' = delivered_items d @ take k q"
    using assms(1) by (auto simp: pass_end_def Let_def delivered_items_def split: if_splits)
  with assms(2-4) show ?thesis by (simp add: known_items_def)
qed

lemma session_inv_loop:
  assumes "session_inv acc d" "flush_loop w n d = (r, d')"
  shows "session_inv acc d'"
proof (cases "ox_closed (dv_outbox d)")
  case True
  with assms(2) have "d' = d" by (simp add: flush_loop.simps[of w n d] outbox_oldest_def split: if_splits)
  with assms(1) show ?thesis by simp
next
  case False
  then have "outbox_ready (dv_outbox d)" using assms(1) by (simp add: outbox_ready_def session_inv_def)
  from flush_loop_pass[OF this, of w n] assms(2) obtain k drained where
    L: "outbox_ready (dv_outbox d')" "outbox_capacity (dv_outbox d') = outbox_capacity (dv_outbox d)"
      "pending (dv_outbox d') = drop k (pending (dv_outbox d))" "dv_incoming d' = dv_incoming d"
      "pass_end w d (pending (dv_outbox d)) k drained d'" by auto
  from pass_known[OF L(5) refl L(3,4)] L assms(1) show ?thesis by (simp add: session_inv_def outbox_ready_def)
qed

lemma session_inv_flush:
  assumes "session_inv acc d" "\<forall>p \<in> set arrivals. observation_key p \<noteq> []" "flush w stamps uptime arrivals d = (r, d')"
  shows "session_inv (acc @ map item arrivals) d'"
proof -
  obtain r1 d1 where p: "persist_incoming stamps uptime arrivals d = (r1, d1)" by fastforce
  note one = session_inv_persist[OF assms(1,2) p]
  obtain r2 d2 where l: "flush_loop w 0 d1 = (r2, d2)" by fastforce
  note two = session_inv_loop[OF one l]
  from assms(3) p l have "d' = d1 \<or> d' = d2 \<or> d' = d2\<lparr>dv_progress_calls := dv_progress_calls d2 + 1\<rparr>"
    by (auto simp: flush_def split: sum.splits if_splits)
  then show ?thesis using one two session_inv_cong[OF two, of "d2\<lparr>dv_progress_calls := dv_progress_calls d2 + 1\<rparr>"] by auto
qed

lemma session_inv_turn:
  assumes "session_inv acc d" "\<forall>p \<in> set arrivals. observation_key p \<noteq> []"
  shows "session_inv (acc @ map item arrivals) (run_turn w stamps uptime arrivals d)"
proof -
  have quiet: "session_inv (acc @ map item arrivals) (arrive arrivals d')"
    if "d' = d\<lparr>dv_worker := False\<rparr> \<or> d' = d\<lparr>dv_wake_event := False\<rparr>" for d'
    by (rule session_inv_arrive[OF session_inv_cong[OF assms(1)] assms(2)]) (use that in auto)
  obtain r d' where f: "flush w stamps uptime arrivals (d\<lparr>dv_wake_event := False\<rparr>) = (r, d')" by fastforce
  have "session_inv acc (d\<lparr>dv_wake_event := False\<rparr>)" by (rule session_inv_cong[OF assms(1)]) simp_all
  note fl = session_inv_flush[OF this assms(2) f]
  have "session_inv (acc @ map item arrivals) (d'\<lparr>dv_worker := False\<rparr>)" by (rule session_inv_cong[OF fl]) simp_all
  with fl quiet f show ?thesis by (simp add: run_turn_def Let_def split: sum.splits)
qed

lemma session_inv_stop:
  assumes "session_inv acc d" "client_stop stamps uptime d = (r, d')"
  shows "session_inv acc d'"
proof -
  let ?d = "d\<lparr>dv_stop_event := True, dv_wake_event := True, dv_worker := False\<rparr>"
  obtain r1 d1 where p: "persist_incoming stamps uptime [] ?d = (r1, d1)" by fastforce
  have "session_inv acc ?d" by (rule session_inv_cong[OF assms(1)]) simp_all
  from session_inv_persist[OF this _ p] have one: "session_inv acc d1" by simp
  then have "session_inv acc (d1\<lparr>dv_outbox := outbox_close (dv_outbox d1)\<rparr>)"
    by (simp add: session_inv_def outbox_ok_def rows_ok_def outbox_close_def known_items_def delivered_items_def
        pending_def outbox_capacity_def)
  with one assms(2) p show ?thesis by (auto simp: client_stop_def split: sum.splits)
qed

lemma session_invariant: "session acc d \<Longrightarrow> session_inv acc d"
proof (induction rule: session.induct)
  case (opened ox retry on_progress d)
  then show ?case
    by (auto simp: new_vision_client_def session_inv_def known_items_def delivered_items_def split: if_splits)
next
  case (sent acc d p d')
  then have "observation_key p \<noteq> []" "d' = (arrive [p] d)\<lparr>dv_wake_event := True\<rparr>"
    by (auto simp: send_observation_def arrive_def split: if_splits)
  with session_inv_cong[OF session_inv_arrive[OF sent.IH, of "[p]"], of d'] show ?case by (simp add: arrive_def)
next
  case (started acc d)
  then show ?case by (auto simp: client_start_def intro: session_inv_cong)
qed (auto intro: session_inv_turn session_inv_stop)

text \<open>
  C33. Observations reach Vision in ingestion order and are not lost. In every history of the
  client, what Vision accepted followed by what is persisted and what is queued is a subsequence
  of what was accepted, in that order (nothing is invented, reordered or delivered twice for one
  acceptance); and as long as no more were accepted than the outbox can hold, every accepted
  identifier is among them, whatever Vision answered and however the client was stopped and
  started.
\<close>

theorem observations_delivered_in_order_not_lost:
  assumes "session acc d"
  shows "subseq (delivered_items d @ pending (dv_outbox d) @ map item (dv_incoming d)) acc \<and>
    (length acc \<le> nat (ox_max_entries (dv_outbox d)) \<longrightarrow>
      (\<forall>i \<in> fst ` set acc. i \<in> fst ` set (delivered_items d @ pending (dv_outbox d) @ map item (dv_incoming d))))"
  using session_invariant[OF assms] by (auto simp: session_inv_def known_items_def outbox_capacity_def)

theorem observations_delivered_in_order_not_lost_witness:
  "\<exists>d. session (pending demo_outbox @ [item (demo_observation ''c'')]) d \<and> map fst (delivered_items d) = [''a''] \<and>
     ''c'' \<in> fst ` set (delivered_items d @ pending (dv_outbox d) @ map item (dv_incoming d))"
proof -
  let ?fresh = "projr (new_vision_client demo_outbox (seconds 10) True)"
  let ?fed = "projr (send_observation (demo_observation ''c'') ?fresh)"
  let ?d = "run_turn demo_world (\<lambda>_. 1) 0 [] ?fed"
  have "outbox_ok demo_outbox" "new_vision_client demo_outbox (seconds 10) True = Inr ?fresh"
    "send_observation (demo_observation ''c'') ?fresh = Inr ?fed" by code_simp+
  then have "session (pending demo_outbox @ [item (demo_observation ''c'')]) ?fed" by (blast intro: opened sent)
  from turned[OF this, of "[]" demo_world "\<lambda>_. 1" 0] have s: "session (pending demo_outbox @ [item (demo_observation ''c'')]) ?d" by simp
  have one: "map fst (delivered_items ?d) = [''a'']" by code_simp
  have cap: "length (pending demo_outbox @ [item (demo_observation ''c'')]) \<le> nat (ox_max_entries (dv_outbox ?d))" by code_simp
  have c: "''c'' \<in> fst ` set (pending demo_outbox @ [item (demo_observation ''c'')])" by code_simp
  note bspec[OF mp[OF conjunct2[OF observations_delivered_in_order_not_lost[OF s]] cap] c]
  with s one show ?thesis by (intro exI[of _ ?d] conjI)
qed

end
