(* ===== verification/Health.thy ===== *)
theory Health
  imports Prelude
begin

text \<open>
  Health monitoring (observation/health/monitor.py and watchdog.py): the aggregated status of the
  registered checks, and watchdogs that judge a source by the age of its last heartbeat. The
  statuses are ordered by severity, and the aggregate is the worst of them.
\<close>

datatype health_status = HEALTHY | SUSPENDED | DEGRADED | UNHEALTHY | UNKNOWN

fun severity :: "health_status \<Rightarrow> nat" where
  "severity SUSPENDED = 0"
| "severity HEALTHY = 1"
| "severity UNKNOWN = 2"
| "severity DEGRADED = 3"
| "severity UNHEALTHY = 4"

instantiation health_status :: linorder
begin

definition less_eq_health_status :: "health_status \<Rightarrow> health_status \<Rightarrow> bool" where
  "less_eq_health_status a b = (severity a \<le> severity b)"

definition less_health_status :: "health_status \<Rightarrow> health_status \<Rightarrow> bool" where
  "less_health_status a b = (severity a < severity b)"

instance
proof
  fix a b :: health_status
  show "a \<le> b \<Longrightarrow> b \<le> a \<Longrightarrow> a = b"
    by (cases a; cases b) (simp_all add: less_eq_health_status_def)
qed (auto simp: less_eq_health_status_def less_health_status_def)

end

text \<open>A health result; its details are the elapsed time, in microseconds, under its key.\<close>

record health_result =
  hr_name :: string
  hr_status :: health_status
  hr_message :: "string option"
  hr_details :: "(string \<times> int) list option"

section \<open>The monitor\<close>

text \<open>
  The registered checks in registration order (a dict keeps it) and the last results. What a check
  does is the parameter \<open>run\<close>; it may raise.
\<close>

record 'c health_monitor =
  hm_checks :: "(string \<times> 'c) list"
  hm_last_results :: "health_result list"

definition new_monitor :: "'c health_monitor" where
  "new_monitor = \<lparr>hm_checks = [], hm_last_results = []\<rparr>"

definition register_check :: "string \<Rightarrow> 'c \<Rightarrow> 'c health_monitor \<Rightarrow> error + 'c health_monitor" where
  "register_check name check m =
     (if name \<in> fst ` set (hm_checks m) then Inl (ValueError (''Health check already registered: '' @ name))
      else Inr (m\<lparr>hm_checks := hm_checks m @ [(name, check)]\<rparr>))"

definition unregister_check :: "string \<Rightarrow> 'c health_monitor \<Rightarrow> 'c health_monitor" where
  "unregister_check name m = m\<lparr>hm_checks := filter (\<lambda>c. fst c \<noteq> name) (hm_checks m)\<rparr>"

fun run_checks :: "('c \<Rightarrow> error + health_result) \<Rightarrow> (string \<times> 'c) list \<Rightarrow> error + health_result list" where
  "run_checks run [] = Inr []"
| "run_checks run ((_, c) # cs) =
     (case run c of Inl e \<Rightarrow> Inl e
      | Inr r \<Rightarrow> (case run_checks run cs of Inl e \<Rightarrow> Inl e | Inr rs \<Rightarrow> Inr (r # rs)))"

definition run_once :: "('c \<Rightarrow> error + health_result) \<Rightarrow> 'c health_monitor \<Rightarrow>
    (error + health_result list) \<times> 'c health_monitor" where
  "run_once run m = (case run_checks run (hm_checks m) of
     Inl e \<Rightarrow> (Inl e, m) | Inr results \<Rightarrow> (Inr results, m\<lparr>hm_last_results := results\<rparr>))"

definition get_status :: "'c health_monitor \<Rightarrow> health_status" where
  "get_status m =
     (if hm_last_results m = [] then UNKNOWN
      else let statuses = map hr_status (hm_last_results m) in
        if UNHEALTHY \<in> set statuses then UNHEALTHY
        else if DEGRADED \<in> set statuses then DEGRADED
        else let active = filter (\<lambda>s. s \<noteq> SUSPENDED) statuses in
          if active = [] \<and> statuses \<noteq> [] then SUSPENDED
          else if \<forall>s \<in> set active. s = HEALTHY then HEALTHY
          else UNKNOWN)"

section \<open>Watchdogs\<close>

record watchdog =
  wd_source :: string
  wd_timeout_seconds :: int
  wd_degraded_after_seconds :: "int option"
  wd_last_seen :: "instant option"

definition watchdog_heartbeat :: "instant \<Rightarrow> watchdog \<Rightarrow> watchdog" where
  "watchdog_heartbeat timestamp w = w\<lparr>wd_last_seen := Some timestamp\<rparr>"

definition watchdog_check :: "instant \<Rightarrow> watchdog \<Rightarrow> health_result" where
  "watchdog_check now w =
     (case wd_last_seen w of
        None \<Rightarrow> \<lparr>hr_name = wd_source w, hr_status = UNKNOWN, hr_message = Some ''No heartbeat received yet.'',
                 hr_details = None\<rparr>
      | Some seen \<Rightarrow>
          let elapsed = now - seen; details = Some [(''elapsed_seconds'', elapsed)] in
          if elapsed > seconds (wd_timeout_seconds w)
          then \<lparr>hr_name = wd_source w, hr_status = UNHEALTHY, hr_message = Some ''Heartbeat timeout exceeded.'',
                hr_details = details\<rparr>
          else if (case wd_degraded_after_seconds w of None \<Rightarrow> False | Some n \<Rightarrow> elapsed > seconds n)
          then \<lparr>hr_name = wd_source w, hr_status = DEGRADED,
                hr_message = Some ''Heartbeat degraded threshold exceeded.'', hr_details = details\<rparr>
          else \<lparr>hr_name = wd_source w, hr_status = HEALTHY, hr_message = Some ''Heartbeat is fresh.'',
                hr_details = details\<rparr>)"

type_synonym watchdogs = "(string \<times> watchdog) list"

definition register_watchdog :: "string \<Rightarrow> int \<Rightarrow> int option \<Rightarrow> watchdogs \<Rightarrow> error + watchdogs" where
  "register_watchdog source timeout degraded ws =
     (if map_of ws source \<noteq> None then Inl (ValueError (''Watchdog already registered: '' @ source))
      else Inr (ws @ [(source, \<lparr>wd_source = source, wd_timeout_seconds = timeout,
                        wd_degraded_after_seconds = degraded, wd_last_seen = None\<rparr>)]))"

definition registry_heartbeat :: "instant \<Rightarrow> string \<Rightarrow> watchdogs \<Rightarrow> watchdogs" where
  "registry_heartbeat now source ws =
     map (\<lambda>(k, w). if k = source then (k, watchdog_heartbeat now w) else (k, w)) ws"

definition check_all :: "instant \<Rightarrow> watchdogs \<Rightarrow> health_result list" where
  "check_all now ws = map (\<lambda>(_, w). watchdog_check now w) ws"

section \<open>Correctness\<close>

text \<open>
  The aggregated status is the worst one: with no results it is unknown, and otherwise it is
  the maximum of the reported statuses in the order suspended, healthy, unknown, degraded,
  unhealthy. A suspended component therefore never hides nor causes a problem.
\<close>

theorem get_status_is_worst:
  "get_status m = (if hm_last_results m = [] then UNKNOWN else Max (hr_status ` set (hm_last_results m)))"
proof (cases "hm_last_results m = []")
  case False
  let ?S = "hr_status ` set (hm_last_results m)"
  have fin: "finite ?S" "?S \<noteq> {}" using False by auto
  have "Max ?S = s \<longleftrightarrow> s \<in> ?S \<and> (\<forall>t \<in> ?S. severity t \<le> severity s)" for s
    using fin by (auto simp: Max_eq_iff less_eq_health_status_def)
  moreover have "get_status m \<in> ?S"
    using False by (auto simp: get_status_def Let_def filter_empty_conv image_iff)
      (metis (full_types) health_status.exhaust)+
  moreover have "severity t \<le> severity (get_status m)" if "t \<in> ?S" for t
    using that False by (cases t) (auto simp: get_status_def Let_def filter_empty_conv image_iff)
  ultimately show ?thesis using False by metis
qed (simp add: get_status_def)

text \<open>A run of heartbeats \<open>(source, time)\<close>, and the last one of a source.\<close>

definition heartbeats :: "(string \<times> instant) list \<Rightarrow> watchdogs \<Rightarrow> watchdogs" where
  "heartbeats beats ws = fold (\<lambda>(source, t). registry_heartbeat t source) beats ws"

definition latest_beat :: "string \<Rightarrow> (string \<times> instant) list \<Rightarrow> instant option \<Rightarrow> instant option" where
  "latest_beat source beats seen = fold (\<lambda>(k, t) seen. if k = source then Some t else seen) beats seen"

lemma map_of_registry_heartbeat:
  "map_of (registry_heartbeat t k ws) source =
     map_option (\<lambda>w. if source = k then watchdog_heartbeat t w else w) (map_of ws source)"
  by (induction ws) (auto simp: registry_heartbeat_def split: prod.splits)

lemma map_of_heartbeats:
  "map_of (heartbeats beats ws) source =
     map_option (\<lambda>w. w\<lparr>wd_last_seen := latest_beat source beats (wd_last_seen w)\<rparr>) (map_of ws source)"
proof (induction beats arbitrary: ws)
  case (Cons b beats)
  obtain k t where b: "b = (k, t)" by (cases b)
  show ?case
    using Cons[of "registry_heartbeat t k ws"]
    by (cases "map_of ws source")
       (auto simp: b heartbeats_def latest_beat_def map_of_registry_heartbeat watchdog_heartbeat_def)
qed (simp add: heartbeats_def latest_beat_def option.map_ident)

lemma heartbeats_sources: "map (wd_source \<circ> snd) (heartbeats beats ws) = map (wd_source \<circ> snd) ws"
proof (induction beats arbitrary: ws)
  case (Cons b beats)
  have "map (wd_source \<circ> snd) (registry_heartbeat t k ws) = map (wd_source \<circ> snd) ws" for t k
    by (auto simp: registry_heartbeat_def watchdog_heartbeat_def split: prod.splits)
  then show ?case using Cons[of "registry_heartbeat (snd b) (fst b) ws"] by (simp add: heartbeats_def split_def o_def)
qed (simp add: heartbeats_def)

lemma watchdog_check_mono: "now \<le> later \<Longrightarrow> hr_status (watchdog_check now w) \<le> hr_status (watchdog_check later w)"
  by (auto simp: watchdog_check_def less_eq_health_status_def Let_def split: option.splits)

text \<open>
  A watchdog judges the last heartbeat of its source. After any run of heartbeats each
  registered source keeps its thresholds and has its own latest heartbeat; the reports come in
  registration order, one for each source; a source that has just been heard is healthy; and while
  nothing is heard the reported severity never decreases.
\<close>

theorem watchdog_judges_last_heartbeat:
  assumes "map_of ws source = Some w" and "now \<le> later"
  shows "map_of (heartbeats beats ws) source = Some (w\<lparr>wd_last_seen := latest_beat source beats (wd_last_seen w)\<rparr>) \<and>
    map hr_name (check_all now (heartbeats beats ws)) = map (wd_source \<circ> snd) ws \<and>
    list_all2 (\<lambda>a b. hr_status a \<le> hr_status b)
      (check_all now (heartbeats beats ws)) (check_all later (heartbeats beats ws)) \<and>
    (0 \<le> wd_timeout_seconds w \<and> (\<forall>n. wd_degraded_after_seconds w = Some n \<longrightarrow> 0 \<le> n) \<longrightarrow>
      hr_status (watchdog_check now (watchdog_heartbeat now w)) = HEALTHY)"
proof (intro conjI impI)
  show "map_of (heartbeats beats ws) source = Some (w\<lparr>wd_last_seen := latest_beat source beats (wd_last_seen w)\<rparr>)"
    using assms(1) by (simp add: map_of_heartbeats)
  have "hr_name (watchdog_check now v) = wd_source v" for v
    by (auto simp: watchdog_check_def Let_def split: option.splits)
  then show "map hr_name (check_all now (heartbeats beats ws)) = map (wd_source \<circ> snd) ws"
    unfolding heartbeats_sources[of beats ws, symmetric] by (simp add: check_all_def split_def)
  show "list_all2 (\<lambda>a b. hr_status a \<le> hr_status b)
      (check_all now (heartbeats beats ws)) (check_all later (heartbeats beats ws))"
    using assms(2) by (auto simp: check_all_def list_all2_map1 list_all2_map2 watchdog_check_mono intro!: list_all2_refl)
  show "hr_status (watchdog_check now (watchdog_heartbeat now w)) = HEALTHY"
    if "0 \<le> wd_timeout_seconds w \<and> (\<forall>n. wd_degraded_after_seconds w = Some n \<longrightarrow> 0 \<le> n)"
    using that by (auto simp: watchdog_check_def watchdog_heartbeat_def Let_def not_less split: option.splits)
qed

definition demo_watchdogs :: watchdogs where
  "demo_watchdogs = projr (register_watchdog ''nas'' 60 (Some 30) (projr (register_watchdog ''mqtt'' 10 None [])))"

theorem watchdog_judges_last_heartbeat_witness:
  "map hr_status (check_all (seconds 45) (heartbeats [(''nas'', 0), (''mqtt'', 5), (''nas'', seconds 2)] demo_watchdogs)) =
     [UNHEALTHY, DEGRADED] \<and>
   list_all2 (\<lambda>a b. hr_status a \<le> hr_status b)
     (check_all (seconds 45) (heartbeats [(''nas'', 0), (''mqtt'', 5), (''nas'', seconds 2)] demo_watchdogs))
     (check_all (seconds 90) (heartbeats [(''nas'', 0), (''mqtt'', 5), (''nas'', seconds 2)] demo_watchdogs))"
proof -
  let ?b = "[(''nas'', 0), (''mqtt'', 5), (''nas'', seconds 2)]"
  have "map_of demo_watchdogs ''nas'' = Some (the (map_of demo_watchdogs ''nas''))" by code_simp
  from watchdog_judges_last_heartbeat[OF this, of "seconds 45" "seconds 90" ?b]
  have "list_all2 (\<lambda>a b. hr_status a \<le> hr_status b)
     (check_all (seconds 45) (heartbeats ?b demo_watchdogs)) (check_all (seconds 90) (heartbeats ?b demo_watchdogs))" by simp
  moreover have "map hr_status (check_all (seconds 45) (heartbeats ?b demo_watchdogs)) = [UNHEALTHY, DEGRADED]" by code_simp
  ultimately show ?thesis by blast
qed

end
