(* ===== verification/Recovery.thy ===== *)
theory Recovery
  imports Health "HOL-Library.Sublist"
begin

text \<open>
  Recovery (recovery/action.py, result.py, strategy.py, policy.py, engine.py) and the reconnection
  policy of the MQTT client (core/mqtt/reconnect.py). An action may run any code, the engine's own
  methods included, so a strategy's execution takes and returns the engine's state; the interface
  \<open>recovery_contract\<close> states what the engine relies on.
\<close>

section \<open>Results and actions\<close>

record recovery_result =
  rr_success :: bool
  rr_action :: string
  rr_source :: string
  rr_message :: "string option"
  rr_details :: "json option"

text \<open>The state of the engine that its methods change.\<close>

record engine =
  re_recovering :: "string set"
  re_history :: "recovery_result list"

definition new_engine :: engine where
  "new_engine = \<lparr>re_recovering = {}, re_history = []\<rparr>"

type_synonym execution = "engine \<Rightarrow> (error + recovery_result) \<times> engine"

record recovery_action =
  ra_name :: string
  ra_source :: string
  ra_execute :: execution

definition noop_action :: "string \<Rightarrow> string \<Rightarrow> string \<Rightarrow> recovery_action" where
  "noop_action name source message =
     \<lparr>ra_name = name, ra_source = source,
      ra_execute = (\<lambda>e. (Inr \<lparr>rr_success = True, rr_action = name, rr_source = source,
                              rr_message = Some message, rr_details = None\<rparr>, e))\<rparr>"

section \<open>Strategies and the engine\<close>

record strategy =
  st_can_handle :: "health_result \<Rightarrow> bool"
  st_execute :: "health_result \<Rightarrow> execution"

text \<open>An absent or empty collection of statuses means degraded and unhealthy.\<close>

definition default_statuses :: "health_status list option \<Rightarrow> health_status list" where
  "default_statuses statuses = (case statuses of None \<Rightarrow> [DEGRADED, UNHEALTHY]
     | Some s \<Rightarrow> if s = [] then [DEGRADED, UNHEALTHY] else s)"

definition static_strategy :: "string \<Rightarrow> recovery_action \<Rightarrow> health_status list option \<Rightarrow> strategy" where
  "static_strategy source action statuses =
     \<lparr>st_can_handle = (\<lambda>r. hr_name r = source \<and> hr_status r \<in> set (default_statuses statuses)),
      st_execute = (\<lambda>r. ra_execute action)\<rparr>"

definition register_strategy :: "strategy \<Rightarrow> strategy list \<Rightarrow> strategy list" where
  "register_strategy s ss = ss @ [s]"

definition is_recovering :: "engine \<Rightarrow> string \<Rightarrow> bool" where
  "is_recovering e source = (source \<in> re_recovering e)"

text \<open>\<open>set.remove\<close> in the \<open>finally\<close> clause raises when the element is gone.\<close>

definition finish_recovery :: "string \<Rightarrow> (error + recovery_result option) \<Rightarrow> engine \<Rightarrow>
    (error + recovery_result option) \<times> engine" where
  "finish_recovery source r e =
     (if source \<in> re_recovering e then (r, e\<lparr>re_recovering := re_recovering e - {source}\<rparr>)
      else (Inl (LookupError source), e))"

definition find_strategy :: "strategy list \<Rightarrow> health_result \<Rightarrow> strategy option" where
  "find_strategy ss r = find (\<lambda>s. st_can_handle s r) ss"

definition recover :: "strategy list \<Rightarrow> health_result \<Rightarrow> engine \<Rightarrow> (error + recovery_result option) \<times> engine" where
  "recover ss r e =
     (if hr_name r \<in> re_recovering e then (Inr None, e)
      else case find_strategy ss r of
        None \<Rightarrow> (Inr None, e)
      | Some s \<Rightarrow>
          (case st_execute s r (e\<lparr>re_recovering := insert (hr_name r) (re_recovering e)\<rparr>) of
             (Inl err, e1) \<Rightarrow> finish_recovery (hr_name r) (Inl err) e1
           | (Inr rr, e1) \<Rightarrow> finish_recovery (hr_name r) (Inr (Some rr)) (e1\<lparr>re_history := re_history e1 @ [rr]\<rparr>)))"

definition handle :: "strategy list \<Rightarrow> health_result \<Rightarrow> engine \<Rightarrow> (error + recovery_result option) \<times> engine" where
  "handle ss r e =
     (if hr_status r \<notin> {DEGRADED, UNHEALTHY} then (Inr None, e) else recover ss r e)"

section \<open>Policies\<close>

record recovery_history =
  rh_source :: string
  rh_attempts :: int
  rh_last_action :: "string option"
  rh_last_success :: "bool option"
  rh_results :: "recovery_result list"

definition new_history :: "string \<Rightarrow> recovery_history" where
  "new_history source = \<lparr>rh_source = source, rh_attempts = 0, rh_last_action = None, rh_last_success = None,
     rh_results = []\<rparr>"

definition record_result :: "recovery_result \<Rightarrow> recovery_history \<Rightarrow> recovery_history" where
  "record_result r h = \<lparr>rh_source = rh_source h, rh_attempts = rh_attempts h + 1,
     rh_last_action = Some (rr_action r), rh_last_success = Some (rr_success r), rh_results = rh_results h @ [r]\<rparr>"

record sequential_policy =
  sp_source :: string
  sp_actions :: "recovery_action list"
  sp_statuses :: "health_status list"
  sp_priority :: int
  sp_stop_on_success :: bool

definition new_sequential_policy ::
  "string \<Rightarrow> recovery_action list \<Rightarrow> health_status list option \<Rightarrow> int \<Rightarrow> bool \<Rightarrow> sequential_policy" where
  "new_sequential_policy source actions statuses priority stop =
     \<lparr>sp_source = source, sp_actions = actions, sp_statuses = default_statuses statuses, sp_priority = priority,
      sp_stop_on_success = stop\<rparr>"

definition applies_to :: "sequential_policy \<Rightarrow> health_result \<Rightarrow> bool" where
  "applies_to p r = (hr_name r = sp_source p \<and> hr_status r \<in> set (sp_statuses p))"

definition next_action :: "sequential_policy \<Rightarrow> recovery_history \<Rightarrow> recovery_action option" where
  "next_action p h =
     (if rh_source h \<noteq> sp_source p then None
      else if sp_stop_on_success p \<and> rh_last_success h = Some True then None
      else if rh_attempts h \<ge> int (length (sp_actions p)) then None
      else Some (sp_actions p ! nat (rh_attempts h)))"

text \<open>\<open>max\<close> with a key keeps the first of the largest.\<close>

fun first_max :: "('p \<Rightarrow> int) \<Rightarrow> 'p \<Rightarrow> 'p list \<Rightarrow> 'p" where
  "first_max f best [] = best"
| "first_max f best (p # ps) = first_max f (if f p > f best then p else best) ps"

definition select_policy :: "sequential_policy list \<Rightarrow> health_result \<Rightarrow> sequential_policy option" where
  "select_policy ps r = (case filter (\<lambda>p. applies_to p r) ps of
     [] \<Rightarrow> None | p # qs \<Rightarrow> Some (first_max sp_priority p qs))"

section \<open>MQTT reconnection\<close>

record reconnect_policy =
  rp_enabled :: bool
  rp_initial_delay_seconds :: int
  rp_max_delay_seconds :: int

definition new_reconnect_policy :: "bool \<Rightarrow> int \<Rightarrow> int \<Rightarrow> error + reconnect_policy" where
  "new_reconnect_policy enabled initial maximum =
     (if initial \<le> 0 then Inl (ValueError ''initial_delay_seconds must be greater than 0.'')
      else if maximum \<le> 0 then Inl (ValueError ''max_delay_seconds must be greater than 0.'')
      else if initial > maximum
        then Inl (ValueError ''initial_delay_seconds must be less than or equal to max_delay_seconds.'')
      else Inr \<lparr>rp_enabled = enabled, rp_initial_delay_seconds = initial, rp_max_delay_seconds = maximum\<rparr>)"

definition get_delay :: "reconnect_policy \<Rightarrow> int \<Rightarrow> error + int" where
  "get_delay p attempt =
     (if attempt < 0 then Inl (ValueError ''attempt must be greater than or equal to 0.'')
      else if \<not> rp_enabled p then Inr 0
      else Inr (min (rp_initial_delay_seconds p * 2 ^ nat attempt) (rp_max_delay_seconds p)))"

definition should_retry :: "reconnect_policy \<Rightarrow> bool" where
  "should_retry p = rp_enabled p"

fun delays_from :: "reconnect_policy \<Rightarrow> int list \<Rightarrow> error + int list" where
  "delays_from p [] = Inr []"
| "delays_from p (n # ns) = (case get_delay p n of Inl e \<Rightarrow> Inl e
     | Inr d \<Rightarrow> (case delays_from p ns of Inl e \<Rightarrow> Inl e | Inr ds \<Rightarrow> Inr (d # ds)))"

definition delays :: "reconnect_policy \<Rightarrow> int \<Rightarrow> error + int list" where
  "delays p attempts =
     (if attempts < 0 then Inl (ValueError ''attempts must be greater than or equal to 0.'')
      else delays_from p [0..attempts - 1])"

end
