(* ===== verification/Recovery_Properties.thy ===== *)
theory Recovery_Properties
  imports Recovery
begin

text \<open>
  What recovery guarantees: one attempt at a time for a source, always released; policies walk
  their actions in order; reconnection delays double up to their cap.
\<close>

section \<open>The engine\<close>

text \<open>
  What the engine relies on: an execution leaves the set of sources under recovery as it found it
  and only appends to the history. Code that touches the engine through its own methods does.
\<close>

definition steady :: "execution \<Rightarrow> bool" where
  "steady run \<longleftrightarrow> (\<forall>e. re_recovering (snd (run e)) = re_recovering e \<and> prefix (re_history e) (re_history (snd (run e))))"

locale recovery_contract =
  fixes run :: "health_result \<Rightarrow> execution"
  assumes run_steady: "steady (run r)"
begin

lemma guard_kept: "run r e = (res, e') \<Longrightarrow> re_recovering e' = re_recovering e"
  using run_steady[of r] by (auto simp: steady_def dest: spec[of _ e])

lemma history_kept: "run r e = (res, e') \<Longrightarrow> \<exists>new. re_history e' = re_history e @ new"
  using run_steady[of r] by (auto simp: steady_def prefix_def dest: spec[of _ e])

lemma recover_released:
  assumes "find_strategy ss r = Some s" "st_execute s = run" "hr_name r \<notin> re_recovering e"
  shows "\<exists>new. re_recovering (snd (recover ss r e)) = re_recovering e \<and>
    (case fst (run r (e\<lparr>re_recovering := insert (hr_name r) (re_recovering e)\<rparr>)) of
       Inl err \<Rightarrow> fst (recover ss r e) = Inl err \<and> re_history (snd (recover ss r e)) = re_history e @ new
     | Inr rr \<Rightarrow> fst (recover ss r e) = Inr (Some rr) \<and> re_history (snd (recover ss r e)) = re_history e @ new @ [rr])"
proof -
  let ?e = "e\<lparr>re_recovering := insert (hr_name r) (re_recovering e)\<rparr>"
  obtain res e1 where x: "run r ?e = (res, e1)" by fastforce
  from guard_kept[OF x] have g: "re_recovering e1 = insert (hr_name r) (re_recovering e)" by simp
  from history_kept[OF x] obtain new where h: "re_history e1 = re_history e @ new" by auto
  show ?thesis
    using assms x g h by (cases res) (auto simp: recover_def finish_recovery_def intro!: exI[of _ new])
qed

end

interpretation noop: recovery_contract "st_execute (static_strategy source (noop_action name source' message) statuses)"
  for source name source' message statuses
  by unfold_locales (simp add: steady_def static_strategy_def noop_action_def)

lemma contract_iff: "recovery_contract run \<longleftrightarrow> (\<forall>r. steady (run r))"
  by (simp add: recovery_contract_def)

lemma recover_steady_result:
  assumes "\<forall>s \<in> set ss. \<forall>r. steady (st_execute s r)"
  shows "re_recovering (snd (recover ss r e)) = re_recovering e" "prefix (re_history e) (re_history (snd (recover ss r e)))"
proof -
  have "re_recovering (snd (recover ss r e)) = re_recovering e \<and> prefix (re_history e) (re_history (snd (recover ss r e)))"
  proof (cases "hr_name r \<in> re_recovering e \<or> find_strategy ss r = None")
    case True
    then show ?thesis by (auto simp: recover_def)
  next
    case False
    then obtain s where s: "find_strategy ss r = Some s" "hr_name r \<notin> re_recovering e" by auto
    then have "s \<in> set ss" by (auto simp: find_strategy_def find_Some_iff)
    with assms have c: "recovery_contract (st_execute s)" by (simp add: contract_iff)
    let ?x = "fst (st_execute s r (e\<lparr>re_recovering := insert (hr_name r) (re_recovering e)\<rparr>))"
    from recovery_contract.recover_released[OF c s(1) refl s(2)] show ?thesis
      by (cases ?x) (auto simp: prefix_def)
  qed
  then show "re_recovering (snd (recover ss r e)) = re_recovering e" "prefix (re_history e) (re_history (snd (recover ss r e)))"
    by blast+
qed

text \<open>An action that calls the engine back satisfies the contract, when the engine's strategies do.\<close>

definition reentrant_action :: "strategy list \<Rightarrow> health_result \<Rightarrow> recovery_result \<Rightarrow> execution" where
  "reentrant_action ss r rr e = (case handle ss r e of (_, e') \<Rightarrow> (Inr rr, e'))"

lemma reentrant_steady:
  assumes "\<forall>s \<in> set ss. \<forall>r. steady (st_execute s r)"
  shows "steady (reentrant_action ss r rr)"
proof -
  have "snd (reentrant_action ss r rr e) = snd (handle ss r e)" for e
    by (simp add: reentrant_action_def split: prod.splits)
  then show ?thesis by (simp add: steady_def handle_def recover_steady_result[OF assms])
qed

interpretation reentrant: recovery_contract
  "\<lambda>r. reentrant_action [static_strategy source (noop_action name source' message) statuses] r' rr"
  for source name source' message statuses r' rr
  by unfold_locales (simp add: reentrant_steady noop.run_steady)

text \<open>
  C40. Recovery of a source is exclusive and always released. With strategies that use the engine
  only through its methods, \<open>handle\<close> leaves the set of sources under recovery unchanged on every
  path, an exception included. It acts only on a degraded or unhealthy result of a source that is
  not being recovered and that a strategy handles; the first such strategy runs once, with the
  source marked, so that a nested call for the same source does nothing; its result is returned
  and is the newest entry of the history, and its exception is passed on.
\<close>

theorem recovery_exclusive_and_released:
  assumes "\<forall>s \<in> set ss. \<forall>r. steady (st_execute s r)"
  shows "re_recovering (snd (handle ss r e)) = re_recovering e \<and>
    handle ss' r (e\<lparr>re_recovering := insert (hr_name r) (re_recovering e)\<rparr>) =
      (Inr None, e\<lparr>re_recovering := insert (hr_name r) (re_recovering e)\<rparr>) \<and>
    (if hr_status r \<in> {DEGRADED, UNHEALTHY} \<and> hr_name r \<notin> re_recovering e \<and> find_strategy ss r \<noteq> None
     then \<exists>new. case fst (st_execute (the (find_strategy ss r)) r
               (e\<lparr>re_recovering := insert (hr_name r) (re_recovering e)\<rparr>)) of
         Inl err \<Rightarrow> fst (handle ss r e) = Inl err \<and> re_history (snd (handle ss r e)) = re_history e @ new
       | Inr rr \<Rightarrow> fst (handle ss r e) = Inr (Some rr) \<and> re_history (snd (handle ss r e)) = re_history e @ new @ [rr]
     else handle ss r e = (Inr None, e))"
proof (intro conjI)
  show "re_recovering (snd (handle ss r e)) = re_recovering e"
    by (simp add: handle_def recover_steady_result(1)[OF assms])
  show "handle ss' r (e\<lparr>re_recovering := insert (hr_name r) (re_recovering e)\<rparr>) =
      (Inr None, e\<lparr>re_recovering := insert (hr_name r) (re_recovering e)\<rparr>)"
    by (simp add: handle_def recover_def)
  let ?act = "hr_status r \<in> {DEGRADED, UNHEALTHY} \<and> hr_name r \<notin> re_recovering e \<and> find_strategy ss r \<noteq> None"
  show "if ?act then \<exists>new. case fst (st_execute (the (find_strategy ss r)) r
               (e\<lparr>re_recovering := insert (hr_name r) (re_recovering e)\<rparr>)) of
         Inl err \<Rightarrow> fst (handle ss r e) = Inl err \<and> re_history (snd (handle ss r e)) = re_history e @ new
       | Inr rr \<Rightarrow> fst (handle ss r e) = Inr (Some rr) \<and> re_history (snd (handle ss r e)) = re_history e @ new @ [rr]
     else handle ss r e = (Inr None, e)"
  proof (cases ?act)
    case True
    then obtain s where s: "find_strategy ss r = Some s" by auto
    then have "s \<in> set ss" by (auto simp: find_strategy_def find_Some_iff)
    with assms have c: "recovery_contract (st_execute s)" by (simp add: contract_iff)
    have h: "handle ss r e = recover ss r e" using True by (auto simp: handle_def)
    from recovery_contract.recover_released[OF c s refl] True s show ?thesis
      unfolding if_P[OF True] h by (auto split: sum.splits)
  next
    case False
    then show ?thesis by (auto simp: handle_def recover_def)
  qed
qed

definition demo_health :: health_result where
  "demo_health = \<lparr>hr_name = ''nas'', hr_status = UNHEALTHY, hr_message = None, hr_details = None\<rparr>"

definition demo_recovery :: recovery_result where
  "demo_recovery = \<lparr>rr_success = True, rr_action = ''restart'', rr_source = ''nas'', rr_message = None, rr_details = None\<rparr>"

definition demo_strategy :: strategy where
  "demo_strategy = \<lparr>st_can_handle = (\<lambda>r. hr_name r = ''nas''), st_execute = (\<lambda>r. reentrant_action
     [static_strategy ''nas'' (noop_action ''noop'' ''nas'' ''nothing'') None] demo_health demo_recovery)\<rparr>"

theorem recovery_exclusive_and_released_witness:
  "re_recovering (snd (handle [demo_strategy] demo_health new_engine)) = {} \<and>
   fst (handle [demo_strategy] demo_health new_engine) = Inr (Some demo_recovery) \<and>
   re_history (snd (handle [demo_strategy] demo_health new_engine)) = [demo_recovery]"
proof -
  have "\<forall>s \<in> set [demo_strategy]. \<forall>r. steady (st_execute s r)"
    using reentrant.run_steady by (simp add: demo_strategy_def)
  note T = recovery_exclusive_and_released[OF this, of demo_health new_engine]
  have "re_recovering (snd (handle [demo_strategy] demo_health new_engine)) = {}"
    using T by (simp add: new_engine_def)
  moreover have "fst (handle [demo_strategy] demo_health new_engine) = Inr (Some demo_recovery)"
    "re_history (snd (handle [demo_strategy] demo_health new_engine)) = [demo_recovery]" by code_simp+
  ultimately show ?thesis by blast
qed

section \<open>Policies\<close>

lemma history_of_results:
  "rh_source (fold record_result rs h) = rh_source h \<and> rh_results (fold record_result rs h) = rh_results h @ rs \<and>
   rh_attempts (fold record_result rs h) = rh_attempts h + int (length rs) \<and>
   rh_last_success (fold record_result rs h) = (if rs = [] then rh_last_success h else Some (rr_success (last rs)))"
  by (induction rs arbitrary: h) (auto simp: record_result_def)

lemma find_filter: "find Q (filter A xs) = find (\<lambda>x. A x \<and> Q x) xs"
  by (induction xs) auto

lemma first_max_find: "find (\<lambda>x. f x = Max (f ` set (b # ps))) (b # ps) = Some (first_max f b ps)"
proof (induction ps arbitrary: b)
  case (Cons p ps)
  show ?case
  proof (cases "f p > f b")
    case True
    have ge: "f p \<le> Max (f ` set (p # ps))" by (rule Max_ge) auto
    have "Max (f ` set (b # p # ps)) = max (f b) (Max (f ` set (p # ps)))" by (simp add: Max_insert)
    then have "Max (f ` set (b # p # ps)) = Max (f ` set (p # ps))" "f b \<noteq> Max (f ` set (p # ps))"
      using True ge by linarith+
    with True Cons[of p] show ?thesis by simp
  next
    case False
    have ge: "f b \<le> Max (f ` set (b # ps))" by (rule Max_ge) auto
    have "f ` set (b # p # ps) = insert (f p) (f ` set (b # ps))" by auto
    then have "Max (f ` set (b # p # ps)) = max (f p) (Max (f ` set (b # ps)))" by (metis Max_insert List.finite_set finite_imageI image_is_empty list.distinct(1) set_empty2)
    then have m: "Max (f ` set (b # p # ps)) = Max (f ` set (b # ps))" using ge False by linarith
    define M where "M = Max (f ` set (b # ps))"
    have "find (\<lambda>x. f x = M) (b # ps) = Some (first_max f b ps)" unfolding M_def by (rule Cons)
    moreover have "f b \<noteq> M \<Longrightarrow> f p \<noteq> M" using ge False M_def by linarith
    ultimately have "find (\<lambda>x. f x = M) (b # p # ps) = Some (first_max f b ps)" by (cases "f b = M") simp_all
    then show ?thesis using False unfolding m M_def[symmetric] by simp
  qed
qed simp

text \<open>
  A sequential policy walks its actions in order, and the best policy is chosen. After the
  results of any attempts have been recorded for a source, the policy of that source proposes the
  action whose position is the number of attempts, unless the actions are exhausted or, when it
  stops on success, the last attempt succeeded; and the selected policy is the first of those that
  apply whose priority is the highest among them.
\<close>

theorem sequential_policy_walks_actions:
  "next_action p (fold record_result rs (new_history source)) =
     (if source = sp_source p \<and> length rs < length (sp_actions p) \<and>
         \<not> (sp_stop_on_success p \<and> rs \<noteq> [] \<and> rr_success (last rs))
      then Some (sp_actions p ! length rs) else None) \<and>
   select_policy ps r = find (\<lambda>q. applies_to q r \<and>
     sp_priority q = Max (sp_priority ` set (filter (\<lambda>q. applies_to q r) ps))) ps"
proof
  show "next_action p (fold record_result rs (new_history source)) =
     (if source = sp_source p \<and> length rs < length (sp_actions p) \<and>
         \<not> (sp_stop_on_success p \<and> rs \<noteq> [] \<and> rr_success (last rs))
      then Some (sp_actions p ! length rs) else None)"
  proof -
    note h = history_of_results[of rs "new_history source"]
    have "rh_source (fold record_result rs (new_history source)) = source"
      "rh_attempts (fold record_result rs (new_history source)) = int (length rs)"
      "(rh_last_success (fold record_result rs (new_history source)) = Some True) = (rs \<noteq> [] \<and> rr_success (last rs))"
      using h by (simp_all add: new_history_def)
    then show ?thesis unfolding next_action_def by (simp only: nat_int of_nat_le_iff not_less[symmetric]) auto
  qed
  show "select_policy ps r = find (\<lambda>q. applies_to q r \<and>
     sp_priority q = Max (sp_priority ` set (filter (\<lambda>q. applies_to q r) ps))) ps"
    unfolding find_filter[symmetric] select_policy_def
    by (cases "filter (\<lambda>q. applies_to q r) ps")
       (simp_all only: list.case find.simps(1) first_max_find[symmetric])
qed

section \<open>Reconnection\<close>

lemma delays_from_ok:
  assumes "rp_enabled p" "\<forall>n \<in> set ns. 0 \<le> n"
  shows "delays_from p ns = Inr (map (\<lambda>n. min (rp_initial_delay_seconds p * 2 ^ nat n) (rp_max_delay_seconds p)) ns)"
  using assms by (induction ns) (auto simp: get_delay_def)

text \<open>
  Reconnection delays double from the initial delay up to the cap. For every policy the
  constructor accepts, when enabled, the delays of any number of attempts are as many, the one of
  attempt \<open>k\<close> is the initial delay times \<open>2 ^ k\<close> bounded by the cap, they never decrease, lie
  between the initial delay and the cap, and have reached the cap once \<open>k\<close> is as large as it.
\<close>

theorem reconnect_delays_double_to_cap:
  assumes "new_reconnect_policy True initial maximum = Inr p" and "0 \<le> attempts"
  shows "\<exists>ds. delays p attempts = Inr ds \<and> length ds = nat attempts \<and> sorted ds \<and>
    (\<forall>k < length ds. ds ! k = min (initial * 2 ^ k) maximum \<and> initial \<le> ds ! k \<and> ds ! k \<le> maximum \<and>
      (maximum \<le> int k \<longrightarrow> ds ! k = maximum))"
proof -
  have p: "rp_enabled p" "rp_initial_delay_seconds p = initial" "rp_max_delay_seconds p = maximum"
    "0 < initial" "initial \<le> maximum"
    using assms(1) by (auto simp: new_reconnect_policy_def split: if_splits)
  let ?ds = "map (\<lambda>n. min (initial * 2 ^ nat n) maximum) [0..attempts - 1]"
  have d: "delays p attempts = Inr ?ds" using delays_from_ok[OF p(1), of "[0..attempts - 1]"] assms(2) p(2,3)
    by (simp add: delays_def)
  have nth: "?ds ! k = min (initial * 2 ^ k) maximum" if "k < length ?ds" for k
    using that by (simp add: nth_upto)
  have grow: "initial * 2 ^ i \<le> initial * 2 ^ j" if "i \<le> j" for i j
    using that p(4) by (simp add: power_increasing)
  have cap: "maximum \<le> initial * 2 ^ k" if "maximum \<le> int k" for k
  proof -
    have "int k < int (2 ^ k)" by (simp only: of_nat_less_iff less_exp)
    then have "int k < 2 ^ k" by simp
    moreover have "(2 :: int) ^ k \<le> initial * 2 ^ k" using p(4) by simp
    ultimately show ?thesis using that by linarith
  qed
  have "sorted ?ds" unfolding sorted_iff_nth_mono_less
  proof (intro allI impI)
    fix i j assume "i < j" "j < length ?ds"
    then show "?ds ! i \<le> ?ds ! j" using nth[of i] nth[of j] grow[of i j] by (simp only: less_imp_le) auto
  qed
  moreover have "initial \<le> ?ds ! k \<and> ?ds ! k \<le> maximum \<and> (maximum \<le> int k \<longrightarrow> ?ds ! k = maximum)" if "k < length ?ds" for k
    using nth[OF that] grow[of 0 k] p(5) cap[of k] by auto
  ultimately show ?thesis using d nth by (intro exI[of _ ?ds]) auto
qed

theorem reconnect_delays_double_to_cap_witness:
  "\<exists>p. new_reconnect_policy True 1 30 = Inr p \<and> delays p 7 = Inr [1, 2, 4, 8, 16, 30, 30] \<and>
     (\<exists>ds. delays p 7 = Inr ds \<and> sorted ds)"
proof -
  have "new_reconnect_policy True 1 30 = Inr (projr (new_reconnect_policy True 1 30))" by code_simp
  moreover have "delays (projr (new_reconnect_policy True 1 30)) 7 = Inr [1, 2, 4, 8, 16, 30, 30]" by code_simp
  moreover note reconnect_delays_double_to_cap[OF calculation(1), of 7]
  ultimately show ?thesis by auto
qed

end
