(* ===== verification/Regex.thy ===== *)
theory Regex
  imports Prelude "HOL-Library.Sublist"
begin

text \<open>
  The part of Python's \<open>re\<close> the repository uses: a backtracking matcher that lists the matches of
  a pattern at a position in the order Python tries them, and \<open>re.sub\<close>, which replaces the first
  match at each position from left to right. Text is ASCII.
\<close>

section \<open>Patterns\<close>

datatype regex =
    Empty
  | Char "char \<Rightarrow> bool"
  | Seq regex regex
  | Or regex regex
  | Many regex
  | ManyLazy regex
  | Boundary
  | Group nat regex

text \<open>
  A position: the character before it, the text after it, and the groups captured so far, the
  latest first.
\<close>

type_synonym captures = "(nat \<times> string) list"
type_synonym cursor = "char option \<times> string \<times> captures"

definition remaining :: "cursor \<Rightarrow> nat" where
  "remaining c = length (fst (snd c))"

definition word_char :: "char \<Rightarrow> bool" where
  "word_char c =
     (c \<in> set ''abcdefghijklmnopqrstuvwxyzABCDEFGHIJKLMNOPQRSTUVWXYZ0123456789_'')"

text \<open>
  Repetition takes one more turn only when the turn consumes text, so as many turns as there are
  characters are enough. Greedy repetition tries another turn before it stops, lazy repetition after.
\<close>

primrec many :: "nat \<Rightarrow> (cursor \<Rightarrow> cursor list) \<Rightarrow> cursor \<Rightarrow> cursor list" where
  "many 0 f c = [c]"
| "many (Suc n) f c =
     concat (map (\<lambda>d. if remaining d < remaining c then many n f d else []) (f c)) @ [c]"

primrec many_lazy :: "nat \<Rightarrow> (cursor \<Rightarrow> cursor list) \<Rightarrow> cursor \<Rightarrow> cursor list" where
  "many_lazy 0 f c = [c]"
| "many_lazy (Suc n) f c =
     c # concat (map (\<lambda>d. if remaining d < remaining c then many_lazy n f d else []) (f c))"

primrec run :: "regex \<Rightarrow> cursor \<Rightarrow> cursor list" where
  "run Empty c = [c]"
| "run (Char P) c =
     (case c of
        (p, [], k) \<Rightarrow> []
      | (p, x # xs, k) \<Rightarrow> if P x then [(Some x, xs, k)] else [])"
| "run (Seq a b) c = concat (map (run b) (run a c))"
| "run (Or a b) c = run a c @ run b c"
| "run (Many a) c = many (remaining c) (run a) c"
| "run (ManyLazy a) c = many_lazy (remaining c) (run a) c"
| "run Boundary c =
     (case c of
        (p, s, k) \<Rightarrow>
          if (case p of None \<Rightarrow> False | Some x \<Rightarrow> word_char x) \<noteq>
             (case s of [] \<Rightarrow> False | x # xs \<Rightarrow> word_char x) then [c] else [])"
| "run (Group n a) c =
     map (\<lambda>(p, s, k). (p, s, (n, take (remaining c - length s) (fst (snd c))) # k)) (run a c)"

text \<open>\<open>match.group(n)\<close>.\<close>

definition group :: "nat \<Rightarrow> captures \<Rightarrow> string" where
  "group n k = (case map_of k n of None \<Rightarrow> [] | Some s \<Rightarrow> s)"

text \<open>
  \<open>pattern.sub(replacement, text)\<close>, for patterns that match no empty text: the first match wins,
  and the search goes on after it.
\<close>

function sub :: "regex \<Rightarrow> (captures \<Rightarrow> string) \<Rightarrow> char option \<Rightarrow> string \<Rightarrow> string" where
  "sub r f p [] = []"
| "sub r f p (c # cs) =
     (case run r (p, c # cs, []) of
        [] \<Rightarrow> c # sub r f (Some c) cs
      | (q, s, k) # _ \<Rightarrow>
          if length s \<le> length cs then f k @ sub r f q s else c # sub r f (Some c) cs)"
  by pat_completeness auto
termination by (relation "measure (\<lambda>(r, f, p, s). length s)") auto

section \<open>Abbreviations of the pattern language\<close>

definition charset :: "string \<Rightarrow> regex" where
  "charset cs = Char (\<lambda>c. c \<in> set cs)"

definition excluding :: "string \<Rightarrow> regex" where
  "excluding cs = Char (\<lambda>c. c \<notin> set cs)"

definition nonspace :: "string \<Rightarrow> regex" where
  "nonspace cs = Char (\<lambda>c. c \<notin> set cs \<and> \<not> py_space c)"

definition spaces :: regex where
  "spaces = Many (Char py_space)"

definition plus :: "regex \<Rightarrow> regex" where
  "plus r = Seq r (Many r)"

definition maybe :: "regex \<Rightarrow> regex" where
  "maybe r = Or r Empty"

fun seqs :: "regex list \<Rightarrow> regex" where
  "seqs [] = Empty"
| "seqs [r] = r"
| "seqs (r # rs) = Seq r (seqs rs)"

fun alts :: "regex list \<Rightarrow> regex" where
  "alts [] = Char (\<lambda>c. False)"
| "alts [r] = r"
| "alts (r # rs) = Or r (alts rs)"

text \<open>A literal, and a literal under \<open>re.IGNORECASE\<close>.\<close>

definition exactly :: "string \<Rightarrow> regex" where
  "exactly w = seqs (map (\<lambda>x. Char (\<lambda>c. c = x)) w)"

definition word :: "string \<Rightarrow> regex" where
  "word w = seqs (map (\<lambda>x. Char (\<lambda>c. lower_char c = x)) w)"

section \<open>What matches and substitutions preserve\<close>

text \<open>A match consumes a prefix of the text.\<close>

definition advances :: "cursor \<Rightarrow> cursor \<Rightarrow> bool" where
  "advances c d = (\<exists>t. fst (snd c) = t @ fst (snd d))"

lemma advances_refl [simp]: "advances c c"
  by (simp add: advances_def)

lemma advances_trans: "advances a b \<Longrightarrow> advances b c \<Longrightarrow> advances a c"
  by (auto simp: advances_def)

lemma advances_remaining: "advances c d \<Longrightarrow> remaining d \<le> remaining c"
  by (auto simp: advances_def remaining_def)

lemma many_advances:
  assumes "\<And>c d. d \<in> set (f c) \<Longrightarrow> advances c d"
  shows "d \<in> set (many n f c) \<Longrightarrow> advances c d" "d \<in> set (many_lazy n f c) \<Longrightarrow> advances c d"
  by (induction n arbitrary: c) (fastforce split: if_splits intro: advances_trans[OF assms])+

lemma run_advances: "d \<in> set (run r c) \<Longrightarrow> advances c d"
proof (induction r arbitrary: c d)
  case (Char P)
  then show ?case by (auto simp: advances_def split: list.splits prod.splits if_splits)
next
  case (Seq a b)
  from Seq.prems obtain e where "e \<in> set (run a c)" "d \<in> set (run b e)" by auto
  then show ?case using Seq.IH advances_trans by blast
next
  case (Many r)
  then show ?case using many_advances(1)[of "run r"] by auto
next
  case (ManyLazy r)
  then show ?case using many_advances(2)[of "run r"] by auto
next
  case (Group n r)
  from Group.prems obtain e where "e \<in> set (run r c)" "fst (snd d) = fst (snd e)"
    by (auto simp: split_beta)
  with Group.IH[of e c] show ?case by (simp add: advances_def)
qed (auto split: prod.splits if_splits)

text \<open>
  A substitution whose replacements are not empty keeps a text non-empty, and leaves a text alone
  in which the pattern matches nowhere.
\<close>

lemma sub_nonempty:
  assumes "\<And>k. f k \<noteq> []"
  shows "sub r f p s = [] \<longleftrightarrow> s = []"
  by (cases s) (auto simp: assms split: list.splits)

lemma sub_no_match:
  assumes "\<And>p c cs. suffix (c # cs) s \<Longrightarrow> run r (p, c # cs, []) = []"
  shows "sub r f p s = s"
  using assms
proof (induction s arbitrary: p)
  case (Cons c cs)
  have "sub r f (Some c) cs = cs"
    by (rule Cons.IH) (auto intro: Cons.prems suffix_ConsI)
  moreover have "run r (p, c # cs, []) = []" by (rule Cons.prems) simp
  ultimately show ?case by simp
qed simp

end
