(* ===== verification/Privacy.thy ===== *)
theory Privacy
  imports Regex Stored_Json
begin

text \<open>
  The filter of tsunade/evidence_privacy.py, which masks credentials in every text and document
  that Tsunade stores or shows. Its patterns are the regular expressions of the source.
\<close>

section \<open>Patterns\<close>

definition lower_in :: "string \<Rightarrow> regex" where
  "lower_in cs = Char (\<lambda>c. lower_char c \<in> set cs)"

definition letters :: string where
  "letters = ''abcdefghijklmnopqrstuvwxyz''"

definition alphanumerics :: string where
  "alphanumerics = letters @ ''0123456789''"

definition URL_USERINFO :: regex where
  "URL_USERINFO =
     seqs [Boundary,
       Group 1 (seqs [lower_in letters, Many (lower_in (alphanumerics @ ''+.-'')), exactly ''://'']),
       plus (nonspace ''/@''), exactly ''@'']"

definition AUTHORIZATION :: regex where
  "AUTHORIZATION =
     seqs [Group 1 (seqs [Boundary, word ''authorization'', spaces, charset '':='', spaces,
         alts [word ''bearer'', word ''basic''], plus (Char py_space)]),
       plus (nonspace '',;'')]"

definition BEARER :: regex where
  "BEARER =
     seqs ([Boundary, Group 1 (word ''bearer''), plus (Char py_space)] @
       replicate 8 (nonspace '',;'') @ [Many (nonspace '',;'')])"

definition PRIVATE_KEY :: regex where
  "PRIVATE_KEY =
     seqs [exactly ''-----BEGIN '', Many (excluding ''-''), exactly ''PRIVATE KEY-----'',
       ManyLazy (Char (\<lambda>c. True)),
       exactly ''-----END '', Many (excluding ''-''), exactly ''PRIVATE KEY-----'']"

definition quoted :: "char \<Rightarrow> regex" where
  "quoted q = seqs [exactly [q], Many (excluding [q]), exactly [q]]"

definition SENSITIVE_ASSIGNMENT :: regex where
  "SENSITIVE_ASSIGNMENT =
     seqs [Boundary,
       Group 1 (alts [
         Seq (Many (Seq (plus (lower_in alphanumerics)) (charset ''_-''))) (word ''token''),
         seqs [word ''api'', maybe (charset ''_-''), word ''key''],
         word ''apikey'',
         word ''password'',
         word ''passwd'',
         seqs [word ''client'', maybe (charset ''_-''), word ''secret''],
         word ''secret'']),
       Group 2 (seqs [spaces, charset '':='', spaces]),
       alts [quoted quote, quoted (CHR 0x27), plus (nonspace ''&,;'')]]"

definition SENSITIVE_KEYS :: "string list" where
  "SENSITIVE_KEYS =
     [''token'', ''access_token'', ''accesstoken'', ''refresh_token'', ''refreshtoken'', ''api_token'',
      ''apitoken'', ''api_key'', ''apikey'', ''password'', ''passwd'', ''client_secret'', ''clientsecret'',
      ''secret'', ''authorization'', ''proxy_authorization'', ''proxyauthorization'', ''cookie'',
      ''set_cookie'', ''setcookie'', ''stok'', ''private_key'', ''privatekey'', ''credentials'']"

section \<open>Masking\<close>

definition redact_sensitive_text :: "string \<Rightarrow> string" where
  "redact_sensitive_text value =
     (let v1 = sub PRIVATE_KEY (\<lambda>k. ''[redacted-private-key]'') None value;
          v2 = redact_session_paths v1;
          v3 = sub URL_USERINFO (\<lambda>k. group 1 k @ ''[redacted]@'') None v2;
          v4 = sub AUTHORIZATION (\<lambda>k. group 1 k @ ''[redacted]'') None v3;
          v5 = sub BEARER (\<lambda>k. group 1 k @ '' [redacted]'') None v4
      in sub SENSITIVE_ASSIGNMENT (\<lambda>k. group 1 k @ group 2 k @ REDACTED) None v5)"

text \<open>\<open>str.strip\<close> of one character.\<close>

definition strip_char :: "char \<Rightarrow> string \<Rightarrow> string" where
  "strip_char x s = rev (dropWhile (\<lambda>c. c = x) (rev (dropWhile (\<lambda>c. c = x) s)))"

definition ends_with :: "string \<Rightarrow> string \<Rightarrow> bool" where
  "ends_with s t = (drop (length s - length t) s = t)"

definition is_sensitive_key :: "string \<Rightarrow> bool" where
  "is_sensitive_key value =
     (let key = strip_char (CHR ''_'')
            (sub (plus (excluding alphanumerics)) (\<lambda>k. ''_'') None (map lower_char value))
      in key \<in> set SENSITIVE_KEYS \<or>
         list_ex (ends_with key) [''_token'', ''_password'', ''_passwd'', ''_secret'', ''_api_key''])"

fun redact_sensitive_value :: "json \<Rightarrow> json" where
  "redact_sensitive_value (JStr s) = JStr (redact_sensitive_text s)"
| "redact_sensitive_value (JObj kvs) =
     JObj (map (\<lambda>(key, content).
       (key, if is_sensitive_key key then JStr REDACTED else redact_sensitive_value content)) kvs)"
| "redact_sensitive_value (JArr vs) = JArr (map redact_sensitive_value vs)"
| "redact_sensitive_value v = v"

section \<open>What masking keeps and hides\<close>

lemma redact_text_nonempty: "redact_sensitive_text s = [] \<longleftrightarrow> s = []"
proof -
  have "redact_session_paths t = [] \<longleftrightarrow> t = []" for t
    by (cases t) (auto simp: redact_session_paths.simps)
  then show ?thesis by (simp add: redact_sensitive_text_def Let_def sub_nonempty REDACTED_def)
qed

text \<open>The value a chain of keys leads to.\<close>

fun jpath :: "json \<Rightarrow> string list \<Rightarrow> json option" where
  "jpath v [] = Some v"
| "jpath (JObj kvs) (k # ks) = (case map_of kvs k of None \<Rightarrow> None | Some w \<Rightarrow> jpath w ks)"
| "jpath v (k # ks) = None"

lemma map_of_redacted:
  "map_of (map (\<lambda>(key, content). (key, if P key then c else f content)) kvs) k =
     map_option (\<lambda>w. if P k then c else f w) (map_of kvs k)"
  by (induction kvs) auto


text \<open>The regression example of tests/test_evidence_privacy.py.\<close>

lemma sensitive_text_sample:
  "redact_sensitive_text ''https://operator:pw@example.test?access_token=fake&mode=check password=x'' =
     ''https://[redacted]@example.test?access_token=[redacted]&mode=check password=[redacted]''"
  by code_simp

lemma sensitive_keys_sample:
  "is_sensitive_key ''Worker-Token''" "\<not> is_sensitive_key ''token_file''"
  by code_simp+

end
