(* ===== verification/Incident_Texts.thy ===== *)
theory Incident_Texts
  imports Main
begin

text \<open>
  The messages of tsunade/ that incidents, repairs, manual actions and requests record, in the UTF-8
  bytes of the source.
\<close>

definition txt_resolved :: string where
  "txt_resolved =
     ''La capacit'' @ [CHR 0xC3, CHR 0xA9] @ '' est revenue '' @ [CHR 0xC3, CHR 0xA0] @
     '' un '' @ [CHR 0xC3, CHR 0xA9] @ ''tat sain.''"

definition txt_monitoring_removed :: string where
  "txt_monitoring_removed =
     ''La surveillance de cette capacit'' @ [CHR 0xC3, CHR 0xA9] @ '' a '' @
     [CHR 0xC3, CHR 0xA9] @ ''t'' @ [CHR 0xC3, CHR 0xA9] @ '' retir'' @ [CHR 0xC3, CHR 0xA9] @
     ''e de l'' @ [CHR 0xE2, CHR 0x80, CHR 0x99] @ ''architecture.''"

definition txt_repair_needs_active :: string where
  "txt_repair_needs_active =
     ''Une r'' @ [CHR 0xC3, CHR 0xA9] @ ''paration exige un incident actif''"

definition txt_proposes :: string where
  "txt_proposes =
     ''Tsunade propose ''"

definition txt_repair_authorized :: string where
  "txt_repair_authorized =
     ''R'' @ [CHR 0xC3, CHR 0xA9] @ ''paration autoris'' @ [CHR 0xC3, CHR 0xA9] @ ''e depuis ''"

definition txt_refused_by_user :: string where
  "txt_refused_by_user =
     ''R'' @ [CHR 0xC3, CHR 0xA9] @ ''paration refus'' @ [CHR 0xC3, CHR 0xA9] @ ''e par l'' @
     [CHR 0xE2, CHR 0x80, CHR 0x99] @ ''utilisateur.''"

definition txt_repair_refused :: string where
  "txt_repair_refused =
     ''R'' @ [CHR 0xC3, CHR 0xA9] @ ''paration refus'' @ [CHR 0xC3, CHR 0xA9] @ ''e depuis ''"

definition txt_not_authorized :: string where
  "txt_not_authorized =
     ''La r'' @ [CHR 0xC3, CHR 0xA9] @ ''paration n'' @ [CHR 0xE2, CHR 0x80, CHR 0x99] @
     ''est pas autoris'' @ [CHR 0xC3, CHR 0xA9] @ ''e''"

definition txt_repair_executed :: string where
  "txt_repair_executed =
     ''R'' @ [CHR 0xC3, CHR 0xA9] @ ''paration ex'' @ [CHR 0xC3, CHR 0xA9] @ ''cut'' @
     [CHR 0xC3, CHR 0xA9] @ ''e ; Shikamaru doit maintenant v'' @ [CHR 0xC3, CHR 0xA9] @
     ''rifier la capacit'' @ [CHR 0xC3, CHR 0xA9] @ ''.''"

definition txt_execution_failed :: string where
  "txt_execution_failed =
     [CHR 0xC3, CHR 0x89] @ ''chec de l'' @ [CHR 0xE2, CHR 0x80, CHR 0x99] @ ''ex'' @
     [CHR 0xC3, CHR 0xA9] @ ''cution de la r'' @ [CHR 0xC3, CHR 0xA9] @ ''paration : ''"

definition txt_unknown_proposal :: string where
  "txt_unknown_proposal =
     ''Proposition de r'' @ [CHR 0xC3, CHR 0xA9] @ ''paration inconnue''"

definition txt_proposal_expired :: string where
  "txt_proposal_expired =
     ''Cette proposition de r'' @ [CHR 0xC3, CHR 0xA9] @ ''paration a expir'' @
     [CHR 0xC3, CHR 0xA9] @ '' ; aucune action n'' @ [CHR 0xE2, CHR 0x80, CHR 0x99] @ ''a '' @
     [CHR 0xC3, CHR 0xA9] @ ''t'' @ [CHR 0xC3, CHR 0xA9] @ '' ex'' @ [CHR 0xC3, CHR 0xA9] @
     ''cut'' @ [CHR 0xC3, CHR 0xA9] @ ''e''"

definition txt_proposal_settled :: string where
  "txt_proposal_settled =
     ''Cette r'' @ [CHR 0xC3, CHR 0xA9] @ ''paration n'' @ [CHR 0xE2, CHR 0x80, CHR 0x99] @
     ''attend plus de validation''"

definition txt_resolved_before :: string where
  "txt_resolved_before =
     ''L'' @ [CHR 0xE2, CHR 0x80, CHR 0x99] @ ''incident s'' @ [CHR 0xE2, CHR 0x80, CHR 0x99] @
     ''est r'' @ [CHR 0xC3, CHR 0xA9] @ ''solu avant toute autorisation ; aucune action n'' @
     [CHR 0xE2, CHR 0x80, CHR 0x99] @ ''a '' @ [CHR 0xC3, CHR 0xA9] @ ''t'' @
     [CHR 0xC3, CHR 0xA9] @ '' ex'' @ [CHR 0xC3, CHR 0xA9] @ ''cut'' @ [CHR 0xC3, CHR 0xA9] @
     ''e.''"

definition txt_request_expired :: string where
  "txt_request_expired =
     ''La demande d'' @ [CHR 0xE2, CHR 0x80, CHR 0x99] @ ''autorisation a expir'' @
     [CHR 0xC3, CHR 0xA9] @ '' ; aucune action n'' @ [CHR 0xE2, CHR 0x80, CHR 0x99] @ ''a '' @
     [CHR 0xC3, CHR 0xA9] @ ''t'' @ [CHR 0xC3, CHR 0xA9] @ '' ex'' @ [CHR 0xC3, CHR 0xA9] @
     ''cut'' @ [CHR 0xC3, CHR 0xA9] @ ''e.''"

definition txt_unverified_within :: string where
  "txt_unverified_within =
     ''Aucune observation Shikamaru n'' @ [CHR 0xE2, CHR 0x80, CHR 0x99] @ ''a confirm'' @
     [CHR 0xC3, CHR 0xA9] @ '' le r'' @ [CHR 0xC3, CHR 0xA9] @ ''sultat dans les ''"

definition txt_unverified_after :: string where
  "txt_unverified_after =
     '' minutes suivant l'' @ [CHR 0xE2, CHR 0x80, CHR 0x99] @ ''ex'' @ [CHR 0xC3, CHR 0xA9] @
     ''cution. La r'' @ [CHR 0xC3, CHR 0xA9] @ ''paration n'' @ [CHR 0xE2, CHR 0x80, CHR 0x99] @
     ''est pas r'' @ [CHR 0xC3, CHR 0xA9] @ ''p'' @ [CHR 0xC3, CHR 0xA9] @ ''t'' @
     [CHR 0xC3, CHR 0xA9] @ ''e automatiquement.''"

definition txt_repair_confirmed :: string where
  "txt_repair_confirmed =
     ''Shikamaru confirme que la capacit'' @ [CHR 0xC3, CHR 0xA9] @ '' est redevenue saine.''"

definition txt_repair_still_degraded :: string where
  "txt_repair_still_degraded =
     ''Shikamaru observe encore une capacit'' @ [CHR 0xC3, CHR 0xA9] @ '' d'' @
     [CHR 0xC3, CHR 0xA9] @ ''grad'' @ [CHR 0xC3, CHR 0xA9] @ ''e apr'' @ [CHR 0xC3, CHR 0xA8] @
     ''s la r'' @ [CHR 0xC3, CHR 0xA9] @ ''paration.''"

definition txt_unknown_repair :: string where
  "txt_unknown_repair =
     ''R'' @ [CHR 0xC3, CHR 0xA9] @ ''paration inconnue''"

definition txt_known_repair :: string where
  "txt_known_repair =
     ''R'' @ [CHR 0xC3, CHR 0xA9] @ ''paration connue : ''"

definition txt_successes :: string where
  "txt_successes =
     '' r'' @ [CHR 0xC3, CHR 0xA9] @ ''ussite(s) et ''"

definition txt_failures :: string where
  "txt_failures =
     '' '' @ [CHR 0xC3, CHR 0xA9] @ ''chec(s) sur ''"

definition txt_last_success :: string where
  "txt_last_success =
     '', derni'' @ [CHR 0xC3, CHR 0xA8] @ ''re r'' @ [CHR 0xC3, CHR 0xA9] @ ''ussite le ''"

definition txt_at :: string where
  "txt_at =
     '' '' @ [CHR 0xC3, CHR 0xA0] @ '' ''"

definition txt_manual_pending :: string where
  "txt_manual_pending =
     ''Une action manuelle attend d'' @ [CHR 0xC3, CHR 0xA9] @ ''j'' @ [CHR 0xC3, CHR 0xA0] @
     '' la v'' @ [CHR 0xC3, CHR 0xA9] @ ''rification de Shikamaru''"

definition txt_manual_declared :: string where
  "txt_manual_declared =
     ''Action manuelle d'' @ [CHR 0xC3, CHR 0xA9] @ ''clar'' @ [CHR 0xC3, CHR 0xA9] @ ''e : '' @
     [CHR 0xC2, CHR 0xAB] @ '' ''"

definition txt_manual_nothing_run :: string where
  "txt_manual_nothing_run =
     '' '' @ [CHR 0xC2, CHR 0xBB] @ ''. Ohana n'' @ [CHR 0xE2, CHR 0x80, CHR 0x99] @ ''ex'' @
     [CHR 0xC3, CHR 0xA9] @ ''cute rien ; Shikamaru doit v'' @ [CHR 0xC3, CHR 0xA9] @
     ''rifier le retour '' @ [CHR 0xC3, CHR 0xA0] @ '' l'' @
     [CHR 0xE2, CHR 0x80, CHR 0x99, CHR 0xC3, CHR 0xA9] @ ''tat sain.''"

definition txt_manual_too_late :: string where
  "txt_manual_too_late =
     ''Une r'' @ [CHR 0xC3, CHR 0xA9] @ ''solution manuelle se d'' @ [CHR 0xC3, CHR 0xA9] @
     ''clare au plus tard 10 minutes apr'' @ [CHR 0xC3, CHR 0xA8] @ ''s la r'' @
     [CHR 0xC3, CHR 0xA9] @ ''solution de l'' @ [CHR 0xE2, CHR 0x80, CHR 0x99] @ ''incident''"

definition txt_manual_already :: string where
  "txt_manual_already =
     ''Une action manuelle est d'' @ [CHR 0xC3, CHR 0xA9] @ ''j'' @ [CHR 0xC3, CHR 0xA0] @
     '' d'' @ [CHR 0xC3, CHR 0xA9] @ ''clar'' @ [CHR 0xC3, CHR 0xA9] @ ''e sur cet incident''"

definition txt_manual_repaired :: string where
  "txt_manual_repaired =
     ''Cet incident a '' @ [CHR 0xC3, CHR 0xA9] @ ''t'' @ [CHR 0xC3, CHR 0xA9] @ '' r'' @
     [CHR 0xC3, CHR 0xA9] @ ''solu par une r'' @ [CHR 0xC3, CHR 0xA9] @ ''paration supervis'' @
     [CHR 0xC3, CHR 0xA9] @ ''e v'' @ [CHR 0xC3, CHR 0xA9] @ ''rifi'' @ [CHR 0xC3, CHR 0xA9] @
     ''e''"

definition txt_recovery_seen :: string where
  "txt_recovery_seen =
     ''Shikamaru avait constat'' @ [CHR 0xC3, CHR 0xA9] @ '' le retour '' @
     [CHR 0xC3, CHR 0xA0] @ '' l'' @ [CHR 0xE2, CHR 0x80, CHR 0x99, CHR 0xC3, CHR 0xA9] @
     ''tat sain le ''"

definition txt_recovery_before :: string where
  "txt_recovery_before =
     '', avant cette d'' @ [CHR 0xC3, CHR 0xA9] @
     ''claration. Cette succession ne prouve pas '' @ [CHR 0xC3, CHR 0xA0] @
     '' elle seule que l'' @ [CHR 0xE2, CHR 0x80, CHR 0x99] @ ''action en est la cause.''"

definition txt_manual_after :: string where
  "txt_manual_after =
     ''Action manuelle d'' @ [CHR 0xC3, CHR 0xA9] @ ''clar'' @ [CHR 0xC3, CHR 0xA9] @ ''e apr'' @
     [CHR 0xC3, CHR 0xA8] @ ''s la r'' @ [CHR 0xC3, CHR 0xA9] @ ''solution : '' @
     [CHR 0xC2, CHR 0xAB] @ '' ''"

definition txt_manual_after_end :: string where
  "txt_manual_after_end =
     '' '' @ [CHR 0xC2, CHR 0xBB] @ ''. Ohana n'' @ [CHR 0xE2, CHR 0x80, CHR 0x99] @ ''ex'' @
     [CHR 0xC3, CHR 0xA9] @ ''cute rien.''"

definition txt_manual_confirmed :: string where
  "txt_manual_confirmed =
     ''Shikamaru observe un retour '' @ [CHR 0xC3, CHR 0xA0] @ '' l'' @
     [CHR 0xE2, CHR 0x80, CHR 0x99, CHR 0xC3, CHR 0xA9] @ ''tat sain apr'' @
     [CHR 0xC3, CHR 0xA8] @ ''s l'' @ [CHR 0xE2, CHR 0x80, CHR 0x99] @ ''action d'' @
     [CHR 0xC3, CHR 0xA9] @ ''clar'' @ [CHR 0xC3, CHR 0xA9] @
     ''e. Cette succession ne prouve pas '' @ [CHR 0xC3, CHR 0xA0] @ '' elle seule que l'' @
     [CHR 0xE2, CHR 0x80, CHR 0x99] @ ''action en est la cause.''"

definition txt_manual_still_degraded :: string where
  "txt_manual_still_degraded =
     ''Shikamaru observe encore une capacit'' @ [CHR 0xC3, CHR 0xA9] @ '' d'' @
     [CHR 0xC3, CHR 0xA9] @ ''grad'' @ [CHR 0xC3, CHR 0xA9] @ ''e apr'' @ [CHR 0xC3, CHR 0xA8] @
     ''s l'' @ [CHR 0xE2, CHR 0x80, CHR 0x99] @ ''action d'' @ [CHR 0xC3, CHR 0xA9] @ ''clar'' @
     [CHR 0xC3, CHR 0xA9] @ ''e.''"

definition txt_manual_unconfirmed :: string where
  "txt_manual_unconfirmed =
     ''Aucune observation Shikamaru n'' @ [CHR 0xE2, CHR 0x80, CHR 0x99] @ ''a confirm'' @
     [CHR 0xC3, CHR 0xA9] @ '' le retour '' @ [CHR 0xC3, CHR 0xA0] @ '' l'' @
     [CHR 0xE2, CHR 0x80, CHR 0x99, CHR 0xC3, CHR 0xA9] @ ''tat sain apr'' @
     [CHR 0xC3, CHR 0xA8] @ ''s l'' @ [CHR 0xE2, CHR 0x80, CHR 0x99] @ ''action d'' @
     [CHR 0xC3, CHR 0xA9] @ ''clar'' @ [CHR 0xC3, CHR 0xA9] @ ''e.''"

definition txt_not_a_deferral :: string where
  "txt_not_a_deferral =
     ''Cette r'' @ [CHR 0xC3, CHR 0xA9] @ ''ponse ne constitue pas un report''"

definition txt_not_offered :: string where
  "txt_not_offered =
     ''Cette r'' @ [CHR 0xC3, CHR 0xA9] @ ''ponse n'' @ [CHR 0xE2, CHR 0x80, CHR 0x99] @
     ''est pas propos'' @ [CHR 0xC3, CHR 0xA9] @ ''e par Tsunade''"

definition txt_deferred :: string where
  "txt_deferred =
     ''La d'' @ [CHR 0xC3, CHR 0xA9] @ ''cision a '' @ [CHR 0xC3, CHR 0xA9] @ ''t'' @
     [CHR 0xC3, CHR 0xA9] @ '' report'' @ [CHR 0xC3, CHR 0xA9] @ ''e par l'' @
     [CHR 0xE2, CHR 0x80, CHR 0x99] @ ''utilisateur.''"

definition txt_answer_recorded :: string where
  "txt_answer_recorded =
     ''R'' @ [CHR 0xC3, CHR 0xA9] @ ''ponse utilisateur enregistr'' @ [CHR 0xC3, CHR 0xA9] @
     ''e : ''"

definition txt_unknown_request :: string where
  "txt_unknown_request =
     ''Demande Tsunade inconnue''"

definition txt_request_settled :: string where
  "txt_request_settled =
     ''Cette demande Tsunade n'' @ [CHR 0xE2, CHR 0x80, CHR 0x99] @ ''attend plus de r'' @
     [CHR 0xC3, CHR 0xA9] @ ''ponse''"

definition txt_incident_resolved :: string where
  "txt_incident_resolved =
     ''L'' @ [CHR 0xE2, CHR 0x80, CHR 0x99] @ ''incident est d'' @ [CHR 0xC3, CHR 0xA9] @ ''j'' @
     [CHR 0xC3, CHR 0xA0] @ '' r'' @ [CHR 0xC3, CHR 0xA9] @ ''solu''"

definition txt_collect_logs :: string where
  "txt_collect_logs =
     ''Autoriser une collecte cibl'' @ [CHR 0xC3, CHR 0xA9] @ ''e des journaux de ''"

definition txt_pattern :: string where
  "txt_pattern =
     '' ? Motif recherch'' @ [CHR 0xC3, CHR 0xA9] @ '' : '' @ [CHR 0xC2, CHR 0xAB] @ '' ''"

definition txt_window :: string where
  "txt_window =
     '' '' @ [CHR 0xC2, CHR 0xBB] @ ''. Fen'' @ [CHR 0xC3, CHR 0xAA] @ ''tre de ''"

definition txt_at_most :: string where
  "txt_at_most =
     '', au plus ''"

definition txt_read_only :: string where
  "txt_read_only =
     '' Kio lus, sans modification du syst'' @ [CHR 0xC3, CHR 0xA8] @ ''me.''"

definition txt_followup_waits :: string where
  "txt_followup_waits =
     ''Une collecte compl'' @ [CHR 0xC3, CHR 0xA9] @ ''mentaire attend votre autorisation.''"

definition txt_unknown_followup :: string where
  "txt_unknown_followup =
     ''Investigation compl'' @ [CHR 0xC3, CHR 0xA9] @ ''mentaire inconnue''"

definition txt_invalid_choice :: string where
  "txt_invalid_choice =
     ''Cette r'' @ [CHR 0xC3, CHR 0xA9] @ ''ponse n'' @ [CHR 0xE2, CHR 0x80, CHR 0x99] @
     ''est pas valable pour l'' @ [CHR 0xE2, CHR 0x80, CHR 0x99] @ ''investigation''"

definition txt_not_investigation :: string where
  "txt_not_investigation =
     ''Cette demande ne concerne pas une investigation''"

definition txt_no_plan :: string where
  "txt_no_plan =
     ''Le plan d'' @ [CHR 0xE2, CHR 0x80, CHR 0x99] @ ''investigation est indisponible''"

definition txt_policy_authorized :: string where
  "txt_policy_authorized =
     ''Investigation en lecture seule autoris'' @ [CHR 0xC3, CHR 0xA9] @ ''e par la politique.''"

definition txt_followup_authorized :: string where
  "txt_followup_authorized =
     ''Collecte compl'' @ [CHR 0xC3, CHR 0xA9] @ ''mentaire autoris'' @ [CHR 0xC3, CHR 0xA9] @
     ''e depuis ''"

definition txt_followup_refused :: string where
  "txt_followup_refused =
     ''Collecte compl'' @ [CHR 0xC3, CHR 0xA9] @ ''mentaire refus'' @ [CHR 0xC3, CHR 0xA9] @
     ''e.''"

definition txt_service_undeclared :: string where
  "txt_service_undeclared =
     ''Le service de cet incident n'' @ [CHR 0xE2, CHR 0x80, CHR 0x99] @ ''est pas d'' @
     [CHR 0xC3, CHR 0xA9] @ ''clar'' @ [CHR 0xC3, CHR 0xA9]"

definition txt_no_known_repair :: string where
  "txt_no_known_repair =
     ''Aucune r'' @ [CHR 0xC3, CHR 0xA9] @ ''paration connue ne correspond '' @
     [CHR 0xC3, CHR 0xA0] @ '' ce service''"

definition txt_agent_host_only :: string where
  "txt_agent_host_only =
     ''Cette r'' @ [CHR 0xC3, CHR 0xA9] @ ''paration n'' @ [CHR 0xE2, CHR 0x80, CHR 0x99] @
     ''agit que sur l'' @ [CHR 0xE2, CHR 0x80, CHR 0x99] @ ''h'' @ [CHR 0xC3, CHR 0xB4] @
     ''te de l'' @ [CHR 0xE2, CHR 0x80, CHR 0x99] @ ''Agent ; le service est d'' @
     [CHR 0xC3, CHR 0xA9] @ ''clar'' @ [CHR 0xC3, CHR 0xA9] @ '' sur ''"

definition txt_needs_probe :: string where
  "txt_needs_probe =
     ''La r'' @ [CHR 0xC3, CHR 0xA9] @ ''paration exige un diagnostic confirm'' @
     [CHR 0xC3, CHR 0xA9] @ '' par une sonde d'' @ [CHR 0xC3, CHR 0xA9] @ ''terministe''"

definition txt_needs_supervisor :: string where
  "txt_needs_supervisor =
     ''La r'' @ [CHR 0xC3, CHR 0xA9] @ ''paration exige un diagnostic confirm'' @
     [CHR 0xC3, CHR 0xA9] @ '' par le Supervisor''"

definition txt_probe :: string where
  "txt_probe =
     ''La sonde ''"

definition txt_probe_silent :: string where
  "txt_probe_silent =
     '' ne confirme pas le sympt'' @ [CHR 0xC3, CHR 0xB4] @ ''me que cette r'' @
     [CHR 0xC3, CHR 0xA9] @ ''paration corrige''"

definition txt_addon :: string where
  "txt_addon =
     ''Le Supervisor indique l'' @ [CHR 0xE2, CHR 0x80, CHR 0x99] @ ''add-on ''"

definition txt_addon_state :: string where
  "txt_addon_state =
     '' dans l'' @ [CHR 0xE2, CHR 0x80, CHR 0x99, CHR 0xC3, CHR 0xA9] @ ''tat '' @
     [CHR 0xC2, CHR 0xAB] @ '' ''"

definition txt_addon_other :: string where
  "txt_addon_other =
     '' '' @ [CHR 0xC2, CHR 0xBB] @ '', que cette r'' @ [CHR 0xC3, CHR 0xA9] @
     ''paration ne corrige pas''"

definition txt_no_addon :: string where
  "txt_no_addon =
     ''Aucun add-on correspondant n'' @ [CHR 0xE2, CHR 0x80, CHR 0x99] @ ''a '' @
     [CHR 0xC3, CHR 0xA9] @ ''t'' @ [CHR 0xC3, CHR 0xA9] @ '' observ'' @ [CHR 0xC3, CHR 0xA9] @
     '' par le Supervisor de ''"

definition txt_no_executor :: string where
  "txt_no_executor =
     ''Aucun ex'' @ [CHR 0xC3, CHR 0xA9] @ ''cuteur pour cette r'' @ [CHR 0xC3, CHR 0xA9] @
     ''paration''"

definition txt_unknown_experience :: string where
  "txt_unknown_experience =
     ''R'' @ [CHR 0xC3, CHR 0xA9] @ ''paration connue introuvable''"

definition txt_no_candidate :: string where
  "txt_no_candidate =
     ''Cet incident ne fournit aucune r'' @ [CHR 0xC3, CHR 0xA9] @ ''paration valid'' @
     [CHR 0xC3, CHR 0xA9] @ ''e '' @ [CHR 0xC3, CHR 0xA0] @ '' m'' @ [CHR 0xC3, CHR 0xA9] @
     ''moriser''"

definition txt_prompt_repair :: string where
  "txt_prompt_repair =
     ''Cette intervention semble avoir r'' @ [CHR 0xC3, CHR 0xA9] @ ''solu l'' @
     [CHR 0xE2, CHR 0x80, CHR 0x99] @ ''incident. Enregistrer comme r'' @ [CHR 0xC3, CHR 0xA9] @
     ''paration connue ?''"

definition txt_prompt_manual :: string where
  "txt_prompt_manual =
     ''Cette action semble avoir particip'' @ [CHR 0xC3, CHR 0xA9] @ '' '' @
     [CHR 0xC3, CHR 0xA0] @ '' la r'' @ [CHR 0xC3, CHR 0xA9] @
     ''solution. Souhaitez-vous la conserver comme piste de r'' @ [CHR 0xC3, CHR 0xA9] @
     ''paration connue ?''"

definition txt_capability_healthy :: string where
  "txt_capability_healthy =
     ''Capacit'' @ [CHR 0xC3, CHR 0xA9] @ '' saine''"

definition txt_symptom_seen :: string where
  "txt_symptom_seen =
     ''Sympt'' @ [CHR 0xC3, CHR 0xB4] @ ''me observ'' @ [CHR 0xC3, CHR 0xA9] @ '' : ''"

definition txt_declared_after :: string where
  "txt_declared_after =
     ''Votre action a '' @ [CHR 0xC3, CHR 0xA9] @ ''t'' @ [CHR 0xC3, CHR 0xA9] @ '' d'' @
     [CHR 0xC3, CHR 0xA9] @ ''clar'' @ [CHR 0xC3, CHR 0xA9] @ ''e apr'' @ [CHR 0xC3, CHR 0xA8] @
     ''s le retour '' @ [CHR 0xC3, CHR 0xA0] @ '' l'' @
     [CHR 0xE2, CHR 0x80, CHR 0x99, CHR 0xC3, CHR 0xA9] @ ''tat sain constat'' @
     [CHR 0xC3, CHR 0xA9] @ '' par Shikamaru''"

definition txt_seen_after :: string where
  "txt_seen_after =
     ''Shikamaru a constat'' @ [CHR 0xC3, CHR 0xA9] @ '' le retour '' @ [CHR 0xC3, CHR 0xA0] @
     '' l'' @ [CHR 0xE2, CHR 0x80, CHR 0x99, CHR 0xC3, CHR 0xA9] @ ''tat sain apr'' @
     [CHR 0xC3, CHR 0xA8] @ ''s votre action''"

definition txt_not_a_cause :: string where
  "txt_not_a_cause =
     '' ; cette proximit'' @ [CHR 0xC3, CHR 0xA9] @ '' dans le temps ne prouve pas '' @
     [CHR 0xC3, CHR 0xA0] @ '' elle seule qu'' @ [CHR 0xE2, CHR 0x80, CHR 0x99] @
     ''elle en est la cause. La piste restera une note : Ohana ne l'' @
     [CHR 0xE2, CHR 0x80, CHR 0x99] @ ''ex'' @ [CHR 0xC3, CHR 0xA9] @ ''cutera jamais.''"

definition txt_experience_saved :: string where
  "txt_experience_saved =
     ''R'' @ [CHR 0xC3, CHR 0xA9] @ ''paration enregistr'' @ [CHR 0xC3, CHR 0xA9] @
     ''e comme exp'' @ [CHR 0xC3, CHR 0xA9] @ ''rience connue apr'' @ [CHR 0xC3, CHR 0xA8] @
     ''s validation humaine.''"

definition txt_same_symptom :: string where
  "txt_same_symptom =
     ''M'' @ [CHR 0xC3, CHR 0xAA] @ ''me sympt'' @ [CHR 0xC3, CHR 0xB4] @ ''me : ''"

definition txt_failing_on :: string where
  "txt_failing_on =
     '' en '' @ [CHR 0xC3, CHR 0xA9] @ ''chec sur ''"

definition txt_same_nature :: string where
  "txt_same_nature =
     ''M'' @ [CHR 0xC3, CHR 0xAA] @ ''me nature : ''"

definition txt_same_evidence :: string where
  "txt_same_evidence =
     ''M'' @ [CHR 0xC3, CHR 0xAA] @ ''me preuve : diagnostic confirm'' @ [CHR 0xC3, CHR 0xA9] @
     '' ''"

definition txt_by_probe :: string where
  "txt_by_probe =
     ''par une sonde d'' @ [CHR 0xC3, CHR 0xA9] @ ''terministe''"

definition txt_by_supervisor :: string where
  "txt_by_supervisor =
     ''par le Supervisor''"

definition txt_same_action :: string where
  "txt_same_action =
     ''M'' @ [CHR 0xC3, CHR 0xAA] @ ''me action : ''"

definition txt_more_failures :: string where
  "txt_more_failures =
     ''Cette r'' @ [CHR 0xC3, CHR 0xA9] @ ''paration a plus souvent '' @ [CHR 0xC3, CHR 0xA9] @
     ''chou'' @ [CHR 0xC3, CHR 0xA9] @ '' que r'' @ [CHR 0xC3, CHR 0xA9] @ ''ussi.''"

definition txt_failed_last :: string where
  "txt_failed_last =
     ''Cette r'' @ [CHR 0xC3, CHR 0xA9] @ ''paration a '' @ [CHR 0xC3, CHR 0xA9] @ ''chou'' @
     [CHR 0xC3, CHR 0xA9] @ '' lors de sa derni'' @ [CHR 0xC3, CHR 0xA8] @ ''re ex'' @
     [CHR 0xC3, CHR 0xA9] @ ''cution, apr'' @ [CHR 0xC3, CHR 0xA8] @ ''s des r'' @
     [CHR 0xC3, CHR 0xA9] @ ''ussites.''"

definition txt_other_capability :: string where
  "txt_other_capability =
     ''Capacit'' @ [CHR 0xC3, CHR 0xA9] @ '' diff'' @ [CHR 0xC3, CHR 0xA9] @ ''rente''"

definition txt_same_equipment :: string where
  "txt_same_equipment =
     ''M'' @ [CHR 0xC3, CHR 0xAA] @ ''me '' @ [CHR 0xC3, CHR 0xA9] @ ''quipement''"

definition txt_other_equipment :: string where
  "txt_other_equipment =
     ''Autre '' @ [CHR 0xC3, CHR 0xA9] @ ''quipement''"

definition txt_same_service :: string where
  "txt_same_service =
     ''M'' @ [CHR 0xC3, CHR 0xAA] @ ''me service''"

definition txt_same_reasons :: string where
  "txt_same_reasons =
     ''M'' @ [CHR 0xC3, CHR 0xAA] @ ''mes raisons : ''"

definition txt_reasons :: string where
  "txt_reasons =
     ''Raisons : ''"

definition txt_no_reason :: string where
  "txt_no_reason =
     ''aucune''"

definition txt_same_message :: string where
  "txt_same_message =
     ''M'' @ [CHR 0xC3, CHR 0xAA] @ ''me message''"

definition txt_common_logs :: string where
  "txt_common_logs =
     '' anomalie(s) de journaux communes''"

definition txt_other_operation :: string where
  "txt_other_operation =
     ''Cette op'' @ [CHR 0xC3, CHR 0xA9] @ ''ration ne correspond pas '' @ [CHR 0xC3, CHR 0xA0] @
     '' la r'' @ [CHR 0xC3, CHR 0xA9] @ ''paration connue''"

definition txt_not_configured :: string where
  "txt_not_configured =
     ''L'' @ [CHR 0xE2, CHR 0x80, CHR 0x99] @ ''ex'' @ [CHR 0xC3, CHR 0xA9] @
     ''cution de cette r'' @ [CHR 0xC3, CHR 0xA9] @ ''paration n'' @
     [CHR 0xE2, CHR 0x80, CHR 0x99] @ ''est pas configur'' @ [CHR 0xC3, CHR 0xA9] @ ''e''"

end
