(* ===== verification/Incident_Types.thy ===== *)
theory Incident_Types
  imports Privacy Contracts Calendar Py_Repr Incident_Texts
begin

text \<open>
  The state of Tsunade's incident repository (tsunade/incident_schema.py, followup_store.py): one
  row type for each table of its SQLite database, and the database as a record of tables. Instants
  are stored as Paris ISO texts; they are the instants those denote, and where the code compares
  them with \<open>julianday\<close> the comparison goes through SQLite's scale.
\<close>

section \<open>Observations\<close>

datatype obs_status = UNKNOWN | HEALTHY | SUSPENDED | DEGRADED | UNHEALTHY

fun obs_status_value :: "obs_status \<Rightarrow> string" where
  "obs_status_value UNKNOWN = ''unknown''"
| "obs_status_value HEALTHY = ''healthy''"
| "obs_status_value SUSPENDED = ''suspended''"
| "obs_status_value DEGRADED = ''degraded''"
| "obs_status_value UNHEALTHY = ''unhealthy''"

record observation =
  ob_id :: string
  ob_node :: string
  ob_service :: string
  ob_capability :: string
  ob_status :: obs_status
  ob_success :: bool
  ob_message :: string
  ob_source :: string
  ob_timestamp :: instant
  ob_latency_ms :: "string option"
  ob_metadata :: json

type_synonym capability_key = "string \<times> string \<times> string"

definition capability_of :: "observation \<Rightarrow> capability_key" where
  "capability_of obs = (ob_node obs, ob_service obs, ob_capability obs)"

section \<open>Tables\<close>

datatype incident_severity = Degraded | Critical

fun severity_value :: "incident_severity \<Rightarrow> string" where
  "severity_value Degraded = ''degraded''"
| "severity_value Critical = ''critical''"

record incident_row =
  i_incident_id :: string
  i_node_id :: string
  i_service_id :: string
  i_capability_id :: string
  i_equipment_id :: string
  i_severity :: incident_severity
  i_started_at :: instant
  i_last_observed_at :: instant
  i_ended_at :: "instant option"
  i_last_observation_id :: string
  i_message :: string
  i_occurrence_count :: int
  i_recurrence_count :: int
  i_context :: json
  i_final_result :: "string option"

definition incident_key :: "incident_row \<Rightarrow> capability_key" where
  "incident_key i = (i_node_id i, i_service_id i, i_capability_id i)"

definition active :: "incident_row \<Rightarrow> bool" where
  "active i = (i_ended_at i = None)"

record event_row =
  ev_event_id :: int
  ev_incident_id :: string
  ev_kind :: string
  ev_occurred_at :: instant
  ev_observation_id :: "string option"
  ev_status :: "string option"
  ev_summary :: string
  ev_payload :: json

record state_row =
  cs_key :: capability_key
  cs_status :: string
  cs_observed_at :: instant
  cs_observation_id :: string
  cs_latency_ms :: "string option"
  cs_last_sync_completed_at :: "instant option"

record processed_row =
  po_observation_id :: string
  po_processed_at :: instant

datatype repair_status =
    Proposed | Authorized | Refused | Expired | Verifying | Succeeded | Failed | Unverified

fun repair_status_value :: "repair_status \<Rightarrow> string" where
  "repair_status_value Proposed = ''proposed''"
| "repair_status_value Authorized = ''authorized''"
| "repair_status_value Refused = ''refused''"
| "repair_status_value Expired = ''expired''"
| "repair_status_value Verifying = ''verifying''"
| "repair_status_value Succeeded = ''succeeded''"
| "repair_status_value Failed = ''failed''"
| "repair_status_value Unverified = ''unverified''"

text \<open>\<open>TsunadeKnownRepairMatch\<close>: the track record of the known repair a proposal reproduces.\<close>

record known_match =
  km_experience_id :: string
  km_attempt_count :: int
  km_success_count :: int
  km_failure_count :: int
  km_last_success_at :: "instant option"
  km_criteria :: "string list"
  km_caution :: "string option"

record repair_row =
  rp_repair_id :: string
  rp_incident_id :: string
  rp_operation :: string
  rp_target :: string
  rp_risk :: string
  rp_status :: repair_status
  rp_proposed_at :: instant
  rp_authorized_at :: "instant option"
  rp_authorization_source :: "string option"
  rp_authorized_by :: "string option"
  rp_executed_at :: "instant option"
  rp_verified_at :: "instant option"
  rp_result :: "string option"
  rp_verification_deadline :: "instant option"
  rp_known_repair :: "known_match option"
  rp_experience_id :: "string option"

datatype request_state = Pending | Answered | RequestExpired | Cancelled | Resolved

fun request_state_value :: "request_state \<Rightarrow> string" where
  "request_state_value Pending = ''pending''"
| "request_state_value Answered = ''answered''"
| "request_state_value RequestExpired = ''expired''"
| "request_state_value Cancelled = ''cancelled''"
| "request_state_value Resolved = ''resolved''"

record request_row =
  rq_request_id :: string
  rq_incident_id :: string
  rq_origin :: string
  rq_kind :: string
  rq_context :: string
  rq_question :: string
  rq_choices :: "string list"
  rq_risk :: "string option"
  rq_state :: request_state
  rq_created_at :: instant
  rq_expires_at :: instant
  rq_deferred_until :: "instant option"
  rq_answered_at :: "instant option"
  rq_answer :: "string option"
  rq_answer_source :: "string option"
  rq_answered_by :: "string option"
  rq_action_reference :: "string option"

datatype manual_status = ManualVerifying | Confirmed | Unconfirmed

fun manual_status_value :: "manual_status \<Rightarrow> string" where
  "manual_status_value ManualVerifying = ''verifying''"
| "manual_status_value Confirmed = ''confirmed''"
| "manual_status_value Unconfirmed = ''unconfirmed''"

record manual_row =
  ma_action_id :: string
  ma_incident_id :: string
  ma_description :: string
  ma_declared_at :: instant
  ma_declared_by :: "string option"
  ma_source :: string
  ma_status :: manual_status
  ma_verification_deadline :: instant
  ma_verified_at :: "instant option"
  ma_result :: "string option"
  ma_observation_id :: "string option"

record experience_row =
  ex_experience_id :: string
  ex_signature :: string
  ex_equipment_id :: string
  ex_capability_id :: string
  ex_symptoms :: json
  ex_context :: json
  ex_observations :: json
  ex_anomalies :: json
  ex_validated_diagnostic :: string
  ex_action :: json
  ex_result :: string
  ex_occurrence_count :: int
  ex_attempt_count :: int
  ex_success_count :: int
  ex_failure_count :: int
  ex_last_used_at :: instant
  ex_last_success_at :: "instant option"
  ex_last_failure_at :: "instant option"
  ex_confidence :: string
  ex_confirmed_by :: string
  ex_confirmation_source :: string
  ex_incident_id :: string
  ex_state :: string
  ex_state_changed_at :: "instant option"
  ex_state_reason :: "string option"

record followup_row =
  fu_request_id :: string
  fu_incident_id :: string
  fu_basis :: string
  fu_origin_job_id :: string
  fu_status :: string
  fu_created_at :: instant
  fu_plan :: json
  fu_job :: "json option"
  fu_review :: "json option"
  fu_detail :: "string option"

record tsdb =
  ts_incidents :: "incident_row list"
  ts_events :: "event_row list"
  ts_states :: "state_row list"
  ts_processed :: "processed_row list"
  ts_repairs :: "repair_row list"
  ts_requests :: "request_row list"
  ts_manual :: "manual_row list"
  ts_experiences :: "experience_row list"
  ts_followups :: "followup_row list"
  ts_purged_on :: "int option"

definition empty_tsdb :: tsdb where
  "empty_tsdb = \<lparr>ts_incidents = [], ts_events = [], ts_states = [], ts_processed = [], ts_repairs = [],
     ts_requests = [], ts_manual = [], ts_experiences = [], ts_followups = [], ts_purged_on = None\<rparr>"

section \<open>Transactions\<close>

text \<open>
  A public operation returns a value or raises, and leaves a database. A body under
  \<open>with self._connection\<close> that raises is rolled back.
\<close>

type_synonym 'a tresult = "(error + 'a) \<times> tsdb"

definition transaction :: "tsdb \<Rightarrow> (tsdb \<Rightarrow> error + ('a \<times> tsdb)) \<Rightarrow> 'a tresult" where
  "transaction db body =
     (case body db of Inl err \<Rightarrow> (Inl err, db) | Inr (v, db') \<Rightarrow> (Inr v, db'))"

text \<open>The statement after a call that may have raised.\<close>

definition and_then :: "'a tresult \<Rightarrow> ('a \<Rightarrow> tsdb \<Rightarrow> 'b tresult) \<Rightarrow> 'b tresult" where
  "and_then r k = (case r of (Inl err, db) \<Rightarrow> (Inl err, db) | (Inr v, db) \<Rightarrow> k v db)"

text \<open>What pydantic raises when a row does not fit the document it is shown as.\<close>

definition validation_error :: error where
  "validation_error = ValueError ''validation error''"

text \<open>A text field under \<open>str_strip_whitespace\<close> with bounds on its length.\<close>

definition bounded_text :: "nat \<Rightarrow> nat \<Rightarrow> string \<Rightarrow> bool" where
  "bounded_text lo hi s = (lo \<le> length (trim s) \<and> length (trim s) \<le> hi)"

section \<open>Dates in messages\<close>

definition two_digit :: "int \<Rightarrow> string" where
  "two_digit n = (if n < 10 then CHR ''0'' # show_int n else show_int n)"

text \<open>\<open>%d/%m/%Y\<close>, \<open>%H:%M\<close> and \<open>%S\<close> of an instant shown in Paris time.\<close>

definition paris_wall :: "env \<Rightarrow> instant \<Rightarrow> wall" where
  "paris_wall e t = t + paris_offset e t"

text \<open>
  \<open>now + timedelta(...)\<close> on a datetime that carries ZoneInfo("Europe/Paris") is arithmetic on the
  wall clock: the instant whose Paris wall clock shows the sum. A wall time that a clock change
  skips or repeats is read with the offset before the change (\<open>fold=0\<close>).
\<close>

definition paris_wall_add :: "env \<Rightarrow> instant \<Rightarrow> int \<Rightarrow> instant" where
  "paris_wall_add e t d =
     (let w = paris_wall e t + d; at_t = paris_offset e t; later = paris_offset e (w - at_t)
      in if paris_offset e (w - later) = later then w - later else w - at_t)"

definition date_text :: "env \<Rightarrow> instant \<Rightarrow> string" where
  "date_text e t =
     (case civil (day_number (paris_wall e t)) of
        (y, m, d) \<Rightarrow> two_digit d @ ''/'' @ two_digit m @ ''/'' @
          replicate (4 - length (show_int y)) (CHR ''0'') @ show_int y)"

definition hour_text :: "env \<Rightarrow> instant \<Rightarrow> string" where
  "hour_text e t = two_digit (hour_of (paris_wall e t)) @ '':'' @ two_digit (minute_of (paris_wall e t))"

definition second_text :: "env \<Rightarrow> instant \<Rightarrow> string" where
  "second_text e t = two_digit ((paris_wall e t div 1000000) mod 60)"

end
