(* ===== verification/Incident_Store.thy ===== *)
theory Incident_Store
  imports Incident_Types
begin

text \<open>
  The locked helpers of the incident repository: the journal of events, deduplication of
  observations, the last known state of each capability (tsunade/incidents.py), the expiry of
  repairs, manual actions and requests (incident_repairs.py, incident_manual.py,
  incident_user_requests.py) and the counters of known repairs.
\<close>

section \<open>The journal\<close>

text \<open>\<open>event_id INTEGER PRIMARY KEY AUTOINCREMENT\<close>; events are never deleted.\<close>

definition next_event_id :: "tsdb \<Rightarrow> int" where
  "next_event_id db = int (length (ts_events db)) + 1"

definition record_event ::
  "string \<Rightarrow> string \<Rightarrow> instant \<Rightarrow> observation option \<Rightarrow> string \<Rightarrow> json \<Rightarrow> tsdb \<Rightarrow> tsdb" where
  "record_event incident_id kind occurred_at obs summary payload db =
     db\<lparr>ts_events := ts_events db @
       [\<lparr>ev_event_id = next_event_id db, ev_incident_id = incident_id, ev_kind = kind,
         ev_occurred_at = occurred_at, ev_observation_id = map_option ob_id obs,
         ev_status = map_option (\<lambda>ob. obs_status_value (ob_status ob)) obs,
         ev_summary = redact_sensitive_text summary,
         ev_payload = redact_sensitive_value payload\<rparr>]\<rparr>"

section \<open>Observations and capabilities\<close>

definition active_row :: "capability_key \<Rightarrow> tsdb \<Rightarrow> incident_row option" where
  "active_row key db = find (\<lambda>i. incident_key i = key \<and> active i) (ts_incidents db)"

definition select_incident :: "string \<Rightarrow> tsdb \<Rightarrow> incident_row option" where
  "select_incident k db = tbl_find i_incident_id k (ts_incidents db)"

definition update_incident :: "string \<Rightarrow> (incident_row \<Rightarrow> incident_row) \<Rightarrow> tsdb \<Rightarrow> tsdb" where
  "update_incident k f db = db\<lparr>ts_incidents := tbl_update i_incident_id k f (ts_incidents db)\<rparr>"

definition capability_state :: "capability_key \<Rightarrow> tsdb \<Rightarrow> (string \<times> instant) option" where
  "capability_state key db =
     map_option (\<lambda>r. (cs_status r, cs_observed_at r)) (tbl_find cs_key key (ts_states db))"

text \<open>
  The end of the last synchronisation cycle that AdGuard reports by its age. An age that is a float
  is rounded to microseconds by \<open>timedelta\<close>; \<open>age_us\<close> is that conversion of a finite, non-negative
  float. A date before year 1 raises OverflowError, which is ignored.
\<close>

definition MIN_INSTANT :: instant where
  "MIN_INSTANT = -62135596800000000"

definition sync_completed_at :: "(string \<Rightarrow> int option) \<Rightarrow> observation \<Rightarrow> instant option" where
  "sync_completed_at age_us obs =
     (if ob_capability obs \<noteq> ''adguard_sync.status'' then None
      else case jget (ob_metadata obs) ''cycle'' of
             JObj cycle \<Rightarrow>
               (let age = (case jget (JObj cycle) ''last_completed_age_seconds'' of
                             JInt n \<Rightarrow> if 0 \<le> n then Some (seconds n) else None
                           | JFloat s \<Rightarrow> age_us s
                           | _ \<Rightarrow> None)
                in case age of
                     None \<Rightarrow> None
                   | Some us \<Rightarrow>
                       if jget (JObj cycle) ''state'' \<in> {JStr ''fresh'', JStr ''stale''} \<and>
                          MIN_INSTANT \<le> ob_timestamp obs - us
                       then Some (ob_timestamp obs - us) else None)
           | _ \<Rightarrow> None)"

definition write_state :: "(string \<Rightarrow> int option) \<Rightarrow> observation \<Rightarrow> tsdb \<Rightarrow> tsdb" where
  "write_state age_us obs db =
     (let row = \<lparr>cs_key = capability_of obs, cs_status = obs_status_value (ob_status obs),
            cs_observed_at = ob_timestamp obs, cs_observation_id = ob_id obs,
            cs_latency_ms = ob_latency_ms obs,
            cs_last_sync_completed_at = sync_completed_at age_us obs\<rparr>
      in db\<lparr>ts_states :=
          (case tbl_find cs_key (capability_of obs) (ts_states db) of
             None \<Rightarrow> ts_states db @ [row]
           | Some _ \<Rightarrow> tbl_update cs_key (capability_of obs) (\<lambda>_. row) (ts_states db))\<rparr>)"

definition already_processed :: "string \<Rightarrow> tsdb \<Rightarrow> bool" where
  "already_processed observation_id db =
     (tbl_find po_observation_id observation_id (ts_processed db) \<noteq> None)"

definition mark_processed :: "instant \<Rightarrow> string \<Rightarrow> tsdb \<Rightarrow> tsdb" where
  "mark_processed now observation_id db =
     db\<lparr>ts_processed := ts_processed db @
       [\<lparr>po_observation_id = observation_id, po_processed_at = now\<rparr>]\<rparr>"

definition PROCESSED_RETENTION :: int where
  "PROCESSED_RETENTION = days 1"

definition PURGE_BATCH :: nat where
  "PURGE_BATCH = 20000"

definition processed_expired :: "env \<Rightarrow> instant \<Rightarrow> processed_row \<Rightarrow> bool" where
  "processed_expired e now r =
     (julianday e (po_processed_at r) < julianday e (now - PROCESSED_RETENTION))"

text \<open>One batch deletes at most \<open>n\<close> expired rows, the oldest rowids first.\<close>

fun delete_batch :: "('r \<Rightarrow> bool) \<Rightarrow> nat \<Rightarrow> 'r list \<Rightarrow> 'r list" where
  "delete_batch P n [] = []"
| "delete_batch P 0 rows = rows"
| "delete_batch P (Suc n) (r # rows) =
     (if P r then delete_batch P n rows else r # delete_batch P (Suc n) rows)"

lemma delete_batch_length: "length (delete_batch P n rows) \<le> length rows"
  by (induction P n rows rule: delete_batch.induct) auto

text \<open>The loop of batches: it goes on while a batch was full.\<close>

function purge_loop :: "('r \<Rightarrow> bool) \<Rightarrow> nat \<Rightarrow> 'r list \<Rightarrow> nat \<times> 'r list" where
  "purge_loop P n rows =
     (let left = delete_batch P n rows; deleted = length rows - length left
      in if deleted < n \<or> deleted = 0 then (deleted, left)
         else (case purge_loop P n left of (d, rest) \<Rightarrow> (deleted + d, rest)))"
  by pat_completeness auto
termination
proof (relation "measure (\<lambda>(P, n, rows). length rows)", goal_cases)
  case (2 P n rows left deleted)
  then show ?case using delete_batch_length[of P n rows] by simp
qed simp

declare purge_loop.simps [simp del]

definition purge_processed_observations :: "env \<Rightarrow> instant \<Rightarrow> tsdb \<Rightarrow> nat \<times> tsdb" where
  "purge_processed_observations e now db =
     (case purge_loop (processed_expired e now) PURGE_BATCH (ts_processed db) of
        (deleted, left) \<Rightarrow> (deleted, db\<lparr>ts_processed := left\<rparr>))"

text \<open>
  Once per Paris day. A busy database raises sqlite3.OperationalError, which is swallowed; \<open>busy\<close>
  says whether it does.
\<close>

definition purge_processed_if_due :: "env \<Rightarrow> bool \<Rightarrow> instant \<Rightarrow> instant \<Rightarrow> tsdb \<Rightarrow> tsdb" where
  "purge_processed_if_due e busy today_now now db =
     (let today = day_number (paris_wall e today_now)
      in if ts_purged_on db = Some today \<or> busy then db
         else (snd (purge_processed_observations e now db))\<lparr>ts_purged_on := Some today\<rparr>)"

section \<open>Repairs\<close>

definition select_repair :: "string \<Rightarrow> tsdb \<Rightarrow> repair_row option" where
  "select_repair k db = tbl_find rp_repair_id k (ts_repairs db)"

definition update_repair :: "string \<Rightarrow> (repair_row \<Rightarrow> repair_row) \<Rightarrow> tsdb \<Rightarrow> tsdb" where
  "update_repair k f db = db\<lparr>ts_repairs := tbl_update rp_repair_id k f (ts_repairs db)\<rparr>"

definition required_repair :: "string \<Rightarrow> tsdb \<Rightarrow> error + repair_row" where
  "required_repair k db =
     (case select_repair k db of None \<Rightarrow> Inl (LookupError txt_unknown_repair) | Some r \<Rightarrow> Inr r)"

text \<open>\<open>UPDATE tsunade_user_requests SET ... WHERE action_reference=? AND state='pending'\<close>.\<close>

definition update_pending_requests ::
  "(request_row \<Rightarrow> bool) \<Rightarrow> (request_row \<Rightarrow> request_row) \<Rightarrow> tsdb \<Rightarrow> tsdb" where
  "update_pending_requests P f db =
     db\<lparr>ts_requests := map (\<lambda>r. if P r \<and> rq_state r = Pending then f r else r) (ts_requests db)\<rparr>"

definition references :: "string \<Rightarrow> request_row \<Rightarrow> bool" where
  "references k r = (rq_action_reference r = Some k)"

definition close_repair_locked ::
  "string \<Rightarrow> string \<Rightarrow> repair_status \<Rightarrow> instant \<Rightarrow> string \<Rightarrow> string \<Rightarrow> tsdb \<Rightarrow> tsdb" where
  "close_repair_locked repair_id incident_id status now result kind db =
     (let db1 = update_repair repair_id
            (\<lambda>r. r\<lparr>rp_status := status, rp_verified_at := Some now, rp_result := Some result\<rparr>) db;
          db2 = update_pending_requests (references repair_id) (\<lambda>r. r\<lparr>rq_state := RequestExpired\<rparr>) db1
      in record_event incident_id kind now None result
           (JObj [(''repair_id'', JStr repair_id), (''status'', JStr (repair_status_value status))]) db2)"

text \<open>
  The proposals that can no longer be authorised: the join of repairs with their incident and, on
  the left, with the requests that refer to them.
\<close>

definition request_lapsed :: "env \<Rightarrow> instant \<Rightarrow> request_row \<Rightarrow> bool" where
  "request_lapsed e now r =
     (rq_state r \<in> {RequestExpired, Resolved, Cancelled} \<or>
      rq_state r = Pending \<and> julianday e (rq_expires_at r) \<le> julianday e now)"

definition stale_proposals :: "env \<Rightarrow> instant \<Rightarrow> tsdb \<Rightarrow> (repair_row \<times> incident_row) list" where
  "stale_proposals e now db =
     concat (map (\<lambda>r.
       case select_incident (rp_incident_id r) db of
         None \<Rightarrow> []
       | Some i \<Rightarrow>
           if rp_status r \<noteq> Proposed then []
           else (case filter (references (rp_repair_id r)) (ts_requests db) of
                   [] \<Rightarrow> if active i then [] else [(r, i)]
                 | us \<Rightarrow> map (\<lambda>u. (r, i)) (filter (\<lambda>u. \<not> active i \<or> request_lapsed e now u) us)))
       (ts_repairs db))"

definition close_stale :: "instant \<Rightarrow> repair_row \<times> incident_row \<Rightarrow> tsdb \<Rightarrow> tsdb" where
  "close_stale now ri db =
     close_repair_locked (rp_repair_id (fst ri)) (rp_incident_id (fst ri)) Expired now
       (if active (snd ri) then txt_request_expired else txt_resolved_before) ''decision'' db"

definition REPAIR_VERIFICATION_SECONDS :: int where
  "REPAIR_VERIFICATION_SECONDS = 900"

definition repair_overdue :: "env \<Rightarrow> instant \<Rightarrow> repair_row \<Rightarrow> bool" where
  "repair_overdue e now r =
     (rp_status r = Verifying \<and>
      (case rp_verification_deadline r of
         Some deadline \<Rightarrow> julianday e deadline \<le> julianday e now
       | None \<Rightarrow>
           (case rp_executed_at r of
              None \<Rightarrow> False
            | Some t \<Rightarrow> julianday e t \<le> julianday e (now - seconds REPAIR_VERIFICATION_SECONDS))))"

text \<open>\<open>max(round(delay.total_seconds() / 60), 1)\<close>; Python rounds a half to the even minute.\<close>

definition round_minutes :: "int \<Rightarrow> int" where
  "round_minutes us =
     (let q = us div 60000000; r = us mod 60000000
      in if r < 30000000 \<or> r = 30000000 \<and> even q then q else q + 1)"

definition overdue_minutes :: "repair_row \<Rightarrow> int" where
  "overdue_minutes r =
     max 1 (round_minutes
       (case (rp_verification_deadline r, rp_executed_at r) of
          (Some deadline, Some executed) \<Rightarrow> deadline - executed
        | _ \<Rightarrow> seconds REPAIR_VERIFICATION_SECONDS))"

definition close_overdue :: "instant \<Rightarrow> repair_row \<Rightarrow> tsdb \<Rightarrow> tsdb" where
  "close_overdue now r db =
     close_repair_locked (rp_repair_id r) (rp_incident_id r) Unverified now
       (txt_unverified_within @ show_int (overdue_minutes r) @ txt_unverified_after) ''result'' db"

section \<open>Manual actions\<close>

definition update_manual :: "string \<Rightarrow> (manual_row \<Rightarrow> manual_row) \<Rightarrow> tsdb \<Rightarrow> tsdb" where
  "update_manual k f db = db\<lparr>ts_manual := tbl_update ma_action_id k f (ts_manual db)\<rparr>"

definition close_manual_action_locked ::
  "manual_row \<Rightarrow> manual_status \<Rightarrow> instant \<Rightarrow> string \<Rightarrow> observation option \<Rightarrow> tsdb \<Rightarrow> tsdb" where
  "close_manual_action_locked row status at result obs db =
     record_event (ma_incident_id row) ''result'' at obs result
       (JObj [(''manual_action_id'', JStr (ma_action_id row)),
              (''status'', JStr (manual_status_value status)), (''verified_by'', JStr ''shikamaru'')])
       (update_manual (ma_action_id row)
         (\<lambda>r. r\<lparr>ma_status := status, ma_verified_at := Some at, ma_result := Some result,
              ma_observation_id := map_option ob_id obs\<rparr>) db)"

definition manual_overdue :: "env \<Rightarrow> instant \<Rightarrow> manual_row \<Rightarrow> bool" where
  "manual_overdue e now r =
     (ma_status r = ManualVerifying \<and> julianday e (ma_verification_deadline r) \<le> julianday e now)"

definition expire_manual_actions_locked :: "env \<Rightarrow> instant \<Rightarrow> tsdb \<Rightarrow> tsdb" where
  "expire_manual_actions_locked e now db =
     fold (\<lambda>r. close_manual_action_locked r Unconfirmed now txt_manual_unconfirmed None)
       (filter (manual_overdue e now) (ts_manual db)) db"

section \<open>Expiry\<close>

text \<open>The overdue repairs are selected before the manual actions expire.\<close>

definition expire_repairs_locked :: "env \<Rightarrow> instant \<Rightarrow> tsdb \<Rightarrow> tsdb" where
  "expire_repairs_locked e now db =
     (let db1 = fold (close_stale now) (stale_proposals e now db) db;
          overdue = filter (repair_overdue e now) (ts_repairs db1);
          db2 = expire_manual_actions_locked e now db1
      in fold (close_overdue now) overdue db2)"

text \<open>
  A follow-up that waits for an answer takes the state of its request once that is settled.
\<close>

definition settle_followup :: "tsdb \<Rightarrow> followup_row \<Rightarrow> followup_row" where
  "settle_followup db f =
     (case tbl_find rq_request_id (fu_request_id f) (ts_requests db) of
        None \<Rightarrow> f
      | Some r \<Rightarrow>
          if fu_status f = ''pending'' \<and> rq_state r \<noteq> Pending
          then f\<lparr>fu_status := request_state_value (rq_state r)\<rparr> else f)"

definition expire_user_requests_locked :: "env \<Rightarrow> instant \<Rightarrow> tsdb \<Rightarrow> tsdb" where
  "expire_user_requests_locked e now db =
     (let db1 = update_pending_requests (\<lambda>r. julianday e (rq_expires_at r) \<le> julianday e now)
            (\<lambda>r. r\<lparr>rq_state := RequestExpired\<rparr>) db
      in db1\<lparr>ts_followups := map (settle_followup db1) (ts_followups db1)\<rparr>)"

section \<open>Known repairs\<close>

definition update_experience :: "string \<Rightarrow> (experience_row \<Rightarrow> experience_row) \<Rightarrow> tsdb \<Rightarrow> tsdb" where
  "update_experience k f db =
     db\<lparr>ts_experiences := tbl_update ex_experience_id k f (ts_experiences db)\<rparr>"

text \<open>The active known repairs of the same capability with the same action, the last used first.\<close>

definition reproduces :: "incident_row \<Rightarrow> repair_row \<Rightarrow> experience_row \<Rightarrow> bool" where
  "reproduces i r x =
     (ex_equipment_id x = i_equipment_id i \<and> ex_capability_id x = i_capability_id i \<and>
      ex_state x = ''active'' \<and> jget (ex_action x) ''operation'' = JStr (rp_operation r) \<and>
      jget (ex_action x) ''target'' = JStr (rp_target r))"

definition count_experience_attempt_locked :: "env \<Rightarrow> repair_row \<Rightarrow> instant \<Rightarrow> tsdb \<Rightarrow> tsdb" where
  "count_experience_attempt_locked e r now db =
     (case select_incident (rp_incident_id r) db of
        None \<Rightarrow> db
      | Some i \<Rightarrow>
          (case newest_row (\<lambda>x. julianday e (ex_last_used_at x))
                  (filter (reproduces i r) (ts_experiences db)) of
             None \<Rightarrow> db
           | Some x \<Rightarrow>
               update_repair (rp_repair_id r)
                 (\<lambda>r. r\<lparr>rp_experience_id := Some (ex_experience_id x)\<rparr>)
                 (update_experience (ex_experience_id x)
                   (\<lambda>x. x\<lparr>ex_attempt_count := ex_attempt_count x + 1, ex_last_used_at := now\<rparr>) db)))"

definition count_experience_outcome_locked :: "repair_row \<Rightarrow> instant \<Rightarrow> bool \<Rightarrow> tsdb \<Rightarrow> tsdb" where
  "count_experience_outcome_locked r at succeeded db =
     (case rp_experience_id r of
        None \<Rightarrow> db
      | Some k \<Rightarrow>
          update_experience k
            (\<lambda>x. if succeeded
                 then x\<lparr>ex_success_count := ex_success_count x + 1, ex_last_success_at := Some at\<rparr>
                 else x\<lparr>ex_failure_count := ex_failure_count x + 1, ex_last_failure_at := Some at\<rparr>) db)"

section \<open>Verification by observations\<close>

definition SETTLE_SECONDS :: int where
  "SETTLE_SECONDS = 60"

text \<open>
  An observation concludes on an action only when it is later; a degraded one only when the service
  had time to start.
\<close>

definition concludes :: "observation \<Rightarrow> bool \<Rightarrow> instant \<Rightarrow> bool" where
  "concludes obs succeeded at =
     (at < ob_timestamp obs \<and> (succeeded \<or> at + seconds SETTLE_SECONDS \<le> ob_timestamp obs))"

definition conclude_repair :: "string \<Rightarrow> repair_row \<Rightarrow> observation \<Rightarrow> bool \<Rightarrow> tsdb \<Rightarrow> tsdb" where
  "conclude_repair incident_id r obs succeeded db =
     (let status = (if succeeded then Succeeded else Failed);
          result = (if succeeded then txt_repair_confirmed else txt_repair_still_degraded);
          db1 = count_experience_outcome_locked r (ob_timestamp obs) succeeded db;
          db2 = update_repair (rp_repair_id r)
            (\<lambda>r. r\<lparr>rp_status := status, rp_verified_at := Some (ob_timestamp obs),
                 rp_result := Some result\<rparr>) db1
      in record_event incident_id ''result'' (ob_timestamp obs) (Some obs) result
           (JObj [(''repair_id'', JStr (rp_repair_id r)), (''status'', JStr (repair_status_value status)),
                  (''verified_by'', JStr ''shikamaru'')]) db2)"

text \<open>The repair executed last decides; one under verification has its time of execution.\<close>

definition verify_pending_repair :: "env \<Rightarrow> string \<Rightarrow> observation \<Rightarrow> bool \<Rightarrow> tsdb \<Rightarrow> tsdb" where
  "verify_pending_repair e incident_id obs succeeded db =
     (case newest_row (\<lambda>r. map_option (julianday e) (rp_executed_at r))
             (filter (\<lambda>r. rp_incident_id r = incident_id \<and> rp_status r = Verifying) (ts_repairs db)) of
        None \<Rightarrow> db
      | Some r \<Rightarrow>
          (case rp_executed_at r of
             None \<Rightarrow> db
           | Some executed_at \<Rightarrow>
               if concludes obs succeeded executed_at
               then conclude_repair incident_id r obs succeeded db else db))"

definition verify_manual_action :: "env \<Rightarrow> string \<Rightarrow> observation \<Rightarrow> bool \<Rightarrow> tsdb \<Rightarrow> tsdb" where
  "verify_manual_action e incident_id obs succeeded db =
     (case newest_row (\<lambda>r. julianday e (ma_declared_at r))
             (filter (\<lambda>r. ma_incident_id r = incident_id \<and> ma_status r = ManualVerifying)
               (ts_manual db)) of
        None \<Rightarrow> db
      | Some r \<Rightarrow>
          if \<not> concludes obs succeeded (ma_declared_at r) then db
          else close_manual_action_locked r (if succeeded then Confirmed else Unconfirmed)
                 (ob_timestamp obs)
                 (if succeeded then txt_manual_confirmed else txt_manual_still_degraded) (Some obs) db)"

end
