(* ===== verification/Repair_Catalog.thy ===== *)
theory Repair_Catalog
  imports Incident_Types
begin

text \<open>
  The catalogue of supervised repairs (tsunade/repair_catalog.py): each entry with the service it
  applies to, the evidence it demands, the action and its risk.
\<close>

record repair_spec =
  sp_key :: string
  sp_operation :: string
  sp_target :: string
  sp_service_types :: "string list"
  sp_implementation_terms :: "string list"
  sp_action :: string
  sp_question :: string
  sp_risk :: string
  sp_consequences :: "string list"
  sp_expected_result :: string
  sp_evidence :: string
  sp_probe_operation :: "string option"
  sp_probe_confirms :: "(json \<Rightarrow> bool) option"
  sp_addon_terms :: "string list"
  sp_addon_states :: "string list option"
  sp_agent_node_only :: bool

section \<open>What the probes confirm\<close>

definition dnsmasq_stopped :: "json \<Rightarrow> bool" where
  "dnsmasq_stopped result =
     (jget result ''success'' = JBool False \<and> jget (jget result ''metadata'') ''service_active'' = JBool False)"

definition round_trip_failed :: "json \<Rightarrow> bool" where
  "round_trip_failed result = (jget result ''success'' = JBool False)"

definition chrony_stopped :: "json \<Rightarrow> bool" where
  "chrony_stopped result =
     (jget result ''success'' = JBool False \<and> jget result ''service_active'' = JBool False)"

section \<open>The entries\<close>

definition dnsmasq_restart :: repair_spec where
  "dnsmasq_restart =
     \<lparr>sp_key = ''dnsmasq.restart'',
      sp_operation = ''restart_service'',
      sp_target = ''dnsmasq.service'',
      sp_service_types = [''dhcp''],
      sp_implementation_terms = [''dnsmasq''],
      sp_action =
        ''le red'' @ [CHR 0xC3, CHR 0xA9] @ ''marrage supervis'' @ [CHR 0xC3, CHR 0xA9] @
     '' de dnsmasq'',
      sp_question =
        ''Autoriser le red'' @ [CHR 0xC3, CHR 0xA9] @ ''marrage supervis'' @ [CHR 0xC3, CHR 0xA9] @
     '' de dnsmasq ?'',
      sp_risk = ''low'',
      sp_consequences =
        [''Interruption br'' @ [CHR 0xC3, CHR 0xA8] @ ''ve du DHCP et de la r'' @
     [CHR 0xC3, CHR 0xA9] @ ''solution DNS locale.'',
     ''Aucune configuration r'' @ [CHR 0xC3, CHR 0xA9] @ ''seau n'' @
     [CHR 0xE2, CHR 0x80, CHR 0x99] @ ''est modifi'' @ [CHR 0xC3, CHR 0xA9] @ ''e.'',
     ''Shikamaru v'' @ [CHR 0xC3, CHR 0xA9] @ ''rifie le retour de la capacit'' @
     [CHR 0xC3, CHR 0xA9] @ '' apr'' @ [CHR 0xC3, CHR 0xA8] @ ''s l'' @
     [CHR 0xE2, CHR 0x80, CHR 0x99] @ ''action.''],
      sp_expected_result =
        ''dnsmasq est actif et le contr'' @ [CHR 0xC3, CHR 0xB4] @ ''le DHCP redevient sain.'',
      sp_evidence = ''confirmed_by_probe'',
      sp_probe_operation = Some ''dhcp.status'',
      sp_probe_confirms = Some dnsmasq_stopped,
      sp_addon_terms = [],
      sp_addon_states = None,
      sp_agent_node_only = False\<rparr>"

definition mosquitto_restart :: repair_spec where
  "mosquitto_restart =
     \<lparr>sp_key = ''mosquitto.restart'',
      sp_operation = ''restart_addon'',
      sp_target = ''core_mosquitto'',
      sp_service_types = [''mqtt''],
      sp_implementation_terms = [''mosquitto''],
      sp_action =
        ''le red'' @ [CHR 0xC3, CHR 0xA9] @ ''marrage supervis'' @ [CHR 0xC3, CHR 0xA9] @
     '' de l'' @ [CHR 0xE2, CHR 0x80, CHR 0x99] @ ''add-on Mosquitto'',
      sp_question =
        ''Autoriser le red'' @ [CHR 0xC3, CHR 0xA9] @ ''marrage de l'' @
     [CHR 0xE2, CHR 0x80, CHR 0x99] @ ''add-on Mosquitto par le Supervisor Home Assistant ?'',
      sp_risk = ''low'',
      sp_consequences =
        [''Les clients MQTT (Zigbee2MQTT, T'' @ [CHR 0xC3, CHR 0xA9] @ ''l'' @ [CHR 0xC3, CHR 0xA9] @
     ''information, capteurs) sont d'' @ [CHR 0xC3, CHR 0xA9] @ ''connect'' @
     [CHR 0xC3, CHR 0xA9] @ ''s pendant le red'' @ [CHR 0xC3, CHR 0xA9] @ ''marrage.'',
     ''La configuration de l'' @ [CHR 0xE2, CHR 0x80, CHR 0x99] @ ''add-on n'' @
     [CHR 0xE2, CHR 0x80, CHR 0x99] @ ''est pas modifi'' @ [CHR 0xC3, CHR 0xA9] @ ''e.'',
     ''Shikamaru v'' @ [CHR 0xC3, CHR 0xA9] @ ''rifie l'' @ [CHR 0xE2, CHR 0x80, CHR 0x99] @
     ''aller-retour MQTT apr'' @ [CHR 0xC3, CHR 0xA8] @ ''s l'' @
     [CHR 0xE2, CHR 0x80, CHR 0x99] @ ''action.''],
      sp_expected_result =
        ''L'' @ [CHR 0xE2, CHR 0x80, CHR 0x99] @ ''aller-retour MQTT vers le broker r'' @
     [CHR 0xC3, CHR 0xA9] @ ''ussit de nouveau.'',
      sp_evidence = ''confirmed_by_probe'',
      sp_probe_operation = Some ''mqtt.status'',
      sp_probe_confirms = Some round_trip_failed,
      sp_addon_terms = [],
      sp_addon_states = None,
      sp_agent_node_only = False\<rparr>"

definition teleinfo2mqtt_restart :: repair_spec where
  "teleinfo2mqtt_restart =
     \<lparr>sp_key = ''teleinfo2mqtt.restart'',
      sp_operation = ''restart_addon'',
      sp_target = '''',
      sp_service_types = [''teleinformation''],
      sp_implementation_terms = [''teleinfo''],
      sp_action =
        ''le red'' @ [CHR 0xC3, CHR 0xA9] @ ''marrage supervis'' @ [CHR 0xC3, CHR 0xA9] @
     '' de l'' @ [CHR 0xE2, CHR 0x80, CHR 0x99] @ ''add-on teleinfo2mqtt'',
      sp_question =
        ''Autoriser le red'' @ [CHR 0xC3, CHR 0xA9] @ ''marrage de l'' @
     [CHR 0xE2, CHR 0x80, CHR 0x99] @ ''add-on teleinfo2mqtt par le Supervisor Home Assistant ?'',
      sp_risk = ''low'',
      sp_consequences =
        [''Aucune trame T'' @ [CHR 0xC3, CHR 0xA9] @ ''l'' @ [CHR 0xC3, CHR 0xA9] @
     ''information n'' @ [CHR 0xE2, CHR 0x80, CHR 0x99] @ ''est publi'' @ [CHR 0xC3, CHR 0xA9] @
     ''e pendant le red'' @ [CHR 0xC3, CHR 0xA9] @ ''marrage.'',
     ''La configuration de l'' @ [CHR 0xE2, CHR 0x80, CHR 0x99] @ ''add-on et le port s'' @
     [CHR 0xC3, CHR 0xA9] @ ''rie ne sont pas modifi'' @ [CHR 0xC3, CHR 0xA9] @ ''s.'',
     ''Shikamaru v'' @ [CHR 0xC3, CHR 0xA9] @ ''rifie la fra'' @ [CHR 0xC3, CHR 0xAE] @
     ''cheur des trames apr'' @ [CHR 0xC3, CHR 0xA8] @ ''s l'' @ [CHR 0xE2, CHR 0x80, CHR 0x99] @
     ''action.''],
      sp_expected_result =
        ''Les trames T'' @ [CHR 0xC3, CHR 0xA9] @ ''l'' @ [CHR 0xC3, CHR 0xA9] @
     ''information parviennent de nouveau '' @ [CHR 0xC3, CHR 0xA0] @ '' Agent.'',
      sp_evidence = ''confirmed_by_supervisor'',
      sp_probe_operation = None,
      sp_probe_confirms = None,
      sp_addon_terms = [''teleinfo''],
      sp_addon_states = Some [''error'', ''stopped''],
      sp_agent_node_only = False\<rparr>"

definition zwave_js_restart :: repair_spec where
  "zwave_js_restart =
     \<lparr>sp_key = ''zwave_js.restart'',
      sp_operation = ''restart_addon'',
      sp_target = '''',
      sp_service_types = [''zwave''],
      sp_implementation_terms = [''z-wave js'', ''zwave js'', ''zwavejs'', ''zwave_js''],
      sp_action =
        ''le red'' @ [CHR 0xC3, CHR 0xA9] @ ''marrage supervis'' @ [CHR 0xC3, CHR 0xA9] @
     '' de l'' @ [CHR 0xE2, CHR 0x80, CHR 0x99] @ ''add-on Z-Wave JS'',
      sp_question =
        ''Autoriser le red'' @ [CHR 0xC3, CHR 0xA9] @ ''marrage de l'' @
     [CHR 0xE2, CHR 0x80, CHR 0x99] @ ''add-on Z-Wave JS par le Supervisor Home Assistant ?'',
      sp_risk = ''medium'',
      sp_consequences =
        [''Les '' @ [CHR 0xC3, CHR 0xA9] @
     ''quipements Z-Wave ne sont pas pilotables pendant le red'' @ [CHR 0xC3, CHR 0xA9] @
     ''marrage et la r'' @ [CHR 0xC3, CHR 0xA9] @ ''initialisation du contr'' @
     [CHR 0xC3, CHR 0xB4] @ ''leur.'',
     ''Le r'' @ [CHR 0xC3, CHR 0xA9] @ ''seau Z-Wave, ses inclusions et la configuration de l'' @
     [CHR 0xE2, CHR 0x80, CHR 0x99] @ ''add-on ne sont pas modifi'' @ [CHR 0xC3, CHR 0xA9] @
     ''s.'',
     ''Shikamaru v'' @ [CHR 0xC3, CHR 0xA9] @ ''rifie que le pilote Z-Wave JS redevient pr'' @
     [CHR 0xC3, CHR 0xAA] @ ''t apr'' @ [CHR 0xC3, CHR 0xA8] @ ''s l'' @
     [CHR 0xE2, CHR 0x80, CHR 0x99] @ ''action.''],
      sp_expected_result =
        ''Le pilote Z-Wave JS r'' @ [CHR 0xC3, CHR 0xA9] @ ''pond et le contr'' @
     [CHR 0xC3, CHR 0xB4] @ ''leur est pr'' @ [CHR 0xC3, CHR 0xAA] @ ''t.'',
      sp_evidence = ''confirmed_by_probe'',
      sp_probe_operation = Some ''zwave.status'',
      sp_probe_confirms = Some round_trip_failed,
      sp_addon_terms = [''zwavejs'', ''zwave_js''],
      sp_addon_states = None,
      sp_agent_node_only = False\<rparr>"

definition chrony_restart :: repair_spec where
  "chrony_restart =
     \<lparr>sp_key = ''chrony.restart'',
      sp_operation = ''restart_service'',
      sp_target = ''chrony.service'',
      sp_service_types = [''ntp''],
      sp_implementation_terms = [],
      sp_action =
        ''le red'' @ [CHR 0xC3, CHR 0xA9] @ ''marrage supervis'' @ [CHR 0xC3, CHR 0xA9] @
     '' de chrony'',
      sp_question =
        ''Autoriser le red'' @ [CHR 0xC3, CHR 0xA9] @ ''marrage supervis'' @ [CHR 0xC3, CHR 0xA9] @
     '' de chrony ?'',
      sp_risk = ''low'',
      sp_consequences =
        [''Le service de temps du r'' @ [CHR 0xC3, CHR 0xA9] @
     ''seau local est indisponible quelques secondes.'',
     ''Aucune configuration de chrony ni source amont n'' @ [CHR 0xE2, CHR 0x80, CHR 0x99] @
     ''est modifi'' @ [CHR 0xC3, CHR 0xA9] @ ''e.'',
     ''Shikamaru v'' @ [CHR 0xC3, CHR 0xA9] @ ''rifie la r'' @ [CHR 0xC3, CHR 0xA9] @
     ''ponse NTP apr'' @ [CHR 0xC3, CHR 0xA8] @ ''s l'' @ [CHR 0xE2, CHR 0x80, CHR 0x99] @
     ''action.''],
      sp_expected_result =
        ''chrony est actif et r'' @ [CHR 0xC3, CHR 0xA9] @ ''pond de nouveau aux requ'' @
     [CHR 0xC3, CHR 0xAA] @ ''tes NTP.'',
      sp_evidence = ''confirmed_by_probe'',
      sp_probe_operation = Some ''chrony.status'',
      sp_probe_confirms = Some chrony_stopped,
      sp_addon_terms = [],
      sp_addon_states = None,
      sp_agent_node_only = True\<rparr>"

definition REPAIRS :: "repair_spec list" where
  "REPAIRS = [dnsmasq_restart, mosquitto_restart, teleinfo2mqtt_restart, zwave_js_restart, chrony_restart]"


section \<open>Matching\<close>

text \<open>\<open>term in text\<close> of Python strings.\<close>

definition contains :: "string \<Rightarrow> string \<Rightarrow> bool" where
  "contains text term' = list_ex (\<lambda>n. take (length term') (drop n text) = term') [0..<Suc (length text)]"

definition implements :: "string \<Rightarrow> string list \<Rightarrow> bool" where
  "implements implementation terms = (terms = [] \<or> list_ex (contains implementation) terms)"

definition addon_matches :: "string \<Rightarrow> string list \<Rightarrow> bool" where
  "addon_matches slug terms = list_ex (contains (map lower_char slug)) terms"

definition valid_slug :: "string \<Rightarrow> bool" where
  "valid_slug slug = (slug \<noteq> [] \<and> list_all (\<lambda>c. lower_char c \<in> set (alphanumerics @ ''_-'')) slug)"

definition targets :: "repair_spec \<Rightarrow> string \<Rightarrow> bool" where
  "targets spec target =
     (if sp_addon_terms spec \<noteq> [] then valid_slug target \<and> addon_matches target (sp_addon_terms spec)
      else sp_target spec = target)"

text \<open>The entry of a stored repair (\<open>repair_spec\<close> of the source), with its target.\<close>

definition spec_of_repair :: "string \<Rightarrow> string \<Rightarrow> repair_spec option" where
  "spec_of_repair operation target =
     map_option (\<lambda>spec. spec\<lparr>sp_target := target\<rparr>)
       (find (\<lambda>spec. sp_operation spec = operation \<and> targets spec target) REPAIRS)"

end
