(* ===== verification/Incident_Views.thy ===== *)
theory Incident_Views
  imports Incident_Store Repair_Catalog
begin

text \<open>
  The documents the incident repository returns (tsunade/incident_models.py, \<open>_incident\<close> of
  incidents.py, \<open>_repair\<close> of incident_repairs.py, \<open>latest_followup\<close> of followup_store.py). A document
  is a pydantic model, so building one from rows that do not fit its fields raises; masking is
  applied again to what the rows hold.
\<close>

section \<open>Repairs and manual actions\<close>

record repair_view =
  rv_row :: repair_row
  rv_deferred_until :: "instant option"
  rv_spec :: "repair_spec option"

definition masked_text :: "string \<Rightarrow> string" where
  "masked_text s = trim (redact_sensitive_text s)"

text \<open>\<open>redact(...) if value else None\<close>: an empty text is shown as absent.\<close>

definition masked_option :: "string option \<Rightarrow> string option" where
  "masked_option v = (case v of None \<Rightarrow> None | Some s \<Rightarrow> if s = [] then None else Some (masked_text s))"

definition repair_document :: "instant \<Rightarrow> instant option \<Rightarrow> repair_row \<Rightarrow> repair_view option" where
  "repair_document now deferred_until row =
     (if rp_operation row \<in> {''restart_service'', ''restart_addon''} \<and>
         rp_risk row \<in> {''low'', ''medium'', ''high''} \<and> bounded_text 1 120 (rp_target row)
      then Some \<lparr>rv_row = row\<lparr>rp_target := trim (rp_target row), rp_result := masked_option (rp_result row)\<rparr>,
             rv_deferred_until =
               (case deferred_until of
                  None \<Rightarrow> None
                | Some t \<Rightarrow> if rp_status row = Proposed \<and> now < t then Some t else None),
             rv_spec = spec_of_repair (rp_operation row) (rp_target row)\<rparr>
      else None)"

text \<open>The repairs of an incident, joined on the left with their pending request; the newest 20.\<close>

definition repairs_of :: "env \<Rightarrow> string \<Rightarrow> tsdb \<Rightarrow> (repair_row \<times> instant option) list" where
  "repairs_of e incident_id db =
     take 20 (order_desc (\<lambda>rd. julianday e (rp_proposed_at (fst rd)))
       (concat (map (\<lambda>r.
         case filter (\<lambda>u. references (rp_repair_id r) u \<and> rq_state u = Pending) (ts_requests db) of
           [] \<Rightarrow> [(r, None)]
         | us \<Rightarrow> map (\<lambda>u. (r, rq_deferred_until u)) us)
         (filter (\<lambda>r. rp_incident_id r = incident_id) (ts_repairs db)))))"

definition manual_action :: "manual_row \<Rightarrow> manual_row" where
  "manual_action row = row\<lparr>ma_description := masked_text (ma_description row)\<rparr>"

definition manual_actions_locked :: "env \<Rightarrow> string \<Rightarrow> tsdb \<Rightarrow> manual_row list" where
  "manual_actions_locked e incident_id db =
     map manual_action (take 10 (order_desc (\<lambda>r. julianday e (ma_declared_at r))
       (filter (\<lambda>r. ma_incident_id r = incident_id) (ts_manual db))))"

section \<open>Follow-ups\<close>

record followup_view =
  fv_row :: followup_row
  fv_failed_at :: "instant option"

definition followup_document :: "followup_row \<Rightarrow> followup_row" where
  "followup_document f =
     f\<lparr>fu_detail := map_option redact_sensitive_text (fu_detail f),
       fu_basis := redact_sensitive_text (fu_basis f),
       fu_plan := redact_sensitive_value (fu_plan f),
       fu_job := map_option redact_sensitive_value (fu_job f),
       fu_review := map_option redact_sensitive_value (fu_review f)\<rparr>"

text \<open>When the journal says that the follow-up failed.\<close>

definition failure_recorded :: "string \<Rightarrow> string \<Rightarrow> tsdb \<Rightarrow> instant option" where
  "failure_recorded incident_id request_id db =
     map_option ev_occurred_at (newest_row ev_event_id (filter (\<lambda>ev.
       ev_incident_id ev = incident_id \<and> ev_kind ev = ''investigation'' \<and>
       jget (ev_payload ev) ''request_id'' = JStr request_id \<and>
       jget (ev_payload ev) ''status'' = JStr ''failed'') (ts_events db)))"

definition latest_followup :: "env \<Rightarrow> string \<Rightarrow> tsdb \<Rightarrow> followup_view option" where
  "latest_followup e incident_id db =
     (case newest_row (\<lambda>fr. julianday e (fu_created_at (fst fr)))
             (List.map_filter (\<lambda>f.
               if fu_incident_id f = incident_id
               then map_option (Pair f) (tbl_find rq_request_id (fu_request_id f) (ts_requests db))
               else None) (ts_followups db)) of
        None \<Rightarrow> None
      | Some (f, r) \<Rightarrow>
          (let status = (if fu_status f = ''pending'' \<and> rq_state r \<noteq> Pending
                         then request_state_value (rq_state r) else fu_status f)
           in Some \<lparr>fv_row = (followup_document f)\<lparr>fu_status := status\<rparr>,
                fv_failed_at = (if status = ''failed''
                  then failure_recorded incident_id (fu_request_id f) db else None)\<rparr>))"

section \<open>Incidents\<close>

record incident_view =
  iv_row :: incident_row
  iv_workflow_state :: string
  iv_expertise_state :: string
  iv_decision :: "(json \<times> instant) option"
  iv_events :: "event_row list"
  iv_repairs :: "repair_view list"
  iv_manual_actions :: "manual_row list"
  iv_followup :: "followup_view option"

definition view_state :: "incident_view \<Rightarrow> string" where
  "view_state v = (if active (iv_row v) then ''active'' else ''resolved'')"

definition events_of :: "string \<Rightarrow> tsdb \<Rightarrow> event_row list" where
  "events_of incident_id db = filter (\<lambda>ev. ev_incident_id ev = incident_id) (ts_events db)"

text \<open>\<open>TsunadeIncidentEvent\<close>.\<close>

definition event_document :: "event_row \<Rightarrow> event_row option" where
  "event_document ev =
     (if bounded_text 1 40 (ev_kind ev) \<and> bounded_text 1 1000 (redact_sensitive_text (ev_summary ev))
      then Some (ev\<lparr>ev_kind := trim (ev_kind ev), ev_summary := masked_text (ev_summary ev),
             ev_payload := redact_sensitive_value (ev_payload ev)\<rparr>)
      else None)"

definition shown_events :: "string \<Rightarrow> tsdb \<Rightarrow> event_row list option" where
  "shown_events incident_id db =
     each event_document (rev (take 1000 (order_desc ev_event_id (events_of incident_id db))))"

definition handled_kind :: "string \<Rightarrow> bool" where
  "handled_kind kind = (kind \<in> {''investigation'', ''diagnostic'', ''action'', ''result''})"

text \<open>
  The cycle status: with the events, that of the latest diagnostic that has one; without them, that
  of the latest diagnostic.
\<close>

definition cycle_status_shown :: "event_row list \<Rightarrow> string" where
  "cycle_status_shown events =
     (case find (\<lambda>ev. ev_kind ev = ''diagnostic'' \<and> jtrue (jget (ev_payload ev) ''cycle_status''))
             (rev events) of
        None \<Rightarrow> [] | Some ev \<Rightarrow> py_str (jget (ev_payload ev) ''cycle_status''))"

definition latest_diagnostic :: "string \<Rightarrow> tsdb \<Rightarrow> event_row option" where
  "latest_diagnostic incident_id db =
     newest_row ev_event_id (filter (\<lambda>ev. ev_kind ev = ''diagnostic'') (events_of incident_id db))"

definition cycle_status_stored :: "string \<Rightarrow> tsdb \<Rightarrow> string" where
  "cycle_status_stored incident_id db =
     (case latest_diagnostic incident_id db of
        None \<Rightarrow> []
      | Some ev \<Rightarrow>
          (let v = jget (ev_payload ev) ''cycle_status'' in if jtrue v then py_str v else []))"

definition expertise_states :: "(string \<times> string) list" where
  "expertise_states =
     [(''deterministic'', ''deterministic''), (''deterministic_decision'', ''deterministic''),
      (''ai_queued'', ''ai_queued''), (''ai_completed'', ''hypotheses_ready''),
      (''ai_failed'', ''insufficient_context''), (''insufficient_context'', ''insufficient_context'')]"

definition decision_keys :: "string list" where
  "decision_keys =
     [''decision'', ''decision_source'', ''origin'', ''epistemic_status'', ''diagnostic_level'',
      ''confirmation_gap'', ''interpretation'', ''summary'', ''confidence'', ''conclusion'', ''reason'',
      ''recommended_action'', ''reevaluate_after'', ''cycle_status'', ''basis_observed_at'',
      ''basis_fingerprint'', ''verdict'', ''ai_job_id'', ''upstream_incident_id'']"

definition decision_fields :: "json \<Rightarrow> json" where
  "decision_fields v =
     (case v of JObj kvs \<Rightarrow> JObj (filter (\<lambda>kv. fst kv \<in> set decision_keys) kvs) | _ \<Rightarrow> JObj [])"

definition latest_decision :: "string \<Rightarrow> tsdb \<Rightarrow> (json \<times> instant) option" where
  "latest_decision incident_id db =
     map_option (\<lambda>ev. (decision_fields (redact_sensitive_value (ev_payload ev)), ev_occurred_at ev))
       (latest_diagnostic incident_id db)"

definition incident_document ::
  "env \<Rightarrow> instant \<Rightarrow> bool \<Rightarrow> incident_row \<Rightarrow> tsdb \<Rightarrow> error + incident_view" where
  "incident_document e now include_events row db =
     (let k = i_incident_id row
      in case (each (\<lambda>rd. repair_document now (snd rd) (fst rd)) (repairs_of e k db),
               if include_events then shown_events k db else Some []) of
           (Some repairs, Some events) \<Rightarrow>
             (let handled =
                    (active row \<and> i_final_result row \<in> {None, Some []} \<and>
                     (if include_events then list_ex (\<lambda>ev. handled_kind (ev_kind ev)) events
                      else list_ex (\<lambda>ev. handled_kind (ev_kind ev)) (events_of k db)));
                  cycle = (if include_events then cycle_status_shown events else cycle_status_stored k db)
              in Inr \<lparr>iv_row = row\<lparr>i_node_id := trim (i_node_id row), i_service_id := trim (i_service_id row),
                     i_capability_id := trim (i_capability_id row),
                     i_equipment_id := trim (i_equipment_id row), i_message := masked_text (i_message row),
                     i_context := redact_sensitive_value (i_context row),
                     i_final_result := masked_option (i_final_result row)\<rparr>,
                   iv_workflow_state =
                     (if \<not> active row then ''resolved''
                      else if i_final_result row \<notin> {None, Some []} then ''treated''
                      else if handled then ''in_progress'' else ''new''),
                   iv_expertise_state =
                     (case map_of expertise_states cycle of
                        Some s \<Rightarrow> s | None \<Rightarrow> if handled then ''investigating'' else ''idle''),
                   iv_decision = latest_decision k db, iv_events = events, iv_repairs = repairs,
                   iv_manual_actions = manual_actions_locked e k db,
                   iv_followup = latest_followup e k db\<rparr>)
         | _ \<Rightarrow> Inl validation_error)"

section \<open>Reading\<close>

text \<open>
  Every read applies the deadlines first. Outside a transaction that sweep is committed even when
  building the document then raises.
\<close>

definition get_incident :: "env \<Rightarrow> instant \<Rightarrow> string \<Rightarrow> tsdb \<Rightarrow> incident_view tresult" where
  "get_incident e now incident_id db =
     (let db1 = expire_repairs_locked e now db
      in case select_incident incident_id db1 of
           None \<Rightarrow> (Inl (LookupError (''Unknown incident: '' @ incident_id)), db1)
         | Some row \<Rightarrow> (incident_document e now True row db1, db1))"

definition incident_states :: "(string \<times> (incident_row \<Rightarrow> bool)) list" where
  "incident_states =
     [(''active'', active), (''resolved'', \<lambda>i. \<not> active i), (''all'', \<lambda>i. True)]"

fun sequence_views :: "(error + 'a) list \<Rightarrow> error + 'a list" where
  "sequence_views [] = Inr []"
| "sequence_views (Inl err # rs) = Inl err"
| "sequence_views (Inr v # rs) =
     (case sequence_views rs of Inl err \<Rightarrow> Inl err | Inr vs \<Rightarrow> Inr (v # vs))"

definition list_incidents :: "env \<Rightarrow> instant \<Rightarrow> string \<Rightarrow> int \<Rightarrow> tsdb \<Rightarrow> incident_view list tresult" where
  "list_incidents e now state limit db =
     (case map_of incident_states state of
        None \<Rightarrow> (Inl (ValueError ''incident state must be active, resolved, or all''), db)
      | Some selected \<Rightarrow>
          if limit < 1 \<or> 500 < limit
          then (Inl (ValueError ''incident limit must be between 1 and 500''), db)
          else let db1 = expire_repairs_locked e now db;
                   rows = take (nat limit) (order_desc
                     (\<lambda>i. (active i, active i \<and> i_severity i = Critical, julianday e (i_started_at i)))
                     (filter selected (ts_incidents db1)))
               in (sequence_views (map (\<lambda>row. incident_document e now False row db1) rows), db1))"

definition get_repair :: "instant \<Rightarrow> string \<Rightarrow> tsdb \<Rightarrow> error + repair_view" where
  "get_repair now repair_id db =
     (case required_repair repair_id db of
        Inl err \<Rightarrow> Inl err
      | Inr r \<Rightarrow> (case repair_document now None r of None \<Rightarrow> Inl validation_error | Some v \<Rightarrow> Inr v))"

end
