(* ===== verification/Incidents.thy ===== *)
theory Incidents
  imports Incident_Views
begin

text \<open>
  The life of an incident (tsunade/incidents.py): an observation opens, updates or resolves the
  incident of its capability; devices removed from the architecture close theirs; operators attach
  records.
\<close>

section \<open>Context\<close>

text \<open>\<open>json.dumps\<close> with its default separators.\<close>

fun json_dumps_spaced :: "json \<Rightarrow> string" where
  "json_dumps_spaced (JArr xs) = ''['' @ join '', '' (map json_dumps_spaced xs) @ '']''"
| "json_dumps_spaced (JObj kvs) =
     ''{'' @ join '', '' (map (\<lambda>(k, v). json_string k @ '': '' @ json_dumps_spaced v) kvs) @ ''}''"
| "json_dumps_spaced v = json_dumps v"

definition context_of :: "json \<Rightarrow> json" where
  "context_of metadata =
     (if int (length (json_dumps_spaced metadata)) \<le> 32768 then metadata
      else JObj [(''truncated'', JBool True)])"

section \<open>Opening, updating, resolving\<close>

fun FAULTS :: "obs_status \<Rightarrow> incident_severity option" where
  "FAULTS DEGRADED = Some Degraded"
| "FAULTS UNHEALTHY = Some Critical"
| "FAULTS _ = None"

text \<open>A read inside the transaction: an error it raises rolls the transaction back.\<close>

definition within_transaction :: "'a tresult \<Rightarrow> error + ('a \<times> tsdb)" where
  "within_transaction r = (case r of (Inl err, db) \<Rightarrow> Inl err | (Inr v, db) \<Rightarrow> Inr (v, db))"

definition equipment_of :: "observation \<Rightarrow> string" where
  "equipment_of obs =
     (let device = jget (ob_metadata obs) ''device_id''
      in if jtrue device then py_str device else ob_node obs)"

definition recurrence :: "capability_key \<Rightarrow> tsdb \<Rightarrow> int" where
  "recurrence key db = int (length (filter (\<lambda>i. incident_key i = key) (ts_incidents db)))"

definition new_incident :: "string \<Rightarrow> observation \<Rightarrow> incident_severity \<Rightarrow> tsdb \<Rightarrow> incident_row" where
  "new_incident incident_id obs severity db =
     \<lparr>i_incident_id = incident_id, i_node_id = ob_node obs, i_service_id = ob_service obs,
      i_capability_id = ob_capability obs, i_equipment_id = equipment_of obs, i_severity = severity,
      i_started_at = ob_timestamp obs, i_last_observed_at = ob_timestamp obs, i_ended_at = None,
      i_last_observation_id = ob_id obs, i_message = redact_sensitive_text (ob_message obs),
      i_occurrence_count = 1, i_recurrence_count = recurrence (capability_of obs) db,
      i_context = redact_sensitive_value (context_of (ob_metadata obs)), i_final_result = None\<rparr>"

definition change_payload :: "string \<Rightarrow> string \<Rightarrow> (string \<times> json) list" where
  "change_payload earlier after' = [(''from'', JStr earlier), (''to'', JStr after')]"

definition open_incident ::
  "env \<Rightarrow> instant \<Rightarrow> string \<Rightarrow> observation \<Rightarrow> incident_severity \<Rightarrow> string \<Rightarrow> tsdb \<Rightarrow> error + (incident_view \<times> tsdb)" where
  "open_incident e now incident_id obs severity previous_status db =
     (if select_incident incident_id db \<noteq> None
      then Inl (RuntimeError ''UNIQUE constraint failed: tsunade_incidents.incident_id'')
      else let db1 = db\<lparr>ts_incidents := ts_incidents db @ [new_incident incident_id obs severity db]\<rparr>;
               db2 = record_event incident_id ''opened'' (ob_timestamp obs) (Some obs)
                 (redact_sensitive_text (ob_message obs))
                 (JObj (change_payload previous_status (severity_value severity))) db1
           in within_transaction (get_incident e now incident_id db2))"

definition observed_row :: "observation \<Rightarrow> incident_severity \<Rightarrow> incident_row \<Rightarrow> incident_row" where
  "observed_row obs severity i =
     i\<lparr>i_severity := severity, i_last_observed_at := ob_timestamp obs,
       i_last_observation_id := ob_id obs, i_message := redact_sensitive_text (ob_message obs),
       i_occurrence_count := i_occurrence_count i + 1,
       i_context := redact_sensitive_value (context_of (ob_metadata obs))\<rparr>"

definition update_kind :: "incident_severity \<Rightarrow> incident_severity \<Rightarrow> string" where
  "update_kind earlier after' =
     (if earlier = Degraded \<and> after' = Critical then ''escalated'' else ''observed'')"

definition update_open_incident ::
  "env \<Rightarrow> instant \<Rightarrow> incident_view \<Rightarrow> observation \<Rightarrow> incident_severity \<Rightarrow> tsdb \<Rightarrow> error + (incident_view \<times> tsdb)" where
  "update_open_incident e now incident obs severity db =
     (let k = i_incident_id (iv_row incident);
          db1 = update_incident k (observed_row obs severity) db;
          db2 = record_event k (update_kind (i_severity (iv_row incident)) severity) (ob_timestamp obs)
            (Some obs) (redact_sensitive_text (ob_message obs))
            (JObj (change_payload (severity_value (i_severity (iv_row incident))) (severity_value severity))) db1
      in within_transaction (get_incident e now k db2))"

definition resolved_row :: "observation \<Rightarrow> incident_row \<Rightarrow> incident_row" where
  "resolved_row obs i =
     i\<lparr>i_ended_at := Some (ob_timestamp obs), i_last_observed_at := ob_timestamp obs,
       i_last_observation_id := ob_id obs, i_message := redact_sensitive_text (ob_message obs),
       i_final_result := Some txt_resolved\<rparr>"

definition resolve_incident ::
  "env \<Rightarrow> instant \<Rightarrow> incident_view \<Rightarrow> observation \<Rightarrow> tsdb \<Rightarrow> error + (incident_view \<times> tsdb)" where
  "resolve_incident e now incident obs db =
     (let k = i_incident_id (iv_row incident);
          db1 = update_incident k (resolved_row obs) db;
          db2 = update_pending_requests (\<lambda>r. rq_incident_id r = k) (\<lambda>r. r\<lparr>rq_state := Resolved\<rparr>) db1;
          db3 = expire_repairs_locked e (ob_timestamp obs) db2;
          db4 = record_event k ''resolved'' (ob_timestamp obs) (Some obs)
            (redact_sensitive_text (ob_message obs))
            (JObj (change_payload (severity_value (i_severity (iv_row incident))) ''healthy'' @
              [(''result'', JStr txt_resolved)])) db3
      in within_transaction (get_incident e now k db4))"

section \<open>Observations\<close>

text \<open>
  The readings of the clock of one call: the day and the time of the purge, the reads inside the
  transaction, and the mark of the observation.
\<close>

record readings =
  rd_today :: instant
  rd_purge :: instant
  rd_get :: instant
  rd_mark :: instant

definition verify_actions :: "env \<Rightarrow> string \<Rightarrow> observation \<Rightarrow> bool \<Rightarrow> tsdb \<Rightarrow> tsdb" where
  "verify_actions e incident_id obs succeeded db =
     verify_manual_action e incident_id obs succeeded
       (verify_pending_repair e incident_id obs succeeded db)"

definition some_view :: "error + (incident_view \<times> tsdb) \<Rightarrow> error + (incident_view option \<times> tsdb)" where
  "some_view r = (case r of Inl err \<Rightarrow> Inl err | Inr (v, db) \<Rightarrow> Inr (Some v, db))"

definition apply_observation ::
  "env \<Rightarrow> instant \<Rightarrow> string \<Rightarrow> (string \<times> instant) option \<Rightarrow> incident_view option \<Rightarrow> observation \<Rightarrow> tsdb \<Rightarrow>
     error + (incident_view option \<times> tsdb)" where
  "apply_observation e now new_id previous current obs db =
     (case FAULTS (ob_status obs) of
        Some severity \<Rightarrow>
          some_view (case current of
             None \<Rightarrow>
               open_incident e now new_id obs severity
                 (case previous of None \<Rightarrow> ''unknown'' | Some p \<Rightarrow> fst p) db
           | Some incident \<Rightarrow>
               update_open_incident e now incident obs severity
                 (verify_actions e (i_incident_id (iv_row incident)) obs False db))
      | None \<Rightarrow>
          (case current of
             Some incident \<Rightarrow>
               if ob_status obs = HEALTHY
               then some_view (resolve_incident e now incident obs
                      (verify_actions e (i_incident_id (iv_row incident)) obs True db))
               else Inr (None, db)
           | None \<Rightarrow> Inr (None, db)))"

definition current_incident ::
  "env \<Rightarrow> instant \<Rightarrow> capability_key \<Rightarrow> tsdb \<Rightarrow> error + incident_view option" where
  "current_incident e now key db =
     (case active_row key db of
        None \<Rightarrow> Inr None
      | Some row \<Rightarrow>
          (case incident_document e now False row db of Inl err \<Rightarrow> Inl err | Inr v \<Rightarrow> Inr (Some v)))"

definition outdated :: "(string \<times> instant) option \<Rightarrow> observation \<Rightarrow> bool" where
  "outdated previous obs = (case previous of None \<Rightarrow> False | Some p \<Rightarrow> ob_timestamp obs < snd p)"

definition process_body ::
  "env \<Rightarrow> (string \<Rightarrow> int option) \<Rightarrow> string \<Rightarrow> readings \<Rightarrow> observation \<Rightarrow> tsdb \<Rightarrow>
     error + (incident_view option \<times> tsdb)" where
  "process_body e age_us new_id rd obs db =
     (let previous = capability_state (capability_of obs) db
      in if already_processed (ob_id obs) db then Inr (None, db)
         else if outdated previous obs then Inr (None, mark_processed (rd_mark rd) (ob_id obs) db)
         else case current_incident e (rd_get rd) (capability_of obs) db of
                Inl err \<Rightarrow> Inl err
              | Inr current \<Rightarrow>
                  (case apply_observation e (rd_get rd) new_id previous current obs db of
                     Inl err \<Rightarrow> Inl err
                   | Inr (incident, db1) \<Rightarrow>
                       Inr (incident, mark_processed (rd_mark rd) (ob_id obs) (write_state age_us obs db1))))"

text \<open>The purge commits on its own, before the transaction of the observation.\<close>

definition process ::
  "env \<Rightarrow> (string \<Rightarrow> int option) \<Rightarrow> bool \<Rightarrow> string \<Rightarrow> readings \<Rightarrow> observation \<Rightarrow> tsdb \<Rightarrow>
     incident_view option tresult" where
  "process e age_us busy new_id rd obs db =
     transaction (purge_processed_if_due e busy (rd_today rd) (rd_purge rd) db)
       (process_body e age_us new_id rd obs)"

section \<open>Devices removed from the architecture\<close>

definition presence_incident :: "incident_row \<Rightarrow> bool" where
  "presence_incident i = (i_capability_id i = ''network.reachable'' \<and> active i)"

definition remove_monitoring :: "instant \<Rightarrow> string \<Rightarrow> tsdb \<Rightarrow> tsdb" where
  "remove_monitoring occurred_at k db =
     record_event k ''monitoring_removed'' occurred_at None txt_monitoring_removed
       (JObj [(''reason'', JStr ''architecture_removed'')])
       (update_incident k (\<lambda>i. i\<lparr>i_ended_at := Some occurred_at, i_message := txt_monitoring_removed,
          i_final_result := Some txt_monitoring_removed\<rparr>) db)"

fun remove_loop ::
  "env \<Rightarrow> instant \<Rightarrow> instant \<Rightarrow> incident_row list \<Rightarrow> tsdb \<Rightarrow> error + (incident_view list \<times> tsdb)" where
  "remove_loop e now occurred_at [] db = Inr ([], db)"
| "remove_loop e now occurred_at (row # rows) db =
     (case incident_document e now False row db of
        Inl err \<Rightarrow> Inl err
      | Inr _ \<Rightarrow>
          (case within_transaction (get_incident e now (i_incident_id row)
                  (remove_monitoring occurred_at (i_incident_id row) db)) of
             Inl err \<Rightarrow> Inl err
           | Inr (v, db1) \<Rightarrow>
               (case remove_loop e now occurred_at rows db1 of
                  Inl err \<Rightarrow> Inl err
                | Inr (vs, db2) \<Rightarrow> Inr (v # vs, db2))))"

definition resolve_removed_network_devices ::
  "env \<Rightarrow> instant \<Rightarrow> string list \<Rightarrow> instant \<Rightarrow> tsdb \<Rightarrow> incident_view list tresult" where
  "resolve_removed_network_devices e now device_ids occurred_at db =
     (if device_ids = [] then (Inr [], db)
      else transaction db (\<lambda>db. remove_loop e now occurred_at
             (filter (\<lambda>i. presence_incident i \<and> i_service_id i \<in> set device_ids) (ts_incidents db)) db))"

definition reconcile_network_devices ::
  "env \<Rightarrow> instant \<Rightarrow> string list \<Rightarrow> instant \<Rightarrow> tsdb \<Rightarrow> incident_view list tresult" where
  "reconcile_network_devices e now device_ids occurred_at db =
     resolve_removed_network_devices e now
       (filter (\<lambda>d. d \<notin> set device_ids)
         (remdups (map i_service_id (filter presence_incident (ts_incidents db))))) occurred_at db"

section \<open>Records\<close>

definition dict_field :: validator where
  "dict_field v = (case v of JObj kvs \<Rightarrow> Some (JObj kvs) | _ \<Rightarrow> None)"

definition IncidentRecordRequest :: validator where
  "IncidentRecordRequest = model
     [required ''kind'' (literal [JStr ''investigation'', JStr ''diagnostic'', JStr ''action'', JStr ''result'']),
      required ''summary'' (str_field (sized 1 1000)),
      defaults ''payload'' (JObj []) dict_field] (\<lambda>v. True)"

fun text_of :: "json \<Rightarrow> string" where
  "text_of (JStr s) = s"
| "text_of _ = []"

definition append_record ::
  "env \<Rightarrow> instant \<Rightarrow> instant \<Rightarrow> instant \<Rightarrow> string \<Rightarrow> json \<Rightarrow> tsdb \<Rightarrow> incident_view tresult" where
  "append_record e now1 now now2 incident_id payload db =
     (case IncidentRecordRequest payload of
        None \<Rightarrow> (Inl validation_error, db)
      | Some request \<Rightarrow>
          (let kind = text_of (jget request ''kind'');
               summary = redact_sensitive_text (text_of (jget request ''summary''));
               safe_payload = redact_sensitive_value (jget request ''payload'')
           in and_then (get_incident e now1 incident_id db) (\<lambda>incident db1.
                let k = i_incident_id (iv_row incident);
                    db2 = record_event k kind now None summary safe_payload db1;
                    db3 = (if kind = ''result''
                           then update_incident k (\<lambda>i. i\<lparr>i_final_result := Some summary\<rparr>) db2 else db2)
                in get_incident e now2 k db3)))"

end
