(* ===== verification/Repairs.thy ===== *)
theory Repairs
  imports Incidents
begin

text \<open>
  Supervised repairs (tsunade/incident_repairs.py, \<open>eligible_repair\<close> of repair_catalog.py, and
  \<open>authorize_incident_repair\<close> of api/service.py): the catalogue entry an incident is eligible for, the
  proposal, the human decision, the execution and its verification deadline.
\<close>

section \<open>Eligibility\<close>

record service_config =
  sv_id :: string
  sv_name :: string
  sv_type :: string
  sv_node :: string
  sv_implementation :: "string option"

text \<open>The result of the latest successful run of a probe.\<close>

definition latest_probe :: "event_row list \<Rightarrow> string \<Rightarrow> json option" where
  "latest_probe events operation =
     (case find (\<lambda>ev. ev_kind ev = ''investigation'' \<and>
               jget (ev_payload ev) ''operation'' = JStr operation \<and>
               jget (ev_payload ev) ''status'' = JStr ''OK'') (rev events) of
        None \<Rightarrow> None
      | Some ev \<Rightarrow>
          (case jget (ev_payload ev) ''result'' of JObj kvs \<Rightarrow> Some (JObj kvs) | _ \<Rightarrow> None))"

definition has_key :: "json \<Rightarrow> string \<Rightarrow> bool" where
  "has_key v k = (case v of JObj kvs \<Rightarrow> k \<in> fst ` set kvs | _ \<Rightarrow> False)"

definition text_or_empty :: "json \<Rightarrow> string" where
  "text_or_empty v = (if jtrue v then py_str v else [])"

definition is_object :: "json \<Rightarrow> bool" where
  "is_object v = (case v of JObj kvs \<Rightarrow> True | _ \<Rightarrow> False)"

fun items_of :: "json \<Rightarrow> json list" where
  "items_of (JArr xs) = xs"
| "items_of _ = []"

text \<open>Only the latest inspection describes the add-ons; its first matching add-on decides.\<close>

definition observed_addon :: "event_row list \<Rightarrow> string \<Rightarrow> repair_spec \<Rightarrow> error + string" where
  "observed_addon events node_id spec =
     (let inspection = (case find (\<lambda>ev. ev_kind ev = ''investigation'' \<and>
                 has_key (ev_payload ev) ''configuration_inspection'') (rev events) of
             None \<Rightarrow> JNull
           | Some ev \<Rightarrow> jget (ev_payload ev) ''configuration_inspection'');
          addons = items_of (jget (jget inspection ''remote'') ''addons'')
      in case find (\<lambda>a. is_object a \<and> valid_slug (text_or_empty (jget a ''addon'')) \<and>
                addon_matches (text_or_empty (jget a ''addon'')) (sp_addon_terms spec)) addons of
           None \<Rightarrow> Inl (ValueError (txt_no_addon @ node_id))
         | Some a \<Rightarrow>
             (let slug = text_or_empty (jget a ''addon'');
                  state = map lower_char (strip (text_or_empty (jget a ''state'')))
              in case sp_addon_states spec of
                   None \<Rightarrow> Inr slug
                 | Some states \<Rightarrow>
                     if state \<in> set states then Inr slug
                     else Inl (ValueError (txt_addon @ slug @ txt_addon_state @
                            (if state = [] then ''inconnu'' else state) @ txt_addon_other))))"

definition eligible_repair ::
  "incident_view \<Rightarrow> service_config list \<Rightarrow> string option \<Rightarrow> error + repair_spec" where
  "eligible_repair incident services agent_node_id =
     (let row = iv_row incident;
          decision = (case iv_decision incident of None \<Rightarrow> JObj [] | Some d \<Rightarrow> fst d)
      in if \<not> active row then Inl (ValueError txt_repair_needs_active)
         else case find (\<lambda>s. sv_id s = i_service_id row) services of
           None \<Rightarrow> Inl (ValueError txt_service_undeclared)
         | Some service \<Rightarrow>
             (let implementation = map lower_char (case sv_implementation service of None \<Rightarrow> [] | Some s \<Rightarrow> s)
              in case find (\<lambda>c. sv_type service \<in> set (sp_service_types c) \<and>
                        implements implementation (sp_implementation_terms c)) REPAIRS of
                   None \<Rightarrow> Inl (ValueError txt_no_known_repair)
                 | Some spec \<Rightarrow>
                     if sp_agent_node_only spec \<and> Some (sv_node service) \<noteq> agent_node_id
                     then Inl (ValueError (txt_agent_host_only @ sv_node service))
                     else if jget decision ''epistemic_status'' \<noteq> JStr (sp_evidence spec)
                     then Inl (ValueError (if sp_evidence spec = ''confirmed_by_probe''
                            then txt_needs_probe else txt_needs_supervisor))
                     else if (case sp_probe_operation spec of
                                None \<Rightarrow> False
                              | Some operation \<Rightarrow>
                                  (case (latest_probe (iv_events incident) operation, sp_probe_confirms spec) of
                                     (Some probe, Some confirms) \<Rightarrow> \<not> confirms probe
                                   | _ \<Rightarrow> True))
                     then Inl (ValueError (txt_probe @
                            (case sp_probe_operation spec of None \<Rightarrow> [] | Some p \<Rightarrow> p) @ txt_probe_silent))
                     else if sp_addon_terms spec \<noteq> []
                     then (case observed_addon (iv_events incident) (i_node_id row) spec of
                             Inl err \<Rightarrow> Inl err | Inr slug \<Rightarrow> Inr (spec\<lparr>sp_target := slug\<rparr>))
                     else Inr spec))"

section \<open>Proposals\<close>

definition track_record :: "env \<Rightarrow> known_match \<Rightarrow> string" where
  "track_record e known =
     txt_known_repair @ show_int (km_success_count known) @ txt_successes @
     show_int (km_failure_count known) @ txt_failures @ show_int (km_attempt_count known) @
     '' tentative(s)'' @
     (case km_last_success_at known of
        None \<Rightarrow> [] | Some t \<Rightarrow> txt_last_success @ date_text e t @ txt_at @ hour_text e t) @
     ''.'' @ (case km_caution known of None \<Rightarrow> [] | Some c \<Rightarrow> if c = [] then [] else '' '' @ c)"

definition new_repair :: "string \<Rightarrow> string \<Rightarrow> repair_spec \<Rightarrow> instant \<Rightarrow> known_match option \<Rightarrow> repair_row" where
  "new_repair repair_id incident_id spec now known =
     \<lparr>rp_repair_id = repair_id, rp_incident_id = incident_id, rp_operation = sp_operation spec,
      rp_target = sp_target spec, rp_risk = sp_risk spec, rp_status = Proposed, rp_proposed_at = now,
      rp_authorized_at = None, rp_authorization_source = None, rp_authorized_by = None,
      rp_executed_at = None, rp_verified_at = None, rp_result = None,
      rp_verification_deadline = None, rp_known_repair = known, rp_experience_id = None\<rparr>"

definition decision_choices :: "string list" where
  "decision_choices = [''AUTHORIZE'', ''REFUSE'', ''LATER'']"

definition new_request ::
  "string \<Rightarrow> string \<Rightarrow> string \<Rightarrow> string \<Rightarrow> string \<Rightarrow> string \<Rightarrow> instant \<Rightarrow> instant \<Rightarrow> string \<Rightarrow> request_row" where
  "new_request request_id incident_id kind context question risk now expires_at reference =
     \<lparr>rq_request_id = request_id, rq_incident_id = incident_id, rq_origin = ''tsunade'', rq_kind = kind,
      rq_context = context, rq_question = question, rq_choices = decision_choices,
      rq_risk = Some risk, rq_state = Pending, rq_created_at = now, rq_expires_at = expires_at,
      rq_deferred_until = None, rq_answered_at = None, rq_answer = None, rq_answer_source = None,
      rq_answered_by = None, rq_action_reference = Some reference\<rparr>"

definition unique_failure :: "string \<Rightarrow> error" where
  "unique_failure column = RuntimeError (''UNIQUE constraint failed: '' @ column)"

text \<open>
  A proposal for an incident that already has one open, proposed or under verification, returns that
  one. \<open>known\<close> is the match that \<open>_known_repair_match_locked\<close> found.
\<close>

definition open_repair :: "env \<Rightarrow> string \<Rightarrow> tsdb \<Rightarrow> repair_row option" where
  "open_repair e incident_id db =
     newest_row (\<lambda>r. julianday e (rp_proposed_at r))
       (filter (\<lambda>r. rp_incident_id r = incident_id \<and> rp_status r \<in> {Proposed, Verifying}) (ts_repairs db))"

definition insert_proposal ::
  "env \<Rightarrow> instant \<Rightarrow> string \<Rightarrow> string \<Rightarrow> incident_view \<Rightarrow> repair_spec \<Rightarrow> known_match option \<Rightarrow> tsdb \<Rightarrow> tsdb" where
  "insert_proposal e now repair_id request_id incident spec known db =
     (let k = i_incident_id (iv_row incident);
          track = (case known of None \<Rightarrow> [] | Some m \<Rightarrow> '' '' @ track_record e m);
          db1 = db\<lparr>ts_repairs := ts_repairs db @ [new_repair repair_id k spec now known]\<rparr>;
          db2 = db1\<lparr>ts_requests := ts_requests db1 @
            [new_request request_id k ''repair_authorization''
               (i_equipment_id (iv_row incident) @ '' : '' @ i_message (iv_row incident) @ '' '' @
                txt_proposes @ sp_action spec @ ''.'' @ track)
               (sp_question spec) (sp_risk spec) now (now + days 7) repair_id]\<rparr>
      in record_event k ''action'' now None (txt_proposes @ sp_action spec @ ''.'' @ track)
           (JObj [(''repair_id'', JStr repair_id),
             (''known_experience_id'', case known of None \<Rightarrow> JNull | Some m \<Rightarrow> JStr (km_experience_id m)),
             (''operation'', JStr (sp_operation spec)), (''target'', JStr (sp_target spec)),
             (''risk'', JStr (sp_risk spec)), (''status'', JStr ''proposed''),
             (''authorized'', JBool False), (''request_id'', JStr request_id)]) db2)"

definition propose_repair ::
  "env \<Rightarrow> instant \<Rightarrow> instant \<Rightarrow> string \<Rightarrow> string \<Rightarrow> known_match option \<Rightarrow> string \<Rightarrow> repair_spec \<Rightarrow> tsdb \<Rightarrow>
     repair_view tresult" where
  "propose_repair e now1 now repair_id request_id known incident_id spec db =
     and_then (get_incident e now1 incident_id db) (\<lambda>incident db1.
       if \<not> active (iv_row incident) then (Inl (ValueError txt_repair_needs_active), db1)
       else case open_repair e (i_incident_id (iv_row incident)) db1 of
              Some existing \<Rightarrow>
                (case repair_document now None existing of
                   None \<Rightarrow> (Inl validation_error, db1) | Some v \<Rightarrow> (Inr v, db1))
            | None \<Rightarrow>
                if select_repair repair_id db1 \<noteq> None
                then (Inl (unique_failure ''tsunade_repairs.repair_id''), db1)
                else if tbl_find rq_request_id request_id (ts_requests db1) \<noteq> None
                then (Inl (unique_failure ''tsunade_user_requests.request_id''), db1)
                else let db2 = insert_proposal e now repair_id request_id incident spec known db1
                     in (get_repair now repair_id db2, db2))"

section \<open>Human decisions\<close>

definition capitalize :: "string \<Rightarrow> string" where
  "capitalize s = (case s of [] \<Rightarrow> [] | c # cs \<Rightarrow>
     (if lower_char c = c \<and> c \<in> set letters then char_of (of_char c - 32 :: nat) else c) # map lower_char cs)"

definition pending_proposal_locked ::
  "env \<Rightarrow> instant \<Rightarrow> string \<Rightarrow> string \<Rightarrow> tsdb \<Rightarrow> error + (repair_row \<times> tsdb)" where
  "pending_proposal_locked e now repair_id incident_id db =
     (let db1 = expire_repairs_locked e now db
      in case find (\<lambda>r. rp_repair_id r = repair_id \<and> rp_incident_id r = incident_id) (ts_repairs db1) of
           None \<Rightarrow> Inl (LookupError txt_unknown_proposal)
         | Some r \<Rightarrow>
             if rp_status r = Expired then Inl (ValueError txt_proposal_expired)
             else if rp_status r \<noteq> Proposed then Inl (ValueError txt_proposal_settled)
             else Inr (r, db1))"

definition answered_request :: "instant \<Rightarrow> string \<Rightarrow> string \<Rightarrow> string \<Rightarrow> request_row \<Rightarrow> request_row" where
  "answered_request now answer source answered_by r =
     r\<lparr>rq_state := Answered, rq_answered_at := Some now, rq_answer := Some answer,
       rq_answer_source := Some source, rq_answered_by := Some answered_by, rq_deferred_until := None\<rparr>"

definition decide_locked ::
  "instant \<Rightarrow> string \<Rightarrow> string \<Rightarrow> (repair_row \<Rightarrow> repair_row) \<Rightarrow> string \<Rightarrow> string \<Rightarrow> string \<Rightarrow> tsdb \<Rightarrow> tsdb" where
  "decide_locked now repair_id incident_id f answer source answered_by db =
     update_pending_requests (references repair_id) (answered_request now answer source answered_by)
       (update_repair repair_id f db)"

definition AuthorizationRequest :: "env \<Rightarrow> validator" where
  "AuthorizationRequest e = model
     [required ''repair_id'' (uuid_field e),
      required ''source'' (literal [JStr ''vision'', JStr ''shizune'']),
      defaults ''authorized_by'' (JStr ''utilisateur'') (str_field (sized 1 120))] (\<lambda>v. True)"

definition authorized_row :: "instant \<Rightarrow> string \<Rightarrow> string \<Rightarrow> repair_row \<Rightarrow> repair_row" where
  "authorized_row now source authorized_by r =
     r\<lparr>rp_status := Authorized, rp_authorized_at := Some now,
       rp_authorization_source := Some source, rp_authorized_by := Some authorized_by\<rparr>"

definition authorize_repair ::
  "env \<Rightarrow> instant \<Rightarrow> instant \<Rightarrow> string \<Rightarrow> json \<Rightarrow> tsdb \<Rightarrow> repair_view tresult" where
  "authorize_repair e now1 now incident_id payload db =
     (case AuthorizationRequest e payload of
        None \<Rightarrow> (Inl validation_error, db)
      | Some request \<Rightarrow>
          (let repair_id = text_of (jget request ''repair_id''); source = text_of (jget request ''source'');
               authorized_by = text_of (jget request ''authorized_by'')
           in and_then (get_incident e now1 incident_id db) (\<lambda>incident db1.
             let k = i_incident_id (iv_row incident)
             in case pending_proposal_locked e now repair_id k db1 of
                  Inl err \<Rightarrow> (Inl err, db1)
                | Inr (row, db2) \<Rightarrow>
                    (let db3 = decide_locked now repair_id k (authorized_row now source authorized_by)
                           ''AUTHORIZE'' source authorized_by db2;
                         db4 = record_event k ''action'' now None
                           (txt_repair_authorized @ capitalize source @ ''.'')
                           (JObj [(''repair_id'', JStr repair_id), (''authorized'', JBool True),
                             (''authorization_source'', JStr source),
                             (''authorized_by'', JStr authorized_by)]) db3
                     in (get_repair now repair_id db4, db4)))))"

definition refused_row :: "instant \<Rightarrow> string \<Rightarrow> string \<Rightarrow> repair_row \<Rightarrow> repair_row" where
  "refused_row now source answered_by r =
     r\<lparr>rp_status := Refused, rp_authorized_at := Some now, rp_authorization_source := Some source,
       rp_authorized_by := Some answered_by, rp_result := Some txt_refused_by_user\<rparr>"

definition refuse_repair ::
  "env \<Rightarrow> instant \<Rightarrow> instant \<Rightarrow> string \<Rightarrow> string \<Rightarrow> string \<Rightarrow> string \<Rightarrow> tsdb \<Rightarrow> repair_view tresult" where
  "refuse_repair e now1 now incident_id repair_id source answered_by db =
     and_then (get_incident e now1 incident_id db) (\<lambda>incident db1.
       let k = i_incident_id (iv_row incident)
       in case pending_proposal_locked e now repair_id k db1 of
            Inl err \<Rightarrow> (Inl err, db1)
          | Inr (row, db2) \<Rightarrow>
              (let db3 = decide_locked now repair_id k (refused_row now source answered_by)
                     ''REFUSE'' source answered_by db2;
                   db4 = record_event k ''decision'' now None
                     (txt_repair_refused @ capitalize source @ ''.'')
                     (JObj [(''repair_id'', JStr repair_id), (''authorized'', JBool False),
                       (''authorization_source'', JStr source), (''answered_by'', JStr answered_by)]) db3
               in (get_repair now repair_id db4, db4)))"

section \<open>Execution\<close>

definition VERIFICATION_MIN_SECONDS :: int where
  "VERIFICATION_MIN_SECONDS = 300"

definition VERIFICATION_MAX_SECONDS :: int where
  "VERIFICATION_MAX_SECONDS = 1800"

definition VERIFICATION_INTERVALS :: int where
  "VERIFICATION_INTERVALS = 3"

text \<open>Three observation intervals of the incident, bounded, in whole seconds.\<close>

definition verification_seconds_locked :: "env \<Rightarrow> string \<Rightarrow> tsdb \<Rightarrow> int" where
  "verification_seconds_locked e incident_id db =
     (case order_desc (\<lambda>ev. julianday e (ev_occurred_at ev))
             (filter (\<lambda>ev. ev_observation_id ev \<noteq> None) (events_of incident_id db)) of
        latest # previous # _ \<Rightarrow>
          (let interval = ev_occurred_at latest - ev_occurred_at previous
           in if interval \<le> 0 then REPAIR_VERIFICATION_SECONDS
              else min (max (VERIFICATION_INTERVALS * interval) (seconds VERIFICATION_MIN_SECONDS))
                     (seconds VERIFICATION_MAX_SECONDS) div 1000000)
      | _ \<Rightarrow> REPAIR_VERIFICATION_SECONDS)"

definition executed_row :: "instant \<Rightarrow> int \<Rightarrow> repair_row \<Rightarrow> repair_row" where
  "executed_row now delay r =
     r\<lparr>rp_status := Verifying, rp_executed_at := Some now,
       rp_verification_deadline := Some (now + seconds delay)\<rparr>"

definition mark_repair_executed :: "env \<Rightarrow> instant \<Rightarrow> string \<Rightarrow> tsdb \<Rightarrow> repair_view tresult" where
  "mark_repair_executed e now repair_id db =
     (case required_repair repair_id db of
        Inl err \<Rightarrow> (Inl err, db)
      | Inr row \<Rightarrow>
          if rp_authorized_at row = None \<or> rp_status row \<noteq> Authorized
          then (Inl (ValueError txt_not_authorized), db)
          else let delay = verification_seconds_locked e (rp_incident_id row) db;
                   db1 = count_experience_attempt_locked e row now db;
                   db2 = update_repair repair_id (executed_row now delay) db1;
                   db3 = record_event (rp_incident_id row) ''action'' now None txt_repair_executed
                     (JObj [(''repair_id'', JStr repair_id), (''status'', JStr ''verifying''),
                       (''verification_seconds'', JInt delay)]) db2
               in (get_repair now repair_id db3, db3))"

definition failed_row :: "instant \<Rightarrow> string \<Rightarrow> repair_row \<Rightarrow> repair_row" where
  "failed_row now detail r =
     r\<lparr>rp_status := Failed, rp_executed_at := Some now, rp_verified_at := Some now,
       rp_result := Some detail\<rparr>"

definition mark_repair_execution_failed ::
  "env \<Rightarrow> instant \<Rightarrow> string \<Rightarrow> string \<Rightarrow> tsdb \<Rightarrow> repair_view tresult" where
  "mark_repair_execution_failed e now repair_id error db =
     (let detail = take 1000 (redact_sensitive_text error)
      in case required_repair repair_id db of
           Inl err \<Rightarrow> (Inl err, db)
         | Inr row \<Rightarrow>
             (let db1 = (if rp_experience_id row = None
                         then count_experience_attempt_locked e row now db else db);
                  row1 = (case select_repair repair_id db1 of None \<Rightarrow> row | Some r \<Rightarrow> r);
                  db2 = count_experience_outcome_locked row1 now False db1;
                  db3 = update_repair repair_id (failed_row now detail) db2;
                  db4 = record_event (rp_incident_id row) ''result'' now None
                    (txt_execution_failed @ detail)
                    (JObj [(''repair_id'', JStr repair_id), (''status'', JStr ''failed'')]) db3
              in (get_repair now repair_id db4, db4)))"

section \<open>The service\<close>

text \<open>
  \<open>authorize_incident_repair\<close>: the authorisation is recorded, then the executor of the catalogue
  entry runs, and the outcome is recorded. An executor is a system action outside the repository: it
  returns None or raises with a text. \<open>verify\<close> says whether a verification requester is configured.
\<close>

fun error_text :: "error \<Rightarrow> string" where
  "error_text (ValueError s) = s"
| "error_text (LookupError s) = s"
| "error_text (RuntimeError s) = s"
| "error_text (ConflictError s) = s"

type_synonym executors = "(string \<times> (incident_view \<Rightarrow> string \<Rightarrow> string option)) list"

definition run_executor ::
  "env \<Rightarrow> instant \<Rightarrow> executors \<Rightarrow> string \<Rightarrow> repair_view \<Rightarrow> tsdb \<Rightarrow> string option \<times> tsdb" where
  "run_executor e now executors incident_id repair db =
     (case rv_spec repair of
        None \<Rightarrow> (Some txt_no_executor, db)
      | Some spec \<Rightarrow>
          (case map_of executors (sp_key spec) of
             None \<Rightarrow> (Some txt_no_executor, db)
           | Some executor \<Rightarrow>
               (case get_incident e now incident_id db of
                  (Inl err, db1) \<Rightarrow> (Some (error_text err), db1)
                | (Inr incident, db1) \<Rightarrow> (executor incident (rp_target (rv_row repair)), db1))))"

definition authorize_incident_repair ::
  "env \<Rightarrow> instant \<Rightarrow> instant \<Rightarrow> instant \<Rightarrow> instant \<Rightarrow> executors \<Rightarrow> bool \<Rightarrow> string \<Rightarrow> json \<Rightarrow> tsdb \<Rightarrow>
     repair_view tresult" where
  "authorize_incident_repair e now1 now2 now3 now4 executors verify incident_id payload db =
     and_then (authorize_repair e now1 now2 incident_id payload db) (\<lambda>repair db1.
       case run_executor e now3 executors incident_id repair db1 of
         (Some error, db2) \<Rightarrow>
           mark_repair_execution_failed e now4 (rp_repair_id (rv_row repair)) error db2
       | (None, db2) \<Rightarrow>
           and_then (mark_repair_executed e now4 (rp_repair_id (rv_row repair)) db2) (\<lambda>executed db3.
             (Inr executed, if verify then snd (get_incident e now4 incident_id db3) else db3)))"

section \<open>Known repairs\<close>

definition ExperienceStateRequest :: validator where
  "ExperienceStateRequest = model
     [required ''state'' (literal [JStr ''active'', JStr ''disabled'', JStr ''obsolete'']),
      defaults ''reason'' JNull (optional (str_field (sized 0 500)))] (\<lambda>v. True)"

definition set_experience_state ::
  "instant \<Rightarrow> string \<Rightarrow> json \<Rightarrow> tsdb \<Rightarrow> experience_row tresult" where
  "set_experience_state now experience_id payload db =
     (case ExperienceStateRequest payload of
        None \<Rightarrow> (Inl validation_error, db)
      | Some request \<Rightarrow>
          (let reason = text_of (jget request ''reason'');
               db1 = update_experience experience_id (\<lambda>x. x\<lparr>ex_state := text_of (jget request ''state''),
                 ex_state_changed_at := Some now,
                 ex_state_reason := (if reason = [] then None else Some (redact_sensitive_text reason))\<rparr>) db
           in case tbl_find ex_experience_id experience_id (ts_experiences db1) of
                None \<Rightarrow> (Inl (LookupError txt_unknown_experience), db)
              | Some x \<Rightarrow> (Inr x, db1)))"

end
