(* ===== verification/Incident_Requests.thy ===== *)
theory Incident_Requests
  imports Repairs
begin

text \<open>
  What people and policies answer: manual resolutions (tsunade/incident_manual.py), the requests
  Tsunade asks (incident_user_requests.py) and the complementary log collections that wait for an
  authorisation (followup_store.py).
\<close>

section \<open>Manual resolutions\<close>

definition ManualResolutionRequest :: validator where
  "ManualResolutionRequest = model
     [required ''description'' (str_field (sized 3 500)),
      defaults ''declared_by'' JNull (optional (str_field (sized 0 120))),
      defaults ''source'' (JStr ''vision'') (literal [JStr ''vision'', JStr ''shizune''])] (\<lambda>v. True)"

fun text_option :: "json \<Rightarrow> string option" where
  "text_option (JStr s) = Some s"
| "text_option _ = None"

definition MANUAL_LATE_DECLARATION_SECONDS :: int where
  "MANUAL_LATE_DECLARATION_SECONDS = 600"

definition new_manual ::
  "string \<Rightarrow> string \<Rightarrow> json \<Rightarrow> instant \<Rightarrow> manual_status \<Rightarrow> instant \<Rightarrow> manual_row" where
  "new_manual action_id incident_id request now status deadline' =
     \<lparr>ma_action_id = action_id, ma_incident_id = incident_id,
      ma_description = redact_sensitive_text (strip (text_of (jget request ''description''))),
      ma_declared_at = now, ma_declared_by = text_option (jget request ''declared_by''),
      ma_source = text_of (jget request ''source''), ma_status = status,
      ma_verification_deadline = deadline', ma_verified_at = None, ma_result = None,
      ma_observation_id = None\<rparr>"

definition insert_manual :: "manual_row \<Rightarrow> tsdb \<Rightarrow> error + tsdb" where
  "insert_manual row db =
     (if tbl_find ma_action_id (ma_action_id row) (ts_manual db) \<noteq> None
      then Inl (unique_failure ''tsunade_manual_actions.action_id'')
      else Inr (db\<lparr>ts_manual := ts_manual db @ [row]\<rparr>))"

text \<open>A declaration within ten minutes after Shikamaru saw the recovery.\<close>

definition declare_after_resolution_locked ::
  "env \<Rightarrow> instant \<Rightarrow> string \<Rightarrow> incident_row \<Rightarrow> instant \<Rightarrow> json \<Rightarrow> tsdb \<Rightarrow> error + (manual_row \<times> tsdb)" where
  "declare_after_resolution_locked e now action_id incident ended_at request db =
     (let k = i_incident_id incident
      in if seconds MANUAL_LATE_DECLARATION_SECONDS < now - ended_at
         then Inl (ValueError txt_manual_too_late)
         else if list_ex (\<lambda>r. ma_incident_id r = k) (ts_manual db)
         then Inl (ValueError txt_manual_already)
         else if list_ex (\<lambda>r. rp_incident_id r = k \<and> rp_status r = Succeeded) (ts_repairs db)
         then Inl (ValueError txt_manual_repaired)
         else let result = txt_recovery_seen @ date_text e ended_at @ txt_at @ hour_text e ended_at @ '':'' @
                    second_text e ended_at @ txt_recovery_before;
                  row = (new_manual action_id k request now Confirmed now)
                    \<lparr>ma_verified_at := Some ended_at, ma_result := Some result,
                      ma_observation_id := Some (i_last_observation_id incident)\<rparr>
              in case insert_manual row db of
                   Inl err \<Rightarrow> Inl err
                 | Inr db1 \<Rightarrow>
                     Inr (manual_action row,
                       record_event k ''action'' now None
                         (txt_manual_after @ ma_description row @ txt_manual_after_end)
                         (JObj [(''manual_action_id'', JStr action_id), (''status'', JStr ''confirmed'')]) db1))"

definition declare_active_locked ::
  "env \<Rightarrow> instant \<Rightarrow> string \<Rightarrow> string \<Rightarrow> json \<Rightarrow> tsdb \<Rightarrow> error + (manual_row \<times> tsdb)" where
  "declare_active_locked e now action_id k request db =
     (if list_ex (\<lambda>r. ma_incident_id r = k \<and> ma_status r = ManualVerifying) (ts_manual db)
      then Inl (ValueError txt_manual_pending)
      else let delay = verification_seconds_locked e k db;
               row = new_manual action_id k request now ManualVerifying (now + seconds delay)
           in case insert_manual row db of
                Inl err \<Rightarrow> Inl err
              | Inr db1 \<Rightarrow>
                  Inr (manual_action row,
                    record_event k ''action'' now None
                      (txt_manual_declared @ ma_description row @ txt_manual_nothing_run)
                      (JObj [(''manual_action_id'', JStr action_id), (''status'', JStr ''verifying''),
                        (''verification_seconds'', JInt delay)]) db1))"

definition declare_manual_resolution ::
  "env \<Rightarrow> instant \<Rightarrow> string \<Rightarrow> string \<Rightarrow> json \<Rightarrow> tsdb \<Rightarrow> manual_row tresult" where
  "declare_manual_resolution e now action_id incident_id payload db =
     (case ManualResolutionRequest payload of
        None \<Rightarrow> (Inl validation_error, db)
      | Some request \<Rightarrow>
          transaction db (\<lambda>db.
            case select_incident incident_id db of
              None \<Rightarrow> Inl (LookupError (''Unknown incident: '' @ incident_id))
            | Some row \<Rightarrow>
                (case i_ended_at row of
                   Some ended_at \<Rightarrow> declare_after_resolution_locked e now action_id row ended_at request db
                 | None \<Rightarrow> declare_active_locked e now action_id incident_id request db)))"

section \<open>Requests\<close>

definition select_request :: "string \<Rightarrow> tsdb \<Rightarrow> request_row option" where
  "select_request k db = tbl_find rq_request_id k (ts_requests db)"

definition update_request :: "string \<Rightarrow> (request_row \<Rightarrow> request_row) \<Rightarrow> tsdb \<Rightarrow> tsdb" where
  "update_request k f db = db\<lparr>ts_requests := tbl_update rq_request_id k f (ts_requests db)\<rparr>"

definition required_user_request :: "string \<Rightarrow> tsdb \<Rightarrow> error + request_row" where
  "required_user_request k db =
     (case select_request k db of None \<Rightarrow> Inl (LookupError txt_unknown_request) | Some r \<Rightarrow> Inr r)"

text \<open>
  A request that can still be answered. For a resolved incident the code writes the state
  \<open>resolved\<close> and then raises; the callers run under \<open>with self._connection\<close>, so the write is rolled
  back with everything else.
\<close>

definition required_pending_user_request :: "string \<Rightarrow> tsdb \<Rightarrow> error + request_row" where
  "required_pending_user_request k db =
     (case required_user_request k db of
        Inl err \<Rightarrow> Inl err
      | Inr r \<Rightarrow>
          if rq_state r \<noteq> Pending then Inl (ValueError txt_request_settled)
          else (case select_incident (rq_incident_id r) db of
                  None \<Rightarrow> Inl (ValueError txt_incident_resolved)
                | Some i \<Rightarrow>
                    if active i then Inr r else Inl (ValueError txt_incident_resolved)))"

text \<open>\<open>TsunadeUserRequest\<close>: a context or a question beyond 1000 characters raises.\<close>

definition user_request :: "request_row \<Rightarrow> error + request_row" where
  "user_request r =
     (if bounded_text 1 1000 (redact_sensitive_text (rq_context r)) \<and>
         bounded_text 1 1000 (redact_sensitive_text (rq_question r))
      then Inr (r\<lparr>rq_context := masked_text (rq_context r), rq_question := masked_text (rq_question r)\<rparr>)
      else Inl validation_error)"

definition ResponseRequest :: validator where
  "ResponseRequest = model
     [required ''choice'' (literal (map JStr
        [''YES'', ''NO'', ''AUTHORIZE'', ''REFUSE'', ''LATER'', ''CONFIRM''])),
      required ''source'' (literal [JStr ''vision'', JStr ''shizune'']),
      defaults ''answered_by'' (JStr ''utilisateur'') (str_field (sized 1 120))] (\<lambda>v. True)"

definition response_payload :: "string \<Rightarrow> json \<Rightarrow> json" where
  "response_payload request_id response =
     JObj [(''request_id'', JStr request_id), (''choice'', jget response ''choice''),
       (''source'', jget response ''source''), (''answered_by'', jget response ''answered_by'')]"

definition returning_request ::
  "string \<Rightarrow> tsdb \<Rightarrow> error + (request_row \<times> tsdb)" where
  "returning_request request_id db =
     (case required_user_request request_id db of
        Inl err \<Rightarrow> Inl err
      | Inr r \<Rightarrow> (case user_request r of Inl err \<Rightarrow> Inl err | Inr v \<Rightarrow> Inr (v, db)))"

definition defer_body ::
  "env \<Rightarrow> instant \<Rightarrow> string \<Rightarrow> json \<Rightarrow> tsdb \<Rightarrow> error + (request_row \<times> tsdb)" where
  "defer_body e now request_id response db =
     (let db1 = expire_user_requests_locked e now db
      in case required_pending_user_request request_id db1 of
           Inl err \<Rightarrow> Inl err
         | Inr r \<Rightarrow>
             if text_of (jget response ''choice'') \<notin> set (rq_choices r)
             then Inl (ValueError txt_not_offered)
             else returning_request request_id
               (record_event (rq_incident_id r) ''decision'' now None txt_deferred
                 (response_payload request_id response)
                 (update_request request_id (\<lambda>q. q\<lparr>rq_deferred_until :=
                    Some (min (now + seconds 3600) (rq_expires_at r))\<rparr>) db1)))"

definition answer_body ::
  "env \<Rightarrow> instant \<Rightarrow> string \<Rightarrow> json \<Rightarrow> tsdb \<Rightarrow> error + (request_row \<times> tsdb)" where
  "answer_body e now request_id response db =
     (let db1 = expire_user_requests_locked e now db;
          choice = text_of (jget response ''choice'')
      in case required_pending_user_request request_id db1 of
           Inl err \<Rightarrow> Inl err
         | Inr r \<Rightarrow>
             if choice \<notin> set (rq_choices r) then Inl (ValueError txt_not_offered)
             else returning_request request_id
               (record_event (rq_incident_id r) ''decision'' now None
                 (txt_answer_recorded @ choice @ ''.'') (response_payload request_id response)
                 (update_request request_id (answered_request now choice
                    (text_of (jget response ''source'')) (text_of (jget response ''answered_by''))) db1)))"

definition defer_user_request ::
  "env \<Rightarrow> instant \<Rightarrow> string \<Rightarrow> json \<Rightarrow> tsdb \<Rightarrow> request_row tresult" where
  "defer_user_request e now request_id payload db =
     (case ResponseRequest payload of
        None \<Rightarrow> (Inl validation_error, db)
      | Some response \<Rightarrow>
          if jget response ''choice'' \<noteq> JStr ''LATER'' then (Inl (ValueError txt_not_a_deferral), db)
          else transaction db (defer_body e now request_id response))"

definition answer_user_request ::
  "env \<Rightarrow> instant \<Rightarrow> string \<Rightarrow> json \<Rightarrow> tsdb \<Rightarrow> request_row tresult" where
  "answer_user_request e now request_id payload db =
     (case ResponseRequest payload of
        None \<Rightarrow> (Inl validation_error, db)
      | Some response \<Rightarrow>
          if jget response ''choice'' = JStr ''LATER'' then defer_user_request e now request_id payload db
          else transaction db (answer_body e now request_id response))"

definition get_user_request :: "env \<Rightarrow> instant \<Rightarrow> string \<Rightarrow> tsdb \<Rightarrow> request_row tresult" where
  "get_user_request e now request_id db =
     transaction db (\<lambda>db. returning_request request_id (expire_user_requests_locked e now db))"

definition list_user_requests ::
  "env \<Rightarrow> instant \<Rightarrow> string \<Rightarrow> int \<Rightarrow> tsdb \<Rightarrow> request_row list tresult" where
  "list_user_requests e now state limit db =
     (if limit < 1 \<or> 200 < limit then (Inl (ValueError ''request limit must be between 1 and 200''), db)
      else let db1 = expire_user_requests_locked e now db;
               rows = take (nat limit) (order_desc
                 (\<lambda>r. (rq_state r = Pending, julianday e (rq_created_at r)))
                 (filter (\<lambda>r. state \<noteq> ''pending'' \<or> rq_state r = Pending) (ts_requests db1)))
           in (sequence_views (map user_request rows), db1))"

definition repair_request_id :: "string \<Rightarrow> tsdb \<Rightarrow> string option" where
  "repair_request_id repair_id db =
     map_option rq_request_id
       (find (\<lambda>r. references repair_id r \<and> rq_state r = Pending) (ts_requests db))"

section \<open>Follow-ups\<close>

definition select_followup :: "string \<Rightarrow> tsdb \<Rightarrow> followup_row option" where
  "select_followup k db = tbl_find fu_request_id k (ts_followups db)"

definition update_followup_row :: "string \<Rightarrow> (followup_row \<Rightarrow> followup_row) \<Rightarrow> tsdb \<Rightarrow> tsdb" where
  "update_followup_row k f db = db\<lparr>ts_followups := tbl_update fu_request_id k f (ts_followups db)\<rparr>"

definition get_followup :: "string \<Rightarrow> tsdb \<Rightarrow> error + followup_row" where
  "get_followup k db =
     (case select_followup k db of
        None \<Rightarrow> Inl (LookupError txt_unknown_followup) | Some f \<Rightarrow> Inr (followup_document f))"

definition live_followup :: "followup_row \<Rightarrow> bool" where
  "live_followup f = (fu_status f \<in> {''pending'', ''authorized'', ''queued'', ''reviewing''})"

text \<open>A plan is the document of a log investigation: its source, pattern, size and window.\<close>

fun number_of :: "json \<Rightarrow> int" where
  "number_of (JInt n) = n"
| "number_of _ = 0"

definition window_hours :: "json \<Rightarrow> int" where
  "window_hours plan = (if has_key plan ''window_hours'' then number_of (jget plan ''window_hours'') else 2)"

definition followup_question :: "json \<Rightarrow> string" where
  "followup_question plan =
     (let window = (if window_hours plan = 2 then ''deux heures'' else show_int (window_hours plan) @ '' heures'')
      in txt_collect_logs @ py_str (jget plan ''source'') @ txt_pattern @ py_str (jget plan ''pattern'') @
         txt_window @ window @ txt_at_most @ show_int (number_of (jget plan ''max_bytes'') div 1024) @
         txt_read_only)"

definition propose_followup ::
  "env \<Rightarrow> instant \<Rightarrow> string \<Rightarrow> string \<Rightarrow> string \<Rightarrow> string \<Rightarrow> json \<Rightarrow> tsdb \<Rightarrow> followup_row option tresult" where
  "propose_followup e now request_id incident_id origin_job_id basis0 plan0 db =
     (let basis = redact_sensitive_text basis0; plan = redact_sensitive_value plan0
      in case select_incident incident_id db of
           None \<Rightarrow> (Inr None, db)
         | Some i \<Rightarrow>
             if \<not> active i then (Inr None, db)
             else if list_ex (\<lambda>f. fu_incident_id f = incident_id \<and>
                       (fu_basis f = basis \<or> fu_origin_job_id f = origin_job_id \<or> live_followup f))
                     (ts_followups db) then (Inr None, db)
             else if list_ex (\<lambda>f. fu_origin_job_id f = origin_job_id \<or> fu_request_id f = request_id)
                     (ts_followups db) then (Inl (unique_failure ''tsunade_followups''), db)
             else if select_request request_id db \<noteq> None
             then (Inl (unique_failure ''tsunade_user_requests.request_id''), db)
             else let row = \<lparr>fu_request_id = request_id, fu_incident_id = incident_id, fu_basis = basis,
                        fu_origin_job_id = origin_job_id, fu_status = ''pending'', fu_created_at = now,
                        fu_plan = plan, fu_job = None, fu_review = None, fu_detail = None\<rparr>;
                      db1 = db\<lparr>ts_followups := ts_followups db @ [row]\<rparr>;
                      db2 = db1\<lparr>ts_requests := ts_requests db1 @
                        [new_request request_id incident_id ''investigation_authorization''
                           (py_str (jget plan ''reason'')) (followup_question plan) ''low'' now
                           (paris_wall_add e now (days 1)) request_id]\<rparr>;
                      db3 = record_event incident_id ''action'' now None txt_followup_waits
                        (JObj [(''request_id'', JStr request_id), (''operation'', JStr ''logs.investigate''),
                          (''status'', JStr ''pending''), (''authorized'', JBool False)]) db2
                  in (case get_followup request_id db3 of Inl err \<Rightarrow> Inl err | Inr f \<Rightarrow> Inr (Some f), db3))"

definition answer_followup_body ::
  "env \<Rightarrow> instant \<Rightarrow> string \<Rightarrow> string \<Rightarrow> string \<Rightarrow> json option \<Rightarrow> bool \<Rightarrow> string \<Rightarrow> tsdb \<Rightarrow> error + (unit \<times> tsdb)" where
  "answer_followup_body e now request_id choice device_id job automatic source db =
     (let db1 = expire_user_requests_locked e now db;
          answer_source = (if automatic then ''read_only_policy'' else source);
          safe_job = map_option redact_sensitive_value job
      in case required_pending_user_request request_id db1 of
           Inl err \<Rightarrow> Inl err
         | Inr request \<Rightarrow>
             if rq_kind request \<noteq> ''investigation_authorization'' then Inl (ValueError txt_not_investigation)
             else if choice = ''AUTHORIZE'' \<and> job = None then Inl (ValueError txt_no_plan)
             else let db2 = update_followup_row request_id (\<lambda>f.
                        if fu_status f = ''pending''
                        then f\<lparr>fu_status := (if choice = ''AUTHORIZE'' then ''authorized'' else ''refused''),
                               fu_job := (case safe_job of None \<Rightarrow> None
                                 | Some j \<Rightarrow> if jtrue j then Some j else None)\<rparr>
                        else f) db1;
                      db3 = update_request request_id
                        (answered_request now choice answer_source device_id) db2
                  in Inr ((), record_event (rq_incident_id request) ''decision'' now None
                       (if choice = ''AUTHORIZE''
                        then if automatic then txt_policy_authorized
                             else txt_followup_authorized @
                               (if answer_source = ''vision'' then ''Vision'' else ''Shizune'') @ ''.''
                        else txt_followup_refused)
                       (JObj [(''request_id'', JStr request_id),
                         (''authorized'', JBool (choice = ''AUTHORIZE'')),
                         (''source'', JStr answer_source), (''answered_by'', JStr device_id)]) db3))"

definition answer_followup ::
  "env \<Rightarrow> instant \<Rightarrow> string \<Rightarrow> string \<Rightarrow> string \<Rightarrow> json option \<Rightarrow> bool \<Rightarrow> string \<Rightarrow> tsdb \<Rightarrow> followup_row tresult" where
  "answer_followup e now request_id choice device_id job automatic source db =
     (if choice \<notin> {''AUTHORIZE'', ''REFUSE''} then (Inl (ValueError txt_invalid_choice), db)
      else and_then (transaction db (answer_followup_body e now request_id choice device_id job automatic source))
             (\<lambda>_ db1. (get_followup request_id db1, db1)))"

definition update_followup ::
  "instant \<Rightarrow> string \<Rightarrow> string \<Rightarrow> string \<Rightarrow> json option \<Rightarrow> tsdb \<Rightarrow> unit tresult" where
  "update_followup now request_id status detail0 review0 db =
     (let detail = redact_sensitive_text detail0; review = map_option redact_sensitive_value review0
      in case get_followup request_id db of
           Inl err \<Rightarrow> (Inl err, db)
         | Inr row \<Rightarrow>
             if fu_status row = status \<and> fu_detail row = Some detail then (Inr (), db)
             else (Inr (), record_event (fu_incident_id row) ''investigation'' now None detail
                    (JObj [(''request_id'', JStr request_id), (''status'', JStr status)])
                    (update_followup_row request_id (\<lambda>f. f\<lparr>fu_status := status, fu_detail := Some detail,
                       fu_review := (case review of None \<Rightarrow> fu_review f
                         | Some v \<Rightarrow> if jtrue v then Some v else fu_review f)\<rparr>) db)))"

definition unfinished_followups :: "tsdb \<Rightarrow> followup_row list" where
  "unfinished_followups db =
     map followup_document
       (filter (\<lambda>f. fu_status f \<in> {''authorized'', ''queued'', ''reviewing''}) (ts_followups db))"

end
