(* ===== verification/Experiences.thy ===== *)
theory Experiences
  imports Incident_Requests
begin

text \<open>
  What Tsunade learns: the comparison of two incidents (tsunade/incident_similarity.py), the
  reliability of a known repair (repair_ranking.py), the experiences a person confirms
  (incident_repairs.py), and the decisions on a proposal that api/service.py accepts.
\<close>

section \<open>Reliability\<close>

definition MIN_VERIFIED_OUTCOMES :: int where
  "MIN_VERIFIED_OUTCOMES = 3"

text \<open>A missing date counts as the epoch.\<close>

definition instant_or_epoch :: "instant option \<Rightarrow> instant" where
  "instant_or_epoch t = (case t of None \<Rightarrow> 0 | Some t \<Rightarrow> t)"

text \<open>The rates 0.5 and 0.8, compared without division.\<close>

definition reliability :: "int \<Rightarrow> int \<Rightarrow> instant option \<Rightarrow> instant option \<Rightarrow> string" where
  "reliability success_count failure_count last_success_at last_failure_at =
     (let decided = success_count + failure_count
      in if decided = 0 then ''unproven''
         else if decided < MIN_VERIFIED_OUTCOMES then ''to_confirm''
         else if 2 * success_count < decided then ''unreliable''
         else if instant_or_epoch last_success_at < instant_or_epoch last_failure_at then ''unstable''
         else if 4 * decided \<le> 5 * success_count then ''reliable'' else ''mixed'')"

section \<open>Similarity\<close>

record fingerprint =
  fp_equipment :: string
  fp_capability :: string
  fp_service :: "string option"
  fp_reasons :: "string list"
  fp_message :: string
  fp_logs :: "string list"

definition reasons_of :: "json \<Rightarrow> string list" where
  "reasons_of holder = map py_str (items_of (jget holder ''reasons''))"

definition signatures_of :: "json \<Rightarrow> string list" where
  "signatures_of values =
     map (\<lambda>item. py_str (jget item ''signature''))
       (filter (\<lambda>item. is_object item \<and> jtrue (jget item ''signature'')) (items_of values))"

definition NUMBER :: regex where
  "NUMBER = Seq (plus (Char digit)) (maybe (Seq (charset ''.,'') (plus (Char digit))))"

definition normalized_message :: "string \<Rightarrow> string" where
  "normalized_message message =
     take 160 (strip (sub (plus (Char py_space)) (\<lambda>k. '' '') None
       (sub NUMBER (\<lambda>k. ''#'') None (map lower_char message))))"

definition fingerprint_of :: "string \<Rightarrow> string \<Rightarrow> string option \<Rightarrow> string \<Rightarrow> json \<Rightarrow> fingerprint" where
  "fingerprint_of equipment_id capability_id service_id message context0 =
     (let context = (if is_object context0 then context0 else JObj [])
      in \<lparr>fp_equipment = equipment_id, fp_capability = capability_id, fp_service = service_id,
          fp_reasons = sort (remdups (reasons_of context @ reasons_of (jget context ''host_health''))),
          fp_message = normalized_message message,
          fp_logs = sort (remdups (concat (map (\<lambda>key. signatures_of (jget context key))
            [''findings'', ''background_findings'', ''log_findings'', ''anomalies''])))\<rparr>)"

text \<open>
  The criteria that matched, the differences, and whether both sides explain the failure and share
  no reason. The score of the code, a rounded float that only the history shows, is left out.
\<close>

record comparison =
  cmp_matched :: "string list"
  cmp_differences :: "string list"
  cmp_different_nature :: bool

definition common :: "string list \<Rightarrow> string list \<Rightarrow> string list" where
  "common xs ys = filter (\<lambda>x. x \<in> set ys) xs"

definition or_none :: "string list \<Rightarrow> string" where
  "or_none xs = (if xs = [] then txt_no_reason else join '', '' xs)"

definition named :: "string option \<Rightarrow> bool" where
  "named s = (s \<notin> {None, Some []})"

definition compare :: "fingerprint \<Rightarrow> fingerprint \<Rightarrow> comparison" where
  "compare left right =
     (if fp_capability left \<noteq> fp_capability right
      then \<lparr>cmp_matched = [], cmp_differences = [txt_other_capability], cmp_different_nature = True\<rparr>
      else let same_equipment = (fp_equipment left = fp_equipment right);
               reasons = common (fp_reasons left) (fp_reasons right);
               logs = common (fp_logs left) (fp_logs right)
           in \<lparr>cmp_matched =
                 (if same_equipment then [txt_same_equipment] else []) @
                 (if (named (fp_service left) \<or> named (fp_service right)) \<and> fp_service left = fp_service right
                  then [txt_same_service] else []) @
                 (if reasons \<noteq> [] then [txt_same_reasons @ join '', '' reasons] else []) @
                 (if fp_message left \<noteq> [] \<and> fp_message left = fp_message right then [txt_same_message] else []) @
                 (if logs \<noteq> [] then [show_int (int (length logs)) @ txt_common_logs] else []),
               cmp_differences =
                 (if same_equipment then [] else [txt_other_equipment]) @
                 (if set (fp_reasons left) \<noteq> set (fp_reasons right)
                  then [txt_reasons @ or_none (fp_reasons left) @ '' / '' @ or_none (fp_reasons right)] else []),
               cmp_different_nature =
                 (fp_reasons left \<noteq> [] \<and> fp_reasons right \<noteq> [] \<and> reasons = [])\<rparr>)"

section \<open>Experiences\<close>

definition experience_document :: "experience_row \<Rightarrow> experience_row" where
  "experience_document x =
     x\<lparr>ex_symptoms := redact_sensitive_value (ex_symptoms x), ex_context := redact_sensitive_value (ex_context x),
       ex_observations := redact_sensitive_value (ex_observations x),
       ex_anomalies := redact_sensitive_value (ex_anomalies x),
       ex_validated_diagnostic := redact_sensitive_text (ex_validated_diagnostic x),
       ex_action := redact_sensitive_value (ex_action x), ex_result := redact_sensitive_text (ex_result x)\<rparr>"

definition of_capability :: "incident_row \<Rightarrow> experience_row \<Rightarrow> bool" where
  "of_capability i x =
     (ex_equipment_id x = i_equipment_id i \<and> ex_capability_id x = i_capability_id i \<and> ex_state x = ''active'')"

definition matching_experiences :: "env \<Rightarrow> incident_view \<Rightarrow> tsdb \<Rightarrow> experience_row list" where
  "matching_experiences e incident db =
     map experience_document (take 5 (order_desc (\<lambda>x. julianday e (ex_last_used_at x))
       (filter (of_capability (iv_row incident)) (ts_experiences db))))"

definition list_experiences :: "env \<Rightarrow> tsdb \<Rightarrow> experience_row list" where
  "list_experiences e db =
     map experience_document
       (order_desc (\<lambda>x. (ex_state x = ''active'', julianday e (ex_last_used_at x))) (ts_experiences db))"

text \<open>The known repair that a proposal reproduces, on evidence.\<close>

definition CONFIRMED :: "string list" where
  "CONFIRMED = [''confirmed_by_probe'', ''confirmed_by_supervisor'']"

definition confirmed :: "json \<Rightarrow> bool" where
  "confirmed v = (v \<in> set (map JStr CONFIRMED))"

definition same_action :: "repair_spec \<Rightarrow> experience_row \<Rightarrow> bool" where
  "same_action spec x =
     (jget (ex_action x) ''operation'' = JStr (sp_operation spec) \<and>
      jget (ex_action x) ''target'' = JStr (sp_target spec))"

definition comparison_with :: "incident_view \<Rightarrow> experience_row \<Rightarrow> comparison" where
  "comparison_with incident x =
     compare
       (fingerprint_of (i_equipment_id (iv_row incident)) (i_capability_id (iv_row incident)) None []
          (i_context (iv_row incident)))
       (fingerprint_of (ex_equipment_id x) (ex_capability_id x) None [] (ex_context x))"

definition starts_with :: "string \<Rightarrow> string \<Rightarrow> bool" where
  "starts_with s t = (take (length t) s = t)"

definition match_criteria :: "incident_view \<Rightarrow> repair_spec \<Rightarrow> json \<Rightarrow> comparison \<Rightarrow> string list" where
  "match_criteria incident spec evidence cmp =
     [txt_same_symptom @ i_capability_id (iv_row incident) @ txt_failing_on @ i_equipment_id (iv_row incident)] @
     map (\<lambda>item. txt_same_nature @ drop (length txt_same_reasons) item)
       (filter (\<lambda>item. starts_with item txt_same_reasons) (cmp_matched cmp)) @
     [txt_same_evidence @
        (if evidence = JStr ''confirmed_by_probe'' then txt_by_probe else txt_by_supervisor) @
        (case sp_probe_operation spec of None \<Rightarrow> [] | Some p \<Rightarrow> '' ('' @ p @ '')''),
      txt_same_action @ sp_action spec]"

definition match_caution :: "experience_row \<Rightarrow> string option" where
  "match_caution x =
     (if ex_success_count x < ex_failure_count x then Some txt_more_failures
      else if reliability (ex_success_count x) (ex_failure_count x) (ex_last_success_at x) (ex_last_failure_at x) =
              ''unstable'' then Some txt_failed_last
      else None)"

section \<open>Candidates\<close>

record lesson =
  ca_incident_id :: string
  ca_kind :: string
  ca_prompt :: string
  ca_diagnostic :: string
  ca_action :: json
  ca_result :: string
  ca_caution :: "string option"

text \<open>\<open>a or b or text\<close>, for optional texts.\<close>

fun first_text :: "string option list \<Rightarrow> string \<Rightarrow> string" where
  "first_text [] d = d"
| "first_text (s # ss) d = (case s of None \<Rightarrow> first_text ss d | Some t \<Rightarrow> if t = [] then first_text ss d else t)"

definition confirmed_diagnostic :: "incident_view \<Rightarrow> string option" where
  "confirmed_diagnostic incident =
     map_option ev_summary (find (\<lambda>ev. ev_kind ev = ''diagnostic'' \<and>
       confirmed (jget (ev_payload ev) ''epistemic_status'')) (rev (iv_events incident)))"

definition already_saved :: "string \<Rightarrow> tsdb \<Rightarrow> bool" where
  "already_saved incident_id db = list_ex (\<lambda>x. ex_incident_id x = incident_id) (ts_experiences db)"

definition manual_experience_candidate :: "incident_view \<Rightarrow> tsdb \<Rightarrow> lesson option" where
  "manual_experience_candidate incident db =
     (let row = iv_row incident
      in case find (\<lambda>a. ma_status a = Confirmed) (iv_manual_actions incident) of
           None \<Rightarrow> None
         | Some action \<Rightarrow>
             if already_saved (i_incident_id row) db then None
             else Some \<lparr>ca_incident_id = i_incident_id row, ca_kind = ''manual'', ca_prompt = txt_prompt_manual,
               ca_diagnostic = trim (case confirmed_diagnostic incident of
                 None \<Rightarrow> txt_symptom_seen @ i_message row | Some d \<Rightarrow> d),
               ca_action = JObj [(''kind'', JStr ''manual''), (''description'', JStr (ma_description action))],
               ca_result = trim (first_text [ma_result action, i_final_result row] txt_capability_healthy),
               ca_caution = Some (
                 (case i_ended_at row of
                    Some ended_at \<Rightarrow> if ended_at < ma_declared_at action then txt_declared_after else txt_seen_after
                  | None \<Rightarrow> txt_seen_after) @ txt_not_a_cause)\<rparr>)"

definition counted_repair :: "string \<Rightarrow> tsdb \<Rightarrow> bool" where
  "counted_repair repair_id db =
     (case select_repair repair_id db of None \<Rightarrow> False | Some r \<Rightarrow> rp_experience_id r \<noteq> None)"

definition experience_candidate :: "incident_view \<Rightarrow> tsdb \<Rightarrow> lesson option" where
  "experience_candidate incident db =
     (let row = iv_row incident
      in if active row then None
         else case find (\<lambda>v. rp_status (rv_row v) = Succeeded) (iv_repairs incident) of
           None \<Rightarrow> manual_experience_candidate incident db
         | Some repair \<Rightarrow>
             if counted_repair (rp_repair_id (rv_row repair)) db then None
             else if already_saved (i_incident_id row) db then None
             else (case confirmed_diagnostic incident of
                     None \<Rightarrow> None
                   | Some diagnostic \<Rightarrow>
                       Some \<lparr>ca_incident_id = i_incident_id row, ca_kind = ''repair'', ca_prompt = txt_prompt_repair,
                         ca_diagnostic = trim diagnostic,
                         ca_action = JObj [(''operation'', JStr (rp_operation (rv_row repair))),
                           (''target'', JStr (rp_target (rv_row repair)))],
                         ca_result = trim (first_text [rp_result (rv_row repair), i_final_result row] txt_capability_healthy),
                         ca_caution = None\<rparr>))"

section \<open>Confirmation\<close>

definition ConfirmationRequest :: validator where
  "ConfirmationRequest = model
     [required ''confirm'' (literal [JBool True]),
      required ''source'' (literal [JStr ''vision'', JStr ''shizune'']),
      defaults ''confirmed_by'' (JStr ''utilisateur'') (str_field (sized 1 120))] (\<lambda>v. True)"

text \<open>\<open>" ".join(text.split())\<close>.\<close>

definition squeeze :: "string \<Rightarrow> string" where
  "squeeze s = join '' '' (filter (\<lambda>w. w \<noteq> [])
     (split_on (CHR '' '') (map (\<lambda>c. if py_space c then CHR '' '' else c) s)))"

definition experience_signature :: "env \<Rightarrow> incident_view \<Rightarrow> lesson \<Rightarrow> string" where
  "experience_signature e incident c =
     secret_digest e (join [CHR 0x00]
       ([i_node_id (iv_row incident), i_service_id (iv_row incident), i_capability_id (iv_row incident),
         ca_diagnostic c, text_of (jget (ca_action c) ''operation''), text_of (jget (ca_action c) ''target'')] @
        (if ca_kind c = ''manual'' then [squeeze (text_of (jget (ca_action c) ''description''))] else [])))"

text \<open>
  \<open>context.get("findings", [])[:16]\<close>: a slice of something that is neither a list nor a text raises
  TypeError.
\<close>

definition bounded_anomalies :: "json \<Rightarrow> error + json list" where
  "bounded_anomalies context =
     (if \<not> has_key context ''findings'' then Inr []
      else case jget context ''findings'' of
             JArr xs \<Rightarrow> Inr (filter is_object (take 16 xs))
           | JStr s \<Rightarrow> Inr []
           | _ \<Rightarrow> Inl (RuntimeError ''TypeError''))"

text \<open>\<open>str\<close> of a datetime with a Paris offset.\<close>

definition six_digit :: "int \<Rightarrow> string" where
  "six_digit n = replicate (6 - length (show_int n)) (CHR ''0'') @ show_int n"

definition offset_text :: "int \<Rightarrow> string" where
  "offset_text us =
     (let s = abs us div 1000000
      in (if us < 0 then ''-'' else ''+'') @ two_digit (s div 3600) @ '':'' @ two_digit ((s div 60) mod 60) @
         (if s mod 60 = 0 then [] else '':'' @ two_digit (s mod 60)))"

definition datetime_text :: "env \<Rightarrow> instant \<Rightarrow> string" where
  "datetime_text e t =
     (let w = paris_wall e t; us = w mod 1000000
      in (case civil (day_number w) of
            (y, m, d) \<Rightarrow> replicate (4 - length (show_int y)) (CHR ''0'') @ show_int y @ ''-'' @
              two_digit m @ ''-'' @ two_digit d) @ '' '' @
         hour_text e t @ '':'' @ second_text e t @ (if us = 0 then [] else ''.'' @ six_digit us) @
         offset_text (paris_offset e t))"

definition text_json :: "string option \<Rightarrow> json" where
  "text_json s = (case s of None \<Rightarrow> JNull | Some t \<Rightarrow> JStr t)"

definition kept_observations :: "env \<Rightarrow> incident_view \<Rightarrow> json list" where
  "kept_observations e incident =
     (let xs = map (\<lambda>ev. JObj [(''observation_id'', text_json (ev_observation_id ev)),
              (''status'', text_json (ev_status ev)), (''observed_at'', JStr (datetime_text e (ev_occurred_at ev))),
              (''summary'', JStr (ev_summary ev))])
            (filter (\<lambda>ev. ev_observation_id ev \<noteq> None) (iv_events incident))
      in drop (length xs - 32) xs)"

definition kept_symptoms :: "incident_view \<Rightarrow> json list" where
  "kept_symptoms incident =
     (let xs = take 32 (map (\<lambda>ev. JStr (ev_summary ev))
            (filter (\<lambda>ev. ev_kind ev \<in> {''opened'', ''observed'', ''escalated''}) (iv_events incident)))
      in if xs = [] then [JStr (i_message (iv_row incident))] else xs)"

definition new_experience ::
  "env \<Rightarrow> instant \<Rightarrow> string \<Rightarrow> incident_view \<Rightarrow> lesson \<Rightarrow> json list \<Rightarrow> json \<Rightarrow> experience_row" where
  "new_experience e now experience_id incident c anomalies request =
     \<lparr>ex_experience_id = experience_id, ex_signature = experience_signature e incident c,
      ex_equipment_id = i_equipment_id (iv_row incident), ex_capability_id = i_capability_id (iv_row incident),
      ex_symptoms = JArr (kept_symptoms incident), ex_context = i_context (iv_row incident),
      ex_observations = JArr (kept_observations e incident), ex_anomalies = JArr anomalies,
      ex_validated_diagnostic = ca_diagnostic c, ex_action = ca_action c, ex_result = ca_result c,
      ex_occurrence_count = 1, ex_attempt_count = 1, ex_success_count = 1, ex_failure_count = 0,
      ex_last_used_at = now,
      ex_last_success_at = Some (case i_ended_at (iv_row incident) of None \<Rightarrow> now | Some t \<Rightarrow> t),
      ex_last_failure_at = None, ex_confidence = ''1.0'',
      ex_confirmed_by = text_of (jget request ''confirmed_by''),
      ex_confirmation_source = text_of (jget request ''source''),
      ex_incident_id = i_incident_id (iv_row incident), ex_state = ''active'',
      ex_state_changed_at = None, ex_state_reason = None\<rparr>"

definition confirmed_again :: "instant \<Rightarrow> incident_view \<Rightarrow> json \<Rightarrow> experience_row \<Rightarrow> experience_row" where
  "confirmed_again now incident request x =
     x\<lparr>ex_occurrence_count := ex_occurrence_count x + 1, ex_attempt_count := ex_attempt_count x + 1,
       ex_success_count := ex_success_count x + 1, ex_last_used_at := now,
       ex_last_success_at := Some (case i_ended_at (iv_row incident) of None \<Rightarrow> now | Some t \<Rightarrow> t),
       ex_confidence := ''1.0'', ex_confirmed_by := text_of (jget request ''confirmed_by''),
       ex_confirmation_source := text_of (jget request ''source''),
       ex_incident_id := i_incident_id (iv_row incident)\<rparr>"

definition save_experience ::
  "env \<Rightarrow> instant \<Rightarrow> string \<Rightarrow> incident_view \<Rightarrow> lesson \<Rightarrow> json list \<Rightarrow> json \<Rightarrow> tsdb \<Rightarrow> error + (string \<times> tsdb)" where
  "save_experience e now experience_id incident c anomalies request db =
     (case tbl_find ex_signature (experience_signature e incident c) (ts_experiences db) of
        None \<Rightarrow>
          if tbl_find ex_experience_id experience_id (ts_experiences db) \<noteq> None
          then Inl (unique_failure ''tsunade_experiences.experience_id'')
          else Inr (experience_id, db\<lparr>ts_experiences := ts_experiences db @
                 [new_experience e now experience_id incident c anomalies request]\<rparr>)
      | Some x \<Rightarrow>
          Inr (ex_experience_id x, db\<lparr>ts_experiences := tbl_update ex_signature (experience_signature e incident c)
            (confirmed_again now incident request) (ts_experiences db)\<rparr>))"

definition confirm_experience ::
  "env \<Rightarrow> instant \<Rightarrow> instant \<Rightarrow> string \<Rightarrow> string \<Rightarrow> json \<Rightarrow> tsdb \<Rightarrow> experience_row tresult" where
  "confirm_experience e now1 now new_id incident_id payload db =
     (case ConfirmationRequest payload of
        None \<Rightarrow> (Inl validation_error, db)
      | Some request \<Rightarrow>
          and_then (get_incident e now1 incident_id db) (\<lambda>incident db1.
            case experience_candidate incident db1 of
              None \<Rightarrow> (Inl (ValueError txt_no_candidate), db1)
            | Some c \<Rightarrow>
                (case bounded_anomalies (i_context (iv_row incident)) of
                   Inl err \<Rightarrow> (Inl err, db1)
                 | Inr anomalies \<Rightarrow>
                     (case save_experience e now new_id incident c anomalies request db1 of
                        Inl err \<Rightarrow> (Inl err, db1)
                      | Inr (experience_id, db2) \<Rightarrow>
                          (let db3 = record_event (i_incident_id (iv_row incident)) ''result'' now None
                                 txt_experience_saved
                                 (JObj [(''experience_id'', JStr experience_id),
                                   (''confirmation_source'', jget request ''source''),
                                   (''confirmed_by'', jget request ''confirmed_by'')]) db2
                           in case tbl_find ex_experience_id experience_id (ts_experiences db3) of
                                None \<Rightarrow> (Inl (RuntimeError ''TypeError''), db3)
                              | Some x \<Rightarrow> (Inr (experience_document x), db3))))))"

section \<open>Decisions of the service\<close>

definition DecisionRequest :: "env \<Rightarrow> validator" where
  "DecisionRequest e = model
     [required ''repair_id'' (uuid_field e),
      required ''source'' (literal [JStr ''vision'', JStr ''shizune'']),
      defaults ''answered_by'' (JStr ''utilisateur'') (str_field (sized 1 120))] (\<lambda>v. True)"

definition refuse_incident_repair ::
  "env \<Rightarrow> instant \<Rightarrow> instant \<Rightarrow> string \<Rightarrow> json \<Rightarrow> tsdb \<Rightarrow> repair_view tresult" where
  "refuse_incident_repair e now1 now incident_id payload db =
     (case DecisionRequest e payload of
        None \<Rightarrow> (Inl validation_error, db)
      | Some request \<Rightarrow>
          refuse_repair e now1 now incident_id (text_of (jget request ''repair_id''))
            (text_of (jget request ''source'')) (text_of (jget request ''answered_by'')) db)"

definition repair_in :: "string \<Rightarrow> incident_view \<Rightarrow> repair_view option" where
  "repair_in repair_id incident = find (\<lambda>v. rp_repair_id (rv_row v) = repair_id) (iv_repairs incident)"

definition defer_incident_repair ::
  "env \<Rightarrow> instant \<Rightarrow> instant \<Rightarrow> instant \<Rightarrow> string \<Rightarrow> json \<Rightarrow> tsdb \<Rightarrow> repair_view tresult" where
  "defer_incident_repair e now1 now now2 incident_id payload db =
     (case DecisionRequest e payload of
        None \<Rightarrow> (Inl validation_error, db)
      | Some request \<Rightarrow>
          and_then (get_incident e now1 incident_id db) (\<lambda>incident db1.
            case repair_in (text_of (jget request ''repair_id'')) incident of
              None \<Rightarrow> (Inl (LookupError txt_unknown_proposal), db1)
            | Some repair \<Rightarrow>
                (case repair_request_id (rp_repair_id (rv_row repair)) db1 of
                   None \<Rightarrow> (Inl (ValueError txt_proposal_settled), db1)
                 | Some request_id \<Rightarrow>
                     if rp_status (rv_row repair) \<noteq> Proposed then (Inl (ValueError txt_proposal_settled), db1)
                     else and_then (defer_user_request e now request_id
                            (JObj [(''choice'', JStr ''LATER''), (''source'', jget request ''source''),
                              (''answered_by'', jget request ''answered_by'')]) db1) (\<lambda>u db2.
                          and_then (get_incident e now2 incident_id db2) (\<lambda>incident db3.
                            case repair_in (rp_repair_id (rv_row repair)) incident of
                              None \<Rightarrow> (Inl (RuntimeError ''StopIteration''), db3)
                            | Some v \<Rightarrow> (Inr v, db3))))))"

end
