(* ===== verification/Incident_Operations.thy ===== *)
theory Incident_Operations
  imports Experiences
begin

text \<open>
  The public operations of the incident repository as one type, their effect on the database, and
  the databases that are reachable from the empty one. Operations run one at a time, under the
  repository's lock.
\<close>

datatype ts_op =
    TsProcess "string \<Rightarrow> int option" bool string readings observation
  | TsPurge instant
  | TsRemove instant "string list" instant
  | TsReconcile instant "string list" instant
  | TsGet instant string
  | TsList instant string int
  | TsAppend instant instant instant string json
  | TsPropose instant instant string string "known_match option" string repair_spec
  | TsAuthorize instant instant string json
  | TsRefuse instant instant string string string string
  | TsExecuted instant string
  | TsExecutionFailed instant string string
  | TsAuthorizeAndRun instant instant instant instant executors bool string json
  | TsExperienceState instant string json
  | TsConfirm instant instant string string json
  | TsRefuseIncident instant instant string json
  | TsDeferIncident instant instant instant string json
  | TsDeclareManual instant string string json
  | TsDefer instant string json
  | TsAnswer instant string json
  | TsGetRequest instant string
  | TsListRequests instant string int
  | TsProposeFollowup instant string string string string json
  | TsAnswerFollowup instant string string string "json option" bool string
  | TsUpdateFollowup instant string string string "json option"

fun exec_ts :: "env \<Rightarrow> ts_op \<Rightarrow> tsdb \<Rightarrow> tsdb" where
  "exec_ts e (TsProcess age_us busy new_id rd obs) db = snd (process e age_us busy new_id rd obs db)"
| "exec_ts e (TsPurge now) db = snd (purge_processed_observations e now db)"
| "exec_ts e (TsRemove now ds at) db = snd (resolve_removed_network_devices e now ds at db)"
| "exec_ts e (TsReconcile now ds at) db = snd (reconcile_network_devices e now ds at db)"
| "exec_ts e (TsGet now k) db = snd (get_incident e now k db)"
| "exec_ts e (TsList now st n) db = snd (list_incidents e now st n db)"
| "exec_ts e (TsAppend n1 n n2 k p) db = snd (append_record e n1 n n2 k p db)"
| "exec_ts e (TsPropose n1 n r q known k spec) db = snd (propose_repair e n1 n r q known k spec db)"
| "exec_ts e (TsAuthorize n1 n k p) db = snd (authorize_repair e n1 n k p db)"
| "exec_ts e (TsRefuse n1 n k r s by_whom) db = snd (refuse_repair e n1 n k r s by_whom db)"
| "exec_ts e (TsExecuted n r) db = snd (mark_repair_executed e n r db)"
| "exec_ts e (TsExecutionFailed n r err) db = snd (mark_repair_execution_failed e n r err db)"
| "exec_ts e (TsAuthorizeAndRun n1 n2 n3 n4 ex v k p) db =
     snd (authorize_incident_repair e n1 n2 n3 n4 ex v k p db)"
| "exec_ts e (TsExperienceState n x p) db = snd (set_experience_state n x p db)"
| "exec_ts e (TsConfirm n1 n x k p) db = snd (confirm_experience e n1 n x k p db)"
| "exec_ts e (TsRefuseIncident n1 n k p) db = snd (refuse_incident_repair e n1 n k p db)"
| "exec_ts e (TsDeferIncident n1 n n2 k p) db = snd (defer_incident_repair e n1 n n2 k p db)"
| "exec_ts e (TsDeclareManual n a k p) db = snd (declare_manual_resolution e n a k p db)"
| "exec_ts e (TsDefer n q p) db = snd (defer_user_request e n q p db)"
| "exec_ts e (TsAnswer n q p) db = snd (answer_user_request e n q p db)"
| "exec_ts e (TsGetRequest n q) db = snd (get_user_request e n q db)"
| "exec_ts e (TsListRequests n st l) db = snd (list_user_requests e n st l db)"
| "exec_ts e (TsProposeFollowup n q k j b p) db = snd (propose_followup e n q k j b p db)"
| "exec_ts e (TsAnswerFollowup n q c d j a s) db = snd (answer_followup e n q c d j a s db)"
| "exec_ts e (TsUpdateFollowup n q st d r) db = snd (update_followup n q st d r db)"

inductive ts_step :: "env \<Rightarrow> tsdb \<Rightarrow> tsdb \<Rightarrow> bool" for e where
  "ts_step e db (exec_ts e op db)"

inductive ts_reachable :: "env \<Rightarrow> tsdb \<Rightarrow> bool" for e where
  ts_start: "ts_reachable e empty_tsdb"
| ts_next: "ts_reachable e db \<Longrightarrow> ts_step e db db' \<Longrightarrow> ts_reachable e db'"

inductive_cases ts_stepE: "ts_step e db db'"

lemma ts_reachable_exec: "ts_reachable e db \<Longrightarrow> ts_reachable e (exec_ts e op db)"
  by (rule ts_next) (auto intro: ts_step.intros)

lemma ts_reachable_fold: "ts_reachable e db \<Longrightarrow> ts_reachable e (fold (exec_ts e) ops db)"
  by (induction ops arbitrary: db) (auto intro: ts_reachable_exec)

end
