(* ===== verification/Incident_Contract.thy ===== *)
theory Incident_Contract
  imports Incident_Operations
begin

text \<open>
  The contract of the incident repository. Every operation is a sequence of elementary writes:
  journal an event, open an incident, count an observation, end an incident, move a repair along a
  legal edge, answer a pending request. A predicate that each write keeps holds in every reachable
  database (\<open>incident_invariant\<close>).
\<close>

named_theorems ts_frames \<open>tables a helper leaves alone\<close>

section \<open>Elementary writes\<close>

definition observed_kinds :: "string set" where
  "observed_kinds = {''opened'', ''observed'', ''escalated''}"

text \<open>The legal edges of a repair; \<open>mark_repair_execution_failed\<close> alone has no guard.\<close>

definition same_repair :: "repair_row \<Rightarrow> repair_row \<Rightarrow> bool" where
  "same_repair r r' =
     (rp_repair_id r' = rp_repair_id r \<and> rp_incident_id r' = rp_incident_id r \<and>
      rp_operation r' = rp_operation r \<and> rp_target r' = rp_target r \<and>
      rp_proposed_at r' = rp_proposed_at r)"

definition same_authority :: "repair_row \<Rightarrow> repair_row \<Rightarrow> bool" where
  "same_authority r r' =
     (rp_authorized_at r' = rp_authorized_at r \<and>
      rp_authorization_source r' = rp_authorization_source r \<and>
      rp_authorized_by r' = rp_authorized_by r)"

definition same_execution :: "repair_row \<Rightarrow> repair_row \<Rightarrow> bool" where
  "same_execution r r' =
     (same_authority r r' \<and> rp_executed_at r' = rp_executed_at r \<and>
      rp_verification_deadline r' = rp_verification_deadline r)"

inductive repair_edge :: "repair_row \<Rightarrow> repair_row \<Rightarrow> bool" where
  edge_count: "same_repair r r' \<Longrightarrow> same_execution r r' \<Longrightarrow> rp_status r' = rp_status r \<Longrightarrow> repair_edge r r'"
| edge_decide: "same_repair r r' \<Longrightarrow> rp_status r = Proposed \<Longrightarrow> rp_status r' \<in> {Authorized, Refused} \<Longrightarrow>
    rp_authorized_at r' \<noteq> None \<Longrightarrow> rp_authorization_source r' \<noteq> None \<Longrightarrow> rp_authorized_by r' \<noteq> None \<Longrightarrow>
    rp_executed_at r' = rp_executed_at r \<Longrightarrow> rp_verification_deadline r' = rp_verification_deadline r \<Longrightarrow>
    repair_edge r r'"
| edge_execute: "same_repair r r' \<Longrightarrow> same_authority r r' \<Longrightarrow> rp_status r = Authorized \<Longrightarrow>
    rp_status r' = Verifying \<Longrightarrow> rp_executed_at r' = Some t \<Longrightarrow>
    rp_verification_deadline r' = Some (t + seconds d) \<Longrightarrow>
    VERIFICATION_MIN_SECONDS \<le> d \<Longrightarrow> d \<le> VERIFICATION_MAX_SECONDS \<Longrightarrow> repair_edge r r'"
| edge_conclude: "same_repair r r' \<Longrightarrow> same_execution r r' \<Longrightarrow> rp_status r \<in> {Verifying, Unverified} \<Longrightarrow>
    rp_status r' \<in> {Succeeded, Failed, Unverified} \<Longrightarrow> repair_edge r r'"
| edge_expire: "same_repair r r' \<Longrightarrow> same_execution r r' \<Longrightarrow> rp_status r \<in> {Proposed, Expired} \<Longrightarrow>
    rp_status r' = Expired \<Longrightarrow> repair_edge r r'"
| edge_fail: "same_repair r r' \<Longrightarrow> same_authority r r' \<Longrightarrow> rp_status r' = Failed \<Longrightarrow> repair_edge r r'"

text \<open>A request changes only while it is pending.\<close>

definition request_edge :: "request_row \<Rightarrow> request_row \<Rightarrow> bool" where
  "request_edge r r' =
     (r' = r \<or> rq_state r = Pending \<and> rq_request_id r' = rq_request_id r \<and>
        rq_incident_id r' = rq_incident_id r \<and> rq_kind r' = rq_kind r \<and>
        rq_action_reference r' = rq_action_reference r \<and> rq_choices r' = rq_choices r)"

definition manual_edge :: "manual_row \<Rightarrow> manual_row \<Rightarrow> bool" where
  "manual_edge r r' =
     (ma_action_id r' = ma_action_id r \<and> ma_incident_id r' = ma_incident_id r \<and>
      ma_declared_at r' = ma_declared_at r \<and>
      (ma_status r' = ManualVerifying \<longrightarrow> ma_status r = ManualVerifying))"

definition same_incident :: "incident_row \<Rightarrow> incident_row \<Rightarrow> bool" where
  "same_incident i i' =
     (i_incident_id i' = i_incident_id i \<and> incident_key i' = incident_key i \<and>
      i_recurrence_count i' = i_recurrence_count i)"

inductive ts_write :: "tsdb \<Rightarrow> tsdb \<Rightarrow> bool" where
  w_event: "ev_kind ev \<notin> observed_kinds \<Longrightarrow> ts_write db (db\<lparr>ts_events := ts_events db @ [ev]\<rparr>)"
| w_open: "select_incident (i_incident_id i) db = None \<Longrightarrow> active i \<Longrightarrow>
    active_row (incident_key i) db = None \<Longrightarrow> i_occurrence_count i = 1 \<Longrightarrow>
    i_recurrence_count i = recurrence (incident_key i) db \<Longrightarrow>
    ev_kind ev = ''opened'' \<Longrightarrow> ev_incident_id ev = i_incident_id i \<Longrightarrow>
    ts_write db (db\<lparr>ts_incidents := ts_incidents db @ [i], ts_events := ts_events db @ [ev]\<rparr>)"
| w_observe: "select_incident k db \<noteq> None \<Longrightarrow>
    (\<And>i. same_incident i (f i) \<and> active (f i) = active i \<and> i_occurrence_count (f i) = i_occurrence_count i + 1) \<Longrightarrow>
    ev_kind ev \<in> {''observed'', ''escalated''} \<Longrightarrow> ev_incident_id ev = k \<Longrightarrow>
    ts_write db (db\<lparr>ts_incidents := tbl_update i_incident_id k f (ts_incidents db), ts_events := ts_events db @ [ev]\<rparr>)"
| w_incident: "(\<And>i. same_incident i (f i) \<and> active (f i) = active i \<and>
      i_occurrence_count (f i) = i_occurrence_count i) \<Longrightarrow>
    ts_write db (db\<lparr>ts_incidents := tbl_update i_incident_id k f (ts_incidents db)\<rparr>)"
| w_other: "ts_write db (db\<lparr>ts_states := a, ts_processed := b, ts_purged_on := c, ts_experiences := d, ts_followups := f\<rparr>)"
| w_propose: "select_repair (rp_repair_id r) db = None \<Longrightarrow> rp_status r = Proposed \<Longrightarrow>
    select_incident (rp_incident_id r) db = Some i \<Longrightarrow> active i \<Longrightarrow>
    ts_write db (db\<lparr>ts_repairs := ts_repairs db @ [r]\<rparr>)"
| w_repair: "(\<And>r. r \<in> set (ts_repairs db) \<Longrightarrow> rp_repair_id r = k \<Longrightarrow> repair_edge r (f r)) \<Longrightarrow>
    ts_write db (db\<lparr>ts_repairs := tbl_update rp_repair_id k f (ts_repairs db)\<rparr>)"
| w_request: "select_request (rq_request_id r) db = None \<Longrightarrow>
    ts_write db (db\<lparr>ts_requests := ts_requests db @ [r]\<rparr>)"
| w_requests: "(\<And>r. r \<in> set (ts_requests db) \<Longrightarrow> request_edge r (f r)) \<Longrightarrow>
    ts_write db (db\<lparr>ts_requests := map f (ts_requests db)\<rparr>)"
| w_declare: "tbl_find ma_action_id (ma_action_id r) (ts_manual db) = None \<Longrightarrow>
    (ma_status r = ManualVerifying \<Longrightarrow>
      \<not> list_ex (\<lambda>q. ma_incident_id q = ma_incident_id r \<and> ma_status q = ManualVerifying) (ts_manual db)) \<Longrightarrow>
    ts_write db (db\<lparr>ts_manual := ts_manual db @ [r]\<rparr>)"
| w_manual: "(\<And>r. manual_edge r (f r)) \<Longrightarrow>
    ts_write db (db\<lparr>ts_manual := tbl_update ma_action_id k f (ts_manual db)\<rparr>)"

text \<open>An incident ends once.\<close>

inductive ending :: "tsdb \<Rightarrow> tsdb \<Rightarrow> bool" where
  "(\<And>i. same_incident i (f i) \<and> \<not> active (f i) \<and> i_occurrence_count (f i) = i_occurrence_count i) \<Longrightarrow>
   ending db (db\<lparr>ts_incidents := tbl_update i_incident_id k f (ts_incidents db)\<rparr>)"

abbreviation writes :: "tsdb \<Rightarrow> tsdb \<Rightarrow> bool" where
  "writes \<equiv> ts_write\<^sup>*\<^sup>*"

text \<open>No proposal waits for a decision about an incident that ended.\<close>

definition proposals_live :: "tsdb \<Rightarrow> bool" where
  "proposals_live db =
     list_all (\<lambda>r. rp_status r = Proposed \<longrightarrow>
       (case select_incident (rp_incident_id r) db of None \<Rightarrow> False | Some i \<Rightarrow> active i)) (ts_repairs db)"

text \<open>Whoever ends an incident goes on until its proposals are closed.\<close>

inductive closing :: "tsdb \<Rightarrow> tsdb \<Rightarrow> bool" where
  "ending db db1 \<Longrightarrow> writes db1 db2 \<Longrightarrow> proposals_live db2 \<Longrightarrow> closing db db2"

definition change :: "tsdb \<Rightarrow> tsdb \<Rightarrow> bool" where
  "change db db' = (ts_write db db' \<or> closing db db')"

abbreviation changes :: "tsdb \<Rightarrow> tsdb \<Rightarrow> bool" where
  "changes \<equiv> change\<^sup>*\<^sup>*"

lemma writes_changes: "writes db db' \<Longrightarrow> changes db db'"
  by (erule rtranclp_mono[THEN predicate2D, rotated]) (auto simp: change_def)

section \<open>The base invariant\<close>

text \<open>
  Keys are unique, a capability has at most one active incident, and a repair belongs to a known
  incident.
\<close>

definition ts_base :: "tsdb \<Rightarrow> bool" where
  "ts_base db =
     (distinct (map i_incident_id (ts_incidents db)) \<and> distinct (map rp_repair_id (ts_repairs db)) \<and>
      distinct (map rq_request_id (ts_requests db)) \<and> distinct (map ma_action_id (ts_manual db)) \<and>
      distinct (map incident_key (filter active (ts_incidents db))) \<and>
      set (map rp_incident_id (ts_repairs db)) \<subseteq> set (map i_incident_id (ts_incidents db)))"

lemma ts_base_empty: "ts_base empty_tsdb"
  by (simp add: ts_base_def empty_tsdb_def)

lemma request_edge_id: "request_edge r r' \<Longrightarrow> rq_request_id r' = rq_request_id r"
  by (auto simp: request_edge_def)

lemma repair_edge_same: "repair_edge r r' \<Longrightarrow> same_repair r r'"
  by (auto elim: repair_edge.cases)

lemma tbl_update_map_on:
  assumes "\<And>r. r \<in> set rows \<Longrightarrow> key r = k \<Longrightarrow> g (f r) = g r"
  shows "map g (tbl_update key k f rows) = map g rows"
  using assms by (auto simp: tbl_update_def)

lemma active_keys_update:
  assumes "\<And>i. incident_key (f i) = incident_key i" "\<And>i. active (f i) = active i"
  shows "map incident_key (filter active (tbl_update i_incident_id k f xs)) = map incident_key (filter active xs)"
  using assms by (induction xs) (auto simp: tbl_update_def)

lemma active_keys_end:
  assumes "\<And>i. incident_key (f i) = incident_key i" "\<And>i. active (f i) \<Longrightarrow> active i"
    "distinct (map incident_key (filter active xs))"
  shows "distinct (map incident_key (filter active (tbl_update i_incident_id k f xs)))"
proof -
  have sub: "set (map incident_key (filter active (tbl_update i_incident_id k f ys))) \<subseteq>
    set (map incident_key (filter active ys))" for ys
    using assms(1,2) by (force simp: tbl_update_def)
  show ?thesis using assms(3)
  proof (induction xs)
    case (Cons x xs)
    then have IH: "distinct (map incident_key (filter active (tbl_update i_incident_id k f xs)))"
      by (simp split: if_splits)
    have "active x \<Longrightarrow> incident_key x \<notin> set (map incident_key (filter active (tbl_update i_incident_id k f xs)))"
      using Cons.prems sub[of xs] by auto
    moreover have "tbl_update i_incident_id k f (x # xs) =
      (if i_incident_id x = k then f x else x) # tbl_update i_incident_id k f xs"
      by (simp add: tbl_update_def)
    ultimately show ?case using IH assms(1,2) by auto
  qed (simp add: tbl_update_def)
qed

lemma ts_base_write:
  assumes "ts_write db db'" "ts_base db"
  shows "ts_base db'"
  using assms
proof (induction rule: ts_write.induct)
  case (w_open i db ev)
  then have "i_incident_id i \<notin> i_incident_id ` set (ts_incidents db)"
    by (simp add: select_incident_def tbl_find_None)
  moreover have "incident_key i \<notin> incident_key ` set (filter active (ts_incidents db))"
    using w_open(3) by (auto simp: active_row_def find_None_iff)
  ultimately show ?case using w_open by (auto simp: ts_base_def)
next
  case (w_observe k db f ev)
  then show ?case
    using active_keys_update[of f k "ts_incidents db"] tbl_update_keys[of i_incident_id f k "ts_incidents db"]
    by (simp add: ts_base_def same_incident_def del: set_map)
next
  case (w_incident f db k)
  then show ?case
    using active_keys_update[of f k "ts_incidents db"] tbl_update_keys[of i_incident_id f k "ts_incidents db"]
    by (simp add: ts_base_def same_incident_def del: set_map)
next
  case (w_propose r db i)
  then have "rp_incident_id r \<in> set (map i_incident_id (ts_incidents db))"
    by (force simp: select_incident_def dest!: tbl_find_Some_D)
  then show ?case using w_propose by (auto simp: ts_base_def select_repair_def tbl_find_None)
next
  case (w_repair db k f)
  have "map rp_repair_id (tbl_update rp_repair_id k f (ts_repairs db)) = map rp_repair_id (ts_repairs db)"
    "map rp_incident_id (tbl_update rp_repair_id k f (ts_repairs db)) = map rp_incident_id (ts_repairs db)"
    by (rule tbl_update_map_on; use w_repair repair_edge_same in \<open>force simp: same_repair_def\<close>)+
  then show ?case using w_repair by (simp add: ts_base_def del: set_map)
next
  case (w_request r db)
  then show ?case by (auto simp: ts_base_def select_request_def tbl_find_None)
next
  case (w_requests db f)
  then have "map rq_request_id (map f (ts_requests db)) = map rq_request_id (ts_requests db)"
    using request_edge_id by auto
  then show ?case using w_requests by (simp add: ts_base_def del: map_map)
next
  case (w_declare r db)
  then show ?case by (auto simp: ts_base_def tbl_find_None)
next
  case (w_manual f db k)
  then show ?case using tbl_update_keys[of ma_action_id f k "ts_manual db"] by (simp add: ts_base_def manual_edge_def)
qed (auto simp: ts_base_def)

lemma ts_base_ending:
  assumes "ending db db'" "ts_base db"
  shows "ts_base db'"
  using assms
proof (induction rule: ending.induct)
  case (1 f db k)
  then show ?case
    using active_keys_end[of f "ts_incidents db" k] tbl_update_keys[of i_incident_id f k "ts_incidents db"]
    by (simp add: ts_base_def same_incident_def del: set_map)
qed

lemma ts_base_writes: "writes db db' \<Longrightarrow> ts_base db \<Longrightarrow> ts_base db'"
  by (induction rule: rtranclp_induct) (auto dest: ts_base_write)

lemma ts_base_change: "change db db' \<Longrightarrow> ts_base db \<Longrightarrow> ts_base db'"
  by (auto simp: change_def elim!: closing.cases dest: ts_base_write ts_base_ending ts_base_writes)

lemma ts_base_changes: "changes db db' \<Longrightarrow> ts_base db \<Longrightarrow> ts_base db'"
  by (induction rule: rtranclp_induct) (auto dest: ts_base_change)

section \<open>Helpers are sequences of writes\<close>

lemma writes_trans: "writes a b \<Longrightarrow> writes b c \<Longrightarrow> writes a c"
  by (rule rtranclp_trans)

lemma changes_trans: "changes a b \<Longrightarrow> changes b c \<Longrightarrow> changes a c"
  by (rule rtranclp_trans)

lemma write_event:
  "kind \<notin> observed_kinds \<Longrightarrow> ts_write db (record_event k kind t obs summary payload db)"
  unfolding record_event_def by (rule w_event) simp

lemma kinds_plain [simp]:
  "''decision'' \<notin> observed_kinds" "''result'' \<notin> observed_kinds" "''action'' \<notin> observed_kinds"
  "''resolved'' \<notin> observed_kinds" "''monitoring_removed'' \<notin> observed_kinds"
  "''investigation'' \<notin> observed_kinds"
  by (simp_all add: observed_kinds_def)

lemma event_frames [simp, ts_frames]:
  "ts_incidents (record_event k kind t obs s p db) = ts_incidents db"
  "ts_repairs (record_event k kind t obs s p db) = ts_repairs db"
  "ts_requests (record_event k kind t obs s p db) = ts_requests db"
  "ts_manual (record_event k kind t obs s p db) = ts_manual db"
  "ts_followups (record_event k kind t obs s p db) = ts_followups db"
  "ts_states (record_event k kind t obs s p db) = ts_states db"
  "ts_processed (record_event k kind t obs s p db) = ts_processed db"
  by (simp_all add: record_event_def)

lemma update_frames [simp, ts_frames]:
  "ts_incidents (update_repair k f db) = ts_incidents db"
  "ts_requests (update_repair k f db) = ts_requests db"
  "ts_manual (update_repair k f db) = ts_manual db"
  "ts_events (update_repair k f db) = ts_events db"
  "ts_states (update_repair k f db) = ts_states db"
  "ts_processed (update_repair k f db) = ts_processed db"
  "ts_repairs (update_repair k f db) = tbl_update rp_repair_id k f (ts_repairs db)"
  "ts_incidents (update_pending_requests P g db) = ts_incidents db"
  "ts_repairs (update_pending_requests P g db) = ts_repairs db"
  "ts_manual (update_pending_requests P g db) = ts_manual db"
  "ts_events (update_pending_requests P g db) = ts_events db"
  "ts_states (update_pending_requests P g db) = ts_states db"
  "ts_processed (update_pending_requests P g db) = ts_processed db"
  "ts_incidents (update_manual k h db) = ts_incidents db"
  "ts_repairs (update_manual k h db) = ts_repairs db"
  "ts_requests (update_manual k h db) = ts_requests db"
  "ts_events (update_manual k h db) = ts_events db"
  "ts_states (update_manual k h db) = ts_states db"
  "ts_processed (update_manual k h db) = ts_processed db"
  "ts_manual (update_manual k h db) = tbl_update ma_action_id k h (ts_manual db)"
  "ts_incidents (update_experience k x db) = ts_incidents db"
  "ts_repairs (update_experience k x db) = ts_repairs db"
  "ts_requests (update_experience k x db) = ts_requests db"
  "ts_manual (update_experience k x db) = ts_manual db"
  "ts_events (update_experience k x db) = ts_events db"
  "ts_states (update_experience k x db) = ts_states db"
  "ts_processed (update_experience k x db) = ts_processed db"
  by (simp_all add: update_repair_def update_pending_requests_def update_manual_def update_experience_def)

lemma write_repair:
  assumes "\<And>r. r \<in> set (ts_repairs db) \<Longrightarrow> rp_repair_id r = k \<Longrightarrow> repair_edge r (f r)"
  shows "ts_write db (update_repair k f db)"
  unfolding update_repair_def by (rule w_repair) (rule assms)

lemma write_pending_requests:
  assumes "\<And>r. rq_request_id (f r) = rq_request_id r \<and> rq_incident_id (f r) = rq_incident_id r \<and>
    rq_kind (f r) = rq_kind r \<and> rq_action_reference (f r) = rq_action_reference r \<and>
    rq_choices (f r) = rq_choices r"
  shows "ts_write db (update_pending_requests P f db)"
  unfolding update_pending_requests_def by (rule w_requests) (simp add: request_edge_def assms)

lemma write_manual:
  assumes "\<And>r. manual_edge r (f r)"
  shows "ts_write db (update_manual k f db)"
  unfolding update_manual_def by (rule w_manual) (rule assms)

lemma write_experience: "ts_write db (update_experience k f db)"
  using w_other[where db = db and a = "ts_states db" and b = "ts_processed db" and c = "ts_purged_on db"
    and d = "tbl_update ex_experience_id k f (ts_experiences db)" and f = "ts_followups db"]
  by (simp add: update_experience_def)

lemma writes_close_repair:
  assumes "\<And>r. r \<in> set (ts_repairs db) \<Longrightarrow> rp_repair_id r = k \<Longrightarrow>
      repair_edge r (r\<lparr>rp_status := st, rp_verified_at := Some now, rp_result := Some result\<rparr>)"
    and "kind \<notin> observed_kinds"
  shows "writes db (close_repair_locked k i st now result kind db)"
proof -
  let ?db1 = "update_repair k (\<lambda>r. r\<lparr>rp_status := st, rp_verified_at := Some now, rp_result := Some result\<rparr>) db"
  let ?db2 = "update_pending_requests (references k) (\<lambda>r. r\<lparr>rq_state := RequestExpired\<rparr>) ?db1"
  have "ts_write db ?db1" by (rule write_repair) (rule assms(1))
  moreover have "ts_write ?db1 ?db2" by (rule write_pending_requests) simp
  moreover have "close_repair_locked k i st now result kind db = record_event i kind now None result
      (JObj [(''repair_id'', JStr k), (''status'', JStr (repair_status_value st))]) ?db2"
    by (simp add: close_repair_locked_def Let_def)
  moreover have "ts_write ?db2 (record_event i kind now None result
      (JObj [(''repair_id'', JStr k), (''status'', JStr (repair_status_value st))]) ?db2)"
    by (rule write_event[OF assms(2)])
  ultimately show ?thesis by (metis (no_types, lifting) rtranclp.simps)
qed

lemma close_repair_frames [simp, ts_frames]:
  "ts_incidents (close_repair_locked k i st now result kind db) = ts_incidents db"
  "ts_manual (close_repair_locked k i st now result kind db) = ts_manual db"
  "ts_states (close_repair_locked k i st now result kind db) = ts_states db"
  "ts_processed (close_repair_locked k i st now result kind db) = ts_processed db"
  "ts_repairs (close_repair_locked k i st now result kind db) = tbl_update rp_repair_id k
     (\<lambda>r. r\<lparr>rp_status := st, rp_verified_at := Some now, rp_result := Some result\<rparr>) (ts_repairs db)"
  by (simp_all add: close_repair_locked_def Let_def)

text \<open>A loop over selected repairs that closes each with status \<open>st\<close>.\<close>

lemma writes_close_fold:
  assumes edge: "\<And>r result. rp_status r \<in> {a, st} \<Longrightarrow>
      repair_edge r (r\<lparr>rp_status := st, rp_verified_at := Some now, rp_result := Some result\<rparr>)"
    and kind: "kind \<notin> observed_kinds"
    and rows: "\<And>r. r \<in> set (ts_repairs db) \<Longrightarrow> rp_repair_id r \<in> K \<Longrightarrow> rp_status r \<in> {a, st}"
    and xs: "\<And>x. x \<in> set xs \<Longrightarrow> f x \<in> K"
  shows "writes db (fold (\<lambda>x. close_repair_locked (f x) (g x) st now (h x) kind) xs db)"
  using rows xs
proof (induction xs arbitrary: db)
  case (Cons x xs)
  let ?db1 = "close_repair_locked (f x) (g x) st now (h x) kind db"
  have "writes db ?db1"
    by (rule writes_close_repair) (use Cons.prems edge kind in auto)
  moreover have "writes ?db1 (fold (\<lambda>x. close_repair_locked (f x) (g x) st now (h x) kind) xs ?db1)"
  proof (rule Cons.IH)
    fix r assume r: "r \<in> set (ts_repairs ?db1)" "rp_repair_id r \<in> K"
    then obtain q where "q \<in> set (ts_repairs db)" "rp_repair_id q = rp_repair_id r"
      "rp_status r = st \<or> r = q" by (auto simp: set_tbl_update split: if_splits)
    then show "rp_status r \<in> {a, st}" using Cons.prems(1)[of q] r(2) by auto
  qed (use Cons.prems in auto)
  ultimately show ?case by (auto intro: writes_trans)
qed simp

lemma distinct_key_same:
  "distinct (map key rows) \<Longrightarrow> r \<in> set rows \<Longrightarrow> q \<in> set rows \<Longrightarrow> key r = key q \<Longrightarrow> r = q"
  by (auto simp: distinct_map inj_on_def)

lemma stale_proposalsD:
  assumes "(r, i) \<in> set (stale_proposals e now db)"
  shows "r \<in> set (ts_repairs db)" "rp_status r = Proposed" "select_incident (rp_incident_id r) db = Some i"
proof -
  from assms obtain x where x: "x \<in> set (ts_repairs db)" "(r, i) \<in> set (
      case select_incident (rp_incident_id x) db of
         None \<Rightarrow> []
       | Some i \<Rightarrow>
           if rp_status x \<noteq> Proposed then []
           else (case filter (references (rp_repair_id x)) (ts_requests db) of
                   [] \<Rightarrow> if active i then [] else [(x, i)]
                 | us \<Rightarrow> map (\<lambda>u. (x, i)) (filter (\<lambda>u. \<not> active i \<or> request_lapsed e now u) us)))"
    by (auto simp only: stale_proposals_def set_concat set_map)
  then obtain j where j: "select_incident (rp_incident_id x) db = Some j" by (cases "select_incident (rp_incident_id x) db") auto
  have "rp_status x = Proposed \<and> (r, i) = (x, j)"
    using x(2) unfolding j by (cases "filter (references (rp_repair_id x)) (ts_requests db)")
      (simp_all split: if_splits, auto)
  with x(1) j show "r \<in> set (ts_repairs db)" "rp_status r = Proposed" "select_incident (rp_incident_id r) db = Some i"
    by auto
qed

lemma close_fold_frames [simp, ts_frames]:
  "ts_incidents (fold (\<lambda>x. close_repair_locked (f x) (g x) st now (h x) kind) xs db) = ts_incidents db"
  "ts_manual (fold (\<lambda>x. close_repair_locked (f x) (g x) st now (h x) kind) xs db) = ts_manual db"
  "ts_states (fold (\<lambda>x. close_repair_locked (f x) (g x) st now (h x) kind) xs db) = ts_states db"
  "ts_processed (fold (\<lambda>x. close_repair_locked (f x) (g x) st now (h x) kind) xs db) = ts_processed db"
  by (induction xs arbitrary: db) auto

lemma close_stale_fold:
  "fold (close_stale now) xs db = fold (\<lambda>x. close_repair_locked (rp_repair_id (fst x)) (rp_incident_id (fst x))
     Expired now (if active (snd x) then txt_request_expired else txt_resolved_before) ''decision'') xs db"
  by (rule arg_cong[of _ _ "\<lambda>f. fold f xs db"]) (auto simp: fun_eq_iff close_stale_def)

lemma close_overdue_fold:
  "fold (close_overdue now) xs db = fold (\<lambda>r. close_repair_locked (rp_repair_id r) (rp_incident_id r)
     Unverified now (txt_unverified_within @ show_int (overdue_minutes r) @ txt_unverified_after) ''result'') xs db"
  by (rule arg_cong[of _ _ "\<lambda>f. fold f xs db"]) (auto simp: fun_eq_iff close_overdue_def)

lemma writes_close_stale:
  assumes "ts_base db"
  shows "writes db (fold (close_stale now) (stale_proposals e now db) db)"
  unfolding close_stale_fold
proof (rule writes_close_fold[where a = Proposed and K = "(\<lambda>x. rp_repair_id (fst x)) ` set (stale_proposals e now db)"])
  fix r assume r: "r \<in> set (ts_repairs db)" "rp_repair_id r \<in> (\<lambda>x. rp_repair_id (fst x)) ` set (stale_proposals e now db)"
  then obtain q i where q: "(q, i) \<in> set (stale_proposals e now db)" "rp_repair_id r = rp_repair_id q" by auto
  have "distinct (map rp_repair_id (ts_repairs db))" using assms(1) by (simp add: ts_base_def)
  then have "r = q" using r(1) q(2) stale_proposalsD(1)[OF q(1)] by (blast intro: distinct_key_same)
  then show "rp_status r \<in> {Proposed, Expired}" using stale_proposalsD(2)[OF q(1)] by simp
qed (auto intro: edge_expire simp: same_repair_def same_execution_def same_authority_def)

lemma writes_close_overdue:
  assumes "ts_base db" "\<And>r. r \<in> set xs \<Longrightarrow> r \<in> set (ts_repairs db) \<and> rp_status r = Verifying"
  shows "writes db (fold (close_overdue now) xs db)"
  unfolding close_overdue_fold
proof (rule writes_close_fold[where a = Verifying and K = "rp_repair_id ` set xs"])
  fix r assume r: "r \<in> set (ts_repairs db)" "rp_repair_id r \<in> rp_repair_id ` set xs"
  then obtain q where q: "q \<in> set xs" "rp_repair_id r = rp_repair_id q" by auto
  have "distinct (map rp_repair_id (ts_repairs db))" using assms(1) by (simp add: ts_base_def)
  then have "r = q" using r(1) q assms(2)[OF q(1)] by (blast intro: distinct_key_same)
  then show "rp_status r \<in> {Verifying, Unverified}" using assms(2)[OF q(1)] by simp
qed (auto intro: edge_conclude simp: same_repair_def same_execution_def same_authority_def)

lemma writes_close_manual:
  assumes "status \<noteq> ManualVerifying"
  shows "writes db (close_manual_action_locked row status at result obs db)"
proof -
  let ?db1 = "update_manual (ma_action_id row) (\<lambda>r. r\<lparr>ma_status := status, ma_verified_at := Some at,
    ma_result := Some result, ma_observation_id := map_option ob_id obs\<rparr>) db"
  have "ts_write db ?db1" by (rule write_manual) (simp add: manual_edge_def assms)
  moreover have "ts_write ?db1 (close_manual_action_locked row status at result obs db)"
    unfolding close_manual_action_locked_def by (rule write_event) simp
  ultimately show ?thesis by auto
qed

lemma close_manual_frames [simp, ts_frames]:
  "ts_incidents (close_manual_action_locked row status at result obs db) = ts_incidents db"
  "ts_repairs (close_manual_action_locked row status at result obs db) = ts_repairs db"
  "ts_requests (close_manual_action_locked row status at result obs db) = ts_requests db"
  "ts_states (close_manual_action_locked row status at result obs db) = ts_states db"
  "ts_processed (close_manual_action_locked row status at result obs db) = ts_processed db"
  by (simp_all add: close_manual_action_locked_def)

lemma manual_fold_frames [simp, ts_frames]:
  "ts_incidents (fold (\<lambda>r. close_manual_action_locked r st now t None) xs db) = ts_incidents db"
  "ts_repairs (fold (\<lambda>r. close_manual_action_locked r st now t None) xs db) = ts_repairs db"
  "ts_requests (fold (\<lambda>r. close_manual_action_locked r st now t None) xs db) = ts_requests db"
  "ts_states (fold (\<lambda>r. close_manual_action_locked r st now t None) xs db) = ts_states db"
  "ts_processed (fold (\<lambda>r. close_manual_action_locked r st now t None) xs db) = ts_processed db"
  by (induction xs arbitrary: db) auto

lemma writes_manual_fold:
  "st \<noteq> ManualVerifying \<Longrightarrow> writes db (fold (\<lambda>r. close_manual_action_locked r st now t None) xs db)"
  by (induction xs arbitrary: db) (auto intro: writes_trans writes_close_manual)

lemma writes_expire_repairs:
  assumes "ts_base db"
  shows "writes db (expire_repairs_locked e now db)"
proof -
  let ?db1 = "fold (close_stale now) (stale_proposals e now db) db"
  let ?db2 = "expire_manual_actions_locked e now ?db1"
  have w1: "writes db ?db1" by (rule writes_close_stale[OF assms])
  have w2: "writes ?db1 ?db2" unfolding expire_manual_actions_locked_def by (rule writes_manual_fold) simp
  have "ts_base ?db2" by (rule ts_base_writes[OF writes_trans[OF w1 w2] assms])
  moreover have "ts_repairs ?db2 = ts_repairs ?db1" by (simp add: expire_manual_actions_locked_def)
  ultimately have "writes ?db2 (fold (close_overdue now) (filter (repair_overdue e now) (ts_repairs ?db1)) ?db2)"
    by (intro writes_close_overdue) (auto simp: repair_overdue_def)
  with w1 w2 show ?thesis unfolding expire_repairs_locked_def Let_def by (blast intro: writes_trans)
qed

text \<open>The sweep closes every proposal of an ended incident.\<close>

lemma stale_ended:
  assumes "r \<in> set (ts_repairs db)" "rp_status r = Proposed"
    "select_incident (rp_incident_id r) db = Some i" "\<not> active i"
  shows "(r, i) \<in> set (stale_proposals e now db)"
proof -
  let ?g = "\<lambda>x. case select_incident (rp_incident_id x) db of
         None \<Rightarrow> []
       | Some i \<Rightarrow>
           if rp_status x \<noteq> Proposed then []
           else (case filter (references (rp_repair_id x)) (ts_requests db) of
                   [] \<Rightarrow> if active i then [] else [(x, i)]
                 | us \<Rightarrow> map (\<lambda>u. (x, i)) (filter (\<lambda>u. \<not> active i \<or> request_lapsed e now u) us))"
  have "(r, i) \<in> set (?g r)" using assms(2-4)
    by (cases "filter (references (rp_repair_id r)) (ts_requests db)") simp_all
  then show ?thesis using assms(1) unfolding stale_proposals_def set_concat set_map by blast
qed

lemma close_fold_status:
  assumes "r \<in> set (ts_repairs (fold (\<lambda>x. close_repair_locked (f x) (g x) st now (h x) kind) xs db))"
  shows "rp_status r = st \<and> rp_repair_id r \<in> f ` set xs \<or>
    r \<in> set (ts_repairs db) \<and> rp_repair_id r \<notin> f ` set xs"
  using assms
proof (induction xs arbitrary: db)
  case (Cons x xs)
  let ?db1 = "close_repair_locked (f x) (g x) st now (h x) kind db"
  have "rp_status r = st \<and> rp_repair_id r \<in> f ` set xs \<or>
      r \<in> set (ts_repairs ?db1) \<and> rp_repair_id r \<notin> f ` set xs"
    using Cons.prems by (intro Cons.IH) simp
  moreover have "rp_status r = st \<and> rp_repair_id r = f x \<or> r \<in> set (ts_repairs db) \<and> rp_repair_id r \<noteq> f x"
    if "r \<in> set (ts_repairs ?db1)"
    using that by (auto simp: tbl_update_def)
  ultimately show ?case by auto
qed simp

lemma close_fold_keeps:
  assumes "r \<in> set (ts_repairs db)" "rp_repair_id r \<notin> f ` set xs"
  shows "r \<in> set (ts_repairs (fold (\<lambda>x. close_repair_locked (f x) (g x) st now (h x) kind) xs db))"
  using assms
proof (induction xs arbitrary: db)
  case (Cons x xs)
  then have "r \<in> set (ts_repairs (close_repair_locked (f x) (g x) st now (h x) kind db))"
    by (force simp: tbl_update_def)
  then show ?case using Cons by simp
qed simp

lemma expire_repairs_status:
  assumes "r \<in> set (ts_repairs (expire_repairs_locked e now db))"
  shows "rp_status r = Expired \<and> rp_repair_id r \<in> (\<lambda>x. rp_repair_id (fst x)) ` set (stale_proposals e now db) \<or>
     rp_status r = Unverified \<or>
     r \<in> set (ts_repairs db) \<and> rp_repair_id r \<notin> (\<lambda>x. rp_repair_id (fst x)) ` set (stale_proposals e now db)"
    "\<not> repair_overdue e now r"
proof -
  let ?db1 = "fold (close_stale now) (stale_proposals e now db) db"
  let ?over = "filter (repair_overdue e now) (ts_repairs ?db1)"
  have frame: "ts_repairs (expire_manual_actions_locked e now ?db1) = ts_repairs ?db1"
    by (simp add: expire_manual_actions_locked_def)
  have two: "rp_status r = Unverified \<or> r \<in> set (ts_repairs ?db1) \<and> rp_repair_id r \<notin> rp_repair_id ` set ?over"
    using close_fold_status[OF assms[unfolded expire_repairs_locked_def Let_def close_overdue_fold]]
    unfolding frame by blast
  have one: "rp_status r = Expired \<and> rp_repair_id r \<in> (\<lambda>x. rp_repair_id (fst x)) ` set (stale_proposals e now db) \<or>
      r \<in> set (ts_repairs db) \<and>
      rp_repair_id r \<notin> (\<lambda>x. rp_repair_id (fst x)) ` set (stale_proposals e now db)"
    if "r \<in> set (ts_repairs ?db1)"
    using that close_fold_status[of r "\<lambda>x. rp_repair_id (fst x)"] by (simp only: close_stale_fold)
  show "rp_status r = Expired \<and> rp_repair_id r \<in> (\<lambda>x. rp_repair_id (fst x)) ` set (stale_proposals e now db) \<or>
      rp_status r = Unverified \<or>
      r \<in> set (ts_repairs db) \<and> rp_repair_id r \<notin> (\<lambda>x. rp_repair_id (fst x)) ` set (stale_proposals e now db)"
    using one two by blast
  show "\<not> repair_overdue e now r"
    using two by (auto simp: repair_overdue_def)
qed

lemma expire_repairs_live:
  assumes "ts_base db"
  shows "proposals_live (expire_repairs_locked e now db)"
  unfolding proposals_live_def list_all_iff
proof (intro ballI impI)
  fix r assume r: "r \<in> set (ts_repairs (expire_repairs_locked e now db))" "rp_status r = Proposed"
  then have old: "r \<in> set (ts_repairs db)"
    "rp_repair_id r \<notin> (\<lambda>x. rp_repair_id (fst x)) ` set (stale_proposals e now db)"
    using expire_repairs_status(1)[OF r(1)] by auto
  then have "select_incident (rp_incident_id r) db \<noteq> None"
    using assms by (auto simp: ts_base_def select_incident_def tbl_find_None)
  then obtain i where i: "select_incident (rp_incident_id r) db = Some i" by blast
  have "active i" using stale_ended[OF old(1) r(2) i] old(2) by force
  then show "case select_incident (rp_incident_id r) (expire_repairs_locked e now db) of
      None \<Rightarrow> False | Some i \<Rightarrow> active i"
    using i by (simp add: select_incident_def expire_repairs_locked_def Let_def expire_manual_actions_locked_def
      close_stale_fold close_overdue_fold)
qed

lemma expire_repairs_frames [simp, ts_frames]:
  "ts_incidents (expire_repairs_locked e now db) = ts_incidents db"
  "ts_states (expire_repairs_locked e now db) = ts_states db"
  "ts_processed (expire_repairs_locked e now db) = ts_processed db"
  by (simp_all add: expire_repairs_locked_def Let_def expire_manual_actions_locked_def
      close_stale_fold close_overdue_fold)

end
