(* ===== verification/Incident_Effects.thy ===== *)
theory Incident_Effects
  imports Incident_Contract
begin

text \<open>
  Every operation of the incident repository is a sequence of elementary writes, and the interface
  \<open>incident_invariant\<close> that follows from it.
\<close>

section \<open>Reading and sweeping\<close>

lemma incident_documentD:
  assumes "incident_document e now ev row db = Inr v"
  shows "i_incident_id (iv_row v) = i_incident_id row" "active (iv_row v) = active row"
    "i_severity (iv_row v) = i_severity row"
  using assms
  by (auto simp: incident_document_def Let_def active_def split: option.splits if_splits)

lemma get_incident_db: "snd (get_incident e now k db) = expire_repairs_locked e now db"
  by (simp add: get_incident_def Let_def split: option.splits)

lemma writes_get: "ts_base db \<Longrightarrow> writes db (snd (get_incident e now k db))"
  by (simp add: get_incident_db writes_expire_repairs)

lemma select_after_expire [simp]: "select_incident k (expire_repairs_locked e now db) = select_incident k db"
  by (simp add: select_incident_def)

lemma get_incident_Inr:
  assumes "get_incident e now k db = (Inr v, db')"
  obtains row where "select_incident k db = Some row" "i_incident_id (iv_row v) = k"
    "active (iv_row v) = active row" "db' = expire_repairs_locked e now db"
    "incident_document e now True row db' = Inr v"
proof -
  have db': "db' = expire_repairs_locked e now db" using get_incident_db[of e now k db] assms by simp
  obtain row where row: "select_incident k db = Some row"
    using assms by (cases "select_incident k db") (auto simp: get_incident_def Let_def)
  then have doc: "incident_document e now True row db' = Inr v"
    using assms db' by (simp add: get_incident_def Let_def)
  have "i_incident_id row = k" using row by (auto simp: select_incident_def dest: tbl_find_Some_D)
  then show ?thesis using that[OF row] incident_documentD[OF doc] db' doc by simp
qed

lemma within_transaction_Inr:
  "within_transaction r = Inr (v, db') \<longleftrightarrow> r = (Inr v, db')"
  by (cases r) (auto simp: within_transaction_def split: sum.splits)

lemma some_view_Inr: "some_view r = Inr (v, db') \<longleftrightarrow> (\<exists>w. v = Some w \<and> r = Inr (w, db'))"
  by (auto simp: some_view_def split: sum.splits)

text \<open>An operation that reads an incident and goes on.\<close>

lemma changes_and_then:
  assumes "changes db (snd r)" "\<And>v db1. r = (Inr v, db1) \<Longrightarrow> changes db1 (snd (k v db1))"
  shows "changes db (snd (and_then r k))"
  using assms by (cases r) (auto simp: and_then_def split: sum.splits intro: changes_trans)

lemma changes_transaction:
  assumes "\<And>v db'. body db = Inr (v, db') \<Longrightarrow> changes db db'"
  shows "changes db (snd (transaction db body))"
  using assms by (auto simp: transaction_def split: sum.splits prod.splits)

lemma change_write: "ts_write db db' \<Longrightarrow> changes db db'"
  by (simp add: change_def r_into_rtranclp)

lemma changes_event: "kind \<notin> observed_kinds \<Longrightarrow> changes db (record_event k kind t obs s p db)"
  by (rule change_write) (rule write_event)

section \<open>Observations\<close>

lemma writes_count_outcome: "writes db (count_experience_outcome_locked r at ok db)"
  by (auto simp: count_experience_outcome_locked_def split: option.splits intro: write_experience)

lemma count_outcome_frames [simp, ts_frames]:
  "ts_incidents (count_experience_outcome_locked r at ok db) = ts_incidents db"
  "ts_repairs (count_experience_outcome_locked r at ok db) = ts_repairs db"
  "ts_requests (count_experience_outcome_locked r at ok db) = ts_requests db"
  "ts_manual (count_experience_outcome_locked r at ok db) = ts_manual db"
  "ts_events (count_experience_outcome_locked r at ok db) = ts_events db"
  "ts_states (count_experience_outcome_locked r at ok db) = ts_states db"
  "ts_processed (count_experience_outcome_locked r at ok db) = ts_processed db"
  by (auto simp: count_experience_outcome_locked_def split: option.splits)

lemma base_repair_eq:
  "ts_base db \<Longrightarrow> r \<in> set (ts_repairs db) \<Longrightarrow> q \<in> set (ts_repairs db) \<Longrightarrow>
     rp_repair_id r = rp_repair_id q \<Longrightarrow> r = q"
  by (rule distinct_key_same[of rp_repair_id]) (auto simp: ts_base_def)

lemma writes_conclude:
  assumes "ts_base db" "r \<in> set (ts_repairs db)" "rp_status r = Verifying"
  shows "writes db (conclude_repair k r obs ok db)"
proof -
  let ?st = "if ok then Succeeded else Failed"
  let ?res = "if ok then txt_repair_confirmed else txt_repair_still_degraded"
  let ?f = "\<lambda>r. r\<lparr>rp_status := ?st, rp_verified_at := Some (ob_timestamp obs), rp_result := Some ?res\<rparr>"
  let ?db1 = "count_experience_outcome_locked r (ob_timestamp obs) ok db"
  let ?db2 = "update_repair (rp_repair_id r) ?f ?db1"
  have "repair_edge q (?f q)" if "q \<in> set (ts_repairs ?db1)" "rp_repair_id q = rp_repair_id r" for q
  proof -
    have "q = r" using base_repair_eq[OF assms(1)] that assms(2) by simp
    then show ?thesis using assms(3)
      by (intro edge_conclude) (auto simp: same_repair_def same_execution_def same_authority_def)
  qed
  then have "ts_write ?db1 ?db2" by (rule write_repair)
  then have "writes db ?db2" using writes_count_outcome by (rule rtranclp.rtrancl_into_rtrancl[rotated])
  then show ?thesis unfolding conclude_repair_def Let_def
    by (rule rtranclp.rtrancl_into_rtrancl) (rule write_event, simp)
qed

lemma writes_verify_repair:
  assumes "ts_base db"
  shows "writes db (verify_pending_repair e k obs ok db)"
proof (cases "newest_row (\<lambda>r. map_option (julianday e) (rp_executed_at r))
             (filter (\<lambda>r. rp_incident_id r = k \<and> rp_status r = Verifying) (ts_repairs db))")
  case (Some r)
  then have "r \<in> set (ts_repairs db)" "rp_status r = Verifying"
    using newest_row_Some(1) by fastforce+
  then show ?thesis using writes_conclude[OF assms]
    by (simp add: verify_pending_repair_def Some split: option.splits)
qed (simp add: verify_pending_repair_def)

lemma writes_verify_manual: "writes db (verify_manual_action e k obs ok db)"
  by (auto simp: verify_manual_action_def split: option.splits intro: writes_close_manual)

lemma verify_frames [simp, ts_frames]:
  "ts_incidents (verify_actions e k obs ok db) = ts_incidents db"
  "ts_states (verify_actions e k obs ok db) = ts_states db"
  "ts_processed (verify_actions e k obs ok db) = ts_processed db"
  by (simp_all add: verify_actions_def verify_manual_action_def verify_pending_repair_def conclude_repair_def Let_def
      split: option.splits)

lemma writes_verify: "ts_base db \<Longrightarrow> writes db (verify_actions e k obs ok db)"
  unfolding verify_actions_def
  by (rule writes_trans[OF writes_verify_repair writes_verify_manual])

lemma record_event_shape:
  obtains ev where "record_event k kind t obs s p db = db\<lparr>ts_events := ts_events db @ [ev]\<rparr>"
    "ev_kind ev = kind" "ev_incident_id ev = k"
proof -
  show ?thesis
    by (rule that[of "last (ts_events (record_event k kind t obs s p db))"]) (simp_all add: record_event_def)
qed

lemma writes_open:
  assumes "ts_base db" "active_row (capability_of obs) db = None"
    "open_incident e now k obs sev prev db = Inr (v, db')"
  shows "writes db db'"
proof -
  let ?i = "new_incident k obs sev db"
  let ?db1 = "db\<lparr>ts_incidents := ts_incidents db @ [?i]\<rparr>"
  let ?db2 = "record_event k ''opened'' (ob_timestamp obs) (Some obs) (redact_sensitive_text (ob_message obs))
      (JObj (change_payload prev (severity_value sev))) ?db1"
  from assms(3) have fresh: "select_incident k db = None" and
    get: "get_incident e now k ?db2 = (Inr v, db')"
    by (auto simp: open_incident_def Let_def within_transaction_Inr split: if_splits)
  have key: "incident_key ?i = capability_of obs" by (simp add: incident_key_def new_incident_def capability_of_def)
  obtain ev where ev: "?db2 = ?db1\<lparr>ts_events := ts_events ?db1 @ [ev]\<rparr>" "ev_kind ev = ''opened''" "ev_incident_id ev = k"
    by (rule record_event_shape)
  have i: "i_incident_id ?i = k" "active ?i" "i_occurrence_count ?i = 1"
    "i_recurrence_count ?i = recurrence (capability_of obs) db"
    by (simp_all add: new_incident_def active_def)
  have "ts_write db (db\<lparr>ts_incidents := ts_incidents db @ [?i], ts_events := ts_events db @ [ev]\<rparr>)"
    by (rule w_open) (simp_all only: i key fresh assms(2) ev(2,3))
  then have "ts_write db ?db2" unfolding ev(1) by simp
  moreover from this have "ts_base ?db2" using assms(1) ts_base_write by blast
  ultimately show ?thesis using writes_get[of ?db2 e now k] get by (simp add: converse_rtranclp_into_rtranclp)
qed

lemma writes_update_open:
  assumes "ts_base db" "select_incident (i_incident_id (iv_row inc)) db \<noteq> None"
    "update_open_incident e now inc obs sev db = Inr (v, db')"
  shows "writes db db'"
proof -
  let ?k = "i_incident_id (iv_row inc)"
  let ?db2 = "record_event ?k (update_kind (i_severity (iv_row inc)) sev) (ob_timestamp obs)
            (Some obs) (redact_sensitive_text (ob_message obs))
            (JObj (change_payload (severity_value (i_severity (iv_row inc))) (severity_value sev)))
            (update_incident ?k (observed_row obs sev) db)"
  from assms(3) have get: "get_incident e now ?k ?db2 = (Inr v, db')"
    by (auto simp: update_open_incident_def Let_def within_transaction_Inr)
  let ?db1 = "update_incident ?k (observed_row obs sev) db"
  obtain ev where ev: "?db2 = ?db1\<lparr>ts_events := ts_events ?db1 @ [ev]\<rparr>"
    "ev_kind ev = update_kind (i_severity (iv_row inc)) sev" "ev_incident_id ev = ?k"
    by (rule record_event_shape)
  have "ts_write db (db\<lparr>ts_incidents := tbl_update i_incident_id ?k (observed_row obs sev) (ts_incidents db),
      ts_events := ts_events db @ [ev]\<rparr>)"
    by (rule w_observe[OF assms(2)])
      (simp_all add: ev(2,3) observed_row_def same_incident_def incident_key_def active_def update_kind_def)
  then have "ts_write db ?db2" unfolding ev(1) by (simp add: update_incident_def)
  moreover from this have "ts_base ?db2" using assms(1) ts_base_write by blast
  ultimately show ?thesis using writes_get[of ?db2 e now ?k] get by (simp add: converse_rtranclp_into_rtranclp)
qed

lemma changes_close:
  assumes "\<And>i. same_incident i (f i) \<and> \<not> active (f i) \<and> i_occurrence_count (f i) = i_occurrence_count i"
    "writes (update_incident k f db) db'" "ts_base (update_incident k f db) \<Longrightarrow> proposals_live db'" "ts_base db"
  shows "changes db db'"
proof -
  have e: "ending db (update_incident k f db)" unfolding update_incident_def by (rule ending.intros[OF assms(1)])
  then have "closing db db'" using assms(2-4) ts_base_ending by (blast intro: closing.intros)
  then show ?thesis by (simp add: change_def r_into_rtranclp)
qed

lemma changes_get: "ts_base db \<Longrightarrow> changes db (snd (get_incident e now k db))"
  by (rule writes_changes) (rule writes_get)

lemma changes_resolve:
  assumes "ts_base db" "resolve_incident e now inc obs db = Inr (v, db')"
  shows "changes db db'"
proof -
  let ?k = "i_incident_id (iv_row inc)"
  let ?db1 = "update_incident ?k (resolved_row obs) db"
  let ?db2 = "update_pending_requests (\<lambda>r. rq_incident_id r = ?k) (\<lambda>r. r\<lparr>rq_state := Resolved\<rparr>) ?db1"
  let ?db3 = "expire_repairs_locked e (ob_timestamp obs) ?db2"
  let ?db4 = "record_event ?k ''resolved'' (ob_timestamp obs) (Some obs)
            (redact_sensitive_text (ob_message obs))
            (JObj (change_payload (severity_value (i_severity (iv_row inc))) ''healthy'' @
              [(''result'', JStr txt_resolved)])) ?db3"
  have w2: "writes ?db1 ?db2" by (rule r_into_rtranclp, rule write_pending_requests) simp
  have b2: "ts_base ?db2" if "ts_base ?db1" using that w2 ts_base_writes by blast
  have c3: "changes db ?db3"
  proof (rule changes_close[OF _ _ _ assms(1)])
    have e: "ending db ?db1" unfolding update_incident_def
      by (rule ending.intros) (simp add: resolved_row_def same_incident_def incident_key_def active_def)
    show "writes ?db1 ?db3"
      using writes_trans[OF w2 writes_expire_repairs] b2 ts_base_ending[OF e assms(1)] by blast
  qed (use b2 expire_repairs_live in \<open>auto simp: resolved_row_def same_incident_def incident_key_def active_def\<close>)
  then have b3: "ts_base ?db3" using assms(1) ts_base_changes by blast
  have c4: "changes ?db3 ?db4" by (rule changes_event) simp
  then have "ts_base ?db4" using b3 ts_base_changes by blast
  then have "changes ?db4 (snd (get_incident e now ?k ?db4))" by (rule changes_get)
  moreover have "get_incident e now ?k ?db4 = (Inr v, db')"
    using assms(2) by (auto simp: resolve_incident_def Let_def within_transaction_Inr)
  ultimately show ?thesis using c3 c4 by (auto intro: changes_trans)
qed

lemma active_row_select:
  assumes "ts_base db" "active_row key db = Some row"
  shows "select_incident (i_incident_id row) db = Some row" "active row" "incident_key row = key"
proof -
  from assms(2) have "row \<in> set (ts_incidents db)" "active row" "incident_key row = key"
    by (auto simp: active_row_def find_Some_iff)
  then show "select_incident (i_incident_id row) db = Some row" "active row" "incident_key row = key"
    using assms(1) by (auto simp: select_incident_def ts_base_def tbl_find_distinct)
qed

lemma current_incident_Some:
  assumes "ts_base db" "current_incident e now key db = Inr (Some v)"
  obtains row where "active_row key db = Some row" "select_incident (i_incident_id (iv_row v)) db = Some row"
    "i_incident_id (iv_row v) = i_incident_id row" "i_severity (iv_row v) = i_severity row"
proof -
  from assms(2) obtain row where row: "active_row key db = Some row" "incident_document e now False row db = Inr v"
    by (auto simp: current_incident_def split: option.splits sum.splits)
  then show ?thesis using that active_row_select[OF assms(1) row(1)] incident_documentD[OF row(2)] by simp
qed

lemma current_incident_None: "current_incident e now key db = Inr None \<longleftrightarrow> active_row key db = None"
  by (auto simp: current_incident_def split: option.splits sum.splits)

lemma changes_apply:
  assumes "ts_base db" "current_incident e now (capability_of obs) db = Inr current"
    "apply_observation e now k prev current obs db = Inr (v, db')"
  shows "changes db db'"
proof (cases current)
  case None
  then show ?thesis using assms writes_open[OF assms(1)] current_incident_None
    by (auto simp: apply_observation_def some_view_Inr split: option.splits intro: writes_changes)
next
  case (Some inc)
  let ?k = "i_incident_id (iv_row inc)"
  obtain row where row: "select_incident ?k db = Some row"
    using current_incident_Some[OF assms(1)] assms(2) Some by metis
  have b: "ts_base (verify_actions e ?k obs ok db)" and c: "changes db (verify_actions e ?k obs ok db)" for ok
    using writes_verify[OF assms(1)] ts_base_writes assms(1) writes_changes by blast+
  have sel: "select_incident ?k (verify_actions e ?k obs ok db) \<noteq> None" for ok
    using row by (simp add: select_incident_def)
  show ?thesis
  proof (cases "FAULTS (ob_status obs)")
    case None
    then have "db' = db \<or> resolve_incident e now inc obs (verify_actions e ?k obs True db) = Inr (the v, db')"
      using assms(3) Some by (auto simp: apply_observation_def some_view_Inr split: if_splits)
    then show ?thesis using changes_resolve[OF b] c changes_trans by blast
  next
    case f: (Some sev)
    then have "update_open_incident e now inc obs sev (verify_actions e ?k obs False db) = Inr (the v, db')"
      using assms(3) Some by (auto simp: apply_observation_def some_view_Inr)
    then have "writes (verify_actions e ?k obs False db) db'"
      by (rule writes_update_open[OF b sel])
    then show ?thesis using c writes_changes changes_trans by blast
  qed
qed

lemma write_books:
  "ts_write db (mark_processed now k db)" "ts_write db (write_state age_us obs db)"
  "ts_write db (snd (purge_processed_observations e now db))"
  "ts_write db (purge_processed_if_due e busy t now db)"
proof -
  have other: "ts_write db (db\<lparr>ts_states := a, ts_processed := b, ts_purged_on := c\<rparr>)" for a b c
    using w_other[where db = db and a = a and b = b and c = c and d = "ts_experiences db" and f = "ts_followups db"]
    by simp
  show "ts_write db (mark_processed now k db)"
    using other[where a = "ts_states db" and c = "ts_purged_on db"] by (simp add: mark_processed_def)
  show "ts_write db (write_state age_us obs db)"
    using other[where b = "ts_processed db" and c = "ts_purged_on db"] by (simp add: write_state_def Let_def)
  show "ts_write db (snd (purge_processed_observations e now db))"
    using other[where a = "ts_states db" and c = "ts_purged_on db"]
    by (simp add: purge_processed_observations_def split: prod.splits)
  show "ts_write db (purge_processed_if_due e busy t now db)"
    using other[where a = "ts_states db" and b = "ts_processed db" and c = "ts_purged_on db"] other[where a = "ts_states db"]
    by (simp add: purge_processed_if_due_def purge_processed_observations_def Let_def split: prod.splits)
qed

lemma process_body_cases:
  assumes "process_body e age_us k rd obs db = Inr (v, db')"
  obtains "db' = db" "v = None" | "db' = mark_processed (rd_mark rd) (ob_id obs) db" "v = None"
  | current db1 where "current_incident e (rd_get rd) (capability_of obs) db = Inr current"
      "apply_observation e (rd_get rd) k (capability_state (capability_of obs) db) current obs db = Inr (v, db1)"
      "db' = mark_processed (rd_mark rd) (ob_id obs) (write_state age_us obs db1)"
proof (cases "already_processed (ob_id obs) db \<or> outdated (capability_state (capability_of obs) db) obs")
  case True
  then show ?thesis using assms that(1,2) by (auto simp: process_body_def Let_def split: if_splits)
next
  case False
  let ?cur = "current_incident e (rd_get rd) (capability_of obs) db"
  from False assms obtain current where cur: "?cur = Inr current"
    by (cases ?cur) (simp_all add: process_body_def Let_def)
  let ?app = "apply_observation e (rd_get rd) k (capability_state (capability_of obs) db) current obs db"
  from False assms cur obtain w db1 where app: "?app = Inr (w, db1)"
    by (cases ?app) (auto simp: process_body_def Let_def)
  with False assms cur have "w = v" "db' = mark_processed (rd_mark rd) (ob_id obs) (write_state age_us obs db1)"
    by (simp_all add: process_body_def Let_def)
  with cur app that(3) show ?thesis by simp
qed

lemma changes_process:
  assumes "ts_base db"
  shows "changes db (snd (process e age_us busy k rd obs db))"
proof -
  let ?db0 = "purge_processed_if_due e busy (rd_today rd) (rd_purge rd) db"
  have c0: "changes db ?db0" by (rule change_write) (rule write_books(4))
  then have b0: "ts_base ?db0" using assms ts_base_changes by blast
  have "changes ?db0 (snd (transaction ?db0 (process_body e age_us k rd obs)))"
  proof (rule changes_transaction)
    fix v db' assume body: "process_body e age_us k rd obs ?db0 = Inr (v, db')"
    consider "db' = ?db0" | "db' = mark_processed (rd_mark rd) (ob_id obs) ?db0"
      | current db1 where "current_incident e (rd_get rd) (capability_of obs) ?db0 = Inr current"
        "apply_observation e (rd_get rd) k (capability_state (capability_of obs) ?db0) current obs ?db0 = Inr (v, db1)"
        "db' = mark_processed (rd_mark rd) (ob_id obs) (write_state age_us obs db1)"
      using body by (rule process_body_cases)
    then show "changes ?db0 db'"
    proof cases
      case 2
      then show ?thesis using write_books(1) change_write by blast
    next
      case 3
      have "changes ?db0 db1" by (rule changes_apply[OF b0 3(1,2)])
      moreover have "changes db1 db'" using 3(3) write_books change_write changes_trans by metis
      ultimately show ?thesis by (rule changes_trans)
    qed simp
  qed
  then show ?thesis using c0 unfolding process_def by (blast intro: changes_trans)
qed

end
