(* ===== verification/Incident_Steps.thy ===== *)
theory Incident_Steps
  imports Incident_Effects Contract_Laws
begin

text \<open>
  The other operations as sequences of writes, and the interface \<open>incident_invariant\<close>: what every
  write keeps holds in every reachable database.
\<close>

section \<open>Removed devices and records\<close>

lemma changes_remove_loop:
  "ts_base db \<Longrightarrow> remove_loop e now at rows db = Inr (vs, db') \<Longrightarrow> changes db db'"
proof (induction rows arbitrary: db vs)
  case (Cons row rows)
  let ?k = "i_incident_id row"
  let ?f = "\<lambda>i. i\<lparr>i_ended_at := Some at, i_message := txt_monitoring_removed,
          i_final_result := Some txt_monitoring_removed\<rparr>"
  let ?db1 = "update_incident ?k ?f db"
  let ?db2 = "remove_monitoring at ?k db"
  from Cons.prems(2) obtain v db3 ws where step: "get_incident e now ?k ?db2 = (Inr v, db3)"
    "remove_loop e now at rows db3 = Inr (ws, db')"
    by (auto simp: within_transaction_Inr split: sum.splits prod.splits)
  have f: "same_incident i (?f i) \<and> \<not> active (?f i) \<and> i_occurrence_count (?f i) = i_occurrence_count i" for i
    by (simp add: same_incident_def incident_key_def active_def)
  have "ending db ?db1" unfolding update_incident_def by (rule ending.intros[OF f])
  then have b1: "ts_base ?db1" using Cons.prems(1) ts_base_ending by blast
  have w2: "writes ?db1 ?db2" unfolding remove_monitoring_def by (rule r_into_rtranclp, rule write_event) simp
  then have b2: "ts_base ?db2" using b1 ts_base_writes by blast
  have db3: "db3 = expire_repairs_locked e now ?db2" using get_incident_db[of e now ?k ?db2] step(1) by simp
  have w3: "writes ?db1 db3" unfolding db3 using w2 writes_expire_repairs[OF b2] by (rule writes_trans)
  have c3: "changes db db3"
    by (rule changes_close[OF f w3 _ Cons.prems(1)]) (simp add: db3 expire_repairs_live[OF b2])
  then have "ts_base db3" using Cons.prems(1) ts_base_changes by blast
  then have "changes db3 db'" using step(2) by (rule Cons.IH)
  with c3 show ?case by (rule changes_trans)
qed simp

lemma changes_removed:
  assumes "ts_base db"
  shows "changes db (snd (resolve_removed_network_devices e now ds at db))"
proof (cases "ds = []")
  case True
  then show ?thesis by (simp add: resolve_removed_network_devices_def)
next
  case False
  have "changes db (snd (transaction db (\<lambda>db. remove_loop e now at
             (filter (\<lambda>i. presence_incident i \<and> i_service_id i \<in> set ds) (ts_incidents db)) db)))"
    by (rule changes_transaction) (erule changes_remove_loop[OF assms])
  then show ?thesis using False by (simp add: resolve_removed_network_devices_def)
qed

lemma record_kind_plain:
  assumes "IncidentRecordRequest payload = Some request"
  shows "text_of (jget request ''kind'') \<notin> observed_kinds"
proof -
  let ?k = "required ''kind'' (literal [JStr ''investigation'', JStr ''diagnostic'', JStr ''action'', JStr ''result''])"
  have "(\<exists>x. snd (snd ?k) x = Some (jget request (fst ?k))) \<or> fst (snd ?k) = Some (jget request (fst ?k))"
    by (rule model_values[OF assms[unfolded IncidentRecordRequest_def]])
      (simp_all add: required_def defaults_def)
  then show ?thesis by (auto simp: required_def literal_def observed_kinds_def split: if_splits)
qed

lemma changes_base: "changes db db' \<Longrightarrow> ts_base db \<Longrightarrow> ts_base db'"
  by (rule ts_base_changes)

lemma get_base: "ts_base db \<Longrightarrow> get_incident e n k db = (r, db1) \<Longrightarrow> ts_base db1"
  by (metis changes_base changes_get snd_conv)

lemma changes_record:
  assumes "ts_base db" "kind \<notin> observed_kinds"
    "db2 = record_event k kind n None s p db"
    "db3 = (if b then update_incident k (\<lambda>i. i\<lparr>i_final_result := Some s\<rparr>) db2 else db2)"
  shows "changes db (snd (get_incident e n2 k db3))"
proof -
  have c2: "changes db db2" unfolding assms(3) by (rule changes_event[OF assms(2)])
  have "ts_write db2 (update_incident k (\<lambda>i. i\<lparr>i_final_result := Some s\<rparr>) db2)"
    unfolding update_incident_def by (rule w_incident) (simp add: same_incident_def incident_key_def active_def)
  then have c3: "changes db2 db3" unfolding assms(4) by (auto intro: change_write)
  have "ts_base db3" using changes_base[OF changes_trans[OF c2 c3] assms(1)] .
  then have "changes db3 (snd (get_incident e n2 k db3))" by (rule changes_get)
  then show ?thesis using c2 c3 by (blast intro: changes_trans)
qed

lemma changes_append_record:
  assumes "ts_base db"
  shows "changes db (snd (append_record e n1 n n2 k payload db))"
proof (cases "IncidentRecordRequest payload")
  case (Some request)
  show ?thesis unfolding append_record_def Some option.case Let_def
    by (intro changes_and_then[OF changes_get[OF assms]])
      (rule changes_record[OF get_base[OF assms] record_kind_plain[OF Some] refl refl])
qed (simp add: append_record_def)

section \<open>Repairs\<close>

lemma verification_seconds_bounds:
  "VERIFICATION_MIN_SECONDS \<le> verification_seconds_locked e k db \<and>
   verification_seconds_locked e k db \<le> VERIFICATION_MAX_SECONDS"
  by (auto simp: verification_seconds_locked_def Let_def VERIFICATION_MIN_SECONDS_def
      VERIFICATION_MAX_SECONDS_def REPAIR_VERIFICATION_SECONDS_def seconds_def split: list.splits)

lemma pending_proposal_Inr:
  assumes "ts_base db" "pending_proposal_locked e now r k db = Inr (row, db1)"
  shows "db1 = expire_repairs_locked e now db" "row \<in> set (ts_repairs db1)" "rp_repair_id row = r"
    "rp_incident_id row = k" "rp_status row = Proposed" "ts_base db1" "changes db db1"
proof -
  let ?db1 = "expire_repairs_locked e now db"
  show c: "db1 = ?db1" using assms(2)
    by (auto simp: pending_proposal_locked_def Let_def split: option.splits if_splits)
  show "row \<in> set (ts_repairs db1)" "rp_repair_id row = r" "rp_incident_id row = k" "rp_status row = Proposed"
    using assms(2)
    by (auto simp: pending_proposal_locked_def Let_def find_Some_iff split: option.splits if_splits)
  show "changes db db1" unfolding c by (intro writes_changes writes_expire_repairs assms(1))
  then show "ts_base db1" using changes_base assms(1) by blast
qed

lemma changes_decide:
  assumes "ts_base db" "row \<in> set (ts_repairs db)" "rp_repair_id row = r" "rp_status row = Proposed"
    "\<And>q. rp_status q = Proposed \<Longrightarrow> repair_edge q (f q)"
  shows "changes db (decide_locked now r k f a s w db)"
proof -
  let ?db1 = "update_repair r f db"
  have "ts_write db ?db1"
  proof (rule write_repair)
    fix q assume "q \<in> set (ts_repairs db)" "rp_repair_id q = r"
    then have "q = row" using base_repair_eq[OF assms(1)] assms(2,3) by simp
    then show "repair_edge q (f q)" using assms(4,5) by simp
  qed
  moreover have "ts_write ?db1 (decide_locked now r k f a s w db)" unfolding decide_locked_def
    by (rule write_pending_requests) (simp add: answered_request_def)
  ultimately show ?thesis using change_write changes_trans by blast
qed

lemma decided_edges:
  "rp_status q = Proposed \<Longrightarrow> repair_edge q (authorized_row now s w q)"
  "rp_status q = Proposed \<Longrightarrow> repair_edge q (refused_row now s w q)"
  by (rule edge_decide; simp add: same_repair_def authorized_row_def refused_row_def)+

text \<open>A decision on a proposal: the sweep, the decision, the journal.\<close>

lemma changes_decision:
  assumes "ts_base db" "pending_proposal_locked e now r k db = Inr (row, db1)"
    "\<And>q. rp_status q = Proposed \<Longrightarrow> repair_edge q (f q)" "kind \<notin> observed_kinds"
  shows "changes db (record_event k' kind now obs t p (decide_locked now r k f a s w db1))"
proof -
  note pp = pending_proposal_Inr[OF assms(1,2)]
  have "changes db1 (decide_locked now r k f a s w db1)"
    by (rule changes_decide[OF pp(6,2,3,5) assms(3)])
  then show ?thesis using pp(7) changes_event[OF assms(4)] by (blast intro: changes_trans)
qed

lemma changes_authorize:
  assumes "ts_base db"
  shows "changes db (snd (authorize_repair e n1 n k payload db))"
proof (cases "AuthorizationRequest e payload")
  case (Some request)
  show ?thesis unfolding authorize_repair_def Some option.case Let_def
    by (rule changes_and_then[OF changes_get[OF assms]])
      (auto split: sum.splits intro: changes_decision[OF get_base[OF assms]] decided_edges)
qed (simp add: authorize_repair_def)

lemma changes_refuse:
  assumes "ts_base db"
  shows "changes db (snd (refuse_repair e n1 n k r s w db))"
  unfolding refuse_repair_def Let_def
  by (rule changes_and_then[OF changes_get[OF assms]])
    (auto split: sum.splits intro: changes_decision[OF get_base[OF assms]] decided_edges)

lemma writes_count_attempt: "writes db (count_experience_attempt_locked e r now db)"
proof -
  have "writes db (update_repair q (\<lambda>r. r\<lparr>rp_experience_id := x\<rparr>) (update_experience k f db))" for q x k f
    using write_experience[of db k f]
    by (rule rtranclp.rtrancl_into_rtrancl[OF r_into_rtranclp])
      (auto intro!: write_repair edge_count simp: same_repair_def same_execution_def same_authority_def)
  then show ?thesis by (auto simp: count_experience_attempt_locked_def split: option.splits)
qed

lemma count_attempt_repairs:
  "r \<in> set (ts_repairs (count_experience_attempt_locked e row now db)) \<Longrightarrow>
     \<exists>q \<in> set (ts_repairs db). repair_edge q r \<and> rp_status r = rp_status q \<and> same_authority q r"
  by (auto simp: count_experience_attempt_locked_def set_tbl_update same_repair_def same_execution_def same_authority_def
      split: option.splits if_splits intro!: edge_count bexI)

lemma required_repair_Inr:
  "required_repair k db = Inr row \<Longrightarrow> row \<in> set (ts_repairs db) \<and> rp_repair_id row = k"
  by (auto simp: required_repair_def select_repair_def split: option.splits dest: tbl_find_Some_D)

lemma changes_executed:
  assumes "ts_base db"
  shows "changes db (snd (mark_repair_executed e now k db))"
proof (cases "\<exists>row. required_repair k db = Inr row \<and> rp_authorized_at row \<noteq> None \<and> rp_status row = Authorized")
  case True
  then obtain row where row: "required_repair k db = Inr row" "rp_authorized_at row \<noteq> None" "rp_status row = Authorized"
    by blast
  let ?d = "verification_seconds_locked e (rp_incident_id row) db"
  let ?db1 = "count_experience_attempt_locked e row now db"
  let ?db2 = "update_repair k (executed_row now ?d) ?db1"
  have c1: "changes db ?db1" by (rule writes_changes[OF writes_count_attempt])
  have "ts_write ?db1 ?db2"
  proof (rule write_repair)
    fix r assume r: "r \<in> set (ts_repairs ?db1)" "rp_repair_id r = k"
    then obtain q where q: "q \<in> set (ts_repairs db)" "repair_edge q r" "rp_status r = rp_status q"
      using count_attempt_repairs by blast
    then have "rp_repair_id q = k" using repair_edge_same r(2) by (auto simp: same_repair_def)
    then have "q = row" using base_repair_eq[OF assms] required_repair_Inr[OF row(1)] q(1) by simp
    then show "repair_edge r (executed_row now ?d r)"
      using row(3) q(3) verification_seconds_bounds[of e "rp_incident_id row" db]
      by (intro edge_execute[where t = now and d = ?d]) (simp_all add: executed_row_def same_repair_def same_authority_def)
  qed
  then have "changes db ?db2" using c1 change_write changes_trans by blast
  then show ?thesis unfolding mark_repair_executed_def row(1) Let_def using row(2,3)
    by (auto elim!: changes_trans intro: changes_event)
next
  case False
  then show ?thesis by (auto simp: mark_repair_executed_def split: sum.splits)
qed

lemma changes_execution_failed:
  "changes db (snd (mark_repair_execution_failed e now k err db))"
proof (cases "required_repair k db")
  case (Inr row)
  let ?db1 = "if rp_experience_id row = None then count_experience_attempt_locked e row now db else db"
  have c1: "changes db ?db1" using writes_changes[OF writes_count_attempt] by simp
  have c2: "changes db1 (count_experience_outcome_locked r now False db1)" for r db1
    by (rule writes_changes[OF writes_count_outcome])
  have c3: "changes db2 (update_repair k (failed_row now d) db2)" for d db2
    by (rule change_write, rule write_repair, rule edge_fail)
      (simp_all add: failed_row_def same_repair_def same_authority_def)
  show ?thesis unfolding mark_repair_execution_failed_def Inr Let_def sum.case snd_conv
    by (rule changes_trans[OF c1 changes_trans[OF c2 changes_trans[OF c3 changes_event]]]) simp
qed (simp add: mark_repair_execution_failed_def)

lemma run_executor_base:
  assumes "ts_base db" "run_executor e now ex k repair db = (out, db')"
  shows "changes db db'" "ts_base db'"
proof -
  show "changes db db'"
    using assms changes_get[OF assms(1), of e now k]
    by (auto simp: run_executor_def split: option.splits prod.splits sum.splits)
  then show "ts_base db'" using assms(1) changes_base by blast
qed

lemma changes_authorize_and_run:
  assumes "ts_base db"
  shows "changes db (snd (authorize_incident_repair e n1 n2 n3 n4 ex v k payload db))"
  unfolding authorize_incident_repair_def
proof (rule changes_and_then[OF changes_authorize[OF assms]], goal_cases)
  case (1 repair db1)
  have b1: "ts_base db1" using changes_authorize[OF assms, of e n1 n2 k payload] 1 changes_base assms by (metis snd_conv)
  obtain out db2 where run: "run_executor e n3 ex k repair db1 = (out, db2)" by force
  note b2 = run_executor_base[OF b1 run]
  have fin: "changes db2 (snd (and_then (mark_repair_executed e n4 (rp_repair_id (rv_row repair)) db2) (\<lambda>executed db3.
             (Inr executed, if v then snd (get_incident e n4 k db3) else db3))))"
  proof (rule changes_and_then[OF changes_executed[OF b2(2)]], goal_cases)
    case (1 executed db3)
    then have "ts_base db3" using changes_executed[OF b2(2)] changes_base b2(2) by (metis snd_conv)
    then show ?case using changes_get by simp
  qed
  show ?case
  proof (cases out)
    case None
    then show ?thesis using fin b2(1) by (auto simp: run intro: changes_trans)
  next
    case (Some err)
    then show ?thesis using b2(1) changes_execution_failed by (auto simp: run intro: changes_trans)
  qed
qed

lemma changes_experience_state: "changes db (snd (set_experience_state now x payload db))"
  by (auto simp: set_experience_state_def Let_def split: option.splits intro: change_write[OF write_experience])

lemma changes_propose:
  assumes "ts_base db"
  shows "changes db (snd (propose_repair e n1 n r q known k spec db))"
  unfolding propose_repair_def
proof (rule changes_and_then[OF changes_get[OF assms]], goal_cases)
  case (1 incident db1)
  obtain row where row: "select_incident k db = Some row" "i_incident_id (iv_row incident) = k"
    "active (iv_row incident) = active row" "db1 = expire_repairs_locked e n1 db"
    using 1 by (rule get_incident_Inr)
  have "changes db1 (insert_proposal e n r q incident spec known db1)"
    if "active row" "select_repair r db1 = None" "tbl_find rq_request_id q (ts_requests db1) = None"
  proof -
    let ?r = "new_repair r k spec n known"
    let ?db2 = "db1\<lparr>ts_repairs := ts_repairs db1 @ [?r]\<rparr>"
    have "ts_write db1 ?db2"
      by (rule w_propose[where i = row]) (use that row in \<open>simp_all add: new_repair_def\<close>)
    moreover have "ts_write ?db2 (?db2\<lparr>ts_requests := ts_requests ?db2 @ [u]\<rparr>)" if "rq_request_id u = q" for u
      by (rule w_request) (use that \<open>tbl_find rq_request_id q (ts_requests db1) = None\<close> in \<open>simp add: select_request_def\<close>)
    ultimately have "changes db1 (?db2\<lparr>ts_requests := ts_requests ?db2 @ [u]\<rparr>)" if "rq_request_id u = q" for u
      using that change_write changes_trans by blast
    then show ?thesis unfolding insert_proposal_def row(2) Let_def
      by (rule changes_trans[OF _ changes_event]) (simp_all add: new_request_def)
  qed
  then show ?case using row(3) by (auto simp: Let_def split: option.splits)
qed

section \<open>Requests and manual actions\<close>

lemma insert_manual_Inr:
  "insert_manual row db = Inr db1 \<longleftrightarrow>
     tbl_find ma_action_id (ma_action_id row) (ts_manual db) = None \<and> db1 = db\<lparr>ts_manual := ts_manual db @ [row]\<rparr>"
  by (auto simp: insert_manual_def)

lemma changes_insert_manual:
  assumes "insert_manual row db = Inr db1"
    "ma_status row = ManualVerifying \<Longrightarrow>
      \<not> list_ex (\<lambda>q. ma_incident_id q = ma_incident_id row \<and> ma_status q = ManualVerifying) (ts_manual db)"
  shows "changes db (record_event k ''action'' now None t p db1)"
proof -
  have "ts_write db db1" using assms by (auto simp: insert_manual_Inr intro!: w_declare)
  then show ?thesis by (rule changes_trans[OF change_write changes_event]) simp
qed

lemma changes_declare:
  "changes db (snd (declare_manual_resolution e now a k payload db))"
proof -
  have late: "changes db db'" if "declare_after_resolution_locked e now a row t request db = Inr (v, db')" for row t request v db'
    using that by (auto simp: declare_after_resolution_locked_def Let_def new_manual_def split: if_splits sum.splits
        intro!: changes_insert_manual)
  have now: "changes db db'" if "declare_active_locked e now a k request db = Inr (v, db')" for request v db'
    using that by (auto simp: declare_active_locked_def Let_def new_manual_def split: if_splits sum.splits
        intro!: changes_insert_manual)
  show ?thesis unfolding declare_manual_resolution_def
    by (auto split: option.splits intro!: changes_transaction intro: late now)
qed

lemma base_request_eq:
  "ts_base db \<Longrightarrow> r \<in> set (ts_requests db) \<Longrightarrow> q \<in> set (ts_requests db) \<Longrightarrow>
     rq_request_id r = rq_request_id q \<Longrightarrow> r = q"
  by (rule distinct_key_same[of rq_request_id]) (auto simp: ts_base_def)

lemma write_followups: "ts_write db (db\<lparr>ts_followups := fs\<rparr>)"
  using w_other[where db = db and a = "ts_states db" and b = "ts_processed db" and c = "ts_purged_on db"
      and d = "ts_experiences db" and f = fs] by simp

lemma changes_expire_requests: "changes db (expire_user_requests_locked e now db)"
  unfolding expire_user_requests_locked_def Let_def
  by (rule changes_trans[OF change_write change_write[OF write_followups]]) (rule write_pending_requests, simp)

lemma required_pending_Inr:
  assumes "required_pending_user_request k db = Inr r"
  shows "r \<in> set (ts_requests db)" "rq_request_id r = k" "rq_state r = Pending"
    "\<exists>i. select_incident (rq_incident_id r) db = Some i \<and> active i"
  using assms by (auto simp: required_pending_user_request_def required_user_request_def select_request_def
      split: sum.splits option.splits if_splits dest: tbl_find_Some_D)

lemma changes_update_request:
  assumes "ts_base db" "r \<in> set (ts_requests db)" "rq_request_id r = k" "rq_state r = Pending"
    "\<And>r. rq_request_id (f r) = rq_request_id r \<and> rq_incident_id (f r) = rq_incident_id r \<and>
      rq_kind (f r) = rq_kind r \<and> rq_action_reference (f r) = rq_action_reference r \<and> rq_choices (f r) = rq_choices r"
  shows "changes db (update_request k f db)"
proof (rule change_write)
  have "request_edge q (if rq_request_id q = k then f q else q)" if "q \<in> set (ts_requests db)" for q
    using base_request_eq[OF assms(1) that assms(2)] assms(3-5) by (auto simp: request_edge_def)
  then show "ts_write db (update_request k f db)"
    unfolding update_request_def tbl_update_def by (rule w_requests)
qed

lemma returning_request_Inr: "returning_request k db = Inr (v, db') \<Longrightarrow> db' = db"
  by (auto simp: returning_request_def split: sum.splits)

text \<open>A settled request: the sweep, the update, the journal.\<close>

lemma changes_settle:
  assumes "ts_base db" "required_pending_user_request k (expire_user_requests_locked e now db) = Inr r"
    "\<And>r. rq_request_id (f r) = rq_request_id r \<and> rq_incident_id (f r) = rq_incident_id r \<and>
      rq_kind (f r) = rq_kind r \<and> rq_action_reference (f r) = rq_action_reference r \<and> rq_choices (f r) = rq_choices r"
  shows "changes db (record_event i ''decision'' now None t p
    (update_request k f (expire_user_requests_locked e now db)))"
proof -
  let ?db1 = "expire_user_requests_locked e now db"
  have c1: "changes db ?db1" by (rule changes_expire_requests)
  then have "ts_base ?db1" using assms(1) changes_base by blast
  then have "changes ?db1 (update_request k f ?db1)"
    by (rule changes_update_request) (rule required_pending_Inr[OF assms(2)] assms(3))+
  then show ?thesis by (rule changes_trans[OF changes_trans[OF c1] changes_event]) simp
qed

lemma changes_defer:
  assumes "ts_base db"
  shows "changes db (snd (defer_user_request e now k payload db))"
proof -
  have "changes db db'" if "defer_body e now k response db = Inr (v, db')" for response v db'
    using that by (auto simp: defer_body_def Let_def split: sum.splits if_splits
        dest!: returning_request_Inr intro!: changes_settle[OF assms])
  then show ?thesis unfolding defer_user_request_def
    by (auto split: option.splits intro!: changes_transaction)
qed

lemma changes_answer:
  assumes "ts_base db"
  shows "changes db (snd (answer_user_request e now k payload db))"
proof -
  have "changes db db'" if "answer_body e now k response db = Inr (v, db')" for response v db'
    using that by (auto simp: answer_body_def Let_def answered_request_def split: sum.splits if_splits
        dest!: returning_request_Inr intro!: changes_settle[OF assms])
  then show ?thesis unfolding answer_user_request_def
    by (auto split: option.splits intro!: changes_transaction changes_defer[OF assms])
qed

lemma changes_request_reads:
  "changes db (snd (get_user_request e now k db))" "changes db (snd (list_user_requests e now st n db))"
proof -
  show "changes db (snd (get_user_request e now k db))" unfolding get_user_request_def
    by (rule changes_transaction) (use changes_expire_requests in \<open>auto dest!: returning_request_Inr\<close>)
  show "changes db (snd (list_user_requests e now st n db))"
    by (auto simp: list_user_requests_def Let_def intro: changes_expire_requests)
qed

section \<open>Follow-ups\<close>

lemma changes_propose_followup:
  "changes db (snd (propose_followup e now q k job basis plan db))"
proof -
  have "changes db (record_event k ''action'' now None t p
      (db\<lparr>ts_followups := fs, ts_requests := ts_requests db @ [u]\<rparr>))"
    if "select_request (rq_request_id u) db = None" for t p fs u
  proof -
    have "ts_write (db\<lparr>ts_followups := fs\<rparr>) (db\<lparr>ts_followups := fs, ts_requests := ts_requests db @ [u]\<rparr>)"
      using w_request[of u "db\<lparr>ts_followups := fs\<rparr>"] that by (simp add: select_request_def)
    then show ?thesis
      by (intro changes_trans[OF change_write[OF write_followups] changes_trans[OF change_write changes_event]]) simp_all
  qed
  then show ?thesis unfolding propose_followup_def Let_def
    by (simp add: new_request_def split: option.splits)
qed

lemma changes_answer_followup:
  assumes "ts_base db"
  shows "changes db (snd (answer_followup e now q c d job auto src db))"
proof -
  have "changes db db'" if body: "answer_followup_body e now q c d job auto src db = Inr (v, db')" for v db'
  proof -
    let ?db1 = "expire_user_requests_locked e now db"
    from body obtain r where r: "required_pending_user_request q ?db1 = Inr r"
      by (auto simp: answer_followup_body_def Let_def split: sum.splits)
    have c2: "changes db (update_followup_row q f ?db1)" for f
      unfolding update_followup_row_def by (rule changes_trans[OF changes_expire_requests change_write[OF write_followups]])
    have "changes (update_followup_row q f ?db1)
        (update_request q (answered_request now a s w) (update_followup_row q f ?db1))" for f a s w
      by (rule changes_update_request[where r = r])
        (use required_pending_Inr[OF r] changes_base[OF c2 assms] in
          \<open>simp_all add: update_followup_row_def answered_request_def\<close>)
    then have c3: "changes db (record_event i ''decision'' now None t p
        (update_request q (answered_request now a s w) (update_followup_row q f ?db1)))" for f a s w i t p
      by (intro changes_trans[OF c2 changes_trans[OF _ changes_event]]) simp_all
    show ?thesis using body by (auto simp: answer_followup_body_def Let_def r intro: c3 split: if_splits)
  qed
  then have "changes db (snd (transaction db (answer_followup_body e now q c d job auto src)))"
    by (rule changes_transaction)
  then show ?thesis unfolding answer_followup_def by (auto intro!: changes_and_then)
qed

lemma changes_update_followup: "changes db (snd (update_followup now q st d r db))"
  unfolding update_followup_def update_followup_row_def Let_def
  by (auto split: sum.splits intro!: changes_trans[OF change_write[OF write_followups] changes_event])

section \<open>Known repairs and the service\<close>

lemma write_experiences: "ts_write db (db\<lparr>ts_experiences := xs\<rparr>)"
  using w_other[where db = db and a = "ts_states db" and b = "ts_processed db" and c = "ts_purged_on db"
      and d = xs and f = "ts_followups db"] by simp

lemma changes_save:
  "save_experience e now x incident c a request db = Inr (y, db') \<Longrightarrow> changes db db'"
  by (auto simp: save_experience_def split: option.splits if_splits intro: change_write[OF write_experiences])

lemma changes_confirm:
  assumes "ts_base db"
  shows "changes db (snd (confirm_experience e n1 n x k payload db))"
proof (cases "ConfirmationRequest payload")
  case (Some request)
  show ?thesis unfolding confirm_experience_def Some option.case Let_def
    by (rule changes_and_then[OF changes_get[OF assms]])
      (auto split: option.splits sum.splits intro!: changes_trans[OF changes_save changes_event])
qed (simp add: confirm_experience_def)

lemma and_then_base:
  "changes db (snd r) \<Longrightarrow> ts_base db \<Longrightarrow> r = (v, db1) \<Longrightarrow> ts_base db1"
  by (metis changes_base snd_conv)

lemma changes_refuse_incident:
  "ts_base db \<Longrightarrow> changes db (snd (refuse_incident_repair e n1 n k payload db))"
  by (simp add: refuse_incident_repair_def changes_refuse split: option.splits)

lemma changes_get_then:
  assumes "ts_base db" "\<And>v db1. snd (f v db1) = db1"
  shows "changes db (snd (and_then (get_incident e n k db) f))"
  by (rule changes_and_then[OF changes_get[OF assms(1)]]) (simp add: assms(2))

lemma changes_defer_incident:
  assumes "ts_base db"
  shows "changes db (snd (defer_incident_repair e n1 n n2 k payload db))"
proof (cases "DecisionRequest e payload")
  case (Some request)
  have "changes db1 (snd (and_then (defer_user_request e n u p db1) (\<lambda>w db2.
      and_then (get_incident e n2 k db2) (\<lambda>incident db3.
        case repair_in j incident of None \<Rightarrow> (Inl (RuntimeError ''StopIteration''), db3) | Some v \<Rightarrow> (Inr v, db3)))))"
    if "ts_base db1" for db1 u p j
    by (rule changes_and_then[OF changes_defer[OF that]], rule changes_get_then)
      (auto split: option.splits intro: and_then_base[OF changes_defer[OF that] that])
  then show ?thesis unfolding defer_incident_repair_def Some option.case
    by (intro changes_and_then[OF changes_get[OF assms]]) (auto split: option.splits dest: get_base[OF assms])
qed (simp add: defer_incident_repair_def)

section \<open>Every operation\<close>

lemma changes_list: "ts_base db \<Longrightarrow> changes db (snd (list_incidents e now st n db))"
  by (auto simp: list_incidents_def Let_def split: option.splits intro: writes_changes writes_expire_repairs)

lemma changes_exec:
  assumes "ts_base db"
  shows "changes db (exec_ts e op db)"
  using assms
  by (cases op) (simp_all add: changes_process changes_removed reconcile_network_devices_def changes_get changes_list
      changes_append_record changes_propose changes_authorize changes_refuse changes_executed changes_execution_failed
      changes_authorize_and_run changes_experience_state changes_confirm
      changes_refuse_incident changes_defer_incident changes_declare changes_defer changes_answer
      changes_request_reads changes_propose_followup changes_answer_followup changes_update_followup
      change_write[OF write_books(3)])

text \<open>What every change keeps, given unique keys, holds in every reachable database.\<close>

locale incident_invariant =
  fixes I :: "tsdb \<Rightarrow> bool"
  assumes init: "I empty_tsdb"
    and kept_write: "ts_base db \<Longrightarrow> I db \<Longrightarrow> ts_write db db' \<Longrightarrow> I db'"
    and kept_closing: "ts_base db \<Longrightarrow> I db \<Longrightarrow> closing db db' \<Longrightarrow> I db'"
begin

lemma kept_changes: "changes db db' \<Longrightarrow> ts_base db \<Longrightarrow> I db \<Longrightarrow> ts_base db' \<and> I db'"
proof (induction rule: rtranclp_induct)
  case (step y z)
  then show ?case using ts_base_change[of y z] kept_write[of y z] kept_closing[of y z]
    by (auto simp: change_def)
qed simp

lemma exec_kept: "ts_base db \<Longrightarrow> I db \<Longrightarrow> ts_base (exec_ts e op db) \<and> I (exec_ts e op db)"
  by (rule kept_changes[OF changes_exec])

lemma reachable: "ts_reachable e db \<Longrightarrow> ts_base db \<and> I db"
proof (induction rule: ts_reachable.induct)
  case ts_start
  then show ?case using ts_base_empty init by simp
next
  case (ts_next db db')
  then show ?case using exec_kept by (auto elim!: ts_stepE)
qed

end

text \<open>A predicate that does not depend on open proposals only looks at the single writes.\<close>

locale write_invariant =
  fixes I :: "tsdb \<Rightarrow> bool"
  assumes start: "I empty_tsdb"
    and written: "ts_base db \<Longrightarrow> I db \<Longrightarrow> ts_write db db' \<Longrightarrow> I db'"
    and ended: "ts_base db \<Longrightarrow> I db \<Longrightarrow> ending db db' \<Longrightarrow> I db'"
begin

lemma kept_writes: "writes db db' \<Longrightarrow> ts_base db \<Longrightarrow> I db \<Longrightarrow> ts_base db' \<and> I db'"
  by (induction rule: rtranclp_induct) (auto dest: written ts_base_write)

lemma kept_by_closing: "ts_base db \<Longrightarrow> I db \<Longrightarrow> closing db db' \<Longrightarrow> I db'"
  by (auto elim!: closing.cases dest: kept_writes ts_base_ending ended)

end

sublocale write_invariant \<subseteq> incident_invariant
  by unfold_locales (auto intro: start written kept_by_closing)

end
