(* ===== verification/Incident_Invariants.thy ===== *)
theory Incident_Invariants
  imports Incident_Steps
begin

text \<open>
  Invariants of the incident database, each an interpretation of the interface of Incident_Steps:
  supervised repairs, the counts of the journal, one manual verification at a time, live proposals.
\<close>

section \<open>Supervised repairs\<close>

definition repair_ok :: "repair_row \<Rightarrow> bool" where
  "repair_ok r =
     ((rp_status r \<in> {Authorized, Refused, Verifying, Succeeded, Unverified} \<longrightarrow>
         rp_authorized_at r \<noteq> None \<and> rp_authorization_source r \<noteq> None \<and> rp_authorized_by r \<noteq> None) \<and>
      (rp_status r \<in> {Verifying, Succeeded, Unverified} \<longrightarrow>
         (case (rp_executed_at r, rp_verification_deadline r) of
            (Some t, Some deadline) \<Rightarrow>
              t + seconds VERIFICATION_MIN_SECONDS \<le> deadline \<and>
              deadline \<le> t + seconds VERIFICATION_MAX_SECONDS
          | _ \<Rightarrow> False)))"

definition repairs_ok :: "tsdb \<Rightarrow> bool" where
  "repairs_ok db = list_all repair_ok (ts_repairs db)"

lemma repair_edge_ok: "repair_edge r r' \<Longrightarrow> repair_ok r \<Longrightarrow> repair_ok r'"
proof (induction rule: repair_edge.induct)
  case (edge_execute r r' t d)
  then show ?case by (simp add: repair_ok_def same_authority_def)
next
  case (edge_decide r r')
  then show ?case by (elim insertE) (simp_all add: repair_ok_def)
next
  case (edge_conclude r r')
  then show ?case by (elim insertE) (simp_all add: repair_ok_def same_execution_def same_authority_def)
qed (simp_all add: repair_ok_def same_execution_def same_authority_def)

lemma repairs_ok_write: "ts_write db db' \<Longrightarrow> repairs_ok db \<Longrightarrow> repairs_ok db'"
proof (induction rule: ts_write.induct)
  case (w_propose r db i)
  then show ?case by (simp add: repairs_ok_def repair_ok_def)
next
  case (w_repair db k f)
  have "repair_ok (f r)" if "r \<in> set (ts_repairs db)" "rp_repair_id r = k" for r
    using w_repair that by (intro repair_edge_ok[of r "f r"]) (auto simp: repairs_ok_def list_all_iff)
  then show ?case using w_repair(2) by (auto simp: repairs_ok_def list_all_iff set_tbl_update split: if_splits)
qed (simp_all add: repairs_ok_def)

interpretation supervised: write_invariant repairs_ok
  by unfold_locales (auto simp: repairs_ok_def empty_tsdb_def elim: ending.cases
      intro: repairs_ok_write[unfolded repairs_ok_def])

section \<open>Counts\<close>

definition observations_of :: "string \<Rightarrow> tsdb \<Rightarrow> event_row list" where
  "observations_of k db = filter (\<lambda>ev. ev_incident_id ev = k \<and> ev_kind ev \<in> observed_kinds) (ts_events db)"

definition occurrences_ok :: "tsdb \<Rightarrow> bool" where
  "occurrences_ok db =
     (list_all (\<lambda>i. i_occurrence_count i = int (length (observations_of (i_incident_id i) db))) (ts_incidents db) \<and>
      list_all (\<lambda>ev. ev_kind ev \<in> observed_kinds \<longrightarrow>
        ev_incident_id ev \<in> set (map i_incident_id (ts_incidents db))) (ts_events db))"

lemma observations_events:
  "observations_of k (db\<lparr>ts_incidents := xs, ts_events := ts_events db @ [ev]\<rparr>) =
     observations_of k db @ (if ev_incident_id ev = k \<and> ev_kind ev \<in> observed_kinds then [ev] else [])"
  "observations_of k (db\<lparr>ts_events := ts_events db @ [ev]\<rparr>) =
     observations_of k db @ (if ev_incident_id ev = k \<and> ev_kind ev \<in> observed_kinds then [ev] else [])"
  by (simp_all add: observations_of_def)

lemma observations_none:
  assumes "occurrences_ok db" "select_incident k db = None"
  shows "observations_of k db = []"
  using assms
  by (auto simp: occurrences_ok_def observations_of_def list_all_iff filter_empty_conv select_incident_def tbl_find_None)

lemma occurrences_ok_update:
  assumes "occurrences_ok db" "\<And>i. i_incident_id (f i) = i_incident_id i"
    "\<And>i. i_occurrence_count (f i) = i_occurrence_count i"
  shows "occurrences_ok (db\<lparr>ts_incidents := tbl_update i_incident_id k f (ts_incidents db)\<rparr>)"
  using assms tbl_update_keys[of i_incident_id f k "ts_incidents db"]
  by (auto simp: occurrences_ok_def observations_of_def list_all_iff set_tbl_update simp del: set_map split: if_splits)

lemma occurrences_ok_write: "ts_write db db' \<Longrightarrow> occurrences_ok db \<Longrightarrow> occurrences_ok db'"
proof (induction rule: ts_write.induct)
  case (w_event ev db)
  then show ?case by (simp add: occurrences_ok_def observations_events)
next
  case (w_open i db ev)
  have none: "observations_of (i_incident_id i) db = []" using w_open observations_none by blast
  have new: "\<forall>j \<in> set (ts_incidents db). i_incident_id j \<noteq> i_incident_id i"
    using w_open(1) by (metis image_eqI select_incident_def tbl_find_None)
  show ?case using w_open none new
    by (auto simp: occurrences_ok_def list_all_iff observations_events observed_kinds_def)
next
  case (w_observe k db f ev)
  have k: "k \<in> set (map i_incident_id (ts_incidents db))"
    using w_observe(1) by (auto simp: select_incident_def tbl_find_None)
  have kind: "ev_kind ev \<in> observed_kinds" using w_observe(3) by (auto simp: observed_kinds_def)
  have f: "i_incident_id (f i) = i_incident_id i" "i_occurrence_count (f i) = i_occurrence_count i + 1" for i
    using w_observe(2) by (simp_all add: same_incident_def)
  have "\<forall>r \<in> set (ts_incidents db). i_occurrence_count r = int (length (observations_of (i_incident_id r) db))"
    using w_observe(5) by (simp add: occurrences_ok_def list_all_iff)
  then have "\<forall>r \<in> set (tbl_update i_incident_id k f (ts_incidents db)).
      i_occurrence_count r = int (length (observations_of (i_incident_id r) db)) + (if i_incident_id r = k then 1 else 0)"
    using f by (auto simp: tbl_update_def)
  moreover have "map i_incident_id (tbl_update i_incident_id k f (ts_incidents db)) = map i_incident_id (ts_incidents db)"
    by (rule tbl_update_keys) (rule f(1))
  ultimately show ?case using w_observe(4,5) k kind
    by (auto simp: occurrences_ok_def list_all_iff observations_events simp del: set_map)
next
  case (w_incident f db k)
  then show ?case by (intro occurrences_ok_update) (simp_all add: same_incident_def)
qed (simp_all add: occurrences_ok_def observations_of_def)

lemma occurrences_ok_ending: "ending db db' \<Longrightarrow> occurrences_ok db \<Longrightarrow> occurrences_ok db'"
  by (auto elim!: ending.cases intro!: occurrences_ok_update simp: same_incident_def)

lemma occurrences_ok_empty: "occurrences_ok empty_tsdb"
  by (simp add: occurrences_ok_def empty_tsdb_def)

interpretation occurrences: write_invariant occurrences_ok
  by unfold_locales (auto intro: occurrences_ok_empty occurrences_ok_write occurrences_ok_ending)

text \<open>An incident counts the earlier incidents of its capability.\<close>

definition recurrences_ok :: "tsdb \<Rightarrow> bool" where
  "recurrences_ok db =
     list_all (\<lambda>n. i_recurrence_count (ts_incidents db ! n) =
       int (length (filter (\<lambda>j. incident_key j = incident_key (ts_incidents db ! n)) (take n (ts_incidents db)))))
       [0..<length (ts_incidents db)]"

lemma recurrences_ok_update:
  assumes "recurrences_ok db" "\<And>i. same_incident i (f i)"
  shows "recurrences_ok (db\<lparr>ts_incidents := tbl_update i_incident_id k f (ts_incidents db)\<rparr>)"
proof -
  let ?xs = "ts_incidents db"
  let ?g = "\<lambda>i. if i_incident_id i = k then f i else i"
  have g: "incident_key (?g i) = incident_key i" "i_recurrence_count (?g i) = i_recurrence_count i" for i
    using assms(2)[of i] by (auto simp: same_incident_def)
  have "length (filter (\<lambda>j. incident_key j = c) (take n (map ?g ?xs))) = length (filter (\<lambda>j. incident_key j = c) (take n ?xs))" for n c
    by (simp add: take_map filter_map o_def g)
  then show ?thesis using assms(1) g
    by (simp add: recurrences_ok_def list_all_iff tbl_update_def)
qed

lemma recurrences_ok_write: "ts_write db db' \<Longrightarrow> recurrences_ok db \<Longrightarrow> recurrences_ok db'"
proof (induction rule: ts_write.induct)
  case (w_open i db ev)
  then show ?case by (auto simp: recurrences_ok_def list_all_iff nth_append recurrence_def)
next
  case (w_observe k db f ev)
  then have "recurrences_ok (db\<lparr>ts_incidents := tbl_update i_incident_id k f (ts_incidents db)\<rparr>)"
    by (intro recurrences_ok_update) simp_all
  then show ?case by (simp add: recurrences_ok_def)
next
  case (w_incident f db k)
  then show ?case by (intro recurrences_ok_update) simp_all
qed (simp_all add: recurrences_ok_def)

lemma recurrences_ok_ending: "ending db db' \<Longrightarrow> recurrences_ok db \<Longrightarrow> recurrences_ok db'"
  by (auto elim!: ending.cases intro!: recurrences_ok_update)

lemma recurrences_ok_empty: "recurrences_ok empty_tsdb"
  by (simp add: recurrences_ok_def empty_tsdb_def)

interpretation recurrences: write_invariant recurrences_ok
  by unfold_locales (auto intro: recurrences_ok_empty recurrences_ok_write recurrences_ok_ending)

section \<open>Manual verifications\<close>

definition verifying_actions :: "string \<Rightarrow> tsdb \<Rightarrow> manual_row list" where
  "verifying_actions k db = filter (\<lambda>r. ma_incident_id r = k \<and> ma_status r = ManualVerifying) (ts_manual db)"

definition manual_ok :: "tsdb \<Rightarrow> bool" where
  "manual_ok db = list_all (\<lambda>r. length (verifying_actions (ma_incident_id r) db) \<le> 1) (ts_manual db)"

lemma manual_ok_all: "manual_ok db \<longleftrightarrow> (\<forall>k. length (verifying_actions k db) \<le> 1)"
proof
  assume ok: "manual_ok db"
  show "\<forall>k. length (verifying_actions k db) \<le> 1"
  proof
    fix k
    show "length (verifying_actions k db) \<le> 1"
    proof (cases "verifying_actions k db")
      case (Cons r rs)
      then have "r \<in> set (ts_manual db)" "ma_incident_id r = k"
        by (auto simp: verifying_actions_def dest!: filter_eq_ConsD)
      then show ?thesis using ok by (auto simp: manual_ok_def list_all_iff)
    qed simp
  qed
qed (simp add: manual_ok_def list_all_iff)

lemma filter_update_length:
  assumes "\<And>r. P (f r) \<Longrightarrow> P r"
  shows "length (filter P (tbl_update key k f xs)) \<le> length (filter P xs)"
proof (induction xs)
  case (Cons x xs)
  have "tbl_update key k f (x # xs) = (if key x = k then f x else x) # tbl_update key k f xs"
    by (simp add: tbl_update_def)
  then show ?case using Cons assms[of x] by auto
qed (simp add: tbl_update_def)

lemma manual_ok_write: "ts_write db db' \<Longrightarrow> manual_ok db \<Longrightarrow> manual_ok db'"
  unfolding manual_ok_all
proof (induction rule: ts_write.induct)
  case (w_declare r db)
  have "verifying_actions (ma_incident_id r) db = []" if "ma_status r = ManualVerifying"
    using w_declare(2)[OF that] by (auto simp: verifying_actions_def list_ex_iff filter_empty_conv)
  then show ?case using w_declare(3) by (auto simp: verifying_actions_def)
next
  case (w_manual f db k)
  have "length (verifying_actions j (db\<lparr>ts_manual := tbl_update ma_action_id k f (ts_manual db)\<rparr>)) \<le>
      length (verifying_actions j db)" for j
  proof -
    let ?P = "\<lambda>r. ma_incident_id r = j \<and> ma_status r = ManualVerifying"
    have "?P (f r) \<Longrightarrow> ?P r" for r using w_manual(1)[of r] unfolding manual_edge_def by metis
    then have "length (filter ?P (tbl_update ma_action_id k f (ts_manual db))) \<le> length (filter ?P (ts_manual db))"
      by (rule filter_update_length)
    then show ?thesis by (simp add: verifying_actions_def)
  qed
  then show ?case using w_manual(2) order_trans by blast
qed (simp_all add: verifying_actions_def)

lemma manual_ok_ending: "ending db db' \<Longrightarrow> manual_ok db \<Longrightarrow> manual_ok db'"
  by (auto simp: manual_ok_def verifying_actions_def elim!: ending.cases)

lemma manual_ok_empty: "manual_ok empty_tsdb"
  by (simp add: manual_ok_def empty_tsdb_def)

interpretation manual: write_invariant manual_ok
  by unfold_locales (auto intro: manual_ok_empty manual_ok_write manual_ok_ending)

section \<open>Live proposals\<close>

lemma select_update_active:
  assumes "\<And>i. i_incident_id (f i) = i_incident_id i" "\<And>i. active (f i) = active i"
  shows "(case tbl_find i_incident_id j (tbl_update i_incident_id k f xs) of None \<Rightarrow> False | Some i \<Rightarrow> active i) =
    (case tbl_find i_incident_id j xs of None \<Rightarrow> False | Some i \<Rightarrow> active i)"
  using assms by (induction xs) (auto simp: tbl_update_def tbl_find_def)

lemma proposals_live_write: "ts_write db db' \<Longrightarrow> ts_base db \<Longrightarrow> proposals_live db \<Longrightarrow> proposals_live db'"
proof (induction rule: ts_write.induct)
  case (w_open i db ev)
  then show ?case
    by (auto simp: proposals_live_def list_all_iff select_incident_def tbl_find_append split: option.splits)
next
  case (w_observe k db f ev)
  then show ?case
    by (simp add: proposals_live_def list_all_iff select_incident_def select_update_active same_incident_def)
next
  case (w_incident f db k)
  then show ?case
    by (simp add: proposals_live_def list_all_iff select_incident_def select_update_active same_incident_def)
next
  case (w_propose r db i)
  then show ?case by (simp add: proposals_live_def select_incident_def)
next
  case (w_repair db k f)
  have "rp_status q = Proposed" if "repair_edge q (f q)" "rp_status (f q) = Proposed" for q
    using that by (auto elim: repair_edge.cases)
  then show ?case using w_repair repair_edge_same
    by (fastforce simp: proposals_live_def list_all_iff select_incident_def set_tbl_update same_repair_def split: if_splits)
qed (simp_all add: proposals_live_def select_incident_def)

lemma proposals_live_closing: "closing db db' \<Longrightarrow> proposals_live db'"
  by (auto elim: closing.cases)

lemma proposals_live_empty: "proposals_live empty_tsdb"
  by (simp add: proposals_live_def empty_tsdb_def)

interpretation live: incident_invariant proposals_live
  by unfold_locales (auto intro: proposals_live_empty proposals_live_write proposals_live_closing)

end
