(* ===== verification/Incident_Samples.thy ===== *)
theory Incident_Samples
  imports Incident_Invariants Samples
begin

text \<open>
  A run of the incident repository on concrete inputs: the mail server fails, Tsunade proposes a
  restart, the service recovers.
\<close>

definition demo_fault :: observation where
  "demo_fault = \<lparr>ob_id = ''o1'', ob_node = ''n'', ob_service = ''s'', ob_capability = ''c'',
     ob_status = UNHEALTHY, ob_success = False, ob_message = ''ko'', ob_source = ''probe'',
     ob_timestamp = seconds 100, ob_latency_ms = None, ob_metadata = JObj []\<rparr>"

definition demo_recovery :: observation where
  "demo_recovery = demo_fault\<lparr>ob_id := ''o2'', ob_status := HEALTHY, ob_success := True, ob_message := ''ok'',
     ob_timestamp := seconds 900\<rparr>"

definition demo_readings :: "int \<Rightarrow> readings" where
  "demo_readings s = \<lparr>rd_today = seconds s, rd_purge = seconds s, rd_get = seconds s, rd_mark = seconds s\<rparr>"

definition demo_age :: "string \<Rightarrow> int option" where
  "demo_age s = None"

definition demo_repair_id :: string where
  "demo_repair_id = replicate 36 (CHR ''r'')"

definition demo_spec :: repair_spec where
  "demo_spec = hd REPAIRS"

definition opened_db :: tsdb where
  "opened_db = exec_ts demo_env (TsProcess demo_age False ''i1'' (demo_readings 100) demo_fault) empty_tsdb"

definition proposed_db :: tsdb where
  "proposed_db = exec_ts demo_env (TsPropose (seconds 110) (seconds 110) demo_repair_id ''q1'' None ''i1'' demo_spec) opened_db"

definition demo_consent :: json where
  "demo_consent = JObj [(''repair_id'', JStr demo_repair_id), (''source'', JStr ''vision'')]"

definition authorized_db :: tsdb where
  "authorized_db = exec_ts demo_env (TsAuthorize (seconds 120) (seconds 120) ''i1'' demo_consent) proposed_db"

definition executed_db :: tsdb where
  "executed_db = exec_ts demo_env (TsExecuted (seconds 130) demo_repair_id) authorized_db"

definition recovered_db :: tsdb where
  "recovered_db = exec_ts demo_env (TsProcess demo_age False ''i2'' (demo_readings 900) demo_recovery) executed_db"

text \<open>The fault opens an incident; evaluated once.\<close>

lemma demo_opened:
  "(case process demo_env demo_age False ''i1'' (demo_readings 100) demo_fault empty_tsdb of
      (Inr v, db) \<Rightarrow> map i_occurrence_count (ts_incidents db) = [1] \<and> ts_purged_on db = Some 0 | _ \<Rightarrow> False)"
  by code_simp

lemma demo_openedE:
  obtains v where "process demo_env demo_age False ''i1'' (demo_readings 100) demo_fault empty_tsdb = (Inr v, opened_db)"
    "map i_occurrence_count (ts_incidents opened_db) = [1]" "ts_purged_on opened_db = Some 0"
  using demo_opened by (auto simp: opened_db_def split: prod.splits sum.splits)

text \<open>An incident with a proposal that waits for a decision, as rows.\<close>

definition waiting_db :: tsdb where
  "waiting_db = empty_tsdb
     \<lparr>ts_incidents := [new_incident ''i1'' demo_fault Critical empty_tsdb],
      ts_repairs := [new_repair demo_repair_id ''i1'' demo_spec (seconds 110) None],
      ts_requests := [new_request ''q1'' ''i1'' ''repair_authorization'' ''c'' ''q'' ''low'' (seconds 110)
        (seconds 110 + days 7) demo_repair_id]\<rparr>"

lemma waiting_base: "ts_base waiting_db"
  by code_simp

lemma waiting_authorized:
  obtains repair db where "authorize_repair demo_env (seconds 120) (seconds 120) ''i1'' demo_consent waiting_db = (Inr repair, db)"
    "rp_repair_id (rv_row repair) = demo_repair_id"
proof -
  have "case authorize_repair demo_env (seconds 120) (seconds 120) ''i1'' demo_consent waiting_db of
      (Inr repair, db) \<Rightarrow> rp_repair_id (rv_row repair) = demo_repair_id | _ \<Rightarrow> False"
    by code_simp
  then show ?thesis using that by (auto split: prod.splits sum.splits)
qed

definition demo_refusal :: json where
  "demo_refusal = JObj [(''choice'', JStr ''REFUSE''), (''source'', JStr ''vision'')]"

lemma waiting_answered:
  obtains response v db where "ResponseRequest demo_refusal = Some response" "jget response ''choice'' = JStr ''REFUSE''"
    "answer_user_request demo_env (seconds 130) ''q1'' demo_refusal waiting_db = (Inr v, db)"
proof -
  have "case ResponseRequest demo_refusal of Some response \<Rightarrow> jget response ''choice'' = JStr ''REFUSE'' | None \<Rightarrow> False"
    "case answer_user_request demo_env (seconds 130) ''q1'' demo_refusal waiting_db of (Inr v, db) \<Rightarrow> True | _ \<Rightarrow> False"
    by code_simp+
  then show ?thesis using that by (auto split: option.splits prod.splits sum.splits)
qed

lemma demo_runs:
  "ts_reachable demo_env opened_db" "ts_reachable demo_env executed_db" "ts_reachable demo_env recovered_db"
  unfolding recovered_db_def executed_db_def authorized_db_def proposed_db_def opened_db_def
  by (intro ts_reachable_exec ts_start)+

end
