(* ===== verification/Incident_Properties.thy ===== *)
theory Incident_Properties
  imports Incident_Samples
begin

text \<open>
  What the incident repository guarantees: the counts and the supervision of every reachable
  database, the life cycle an observation drives, the finality of decisions, the sweeps, and the
  execution of an authorised repair.
\<close>

section \<open>Reachable databases\<close>





section \<open>Final decisions\<close>

text \<open>What no write undoes: a settled request, and the end of an incident.\<close>

definition keeps_final :: "tsdb \<Rightarrow> tsdb \<Rightarrow> bool" where
  "keeps_final db db' =
     (list_all (\<lambda>r. rq_state r \<noteq> Pending \<longrightarrow> r \<in> set (ts_requests db')) (ts_requests db) \<and>
      list_all (\<lambda>i. list_ex (\<lambda>j. same_incident i j \<and> (active j \<longrightarrow> active i)) (ts_incidents db')) (ts_incidents db))"

lemma same_incident_refl: "same_incident i i"
  by (simp add: same_incident_def)

lemma same_incident_trans: "same_incident i j \<Longrightarrow> same_incident j k \<Longrightarrow> same_incident i k"
  by (simp add: same_incident_def)

lemma keeps_final_refl: "keeps_final db db"
  by (auto simp: keeps_final_def list_all_iff list_ex_iff intro: same_incident_refl)

lemma keeps_final_trans: "keeps_final a b \<Longrightarrow> keeps_final b c \<Longrightarrow> keeps_final a c"
  unfolding keeps_final_def list_all_iff list_ex_iff by (meson same_incident_trans)

lemma keeps_final_update:
  assumes "\<And>i. same_incident i (f i) \<and> (active (f i) \<longrightarrow> active i)" "ts_requests db' = ts_requests db"
    "ts_incidents db' = tbl_update i_incident_id k f (ts_incidents db)"
  shows "keeps_final db db'"
proof -
  have "\<exists>j \<in> set (ts_incidents db'). same_incident i j \<and> (active j \<longrightarrow> active i)" if "i \<in> set (ts_incidents db)" for i
    by (rule bexI[of _ "if i_incident_id i = k then f i else i"])
      (use assms(1)[of i] that same_incident_refl in \<open>auto simp: assms(3) tbl_update_def\<close>)
  then show ?thesis using assms(2) by (auto simp: keeps_final_def list_all_iff list_ex_iff)
qed

lemma keeps_final_frame:
  assumes "\<And>r. r \<in> set (ts_requests db) \<Longrightarrow> rq_state r \<noteq> Pending \<Longrightarrow> r \<in> set (ts_requests db')"
    "set (ts_incidents db) \<subseteq> set (ts_incidents db')"
  shows "keeps_final db db'"
  using assms same_incident_refl by (auto simp: keeps_final_def list_all_iff list_ex_iff)

lemma keeps_final_write: "ts_write db db' \<Longrightarrow> keeps_final db db'"
proof (induction rule: ts_write.induct)
  case (w_observe k db f ev)
  then show ?case by (intro keeps_final_update[where f = f and k = k]) simp_all
next
  case (w_incident f db k)
  then show ?case by (intro keeps_final_update[where f = f and k = k]) simp_all
next
  case (w_requests db f)
  have "f r = r" if "r \<in> set (ts_requests db)" "rq_state r \<noteq> Pending" for r
    using w_requests[OF that(1)] that(2) by (simp add: request_edge_def)
  then show ?case by (intro keeps_final_frame) (simp_all, metis image_eqI)
qed (intro keeps_final_frame; auto)+

lemma keeps_final_changes: "changes db db' \<Longrightarrow> keeps_final db db'"
proof (induction rule: rtranclp_induct)
  case (step y z)
  have w: "writes a b \<Longrightarrow> keeps_final a b" for a b
    by (induction rule: rtranclp_induct) (auto intro: keeps_final_refl keeps_final_trans keeps_final_write)
  have "ending a b \<Longrightarrow> keeps_final a b" for a b
    by (erule ending.cases) (auto intro!: keeps_final_update)
  then have "keeps_final y z" using step(2) w keeps_final_write keeps_final_trans
    unfolding change_def closing.simps by metis
  with step show ?case by (blast intro: keeps_final_trans)
qed (rule keeps_final_refl)

text \<open>
  C9. Decisions are final. Whatever operation runs next, a request that was answered, expired,
  resolved or cancelled keeps its row unchanged, and an incident that ended stays ended under its
  identifier, its capability and its recurrence count: a new fault opens a new incident.
\<close>

theorem decisions_final:
  assumes "ts_reachable e db"
  shows "keeps_final db (exec_ts e op db)"
  using occurrences.reachable[OF assms] by (blast intro: keeps_final_changes changes_exec)

theorem decisions_final_witness:
  "keeps_final recovered_db (exec_ts demo_env (TsAnswer (seconds 950) ''q1'' demo_consent) recovered_db)"
  by (rule decisions_final[OF demo_runs(3)])

section \<open>The life cycle\<close>

text \<open>
  The life cycle of incidents, as a function of the incident table and one observation: a fault
  opens an incident or adds to the active one of its capability, a healthy observation ends it, and
  an unknown status changes nothing.
\<close>

definition lifecycle :: "string \<Rightarrow> observation \<Rightarrow> incident_row list \<Rightarrow> incident_row list" where
  "lifecycle new_id obs rows =
     (case (FAULTS (ob_status obs), find (\<lambda>i. incident_key i = capability_of obs \<and> active i) rows) of
        (Some severity, None) \<Rightarrow>
          rows @ [new_incident new_id obs severity (empty_tsdb\<lparr>ts_incidents := rows\<rparr>)]
      | (Some severity, Some i) \<Rightarrow> tbl_update i_incident_id (i_incident_id i) (observed_row obs severity) rows
      | (None, Some i) \<Rightarrow>
          if ob_status obs = HEALTHY then tbl_update i_incident_id (i_incident_id i) (resolved_row obs) rows else rows
      | (None, None) \<Rightarrow> rows)"

lemma new_incident_rows:
  "new_incident k obs sev (empty_tsdb\<lparr>ts_incidents := ts_incidents db\<rparr>) = new_incident k obs sev db"
  by (simp add: new_incident_def recurrence_def)

lemma get_incidents [simp]: "get_incident e now k db = (r, db') \<Longrightarrow> ts_incidents db' = ts_incidents db"
  using get_incident_db[of e now k db] by simp

lemma open_incidents:
  "open_incident e now k obs sev p db = Inr (v, db') \<Longrightarrow>
     ts_incidents db' = ts_incidents db @ [new_incident k obs sev db]"
  by (auto simp: open_incident_def Let_def within_transaction_Inr split: if_splits dest!: get_incidents)

lemma update_incidents:
  "update_open_incident e now inc obs sev db = Inr (v, db') \<Longrightarrow>
     ts_incidents db' = tbl_update i_incident_id (i_incident_id (iv_row inc)) (observed_row obs sev) (ts_incidents db)"
  by (auto simp: update_open_incident_def Let_def within_transaction_Inr update_incident_def dest!: get_incidents)

lemma resolve_incidents:
  "resolve_incident e now inc obs db = Inr (v, db') \<Longrightarrow>
     ts_incidents db' = tbl_update i_incident_id (i_incident_id (iv_row inc)) (resolved_row obs) (ts_incidents db)"
  by (auto simp: resolve_incident_def Let_def within_transaction_Inr update_incident_def dest!: get_incidents)

lemma current_incident_cases:
  assumes "current_incident e now key db = Inr current"
  obtains "active_row key db = None" "current = None"
  | row inc where "active_row key db = Some row" "current = Some inc" "i_incident_id (iv_row inc) = i_incident_id row"
proof (cases "active_row key db")
  case None
  then show ?thesis using assms that(1) by (simp add: current_incident_def)
next
  case (Some row)
  then obtain inc where "incident_document e now False row db = Inr inc" "current = Some inc"
    using assms by (auto simp: current_incident_def split: sum.splits)
  then show ?thesis using Some that(2) incident_documentD(1) by blast
qed

lemma apply_lifecycle:
  assumes "current_incident e now (capability_of obs) db = Inr current"
    "apply_observation e now k prev current obs db = Inr (v, db')"
  shows "ts_incidents db' = lifecycle k obs (ts_incidents db)"
  using assms(1)
proof (cases rule: current_incident_cases)
  case 1
  then show ?thesis using assms(2)
    by (auto simp: apply_observation_def lifecycle_def active_row_def some_view_Inr new_incident_rows open_incidents
        split: option.splits)
next
  case (2 row inc)
  then show ?thesis using assms(2) update_incidents resolve_incidents
    by (auto simp: apply_observation_def lifecycle_def active_row_def some_view_Inr split: option.splits if_splits)
qed

lemma purge_frames [simp]:
  "ts_incidents (purge_processed_if_due e busy t now db) = ts_incidents db"
  "ts_states (purge_processed_if_due e busy t now db) = ts_states db"
  "ts_events (purge_processed_if_due e busy t now db) = ts_events db"
  by (auto simp: purge_processed_if_due_def purge_processed_observations_def Let_def split: prod.splits)

lemma book_frames [simp]:
  "ts_incidents (mark_processed now k db) = ts_incidents db"
  "ts_incidents (write_state age_us obs db) = ts_incidents db"
  by (simp_all add: mark_processed_def write_state_def Let_def)

lemma process_Inr:
  "process e age_us busy k rd obs db = (Inr v, db') \<longleftrightarrow>
     process_body e age_us k rd obs (purge_processed_if_due e busy (rd_today rd) (rd_purge rd) db) = Inr (v, db')"
  by (auto simp: process_def transaction_def split: sum.splits prod.splits)


lemma demo_first:
  "\<not> already_processed (ob_id demo_fault)
     (purge_processed_if_due demo_env False (rd_today (demo_readings 100)) (rd_purge (demo_readings 100)) empty_tsdb)"
  "\<not> outdated (capability_state (capability_of demo_fault) empty_tsdb) demo_fault"
  by code_simp+


lemma mark_processed_known: "already_processed k (mark_processed now k db)"
  by (simp add: already_processed_def mark_processed_def tbl_find_None)

lemma processed_known:
  assumes "process_body e age_us k rd obs db = Inr (v, db')"
  shows "already_processed (ob_id obs) db'"
  using assms mark_processed_known
  by (auto simp: process_body_def Let_def split: if_splits sum.splits prod.splits)

text \<open>
  C10. An observation counts once. After an observation was processed, processing it again returns
  None and leaves the database as it is, whatever identifier, clock readings and metadata ages come
  with the repetition, as long as the daily purge does not run in between.
\<close>

theorem process_once:
  assumes "process e age_us busy k rd obs db = (Inr v, db')"
    "busy' \<or> ts_purged_on db' = Some (day_number (paris_wall e (rd_today rd')))"
  shows "process e age_us' busy' k' rd' obs db' = (Inr None, db')"
proof -
  have "purge_processed_if_due e busy' (rd_today rd') (rd_purge rd') db' = db'"
    using assms(2) by (auto simp: purge_processed_if_due_def Let_def)
  moreover have "already_processed (ob_id obs) db'"
    using assms(1) by (auto simp: process_Inr intro: processed_known)
  ultimately show ?thesis by (simp add: process_def transaction_def process_body_def Let_def)
qed

theorem process_once_witness:
  "ts_purged_on opened_db = Some 0 \<and>
   process demo_env demo_age False ''i9'' (demo_readings 200) demo_fault opened_db = (Inr None, opened_db)"
proof -
  obtain v where v: "process demo_env demo_age False ''i1'' (demo_readings 100) demo_fault empty_tsdb = (Inr v, opened_db)"
    "ts_purged_on opened_db = Some 0" using demo_openedE by metis
  have "ts_purged_on opened_db = Some (day_number (paris_wall demo_env (rd_today (demo_readings 200))))"
    unfolding v(2) by code_simp
  then show ?thesis using process_once[OF v(1), of False "demo_readings 200" demo_age "''i9''"] v(2) by simp
qed

section \<open>Observations that cannot be shown\<close>

text \<open>An identifier no table refers to, as a new UUID is.\<close>

definition unused :: "string \<Rightarrow> tsdb \<Rightarrow> bool" where
  "unused k db =
     (select_incident k db = None \<and> list_all (\<lambda>ev. ev_incident_id ev \<noteq> k) (ts_events db) \<and>
      list_all (\<lambda>r. rp_incident_id r \<noteq> k) (ts_repairs db) \<and> list_all (\<lambda>r. ma_incident_id r \<noteq> k) (ts_manual db))"

lemma events_of_record:
  "i \<noteq> k \<Longrightarrow> events_of k (record_event i kind t obs s p db) = events_of k db"
  by (simp add: events_of_def record_event_def)

lemma events_of_frame: "ts_events db = ts_events db' \<Longrightarrow> events_of k db = events_of k db'"
  by (simp add: events_of_def)

lemma events_of_close:
  "i \<noteq> k \<Longrightarrow> events_of k (close_repair_locked r i st now res kind db) = events_of k db"
  by (auto simp: close_repair_locked_def Let_def events_of_record intro: events_of_frame)

lemma events_of_fold:
  "(\<And>x. x \<in> set xs \<Longrightarrow> g x \<noteq> k) \<Longrightarrow>
     events_of k (fold (\<lambda>x. close_repair_locked (f x) (g x) st now (h x) kind) xs db) = events_of k db"
  by (induction xs arbitrary: db) (simp_all add: events_of_close)

lemma events_of_manual:
  "(\<And>r. r \<in> set xs \<Longrightarrow> ma_incident_id r \<noteq> k) \<Longrightarrow>
     events_of k (fold (\<lambda>r. close_manual_action_locked r st now t None) xs db) = events_of k db"
proof (induction xs arbitrary: db)
  case (Cons r xs)
  then show ?case
    by (simp add: close_manual_action_locked_def events_of_record, intro events_of_frame) simp
qed simp

lemma close_fold_incidents:
  "map rp_incident_id (ts_repairs (fold (\<lambda>x. close_repair_locked (f x) (g x) st now (h x) kind) xs db)) =
     map rp_incident_id (ts_repairs db)"
  by (induction xs arbitrary: db) (simp_all add: tbl_update_map_on)

text \<open>The sweep journals only the incidents of the repairs and manual actions it closes.\<close>

lemma events_of_expire:
  assumes "list_all (\<lambda>r. rp_incident_id r \<noteq> k) (ts_repairs db)" "list_all (\<lambda>r. ma_incident_id r \<noteq> k) (ts_manual db)"
  shows "events_of k (expire_repairs_locked e now db) = events_of k db"
proof -
  let ?db1 = "fold (close_stale now) (stale_proposals e now db) db"
  have rows: "set (map rp_incident_id (ts_repairs ?db1)) = set (map rp_incident_id (ts_repairs db))"
    unfolding close_stale_fold close_fold_incidents ..
  then have over: "r \<in> set (filter (repair_overdue e now) (ts_repairs ?db1)) \<Longrightarrow> rp_incident_id r \<noteq> k" for r
    using assms(1) unfolding list_all_iff set_map by (metis (no_types, lifting) filter_is_subset image_iff subsetD)
  have manual: "ts_manual ?db1 = ts_manual db" unfolding close_stale_fold by simp
  have stale: "x \<in> set (stale_proposals e now db) \<Longrightarrow> rp_incident_id (fst x) \<noteq> k" for x
    using assms(1) stale_proposalsD(1)[of "fst x" "snd x"] by (auto simp: list_all_iff)
  have "events_of k ?db1 = events_of k db" unfolding close_stale_fold by (rule events_of_fold) (rule stale)
  moreover have "events_of k (expire_manual_actions_locked e now ?db1) = events_of k ?db1"
    unfolding expire_manual_actions_locked_def
    by (rule events_of_manual) (use assms(2) manual in \<open>auto simp: list_all_iff\<close>)
  ultimately show ?thesis unfolding expire_repairs_locked_def Let_def close_overdue_fold
    by (simp only: events_of_fold[OF over])
qed

lemma each_None: "x \<in> set xs \<Longrightarrow> f x = None \<Longrightarrow> each f xs = None"
  by (induction xs) (auto split: option.splits)

lemma get_unshown:
  assumes "select_incident k db = Some row" "events_of k (expire_repairs_locked e now db) = [ev]" "event_document ev = None"
    "i_incident_id row = k"
  shows "fst (get_incident e now k db) = Inl validation_error"
proof -
  have "ev \<in> set (rev (take 1000 (order_desc event_row.ev_event_id [ev])))" by (simp add: order_desc_def)
  then have "shown_events k (expire_repairs_locked e now db) = None"
    unfolding shown_events_def assms(2) using each_None assms(3) by metis
  then show ?thesis using assms(1,4)
    by (simp add: get_incident_def Let_def incident_document_def split: option.splits)
qed

text \<open>
  A fault without a text is never opened. When an observation reports a degraded or unhealthy
  capability that has no active incident and its message is empty, the journal entry of the opening
  cannot be shown: reading the incident back inside the transaction raises a validation error, the
  transaction is rolled back, and neither the incident nor the observation is recorded.
\<close>

theorem silent_fault_not_opened:
  assumes "FAULTS (ob_status obs) = Some severity" "ob_message obs = []"
    "active_row (capability_of obs) db = None" "unused k db" "\<not> already_processed (ob_id obs) db"
    "\<not> outdated (capability_state (capability_of obs) db) obs"
  shows "process e age_us True k rd obs db = (Inl validation_error, db)"
proof -
  let ?row = "new_incident k obs severity db"
  let ?db1 = "db\<lparr>ts_incidents := ts_incidents db @ [?row]\<rparr>"
  have silent: "redact_sensitive_text [] = []" by code_simp
  have open_err: "open_incident e now k obs severity p db = Inl validation_error" for now p
  proof -
    let ?db2 = "record_event k ''opened'' (ob_timestamp obs) (Some obs) []
        (JObj (change_payload p (severity_value severity))) ?db1"
    have ev0: "events_of k (expire_repairs_locked e now ?db2) = events_of k ?db2"
      by (rule events_of_expire) (use assms(4) in \<open>simp_all add: unused_def\<close>)
    have "events_of k db = []" using assms(4) by (auto simp: unused_def events_of_def list_all_iff filter_empty_conv)
    then obtain ev where ev: "events_of k ?db2 = [ev]" "ev_summary ev = []"
      by (simp add: events_of_def record_event_def silent)
    have doc: "event_document ev = None"
      using ev(2) silent by (simp add: event_document_def bounded_text_def trim_def)
    have row: "i_incident_id ?row = k" by (simp add: new_incident_def)
    then have "tbl_find i_incident_id k [?row] = Some ?row" by (simp add: tbl_find_def)
    then have sel: "select_incident k ?db2 = Some ?row"
      using assms(4) by (simp add: unused_def select_incident_def tbl_find_append)
    have "fst (get_incident e now k ?db2) = Inl validation_error"
      by (rule get_unshown[OF sel ev0[unfolded ev(1)] doc row])
    then show ?thesis using assms(2,4) silent
      by (auto simp: open_incident_def Let_def within_transaction_def unused_def split: prod.splits sum.splits)
  qed
  have "purge_processed_if_due e True t now db = db" for t now by (simp add: purge_processed_if_due_def Let_def)
  moreover have "current_incident e now (capability_of obs) db = Inr None" for now
    using assms(3) by (simp add: current_incident_def)
  ultimately show ?thesis using assms(1,5,6) open_err
    by (simp add: process_def transaction_def process_body_def Let_def apply_observation_def some_view_def)
qed

theorem silent_fault_not_opened_witness:
  "process demo_env demo_age True ''i1'' (demo_readings 100) (demo_fault\<lparr>ob_message := []\<rparr>) empty_tsdb =
     (Inl validation_error, empty_tsdb)"
proof (rule silent_fault_not_opened[where severity = Critical])
  show "active_row (capability_of (demo_fault\<lparr>ob_message := []\<rparr>)) empty_tsdb = None"
    by (simp add: active_row_def empty_tsdb_def)
  show "unused ''i1'' empty_tsdb" by (simp add: unused_def empty_tsdb_def select_incident_def tbl_find_None)
  show "\<not> already_processed (ob_id (demo_fault\<lparr>ob_message := []\<rparr>)) empty_tsdb"
    by (simp add: already_processed_def empty_tsdb_def tbl_find_None)
  show "\<not> outdated (capability_state (capability_of (demo_fault\<lparr>ob_message := []\<rparr>)) empty_tsdb) (demo_fault\<lparr>ob_message := []\<rparr>)"
    by code_simp
qed (simp_all add: demo_fault_def)

end
