(* ===== verification/Incident_Guarantees.thy ===== *)
theory Incident_Guarantees
  imports Incident_Samples
begin

text \<open>
  The deadlines of the incident repository, the execution of an authorised repair, the answers of
  people, and the purge of the processed observations.
\<close>

section \<open>Deadlines\<close>

lemma manual_fold_status:
  assumes "r \<in> set (ts_manual (fold (\<lambda>q. close_manual_action_locked q st now t None) xs db))"
  shows "ma_status r = st \<or> r \<in> set (ts_manual db) \<and> ma_action_id r \<notin> ma_action_id ` set xs"
  using assms
proof (induction xs arbitrary: db)
  case (Cons x xs)
  let ?db1 = "close_manual_action_locked x st now t None db"
  have "ma_status r = st \<or> r \<in> set (ts_manual ?db1) \<and> ma_action_id r \<notin> ma_action_id ` set xs"
    using Cons.prems by (intro Cons.IH) simp
  moreover have "ma_status r = st \<or> r \<in> set (ts_manual db) \<and> ma_action_id r \<noteq> ma_action_id x"
    if "r \<in> set (ts_manual ?db1)"
    using that by (auto simp: close_manual_action_locked_def tbl_update_def)
  ultimately show ?case by auto
qed simp

lemma overdue_fold_manual:
  "ts_manual (expire_repairs_locked e now db) = ts_manual (expire_manual_actions_locked e now
     (fold (close_stale now) (stale_proposals e now db) db))"
  by (simp add: expire_repairs_locked_def Let_def close_overdue_fold)

lemma expire_manual_status:
  assumes "r \<in> set (ts_manual (expire_repairs_locked e now db))"
  shows "\<not> manual_overdue e now r"
proof -
  let ?db1 = "fold (close_stale now) (stale_proposals e now db) db"
  have "ma_status r = Unconfirmed \<or> r \<in> set (ts_manual ?db1) \<and>
      ma_action_id r \<notin> ma_action_id ` set (filter (manual_overdue e now) (ts_manual ?db1))"
    using assms manual_fold_status unfolding overdue_fold_manual expire_manual_actions_locked_def by blast
  then show ?thesis by (auto simp: manual_overdue_def)
qed

text \<open>
  Deadlines are applied before anything is read. Once an incident has been read, no repair and
  no manual resolution of any incident is under verification past its deadline, and no proposal is
  left of an incident that ended.
\<close>

theorem reading_applies_deadlines:
  assumes "ts_reachable e db" "snd (get_incident e now k db) = db'"
  shows "list_all (\<lambda>r. \<not> repair_overdue e now r) (ts_repairs db') \<and>
    list_all (\<lambda>r. \<not> manual_overdue e now r) (ts_manual db') \<and> proposals_live db'"
  using assms occurrences.reachable[OF assms(1)] expire_repairs_status(2) expire_manual_status expire_repairs_live
  by (auto simp: get_incident_db list_all_iff)

theorem reading_applies_deadlines_witness:
  "proposals_live (snd (get_incident demo_env (seconds 5000) ''i1'' executed_db)) \<and>
   list_all (\<lambda>r. \<not> repair_overdue demo_env (seconds 5000) r)
     (ts_repairs (snd (get_incident demo_env (seconds 5000) ''i1'' executed_db)))"
  using reading_applies_deadlines[OF demo_runs(2) refl] by simp

section \<open>Execution\<close>

lemma expire_keeps:
  assumes "ts_base db" "r \<in> set (ts_repairs db)" "rp_status r \<notin> {Proposed, Verifying}"
  shows "r \<in> set (ts_repairs (expire_repairs_locked e now db))"
proof -
  let ?db1 = "fold (close_stale now) (stale_proposals e now db) db"
  have unique: "q \<in> set (ts_repairs db) \<Longrightarrow> rp_repair_id q = rp_repair_id r \<Longrightarrow> q = r" for q
    using base_repair_eq[OF assms(1)] assms(2) by blast
  have "rp_repair_id r \<notin> (\<lambda>x. rp_repair_id (fst x)) ` set (stale_proposals e now db)"
    using stale_proposalsD(1,2)[of _ _ e now db] unique assms(3) by fastforce
  then have r1: "r \<in> set (ts_repairs ?db1)" unfolding close_stale_fold by (rule close_fold_keeps[OF assms(2)])
  have "ts_base ?db1" using ts_base_writes[OF writes_close_stale[OF assms(1)] assms(1)] .
  then have "rp_repair_id r \<notin> rp_repair_id ` set (filter (repair_overdue e now) (ts_repairs ?db1))"
    using base_repair_eq[OF _ _ r1] assms(3) by (fastforce simp: repair_overdue_def)
  then show ?thesis unfolding expire_repairs_locked_def Let_def close_overdue_fold
    by (intro close_fold_keeps) (simp_all add: expire_manual_actions_locked_def r1)
qed

lemma get_repair_id: "get_repair now k db = Inr v \<Longrightarrow> rp_repair_id (rv_row v) = k"
  by (auto simp: get_repair_def required_repair_def select_repair_def repair_document_def
      split: option.splits sum.splits if_splits dest!: tbl_find_Some_D)

definition ready :: "string \<Rightarrow> tsdb \<Rightarrow> bool" where
  "ready k db =
     (case select_repair k db of None \<Rightarrow> False
      | Some r \<Rightarrow> rp_status r = Authorized \<and> rp_authorized_at r \<noteq> None)"

lemma base_select_repair:
  "ts_base db \<Longrightarrow> r \<in> set (ts_repairs db) \<Longrightarrow> select_repair (rp_repair_id r) db = Some r"
  by (simp add: select_repair_def ts_base_def tbl_find_distinct)

lemma decide_ready:
  assumes "ts_base db" "row \<in> set (ts_repairs db)" "rp_repair_id row = k"
  shows "ready k (record_event i kind t obs s p (decide_locked now k j (authorized_row now src w) a b c db))"
proof -
  have "select_repair k db = Some row" using base_select_repair assms by blast
  then show ?thesis
    by (simp add: ready_def select_repair_def decide_locked_def tbl_find_update authorized_row_def)
qed

lemma authorize_ready:
  assumes "ts_base db" "authorize_repair e n1 n k payload db = (Inr repair, db')"
  shows "ready (rp_repair_id (rv_row repair)) db'"
proof -
  obtain request where request: "AuthorizationRequest e payload = Some request"
    using assms(2) by (cases "AuthorizationRequest e payload") (auto simp: authorize_repair_def)
  let ?id = "text_of (jget request ''repair_id'')"
  obtain incident db1 where get: "get_incident e n1 k db = (Inr incident, db1)"
    using assms(2) request by (auto simp: authorize_repair_def Let_def and_then_def split: prod.splits sum.splits)
  obtain row db2 where pend: "pending_proposal_locked e n ?id (i_incident_id (iv_row incident)) db1 = Inr (row, db2)"
    using assms(2) request get by (auto simp: authorize_repair_def Let_def and_then_def split: prod.splits sum.splits)
  note pp = pending_proposal_Inr[OF get_base[OF assms(1) get] pend]
  show ?thesis using assms(2) request get pend decide_ready[OF pp(6,2,3)]
    by (auto simp: authorize_repair_def Let_def and_then_def dest!: get_repair_id)
qed

lemma ready_expire:
  assumes "ts_base db" "ready k db"
  shows "ready k (expire_repairs_locked e now db)"
proof -
  obtain r where r: "select_repair k db = Some r" "rp_status r = Authorized" "rp_authorized_at r \<noteq> None"
    using assms(2) by (auto simp: ready_def split: option.splits)
  have id: "r \<in> set (ts_repairs db)" "rp_repair_id r = k"
    using r(1) by (auto simp: select_repair_def dest: tbl_find_Some_D)
  have "r \<in> set (ts_repairs (expire_repairs_locked e now db))"
    by (rule expire_keeps[OF assms(1) id(1)]) (simp add: r(2))
  then show ?thesis using base_select_repair[OF ts_base_writes[OF writes_expire_repairs[OF assms(1)] assms(1)]] r id
    by (auto simp: ready_def)
qed

lemma run_executor_ready:
  assumes "ts_base db" "ready j db" "run_executor e now ex k repair db = (out, db')"
  shows "ready j db'"
proof -
  have "db' = db \<or> db' = expire_repairs_locked e now db"
    using assms(3) get_incident_db[of e now k db]
    by (auto simp: run_executor_def split: option.splits prod.splits sum.splits)
  then show ?thesis using assms(1,2) ready_expire by blast
qed

lemma count_attempt_select:
  "select_repair k (count_experience_attempt_locked e row now db) = None \<longleftrightarrow> select_repair k db = None"
  by (auto simp: count_experience_attempt_locked_def select_repair_def tbl_find_update split: option.splits)

definition has_status :: "string \<Rightarrow> repair_status set \<Rightarrow> tsdb \<Rightarrow> bool" where
  "has_status k statuses db = (case select_repair k db of None \<Rightarrow> False | Some r \<Rightarrow> rp_status r \<in> statuses)"

lemma has_status_mono: "has_status k S db \<Longrightarrow> S \<subseteq> T \<Longrightarrow> has_status k T db"
  by (auto simp: has_status_def split: option.splits)

lemma has_status_update:
  assumes "select_repair k db \<noteq> None" "\<And>r. rp_repair_id (f r) = rp_repair_id r" "\<And>r. rp_status (f r) \<in> S"
  shows "has_status k S (record_event i kind t obs s p (update_repair k f db))"
  using assms by (auto simp: has_status_def select_repair_def tbl_find_update)

lemma executed_status:
  assumes "ready k db"
  shows "has_status k {Verifying} (snd (mark_repair_executed e now k db))"
proof -
  obtain r where r: "select_repair k db = Some r" "rp_status r = Authorized" "rp_authorized_at r \<noteq> None"
    using assms by (auto simp: ready_def split: option.splits)
  have "select_repair k (count_experience_attempt_locked e r now db) \<noteq> None"
    using r(1) by (simp add: count_attempt_select)
  from has_status_update[OF this] show ?thesis using r
    by (auto simp: mark_repair_executed_def required_repair_def Let_def executed_row_def)
qed

lemma failed_status:
  assumes "select_repair k db \<noteq> None"
  shows "has_status k {Failed} (snd (mark_repair_execution_failed e now k err db))"
proof -
  obtain r where r: "select_repair k db = Some r" using assms by blast
  let ?db1 = "if rp_experience_id r = None then count_experience_attempt_locked e r now db else db"
  have "select_repair k (count_experience_outcome_locked q now False ?db1) \<noteq> None" for q
    using assms count_attempt_select[of k e r now db] by (auto simp: select_repair_def)
  from has_status_update[OF this] show ?thesis using r
    by (simp add: mark_repair_execution_failed_def required_repair_def Let_def failed_row_def)
qed

lemma close_fold_ids:
  "map rp_repair_id (ts_repairs (fold (\<lambda>x. close_repair_locked (f x) (g x) st now (h x) kind) xs db)) =
     map rp_repair_id (ts_repairs db)"
  by (induction xs arbitrary: db) (simp_all add: tbl_update_map_on)

lemma expire_verifying:
  assumes "ts_base db" "has_status k {Verifying} db"
  shows "has_status k {Verifying, Unverified} (expire_repairs_locked e now db)"
proof -
  let ?db' = "expire_repairs_locked e now db"
  obtain r where r: "r \<in> set (ts_repairs db)" "rp_repair_id r = k" "rp_status r = Verifying"
    using assms(2) by (auto simp: has_status_def select_repair_def split: option.splits dest: tbl_find_Some_D)
  have "map rp_repair_id (ts_repairs ?db') = map rp_repair_id (ts_repairs db)"
    by (simp only: expire_repairs_locked_def Let_def close_overdue_fold close_stale_fold close_fold_ids
        expire_manual_actions_locked_def manual_fold_frames)
  then have "k \<in> rp_repair_id ` set (ts_repairs ?db')" using r by (metis image_eqI set_map)
  then obtain q where q: "select_repair k ?db' = Some q" "q \<in> set (ts_repairs ?db')" "rp_repair_id q = k"
    by (cases "select_repair k ?db'") (auto simp: select_repair_def tbl_find_None dest: tbl_find_Some_D)
  have same: "p \<in> set (ts_repairs db) \<Longrightarrow> rp_repair_id p = k \<Longrightarrow> p = r" for p
    using base_repair_eq[OF assms(1)] r by blast
  have "rp_repair_id q \<notin> (\<lambda>x. rp_repair_id (fst x)) ` set (stale_proposals e now db)"
    using stale_proposalsD(1,2)[of _ _ e now db] same q(3) r(3) by fastforce
  then have "rp_status q \<in> {Verifying, Unverified}"
    using expire_repairs_status(1)[OF q(2)] same q(3) r(3) by auto
  then show ?thesis using q(1) by (simp add: has_status_def)
qed

text \<open>
  C8. An authorised repair is run to an outcome. When the authorisation was recorded, the service
  consults the executor of the catalogue, and the repair ends as failed if the executor is missing
  or raised, and otherwise under verification, or already beyond it when the verification requested
  at once finds the deadline past; it never stays authorised.
\<close>

theorem authorized_repair_runs:
  assumes "ts_base db" "authorize_repair e n1 n2 k payload db = (Inr repair, db1)"
    "db' = snd (authorize_incident_repair e n1 n2 run_at done_at ex v k payload db)"
  shows "has_status (rp_repair_id (rv_row repair))
    (if fst (run_executor e run_at ex k repair db1) = None then {Verifying, Unverified} else {Failed}) db'"
proof -
  let ?id = "rp_repair_id (rv_row repair)"
  have b1: "ts_base db1" using changes_authorize[OF assms(1)] assms(1,2) changes_base by (metis snd_conv)
  have rd1: "ready ?id db1" by (rule authorize_ready[OF assms(1,2)])
  obtain out db2 where run: "run_executor e run_at ex k repair db1 = (out, db2)" by force
  have b2: "ts_base db2" by (rule run_executor_base(2)[OF b1 run])
  have rd2: "ready ?id db2" by (rule run_executor_ready[OF b1 rd1 run])
  show ?thesis
  proof (cases out)
    case (Some err)
    have "select_repair ?id db2 \<noteq> None" using rd2 by (auto simp: ready_def split: option.splits)
    then show ?thesis using failed_status Some run assms(2,3)
      by (simp add: authorize_incident_repair_def and_then_def)
  next
    case None
    obtain res db3 where ex: "mark_repair_executed e done_at ?id db2 = (res, db3)" by force
    have st: "has_status ?id {Verifying} db3" using executed_status[OF rd2, of e done_at] ex by simp
    have b3: "ts_base db3" using changes_executed[OF b2] ex changes_base b2 by (metis snd_conv)
    have "db' = db3 \<or> db' = expire_repairs_locked e done_at db3"
      using assms(2,3) None run ex get_incident_db[of e done_at k db3]
      by (auto simp: authorize_incident_repair_def and_then_def split: sum.splits)
    then have "has_status ?id {Verifying, Unverified} db'"
      using expire_verifying[OF b3 st, of e done_at] has_status_mono[OF st] by auto
    then show ?thesis using None run by simp
  qed
qed

theorem authorized_repair_runs_witness:
  "has_status demo_repair_id {Failed}
     (snd (authorize_incident_repair demo_env (seconds 120) (seconds 120) (seconds 121) (seconds 122) [] True ''i1''
       demo_consent waiting_db))"
proof -
  obtain repair db where auth:
    "authorize_repair demo_env (seconds 120) (seconds 120) ''i1'' demo_consent waiting_db = (Inr repair, db)"
    "rp_repair_id (rv_row repair) = demo_repair_id" by (rule waiting_authorized)
  have "fst (run_executor demo_env (seconds 121) [] ''i1'' repair db) \<noteq> None"
    by (simp add: run_executor_def split: option.splits)
  then show ?thesis
    using authorized_repair_runs[OF waiting_base auth(1) refl,
      where run_at = "seconds 121" and done_at = "seconds 122" and ex = "[]" and v = True] auth(2) by auto
qed

section \<open>Answers\<close>

lemma settled_rejected:
  assumes "select_request q db = Some r" "rq_state r \<noteq> Pending"
  shows "\<exists>err. answer_user_request e now q payload db = (Inl err, db)"
proof -
  have "\<exists>s. select_request q (expire_user_requests_locked e now db) = Some s \<and> rq_state s \<noteq> Pending"
  proof -
    have "tbl_find rq_request_id q (map (\<lambda>r. if P r \<and> rq_state r = Pending then r\<lparr>rq_state := RequestExpired\<rparr> else r) rows) = Some r"
      if "tbl_find rq_request_id q rows = Some r" for P rows
      using that assms(2) by (induction rows) (auto simp: tbl_find_def split: if_splits)
    then show ?thesis using assms
      by (auto simp: expire_user_requests_locked_def Let_def update_pending_requests_def select_request_def)
  qed
  then have "\<exists>err. required_pending_user_request q (expire_user_requests_locked e now db) = Inl err"
    by (auto simp: required_pending_user_request_def required_user_request_def)
  then show ?thesis
    by (auto simp: answer_user_request_def defer_user_request_def transaction_def answer_body_def defer_body_def Let_def
        split: option.splits)
qed

text \<open>
  C11. A request is answered once. An accepted answer is one of the choices the request offered, for
  an incident that is still active; afterwards every further answer or deferral of that request is
  rejected and leaves the database as it is.
\<close>

theorem answered_once:
  assumes "ts_base db" "ResponseRequest payload = Some response" "jget response ''choice'' \<noteq> JStr ''LATER''"
    "answer_user_request e now q payload db = (Inr v, db')"
  shows "text_of (jget response ''choice'') \<in> set (rq_choices v) \<and>
    list_ex (\<lambda>i. i_incident_id i = rq_incident_id v \<and> active i) (ts_incidents db) \<and>
    (\<exists>err. answer_user_request e later q payload' db' = (Inl err, db'))"
proof -
  let ?db1 = "expire_user_requests_locked e now db"
  let ?c = "text_of (jget response ''choice'')"
  let ?f = "answered_request now ?c (text_of (jget response ''source'')) (text_of (jget response ''answered_by''))"
  have body: "answer_body e now q response db = Inr (v, db')"
    using assms(2-4) by (auto simp: answer_user_request_def transaction_def split: sum.splits prod.splits)
  then obtain r where r: "required_pending_user_request q ?db1 = Inr r" "?c \<in> set (rq_choices r)"
    "returning_request q (record_event (rq_incident_id r) ''decision'' now None (txt_answer_recorded @ ?c @ ''.'')
       (response_payload q response) (update_request q ?f ?db1)) = Inr (v, db')"
    by (auto simp: answer_body_def Let_def split: sum.splits if_splits)
  note pending = required_pending_Inr[OF r(1)]
  have "ts_base ?db1" using changes_base[OF changes_expire_requests assms(1)] .
  then have sel1: "select_request q ?db1 = Some r"
    using pending(1,2) by (auto simp: select_request_def ts_base_def tbl_find_distinct)
  have "rq_request_id (?f x) = rq_request_id x" for x by (simp add: answered_request_def)
  then have sel': "select_request q db' = Some (?f r)"
    using sel1 returning_request_Inr[OF r(3)] by (simp add: select_request_def update_request_def tbl_find_update)
  then have "v = (?f r)\<lparr>rq_context := masked_text (rq_context r), rq_question := masked_text (rq_question r)\<rparr>"
    using r(3) returning_request_Inr[OF r(3)]
    by (auto simp: returning_request_def required_user_request_def user_request_def answered_request_def
        split: sum.splits if_splits)
  then have "rq_choices v = rq_choices r" "rq_incident_id v = rq_incident_id r" by (simp_all add: answered_request_def)
  moreover have "list_ex (\<lambda>i. i_incident_id i = rq_incident_id r \<and> active i) (ts_incidents db)"
    using pending(4) by (force simp: select_incident_def list_ex_iff expire_user_requests_locked_def Let_def
        dest: tbl_find_Some_D)
  moreover have "\<exists>err. answer_user_request e later q payload' db' = (Inl err, db')"
    by (rule settled_rejected[OF sel']) (simp add: answered_request_def)
  ultimately show ?thesis using r(2) by simp
qed

theorem answered_once_witness:
  "\<exists>v db err. answer_user_request demo_env (seconds 130) ''q1'' demo_refusal waiting_db = (Inr v, db) \<and>
     ''REFUSE'' \<in> set (rq_choices v) \<and>
     answer_user_request demo_env (seconds 131) ''q1'' demo_refusal db = (Inl err, db)"
proof -
  obtain response v db where r: "ResponseRequest demo_refusal = Some response" "jget response ''choice'' = JStr ''REFUSE''"
    "answer_user_request demo_env (seconds 130) ''q1'' demo_refusal waiting_db = (Inr v, db)"
    by (rule waiting_answered)
  have "jget response ''choice'' \<noteq> JStr ''LATER''" using r(2) by simp
  from answered_once[OF waiting_base r(1) this r(3), of "seconds 131" demo_refusal] show ?thesis
    using r(2,3) by auto
qed

section \<open>The purge\<close>

lemma delete_batch_filter:
  "filter (\<lambda>r. \<not> P r) (delete_batch P n rows) = filter (\<lambda>r. \<not> P r) rows"
  "length (filter P (delete_batch P n rows)) = length (filter P rows) - n"
  by (induction P n rows rule: delete_batch.induct) auto

lemma filter_lengths: "length (filter P rows) + length (filter (\<lambda>r. \<not> P r) rows) = length rows"
  by (rule sum_length_filter_compl)

lemma delete_batch_deleted:
  "length rows - length (delete_batch P n rows) = min n (length (filter P rows))"
  using filter_lengths[of P rows] filter_lengths[of P "delete_batch P n rows"]
  unfolding delete_batch_filter by arith

lemma delete_batch_all:
  "length (filter P rows) \<le> n \<Longrightarrow> delete_batch P n rows = filter (\<lambda>r. \<not> P r) rows"
  by (induction P n rows rule: delete_batch.induct) (auto simp: filter_empty_conv intro!: filter_True[symmetric])

lemma purge_loop_filter:
  "0 < n \<Longrightarrow> purge_loop P n rows = (length (filter P rows), filter (\<lambda>r. \<not> P r) rows)"
proof (induction P n rows rule: purge_loop.induct)
  case (1 P n rows)
  let ?left = "delete_batch P n rows"
  let ?d = "length rows - length ?left"
  have d: "?d = min n (length (filter P rows))" by (rule delete_batch_deleted)
  show ?case
  proof (cases "?d < n \<or> ?d = 0")
    case True
    then have "length (filter P rows) \<le> n" "?d = length (filter P rows)" using d "1.prems" by linarith+
    then show ?thesis using True "1.prems" by (subst purge_loop.simps) (auto simp: Let_def delete_batch_all)
  next
    case False
    then have "purge_loop P n ?left = (length (filter P ?left), filter (\<lambda>r. \<not> P r) ?left)"
      using "1.IH"[OF refl refl] "1.prems" by simp
    moreover have "?d + (length (filter P rows) - n) = length (filter P rows)" using False d by linarith
    ultimately show ?thesis using False by (subst purge_loop.simps) (auto simp: Let_def delete_batch_filter)
  qed
qed

text \<open>
  The purge of the processed observations ends, whatever the table holds, although it deletes
  in batches and goes on while a batch was full: it removes exactly the observations processed
  before the retention limit, keeps the others in their order, and returns how many it removed.
\<close>

theorem purge_removes_expired:
  "purge_processed_observations e now db =
     (length (filter (processed_expired e now) (ts_processed db)),
      db\<lparr>ts_processed := filter (\<lambda>r. \<not> processed_expired e now r) (ts_processed db)\<rparr>)"
  by (simp add: purge_processed_observations_def purge_loop_filter PURGE_BATCH_def)

end
