(* ===== verification/Known_Repairs.thy ===== *)
theory Known_Repairs
  imports Incident_Steps Complex_Main
begin

text \<open>
  The ranking of known repairs (tsunade/repair_ranking.py), the known repair a proposal reproduces
  (incident_repairs.py), and the proposals of api/service.py. The score of the ranking is a real
  number, so these definitions stand apart from the executable operations.
\<close>

section \<open>Ranking\<close>

text \<open>
  The lower bound of the Wilson interval, in exact arithmetic; the code computes it in floating
  point.
\<close>

definition wilson_lower_bound :: "int \<Rightarrow> int \<Rightarrow> real" where
  "wilson_lower_bound successes decided =
     (if decided \<le> 0 then 0
      else let n = real_of_int decided; p = real_of_int successes / n; z = 196 / 100; z2 = z * z;
               centre = p + z2 / (2 * n);
               margin = z * sqrt ((p * (1 - p) + z2 / (4 * n)) / n)
           in max 0 ((centre - margin) / (1 + z2 / n)))"

definition rank_key :: "experience_row \<Rightarrow> bool \<times> real \<times> int \<times> int" where
  "rank_key x =
     (ex_state x \<noteq> ''active'',
      - wilson_lower_bound (ex_success_count x) (ex_success_count x + ex_failure_count x),
      - instant_or_epoch (ex_last_success_at x), - ex_last_used_at x)"

definition rank_rows :: "experience_row list \<Rightarrow> experience_row list" where
  "rank_rows rows = sort_key rank_key rows"

section \<open>The match\<close>

definition known_repair_match_locked ::
  "env \<Rightarrow> incident_view \<Rightarrow> repair_spec \<Rightarrow> tsdb \<Rightarrow> known_match option" where
  "known_repair_match_locked e incident spec db =
     (let evidence = jget (case iv_decision incident of None \<Rightarrow> JObj [] | Some d \<Rightarrow> fst d) ''epistemic_status''
      in if \<not> confirmed evidence then None
         else let rows = rank_rows (take 10 (order_desc (\<lambda>x. julianday e (ex_last_used_at x))
                    (filter (\<lambda>x. of_capability (iv_row incident) x \<and> same_action spec x) (ts_experiences db))))
              in case find (\<lambda>x. \<not> cmp_different_nature (comparison_with incident x)) rows of
                   None \<Rightarrow> None
                 | Some x \<Rightarrow>
                     Some \<lparr>km_experience_id = ex_experience_id x, km_attempt_count = ex_attempt_count x,
                       km_success_count = ex_success_count x, km_failure_count = ex_failure_count x,
                       km_last_success_at = ex_last_success_at x,
                       km_criteria = match_criteria incident spec evidence (comparison_with incident x),
                       km_caution = match_caution x\<rparr>)"

section \<open>The service\<close>

text \<open>The known repair is looked up inside the proposal, on the incident it reads. The notification that
  follows a proposal does not touch the database.\<close>

definition propose_known_repair ::
  "env \<Rightarrow> instant \<Rightarrow> instant \<Rightarrow> string \<Rightarrow> string \<Rightarrow> string \<Rightarrow> repair_spec \<Rightarrow> tsdb \<Rightarrow> repair_view tresult" where
  "propose_known_repair e now1 now repair_id request_id incident_id spec db =
     propose_repair e now1 now repair_id request_id
       (case get_incident e now1 incident_id db of
          (Inr incident, db1) \<Rightarrow> known_repair_match_locked e incident spec db1 | _ \<Rightarrow> None)
       incident_id spec db"

definition ProposalRequest :: validator where
  "ProposalRequest = model
     [defaults ''operation'' JNull (optional (literal [JStr ''restart_service'', JStr ''restart_addon'']))] (\<lambda>v. True)"

definition propose_incident_repair ::
  "env \<Rightarrow> instant \<Rightarrow> instant \<Rightarrow> instant \<Rightarrow> string \<Rightarrow> string \<Rightarrow> executors \<Rightarrow> service_config list \<Rightarrow> string option \<Rightarrow>
     bool \<Rightarrow> string \<Rightarrow> json \<Rightarrow> tsdb \<Rightarrow> repair_view option tresult" where
  "propose_incident_repair e now1 now2 now3 repair_id request_id executors services agent_node_id automatic
      incident_id payload db =
     (case ProposalRequest payload of
        None \<Rightarrow> (Inl validation_error, db)
      | Some request \<Rightarrow>
          and_then (get_incident e now1 incident_id db) (\<lambda>incident db1.
            if automatic \<and> iv_repairs incident \<noteq> [] then (Inr None, db1)
            else case eligible_repair incident services agent_node_id of
                   Inl err \<Rightarrow> (Inl err, db1)
                 | Inr spec \<Rightarrow>
                     if jget request ''operation'' \<notin> {JNull, JStr (sp_operation spec)}
                     then (Inl (ValueError txt_other_operation), db1)
                     else if map_of executors (sp_key spec) = None
                     then (Inl (LookupError txt_not_configured), db1)
                     else and_then (propose_known_repair e now2 now3 repair_id request_id incident_id spec db1)
                            (\<lambda>v db2. (Inr (Some v), db2))))"

end
