(* ===== verification/Experience_Confirmation.thy ===== *)
theory Experience_Confirmation
  imports Incident_Samples
begin

text \<open>
  Tsunade learns after a person confirmed a verified recovery, once for an incident as long as no
  other incident confirms the same experience.
\<close>

section \<open>What the views show\<close>

lemma close_experiences [simp]:
  "ts_experiences (close_repair_locked k i st now t kind db) = ts_experiences db"
  "ts_experiences (close_manual_action_locked r st' now t obs db) = ts_experiences db"
  by (simp_all add: close_repair_locked_def close_manual_action_locked_def record_event_def update_repair_def
      update_pending_requests_def update_manual_def Let_def del: redact_sensitive_value.simps)

lemma record_event_experiences: "ts_experiences (record_event k kind t obs s p db) = ts_experiences db"
  by (simp add: record_event_def)

lemma close_fold_experiences [simp]:
  "ts_experiences (fold (\<lambda>x. close_repair_locked (f x) (g x) st now (h x) kind) xs db) = ts_experiences db"
  "ts_experiences (fold (\<lambda>r. close_manual_action_locked r st' now t None) ys db) = ts_experiences db"
  by (induction xs arbitrary: db, simp_all, induction ys arbitrary: db, simp_all)

lemma expire_experiences [simp]: "ts_experiences (expire_repairs_locked e now db) = ts_experiences db"
  by (simp add: expire_repairs_locked_def Let_def expire_manual_actions_locked_def
      close_stale_fold close_overdue_fold)

lemma get_experiences: "get_incident e now k db = (r, db') \<Longrightarrow> ts_experiences db' = ts_experiences db"
  using get_incident_db[of e now k db] by simp

lemma repairs_ofD:
  assumes "rd \<in> set (repairs_of e k db)"
  shows "fst rd \<in> set (ts_repairs db) \<and> rp_incident_id (fst rd) = k"
proof -
  obtain r where r: "r \<in> set (ts_repairs db)" "rp_incident_id r = k"
    "rd \<in> set (case filter (\<lambda>u. references (rp_repair_id r) u \<and> rq_state u = Pending) (ts_requests db) of
       [] \<Rightarrow> [(r, None)] | us \<Rightarrow> map (\<lambda>u. (r, rq_deferred_until u)) us)"
    using assms by (auto simp: repairs_of_def order_desc_def dest!: in_set_takeD)
  have "fst rd = r" using r(3)
    by (cases "filter (\<lambda>u. references (rp_repair_id r) u \<and> rq_state u = Pending) (ts_requests db)") auto
  with r show ?thesis by simp
qed

lemma shown_repairD:
  assumes "incident_document e now ev row db = Inr v" "w \<in> set (iv_repairs v)"
  obtains r where "r \<in> set (ts_repairs db)" "rp_incident_id r = i_incident_id row"
    "rp_status r = rp_status (rv_row w)" "rp_repair_id r = rp_repair_id (rv_row w)"
proof -
  have "each (\<lambda>rd. repair_document now (snd rd) (fst rd)) (repairs_of e (i_incident_id row) db) = Some (iv_repairs v)"
    using assms(1) by (auto simp: incident_document_def Let_def split: option.splits if_splits)
  then obtain rd where rd: "rd \<in> set (repairs_of e (i_incident_id row) db)"
    "repair_document now (snd rd) (fst rd) = Some w"
    using assms(2) unfolding each_Some list_all2_conv_all_nth in_set_conv_nth by metis
  then show ?thesis using that[of "fst rd"] repairs_ofD[OF rd(1)]
    by (auto simp: repair_document_def split: if_splits)
qed

lemma shown_manualD:
  assumes "incident_document e now ev row db = Inr v" "a \<in> set (iv_manual_actions v)"
  obtains r where "r \<in> set (ts_manual db)" "ma_incident_id r = i_incident_id row" "ma_status r = ma_status a"
proof -
  have "iv_manual_actions v = manual_actions_locked e (i_incident_id row) db"
    using assms(1) by (auto simp: incident_document_def Let_def split: option.splits if_splits)
  then show ?thesis using assms(2) that
    by (auto simp: manual_actions_locked_def manual_action_def order_desc_def dest!: in_set_takeD)
qed

section \<open>Candidates\<close>

text \<open>The recovery behind an experience: a repair that succeeded, or a manual action that was confirmed.\<close>

definition recovery_verified :: "string \<Rightarrow> tsdb \<Rightarrow> bool" where
  "recovery_verified k db =
     (list_ex (\<lambda>r. rp_incident_id r = k \<and> rp_status r = Succeeded) (ts_repairs db) \<or>
      list_ex (\<lambda>a. ma_incident_id a = k \<and> ma_status a = Confirmed) (ts_manual db))"

lemma candidate_saved:
  "already_saved (i_incident_id (iv_row incident)) db \<Longrightarrow> experience_candidate incident db = None"
  by (auto simp: experience_candidate_def manual_experience_candidate_def Let_def split: option.splits)

lemma candidateD:
  assumes "experience_candidate incident db = Some c"
  shows "\<not> active (iv_row incident)" "\<not> already_saved (i_incident_id (iv_row incident)) db"
    "(\<exists>w \<in> set (iv_repairs incident). rp_status (rv_row w) = Succeeded) \<or>
     (\<exists>a \<in> set (iv_manual_actions incident). ma_status a = Confirmed)"
  using assms candidate_saved[of incident db]
  by (auto simp: experience_candidate_def manual_experience_candidate_def Let_def find_Some_iff
      split: if_splits option.splits dest: nth_mem)

lemma candidate_verified:
  assumes "incident_document e now ev row db = Inr v" "experience_candidate v db = Some c"
  shows "recovery_verified (i_incident_id row) db"
  using candidateD(3)[OF assms(2)] shown_repairD[OF assms(1)] shown_manualD[OF assms(1)]
  unfolding recovery_verified_def list_ex_iff by metis

section \<open>Saving\<close>

text \<open>One experience gains one attempt and one success, and the others stay.\<close>

definition learned :: "string \<Rightarrow> experience_row list \<Rightarrow> experience_row list \<Rightarrow> bool" where
  "learned k xs ys =
     ((\<exists>x. ys = xs @ [x] \<and> ex_incident_id x = k \<and> ex_attempt_count x = 1 \<and> ex_success_count x = 1 \<and>
         ex_failure_count x = 0 \<and> ex_state x = ''active'') \<or>
      (\<exists>s f. ys = tbl_update ex_signature s f xs \<and> s \<in> ex_signature ` set xs \<and>
         (\<forall>x. ex_incident_id (f x) = k \<and> ex_attempt_count (f x) = ex_attempt_count x + 1 \<and>
            ex_success_count (f x) = ex_success_count x + 1 \<and> ex_failure_count (f x) = ex_failure_count x \<and>
            ex_state (f x) = ex_state x)))"

lemma save_learned:
  assumes "save_experience e now x incident c a request db = Inr (y, db')"
  shows "learned (i_incident_id (iv_row incident)) (ts_experiences db) (ts_experiences db')"
proof (cases "tbl_find ex_signature (experience_signature e incident c) (ts_experiences db)")
  case None
  then show ?thesis using assms
    by (auto simp: save_experience_def learned_def new_experience_def split: if_splits)
next
  case (Some old)
  then have "experience_signature e incident c \<in> ex_signature ` set (ts_experiences db)"
    using tbl_find_Some_D by (metis image_eqI)
  moreover have "ts_experiences db' = tbl_update ex_signature (experience_signature e incident c)
      (confirmed_again now incident request) (ts_experiences db)"
    using assms Some by (auto simp: save_experience_def)
  ultimately show ?thesis unfolding learned_def
    by (intro disjI2 exI[of _ "experience_signature e incident c"] exI[of _ "confirmed_again now incident request"])
      (simp add: confirmed_again_def)
qed

lemma learned_saved: "learned k xs (ts_experiences db) \<Longrightarrow> already_saved k db"
  unfolding learned_def already_saved_def list_ex_iff tbl_update_def set_map by force

lemma confirm_cases:
  assumes "confirm_experience e n1 n x k payload db = (Inr v, db')"
  obtains incident db1 c a request y db2 where "get_incident e n1 k db = (Inr incident, db1)"
    "experience_candidate incident db1 = Some c" "save_experience e n x incident c a request db1 = Inr (y, db2)"
    "ts_experiences db' = ts_experiences db2" "ts_incidents db' = ts_incidents db1"
    "ts_repairs db' = ts_repairs db1" "ts_manual db' = ts_manual db1"
proof -
  obtain request where request: "ConfirmationRequest payload = Some request"
    using assms by (cases "ConfirmationRequest payload") (auto simp: confirm_experience_def)
  obtain incident db1 where get: "get_incident e n1 k db = (Inr incident, db1)"
    using assms request by (auto simp: confirm_experience_def and_then_def split: prod.splits sum.splits)
  obtain c where c: "experience_candidate incident db1 = Some c"
    using assms request get by (auto simp: confirm_experience_def and_then_def split: option.splits)
  obtain a where a: "bounded_anomalies (i_context (iv_row incident)) = Inr a"
    using assms request get c by (auto simp: confirm_experience_def and_then_def split: sum.splits)
  obtain y db2 where save: "save_experience e n x incident c a request db1 = Inr (y, db2)"
    using assms request get c a by (auto simp: confirm_experience_def and_then_def split: sum.splits)
  have "db' = record_event (i_incident_id (iv_row incident)) ''result'' n None txt_experience_saved
      (JObj [(''experience_id'', JStr y), (''confirmation_source'', jget request ''source''),
        (''confirmed_by'', jget request ''confirmed_by'')]) db2"
    using assms request get c a save
    by (auto simp: confirm_experience_def and_then_def Let_def split: option.splits)
  moreover have "ts_incidents db2 = ts_incidents db1" "ts_repairs db2 = ts_repairs db1" "ts_manual db2 = ts_manual db1"
    using save by (auto simp: save_experience_def split: option.splits if_splits)
  ultimately show ?thesis using that[OF get c save] by (simp add: record_event_experiences)
qed

text \<open>
  C13. Tsunade learns from a verified recovery, once. When a confirmation was recorded, the incident
  had ended, one of its repairs succeeded or one of its manual actions was confirmed, and it had
  taught nothing yet. One experience was added or gained one attempt and one success, no other
  changed, and every further confirmation of the incident is refused, whenever and however it is
  sent, until another confirmation.
\<close>

theorem experience_learned_once:
  assumes "confirm_experience e n1 n x k payload db = (Inr v, db')"
  shows "(\<exists>i. select_incident k db' = Some i \<and> \<not> active i) \<and> recovery_verified k db' \<and>
    \<not> already_saved k db \<and> learned k (ts_experiences db) (ts_experiences db') \<and>
    (\<forall>m1 m y p. isl (fst (confirm_experience e m1 m y k p db')))"
proof (intro conjI allI)
  obtain incident db1 c a request y db2 where get: "get_incident e n1 k db = (Inr incident, db1)"
    and c: "experience_candidate incident db1 = Some c"
    and save: "save_experience e n x incident c a request db1 = Inr (y, db2)"
    and db': "ts_experiences db' = ts_experiences db2" "ts_incidents db' = ts_incidents db1"
    "ts_repairs db' = ts_repairs db1" "ts_manual db' = ts_manual db1"
    by (rule confirm_cases[OF assms])
  obtain row where row: "select_incident k db = Some row" "i_incident_id (iv_row incident) = k"
    "active (iv_row incident) = active row" "db1 = expire_repairs_locked e n1 db"
    "incident_document e n1 True row db1 = Inr incident"
    by (rule get_incident_Inr[OF get])
  have k: "i_incident_id row = k" using row(1) by (auto simp: select_incident_def dest: tbl_find_Some_D)
  show "\<exists>i. select_incident k db' = Some i \<and> \<not> active i"
    using candidateD(1)[OF c] row(1,3,4) db'(2) by (simp add: select_incident_def)
  show "recovery_verified k db'"
    using candidate_verified[OF row(5) c] db'(3,4) k by (simp add: recovery_verified_def)
  show "\<not> already_saved k db"
    using candidateD(2)[OF c] row(2,4) by (simp add: already_saved_def)
  show learned: "learned k (ts_experiences db) (ts_experiences db')"
    using save_learned[OF save] get_experiences[OF get] db'(1) row(2) by simp
  fix m1 m y p
  have "\<not> (\<exists>w db''. confirm_experience e m1 m y k p db' = (Inr w, db''))"
  proof clarify
    fix w db''
    assume again: "confirm_experience e m1 m y k p db' = (Inr w, db'')"
    obtain incident' db1' c' where "get_incident e m1 k db' = (Inr incident', db1')"
      "experience_candidate incident' db1' = Some c'"
      by (rule confirm_cases[OF again]) blast
    then show False using candidateD(2) learned_saved[OF learned] get_experiences get_incident_Inr
      unfolding already_saved_def by metis
  qed
  then show "isl (fst (confirm_experience e m1 m y k p db'))"
    by (cases "confirm_experience e m1 m y k p db'") (metis fst_conv isl_def sum.exhaust)
qed

text \<open>Two incidents that a person repaired in the same way.\<close>

definition demo_ended :: "string \<Rightarrow> incident_row" where
  "demo_ended k = (new_incident k demo_fault Critical empty_tsdb)\<lparr>i_ended_at := Some (seconds 900)\<rparr>"

definition demo_action :: "string \<Rightarrow> string \<Rightarrow> manual_row" where
  "demo_action j k = \<lparr>ma_action_id = j, ma_incident_id = k, ma_description = ''vis'', ma_declared_at = seconds 500,
     ma_declared_by = None, ma_source = ''vision'', ma_status = Confirmed,
     ma_verification_deadline = seconds 1000, ma_verified_at = Some (seconds 900), ma_result = Some ''ok'',
     ma_observation_id = None\<rparr>"

definition repaired_db :: tsdb where
  "repaired_db = empty_tsdb\<lparr>ts_incidents := [demo_ended ''i1'', demo_ended ''i2''],
     ts_manual := [demo_action ''m1'' ''i1'', demo_action ''m2'' ''i2'']\<rparr>"

definition demo_confirmation :: json where
  "demo_confirmation = JObj [(''confirm'', JBool True), (''source'', JStr ''vision'')]"

definition demo_confirm :: "string \<Rightarrow> string \<Rightarrow> tsdb \<Rightarrow> experience_row tresult" where
  "demo_confirm x k db = confirm_experience demo_env (seconds 1000) (seconds 1000) x k demo_confirmation db"

lemma repaired_confirmed:
  obtains v db where "confirm_experience demo_env (seconds 1000) (seconds 1000) ''x1'' ''i1'' demo_confirmation repaired_db = (Inr v, db)"
proof -
  have "case demo_confirm ''x1'' ''i1'' repaired_db of (Inr v, db) \<Rightarrow> True | _ \<Rightarrow> False" by code_simp
  then show ?thesis using that by (auto simp: demo_confirm_def split: prod.splits sum.splits)
qed

theorem experience_learned_once_witness:
  "recovery_verified ''i1'' (snd (demo_confirm ''x1'' ''i1'' repaired_db)) \<and>
   isl (fst (demo_confirm ''x2'' ''i1'' (snd (demo_confirm ''x1'' ''i1'' repaired_db))))"
  by (rule repaired_confirmed) (use experience_learned_once in \<open>fastforce simp: demo_confirm_def\<close>)

text \<open>
  The mark is the incident of the last confirmation: once a second incident confirmed the same
  experience, the first one may be confirmed, and counted, again.
\<close>

definition demo_save :: "string \<Rightarrow> string \<Rightarrow> tsdb \<Rightarrow> tsdb" where
  "demo_save x k db =
     (case get_incident demo_env (seconds 1000) k db of
        (Inr incident, db1) \<Rightarrow>
          (case experience_candidate incident db1 of
             None \<Rightarrow> db1
           | Some c \<Rightarrow> (case save_experience demo_env (seconds 1000) x incident c [] demo_confirmation db1 of
               Inl err \<Rightarrow> db1 | Inr (y, db2) \<Rightarrow> db2))
      | (Inl err, db1) \<Rightarrow> db1)"

lemma experience_counted_again:
  "(let db1 = demo_save ''x1'' ''i1'' repaired_db; db2 = demo_save ''x2'' ''i2'' db1; db3 = demo_save ''x3'' ''i1'' db2
    in map (map (\<lambda>x. (ex_incident_id x, ex_success_count x))) [ts_experiences db1, ts_experiences db2, ts_experiences db3] =
       [[(''i1'', 1)], [(''i2'', 2)], [(''i1'', 3)]])"
  by code_simp

end
