(* ===== verification/Experience_Properties.thy ===== *)
theory Experience_Properties
  imports Known_Repairs Experience_Confirmation
begin

text \<open>
  What the known repairs are worth: the bounds of their ranking, the evidence behind a match, and
  the proposals that Tsunade makes by itself.
\<close>

section \<open>The Wilson bound\<close>

lemma wilson_margin:
  fixes p z2 n :: real
  assumes "0 < n" "0 \<le> p" "p \<le> 1" "0 \<le> z2"
  shows "z2 * (1 - 2 * p) / (2 * n) \<le> sqrt z2 * sqrt ((p * (1 - p) + z2 / (4 * n)) / n)"
proof -
  let ?q = "p * (1 - p)"
  have q: "0 \<le> ?q" using assms by simp
  have "(z2 * (1 - 2 * p) / (2 * n))\<^sup>2 = z2\<^sup>2 * (1 - 4 * ?q) / (4 * n\<^sup>2)"
    by (simp add: power2_eq_square field_simps)
  also have "\<dots> \<le> z2\<^sup>2 / (4 * n\<^sup>2)"
    using q assms by (intro divide_right_mono) (simp_all add: mult_left_le)
  also have "\<dots> \<le> z2 * ?q / n + z2\<^sup>2 / (4 * n\<^sup>2)" using q assms by simp
  also have "\<dots> = z2 * ((?q + z2 / (4 * n)) / n)"
    using assms(1) by (simp add: power2_eq_square field_simps)
  finally have "z2 * (1 - 2 * p) / (2 * n) \<le> sqrt (z2 * ((?q + z2 / (4 * n)) / n))"
    by (rule real_le_rsqrt)
  then show ?thesis by (simp only: real_sqrt_mult)
qed

lemma wilson_shift:
  fixes p z2 n m :: real
  assumes "0 < n" "z2 * (1 - 2 * p) / (2 * n) \<le> m"
  shows "p + z2 / (2 * n) - m \<le> p * (1 + z2 / n)"
proof -
  have "z2 * (1 - 2 * p) / (2 * n) = z2 / (2 * n) - p * (z2 / n)" using assms(1) by (simp add: field_simps)
  then show ?thesis using assms(2) by (simp add: distrib_left)
qed

lemma wilson_bounds:
  assumes "0 < d" "0 \<le> s" "s \<le> d"
  shows "0 \<le> wilson_lower_bound s d" "wilson_lower_bound s d \<le> real_of_int s / real_of_int d"
proof -
  let ?n = "real_of_int d" and ?z = "196 / 100 :: real"
  let ?p = "real_of_int s / ?n"
  have n: "0 < ?n" and p: "0 \<le> ?p" "?p \<le> 1" using assms by simp_all
  have z: "sqrt (?z * ?z) = ?z" by (simp only: real_sqrt_abs2)
  have "?z * ?z * (1 - 2 * ?p) / (2 * ?n) \<le> ?z * sqrt ((?p * (1 - ?p) + ?z * ?z / (4 * ?n)) / ?n)"
    using wilson_margin[OF n p, of "?z * ?z"] unfolding z by simp
  then have "?p + ?z * ?z / (2 * ?n) - ?z * sqrt ((?p * (1 - ?p) + ?z * ?z / (4 * ?n)) / ?n) \<le> ?p * (1 + ?z * ?z / ?n)"
    by (rule wilson_shift[OF n])
  then have "(?p + ?z * ?z / (2 * ?n) - ?z * sqrt ((?p * (1 - ?p) + ?z * ?z / (4 * ?n)) / ?n)) / (1 + ?z * ?z / ?n) \<le> ?p"
    using n by (subst pos_divide_le_eq) (simp_all add: add_pos_pos)
  then show "wilson_lower_bound s d \<le> ?p"
    using assms p by (simp add: wilson_lower_bound_def Let_def)
  show "0 \<le> wilson_lower_bound s d" by (simp add: wilson_lower_bound_def Let_def)
qed

lemma wilson_ranks: "wilson_lower_bound 1 1 < wilson_lower_bound 19 20"
proof -
  have "sqrt ((49 / 25 :: real) * (49 / 25) / 4) = 49 / 50"
    using real_sqrt_abs2[of "49 / 50 :: real"] by simp
  then have one: "wilson_lower_bound 1 1 < 1 / 4" by (simp add: wilson_lower_bound_def Let_def)
  have "sqrt (((19 / 20) * (1 - 19 / 20) + (49 / 25) * (49 / 25) / (4 * 20)) / 20 :: real) \<le> 7 / 100"
    by (rule real_le_lsqrt) (simp_all add: power2_eq_square)
  then have "1 / 4 < wilson_lower_bound 19 20"
    by (simp add: wilson_lower_bound_def Let_def max_def)
  with one show ?thesis by simp
qed



section \<open>Matches\<close>

lemma find_SomeD: "find P xs = Some x \<Longrightarrow> P x \<and> x \<in> set xs"
  by (auto simp: find_Some_iff in_set_conv_nth)

lemma rank_rows_first:
  assumes "find P (rank_rows rows) = Some x" "y \<in> set rows" "P y"
  shows "rank_key x \<le> rank_key y"
proof -
  from assms(1) obtain i where i: "i < length (rank_rows rows)" "x = rank_rows rows ! i" "P x"
    "\<And>j. j < i \<Longrightarrow> \<not> P (rank_rows rows ! j)" by (auto simp: find_Some_iff)
  have "y \<in> set (rank_rows rows)" using assms(2) by (simp add: rank_rows_def)
  then obtain j where j: "j < length (rank_rows rows)" "y = rank_rows rows ! j" by (auto simp: in_set_conv_nth)
  then have "i \<le> j" using i(4) assms(3) not_le by blast
  then have "map rank_key (rank_rows rows) ! i \<le> map rank_key (rank_rows rows) ! j"
    using j(1) by (intro sorted_nth_mono) (simp_all add: rank_rows_def del: nth_map)
  then show ?thesis using i j by simp
qed

text \<open>The known repairs that a proposal could reproduce.\<close>

definition comparable :: "env \<Rightarrow> incident_view \<Rightarrow> repair_spec \<Rightarrow> tsdb \<Rightarrow> experience_row list" where
  "comparable e incident spec db =
     filter (\<lambda>x. \<not> cmp_different_nature (comparison_with incident x))
       (take 10 (order_desc (\<lambda>x. julianday e (ex_last_used_at x))
         (filter (\<lambda>x. of_capability (iv_row incident) x \<and> same_action spec x) (ts_experiences db))))"

text \<open>
  A known repair is cited on evidence. When a proposal names a known repair, the diagnosis of
  the incident was confirmed by a probe or the Supervisor, the known repair is active, for the same
  equipment, capability, operation and target, its remembered failure is not of another nature, no
  comparable one has a better score, and the counters cited are its own.
\<close>

theorem known_repair_on_evidence:
  assumes "known_repair_match_locked e incident spec db = Some m"
  shows "(\<exists>x \<in> set (ts_experiences db).
      km_experience_id m = ex_experience_id x \<and> of_capability (iv_row incident) x \<and> same_action spec x \<and>
      \<not> cmp_different_nature (comparison_with incident x) \<and>
      (\<forall>y \<in> set (comparable e incident spec db).
         wilson_lower_bound (ex_success_count y) (ex_success_count y + ex_failure_count y) \<le>
         wilson_lower_bound (ex_success_count x) (ex_success_count x + ex_failure_count x)) \<and>
      km_attempt_count m = ex_attempt_count x \<and> km_success_count m = ex_success_count x \<and>
      km_failure_count m = ex_failure_count x) \<and>
    (\<exists>d. iv_decision incident = Some d \<and> confirmed (jget (fst d) ''epistemic_status''))"
proof
  let ?d = "case iv_decision incident of None \<Rightarrow> JObj [] | Some d \<Rightarrow> fst d"
  let ?rows = "take 10 (order_desc (\<lambda>x. julianday e (ex_last_used_at x))
         (filter (\<lambda>x. of_capability (iv_row incident) x \<and> same_action spec x) (ts_experiences db)))"
  let ?P = "\<lambda>x. \<not> cmp_different_nature (comparison_with incident x)"
  have conf: "confirmed (jget ?d ''epistemic_status'')"
    using assms by (simp add: known_repair_match_locked_def Let_def split: if_splits)
  then show "\<exists>d. iv_decision incident = Some d \<and> confirmed (jget (fst d) ''epistemic_status'')"
    by (cases "iv_decision incident") (auto simp: confirmed_def)
  obtain x where x: "find ?P (rank_rows ?rows) = Some x"
    using assms conf by (auto simp: known_repair_match_locked_def Let_def split: option.splits)
  then have m: "km_experience_id m = ex_experience_id x" "km_attempt_count m = ex_attempt_count x"
    "km_success_count m = ex_success_count x" "km_failure_count m = ex_failure_count x"
    using assms conf by (auto simp: known_repair_match_locked_def Let_def)
  have Px: "?P x" "x \<in> set ?rows" using find_SomeD[OF x] by (simp_all add: rank_rows_def)
  then have all: "x \<in> set (ts_experiences db)" "of_capability (iv_row incident) x" "same_action spec x"
    by (auto dest!: in_set_takeD simp: order_desc_def)
  have "wilson_lower_bound (ex_success_count y) (ex_success_count y + ex_failure_count y) \<le>
      wilson_lower_bound (ex_success_count x) (ex_success_count x + ex_failure_count x)"
    if y: "y \<in> set (comparable e incident spec db)" for y
  proof -
    have yr: "y \<in> set ?rows" "?P y" using y by (simp_all add: comparable_def)
    then have "ex_state y = ''active''" "ex_state x = ''active''"
      using all by (auto dest!: in_set_takeD simp: order_desc_def of_capability_def)
    then show ?thesis using rank_rows_first[OF x yr] by (auto simp: rank_key_def less_eq_prod_def)
  qed
  then show "\<exists>x \<in> set (ts_experiences db).
      km_experience_id m = ex_experience_id x \<and> of_capability (iv_row incident) x \<and> same_action spec x \<and>
      \<not> cmp_different_nature (comparison_with incident x) \<and>
      (\<forall>y \<in> set (comparable e incident spec db).
         wilson_lower_bound (ex_success_count y) (ex_success_count y + ex_failure_count y) \<le>
         wilson_lower_bound (ex_success_count x) (ex_success_count x + ex_failure_count x)) \<and>
      km_attempt_count m = ex_attempt_count x \<and> km_success_count m = ex_success_count x \<and>
      km_failure_count m = ex_failure_count x"
    using all m Px(1) by blast
qed

text \<open>An incident that a probe explained, and a repair known for it.\<close>

definition demo_explained :: incident_view where
  "demo_explained = \<lparr>iv_row = new_incident ''i1'' demo_fault Critical empty_tsdb, iv_workflow_state = ''in_progress'',
     iv_expertise_state = ''deterministic'',
     iv_decision = Some (JObj [(''epistemic_status'', JStr ''confirmed_by_probe'')], seconds 105), iv_events = [],
     iv_repairs = [], iv_manual_actions = [], iv_followup = None\<rparr>"

definition demo_known :: experience_row where
  "demo_known = \<lparr>ex_experience_id = ''x1'', ex_signature = ''s'', ex_equipment_id = ''n'', ex_capability_id = ''c'',
     ex_symptoms = JArr [], ex_context = JObj [], ex_observations = JArr [], ex_anomalies = JArr [],
     ex_validated_diagnostic = ''d'', ex_action = JObj [(''operation'', JStr (sp_operation demo_spec)),
       (''target'', JStr (sp_target demo_spec))], ex_result = ''ok'', ex_occurrence_count = 1, ex_attempt_count = 1,
     ex_success_count = 1, ex_failure_count = 0, ex_last_used_at = seconds 50, ex_last_success_at = Some (seconds 50),
     ex_last_failure_at = None, ex_confidence = ''1.0'', ex_confirmed_by = ''u'', ex_confirmation_source = ''vision'',
     ex_incident_id = ''i0'', ex_state = ''active'', ex_state_changed_at = None, ex_state_reason = None\<rparr>"

lemma demo_known_fits:
  "of_capability (iv_row demo_explained) demo_known" "same_action demo_spec demo_known"
  "\<not> cmp_different_nature (comparison_with demo_explained demo_known)"
  by code_simp+

lemma demo_match:
  obtains m where "known_repair_match_locked demo_env demo_explained demo_spec
    (empty_tsdb\<lparr>ts_experiences := [demo_known]\<rparr>) = Some m"
proof -
  have "confirmed (jget (case iv_decision demo_explained of None \<Rightarrow> JObj [] | Some d \<Rightarrow> fst d) ''epistemic_status'')"
    by code_simp
  then show ?thesis using that demo_known_fits
    by (simp add: known_repair_match_locked_def Let_def order_desc_def rank_rows_def)
qed

theorem known_repair_on_evidence_witness:
  "\<exists>m. known_repair_match_locked demo_env demo_explained demo_spec
     (empty_tsdb\<lparr>ts_experiences := [demo_known]\<rparr>) = Some m \<and> km_experience_id m = ''x1'' \<and> km_success_count m = 1"
  by (rule demo_match) (use known_repair_on_evidence in \<open>fastforce simp: demo_known_def\<close>)

section \<open>Proposals\<close>

lemma eligible_repairD:
  assumes "eligible_repair incident services agent = Inr spec"
  obtains s where "s \<in> set REPAIRS" "sp_key spec = sp_key s" "sp_operation spec = sp_operation s"
    "sp_risk spec = sp_risk s" "active (iv_row incident)"
    "jget (case iv_decision incident of None \<Rightarrow> JObj [] | Some d \<Rightarrow> fst d) ''epistemic_status'' = JStr (sp_evidence s)"
proof -
  define P where "P = (\<lambda>(sv :: service_config) (c :: repair_spec). sv_type sv \<in> set (sp_service_types c) \<and>
    implements (map lower_char (case sv_implementation sv of None \<Rightarrow> [] | Some s \<Rightarrow> s)) (sp_implementation_terms c))"
  have act: "active (iv_row incident)" using assms by (simp add: eligible_repair_def Let_def split: if_splits)
  obtain sv where sv: "find (\<lambda>s. sv_id s = i_service_id (iv_row incident)) services = Some sv"
    using assms act by (auto simp: eligible_repair_def Let_def split: option.splits)
  obtain s where s: "find (P sv) REPAIRS = Some s"
    using assms act sv unfolding P_def by (auto simp: eligible_repair_def Let_def split: option.splits)
  have "spec = s \<or> (\<exists>slug. spec = s\<lparr>sp_target := slug\<rparr>)"
    and "jget (case iv_decision incident of None \<Rightarrow> JObj [] | Some d \<Rightarrow> fst d) ''epistemic_status'' = JStr (sp_evidence s)"
    using assms act sv s unfolding P_def by (auto simp: eligible_repair_def Let_def split: if_splits sum.splits)
  moreover have "s \<in> set REPAIRS" using s by (auto dest: find_SomeD)
  ultimately show ?thesis using that act by auto
qed

lemma catalogue_evidence: "s \<in> set REPAIRS \<Longrightarrow> confirmed (JStr (sp_evidence s))"
proof -
  have "list_all (\<lambda>s. confirmed (JStr (sp_evidence s))) REPAIRS" by code_simp
  then show "s \<in> set REPAIRS \<Longrightarrow> ?thesis" by (simp add: list_all_iff)
qed

lemma tbl_update_image: "(\<And>r. g (f r) = g r) \<Longrightarrow> g ` set (tbl_update key k f rows) = g ` set rows"
  unfolding tbl_update_def set_map image_image by (rule image_cong) auto

lemma close_fold_incident_ids:
  "rp_incident_id ` set (ts_repairs (fold (\<lambda>x. close_repair_locked (f x) (g x) st now (h x) kind) xs db)) =
   rp_incident_id ` set (ts_repairs db)"
  by (induction xs arbitrary: db) (simp_all add: tbl_update_image)

lemma expire_incident_ids:
  "rp_incident_id ` set (ts_repairs (expire_repairs_locked e now db)) = rp_incident_id ` set (ts_repairs db)"
  unfolding expire_repairs_locked_def Let_def close_stale_fold close_overdue_fold
  by (simp add: close_fold_incident_ids expire_manual_actions_locked_def)

lemma rows_shown:
  assumes "xs \<noteq> []" "\<And>x. F x \<noteq> []"
  shows "take 20 (order_desc k (concat (map F xs))) \<noteq> []"
proof -
  have "concat (map F xs) \<noteq> []" using assms by (cases xs) simp_all
  then have "order_desc k (concat (map F xs)) \<noteq> []" by (metis length_0_conv length_order_desc)
  then show ?thesis by simp
qed

lemma no_repairs_shown:
  assumes "incident_document e now ev row db = Inr v" "iv_repairs v = []"
  shows "i_incident_id row \<notin> rp_incident_id ` set (ts_repairs db)"
proof
  assume "i_incident_id row \<in> rp_incident_id ` set (ts_repairs db)"
  then have "filter (\<lambda>r. rp_incident_id r = i_incident_id row) (ts_repairs db) \<noteq> []" by (auto simp: filter_empty_conv)
  then have "repairs_of e (i_incident_id row) db \<noteq> []" unfolding repairs_of_def by (rule rows_shown) (simp split: list.splits)
  moreover have "each (\<lambda>rd. repair_document now (snd rd) (fst rd)) (repairs_of e (i_incident_id row) db) = Some []"
    using assms by (auto simp: incident_document_def Let_def split: option.splits if_splits)
  ultimately show False by (auto dest: each_length)
qed

lemma select_new_repair:
  "select_repair k db = None \<Longrightarrow> select_repair k (insert_proposal e now k q incident spec known db) =
     Some (new_repair k (i_incident_id (iv_row incident)) spec now known)"
  by (auto simp: select_repair_def insert_proposal_def Let_def record_event_def tbl_find_append
      new_repair_def tbl_find_def[of _ _ "[_]"] simp del: redact_sensitive_value.simps)

lemma get_new_repair:
  assumes "get_repair now k (insert_proposal e now k q incident spec known db) = Inr v" "select_repair k db = None"
  shows "rp_status (rv_row v) = Proposed" "rp_repair_id (rv_row v) = k" "rp_executed_at (rv_row v) = None"
    "rp_operation (rv_row v) = sp_operation spec" "rp_incident_id (rv_row v) = i_incident_id (iv_row incident)"
    "rp_authorized_at (rv_row v) = None"
proof -
  have "\<exists>d. repair_document now d (new_repair k (i_incident_id (iv_row incident)) spec now known) = Some v"
    using assms select_new_repair by (auto simp: get_repair_def required_repair_def split: option.splits)
  then show "rp_status (rv_row v) = Proposed" "rp_repair_id (rv_row v) = k" "rp_executed_at (rv_row v) = None"
    "rp_operation (rv_row v) = sp_operation spec" "rp_incident_id (rv_row v) = i_incident_id (iv_row incident)"
    "rp_authorized_at (rv_row v) = None"
    by (auto simp: repair_document_def new_repair_def split: if_splits)
qed

lemma propose_repair_cases:
  assumes "propose_repair e n1 n r q known k spec db = (Inr v, db')"
  obtains (existing) row incident db1 where "get_incident e n1 k db = (Inr incident, db1)"
      "open_repair e k db1 = Some row" "rv_row v = row\<lparr>rp_target := trim (rp_target row), rp_result := masked_option (rp_result row)\<rparr>"
  | (proposed) incident db1 where "get_incident e n1 k db = (Inr incident, db1)" "i_incident_id (iv_row incident) = k"
      "select_repair r db1 = None" "get_repair n r (insert_proposal e n r q incident spec known db1) = Inr v"
proof -
  obtain incident db1 where get: "get_incident e n1 k db = (Inr incident, db1)"
    using assms by (auto simp: propose_repair_def and_then_def split: prod.splits sum.splits)
  have k: "i_incident_id (iv_row incident) = k" by (rule get_incident_Inr[OF get])
  show ?thesis
  proof (cases "open_repair e k db1")
    case None
    then show ?thesis using assms get k proposed[OF get k]
      by (auto simp: propose_repair_def and_then_def Let_def split: if_splits)
  next
    case (Some row)
    then have "repair_document n None row = Some v"
      using assms get k by (auto simp: propose_repair_def and_then_def split: if_splits option.splits)
    then show ?thesis using existing[OF get Some] by (auto simp: repair_document_def split: if_splits)
  qed
qed

text \<open>
  C12. Proposals rest on evidence. When the service returns a proposal for an incident, the incident
  is open, its diagnosis was confirmed by a probe or the Supervisor as a repair of the catalogue
  demands, that repair has an executor, and the proposal is undecided or under verification. A
  proposal that Tsunade makes by itself is the incident's first: a new one, of that repair's
  operation, which nobody authorised and nothing executed.
\<close>

theorem proposals_on_evidence:
  assumes "propose_incident_repair e n1 n2 n3 r q executors services agent automatic k payload db = (Inr (Some v), db')"
  shows "\<exists>incident s. fst (get_incident e n1 k db) = Inr incident \<and> active (iv_row incident) \<and> s \<in> set REPAIRS \<and>
    (\<exists>d. iv_decision incident = Some d \<and> jget (fst d) ''epistemic_status'' = JStr (sp_evidence s) \<and>
       confirmed (JStr (sp_evidence s))) \<and>
    map_of executors (sp_key s) \<noteq> None \<and> rp_incident_id (rv_row v) = k \<and>
    rp_status (rv_row v) \<in> {Proposed, Verifying} \<and>
    (automatic \<longrightarrow> iv_repairs incident = [] \<and> rp_repair_id (rv_row v) = r \<and>
       rp_operation (rv_row v) = sp_operation s \<and> rp_status (rv_row v) = Proposed \<and>
       rp_authorized_at (rv_row v) = None \<and> rp_executed_at (rv_row v) = None)"
proof -
  obtain request where request: "ProposalRequest payload = Some request"
    using assms by (cases "ProposalRequest payload") (auto simp: propose_incident_repair_def)
  obtain incident db1 where get: "get_incident e n1 k db = (Inr incident, db1)"
    using assms request by (auto simp: propose_incident_repair_def and_then_def split: prod.splits sum.splits)
  have auto: "automatic \<longrightarrow> iv_repairs incident = []"
    using assms request get by (auto simp: propose_incident_repair_def and_then_def split: if_splits)
  then obtain spec where spec: "eligible_repair incident services agent = Inr spec"
    using assms request get by (auto simp: propose_incident_repair_def and_then_def split: sum.splits)
  have exec: "map_of executors (sp_key spec) \<noteq> None"
    using assms request get auto spec by (auto simp: propose_incident_repair_def and_then_def split: if_splits)
  obtain known where proposal: "propose_repair e n2 n3 r q known k spec db1 = (Inr v, db')"
    using assms request get auto spec exec
    by (auto simp: propose_incident_repair_def propose_known_repair_def and_then_def split: if_splits prod.splits sum.splits)
  obtain s where s: "s \<in> set REPAIRS" "sp_key spec = sp_key s" "sp_operation spec = sp_operation s"
    "active (iv_row incident)"
    "jget (case iv_decision incident of None \<Rightarrow> JObj [] | Some d \<Rightarrow> fst d) ''epistemic_status'' = JStr (sp_evidence s)"
    by (rule eligible_repairD[OF spec])
  have d: "\<exists>d. iv_decision incident = Some d \<and> jget (fst d) ''epistemic_status'' = JStr (sp_evidence s) \<and>
      confirmed (JStr (sp_evidence s))"
    using s(5) catalogue_evidence[OF s(1)] by (cases "iv_decision incident") auto
  show ?thesis using proposal
  proof (cases rule: propose_repair_cases)
    case (existing row incident' db2)
    then have row: "row \<in> set (ts_repairs db2)" "rp_incident_id row = k" "rp_status row \<in> {Proposed, Verifying}"
      by (auto simp: open_repair_def dest: newest_row_Some)
    have "\<not> automatic"
    proof
      assume "automatic"
      then have "k \<notin> rp_incident_id ` set (ts_repairs db1)"
        using auto get_incident_Inr[OF get] no_repairs_shown tbl_find_Some_D unfolding select_incident_def by metis
      moreover have "db2 = expire_repairs_locked e n2 db1"
        by (rule get_incident_Inr[OF existing(1)])
      ultimately show False using row expire_incident_ids by blast
    qed
    then show ?thesis using get s d exec row existing(3) by auto
  next
    case (proposed incident' db2)
    then show ?thesis using get_new_repair[OF proposed(4,3)] get auto s d exec by auto
  qed
qed

text \<open>The proposals of the service are reads and proposals of the repository.\<close>

lemma proposal_reachable:
  assumes "ts_reachable e db"
  shows "ts_reachable e (snd (propose_incident_repair e n1 n2 n3 r q executors services agent automatic k payload db))"
proof (cases "ProposalRequest payload")
  case (Some request)
  have "ts_reachable e (snd (get_incident e n1 k db))"
    using ts_reachable_exec[OF assms, where op = "TsGet n1 k"] by simp
  moreover have "ts_reachable e (snd (propose_known_repair e n2 n3 r q k spec db1))" if "ts_reachable e db1" for spec db1
    using ts_reachable_exec[OF that, where op = "TsPropose n2 n3 r q _ k spec"] unfolding propose_known_repair_def by simp
  ultimately show ?thesis using Some
    by (auto simp: propose_incident_repair_def and_then_def split: prod.splits sum.splits)
      (metis snd_conv)+
qed (simp add: propose_incident_repair_def assms)

text \<open>The broker is down and a probe saw it.\<close>

definition demo_event :: "int \<Rightarrow> string \<Rightarrow> json \<Rightarrow> event_row" where
  "demo_event n kind payload = \<lparr>event_row.ev_event_id = n, ev_incident_id = ''i1'', ev_kind = kind, ev_occurred_at = seconds 105,
     ev_observation_id = None, ev_status = None, ev_summary = ''a'', ev_payload = payload\<rparr>"

definition probed_db :: tsdb where
  "probed_db = empty_tsdb\<lparr>ts_incidents := [new_incident ''i1'' demo_fault Critical empty_tsdb],
     ts_events := [demo_event 1 ''investigation'' (JObj [(''operation'', JStr ''mqtt.status''), (''status'', JStr ''OK''),
         (''result'', JObj [(''success'', JBool False)])]),
       demo_event 2 ''diagnostic'' (JObj [(''epistemic_status'', JStr ''confirmed_by_probe'')])]\<rparr>"

definition demo_services :: "service_config list" where
  "demo_services = [\<lparr>sv_id = ''s'', sv_name = ''b'', sv_type = ''mqtt'', sv_node = ''n'', sv_implementation = Some ''Mosquitto''\<rparr>]"

definition demo_executors :: executors where
  "demo_executors = [(''mosquitto.restart'', \<lambda>incident target. None)]"

lemma nothing_known:
  assumes "ts_experiences db = []"
  shows "propose_known_repair e n1 n r q k spec db = propose_repair e n1 n r q None k spec db"
proof -
  have "known_repair_match_locked e incident spec db1 = None" if "ts_experiences db1 = []" for incident db1
    using that by (simp add: known_repair_match_locked_def Let_def order_desc_def rank_rows_def)
  then show ?thesis using assms get_experiences[of e n1 k db]
    by (auto simp: propose_known_repair_def split: prod.splits sum.splits)
qed

text \<open>A proposal that nothing prevents is made.\<close>

lemma propose_succeeds:
  assumes "get_incident e n1 k db = (Inr incident, db1)" "active (iv_row incident)" "open_repair e k db1 = None"
    "select_repair r db1 = None" "tbl_find rq_request_id q (ts_requests db1) = None"
    "repair_document n None (new_repair r k spec n known) = Some v"
  shows "\<exists>db'. propose_repair e n1 n r q known k spec db = (Inr v, db')"
proof -
  have "i_incident_id (iv_row incident) = k" by (rule get_incident_Inr[OF assms(1)])
  then show ?thesis using assms
    by (simp add: propose_repair_def and_then_def Let_def get_repair_def required_repair_def select_new_repair)
qed

lemma probed_eligible:
  obtains incident spec v where "get_incident demo_env (seconds 110) ''i1'' probed_db = (Inr incident, probed_db)"
    "iv_repairs incident = []" "active (iv_row incident)" "eligible_repair incident demo_services None = Inr spec"
    "map_of demo_executors (sp_key spec) \<noteq> None"
    "repair_document (seconds 110) None (new_repair demo_repair_id ''i1'' spec (seconds 110) None) = Some v"
proof -
  have "case get_incident demo_env (seconds 110) ''i1'' probed_db of (Inr incident, db) \<Rightarrow>
      db = probed_db \<and> iv_repairs incident = [] \<and> active (iv_row incident) \<and>
      (case eligible_repair incident demo_services None of Inr spec \<Rightarrow> map_of demo_executors (sp_key spec) \<noteq> None \<and>
         (case repair_document (seconds 110) None (new_repair demo_repair_id ''i1'' spec (seconds 110) None) of
            Some v \<Rightarrow> True | None \<Rightarrow> False) | _ \<Rightarrow> False)
    | _ \<Rightarrow> False" by code_simp
  then show ?thesis using that by (auto split: option.splits prod.splits sum.splits)
qed

lemma probed_proposal:
  obtains v db where "propose_incident_repair demo_env (seconds 110) (seconds 110) (seconds 110) demo_repair_id ''q1''
    demo_executors demo_services None True ''i1'' (JObj []) probed_db = (Inr (Some v), db)"
proof -
  obtain incident spec v where p: "get_incident demo_env (seconds 110) ''i1'' probed_db = (Inr incident, probed_db)"
    "iv_repairs incident = []" "active (iv_row incident)" "eligible_repair incident demo_services None = Inr spec"
    "map_of demo_executors (sp_key spec) \<noteq> None"
    "repair_document (seconds 110) None (new_repair demo_repair_id ''i1'' spec (seconds 110) None) = Some v"
    by (rule probed_eligible)
  have new: "open_repair demo_env ''i1'' probed_db = None" "select_repair demo_repair_id probed_db = None"
    "tbl_find rq_request_id ''q1'' (ts_requests probed_db) = None" "ts_experiences probed_db = []"
    by (simp_all add: probed_db_def empty_tsdb_def open_repair_def newest_row_None select_repair_def tbl_find_def)
  obtain db where "propose_repair demo_env (seconds 110) (seconds 110) demo_repair_id ''q1'' None ''i1'' spec probed_db = (Inr v, db)"
    using propose_succeeds[OF p(1,3) new(1-3) p(6)] by blast
  moreover have "case ProposalRequest (JObj []) of Some request \<Rightarrow> jget request ''operation'' = JNull | None \<Rightarrow> False"
    by code_simp
  ultimately show ?thesis using that p new(4)
    by (cases "ProposalRequest (JObj [])") (auto simp: propose_incident_repair_def and_then_def nothing_known)
qed

theorem proposals_on_evidence_witness:
  "\<exists>v db. propose_incident_repair demo_env (seconds 110) (seconds 110) (seconds 110) demo_repair_id ''q1''
     demo_executors demo_services None True ''i1'' (JObj []) probed_db = (Inr (Some v), db) \<and>
   rp_status (rv_row v) = Proposed \<and> rp_repair_id (rv_row v) = demo_repair_id"
  by (rule probed_proposal) (use proposals_on_evidence in blast)

end
