(* ===== verification/Capabilities.thy ===== *)
theory Capabilities
  imports Py_Repr
begin

text \<open>
  Capabilities and their manager (core/capability/): the life cycle of a capability, the registry
  in order of registration, and the order in which dependencies allow to start.
\<close>

section \<open>A capability\<close>

datatype cap_state =
    CAP_CREATED | CAP_REGISTERED | CAP_INITIALIZING | CAP_READY | CAP_STARTING | CAP_RUNNING
  | CAP_DEGRADED | CAP_STOPPING | CAP_STOPPED | CAP_ERROR

datatype capability_health = CAP_UNKNOWN | CAP_HEALTHY | CAP_WARNING | CAP_CRITICAL

record capability =
  cap_id :: string
  cap_name :: string
  cap_version :: string
  cap_description :: string
  cap_dependencies :: "string list"
  cap_optional_dependencies :: "string list"
  cap_commands :: "string list"
  cap_events :: "string list"
  cap_configuration :: json
  cap_state :: cap_state
  cap_health :: capability_health
  cap_last_transition_at :: instant

definition transition_to :: "instant \<Rightarrow> cap_state \<Rightarrow> capability \<Rightarrow> capability" where
  "transition_to now st c = c\<lparr>cap_state := st, cap_last_transition_at := now\<rparr>"

definition set_health :: "capability_health \<Rightarrow> capability \<Rightarrow> capability" where
  "set_health h c = c\<lparr>cap_health := h\<rparr>"

text \<open>Each transition reads the clock: \<open>n1\<close>, then \<open>n2\<close>.\<close>

definition initialize_capability :: "instant \<Rightarrow> instant \<Rightarrow> capability \<Rightarrow> capability" where
  "initialize_capability n1 n2 c = transition_to n2 CAP_READY (transition_to n1 CAP_INITIALIZING c)"

definition start_capability :: "instant \<Rightarrow> instant \<Rightarrow> capability \<Rightarrow> capability" where
  "start_capability n1 n2 c =
     set_health CAP_HEALTHY (transition_to n2 CAP_RUNNING (transition_to n1 CAP_STARTING c))"

definition stop_capability :: "instant \<Rightarrow> instant \<Rightarrow> capability \<Rightarrow> capability" where
  "stop_capability n1 n2 c = transition_to n2 CAP_STOPPED (transition_to n1 CAP_STOPPING c)"

definition degrade_capability :: "instant \<Rightarrow> capability \<Rightarrow> capability" where
  "degrade_capability now c = set_health CAP_WARNING (transition_to now CAP_DEGRADED c)"

definition fail_capability :: "instant \<Rightarrow> capability \<Rightarrow> capability" where
  "fail_capability now c = set_health CAP_CRITICAL (transition_to now CAP_ERROR c)"

section \<open>The manager\<close>

datatype capability_error =
    CapabilityAlreadyRegisteredError string
  | CapabilityNotFoundError string
  | CapabilityDependencyError string
  | CapabilityDependencyCycleError string

text \<open>The dict of capabilities, in order of insertion, each under its own identifier.\<close>

type_synonym capabilities = "capability list"

definition register_capability ::
  "instant \<Rightarrow> capability \<Rightarrow> capabilities \<Rightarrow> capability_error + capabilities" where
  "register_capability now c caps =
     (if tbl_find cap_id (cap_id c) caps \<noteq> None
      then Inl (CapabilityAlreadyRegisteredError (''Capability already registered: '' @ cap_id c))
      else Inr (caps @ [transition_to now CAP_REGISTERED c]))"

definition capability_not_found :: "string \<Rightarrow> capability_error" where
  "capability_not_found k = CapabilityNotFoundError (''Capability not found: '' @ k)"

definition unregister_capability :: "string \<Rightarrow> capabilities \<Rightarrow> capability_error + capabilities" where
  "unregister_capability k caps =
     (if tbl_find cap_id k caps = None then Inl (capability_not_found k)
      else Inr (filter (\<lambda>c. cap_id c \<noteq> k) caps))"

definition get_capability :: "string \<Rightarrow> capabilities \<Rightarrow> capability_error + capability" where
  "get_capability k caps =
     (case tbl_find cap_id k caps of None \<Rightarrow> Inl (capability_not_found k) | Some c \<Rightarrow> Inr c)"

definition capability_exists :: "string \<Rightarrow> capabilities \<Rightarrow> bool" where
  "capability_exists k caps = (tbl_find cap_id k caps \<noteq> None)"

definition list_running :: "capabilities \<Rightarrow> capability list" where
  "list_running caps = filter (\<lambda>c. cap_state c = CAP_RUNNING) caps"

definition list_in_error :: "capabilities \<Rightarrow> capability list" where
  "list_in_error caps = filter (\<lambda>c. cap_state c = CAP_ERROR) caps"

text \<open>The first dependency that fails a check raises.\<close>

definition missing_dependency :: "string \<Rightarrow> string \<Rightarrow> capability_error" where
  "missing_dependency d k =
     CapabilityDependencyError (''Missing dependency '' @ in_quotes d @ '' for capability '' @ in_quotes k)"

definition dependency_not_running :: "string \<Rightarrow> string \<Rightarrow> capability_error" where
  "dependency_not_running d k =
     CapabilityDependencyError (''Dependency '' @ in_quotes d @ '' is not running for capability '' @ in_quotes k)"

definition ensure_required_dependencies_exist :: "capabilities \<Rightarrow> capability \<Rightarrow> capability_error option" where
  "ensure_required_dependencies_exist caps c =
     map_option (\<lambda>d. missing_dependency d (cap_id c))
       (find (\<lambda>d. \<not> capability_exists d caps) (cap_dependencies c))"

fun ensure_all_required_dependencies_exist :: "capabilities \<Rightarrow> capability list \<Rightarrow> capability_error option" where
  "ensure_all_required_dependencies_exist caps [] = None"
| "ensure_all_required_dependencies_exist caps (c # cs) =
     (case ensure_required_dependencies_exist caps c of
        Some err \<Rightarrow> Some err | None \<Rightarrow> ensure_all_required_dependencies_exist caps cs)"

definition is_running :: "string \<Rightarrow> capabilities \<Rightarrow> bool" where
  "is_running d caps = (case tbl_find cap_id d caps of None \<Rightarrow> False | Some c \<Rightarrow> cap_state c = CAP_RUNNING)"

definition ensure_required_dependencies_running :: "capabilities \<Rightarrow> capability \<Rightarrow> capability_error option" where
  "ensure_required_dependencies_running caps c =
     (case ensure_required_dependencies_exist caps c of
        Some err \<Rightarrow> Some err
      | None \<Rightarrow> map_option (\<lambda>d. dependency_not_running d (cap_id c))
                  (find (\<lambda>d. \<not> is_running d caps) (cap_dependencies c)))"

definition initialize_cap ::
  "instant \<Rightarrow> instant \<Rightarrow> string \<Rightarrow> capabilities \<Rightarrow> capability_error + capabilities" where
  "initialize_cap n1 n2 k caps =
     (case get_capability k caps of
        Inl err \<Rightarrow> Inl err
      | Inr c \<Rightarrow>
          (case ensure_required_dependencies_exist caps c of
             Some err \<Rightarrow> Inl err
           | None \<Rightarrow> Inr (tbl_update cap_id k (initialize_capability n1 n2) caps)))"

definition start_cap ::
  "instant \<Rightarrow> instant \<Rightarrow> string \<Rightarrow> capabilities \<Rightarrow> capability_error + capabilities" where
  "start_cap n1 n2 k caps =
     (case get_capability k caps of
        Inl err \<Rightarrow> Inl err
      | Inr c \<Rightarrow>
          (case ensure_required_dependencies_running caps c of
             Some err \<Rightarrow> Inl err
           | None \<Rightarrow> Inr (tbl_update cap_id k (start_capability n1 n2) caps)))"

definition stop_cap ::
  "instant \<Rightarrow> instant \<Rightarrow> string \<Rightarrow> capabilities \<Rightarrow> capability_error + capabilities" where
  "stop_cap n1 n2 k caps =
     (case get_capability k caps of
        Inl err \<Rightarrow> Inl err
      | Inr c \<Rightarrow> Inr (tbl_update cap_id k (stop_capability n1 n2) caps))"

text \<open>
  A restart stops first: when the start is then refused, the capability stays stopped. The result is
  the error, if any, and the capabilities that are left.
\<close>

definition restart_cap ::
  "instant \<Rightarrow> instant \<Rightarrow> instant \<Rightarrow> instant \<Rightarrow> string \<Rightarrow> capabilities \<Rightarrow> capability_error option \<times> capabilities" where
  "restart_cap n1 n2 n3 n4 k caps =
     (case stop_cap n1 n2 k caps of
        Inl err \<Rightarrow> (Some err, caps)
      | Inr caps1 \<Rightarrow>
          (case start_cap n3 n4 k caps1 of
             Inl err \<Rightarrow> (Some err, caps1) | Inr caps2 \<Rightarrow> (None, caps2)))"

section \<open>The dependency order\<close>

text \<open>The dependents of each capability and the number of its dependencies that are still to come.\<close>

type_synonym dependency_state = "(string \<Rightarrow> string list) \<times> (string \<Rightarrow> int)"

definition add_edge :: "string \<Rightarrow> string \<Rightarrow> dependency_state \<Rightarrow> dependency_state" where
  "add_edge k d gn = ((fst gn)(d := fst gn d @ [k]), (snd gn)(k := snd gn k + 1))"

definition dependency_graph :: "capability list \<Rightarrow> dependency_state" where
  "dependency_graph caps =
     fold (\<lambda>c. fold (add_edge (cap_id c)) (cap_dependencies c)) caps (\<lambda>k. [], \<lambda>k. 0)"

text \<open>The inner loop: each dependent waits for one dependency less, and is queued at zero.\<close>

fun release :: "string list \<Rightarrow> (string \<Rightarrow> int) \<Rightarrow> string list \<Rightarrow> (string \<Rightarrow> int) \<times> string list" where
  "release [] indegree queue = (indegree, queue)"
| "release (k # ks) indegree queue =
     (let n = indegree k - 1
      in release ks (indegree(k := n)) (if n = 0 then queue @ [k] else queue))"

text \<open>The outer loop, \<open>while queue\<close>; not ending would be None.\<close>

partial_function (option) drain ::
  "(string \<Rightarrow> string list) \<Rightarrow> (string \<Rightarrow> int) \<Rightarrow> string list \<Rightarrow> string list \<Rightarrow> string list option" where
  [code]: "drain graph indegree queue ordered =
     (case queue of
        [] \<Rightarrow> Some ordered
      | k # rest \<Rightarrow>
          drain graph (fst (release (graph k) indegree rest)) (snd (release (graph k) indegree rest)) (ordered @ [k]))"

definition dependency_order :: "capabilities \<Rightarrow> (capability_error + string list) option" where
  "dependency_order caps =
     (case ensure_all_required_dependencies_exist caps caps of
        Some err \<Rightarrow> Some (Inl err)
      | None \<Rightarrow>
          (let (graph, indegree) = dependency_graph caps;
               queue = filter (\<lambda>k. indegree k = 0) (map cap_id caps)
           in map_option (\<lambda>ordered.
                if length ordered \<noteq> length caps
                then Inl (CapabilityDependencyCycleError ''Capability dependency cycle detected'')
                else Inr ordered) (drain graph indegree queue [])))"

definition reverse_dependency_order :: "capabilities \<Rightarrow> (capability_error + string list) option" where
  "reverse_dependency_order caps = map_option (map_sum id rev) (dependency_order caps)"

end
