(* ===== verification/Capability_Properties.thy ===== *)
theory Capability_Properties
  imports Capabilities
begin

text \<open>
  The dependency order exists exactly when the dependencies have no cycle, and starting the
  capabilities along it succeeds.
\<close>

section \<open>The graph\<close>

lemma fold_add_edge:
  "fst (fold (add_edge k) ds (g, n)) = (\<lambda>d. g d @ replicate (count_list ds d) k)"
  "snd (fold (add_edge k) ds (g, n)) = n(k := n k + int (length ds))"
  by (induction ds arbitrary: g n) (auto simp: add_edge_def fun_eq_iff replicate_append_same)

definition dependents :: "capability list \<Rightarrow> string \<Rightarrow> string list" where
  "dependents caps d = concat (map (\<lambda>c. replicate (count_list (cap_dependencies c) d) (cap_id c)) caps)"

lemma graph_dependents: "fst (dependency_graph caps) = dependents caps"
proof -
  have "fst (fold (\<lambda>c. fold (add_edge (cap_id c)) (cap_dependencies c)) caps (g, n)) = (\<lambda>d. g d @ dependents caps d)" for g n
  proof (induction caps arbitrary: g n)
    case (Cons c caps)
    obtain g' n' where gn: "fold (add_edge (cap_id c)) (cap_dependencies c) (g, n) = (g', n')" by fastforce
    then have "g' = (\<lambda>d. g d @ replicate (count_list (cap_dependencies c) d) (cap_id c))"
      using fold_add_edge(1) by (metis fst_conv)
    then show ?case using Cons.IH[of g' n'] gn by (simp add: dependents_def)
  qed (simp add: dependents_def)
  then show ?thesis by (simp add: dependency_graph_def)
qed

lemma graph_indegree:
  assumes "distinct (map cap_id caps)" "c \<in> set caps"
  shows "snd (dependency_graph caps) (cap_id c) = int (length (cap_dependencies c))"
proof -
  have frame: "k \<notin> cap_id ` set cs \<Longrightarrow>
      snd (fold (\<lambda>c. fold (add_edge (cap_id c)) (cap_dependencies c)) cs gn) k = snd gn k" for cs gn k
  proof (induction cs arbitrary: gn)
    case (Cons c cs)
    then show ?case using fold_add_edge(2)[of "cap_id c" "cap_dependencies c" "fst gn" "snd gn"] by simp
  qed simp
  have "snd (fold (\<lambda>c. fold (add_edge (cap_id c)) (cap_dependencies c)) cs gn) (cap_id c) =
      snd gn (cap_id c) + int (length (cap_dependencies c))"
    if "distinct (map cap_id cs)" "c \<in> set cs" for cs gn
    using that
  proof (induction cs arbitrary: gn)
    case (Cons b cs)
    let ?gn = "fold (add_edge (cap_id b)) (cap_dependencies b) gn"
    have n: "snd ?gn = (snd gn)(cap_id b := snd gn (cap_id b) + int (length (cap_dependencies b)))"
      using fold_add_edge(2)[of "cap_id b" "cap_dependencies b" "fst gn" "snd gn"] by simp
    show ?case
    proof (cases "c = b")
      case True
      then show ?thesis using Cons.prems frame[of "cap_id c" cs ?gn] n by simp
    next
      case False
      then have "cap_id c \<noteq> cap_id b" "c \<in> set cs" using Cons.prems by (auto simp: image_iff)
      then show ?thesis using Cons n by simp
    qed
  qed simp
  then show ?thesis using assms by (simp add: dependency_graph_def)
qed

lemma count_dependents:
  assumes "distinct (map cap_id caps)" "c \<in> set caps"
  shows "count_list (dependents caps d) (cap_id c) = count_list (cap_dependencies c) d"
  using assms
proof (induction caps)
  case (Cons b caps)
  have none: "cap_id b \<notin> set (dependents caps d)" if "cap_id b \<notin> cap_id ` set caps" for b
    using that by (auto simp: dependents_def)
  have rep: "count_list (replicate m k) j = (if j = k then m else 0)" for m and k j :: string
    by (induction m) auto
  show ?case
  proof (cases "c = b")
    case True
    then show ?thesis using Cons.prems none[of b] by (simp add: dependents_def rep count_list_0_iff)
  next
    case False
    then have "cap_id c \<noteq> cap_id b" "c \<in> set caps" using Cons.prems by (auto simp: image_iff)
    then show ?thesis using Cons by (simp add: dependents_def rep)
  qed
qed simp

lemma dependents_ids: "set (dependents caps d) \<subseteq> cap_id ` set caps"
  by (auto simp: dependents_def)

section \<open>The loop\<close>

lemma release_indegree: "fst (release ks n q) k = n k - int (count_list ks k)"
  by (induction ks arbitrary: n q) (auto simp: Let_def)

lemma release_queue:
  assumes "\<And>k. k \<in> set ks \<Longrightarrow> int (count_list ks k) \<le> n k"
  obtains zs where "snd (release ks n q) = q @ zs" "distinct zs"
    "set zs = {k \<in> set ks. n k = int (count_list ks k)}"
proof -
  have "\<exists>zs. snd (release ks n q) = q @ zs \<and> distinct zs \<and> set zs = {k \<in> set ks. n k = int (count_list ks k)}"
    using assms
  proof (induction ks arbitrary: n q)
    case (Cons j ks)
    let ?n = "n(j := n j - 1)" and ?q = "if n j - 1 = 0 then q @ [j] else q"
    have le: "int (count_list ks k) \<le> ?n k" if "k \<in> set ks" for k
      using Cons.prems[of k] that by auto
    obtain zs where zs: "snd (release ks ?n ?q) = ?q @ zs" "distinct zs"
      "set zs = {k \<in> set ks. ?n k = int (count_list ks k)}"
      using Cons.IH[of ?n ?q] le by blast
    have one: "n j = 1 \<Longrightarrow> j \<notin> set ks" using Cons.prems[of j] by (auto simp: count_list_0_iff)
    have "k \<in> set (if n j = 1 then j # zs else zs) \<longleftrightarrow> k \<in> set (j # ks) \<and> n k = int (count_list (j # ks) k)" for k
    proof (cases "k = j")
      case True
      then show ?thesis using zs(3) one Cons.prems[of j] count_notin[of j ks]
        by (cases "j \<in> set ks") (simp_all add: algebra_simps)
    qed (use zs(3) in simp)
    then have "set (if n j = 1 then j # zs else zs) = {k \<in> set (j # ks). n k = int (count_list (j # ks) k)}"
      by (simp add: set_eq_iff)
    moreover have "distinct (if n j = 1 then j # zs else zs)" using zs one by auto
    moreover have "snd (release (j # ks) n q) = q @ (if n j = 1 then j # zs else zs)" using zs(1) by (simp add: Let_def)
    ultimately show ?case by blast
  qed simp
  then show ?thesis using that by blast
qed

section \<open>The invariant\<close>

abbreviation known_ids :: "capability list \<Rightarrow> string set" where
  "known_ids caps \<equiv> cap_id ` set caps"

text \<open>
  After some capabilities were ordered: each of them after its dependencies, the indegree of a
  capability counts the dependencies still to come, and those that wait for none are ordered or
  queued.
\<close>

fun in_order :: "(string \<Rightarrow> string list) \<Rightarrow> string set \<Rightarrow> string list \<Rightarrow> bool" where
  "in_order deps seen [] = True"
| "in_order deps seen (k # ks) = (set (deps k) \<subseteq> seen \<and> in_order deps (insert k seen) ks)"

lemma in_order_append:
  "in_order deps seen (xs @ ys) \<longleftrightarrow> in_order deps seen xs \<and> in_order deps (seen \<union> set xs) ys"
  by (induction xs arbitrary: seen) auto

definition deps_of :: "capability list \<Rightarrow> string \<Rightarrow> string list" where
  "deps_of caps k = (case tbl_find cap_id k caps of None \<Rightarrow> [] | Some c \<Rightarrow> cap_dependencies c)"

lemma deps_of_in: "distinct (map cap_id caps) \<Longrightarrow> c \<in> set caps \<Longrightarrow> deps_of caps (cap_id c) = cap_dependencies c"
  using tbl_find_distinct[of cap_id caps "cap_id c" c] by (simp add: deps_of_def)

definition drain_inv :: "capability list \<Rightarrow> (string \<Rightarrow> int) \<Rightarrow> string list \<Rightarrow> string list \<Rightarrow> bool" where
  "drain_inv caps n q ord =
     (distinct (ord @ q) \<and> set (ord @ q) = {k \<in> known_ids caps. n k = 0} \<and> in_order (deps_of caps) {} ord \<and>
      (\<forall>k \<in> known_ids caps. n k = int (length (filter (\<lambda>d. d \<notin> set ord) (deps_of caps k)))))"

lemma filter_count:
  "x \<notin> S \<Longrightarrow> length (filter (\<lambda>d. d \<notin> S) ds) = length (filter (\<lambda>d. d \<notin> insert x S) ds) + count_list ds x"
  by (induction ds) auto

lemma drain_step:
  assumes caps: "distinct (map cap_id caps)" and inv: "drain_inv caps n (k # q) ord"
  shows "drain_inv caps (fst (release (dependents caps k) n q)) (snd (release (dependents caps k) n q)) (ord @ [k])"
proof -
  let ?ks = "dependents caps k"
  have k: "k \<in> known_ids caps" "n k = 0" "k \<notin> set ord" using inv by (auto simp: drain_inv_def)
  have n: "n j = int (length (filter (\<lambda>d. d \<notin> set ord) (deps_of caps j)))" if "j \<in> known_ids caps" for j
    using inv that by (auto simp: drain_inv_def)
  have count: "count_list ?ks j = count_list (deps_of caps j) k" if "j \<in> known_ids caps" for j
    using that count_dependents[OF caps] deps_of_in[OF caps] by auto
  have split: "n j = int (length (filter (\<lambda>d. d \<notin> set (ord @ [k])) (deps_of caps j))) + int (count_list ?ks j)"
    if "j \<in> known_ids caps" for j
    using filter_count[OF k(3), of "deps_of caps j"] n[OF that] count[OF that] by simp
  obtain zs where zs: "snd (release ?ks n q) = q @ zs" "distinct zs" "set zs = {j \<in> set ?ks. n j = int (count_list ?ks j)}"
  proof (rule release_queue)
    fix j
    assume "j \<in> set ?ks"
    then have "j \<in> known_ids caps" using dependents_ids[of caps k] by blast
    then show "int (count_list ?ks j) \<le> n j" using split[of j] by simp
  qed
  have pos: "0 < n j" if "j \<in> set ?ks" for j
  proof -
    have "j \<in> known_ids caps" using that dependents_ids[of caps k] by blast
    moreover have "0 < count_list ?ks j" using that by (metis count_list_0_iff gr0I)
    ultimately show ?thesis using split[of j] by simp
  qed
  have known: "set zs \<subseteq> known_ids caps" using zs(3) dependents_ids[of caps k] by auto
  have before_k: "set (deps_of caps k) \<subseteq> set ord" using n[OF k(1)] k(2) by (auto simp: filter_empty_conv)
  have "set (ord @ k # q) = {j \<in> known_ids caps. n j = 0}" "distinct (ord @ k # q)" using inv by (auto simp: drain_inv_def)
  then have "distinct ((ord @ [k]) @ q @ zs)"
    using zs(2,3) pos by (auto simp: set_eq_iff) (metis less_irrefl)+
  moreover have "set ((ord @ [k]) @ q @ zs) = {j \<in> known_ids caps. fst (release ?ks n q) j = 0}"
  proof -
    have "j \<in> set ((ord @ [k]) @ q @ zs) \<longleftrightarrow> n j = int (count_list ?ks j)" if "j \<in> known_ids caps" for j
    proof (cases "j \<in> set ?ks")
      case True
      then have "j \<notin> set (ord @ k # q)" using pos[of j] \<open>set (ord @ k # q) = _\<close> by simp
      then show ?thesis using True zs(3) by auto
    next
      case False
      then show ?thesis using zs(3) that \<open>set (ord @ k # q) = _\<close> count_notin[of j ?ks] by (auto simp: set_eq_iff)
    qed
    moreover have "set ((ord @ [k]) @ q @ zs) \<subseteq> known_ids caps" using known \<open>set (ord @ k # q) = _\<close> by auto
    ultimately show ?thesis unfolding release_indegree right_minus_eq by blast
  qed
  moreover have "in_order (deps_of caps) {} (ord @ [k])"
    using inv before_k by (simp add: in_order_append drain_inv_def)
  ultimately show ?thesis using split unfolding drain_inv_def zs(1) by (simp add: release_indegree)
qed

lemma drain_result:
  assumes caps: "distinct (map cap_id caps)" and "drain_inv caps n q ord"
  shows "\<exists>n' ord'. drain (dependents caps) n q ord = Some ord' \<and> drain_inv caps n' [] ord'"
  using assms(2)
proof (induction "card (known_ids caps) - length ord" arbitrary: n q ord rule: less_induct)
  case less
  show ?case
  proof (cases q)
    case Nil
    then show ?thesis using less.prems by (auto simp: drain.simps)
  next
    case (Cons k rest)
    have "set (ord @ q) \<subseteq> known_ids caps" "distinct (ord @ q)" using less.prems by (auto simp: drain_inv_def)
    then have "length (ord @ q) \<le> card (known_ids caps)" by (metis List.finite_set card_mono distinct_card finite_imageI)
    then have "card (known_ids caps) - length (ord @ [k]) < card (known_ids caps) - length ord" using Cons by simp
    from less.hyps[OF this drain_step[OF caps less.prems[unfolded Cons]]] show ?thesis
      using Cons by (simp add: drain.simps[of _ _ "_ # _"])
  qed
qed

section \<open>Cycles\<close>

definition depends :: "capability list \<Rightarrow> (string \<times> string) set" where
  "depends caps = {(d, cap_id c) | d c. c \<in> set caps \<and> d \<in> set (cap_dependencies c)}"

lemma finite_depends: "finite (depends caps)"
proof -
  have "depends caps = (\<Union>c \<in> set caps. (\<lambda>d. (d, cap_id c)) ` set (cap_dependencies c))" by (auto simp: depends_def)
  then show ?thesis by simp
qed

lemma closed_below_cycle:
  assumes "acyclic R" "finite R" "\<And>x. x \<in> S \<Longrightarrow> \<exists>y \<in> S. (y, x) \<in> R"
  shows "S = {}"
proof -
  have "wf R" by (rule finite_acyclic_wf[OF assms(2,1)])
  then show ?thesis using assms(3) by (metis all_not_in_conv wfE_min)
qed

lemma in_order_acyclic:
  assumes "in_order deps {} ord" "distinct ord" "\<And>d k. (d, k) \<in> R \<Longrightarrow> k \<in> set ord \<and> d \<in> set (deps k)"
  shows "acyclic R"
proof -
  define pos where "pos k = length (takeWhile (\<lambda>j. j \<noteq> k) ord)" for k
  have "pos d < pos k" if "(d, k) \<in> R" for d k
  proof -
    have R: "k \<in> set ord" "d \<in> set (deps k)" using assms(3)[OF that] by auto
    obtain xs ys where ord: "ord = xs @ k # ys" using split_list[OF R(1)] by blast
    then have "d \<in> set xs" using assms(1) R(2) by (auto simp: in_order_append)
    then obtain us vs where xs: "xs = us @ d # vs" "d \<notin> set us" by (meson split_list_first)
    then have "pos d = length us" unfolding pos_def ord xs(1) append_assoc append_Cons by (subst takeWhile_append2) auto
    then have "pos d < length xs" using xs(1) by simp
    moreover have "k \<notin> set xs" using assms(2) ord by simp
    then have "pos k = length xs" unfolding pos_def ord append_assoc append_Cons by (subst takeWhile_append2) auto
    ultimately show ?thesis by simp
  qed
  then have "R \<subseteq> measure pos" by auto
  then show ?thesis using acyclic_subset wf_acyclic wf_measure by blast
qed

section \<open>The order\<close>

lemma drain_start:
  assumes "distinct (map cap_id caps)"
  shows "drain_inv caps (snd (dependency_graph caps))
    (filter (\<lambda>k. snd (dependency_graph caps) k = 0) (map cap_id caps)) []"
  using assms graph_indegree[OF assms] deps_of_in[OF assms]
  by (auto simp: drain_inv_def simp del: filter_map)

lemma all_exist:
  "ensure_all_required_dependencies_exist caps cs = None \<longleftrightarrow>
     (\<forall>c \<in> set cs. set (cap_dependencies c) \<subseteq> known_ids caps)"
proof (induction cs)
  case (Cons c cs)
  have "ensure_required_dependencies_exist caps c = None \<longleftrightarrow> set (cap_dependencies c) \<subseteq> known_ids caps"
    by (auto simp: ensure_required_dependencies_exist_def find_None_iff capability_exists_def tbl_find_None)
  then show ?case using Cons by (auto split: option.splits)
qed simp

lemma missing_error:
  "ensure_all_required_dependencies_exist caps cs = Some err \<Longrightarrow> \<exists>d k. err = missing_dependency d k"
  by (induction cs) (auto simp: ensure_required_dependencies_exist_def split: option.splits)

lemma dependency_order_facts:
  assumes "distinct (map cap_id caps)" "dependency_order caps = Some (Inr ordered)"
  shows "in_order (deps_of caps) {} ordered" "set ordered = known_ids caps" "distinct ordered"
proof -
  obtain n ord where drain: "drain (dependents caps) (snd (dependency_graph caps))
      (filter (\<lambda>k. snd (dependency_graph caps) k = 0) (map cap_id caps)) [] = Some ord" "drain_inv caps n [] ord"
    using drain_result[OF assms(1) drain_start[OF assms(1)]] by blast
  have o: "ordered = ord" "length ord = length caps"
    using assms(2) drain(1) graph_dependents[of caps]
    by (auto simp: dependency_order_def case_prod_unfold split: option.splits if_splits)
  have inv: "distinct ord" "in_order (deps_of caps) {} ord" "set ord = {k \<in> known_ids caps. n k = 0}"
    using drain(2) by (auto simp: drain_inv_def)
  have "card (set ord) = card (known_ids caps)"
    using o(2) inv(1) assms(1) by (metis distinct_card length_map set_map)
  then have "set ord = known_ids caps" using inv(3) card_subset_eq[of "known_ids caps" "set ord"] by auto
  then show "in_order (deps_of caps) {} ordered" "set ordered = known_ids caps" "distinct ordered" using o inv by auto
qed

text \<open>
  C19. The dependency order is found exactly when there is one. For capabilities with distinct
  identifiers, \<open>dependency_order\<close> always returns. It returns an order when every dependency is
  registered and the dependencies have no cycle, and then every capability occurs once, after all
  its dependencies; it reports a cycle when there is one, and a missing dependency otherwise.
\<close>

theorem dependency_order_correct:
  assumes "distinct (map cap_id caps)"
  shows "case dependency_order caps of
      None \<Rightarrow> False
    | Some (Inr ordered) \<Rightarrow> acyclic (depends caps) \<and> distinct ordered \<and> set ordered = known_ids caps \<and>
        in_order (deps_of caps) {} ordered
    | Some (Inl (CapabilityDependencyCycleError m)) \<Rightarrow>
        \<not> acyclic (depends caps) \<and> (\<forall>c \<in> set caps. set (cap_dependencies c) \<subseteq> known_ids caps)
    | Some (Inl err) \<Rightarrow> \<exists>c \<in> set caps. \<exists>d \<in> set (cap_dependencies c). d \<notin> known_ids caps"
proof (cases "ensure_all_required_dependencies_exist caps caps")
  case (Some err)
  then have "\<exists>c \<in> set caps. \<exists>d \<in> set (cap_dependencies c). d \<notin> known_ids caps"
    using all_exist[of caps caps] by auto
  moreover have "\<exists>d k. err = missing_dependency d k" using missing_error[OF Some] .
  ultimately show ?thesis using Some by (elim exE) (simp add: dependency_order_def missing_dependency_def)
next
  case None
  then have exist: "\<forall>c \<in> set caps. set (cap_dependencies c) \<subseteq> known_ids caps" using all_exist by simp
  obtain n ord where drain: "drain (dependents caps) (snd (dependency_graph caps))
      (filter (\<lambda>k. snd (dependency_graph caps) k = 0) (map cap_id caps)) [] = Some ord" "drain_inv caps n [] ord"
    using drain_result[OF assms drain_start[OF assms]] by blast
  have ord: "distinct ord" "in_order (deps_of caps) {} ord" "set ord = {k \<in> known_ids caps. n k = 0}"
    using drain(2) by (auto simp: drain_inv_def)
  have dep: "dependency_order caps = Some (if length ord \<noteq> length caps
      then Inl (CapabilityDependencyCycleError ''Capability dependency cycle detected'') else Inr ord)"
    using None drain(1) graph_dependents[of caps] by (simp add: dependency_order_def case_prod_unfold)
  have card: "length ord = card (set ord)" "length caps = card (known_ids caps)"
    using ord(1) assms by (metis distinct_card) (metis assms distinct_card length_map set_map)
  have full: "length ord = length caps \<longleftrightarrow> set ord = known_ids caps"
    using ord(3) card card_subset_eq[of "known_ids caps" "set ord"] by auto
  have "set ord = known_ids caps" if "acyclic (depends caps)"
  proof -
    have "\<exists>d \<in> known_ids caps - set ord. (d, k) \<in> depends caps" if k: "k \<in> known_ids caps - set ord" for k
    proof -
      obtain c where c: "c \<in> set caps" "k = cap_id c" using k by auto
      have "n k \<noteq> 0" using k ord(3) by simp
      then have "filter (\<lambda>d. d \<notin> set ord) (cap_dependencies c) \<noteq> []"
        using drain(2) c deps_of_in[OF assms c(1)] by (auto simp: drain_inv_def)
      then obtain d where "d \<in> set (cap_dependencies c)" "d \<notin> set ord" by (auto simp: filter_empty_conv)
      then show ?thesis using exist c unfolding depends_def by blast
    qed
    then have "known_ids caps - set ord = {}" by (rule closed_below_cycle[OF that finite_depends])
    then show ?thesis using ord(3) by auto
  qed
  moreover have "acyclic (depends caps)" if "set ord = known_ids caps"
    by (rule in_order_acyclic[OF ord(2,1)]) (use that deps_of_in[OF assms] in \<open>auto simp: depends_def\<close>)
  ultimately show ?thesis using dep full exist ord by auto
qed

definition demo_capability :: "string \<Rightarrow> string list \<Rightarrow> capability" where
  "demo_capability k ds = \<lparr>cap_id = k, cap_name = k, cap_version = ''0.1.0'', cap_description = [], cap_dependencies = ds,
     cap_optional_dependencies = [], cap_commands = [], cap_events = [], cap_configuration = JObj [],
     cap_state = CAP_REGISTERED, cap_health = CAP_UNKNOWN, cap_last_transition_at = 0\<rparr>"

definition demo_capabilities :: capabilities where
  "demo_capabilities = [demo_capability ''mqtt'' [''net'', ''log''], demo_capability ''log'' [],
     demo_capability ''net'' [''log'']]"

lemma demo_order: "dependency_order demo_capabilities = Some (Inr [''log'', ''net'', ''mqtt''])"
  by code_simp

theorem dependency_order_correct_witness:
  "dependency_order demo_capabilities = Some (Inr [''log'', ''net'', ''mqtt'']) \<and> acyclic (depends demo_capabilities)"
  using dependency_order_correct[of demo_capabilities] demo_order
  by (simp add: demo_capabilities_def demo_capability_def)

section \<open>Starting\<close>

text \<open>Starting the capabilities of a list, one after the other.\<close>

fun start_each :: "instant \<Rightarrow> instant \<Rightarrow> string list \<Rightarrow> capabilities \<Rightarrow> capability_error + capabilities" where
  "start_each n1 n2 [] caps = Inr caps"
| "start_each n1 n2 (k # ks) caps =
     (case start_cap n1 n2 k caps of Inl err \<Rightarrow> Inl err | Inr caps' \<Rightarrow> start_each n1 n2 ks caps')"

lemma start_frames [simp]:
  "cap_id (start_capability n1 n2 c) = cap_id c" "cap_dependencies (start_capability n1 n2 c) = cap_dependencies c"
  "cap_state (start_capability n1 n2 c) = CAP_RUNNING"
  by (simp_all add: start_capability_def set_health_def transition_to_def)

lemma start_step:
  assumes "k \<in> known_ids caps" "set (deps_of caps k) \<subseteq> {d. is_running d caps}"
  shows "start_cap n1 n2 k caps = Inr (tbl_update cap_id k (start_capability n1 n2) caps)"
proof -
  obtain c where c: "tbl_find cap_id k caps = Some c" using assms(1) tbl_find_None[of cap_id k caps] by fastforce
  have "capability_exists d caps" "is_running d caps" if "d \<in> set (cap_dependencies c)" for d
    using that assms(2) c by (auto simp: deps_of_def is_running_def capability_exists_def split: option.splits)
  then have "find (\<lambda>d. \<not> capability_exists d caps) (cap_dependencies c) = None"
    "find (\<lambda>d. \<not> is_running d caps) (cap_dependencies c) = None" by (auto simp: find_None_iff)
  then have "ensure_required_dependencies_running caps c = None"
    by (simp add: ensure_required_dependencies_running_def ensure_required_dependencies_exist_def)
  then show ?thesis using c by (simp add: start_cap_def get_capability_def)
qed

lemma start_each_runs:
  assumes "in_order (deps_of caps) seen ks" "set ks \<subseteq> known_ids caps" "\<And>d. d \<in> seen \<Longrightarrow> is_running d caps"
  shows "\<exists>caps'. start_each n1 n2 ks caps = Inr caps' \<and> map cap_id caps' = map cap_id caps \<and>
    (\<forall>k \<in> seen \<union> set ks. is_running k caps')"
  using assms
proof (induction ks arbitrary: caps seen)
  case (Cons k ks)
  let ?caps = "tbl_update cap_id k (start_capability n1 n2) caps"
  have start: "start_cap n1 n2 k caps = Inr ?caps" using Cons.prems by (intro start_step) auto
  have ids: "map cap_id ?caps = map cap_id caps" by (simp add: tbl_update_keys)
  have find: "tbl_find cap_id j ?caps = (if j = k then map_option (start_capability n1 n2) (tbl_find cap_id j caps)
      else tbl_find cap_id j caps)" for j by (simp add: tbl_find_update)
  have deps: "deps_of ?caps = deps_of caps" by (auto simp: fun_eq_iff deps_of_def find split: option.splits)
  obtain c where c: "tbl_find cap_id k caps = Some c" using Cons.prems(2) tbl_find_None[of cap_id k caps] by fastforce
  have "is_running j ?caps" if "j \<in> insert k seen" for j
    using that Cons.prems(3)[of j] c by (auto simp: is_running_def find split: if_splits)
  then have "\<exists>caps'. start_each n1 n2 ks ?caps = Inr caps' \<and> map cap_id caps' = map cap_id ?caps \<and>
      (\<forall>j \<in> insert k seen \<union> set ks. is_running j caps')"
    using Cons.prems(1,2) ids deps by (intro Cons.IH) (auto simp flip: set_map)
  then show ?case using start ids by simp
qed simp

text \<open>
  The dependency order is an order to start in: started one after the other in it, whatever
  their state was, all capabilities start, and all are running at the end.
\<close>

theorem starting_in_order_succeeds:
  assumes "distinct (map cap_id caps)" "dependency_order caps = Some (Inr ordered)"
  shows "\<exists>caps'. start_each n1 n2 ordered caps = Inr caps' \<and> map cap_id caps' = map cap_id caps \<and>
    list_running caps' = caps'"
proof -
  have ord: "in_order (deps_of caps) {} ordered" "set ordered = known_ids caps"
    using dependency_order_facts[OF assms] by auto
  then obtain caps' where caps': "start_each n1 n2 ordered caps = Inr caps'" "map cap_id caps' = map cap_id caps"
    "\<And>k. k \<in> known_ids caps \<Longrightarrow> is_running k caps'" using start_each_runs[of caps "{}" ordered n1 n2] by auto
  have "cap_state c = CAP_RUNNING" if "c \<in> set caps'" for c
  proof -
    have "cap_id c \<in> known_ids caps" using that caps'(2) by (metis image_eqI set_map)
    moreover have "tbl_find cap_id (cap_id c) caps' = Some c"
      using that assms(1) caps'(2) tbl_find_distinct[of cap_id caps'] by simp
    ultimately show ?thesis using caps'(3)[of "cap_id c"] by (simp add: is_running_def)
  qed
  then have "list_running caps' = caps'" by (simp add: list_running_def filter_id_conv)
  with caps' show ?thesis by blast
qed

theorem starting_in_order_succeeds_witness:
  "\<exists>caps'. start_each 1 2 [''log'', ''net'', ''mqtt''] demo_capabilities = Inr caps' \<and> list_running caps' = caps'"
  using starting_in_order_succeeds[OF _ demo_order, of 1 2] by (auto simp: demo_capabilities_def demo_capability_def)

end
