(* ===== verification/Core_Runtime.thy ===== *)
theory Core_Runtime
  imports Capabilities
begin

text \<open>
  core/: the lifecycle of the agent (lifecycle.py), the registry of services (services.py), the event
  bus (events.py), the command dispatcher (dispatcher.py) and the lifecycle of plugins (plugins.py).
  Types and handlers are named by texts; what a handler or a plugin does is a parameter, a function on
  a state that may hold the bus itself.
\<close>

section \<open>The lifecycle of the agent\<close>

datatype agent_state = CREATED | INITIALIZING | READY | RUNNING | STOPPING | STOPPED | ERROR

fun agent_state_value :: "agent_state \<Rightarrow> string" where
  "agent_state_value CREATED = ''CREATED''"
| "agent_state_value INITIALIZING = ''INITIALIZING''"
| "agent_state_value READY = ''READY''"
| "agent_state_value RUNNING = ''RUNNING''"
| "agent_state_value STOPPING = ''STOPPING''"
| "agent_state_value STOPPED = ''STOPPED''"
| "agent_state_value ERROR = ''ERROR''"

fun ALLOWED_TRANSITIONS :: "agent_state \<Rightarrow> agent_state list" where
  "ALLOWED_TRANSITIONS CREATED = [INITIALIZING, ERROR]"
| "ALLOWED_TRANSITIONS INITIALIZING = [READY, ERROR]"
| "ALLOWED_TRANSITIONS READY = [RUNNING, STOPPING, ERROR]"
| "ALLOWED_TRANSITIONS RUNNING = [STOPPING, ERROR]"
| "ALLOWED_TRANSITIONS STOPPING = [STOPPED, ERROR]"
| "ALLOWED_TRANSITIONS STOPPED = []"
| "ALLOWED_TRANSITIONS ERROR = [STOPPING]"

definition can_transition_to :: "agent_state \<Rightarrow> agent_state \<Rightarrow> bool" where
  "can_transition_to new s = (new \<in> set (ALLOWED_TRANSITIONS s))"

text \<open>The error, if any, and the state after the request.\<close>

definition lifecycle_transition :: "agent_state \<Rightarrow> agent_state \<Rightarrow> string option \<times> agent_state" where
  "lifecycle_transition new s =
     (if can_transition_to new s then (None, new)
      else (Some (''Invalid state transition: '' @ agent_state_value s @ '' -> '' @ agent_state_value new), s))"

section \<open>Services\<close>

datatype core_error =
    ServiceNotFound string | ServiceAlreadyRegistered string | HandlerNotFound string
  | CommandAlreadyRegistered string | CommandNotFound string
  | PluginAlreadyRegistered string | PluginNotRegistered string | InvalidPluginState string | Raised string

type_synonym 'a services = "(string \<times> 'a) list"

definition service_register :: "string \<Rightarrow> 'a \<Rightarrow> 'a services \<Rightarrow> (core_error + unit) \<times> 'a services" where
  "service_register k v s =
     (if k \<in> fst ` set s then (Inl (ServiceAlreadyRegistered (''Service already registered: '' @ k)), s)
      else (Inr (), s @ [(k, v)]))"

definition service_get :: "string \<Rightarrow> 'a services \<Rightarrow> core_error + 'a" where
  "service_get k s =
     (case map_of s k of None \<Rightarrow> Inl (ServiceNotFound (''Service not found: '' @ k)) | Some v \<Rightarrow> Inr v)"

definition service_has :: "string \<Rightarrow> 'a services \<Rightarrow> bool" where
  "service_has k s = (k \<in> fst ` set s)"

definition service_unregister :: "string \<Rightarrow> 'a services \<Rightarrow> (core_error + unit) \<times> 'a services" where
  "service_unregister k s =
     (if k \<notin> fst ` set s then (Inl (ServiceNotFound (''Service not found: '' @ k)), s)
      else (Inr (), filter (\<lambda>p. fst p \<noteq> k) s))"

section \<open>The event bus\<close>

text \<open>The subscriptions, an event type and the identity of a handler, in the order of subscription.\<close>

type_synonym event_bus = "(string \<times> nat) list"

definition subscribe :: "string \<Rightarrow> nat \<Rightarrow> event_bus \<Rightarrow> event_bus" where
  "subscribe t handler bus = bus @ [(t, handler)]"

definition unsubscribe :: "string \<Rightarrow> nat \<Rightarrow> event_bus \<Rightarrow> (core_error + unit) \<times> event_bus" where
  "unsubscribe t handler bus =
     (if (t, handler) \<notin> set bus then (Inl (HandlerNotFound (''Handler not found for event: '' @ t)), bus)
      else (Inr (), remove1 (t, handler) bus))"

datatype core_event =
    CommandDispatched string string
  | CommandSucceeded string string
  | CommandFailed string string string
  | PluginLoaded string
  | PluginInitialized string
  | PluginStarted string
  | PluginStopped string
  | PluginUnloaded string

fun event_type_of :: "core_event \<Rightarrow> string" where
  "event_type_of (CommandDispatched i t) = ''CommandDispatched''"
| "event_type_of (CommandSucceeded i t) = ''CommandSucceeded''"
| "event_type_of (CommandFailed i t m) = ''CommandFailed''"
| "event_type_of (PluginLoaded n) = ''PluginLoaded''"
| "event_type_of (PluginInitialized n) = ''PluginInitialized''"
| "event_type_of (PluginStarted n) = ''PluginStarted''"
| "event_type_of (PluginStopped n) = ''PluginStopped''"
| "event_type_of (PluginUnloaded n) = ''PluginUnloaded''"

text \<open>
  The world of the handlers: the bus, the events that were handed out, and the rest. A handler may
  change the world, the bus included, and may raise.
\<close>

record 'w core_world =
  cw_bus :: event_bus
  cw_events :: "(nat \<times> core_event) list"
  cw_rest :: 'w

type_synonym 'w event_handler = "nat \<Rightarrow> core_event \<Rightarrow> 'w core_world \<Rightarrow> string option \<times> 'w core_world"

fun hand_out :: "'w event_handler \<Rightarrow> core_event \<Rightarrow> nat list \<Rightarrow> 'w core_world \<Rightarrow> string option \<times> 'w core_world" where
  "hand_out run ev [] w = (None, w)"
| "hand_out run ev (h # hs) w =
     (case run h ev (w\<lparr>cw_events := cw_events w @ [(h, ev)]\<rparr>) of
        (Some err, w') \<Rightarrow> (Some err, w')
      | (None, w') \<Rightarrow> hand_out run ev hs w')"

definition subscribers :: "string \<Rightarrow> event_bus \<Rightarrow> nat list" where
  "subscribers t bus = map snd (filter (\<lambda>s. fst s = t) bus)"

definition bus_publish :: "'w event_handler \<Rightarrow> core_event \<Rightarrow> 'w core_world \<Rightarrow> string option \<times> 'w core_world" where
  "bus_publish run ev w = hand_out run ev (subscribers (event_type_of ev) (cw_bus w)) w"

section \<open>The dispatcher\<close>

text \<open>A registered command handler: its result or its exception, and the world after it.\<close>

type_synonym ('r, 'w) command_handler = "string \<Rightarrow> 'w core_world \<Rightarrow> (string + 'r) \<times> 'w core_world"

definition command_register ::
  "string \<Rightarrow> 'h \<Rightarrow> (string \<times> 'h) list \<Rightarrow> (core_error + unit) \<times> (string \<times> 'h) list" where
  "command_register t handler hs =
     (if t \<in> fst ` set hs then (Inl (CommandAlreadyRegistered (''Command already registered: '' @ t)), hs)
      else (Inr (), hs @ [(t, handler)]))"

definition command_unregister :: "string \<Rightarrow> (string \<times> 'h) list \<Rightarrow> (core_error + unit) \<times> (string \<times> 'h) list" where
  "command_unregister t hs =
     (if t \<notin> fst ` set hs then (Inl (CommandNotFound (''Command not found: '' @ t)), hs)
      else (Inr (), filter (\<lambda>p. fst p \<noteq> t) hs))"

definition dispatch_core_command ::
  "'w event_handler \<Rightarrow> (string \<times> ('r, 'w) command_handler) list \<Rightarrow> string \<Rightarrow> string \<Rightarrow> 'w core_world \<Rightarrow>
     (core_error + 'r) \<times> 'w core_world" where
  "dispatch_core_command run hs t command_id w =
     (case map_of hs t of
        None \<Rightarrow> (Inl (CommandNotFound (''Command handler not found: '' @ t)), w)
      | Some handler \<Rightarrow>
          (case bus_publish run (CommandDispatched command_id t) w of
             (Some err, w1) \<Rightarrow> (Inl (Raised err), w1)
           | (None, w1) \<Rightarrow>
               (case handler command_id w1 of
                  (Inl err, w2) \<Rightarrow>
                    (case bus_publish run (CommandFailed command_id t err) w2 of
                       (Some err', w3) \<Rightarrow> (Inl (Raised err'), w3)
                     | (None, w3) \<Rightarrow> (Inl (Raised err), w3))
                | (Inr result, w2) \<Rightarrow>
                    (case bus_publish run (CommandSucceeded command_id t) w2 of
                       (Some err', w3) \<Rightarrow> (Inl (Raised err'), w3)
                     | (None, w3) \<Rightarrow> (Inr result, w3)))))"

section \<open>The lifecycle of plugins\<close>

datatype plugin_state = PLUGIN_REGISTERED | PLUGIN_INITIALIZED | PLUGIN_RUNNING | PLUGIN_STOPPED

fun plugin_state_name :: "plugin_state \<Rightarrow> string" where
  "plugin_state_name PLUGIN_REGISTERED = ''REGISTERED''"
| "plugin_state_name PLUGIN_INITIALIZED = ''INITIALIZED''"
| "plugin_state_name PLUGIN_RUNNING = ''RUNNING''"
| "plugin_state_name PLUGIN_STOPPED = ''STOPPED''"

text \<open>
  The plugins in order of registration, the capability manager if there is one, and what was done:
  the calls of the plugins and the events, which are out before one of their subscribers can raise.
\<close>

datatype plugin_call = InitializeCall string | StartCall string | StopCall string | UnloadCall string

record plugin_table =
  pt_states :: "(string \<times> plugin_state) list"
  pt_capabilities :: "capabilities option"
  pt_calls :: "plugin_call list"
  pt_events :: "core_event list"

definition registered_state :: "string \<Rightarrow> plugin_table \<Rightarrow> core_error + plugin_state" where
  "registered_state n p =
     (case map_of (pt_states p) n of
        None \<Rightarrow> Inl (PluginNotRegistered (''Plugin not registered: '' @ n)) | Some s \<Rightarrow> Inr s)"

text \<open>What a plugin method raises and what the subscribers of an event raise, if anything.\<close>

record plugin_outcomes =
  po_method :: "plugin_call \<Rightarrow> string option"
  po_subscribers :: "core_event \<Rightarrow> string option"

definition emit :: "plugin_outcomes \<Rightarrow> core_event \<Rightarrow> plugin_table \<Rightarrow> (core_error + unit) \<times> plugin_table" where
  "emit x ev p =
     ((case po_subscribers x ev of None \<Rightarrow> Inr () | Some err \<Rightarrow> Inl (Raised err)), p\<lparr>pt_events := pt_events p @ [ev]\<rparr>)"

fun capability_error_text :: "capability_error \<Rightarrow> string" where
  "capability_error_text (CapabilityAlreadyRegisteredError m) = m"
| "capability_error_text (CapabilityNotFoundError m) = m"
| "capability_error_text (CapabilityDependencyError m) = m"
| "capability_error_text (CapabilityDependencyCycleError m) = m"

fun register_plugin_capabilities ::
  "instant \<Rightarrow> capability list \<Rightarrow> capabilities option \<Rightarrow> (core_error + unit) \<times> capabilities option" where
  "register_plugin_capabilities now cs None = (Inr (), None)"
| "register_plugin_capabilities now [] (Some caps) = (Inr (), Some caps)"
| "register_plugin_capabilities now (c # cs) (Some caps) =
     (case register_capability now c caps of
        Inl err \<Rightarrow> (Inl (Raised (capability_error_text err)), Some caps)
      | Inr caps' \<Rightarrow> register_plugin_capabilities now cs (Some caps'))"

definition plugin_register ::
  "plugin_outcomes \<Rightarrow> instant \<Rightarrow> string \<Rightarrow> capability list \<Rightarrow> plugin_table \<Rightarrow> (core_error + unit) \<times> plugin_table" where
  "plugin_register x now n cs p =
     (if n \<in> fst ` set (pt_states p)
      then (Inl (PluginAlreadyRegistered (''Plugin already registered: '' @ n)), p)
      else case register_plugin_capabilities now cs (pt_capabilities p) of
             (Inl err, caps) \<Rightarrow>
               (Inl err, p\<lparr>pt_states := pt_states p @ [(n, PLUGIN_REGISTERED)], pt_capabilities := caps\<rparr>)
           | (Inr u, caps) \<Rightarrow>
               emit x (PluginLoaded n) (p\<lparr>pt_states := pt_states p @ [(n, PLUGIN_REGISTERED)], pt_capabilities := caps\<rparr>))"

definition set_plugin_state :: "string \<Rightarrow> plugin_state \<Rightarrow> plugin_table \<Rightarrow> plugin_table" where
  "set_plugin_state n s p = p\<lparr>pt_states := map (\<lambda>q. if fst q = n then (n, s) else q) (pt_states p)\<rparr>"

text \<open>One guarded step: the state it needs, the call, the state it sets and its event.\<close>

definition plugin_step ::
  "plugin_outcomes \<Rightarrow> string \<Rightarrow> plugin_state \<Rightarrow> plugin_call \<Rightarrow> plugin_state \<Rightarrow> core_event \<Rightarrow>
     string \<Rightarrow> plugin_table \<Rightarrow> (core_error + unit) \<times> plugin_table" where
  "plugin_step x verb needed call target ev n p =
     (case registered_state n p of
        Inl err \<Rightarrow> (Inl err, p)
      | Inr s \<Rightarrow>
          if s \<noteq> needed
          then (Inl (InvalidPluginState (''Plugin cannot be '' @ verb @ '' from state: '' @ plugin_state_name s)), p)
          else let p1 = p\<lparr>pt_calls := pt_calls p @ [call]\<rparr>
               in case po_method x call of
                    Some err \<Rightarrow> (Inl (Raised err), p1)
                  | None \<Rightarrow> emit x ev (set_plugin_state n target p1))"

definition plugin_initialize :: "plugin_outcomes \<Rightarrow> string \<Rightarrow> plugin_table \<Rightarrow> (core_error + unit) \<times> plugin_table" where
  "plugin_initialize x n =
     plugin_step x ''initialized'' PLUGIN_REGISTERED (InitializeCall n) PLUGIN_INITIALIZED (PluginInitialized n) n"

definition plugin_start :: "plugin_outcomes \<Rightarrow> string \<Rightarrow> plugin_table \<Rightarrow> (core_error + unit) \<times> plugin_table" where
  "plugin_start x n = plugin_step x ''started'' PLUGIN_INITIALIZED (StartCall n) PLUGIN_RUNNING (PluginStarted n) n"

definition plugin_stop :: "plugin_outcomes \<Rightarrow> string \<Rightarrow> plugin_table \<Rightarrow> (core_error + unit) \<times> plugin_table" where
  "plugin_stop x n = plugin_step x ''stopped'' PLUGIN_RUNNING (StopCall n) PLUGIN_STOPPED (PluginStopped n) n"

definition plugin_unload :: "plugin_outcomes \<Rightarrow> string \<Rightarrow> plugin_table \<Rightarrow> (core_error + unit) \<times> plugin_table" where
  "plugin_unload x n p =
     (case registered_state n p of
        Inl err \<Rightarrow> (Inl err, p)
      | Inr s \<Rightarrow>
          if s = PLUGIN_RUNNING then (Inl (InvalidPluginState ''Running plugin cannot be unloaded''), p)
          else let p1 = p\<lparr>pt_calls := pt_calls p @ [UnloadCall n]\<rparr>
               in case po_method x (UnloadCall n) of
                    Some err \<Rightarrow> (Inl (Raised err), p1)
                  | None \<Rightarrow> emit x (PluginUnloaded n) (p1\<lparr>pt_states := filter (\<lambda>q. fst q \<noteq> n) (pt_states p)\<rparr>))"

section \<open>Properties\<close>

text \<open>Subscribers that return without touching the world all get the event, in the order they subscribed.\<close>

lemma hand_out_all:
  assumes "\<And>h ev w. run h ev w = (None, w)"
  shows "hand_out run ev hs w = (None, w\<lparr>cw_events := cw_events w @ map (\<lambda>h. (h, ev)) hs\<rparr>)"
  using assms by (induction hs arbitrary: w) simp_all

text \<open>A command is announced, run once, and its success or its failure is announced, with the result it gave.\<close>

lemma dispatch_announces:
  assumes "\<And>h ev w. run h ev w = (None, w)" "map_of hs t = Some handler" "cw_bus w1 = cw_bus w"
    and "handler i (w\<lparr>cw_events := cw_events w @ map (\<lambda>h. (h, CommandDispatched i t)) (subscribers ''CommandDispatched'' (cw_bus w))\<rparr>) =
      (answer, w1)"
  shows "dispatch_core_command run hs t i w =
    (case answer of
       Inr r \<Rightarrow> (Inr r, w1\<lparr>cw_events := cw_events w1 @
         map (\<lambda>h. (h, CommandSucceeded i t)) (subscribers ''CommandSucceeded'' (cw_bus w))\<rparr>)
     | Inl err \<Rightarrow> (Inl (Raised err), w1\<lparr>cw_events := cw_events w1 @
         map (\<lambda>h. (h, CommandFailed i t err)) (subscribers ''CommandFailed'' (cw_bus w))\<rparr>))"
  using assms(2-4) by (simp add: dispatch_core_command_def bus_publish_def hand_out_all[OF assms(1)] split: sum.splits)

text \<open>The state of a plugin as its events tell it.\<close>

fun told :: "string \<Rightarrow> core_event \<Rightarrow> plugin_state option \<Rightarrow> plugin_state option" where
  "told n (PluginLoaded m) s = (if m = n then Some PLUGIN_REGISTERED else s)"
| "told n (PluginInitialized m) s = (if m = n then Some PLUGIN_INITIALIZED else s)"
| "told n (PluginStarted m) s = (if m = n then Some PLUGIN_RUNNING else s)"
| "told n (PluginStopped m) s = (if m = n then Some PLUGIN_STOPPED else s)"
| "told n (PluginUnloaded m) s = (if m = n then None else s)"
| "told n _ s = s"

datatype plugin_op =
    Register instant string "capability list" | Initialize string | Start string | Stop string | Unload string

fun after_plugin_op :: "plugin_outcomes \<times> plugin_op \<Rightarrow> plugin_table \<Rightarrow> (core_error + unit) \<times> plugin_table" where
  "after_plugin_op (x, Register now n cs) p = plugin_register x now n cs p"
| "after_plugin_op (x, Initialize n) p = plugin_initialize x n p"
| "after_plugin_op (x, Start n) p = plugin_start x n p"
| "after_plugin_op (x, Stop n) p = plugin_stop x n p"
| "after_plugin_op (x, Unload n) p = plugin_unload x n p"

definition told_ok :: "plugin_table \<Rightarrow> bool" where
  "told_ok p = (\<forall>n. map_of (pt_states p) n = fold (told n) (pt_events p) None)"

lemma map_of_set_state:
  "map_of (map (\<lambda>q. if fst q = n then (n, s) else q) xs) m =
     (if m = n \<and> map_of xs n \<noteq> None then Some s else map_of xs m)"
  by (induction xs) auto

lemma map_of_without: "map_of (filter (\<lambda>q. fst q \<noteq> n) xs) m = (if m = n then None else map_of xs m)"
  by (induction xs) auto

lemma told_step:
  assumes "told_ok p" "\<And>m s. told m ev s = (if m = n then Some target else s)"
  shows "told_ok (snd (plugin_step x verb needed call target ev n p))"
  using assms by (auto simp: plugin_step_def registered_state_def emit_def set_plugin_state_def told_ok_def
      map_of_set_state Let_def split: option.splits)

lemma told_op:
  assumes "told_ok p" "pt_capabilities p = None"
  shows "told_ok (snd (after_plugin_op (x, op) p)) \<and> pt_capabilities (snd (after_plugin_op (x, op) p)) = None"
proof -
  have caps: "pt_capabilities (snd (plugin_step x verb needed call target ev n p)) = None" for verb needed call target ev n
    using assms(2) by (auto simp: plugin_step_def emit_def set_plugin_state_def Let_def split: option.splits sum.splits)
  show ?thesis
  proof (cases op)
    case (Register now n cs)
    then show ?thesis
      using assms map_of_eq_None_iff[of "pt_states p" n]
      by (auto simp: plugin_register_def emit_def told_ok_def map_add_def split: option.splits)
  next
    case (Unload n)
    then show ?thesis
      using assms by (auto simp: plugin_unload_def registered_state_def emit_def told_ok_def map_of_without Let_def
          split: option.splits)
  qed (use caps assms(1) in \<open>simp_all add: plugin_initialize_def plugin_start_def plugin_stop_def told_step\<close>)
qed

text \<open>
  Without a capability manager, after any operations on plugins, with any plugin method and any
  subscriber raising, replaying the events of a plugin gives exactly its state, or that it is not
  registered.
\<close>

theorem plugin_events_tell_states:
  "map_of (pt_states (fold (\<lambda>q p. snd (after_plugin_op q p)) ops
       \<lparr>pt_states = [], pt_capabilities = None, pt_calls = [], pt_events = []\<rparr>)) n =
   fold (told n) (pt_events (fold (\<lambda>q p. snd (after_plugin_op q p)) ops
       \<lparr>pt_states = [], pt_capabilities = None, pt_calls = [], pt_events = []\<rparr>)) None"
proof -
  let ?p = "fold (\<lambda>q p. snd (after_plugin_op q p)) ops
      \<lparr>pt_states = [], pt_capabilities = None, pt_calls = [], pt_events = []\<rparr>"
  have "told_ok ?p \<and> pt_capabilities ?p = None"
  proof (induction ops rule: rev_induct)
    case Nil
    then show ?case by (simp add: told_ok_def)
  next
    case (snoc q qs)
    then show ?case using told_op[of _ "fst q" "snd q"] by simp
  qed
  then show ?thesis by (simp add: told_ok_def)
qed

end
