(* ===== verification/Infrastructure_Config.thy ===== *)
theory Infrastructure_Config
  imports Monitoring Py_Repr
begin

text \<open>
  The declared infrastructure (configuration/infrastructure.py) and its validation
  (configuration/infrastructure_validator.py), with the addresses that \<open>ipaddress.ip_address\<close> accepts.
\<close>

section \<open>Addresses\<close>

text \<open>\<open>IPv4Address(text)\<close>: four decimal octets without leading zeros.\<close>

definition octet_ok :: "string \<Rightarrow> bool" where
  "octet_ok s =
     (s \<noteq> [] \<and> list_all digit s \<and> length s \<le> 3 \<and> (s = ''0'' \<or> hd s \<noteq> CHR ''0'') \<and> digits_value s \<le> 255)"

definition is_ipv4 :: "string \<Rightarrow> bool" where
  "is_ipv4 s =
     (CHR ''/'' \<notin> set s \<and> s \<noteq> [] \<and> length (split_on (CHR ''.'') s) = 4 \<and>
      list_all octet_ok (split_on (CHR ''.'') s))"

definition hextet_ok :: "string \<Rightarrow> bool" where
  "hextet_ok s = (s \<noteq> [] \<and> length s \<le> 4 \<and> list_all (\<lambda>c. c \<in> set ''0123456789abcdefABCDEF'') s)"

text \<open>
  \<open>IPv6Address(text)\<close>. A final IPv4 part stands for two hextets. With one empty inner part (\<open>::\<close>) at
  least one hextet is left out, and an empty first or last part must touch it; without one there
  are eight.
\<close>

definition expand_ipv4 :: "string list \<Rightarrow> string list option" where
  "expand_ipv4 parts =
     (if CHR ''.'' \<notin> set (last parts) then Some parts
      else if is_ipv4 (last parts) then Some (butlast parts @ [''0'', ''0'']) else None)"

definition inner_blanks :: "string list \<Rightarrow> nat list" where
  "inner_blanks parts = filter (\<lambda>i. parts ! i = []) [1..<length parts - 1]"

definition compressed_ok :: "string list \<Rightarrow> nat \<Rightarrow> bool" where
  "compressed_ok parts skip =
     (let hi = (if hd parts = [] then skip - 1 else skip);
          lo = (if last parts = [] then length parts - skip - 2 else length parts - skip - 1)
      in (hd parts = [] \<longrightarrow> hi = 0) \<and> (last parts = [] \<longrightarrow> lo = 0) \<and> hi + lo < 8 \<and>
         list_all hextet_ok (take hi parts) \<and> list_all hextet_ok (drop (length parts - lo) parts))"

definition ipv6_parts_ok :: "string list \<Rightarrow> bool" where
  "ipv6_parts_ok parts =
     (length parts \<le> 9 \<and>
      (case inner_blanks parts of
         [] \<Rightarrow> length parts = 8 \<and> list_all hextet_ok parts
       | [skip] \<Rightarrow> compressed_ok parts skip
       | _ \<Rightarrow> False))"

definition scope_ok :: "string \<Rightarrow> bool" where
  "scope_ok s =
     (case split_on (CHR ''%'') s of [a] \<Rightarrow> True | [a, scope] \<Rightarrow> scope \<noteq> [] | _ \<Rightarrow> False)"

definition is_ipv6 :: "string \<Rightarrow> bool" where
  "is_ipv6 s =
     (let address = hd (split_on (CHR ''%'') s); parts = split_on (CHR '':'') address
      in CHR ''/'' \<notin> set s \<and> scope_ok s \<and> address \<noteq> [] \<and> 3 \<le> length parts \<and>
         (case expand_ipv4 parts of None \<Rightarrow> False | Some ps \<Rightarrow> ipv6_parts_ok ps))"

definition is_ip_address :: "string \<Rightarrow> bool" where
  "is_ip_address s = (is_ipv4 s \<or> is_ipv6 s)"

definition ascii_alnum :: "char \<Rightarrow> bool" where
  "ascii_alnum c = (digit c \<or> lower_char c \<in> set ''abcdefghijklmnopqrstuvwxyz'')"

definition label_ok :: "string \<Rightarrow> bool" where
  "label_ok s =
     (s \<noteq> [] \<and> length s \<le> 63 \<and> ascii_alnum (hd s) \<and> ascii_alnum (last s) \<and>
      list_all (\<lambda>c. ascii_alnum c \<or> c = CHR ''-'') s)"

definition is_valid_hostname :: "string \<Rightarrow> bool" where
  "is_valid_hostname value =
     (let hostname = rev (dropWhile (\<lambda>c. c = CHR ''.'') (rev (strip value)))
      in hostname \<noteq> [] \<and> length hostname \<le> 253 \<and> list_all label_ok (split_on (CHR ''.'') hostname))"

definition is_valid_ip_or_hostname :: "string \<Rightarrow> bool" where
  "is_valid_ip_or_hostname value = (is_ip_address value \<or> is_valid_hostname value)"

section \<open>The document\<close>

record node_config =
  nc_id :: string
  nc_name :: string
  nc_description :: string
  nc_endpoint_type :: string
  nc_endpoint_address :: string

record declared_service =
  ds_id :: string
  ds_name :: string
  ds_type :: string
  ds_node :: string
  ds_port :: "int option"
  ds_implementation :: "string option"
  ds_enabled :: bool
  ds_critical :: bool
  ds_metadata :: "(string \<times> json) list"

record topology_device =
  td_id :: string
  td_label :: string
  td_kind :: string
  td_node :: "string option"
  td_address :: "string option"
  td_metadata :: "(string \<times> json) list"

record topology_link =
  tl_id :: string
  tl_source :: string
  tl_target :: string
  tl_kind :: string
  tl_direction :: string
  tl_label :: "string option"
  tl_bandwidth_mbps :: "string option"
  tl_metadata :: "(string \<times> json) list"

record grid_position =
  gp_column :: int
  gp_row :: int

record topology_layout =
  ty_id :: string
  ty_label :: string
  ty_kind :: string
  ty_positions :: "(string \<times> grid_position) list"
  ty_metadata :: "(string \<times> json) list"

record topology =
  tp_devices :: "topology_device list"
  tp_links :: "topology_link list"
  tp_layouts :: "topology_layout list"
  tp_metadata :: "(string \<times> json) list"

record infrastructure_config =
  ic_id :: string
  ic_name :: string
  ic_environment :: string
  ic_version :: string
  ic_tags :: "string list"
  ic_nodes :: "node_config list"
  ic_services :: "declared_service list"
  ic_topology :: "topology option"

section \<open>Validation\<close>

text \<open>A check raises InfrastructureValidationError, a ValueError, with its message, or passes.\<close>

type_synonym finding = "string option"

definition unique :: "string \<Rightarrow> 'a list \<Rightarrow> finding" where
  "unique message ids = (if length ids \<noteq> card (set ids) then Some message else None)"

fun first_finding :: "('a \<Rightarrow> finding) \<Rightarrow> 'a list \<Rightarrow> finding" where
  "first_finding check [] = None"
| "first_finding check (x # xs) = (case check x of Some m \<Rightarrow> Some m | None \<Rightarrow> first_finding check xs)"

definition of_topology :: "(topology \<Rightarrow> finding) \<Rightarrow> infrastructure_config \<Rightarrow> finding" where
  "of_topology check config = (case ic_topology config of None \<Rightarrow> None | Some t \<Rightarrow> check t)"

definition check_node_address :: "node_config \<Rightarrow> finding" where
  "check_node_address node =
     (if nc_endpoint_type node = ''ip''
      then (if is_ip_address (nc_endpoint_address node) then None
            else Some (''Invalid IP address: '' @ nc_endpoint_address node))
      else if nc_endpoint_type node = ''hostname''
      then (if is_valid_hostname (nc_endpoint_address node) then None
            else Some (''Invalid DNS hostname: '' @ nc_endpoint_address node))
      else Some (''Unsupported endpoint type: '' @ nc_endpoint_type node))"

definition check_service_node :: "infrastructure_config \<Rightarrow> declared_service \<Rightarrow> finding" where
  "check_service_node config s =
     (if ds_node s \<in> nc_id ` set (ic_nodes config) then None
      else Some (''Service '' @ in_quotes (ds_id s) @ '' references unknown node '' @ in_quotes (ds_node s) @ ''.''))"

definition check_service_port :: "declared_service \<Rightarrow> finding" where
  "check_service_port s =
     (case ds_port s of
        None \<Rightarrow> None
      | Some port \<Rightarrow>
          if port < 1 \<or> 65535 < port
          then Some (''Invalid port '' @ in_quotes (show_int port) @ '' for service '' @ in_quotes (ds_id s) @ ''.'')
          else None)"

definition check_device_address :: "topology_device \<Rightarrow> finding" where
  "check_device_address d =
     (case td_address d of
        None \<Rightarrow> None
      | Some address \<Rightarrow>
          if is_valid_ip_or_hostname address then None
          else Some (''Invalid host or IP address for topology device '' @ in_quotes (td_id d) @ '': '' @ address))"

definition check_device_node :: "infrastructure_config \<Rightarrow> topology_device \<Rightarrow> finding" where
  "check_device_node config d =
     (case td_node d of
        None \<Rightarrow> None
      | Some node \<Rightarrow>
          if node \<in> nc_id ` set (ic_nodes config) then None
          else Some (''Topology device '' @ in_quotes (td_id d) @ '' references unknown node '' @ in_quotes node @ ''.''))"

definition check_link :: "topology \<Rightarrow> topology_link \<Rightarrow> finding" where
  "check_link t l =
     (if tl_source l = tl_target l
      then Some (''Topology link '' @ in_quotes (tl_id l) @ '' must connect two different devices.'')
      else let unknown = filter (\<lambda>k. k \<notin> td_id ` set (tp_devices t)) [tl_source l, tl_target l]
           in if unknown \<noteq> []
              then Some (''Topology link '' @ in_quotes (tl_id l) @ '' references unknown devices: '' @ joined unknown @ ''.'')
              else None)"

definition check_layout :: "topology \<Rightarrow> topology_layout \<Rightarrow> finding" where
  "check_layout t y =
     (let unknown = sort (remdups (filter (\<lambda>k. k \<notin> td_id ` set (tp_devices t)) (map fst (ty_positions y))))
      in if unknown \<noteq> []
         then Some (''Topology layout '' @ in_quotes (ty_id y) @ '' references unknown devices: '' @ joined unknown @ ''.'')
         else unique (''Topology layout '' @ in_quotes (ty_id y) @ '' contains duplicate grid positions.'')
                (map (\<lambda>p. (gp_column (snd p), gp_row (snd p))) (ty_positions y)))"

definition exception_message :: "error \<Rightarrow> string" where
  "exception_message err = (case err of ValueError m \<Rightarrow> m | LookupError m \<Rightarrow> m | RuntimeError m \<Rightarrow> m | ConflictError m \<Rightarrow> m)"

definition check_schedule :: "(string \<Rightarrow> bool) \<Rightarrow> topology_device \<Rightarrow> finding" where
  "check_schedule known_zone d =
     (case validate_payload known_zone (jget (JObj (td_metadata d)) ''monitoring_schedule'') of
        Inr u \<Rightarrow> None
      | Inl err \<Rightarrow>
          Some (''Invalid monitoring schedule for topology device '' @ in_quotes (td_id d) @ '': '' @ exception_message err))"

definition validation_steps :: "(string \<Rightarrow> bool) \<Rightarrow> (infrastructure_config \<Rightarrow> finding) list" where
  "validation_steps known_zone =
     [\<lambda>c. unique ''Node identifiers must be unique.'' (map nc_id (ic_nodes c)),
      \<lambda>c. unique ''Service identifiers must be unique.'' (map ds_id (ic_services c)),
      \<lambda>c. first_finding check_node_address (ic_nodes c),
      \<lambda>c. first_finding (check_service_node c) (ic_services c),
      \<lambda>c. first_finding check_service_port (ic_services c),
      of_topology (\<lambda>t. unique ''Topology device identifiers must be unique.'' (map td_id (tp_devices t))),
      of_topology (\<lambda>t. first_finding check_device_address (tp_devices t)),
      \<lambda>c. of_topology (\<lambda>t. first_finding (check_device_node c) (tp_devices t)) c,
      of_topology (\<lambda>t. unique ''Topology node references must be unique.'' (List.map_filter td_node (tp_devices t))),
      of_topology (\<lambda>t. unique ''Topology link identifiers must be unique.'' (map tl_id (tp_links t))),
      of_topology (\<lambda>t. first_finding (check_link t) (tp_links t)),
      of_topology (\<lambda>t. unique ''Topology layout identifiers must be unique.'' (map ty_id (tp_layouts t))),
      of_topology (\<lambda>t. first_finding (check_layout t) (tp_layouts t)),
      of_topology (\<lambda>t. first_finding (check_schedule known_zone) (tp_devices t))]"

definition validate_infrastructure :: "(string \<Rightarrow> bool) \<Rightarrow> infrastructure_config \<Rightarrow> error + unit" where
  "validate_infrastructure known_zone config =
     (case first_finding (\<lambda>step. step config) (validation_steps known_zone) of
        None \<Rightarrow> Inr () | Some message \<Rightarrow> Inl (ValueError message))"

end
