(* ===== verification/Infrastructure_Model.thy ===== *)
theory Infrastructure_Model
  imports Infrastructure_Config Incident_Types
begin

text \<open>
  The supervised infrastructure (infrastructure/): nodes, services and endpoints, their construction
  from the declared document (configuration/builders/infrastructure_builder.py), the runtime state,
  the manager that applies health updates, and the availability computed from it.
\<close>

section \<open>Enumerations\<close>

datatype endpoint_type = ENDPOINT_IP | ENDPOINT_HOSTNAME | ENDPOINT_URL | ENDPOINT_MQTT

datatype service_type =
    SERVICE_DNS | SERVICE_ADGUARD_SYNC | SERVICE_DHCP | SERVICE_MQTT | SERVICE_HTTP | SERVICE_HTTPS | SERVICE_NTP
  | SERVICE_HOME_ASSISTANT | SERVICE_ZWAVE | SERVICE_WIREGUARD | SERVICE_HOME_ASSISTANT_TELEMETRY
  | SERVICE_SHELLY_TELEMETRY | SERVICE_TELEINFORMATION

definition endpoint_types :: "(string \<times> endpoint_type) list" where
  "endpoint_types = [(''ip'', ENDPOINT_IP), (''hostname'', ENDPOINT_HOSTNAME), (''url'', ENDPOINT_URL), (''mqtt'', ENDPOINT_MQTT)]"

definition service_types :: "(string \<times> service_type) list" where
  "service_types =
     [(''dns'', SERVICE_DNS), (''adguard_sync'', SERVICE_ADGUARD_SYNC), (''dhcp'', SERVICE_DHCP), (''mqtt'', SERVICE_MQTT),
      (''http'', SERVICE_HTTP), (''https'', SERVICE_HTTPS), (''ntp'', SERVICE_NTP),
      (''home_assistant'', SERVICE_HOME_ASSISTANT), (''zwave'', SERVICE_ZWAVE), (''wireguard'', SERVICE_WIREGUARD),
      (''home_assistant_telemetry'', SERVICE_HOME_ASSISTANT_TELEMETRY), (''shelly_telemetry'', SERVICE_SHELLY_TELEMETRY),
      (''teleinformation'', SERVICE_TELEINFORMATION)]"

definition service_type_value :: "service_type \<Rightarrow> string" where
  "service_type_value t = (case find (\<lambda>p. snd p = t) service_types of None \<Rightarrow> [] | Some p \<Rightarrow> fst p)"

text \<open>HealthStatus has the members and values of ObservationStatus, so \<open>obs_status\<close> is the type of both.\<close>


section \<open>The model\<close>

text \<open>Objects that the code compares with \<open>is\<close> carry their identity, a number.\<close>

record endpoint =
  ep_ref :: nat
  ep_type :: endpoint_type
  ep_address :: string
  ep_port :: "int option"
  ep_enabled :: bool
  ep_metadata :: "(string \<times> json) list"

record infra_service =
  sn_ref :: nat
  sn_name :: string
  sn_type :: service_type
  sn_endpoint :: "endpoint option"
  sn_health :: obs_status
  sn_enabled :: bool
  sn_metadata :: "(string \<times> json) list"

record infra_node =
  nd_ref :: nat
  nd_name :: string
  nd_description :: string
  nd_enabled :: bool
  nd_endpoints :: "endpoint list"
  nd_services :: "infra_service list"
  nd_metadata :: "(string \<times> json) list"

record infrastructure =
  in_name :: string
  in_nodes :: "infra_node list"
  in_metadata :: "(string \<times> json) list"

definition add_endpoint :: "endpoint \<Rightarrow> infra_node \<Rightarrow> infra_node" where
  "add_endpoint e n = n\<lparr>nd_endpoints := nd_endpoints n @ [e]\<rparr>"

definition add_service :: "infra_service \<Rightarrow> infra_node \<Rightarrow> infra_node" where
  "add_service s n = n\<lparr>nd_services := nd_services n @ [s]\<rparr>"

definition get_endpoint :: "endpoint_type \<Rightarrow> infra_node \<Rightarrow> endpoint option" where
  "get_endpoint t n = find (\<lambda>e. ep_type e = t) (nd_endpoints n)"

definition get_endpoint_by_address :: "string \<Rightarrow> infra_node \<Rightarrow> endpoint option" where
  "get_endpoint_by_address a n = find (\<lambda>e. ep_address e = a) (nd_endpoints n)"

definition get_service :: "service_type \<Rightarrow> infra_node \<Rightarrow> infra_service option" where
  "get_service t n = find (\<lambda>s. sn_type s = t) (nd_services n)"

definition get_service_by_name :: "string \<Rightarrow> infra_node \<Rightarrow> infra_service option" where
  "get_service_by_name k n = find (\<lambda>s. sn_name s = k) (nd_services n)"

definition add_node :: "infra_node \<Rightarrow> infrastructure \<Rightarrow> infrastructure" where
  "add_node n i = i\<lparr>in_nodes := in_nodes i @ [n]\<rparr>"

definition get_node :: "string \<Rightarrow> infrastructure \<Rightarrow> infra_node option" where
  "get_node k i = find (\<lambda>n. nd_name n = k) (in_nodes i)"

text \<open>The first result over the nodes.\<close>

fun first_some :: "('a \<Rightarrow> 'b option) \<Rightarrow> 'a list \<Rightarrow> 'b option" where
  "first_some f [] = None"
| "first_some f (x # xs) = (case f x of None \<Rightarrow> first_some f xs | Some y \<Rightarrow> Some y)"

definition find_service :: "service_type \<Rightarrow> infrastructure \<Rightarrow> infra_service option" where
  "find_service t i = first_some (get_service t) (in_nodes i)"

definition find_services :: "service_type \<Rightarrow> infrastructure \<Rightarrow> infra_service list" where
  "find_services t i = concat (map (\<lambda>n. filter (\<lambda>s. sn_type s = t) (nd_services n)) (in_nodes i))"

definition find_endpoint :: "string \<Rightarrow> infrastructure \<Rightarrow> endpoint option" where
  "find_endpoint a i = first_some (get_endpoint_by_address a) (in_nodes i)"

definition find_endpoint_by_type :: "endpoint_type \<Rightarrow> infrastructure \<Rightarrow> endpoint option" where
  "find_endpoint_by_type t i = first_some (get_endpoint t) (in_nodes i)"

section \<open>The builder\<close>

text \<open>
  Node number \<open>i\<close> of the document gets the identity \<open>i\<close>, as does service number \<open>i\<close>. The dict of nodes
  keeps the place of the first node with an identifier and the value of the last.
\<close>

definition put_node :: "infra_node \<Rightarrow> infra_node list \<Rightarrow> infra_node list" where
  "put_node n ns =
     (if tbl_find nd_name (nd_name n) ns = None then ns @ [n] else tbl_update nd_name (nd_name n) (\<lambda>m. n) ns)"

fun build_nodes :: "nat \<Rightarrow> node_config list \<Rightarrow> infra_node list \<Rightarrow> error + infra_node list" where
  "build_nodes i [] nodes = Inr nodes"
| "build_nodes i (nc # ncs) nodes =
     (case map_of endpoint_types (nc_endpoint_type nc) of
        None \<Rightarrow> Inl (ValueError (repr_str (nc_endpoint_type nc) @ '' is not a valid EndpointType''))
      | Some t \<Rightarrow>
          build_nodes (Suc i) ncs (put_node
            \<lparr>nd_ref = i, nd_name = nc_id nc, nd_description = nc_description nc, nd_enabled = True,
             nd_endpoints = [\<lparr>ep_ref = 2 * i, ep_type = t, ep_address = nc_endpoint_address nc, ep_port = None,
               ep_enabled = True, ep_metadata = []\<rparr>], nd_services = [], nd_metadata = []\<rparr> nodes))"

definition text_or_null :: "string option \<Rightarrow> json" where
  "text_or_null s = (case s of None \<Rightarrow> JNull | Some t \<Rightarrow> JStr t)"

text \<open>\<open>{**metadata, ...}\<close>: a key of the literal replaces the one of the metadata, in its place.\<close>

definition dict_put :: "string \<times> json \<Rightarrow> (string \<times> json) list \<Rightarrow> (string \<times> json) list" where
  "dict_put kv kvs = (if fst kv \<in> fst ` set kvs then map (\<lambda>p. if fst p = fst kv then kv else p) kvs else kvs @ [kv])"

definition service_metadata :: "declared_service \<Rightarrow> (string \<times> json) list" where
  "service_metadata s =
     fold dict_put [(''implementation'', text_or_null (ds_implementation s)), (''critical'', JBool (ds_critical s)),
       (''node_id'', JStr (ds_node s)), (''label'', JStr (ds_name s))] (ds_metadata s)"

definition build_service :: "nat \<Rightarrow> declared_service \<Rightarrow> service_type \<Rightarrow> endpoint \<Rightarrow> infra_service" where
  "build_service i s t e =
     \<lparr>sn_ref = i, sn_name = ds_id s, sn_type = t,
      sn_endpoint = Some \<lparr>ep_ref = 2 * i + 1, ep_type = ep_type e, ep_address = ep_address e, ep_port = ds_port s,
        ep_enabled = ds_enabled s, ep_metadata = []\<rparr>,
      sn_health = UNKNOWN, sn_enabled = ds_enabled s, sn_metadata = service_metadata s\<rparr>"

fun build_services :: "nat \<Rightarrow> declared_service list \<Rightarrow> infra_node list \<Rightarrow> error + infra_node list" where
  "build_services i [] nodes = Inr nodes"
| "build_services i (s # ss) nodes =
     (case tbl_find nd_name (ds_node s) nodes of
        None \<Rightarrow> Inl (LookupError (repr_str (ds_node s)))
      | Some n \<Rightarrow>
          (case map_of service_types (ds_type s) of
             None \<Rightarrow> Inl (ValueError (repr_str (ds_type s) @ '' is not a valid ServiceType''))
           | Some t \<Rightarrow>
               build_services (Suc i) ss
                 (tbl_update nd_name (ds_node s) (add_service (build_service i s t (hd (nd_endpoints n)))) nodes)))"

definition build_infrastructure :: "infrastructure_config \<Rightarrow> error + infrastructure" where
  "build_infrastructure config =
     (case build_nodes 0 (ic_nodes config) [] of
        Inl err \<Rightarrow> Inl err
      | Inr nodes \<Rightarrow>
          (case build_services 0 (ic_services config) nodes of
             Inl err \<Rightarrow> Inl err
           | Inr nodes' \<Rightarrow> Inr \<lparr>in_name = ic_name config, in_nodes = nodes', in_metadata = []\<rparr>))"

section \<open>Runtime state\<close>

record endpoint_runtime =
  er_endpoint :: endpoint
  er_health :: obs_status
  er_last_update :: "instant option"

record service_runtime =
  sr_service :: infra_service
  sr_health :: obs_status
  sr_last_update :: "instant option"

record node_runtime =
  nr_node :: infra_node
  nr_health :: obs_status
  nr_endpoint_runtimes :: "endpoint_runtime list"
  nr_service_runtimes :: "service_runtime list"
  nr_last_update :: "instant option"

record infrastructure_runtime =
  ir_infrastructure :: infrastructure
  ir_health :: obs_status
  ir_node_runtimes :: "node_runtime list"
  ir_last_update :: "instant option"

definition from_node :: "infra_node \<Rightarrow> node_runtime" where
  "from_node n =
     \<lparr>nr_node = n, nr_health = UNKNOWN,
      nr_endpoint_runtimes = map (\<lambda>e. \<lparr>er_endpoint = e, er_health = UNKNOWN, er_last_update = None\<rparr>) (nd_endpoints n),
      nr_service_runtimes = map (\<lambda>s. \<lparr>sr_service = s, sr_health = UNKNOWN, sr_last_update = None\<rparr>) (nd_services n),
      nr_last_update = None\<rparr>"

definition from_infrastructure :: "infrastructure \<Rightarrow> infrastructure_runtime" where
  "from_infrastructure i =
     \<lparr>ir_infrastructure = i, ir_health = UNKNOWN, ir_node_runtimes = map from_node (in_nodes i), ir_last_update = None\<rparr>"

definition update_service_health :: "instant \<Rightarrow> obs_status \<Rightarrow> service_runtime \<Rightarrow> service_runtime" where
  "update_service_health now h r = r\<lparr>sr_health := h, sr_last_update := Some now\<rparr>"

definition update_node_health :: "instant \<Rightarrow> obs_status \<Rightarrow> node_runtime \<Rightarrow> node_runtime" where
  "update_node_health now h r = r\<lparr>nr_health := h, nr_last_update := Some now\<rparr>"

definition update_endpoint_health :: "instant \<Rightarrow> obs_status \<Rightarrow> endpoint_runtime \<Rightarrow> endpoint_runtime" where
  "update_endpoint_health now h r = r\<lparr>er_health := h, er_last_update := Some now\<rparr>"

definition update_infrastructure_health :: "instant \<Rightarrow> obs_status \<Rightarrow> infrastructure_runtime \<Rightarrow> infrastructure_runtime" where
  "update_infrastructure_health now h r = r\<lparr>ir_health := h, ir_last_update := Some now\<rparr>"

definition get_endpoint_runtime :: "endpoint \<Rightarrow> node_runtime \<Rightarrow> endpoint_runtime option" where
  "get_endpoint_runtime e nr = find (\<lambda>r. ep_ref (er_endpoint r) = ep_ref e) (nr_endpoint_runtimes nr)"

definition node_service_runtime :: "(infra_service \<Rightarrow> bool) \<Rightarrow> node_runtime \<Rightarrow> service_runtime option" where
  "node_service_runtime P nr = find (\<lambda>r. P (sr_service r)) (nr_service_runtimes nr)"

abbreviation same_service :: "infra_service \<Rightarrow> infra_service \<Rightarrow> bool" where
  "same_service s r \<equiv> sn_ref r = sn_ref s"

abbreviation service_named :: "string \<Rightarrow> infra_service \<Rightarrow> bool" where
  "service_named k r \<equiv> sn_name r = k"

abbreviation service_typed :: "service_type \<Rightarrow> infra_service \<Rightarrow> bool" where
  "service_typed t r \<equiv> sn_type r = t"

definition get_node_runtime :: "infra_node \<Rightarrow> infrastructure_runtime \<Rightarrow> node_runtime option" where
  "get_node_runtime n rt = find (\<lambda>r. nd_ref (nr_node r) = nd_ref n) (ir_node_runtimes rt)"

definition get_node_runtime_by_name :: "string \<Rightarrow> infrastructure_runtime \<Rightarrow> node_runtime option" where
  "get_node_runtime_by_name k rt = find (\<lambda>r. nd_name (nr_node r) = k) (ir_node_runtimes rt)"

definition get_node_runtime_for_service :: "infra_service \<Rightarrow> infrastructure_runtime \<Rightarrow> node_runtime option" where
  "get_node_runtime_for_service s rt =
     find (\<lambda>r. node_service_runtime (same_service s) r \<noteq> None) (ir_node_runtimes rt)"

definition get_node_runtime_for_service_type :: "service_type \<Rightarrow> infrastructure_runtime \<Rightarrow> node_runtime option" where
  "get_node_runtime_for_service_type t rt =
     find (\<lambda>r. node_service_runtime (service_typed t) r \<noteq> None) (ir_node_runtimes rt)"

definition get_service_runtime :: "infra_service \<Rightarrow> infrastructure_runtime \<Rightarrow> service_runtime option" where
  "get_service_runtime s rt = first_some (node_service_runtime (same_service s)) (ir_node_runtimes rt)"

definition get_service_runtime_by_name :: "string \<Rightarrow> infrastructure_runtime \<Rightarrow> service_runtime option" where
  "get_service_runtime_by_name k rt = first_some (node_service_runtime (service_named k)) (ir_node_runtimes rt)"

definition get_service_runtime_by_type :: "service_type \<Rightarrow> infrastructure_runtime \<Rightarrow> service_runtime option" where
  "get_service_runtime_by_type t rt = first_some (node_service_runtime (service_typed t)) (ir_node_runtimes rt)"

section \<open>Health updates\<close>

record health_update =
  hu_target_name :: string
  hu_health :: obs_status
  hu_source :: string
  hu_message :: string
  hu_timestamp :: instant
  hu_metadata :: "(string \<times> json) list"

record health_manager =
  hm_runtime :: infrastructure_runtime
  hm_observations :: "health_update list"

text \<open>An assignment to the object that a lookup found: the first that matches.\<close>

fun update_first :: "('a \<Rightarrow> bool) \<Rightarrow> ('a \<Rightarrow> 'a) \<Rightarrow> 'a list \<Rightarrow> 'a list" where
  "update_first P f [] = []"
| "update_first P f (x # xs) = (if P x then f x # xs else x # update_first P f xs)"

definition update_found_service ::
  "(infra_service \<Rightarrow> bool) \<Rightarrow> (service_runtime \<Rightarrow> service_runtime) \<Rightarrow> infrastructure_runtime \<Rightarrow> infrastructure_runtime" where
  "update_found_service P f rt =
     rt\<lparr>ir_node_runtimes := update_first (\<lambda>nr. node_service_runtime P nr \<noteq> None)
       (\<lambda>nr. nr\<lparr>nr_service_runtimes := update_first (\<lambda>r. P (sr_service r)) f (nr_service_runtimes nr)\<rparr>)
       (ir_node_runtimes rt)\<rparr>"

text \<open>The service an update means: by its name, or else the first of the type that the name names.\<close>

definition service_target :: "string \<Rightarrow> infrastructure_runtime \<Rightarrow> (infra_service \<Rightarrow> bool) option" where
  "service_target name rt =
     (if get_service_runtime_by_name name rt \<noteq> None then Some (service_named name)
      else case map_of service_types name of
             None \<Rightarrow> None
           | Some t \<Rightarrow> if get_service_runtime_by_type t rt \<noteq> None then Some (service_typed t) else None)"

definition apply_to_service :: "instant \<Rightarrow> health_update \<Rightarrow> infrastructure_runtime \<Rightarrow> infrastructure_runtime option" where
  "apply_to_service now u rt =
     map_option (\<lambda>P. update_found_service P (update_service_health now (hu_health u)) rt)
       (service_target (hu_target_name u) rt)"

definition apply_to_node :: "instant \<Rightarrow> health_update \<Rightarrow> infrastructure_runtime \<Rightarrow> infrastructure_runtime option" where
  "apply_to_node now u rt =
     (if get_node_runtime_by_name (hu_target_name u) rt = None then None
      else Some (rt\<lparr>ir_node_runtimes := update_first (\<lambda>nr. nd_name (nr_node nr) = hu_target_name u)
             (update_node_health now (hu_health u)) (ir_node_runtimes rt)\<rparr>))"

definition record_update :: "instant \<Rightarrow> health_update \<Rightarrow> health_manager \<Rightarrow> bool \<times> health_manager" where
  "record_update now u m =
     (let m1 = m\<lparr>hm_observations := hm_observations m @ [u]\<rparr>
      in case apply_to_service now u (hm_runtime m) of
           Some rt \<Rightarrow> (True, m1\<lparr>hm_runtime := rt\<rparr>)
         | None \<Rightarrow>
             (case apply_to_node now u (hm_runtime m) of
                Some rt \<Rightarrow> (True, m1\<lparr>hm_runtime := rt\<rparr>) | None \<Rightarrow> (False, m1)))"

text \<open>SchedulerObservationHandler; \<open>n1\<close> stamps the update, \<open>n2\<close> the runtime.\<close>

definition handle_scheduler :: "obs_status \<Rightarrow> instant \<Rightarrow> instant \<Rightarrow> string \<Rightarrow> string \<Rightarrow> string \<Rightarrow> health_manager \<Rightarrow>
    bool \<times> health_manager" where
  "handle_scheduler h n1 n2 target source message m =
     record_update n2 \<lparr>hu_target_name = target, hu_health = h, hu_source = source, hu_message = message,
       hu_timestamp = n1, hu_metadata = []\<rparr> m"

definition handle_success where "handle_success = handle_scheduler HEALTHY"
definition handle_failure where "handle_failure = handle_scheduler UNHEALTHY"
definition handle_degraded where "handle_degraded = handle_scheduler DEGRADED"

section \<open>Availability\<close>

record infrastructure_capability =
  cp_name :: string
  cp_available :: bool
  cp_health :: obs_status
  cp_reason :: string

definition calculate_service_available :: "string \<Rightarrow> service_type \<Rightarrow> infrastructure_runtime \<Rightarrow> infrastructure_capability" where
  "calculate_service_available name t rt =
     (case get_service_runtime_by_type t rt of
        None \<Rightarrow> \<lparr>cp_name = name, cp_available = False, cp_health = UNKNOWN,
                 cp_reason = ''No '' @ service_type_value t @ '' service runtime found.''\<rparr>
      | Some r \<Rightarrow>
          if sr_health r = HEALTHY
          then \<lparr>cp_name = name, cp_available = True, cp_health = HEALTHY,
                cp_reason = service_type_value t @ '' service is healthy.''\<rparr>
          else \<lparr>cp_name = name, cp_available = False, cp_health = sr_health r,
                cp_reason = service_type_value t @ '' service is '' @ obs_status_value (sr_health r) @ ''.''\<rparr>)"

definition calculate_dns_available :: "infrastructure_runtime \<Rightarrow> infrastructure_capability" where
  "calculate_dns_available = calculate_service_available ''dns_available'' SERVICE_DNS"

definition calculate_mqtt_available :: "infrastructure_runtime \<Rightarrow> infrastructure_capability" where
  "calculate_mqtt_available = calculate_service_available ''mqtt_available'' SERVICE_MQTT"

end
