(* ===== verification/Observation_Engine.thy ===== *)
theory Observation_Engine
  imports Infrastructure_Model
begin

text \<open>
  From the result of a check to a published observation (observation/): the mappers, the engine, and
  the dispatcher that runs a plugin command or reports a suspended target; at the end the stored
  document of the infrastructure, from which the runtime of the engine is built.
\<close>

section \<open>Results and updates\<close>

record observer_result =
  rs_success :: bool
  rs_latency :: string
  rs_timestamp :: instant
  rs_message :: "string option"
  rs_check :: "string option"
  rs_description :: "string option"
  rs_metadata :: "(string \<times> json) list"
  rs_health :: "obs_status option"

text \<open>\<open>a or b\<close> of optional texts.\<close>

definition text_or :: "string option \<Rightarrow> string option \<Rightarrow> string option" where
  "text_or a b = (if a \<in> {None, Some []} then b else a)"

definition no_source :: error where
  "no_source = ValueError ''ObserverResult must define a check or an explicit source.''"

definition map_result :: "observer_result \<Rightarrow> string \<Rightarrow> string option \<Rightarrow> error + health_update" where
  "map_result result target_name source =
     (if target_name = [] then Inl (ValueError ''target_name must not be empty.'')
      else case text_or source (rs_check result) of
             None \<Rightarrow> Inl no_source
           | Some [] \<Rightarrow> Inl no_source
           | Some resolved \<Rightarrow>
               Inr \<lparr>hu_target_name = target_name,
                 hu_health = (case rs_health result of
                   Some h \<Rightarrow> h | None \<Rightarrow> if rs_success result then HEALTHY else UNHEALTHY),
                 hu_source = resolved,
                 hu_message = (case rs_message result of None \<Rightarrow> [] | Some m \<Rightarrow> m),
                 hu_timestamp = rs_timestamp result, hu_metadata = rs_metadata result\<rparr>)"

section \<open>Observations\<close>

text \<open>
  The factory: the identifier and the timestamp of the observation are those of its creation, the
  time of the check is not kept.
\<close>

definition map_update ::
  "string \<Rightarrow> instant \<Rightarrow> health_update \<Rightarrow> string \<Rightarrow> string \<Rightarrow> string \<Rightarrow> string option \<Rightarrow> (string \<times> json) list \<Rightarrow> observation" where
  "map_update new_id now u node service capability latency metadata =
     \<lparr>ob_id = new_id, ob_node = node, ob_service = service, ob_capability = capability, ob_status = hu_health u,
      ob_success = (hu_health u \<in> {HEALTHY, SUSPENDED}), ob_message = hu_message u, ob_source = hu_source u,
      ob_timestamp = now, ob_latency_ms = latency, ob_metadata = JObj metadata\<rparr>"

definition setdefault :: "string \<Rightarrow> json \<Rightarrow> (string \<times> json) list \<Rightarrow> (string \<times> json) list" where
  "setdefault k v kvs = (if k \<in> fst ` set kvs then kvs else kvs @ [(k, v)])"

text \<open>A text that is more than blanks, stripped.\<close>

definition filled_text :: "json \<Rightarrow> string option" where
  "filled_text v = (case v of JStr s \<Rightarrow> if strip s = [] then None else Some (strip s) | _ \<Rightarrow> None)"

definition map_device_update ::
  "string \<Rightarrow> instant \<Rightarrow> health_update \<Rightarrow> string \<Rightarrow> string \<Rightarrow> string option \<Rightarrow> observation" where
  "map_device_update new_id now u device_id capability latency =
     map_update new_id now u
       (case filled_text (jget (JObj (hu_metadata u)) ''node_id'') of Some node \<Rightarrow> node | None \<Rightarrow> device_id)
       device_id capability latency
       (setdefault ''device_id'' (JStr device_id) (setdefault ''target_type'' (JStr ''device'') (hu_metadata u)))"

definition map_service_update ::
  "string \<Rightarrow> instant \<Rightarrow> infrastructure_runtime \<Rightarrow> health_update \<Rightarrow> string \<Rightarrow> string option \<Rightarrow> error + observation" where
  "map_service_update new_id now rt u capability latency =
     (let found = (case get_service_runtime_by_name (hu_target_name u) rt of
            Some r \<Rightarrow> Inr r
          | None \<Rightarrow>
              (case map_of service_types (hu_target_name u) of
                 None \<Rightarrow> Inl (ValueError (''Unknown infrastructure service target: '' @ repr_str (hu_target_name u) @ ''.''))
               | Some t \<Rightarrow>
                   (case get_service_runtime_by_type t rt of
                      None \<Rightarrow> Inl (LookupError (''No runtime found for service type '' @ repr_str (service_type_value t) @ ''.''))
                    | Some r \<Rightarrow> Inr r)))
      in case found of
           Inl err \<Rightarrow> Inl err
         | Inr r \<Rightarrow>
             (case get_node_runtime_for_service (sr_service r) rt of
                None \<Rightarrow> Inl (LookupError (''No node runtime found for service '' @ repr_str (sn_name (sr_service r)) @ ''.''))
              | Some nr \<Rightarrow>
                  Inr (map_update new_id now u (nd_name (nr_node nr)) (sn_name (sr_service r)) capability latency
                    (hu_metadata u))))"

section \<open>The engine\<close>

text \<open>
  The engine with what it published. \<open>raises obs\<close> is the exception of a subscriber of the event, if
  any; the event is out by then.
\<close>

record observation_engine =
  en_manager :: health_manager
  en_published :: "observation list"

record engine_call =
  ec_new_id :: string
  ec_runtime_now :: instant
  ec_now :: instant
  ec_raises :: "observation \<Rightarrow> error option"

definition publish_observation :: "engine_call \<Rightarrow> observation \<Rightarrow> observation_engine \<Rightarrow> (error + observation) \<times> observation_engine" where
  "publish_observation x obs en =
     ((case ec_raises x obs of None \<Rightarrow> Inr obs | Some err \<Rightarrow> Inl err),
      en\<lparr>en_published := en_published en @ [obs]\<rparr>)"

definition process_device_update ::
  "engine_call \<Rightarrow> health_update \<Rightarrow> string \<Rightarrow> string \<Rightarrow> string option \<Rightarrow> observation_engine \<Rightarrow> (error + observation) \<times> observation_engine" where
  "process_device_update x u device_id capability latency en =
     publish_observation x (map_device_update (ec_new_id x) (ec_now x) u device_id capability latency) en"

definition process_service_update ::
  "engine_call \<Rightarrow> health_update \<Rightarrow> string \<Rightarrow> string option \<Rightarrow> observation_engine \<Rightarrow> (error + observation) \<times> observation_engine" where
  "process_service_update x u capability latency en =
     (let (applied, m) = record_update (ec_runtime_now x) u (en_manager en); en1 = en\<lparr>en_manager := m\<rparr>
      in if \<not> applied
         then (Inl (LookupError (''Unable to apply infrastructure health update for target '' @
                 repr_str (hu_target_name u) @ ''.'')), en1)
         else case map_service_update (ec_new_id x) (ec_now x) (hm_runtime m) u capability latency of
                Inl err \<Rightarrow> (Inl err, en1)
              | Inr obs \<Rightarrow> publish_observation x obs en1)"

definition process_result ::
  "engine_call \<Rightarrow> observer_result \<Rightarrow> string \<Rightarrow> string option \<Rightarrow> observation_engine \<Rightarrow> (error + observation) \<times> observation_engine" where
  "process_result x result target_name source en =
     (case map_result result target_name source of
        Inl err \<Rightarrow> (Inl err, en)
      | Inr u \<Rightarrow>
          (case text_or source (rs_check result) of
             None \<Rightarrow> (Inl no_source, en)
           | Some [] \<Rightarrow> (Inl no_source, en)
           | Some capability \<Rightarrow>
               if jget (JObj (rs_metadata result)) ''target_type'' = JStr ''device''
               then process_device_update x u target_name capability (Some (rs_latency result)) en
               else process_service_update x u capability (Some (rs_latency result)) en))"

section \<open>Commands\<close>

record plugin_command =
  pc_plugin_name :: string
  pc_operation :: string
  pc_target_name :: string
  pc_arguments :: "(string \<times> json) list"

text \<open>\<open>text.partition(".")\<close>, where the separator occurs.\<close>

fun partition_dot :: "string \<Rightarrow> (string \<times> string) option" where
  "partition_dot [] = None"
| "partition_dot (c # cs) =
     (if c = CHR ''.'' then Some ([], cs) else map_option (\<lambda>p. (c # fst p, snd p)) (partition_dot cs))"

definition new_plugin_command :: "string \<Rightarrow> string \<Rightarrow> string \<Rightarrow> (string \<times> json) list \<Rightarrow> error + plugin_command" where
  "new_plugin_command plugin operation target arguments =
     (if strip plugin = [] then Inl (ValueError ''plugin_name must not be empty.'')
      else if strip operation = [] then Inl (ValueError ''operation must not be empty.'')
      else if strip target = [] then Inl (ValueError ''target_name must not be empty.'')
      else Inr \<lparr>pc_plugin_name = plugin, pc_operation = operation, pc_target_name = target, pc_arguments = arguments\<rparr>)"

definition command_format :: error where
  "command_format = ValueError (''Plugin command must use the '' @ in_quotes ''<plugin>.<operation>'' @ '' format.'')"

definition parse_command :: "string \<Rightarrow> (string \<times> json) list \<Rightarrow> error + plugin_command" where
  "parse_command command arguments =
     (let normalized = strip command
      in if normalized = [] then Inl (ValueError ''Plugin command must not be empty.'')
         else case partition_dot normalized of
                None \<Rightarrow> Inl command_format
              | Some (plugin, operation) \<Rightarrow>
                  if plugin = [] \<or> operation = [] then Inl command_format
                  else new_plugin_command plugin operation
                         (case filled_text (jget (JObj arguments) ''service_id'') of
                            Some s \<Rightarrow> s
                          | None \<Rightarrow>
                              (case filled_text (jget (JObj arguments) ''device_id'') of Some d \<Rightarrow> d | None \<Rightarrow> plugin))
                         arguments)"

text \<open>The registered plugins and what a check answers or raises are a parameter.\<close>

type_synonym plugins = "(string \<times> ((string \<times> json) list \<Rightarrow> error + observer_result)) list"

definition execute_plugin ::
  "engine_call \<Rightarrow> plugins \<Rightarrow> string \<Rightarrow> string \<Rightarrow> (string \<times> json) list \<Rightarrow> string option \<Rightarrow> observation_engine \<Rightarrow>
     (error + observation) \<times> observation_engine" where
  "execute_plugin x plugins plugin_name target_name arguments source en =
     (case map_of plugins plugin_name of
        None \<Rightarrow> (Inl (RuntimeError (''Plugin not found: '' @ plugin_name)), en)
      | Some execute \<Rightarrow>
          (case execute arguments of
             Inl err \<Rightarrow> (Inl err, en)
           | Inr result \<Rightarrow> process_result x result target_name source en))"

definition execute_command :: "engine_call \<Rightarrow> plugins \<Rightarrow> plugin_command \<Rightarrow> observation_engine \<Rightarrow> (error + observation) \<times> observation_engine" where
  "execute_command x plugins c en =
     execute_plugin x plugins (pc_plugin_name c) (pc_target_name c) (pc_arguments c) None en"

definition dispatch_command ::
  "engine_call \<Rightarrow> plugins \<Rightarrow> string \<Rightarrow> (string \<times> json) list \<Rightarrow> observation_engine \<Rightarrow> (error + observation) \<times> observation_engine" where
  "dispatch_command x plugins command arguments en =
     (case parse_command command arguments of
        Inl err \<Rightarrow> (Inl err, en) | Inr c \<Rightarrow> execute_command x plugins c en)"

definition OBSERVATION_SOURCES :: "(string \<times> string) list" where
  "OBSERVATION_SOURCES = [(''home_assistant_telemetry.freshness'', ''home_assistant.telemetry.freshness'')]"

text \<open>A target that its schedule suspends; \<open>activation\<close> is the ISO text, if there is one.\<close>

definition suspended_metadata :: "(string \<times> json) list \<Rightarrow> string option \<Rightarrow> (string \<times> json) list" where
  "suspended_metadata arguments activation =
     (let with_device = (case filled_text (jget (JObj arguments) ''device_id'') of
            None \<Rightarrow> arguments
          | Some d \<Rightarrow> dict_put (''device_id'', JStr d) (dict_put (''target_type'', JStr ''device'') arguments))
      in dict_put (''next_activation'', text_or_null activation)
           (dict_put (''monitoring_suspended'', JBool True) with_device))"

definition publish_suspended ::
  "engine_call \<Rightarrow> instant \<Rightarrow> string \<Rightarrow> (string \<times> json) list \<Rightarrow> string \<Rightarrow> string option \<Rightarrow> observation_engine \<Rightarrow>
     (error + observation) \<times> observation_engine" where
  "publish_suspended x now command arguments reason activation en =
     (case parse_command command arguments of
        Inl err \<Rightarrow> (Inl err, en)
      | Inr c \<Rightarrow>
          (let source = (case map_of OBSERVATION_SOURCES command of None \<Rightarrow> command | Some s \<Rightarrow> s)
           in process_result x
                \<lparr>rs_success = True, rs_latency = ''0.0'', rs_timestamp = now, rs_message = Some reason,
                 rs_check = Some source,
                 rs_description = Some (''Surveillance suspendue par la plage horaire de l'' @ [CHR 0x27] @
                   [CHR 0xC3, CHR 0xA9] @ ''quipement.''),
                 rs_metadata = suspended_metadata arguments activation, rs_health = Some SUSPENDED\<rparr>
                (pc_target_name c) (Some source) en))"

section \<open>Export\<close>

text \<open>
  The payload for Vision, which knows no suspended state, and the pipeline that hands an observation
  to each exporter until one raises.
\<close>

fun vision_status :: "obs_status \<Rightarrow> string" where
  "vision_status HEALTHY = ''healthy''"
| "vision_status SUSPENDED = ''unknown''"
| "vision_status DEGRADED = ''degraded''"
| "vision_status UNHEALTHY = ''unavailable''"
| "vision_status UNKNOWN = ''unknown''"

definition entries_of :: "json \<Rightarrow> (string \<times> json) list" where
  "entries_of v = (case v of JObj kvs \<Rightarrow> kvs | _ \<Rightarrow> [])"

definition float_or_null :: "string option \<Rightarrow> json" where
  "float_or_null s = (case s of None \<Rightarrow> JNull | Some t \<Rightarrow> JFloat t)"

definition vision_payload :: "(instant \<Rightarrow> string) \<Rightarrow> observation \<Rightarrow> json" where
  "vision_payload isoformat obs =
     JObj [(''observation_id'', JStr (ob_id obs)), (''capability_id'', JStr (ob_capability obs)),
       (''service_id'', JStr (ob_service obs)), (''node_id'', JStr (ob_node obs)),
       (''status'', JStr (vision_status (ob_status obs))), (''observed_at'', JStr (isoformat (ob_timestamp obs))),
       (''message'', JStr (ob_message obs)), (''latency_ms'', float_or_null (ob_latency_ms obs)),
       (''metadata'', JObj (dict_put (''agent_observation'', JObj [(''id'', JStr (ob_id obs)),
          (''source'', JStr (ob_source obs)), (''success'', JBool (ob_success obs)), (''message'', JStr (ob_message obs))])
          (entries_of (ob_metadata obs))))]"

fun export_all :: "(observation \<Rightarrow> 's \<Rightarrow> error option \<times> 's) list \<Rightarrow> observation \<Rightarrow> 's \<Rightarrow> error option \<times> 's" where
  "export_all [] obs s = (None, s)"
| "export_all (f # fs) obs s =
     (case f obs s of (Some err, s') \<Rightarrow> (Some err, s') | (None, s') \<Rightarrow> export_all fs obs s')"

section \<open>The stored document\<close>

text \<open>
  The stored document of the infrastructure (infrastructure/repository.py) and the runtime built from
  it, at start-up and after a change (runtime/bootstrap.py). Writing the document as YAML and reading
  it again gives the same document. At start-up the loaded document is the argument; the step that a
  production agent inserts before validation, which adds a missing AdGuard synchronisation service,
  is not part of the model.
\<close>

text \<open>The file holds the document it was written from; \<open>os.replace\<close> puts the whole document in place.\<close>

record infrastructure_store =
  st_document :: infrastructure_config
  st_engine :: observation_engine
  st_schedules :: registry

definition write_document :: "(string \<Rightarrow> bool) \<Rightarrow> infrastructure_config \<Rightarrow> infrastructure_store \<Rightarrow>
    (error + infrastructure_config) \<times> infrastructure_store" where
  "write_document known_zone config st =
     (case validate_infrastructure known_zone config of
        Inl err \<Rightarrow> (Inl err, st)
      | Inr u \<Rightarrow> (Inr config, st\<lparr>st_document := config\<rparr>))"

definition schedule_devices :: "infrastructure_config \<Rightarrow> device list option" where
  "schedule_devices config =
     map_option (\<lambda>t. map (\<lambda>d. \<lparr>dv_id = Some (td_id d), dv_node = td_node d, dv_metadata = JObj (td_metadata d)\<rparr>)
       (tp_devices t)) (ic_topology config)"

text \<open>
  \<open>plugins\<close> is what the plugin catalogue does with the new infrastructure: an exception before or
  after it swapped the runtime, or none.
\<close>

datatype reconfiguration = Reconfigured | FailedBefore error | FailedAfter error

definition swap_runtime :: "infrastructure \<Rightarrow> infrastructure_store \<Rightarrow> infrastructure_store" where
  "swap_runtime i st =
     st\<lparr>st_engine := (st_engine st)\<lparr>en_manager := (en_manager (st_engine st))\<lparr>hm_runtime := from_infrastructure i\<rparr>\<rparr>\<rparr>"

definition reconfigure_infrastructure ::
  "(string \<Rightarrow> bool) \<Rightarrow> (infrastructure \<Rightarrow> reconfiguration) \<Rightarrow> infrastructure_config \<Rightarrow> infrastructure_store \<Rightarrow>
     (error + unit) \<times> infrastructure_store" where
  "reconfigure_infrastructure known_zone plugins config st =
     (case build_infrastructure config of
        Inl err \<Rightarrow> (Inl err, st)
      | Inr i \<Rightarrow>
          (case plugins i of
             FailedBefore err \<Rightarrow> (Inl err, st)
           | FailedAfter err \<Rightarrow> (Inl err, swap_runtime i st)
           | Reconfigured \<Rightarrow>
               (case replace_from_infrastructure known_zone (schedule_devices config) (st_schedules st) of
                  (Inl err, r) \<Rightarrow> (Inl err, swap_runtime i st)
                | (Inr u, r) \<Rightarrow> (Inr (), (swap_runtime i st)\<lparr>st_schedules := r\<rparr>))))"

definition write_and_reconfigure ::
  "(string \<Rightarrow> bool) \<Rightarrow> (infrastructure \<Rightarrow> reconfiguration) \<Rightarrow> infrastructure_config \<Rightarrow> infrastructure_store \<Rightarrow>
     (error + infrastructure_config) \<times> infrastructure_store" where
  "write_and_reconfigure known_zone plugins config st =
     (case write_document known_zone config st of
        (Inl err, st1) \<Rightarrow> (Inl err, st1)
      | (Inr saved, st1) \<Rightarrow>
          (case reconfigure_infrastructure known_zone plugins saved st1 of
             (Inl err, st2) \<Rightarrow> (Inl err, st2) | (Inr u, st2) \<Rightarrow> (Inr saved, st2)))"

definition start_infrastructure :: "(string \<Rightarrow> bool) \<Rightarrow> infrastructure_config \<Rightarrow> error + (infrastructure_runtime \<times> registry)" where
  "start_infrastructure known_zone config =
     (case validate_infrastructure known_zone config of
        Inl err \<Rightarrow> Inl err
      | Inr u \<Rightarrow>
          (case build_infrastructure config of
             Inl err \<Rightarrow> Inl err
           | Inr i \<Rightarrow>
               (case replace_from_infrastructure known_zone (schedule_devices config) Map.empty of
                  (Inl err, r) \<Rightarrow> Inl err | (Inr u, r) \<Rightarrow> Inr (from_infrastructure i, r))))"

end
