(* ===== verification/Infrastructure_Properties.thy ===== *)
theory Infrastructure_Properties
  imports Observation_Engine
begin

text \<open>
  What validation accepts; the infrastructure that the builder makes from a well declared document, in
  closed form; and the runtime state as one list of services with their nodes, on which lookups and
  updates are list operations.
\<close>

section \<open>Validation\<close>

lemma unique_None: "unique m xs = None \<longleftrightarrow> distinct xs"
  by (simp add: unique_def) (metis card_distinct distinct_card)

lemma first_finding_None: "first_finding check xs = None \<longleftrightarrow> (\<forall>x \<in> set xs. check x = None)"
  by (induction xs) (auto split: option.splits)

lemma of_topology_None: "of_topology check c = None \<longleftrightarrow> (\<forall>t. ic_topology c = Some t \<longrightarrow> check t = None)"
  by (auto simp: of_topology_def split: option.splits)

text \<open>The declared infrastructure that the validator means.\<close>

definition node_ok :: "node_config \<Rightarrow> bool" where
  "node_ok n = (nc_endpoint_type n = ''ip'' \<and> is_ip_address (nc_endpoint_address n) \<or>
     nc_endpoint_type n = ''hostname'' \<and> is_valid_hostname (nc_endpoint_address n))"

definition service_ok :: "infrastructure_config \<Rightarrow> declared_service \<Rightarrow> bool" where
  "service_ok c s = (ds_node s \<in> nc_id ` set (ic_nodes c) \<and>
     (case ds_port s of None \<Rightarrow> True | Some p \<Rightarrow> 1 \<le> p \<and> p \<le> 65535))"

definition device_ok :: "(string \<Rightarrow> bool) \<Rightarrow> infrastructure_config \<Rightarrow> topology_device \<Rightarrow> bool" where
  "device_ok known_zone c d =
     ((case td_address d of None \<Rightarrow> True | Some a \<Rightarrow> is_valid_ip_or_hostname a) \<and>
      (case td_node d of None \<Rightarrow> True | Some n \<Rightarrow> n \<in> nc_id ` set (ic_nodes c)) \<and>
      \<not> isl (validate_payload known_zone (jget (JObj (td_metadata d)) ''monitoring_schedule'')))"

definition link_ok :: "topology \<Rightarrow> topology_link \<Rightarrow> bool" where
  "link_ok t l = (tl_source l \<noteq> tl_target l \<and> {tl_source l, tl_target l} \<subseteq> td_id ` set (tp_devices t))"

definition layout_ok :: "topology \<Rightarrow> topology_layout \<Rightarrow> bool" where
  "layout_ok t y = (fst ` set (ty_positions y) \<subseteq> td_id ` set (tp_devices t) \<and>
     distinct (map (\<lambda>p. (gp_column (snd p), gp_row (snd p))) (ty_positions y)))"

definition topology_ok :: "(string \<Rightarrow> bool) \<Rightarrow> infrastructure_config \<Rightarrow> topology \<Rightarrow> bool" where
  "topology_ok known_zone c t =
     (distinct (map td_id (tp_devices t)) \<and> list_all (device_ok known_zone c) (tp_devices t) \<and>
      distinct (List.map_filter td_node (tp_devices t)) \<and> distinct (map tl_id (tp_links t)) \<and>
      list_all (link_ok t) (tp_links t) \<and> distinct (map ty_id (tp_layouts t)) \<and> list_all (layout_ok t) (tp_layouts t))"

definition well_declared :: "(string \<Rightarrow> bool) \<Rightarrow> infrastructure_config \<Rightarrow> bool" where
  "well_declared known_zone c =
     (distinct (map nc_id (ic_nodes c)) \<and> distinct (map ds_id (ic_services c)) \<and> list_all node_ok (ic_nodes c) \<and>
      list_all (service_ok c) (ic_services c) \<and>
      (case ic_topology c of None \<Rightarrow> True | Some t \<Rightarrow> topology_ok known_zone c t))"

lemma check_node: "check_node_address n = None \<longleftrightarrow> node_ok n"
  by (auto simp: check_node_address_def node_ok_def)

lemma check_service: "check_service_node c s = None \<and> check_service_port s = None \<longleftrightarrow> service_ok c s"
  by (auto simp: check_service_node_def check_service_port_def service_ok_def split: option.splits)

lemma check_device:
  "check_device_address d = None \<and> check_device_node c d = None \<and> check_schedule z d = None \<longleftrightarrow> device_ok z c d"
  by (auto simp: check_device_address_def check_device_node_def check_schedule_def device_ok_def isl_def
      split: option.splits sum.splits)

lemma check_link_None: "check_link t l = None \<longleftrightarrow> link_ok t l"
  by (auto simp: check_link_def link_ok_def Let_def)

lemma check_layout_None: "check_layout t y = None \<longleftrightarrow> layout_ok t y"
proof -
  have "sort (remdups xs) = [] \<longleftrightarrow> xs = []" for xs :: "string list"
    by (metis remdups_eq_nil_iff set_empty set_sort)
  then show ?thesis
    by (auto simp: check_layout_def layout_ok_def Let_def unique_None filter_empty_conv)
qed

lemma validate_well_declared:
  "validate_infrastructure known_zone c = Inr () \<longleftrightarrow> well_declared known_zone c"
proof -
  have dev: "(\<forall>d \<in> set ds. check_device_address d = None) \<and> (\<forall>d \<in> set ds. check_device_node c d = None) \<and>
      (\<forall>d \<in> set ds. check_schedule known_zone d = None) \<longleftrightarrow> list_all (device_ok known_zone c) ds" for ds
    using check_device[of _ c known_zone] by (auto simp: list_all_iff)
  have sv: "(\<forall>s \<in> set ss. check_service_node c s = None) \<and> (\<forall>s \<in> set ss. check_service_port s = None) \<longleftrightarrow>
      list_all (service_ok c) ss" for ss
    using check_service[of c] by (auto simp: list_all_iff)
  have "validate_infrastructure known_zone c = Inr () \<longleftrightarrow>
      first_finding (\<lambda>step. step c) (validation_steps known_zone) = None"
    by (auto simp: validate_infrastructure_def split: option.splits)
  also have "\<dots> \<longleftrightarrow> well_declared known_zone c"
  proof (cases "ic_topology c")
    case None
    then show ?thesis
      unfolding first_finding_None validation_steps_def well_declared_def sv[symmetric]
      by (simp add: of_topology_def unique_None first_finding_None check_node list_all_iff)
  next
    case (Some t)
    then show ?thesis
      unfolding first_finding_None validation_steps_def well_declared_def topology_ok_def dev[symmetric] sv[symmetric]
      by (simp add: of_topology_def unique_None first_finding_None check_node check_link_None
          check_layout_None list_all_iff topology_ok_def dev[symmetric, unfolded list_all_iff]) blast
  qed
  finally show ?thesis .
qed


section \<open>The builder in closed form\<close>

definition typed_services :: "infrastructure_config \<Rightarrow> bool" where
  "typed_services c = list_all (\<lambda>s. ds_type s \<in> fst ` set service_types) (ic_services c)"

definition built_node :: "nat \<Rightarrow> node_config \<Rightarrow> infra_node" where
  "built_node i nc =
     \<lparr>nd_ref = i, nd_name = nc_id nc, nd_description = nc_description nc, nd_enabled = True,
      nd_endpoints = [\<lparr>ep_ref = 2 * i, ep_type = the (map_of endpoint_types (nc_endpoint_type nc)),
        ep_address = nc_endpoint_address nc, ep_port = None, ep_enabled = True, ep_metadata = []\<rparr>],
      nd_services = [], nd_metadata = []\<rparr>"

definition service_of :: "infra_node \<Rightarrow> nat \<times> declared_service \<Rightarrow> infra_service" where
  "service_of n p =
     build_service (fst p) (snd p) (the (map_of service_types (ds_type (snd p)))) (hd (nd_endpoints n))"

definition services_of :: "(nat \<times> declared_service) list \<Rightarrow> infra_node \<Rightarrow> infra_service list" where
  "services_of ps n = map (service_of n) (filter (\<lambda>p. ds_node (snd p) = nd_name n) ps)"

definition with_services :: "(nat \<times> declared_service) list \<Rightarrow> infra_node \<Rightarrow> infra_node" where
  "with_services ps n = n\<lparr>nd_services := nd_services n @ services_of ps n\<rparr>"

lemma built_node_simps [simp]:
  "nd_name (built_node i nc) = nc_id nc" "nd_services (built_node i nc) = []"
  "ep_address (hd (nd_endpoints (built_node i nc))) = nc_endpoint_address nc"
  by (simp_all add: built_node_def)

lemma with_services_simps [simp]:
  "nd_name (with_services ps n) = nd_name n" "nd_endpoints (with_services ps n) = nd_endpoints n"
  "nd_services (with_services ps n) = nd_services n @ services_of ps n"
  by (simp_all add: with_services_def)

lemma service_of_simps [simp]:
  "sn_ref (service_of n p) = fst p" "sn_name (service_of n p) = ds_id (snd p)"
  "sn_endpoint (service_of n p) = Some \<lparr>ep_ref = 2 * fst p + 1, ep_type = ep_type (hd (nd_endpoints n)),
     ep_address = ep_address (hd (nd_endpoints n)), ep_port = ds_port (snd p), ep_enabled = ds_enabled (snd p),
     ep_metadata = []\<rparr>"
  "sn_enabled (service_of n p) = ds_enabled (snd p)"
  by (simp_all add: service_of_def build_service_def)

lemma put_new: "nd_name n \<notin> nd_name ` set ns \<Longrightarrow> put_node n ns = ns @ [n]"
  by (simp add: put_node_def tbl_find_None)

lemma build_nodes_eq:
  assumes "list_all node_ok ncs" "distinct (map nc_id ncs)" "nd_name ` set nodes \<inter> nc_id ` set ncs = {}"
  shows "build_nodes i ncs nodes = Inr (nodes @ map (\<lambda>p. built_node (fst p) (snd p)) (enumerate i ncs))"
  using assms
proof (induction ncs arbitrary: i nodes)
  case (Cons nc ncs)
  from Cons.prems(1) obtain t where t: "map_of endpoint_types (nc_endpoint_type nc) = Some t"
    by (auto simp: node_ok_def endpoint_types_def)
  have "build_nodes i (nc # ncs) nodes = build_nodes (Suc i) ncs (put_node (built_node i nc) nodes)"
    by (simp add: t built_node_def)
  also have "put_node (built_node i nc) nodes = nodes @ [built_node i nc]"
    using Cons.prems by (simp add: put_new)
  also have "build_nodes (Suc i) ncs (nodes @ [built_node i nc]) =
      Inr ((nodes @ [built_node i nc]) @ map (\<lambda>p. built_node (fst p) (snd p)) (enumerate (Suc i) ncs))"
    by (rule Cons.IH) (use Cons.prems in auto)
  finally show ?case by simp
qed simp

lemma update_attach:
  assumes "distinct (map nd_name nodes)" "n \<in> set nodes" "nd_name n = ds_node s"
  shows "tbl_update nd_name (ds_node s) (add_service (service_of n (i, s))) nodes = map (with_services [(i, s)]) nodes"
  using assms
  by (auto simp: tbl_update_def add_service_def with_services_def services_of_def distinct_map inj_on_def
      intro!: map_cong)

lemma with_services_append: "with_services ps (with_services qs n) = with_services (qs @ ps) n"
  by (simp add: with_services_def services_of_def service_of_def)

lemma build_services_eq:
  assumes "distinct (map nd_name nodes)" "ds_node ` set ss \<subseteq> nd_name ` set nodes"
    "list_all (\<lambda>s. ds_type s \<in> fst ` set service_types) ss"
  shows "build_services i ss nodes = Inr (map (with_services (enumerate i ss)) nodes)"
  using assms
proof (induction ss arbitrary: i nodes)
  case Nil
  then show ?case by (auto simp: with_services_def services_of_def intro!: map_idI[symmetric])
next
  case (Cons s ss)
  from Cons.prems(2) obtain n where n: "tbl_find nd_name (ds_node s) nodes = Some n"
    by (metis image_subset_iff list.set_intros(1) option.exhaust tbl_find_None)
  then have mem: "n \<in> set nodes" "nd_name n = ds_node s"
    by (auto simp: tbl_find_def find_Some_iff)
  from Cons.prems(3) obtain t where t: "map_of service_types (ds_type s) = Some t"
    by (cases "map_of service_types (ds_type s)") (simp_all add: map_of_eq_None_iff)
  have "build_services i (s # ss) nodes = build_services (Suc i) ss (map (with_services [(i, s)]) nodes)"
    using n t update_attach[OF Cons.prems(1) mem] by (simp add: service_of_def)
  also have "\<dots> = Inr (map (with_services (enumerate (Suc i) ss)) (map (with_services [(i, s)]) nodes))"
    by (rule Cons.IH) (use Cons.prems in \<open>auto simp: comp_def image_image\<close>)
  finally show ?case by (simp add: with_services_append comp_def)
qed

definition infrastructure_of :: "infrastructure_config \<Rightarrow> infrastructure" where
  "infrastructure_of c =
     \<lparr>in_name = ic_name c,
      in_nodes = map (\<lambda>p. with_services (enumerate 0 (ic_services c)) (built_node (fst p) (snd p))) (enumerate 0 (ic_nodes c)),
      in_metadata = []\<rparr>"

lemma map_snd_enumerate: "map (\<lambda>p. f (snd p)) (enumerate i xs) = map f xs"
  by (induction xs arbitrary: i) auto

lemma build_infrastructure_eq:
  assumes "well_declared z c" "typed_services c"
  shows "build_infrastructure c = Inr (infrastructure_of c)"
proof -
  let ?nodes = "map (\<lambda>p. built_node (fst p) (snd p)) (enumerate 0 (ic_nodes c))"
  have names: "map nd_name ?nodes = map nc_id (ic_nodes c)"
    by (simp add: comp_def map_snd_enumerate)
  have "build_nodes 0 (ic_nodes c) [] = Inr ?nodes"
    using assms(1) by (simp add: build_nodes_eq well_declared_def)
  moreover have "build_services 0 (ic_services c) ?nodes = Inr (map (with_services (enumerate 0 (ic_services c))) ?nodes)"
    by (rule build_services_eq; (unfold names list.set_map[symmetric])?)
      (use assms in \<open>auto simp: well_declared_def service_ok_def list_all_iff typed_services_def\<close>)
  ultimately show ?thesis by (simp add: build_infrastructure_def infrastructure_of_def comp_def)
qed

section \<open>The runtime as a list\<close>

definition flat :: "infrastructure_runtime \<Rightarrow> (string \<times> service_runtime) list" where
  "flat rt = concat (map (\<lambda>nr. map (Pair (nd_name (nr_node nr))) (nr_service_runtimes nr)) (ir_node_runtimes rt))"

definition shape :: "infrastructure_runtime \<Rightarrow> (string \<times> infra_service) list" where
  "shape rt = map (\<lambda>p. (fst p, sr_service (snd p))) (flat rt)"

lemma find_append: "find P (xs @ ys) = (case find P xs of None \<Rightarrow> find P ys | Some x \<Rightarrow> Some x)"
  by (induction xs) auto

lemma find_map_Pair: "find (\<lambda>p. P (snd p)) (map (Pair k) xs) = map_option (Pair k) (find P xs)"
  by (induction xs) auto

lemma first_some_flat:
  "first_some (node_service_runtime P) nrs =
     map_option snd (find (\<lambda>p. P (sr_service (snd p)))
       (concat (map (\<lambda>nr. map (Pair (nd_name (nr_node nr))) (nr_service_runtimes nr)) nrs)))"
  by (induction nrs)
    (auto simp: find_append find_map_Pair[where P = "\<lambda>r. P (sr_service r)"] node_service_runtime_def split: option.splits)

lemma lookup_flat:
  "get_service_runtime_by_name k rt = map_option snd (find (\<lambda>p. sn_name (sr_service (snd p)) = k) (flat rt))"
  "get_service_runtime_by_type t rt = map_option snd (find (\<lambda>p. sn_type (sr_service (snd p)) = t) (flat rt))"
  by (simp_all add: get_service_runtime_by_name_def get_service_runtime_by_type_def first_some_flat flat_def)

lemma node_flat:
  "map_option (\<lambda>nr. nd_name (nr_node nr)) (get_node_runtime_for_service s rt) =
     map_option fst (find (\<lambda>p. sn_ref (sr_service (snd p)) = sn_ref s) (flat rt))"
proof -
  have "map_option (\<lambda>nr. nd_name (nr_node nr)) (find (\<lambda>r. node_service_runtime (same_service s) r \<noteq> None) nrs) =
      map_option fst (find (\<lambda>p. sn_ref (sr_service (snd p)) = sn_ref s)
        (concat (map (\<lambda>nr. map (Pair (nd_name (nr_node nr))) (nr_service_runtimes nr)) nrs)))" for nrs
    by (induction nrs)
      (auto simp: find_append find_map_Pair[where P = "\<lambda>r. sn_ref (sr_service r) = sn_ref s"] node_service_runtime_def
        split: option.splits)
  then show ?thesis by (simp add: get_node_runtime_for_service_def flat_def)
qed

lemma update_first_none: "find P xs = None \<Longrightarrow> update_first P f xs = xs"
  by (induction xs) (auto split: if_splits)

lemma update_first_append:
  "update_first P f (xs @ ys) = (if find P xs = None then xs @ update_first P f ys else update_first P f xs @ ys)"
  by (induction xs) auto

lemma update_first_Pair:
  "update_first (\<lambda>p. P (snd p)) (apsnd f) (map (Pair k) xs) = map (Pair k) (update_first P f xs)"
  by (induction xs) auto

lemma flat_update:
  "flat (update_found_service P f rt) = update_first (\<lambda>p. P (sr_service (snd p))) (apsnd f) (flat rt)"
proof -
  have "concat (map (\<lambda>nr. map (Pair (nd_name (nr_node nr))) (nr_service_runtimes nr))
          (update_first (\<lambda>nr. node_service_runtime P nr \<noteq> None)
            (\<lambda>nr. nr\<lparr>nr_service_runtimes := update_first (\<lambda>r. P (sr_service r)) f (nr_service_runtimes nr)\<rparr>) nrs)) =
        update_first (\<lambda>p. P (sr_service (snd p))) (apsnd f)
          (concat (map (\<lambda>nr. map (Pair (nd_name (nr_node nr))) (nr_service_runtimes nr)) nrs))" for nrs
    by (induction nrs)
      (auto simp: update_first_append find_map_Pair[where P = "\<lambda>r. P (sr_service r)"]
        update_first_Pair[where P = "\<lambda>r. P (sr_service r)"] node_service_runtime_def)
  then show ?thesis by (simp add: flat_def update_found_service_def)
qed

end
