(* ===== verification/Observation_Properties.thy ===== *)
theory Observation_Properties
  imports Infrastructure_Properties
begin

text \<open>
  The runtime of a well declared infrastructure always holds its declared services, so that the
  result of a check reaches exactly the service it is about.
\<close>

section \<open>Lists with distinct keys\<close>

lemma find_key: "distinct (map key xs) \<Longrightarrow> x \<in> set xs \<Longrightarrow> find (\<lambda>y. key y = key x) xs = Some x"
  by (induction xs) (auto simp: rev_image_eqI)

lemma update_first_key:
  "distinct (map key xs) \<Longrightarrow> update_first (\<lambda>y. key y = k) f xs = map (\<lambda>y. if key y = k then f y else y) xs"
proof (induction xs)
  case (Cons a xs)
  then have "map (\<lambda>y. if key y = k then f y else y) xs = xs" if "key a = k"
    using that by (intro map_idI) (auto simp: rev_image_eqI)
  with Cons show ?case by auto
qed simp

lemma update_first_map: "(\<And>x. g (f x) = g x) \<Longrightarrow> map g (update_first P f xs) = map g xs"
  by (induction xs) auto

lemma find_map_same:
  "(\<And>x. key (h x) = key x) \<Longrightarrow> find (\<lambda>y. key y = k) (map h xs) = map_option h (find (\<lambda>y. key y = k) xs)"
  by (induction xs) auto

section \<open>Updates keep the services\<close>

lemma shape_update: "shape (update_found_service P (update_service_health now h) rt) = shape rt"
  unfolding shape_def flat_update by (rule update_first_map) (simp add: update_service_health_def)

lemma flat_node_update: "apply_to_node now u rt = Some rt' \<Longrightarrow> flat rt' = flat rt"
proof -
  have "map (\<lambda>nr. map (Pair (nd_name (nr_node nr))) (nr_service_runtimes nr))
          (update_first P (update_node_health now h) nrs) =
        map (\<lambda>nr. map (Pair (nd_name (nr_node nr))) (nr_service_runtimes nr)) nrs" for P h nrs
    by (rule update_first_map) (simp add: update_node_health_def)
  then show "apply_to_node now u rt = Some rt' \<Longrightarrow> flat rt' = flat rt"
    by (auto simp: apply_to_node_def flat_def split: if_splits)
qed

lemma shape_record: "shape (hm_runtime (snd (record_update now u m))) = shape (hm_runtime m)"
proof -
  have "shape rt' = shape rt" if "apply_to_node now u rt = Some rt'" for rt rt'
    using flat_node_update[OF that] by (simp add: shape_def)
  then show ?thesis
    by (auto simp: record_update_def Let_def apply_to_service_def shape_update split: option.splits)
qed

text \<open>The states of the health manager of a document: freshly built, then updated.\<close>

inductive managed :: "infrastructure_config \<Rightarrow> health_manager \<Rightarrow> bool" where
  built: "build_infrastructure c = Inr i \<Longrightarrow> managed c \<lparr>hm_runtime = from_infrastructure i, hm_observations = []\<rparr>"
| recorded: "managed c m \<Longrightarrow> managed c (snd (record_update now u m))"

lemma managed_shape:
  assumes "managed c m" "build_infrastructure c = Inr i"
  shows "shape (hm_runtime m) = shape (from_infrastructure i)"
  using assms by induction (simp_all add: shape_record)

section \<open>The declared services\<close>

definition declared :: "infrastructure_config \<Rightarrow> ((nat \<times> node_config) \<times> nat \<times> declared_service) list" where
  "declared c =
     concat (map (\<lambda>p. map (Pair p) (filter (\<lambda>q. ds_node (snd q) = nc_id (snd p)) (enumerate 0 (ic_services c))))
       (enumerate 0 (ic_nodes c)))"

lemma shape_declared:
  "shape (from_infrastructure (infrastructure_of c)) =
     map (\<lambda>(p, q). (nc_id (snd p), service_of (built_node (fst p) (snd p)) q)) (declared c)"
  by (simp add: shape_def flat_def from_infrastructure_def infrastructure_of_def from_node_def declared_def map_concat
      comp_def services_of_def)

lemma distinct_blocks:
  "distinct (map f ps) \<Longrightarrow> distinct qs \<Longrightarrow>
     distinct (concat (map (\<lambda>p. filter (\<lambda>q. g q = f p) qs) ps))"
proof (induction ps)
  case (Cons a ps)
  then have "f p \<noteq> f a" if "p \<in> set ps" for p
    using that by (auto simp: image_iff)
  with Cons show ?case by auto
qed simp

lemma declared_distinct:
  assumes "distinct (map nc_id (ic_nodes c))"
  shows "distinct (map snd (declared c))"
proof -
  have "distinct (map (\<lambda>p. nc_id (snd p)) (enumerate 0 (ic_nodes c)))"
    using assms by (simp add: map_snd_enumerate)
  then show ?thesis
    unfolding declared_def by (simp add: map_concat comp_def distinct_blocks distinct_enumerate)
qed

lemma declared_subset: "snd ` set (declared c) \<subseteq> set (enumerate 0 (ic_services c))"
  by (auto simp: declared_def)

lemma declared_keys:
  assumes "distinct (map nc_id (ic_nodes c))" "distinct (map key (enumerate 0 (ic_services c)))"
  shows "distinct (map (\<lambda>d. key (snd d)) (declared c))"
proof -
  have "inj_on key (set (map snd (declared c)))"
    using assms(2) inj_on_subset[OF _ declared_subset, of key c] by (simp add: distinct_map)
  then have "distinct (map key (map snd (declared c)))"
    using declared_distinct[OF assms(1)] unfolding distinct_map by blast
  then show ?thesis by (simp add: comp_def)
qed

lemma declared_names:
  assumes "well_declared z c"
  shows "distinct (map (\<lambda>d. ds_id (snd (snd d))) (declared c))" "distinct (map (\<lambda>d. fst (snd d)) (declared c))"
  using assms declared_keys[where key = fst] declared_keys[where key = "\<lambda>q. ds_id (snd q)"]
  by (auto simp: well_declared_def map_snd_enumerate)

lemma declared_entry:
  assumes "well_declared z c" "s \<in> set (ic_services c)"
  obtains p i where "(p, i, s) \<in> set (declared c)" "nc_id (snd p) = ds_node s" "snd p \<in> set (ic_nodes c)"
proof -
  from assms(2) obtain i where i: "(i, s) \<in> set (enumerate 0 (ic_services c))"
    by (metis in_set_impl_in_set_zip2 enumerate_eq_zip length_upt add_diff_cancel_left')
  from assms obtain nc where nc: "nc \<in> set (ic_nodes c)" "nc_id nc = ds_node s"
    by (auto simp: well_declared_def list_all_iff service_ok_def)
  then obtain j where j: "(j, nc) \<in> set (enumerate 0 (ic_nodes c))"
    by (metis in_set_impl_in_set_zip2 enumerate_eq_zip length_upt add_diff_cancel_left')
  show thesis by (rule that[of "(j, nc)" i]) (use i nc j in \<open>force simp: declared_def\<close>)+
qed


lemma managed_entry:
  assumes "well_declared z c" "typed_services c" "managed c m" "s \<in> set (ic_services c)"
  obtains r where "(ds_node s, r) \<in> set (flat (hm_runtime m))" "sn_name (sr_service r) = ds_id s"
proof -
  from declared_entry[OF assms(1,4)] obtain p i where pi: "(p, i, s) \<in> set (declared c)" "nc_id (snd p) = ds_node s" .
  then have "(ds_node s, service_of (built_node (fst p) (snd p)) (i, s)) \<in> set (shape (hm_runtime m))"
    unfolding managed_shape[OF assms(3) build_infrastructure_eq[OF assms(1,2)]] shape_declared by force
  then obtain r where "(ds_node s, r) \<in> set (flat (hm_runtime m))"
      "sr_service r = service_of (built_node (fst p) (snd p)) (i, s)"
    by (auto simp: shape_def)
  then show thesis using that by simp
qed

lemma managed_keys:
  assumes "well_declared z c" "typed_services c" "managed c m"
  shows "distinct (map (\<lambda>p. sn_name (sr_service (snd p))) (flat (hm_runtime m)))"
    "distinct (map (\<lambda>p. sn_ref (sr_service (snd p))) (flat (hm_runtime m)))"
proof -
  have *: "map (\<lambda>p. key (sr_service (snd p))) (flat (hm_runtime m)) = map (\<lambda>p. key (snd p)) (shape (hm_runtime m))" for key
    by (simp add: shape_def comp_def)
  show "distinct (map (\<lambda>p. sn_name (sr_service (snd p))) (flat (hm_runtime m)))"
    "distinct (map (\<lambda>p. sn_ref (sr_service (snd p))) (flat (hm_runtime m)))"
    unfolding * managed_shape[OF assms(3) build_infrastructure_eq[OF assms(1,2)]] shape_declared
    using declared_names[OF assms(1)] by (simp_all add: comp_def case_prod_unfold)
qed


lemma managed_lookup:
  assumes "well_declared z c" "typed_services c" "managed c m" "s \<in> set (ic_services c)"
  obtains r nr where "get_service_runtime_by_name (ds_id s) (hm_runtime m) = Some r"
    "sn_name (sr_service r) = ds_id s"
    "get_node_runtime_for_service (sr_service r) (hm_runtime m) = Some nr" "nd_name (nr_node nr) = ds_node s"
proof -
  from managed_entry[OF assms] obtain r where r: "(ds_node s, r) \<in> set (flat (hm_runtime m))"
    "sn_name (sr_service r) = ds_id s" .
  note keys = managed_keys[OF assms(1-3)]
  have name: "get_service_runtime_by_name (ds_id s) (hm_runtime m) = Some r"
    using find_key[OF keys(1) r(1)] r(2) by (simp add: lookup_flat)
  have "map_option (\<lambda>nr. nd_name (nr_node nr)) (get_node_runtime_for_service (sr_service r) (hm_runtime m)) =
      Some (ds_node s)"
    using find_key[OF keys(2) r(1)] by (simp add: node_flat)
  with name r(2) that show thesis by auto
qed

lemma lookup_after_update:
  assumes "distinct (map (\<lambda>p. sn_name (sr_service (snd p))) (flat rt))"
  shows "get_service_runtime_by_name k (update_found_service (service_named j) (update_service_health now h) rt) =
    (if k = j then map_option (update_service_health now h) (get_service_runtime_by_name k rt)
     else get_service_runtime_by_name k rt)"
proof -
  let ?key = "\<lambda>p. sn_name (sr_service (snd p))"
  let ?h = "\<lambda>p. if ?key p = j then apsnd (update_service_health now h) p else p"
  have "find (\<lambda>p. ?key p = k) (map ?h (flat rt)) = map_option ?h (find (\<lambda>p. ?key p = k) (flat rt))"
    by (rule find_map_same) (simp add: update_service_health_def)
  then have "get_service_runtime_by_name k (update_found_service (service_named j) (update_service_health now h) rt) =
      map_option snd (map_option ?h (find (\<lambda>p. ?key p = k) (flat rt)))"
    unfolding lookup_flat flat_update update_first_key[OF assms] by simp
  moreover have "?key p = k" if "find (\<lambda>p. ?key p = k) (flat rt) = Some p" for p
    using that by (auto simp: find_Some_iff)
  ultimately show ?thesis
    unfolding lookup_flat by (cases "find (\<lambda>p. ?key p = k) (flat rt)") auto
qed

definition reported_health :: "observer_result \<Rightarrow> obs_status" where
  "reported_health result =
     (case rs_health result of Some h \<Rightarrow> h | None \<Rightarrow> if rs_success result then HEALTHY else UNHEALTHY)"

text \<open>
  C17. In every state of the health manager of a well declared infrastructure, the result of a check
  of a declared service is published as one observation that names the service and its node, with
  the capability, the status and the message of the check, and it changes the health of that service
  and of no other.
\<close>

theorem check_result_reported:
  assumes "well_declared z c" "typed_services c" "managed c (en_manager en)"
    and "s \<in> set (ic_services c)" "ds_id s \<noteq> []"
    and "text_or source (rs_check result) = Some capability" "capability \<noteq> []"
    and "jget (JObj (rs_metadata result)) ''target_type'' \<noteq> JStr ''device''"
  shows "\<exists>obs. let (answer, en') = process_result x result (ds_id s) source en;
              rt = hm_runtime (en_manager en); rt' = hm_runtime (en_manager en')
         in en_published en' = en_published en @ [obs] \<and>
            answer = (case ec_raises x obs of None \<Rightarrow> Inr obs | Some err \<Rightarrow> Inl err) \<and>
            ob_node obs = ds_node s \<and> ob_service obs = ds_id s \<and> ob_capability obs = capability \<and>
            ob_status obs = reported_health result \<and>
            ob_message obs = (case rs_message result of None \<Rightarrow> [] | Some m \<Rightarrow> m) \<and>
            map_option sr_health (get_service_runtime_by_name (ds_id s) rt') = Some (reported_health result) \<and>
            (\<forall>k. k \<noteq> ds_id s \<longrightarrow> get_service_runtime_by_name k rt' = get_service_runtime_by_name k rt) \<and>
            managed c (en_manager en')"
proof -
  define u where "u = \<lparr>hu_target_name = ds_id s, hu_health = reported_health result, hu_source = capability,
    hu_message = (case rs_message result of None \<Rightarrow> [] | Some m \<Rightarrow> m), hu_timestamp = rs_timestamp result,
    hu_metadata = rs_metadata result\<rparr>"
  define rt where "rt = hm_runtime (en_manager en)"
  define rt' where "rt' = update_found_service (service_named (ds_id s))
    (update_service_health (ec_runtime_now x) (reported_health result)) rt"
  define m' where "m' = snd (record_update (ec_runtime_now x) u (en_manager en))"
  from managed_lookup[OF assms(1-4)] obtain r where r: "get_service_runtime_by_name (ds_id s) rt = Some r"
    unfolding rt_def by metis
  have rec: "record_update (ec_runtime_now x) u (en_manager en) = (True, m')" and hm: "hm_runtime m' = rt'"
    using r by (simp_all add: m'_def record_update_def Let_def apply_to_service_def service_target_def u_def rt_def rt'_def)
  have man: "managed c m'" unfolding m'_def by (rule managed.recorded) (rule assms(3))
  from managed_lookup[OF assms(1,2) man assms(4)] obtain r' nr where r':
    "get_service_runtime_by_name (ds_id s) rt' = Some r'" "sn_name (sr_service r') = ds_id s"
    "get_node_runtime_for_service (sr_service r') rt' = Some nr" "nd_name (nr_node nr) = ds_node s"
    unfolding hm by metis
  define obs where "obs = map_update (ec_new_id x) (ec_now x) u (ds_node s) (ds_id s) capability
    (Some (rs_latency result)) (rs_metadata result)"
  have "map_result result (ds_id s) source = Inr u"
    using assms(5-7) by (cases capability) (simp_all add: map_result_def u_def reported_health_def)
  then have run: "process_result x result (ds_id s) source en = publish_observation x obs (en\<lparr>en_manager := m'\<rparr>)"
    using assms(6-8) rec hm r' by (cases capability)
      (simp_all add: process_result_def process_service_update_def map_service_update_def obs_def u_def)
  have look: "get_service_runtime_by_name k rt' = (if k = ds_id s
      then map_option (update_service_health (ec_runtime_now x) (reported_health result)) (get_service_runtime_by_name k rt)
      else get_service_runtime_by_name k rt)" for k
    unfolding rt'_def by (rule lookup_after_update) (use managed_keys[OF assms(1-3)] rt_def in simp)
  have obs: "ob_node obs = ds_node s" "ob_service obs = ds_id s" "ob_capability obs = capability"
    "ob_status obs = reported_health result" "ob_message obs = (case rs_message result of None \<Rightarrow> [] | Some m \<Rightarrow> m)"
    by (simp_all add: obs_def map_update_def u_def)
  show ?thesis
    by (rule exI[of _ obs])
      (use man look r obs in \<open>simp add: run publish_observation_def hm rt_def update_service_health_def\<close>)
qed


section \<open>A sample document\<close>

definition sample_infrastructure :: "string \<Rightarrow> infrastructure_config" where
  "sample_infrastructure service_type =
     \<lparr>ic_id = ''home'', ic_name = ''Home'', ic_environment = ''production'', ic_version = ''1.0'', ic_tags = [],
      ic_nodes = [\<lparr>nc_id = ''nas'', nc_name = ''NAS'', nc_description = [], nc_endpoint_type = ''ip'',
        nc_endpoint_address = ''10.0.0.2''\<rparr>],
      ic_services = [\<lparr>ds_id = ''resolver'', ds_name = ''Resolver'', ds_type = service_type, ds_node = ''nas'',
        ds_port = Some 53, ds_implementation = None, ds_enabled = True, ds_critical = True, ds_metadata = []\<rparr>],
      ic_topology = None\<rparr>"

lemma sample_declared: "well_declared z (sample_infrastructure t)"
proof -
  have "is_ip_address ''10.0.0.2''" by code_simp
  then show ?thesis
    by (simp add: well_declared_def sample_infrastructure_def node_ok_def service_ok_def)
qed

lemma sample_typed: "typed_services (sample_infrastructure ''dns'')" "\<not> typed_services (sample_infrastructure ''gopher'')"
  by (simp_all add: typed_services_def sample_infrastructure_def service_types_def)

definition sample_call :: engine_call where
  "sample_call = \<lparr>ec_new_id = ''o1'', ec_runtime_now = 2, ec_now = 3, ec_raises = (\<lambda>obs. None)\<rparr>"

definition sample_result :: observer_result where
  "sample_result = \<lparr>rs_success = False, rs_latency = ''4.2'', rs_timestamp = 1, rs_message = Some ''refused'',
     rs_check = Some ''dns.query'', rs_description = None, rs_metadata = [], rs_health = None\<rparr>"

definition sample_engine :: observation_engine where
  "sample_engine = \<lparr>en_manager = \<lparr>hm_runtime = from_infrastructure (infrastructure_of (sample_infrastructure ''dns'')),
     hm_observations = []\<rparr>, en_published = []\<rparr>"

lemma sample_managed: "managed (sample_infrastructure ''dns'') (en_manager sample_engine)"
  using managed.built[OF build_infrastructure_eq[OF sample_declared sample_typed(1)]] by (simp add: sample_engine_def)


theorem check_result_reported_witness:
  "\<exists>obs. en_published (snd (process_result sample_call sample_result ''resolver'' None sample_engine)) = [obs] \<and>
     ob_node obs = ''nas'' \<and> ob_service obs = ''resolver'' \<and> ob_status obs = UNHEALTHY \<and> ob_message obs = ''refused''"
proof -
  have s: "hd (ic_services (sample_infrastructure ''dns'')) \<in> set (ic_services (sample_infrastructure ''dns''))"
    by (simp add: sample_infrastructure_def)
  have "ds_id (hd (ic_services (sample_infrastructure ''dns''))) = ''resolver''"
    "ds_node (hd (ic_services (sample_infrastructure ''dns''))) = ''nas''"
    "text_or None (rs_check sample_result) = Some ''dns.query''"
    "jget (JObj (rs_metadata sample_result)) ''target_type'' \<noteq> JStr ''device''"
    "en_published sample_engine = []" "reported_health sample_result = UNHEALTHY" "rs_message sample_result = Some ''refused''"
    by (simp_all add: sample_infrastructure_def sample_result_def sample_engine_def text_or_def reported_health_def)
  moreover note check_result_reported[where x = sample_call and source = None and result = sample_result and
      capability = "''dns.query''", OF sample_declared sample_typed(1) sample_managed s]
  ultimately show ?thesis
    by (auto simp: Let_def case_prod_unfold)
qed

section \<open>Documents that start\<close>

lemma parse_lenient:
  assumes "\<not> isl (validate_payload z p)"
  shows "\<not> isl (parse_schedule z p False)"
proof (cases p)
  case (JObj kvs)
  then have "parse_schedule z p False = parse_schedule z p True"
    by (simp add: parse_schedule_def)
  then show ?thesis
    using assms by (auto simp: validate_payload_def parse_schedule_def no_schedule_def split: if_splits sum.splits)
qed (simp_all add: parse_schedule_def)

lemma load_devices_ok:
  assumes "list_all (device_ok z c) ds"
  shows "\<exists>r'. load_devices z (map (\<lambda>d. \<lparr>dv_id = Some (td_id d), dv_node = td_node d, dv_metadata = JObj (td_metadata d)\<rparr>) ds) r =
    Inr r'"
  using assms
proof (induction ds arbitrary: r)
  case (Cons d ds)
  then have "\<not> isl (parse_schedule z (jget (JObj (td_metadata d)) ''monitoring_schedule'') False)"
    by (intro parse_lenient) (simp add: device_ok_def)
  with Cons show ?case by (auto simp: isl_def split: sum.splits option.splits)
qed simp

lemma schedules_load:
  assumes "well_declared z c"
  obtains r' where "\<forall>r. replace_from_infrastructure z (schedule_devices c) r = (Inr (), r')"
proof (cases "ic_topology c")
  case None
  then show thesis using that by (simp add: replace_from_infrastructure_def schedule_devices_def)
next
  case (Some t)
  then have "list_all (device_ok z c) (tp_devices t)"
    using assms by (simp add: well_declared_def topology_ok_def)
  from load_devices_ok[OF this, of Map.empty] obtain r' where
    "load_devices z (map (\<lambda>d. \<lparr>dv_id = Some (td_id d), dv_node = td_node d, dv_metadata = JObj (td_metadata d)\<rparr>)
       (tp_devices t)) Map.empty = Inr r'" ..
  then show thesis using that[of r'] Some by (simp add: replace_from_infrastructure_def schedule_devices_def)
qed

lemma build_services_fails:
  "\<not> list_all (\<lambda>s. ds_type s \<in> fst ` set service_types) ss \<Longrightarrow> \<exists>err. build_services i ss nodes = Inl err"
proof (induction ss arbitrary: i nodes)
  case (Cons s ss)
  then show ?case
    by (cases "map_of service_types (ds_type s)")
      (auto simp: map_of_eq_None_iff split: option.splits dest!: map_of_SomeD intro: rev_image_eqI)
qed simp

lemma build_iff_typed:
  assumes "well_declared z c"
  shows "(\<exists>i. build_infrastructure c = Inr i) \<longleftrightarrow> typed_services c"
proof
  assume "\<exists>i. build_infrastructure c = Inr i"
  then obtain nodes nodes' where "build_services 0 (ic_services c) nodes = Inr nodes'"
    by (auto simp: build_infrastructure_def split: sum.splits)
  then show "typed_services c"
    unfolding typed_services_def using build_services_fails[of "ic_services c" 0 nodes] by (metis Inl_Inr_False)
qed (use build_infrastructure_eq[OF assms] in blast)



definition sample_store :: infrastructure_store where
  "sample_store = \<lparr>st_document = sample_infrastructure ''mqtt'', st_engine = sample_engine, st_schedules = Map.empty\<rparr>"

lemma sample_write:
  "fst (write_and_reconfigure z (\<lambda>i. Reconfigured) (sample_infrastructure ''dns'') sample_store) =
     Inr (sample_infrastructure ''dns'')"
proof -
  have "validate_infrastructure z (sample_infrastructure ''dns'') = Inr ()"
    by (rule validate_well_declared[THEN iffD2]) (rule sample_declared)
  moreover from schedules_load[OF sample_declared] obtain r' where
    "\<forall>r. replace_from_infrastructure z (schedule_devices (sample_infrastructure ''dns'')) r = (Inr (), r')" .
  ultimately show ?thesis
    by (simp add: write_and_reconfigure_def write_document_def reconfigure_infrastructure_def
        build_infrastructure_eq[OF sample_declared sample_typed(1)])
qed


text \<open>
  The validator does not look at the type of a service, so a document with an unknown type is
  stored although the request ends with an exception: the live runtime and the schedules stay as they
  were, and the agent does not start any more from the stored document.
\<close>

theorem unknown_type_is_stored:
  assumes "well_declared z c" "\<not> typed_services c"
  shows "\<exists>err. write_and_reconfigure z plugins c st = (Inl err, st\<lparr>st_document := c\<rparr>) \<and>
    start_infrastructure z c = Inl err"
proof -
  from assms obtain err where "build_infrastructure c = Inl err"
    using build_iff_typed by (metis sumE)
  moreover have "validate_infrastructure z c = Inr ()"
    using assms(1) by (simp add: validate_well_declared)
  ultimately show ?thesis
    by (simp add: write_and_reconfigure_def write_document_def reconfigure_infrastructure_def start_infrastructure_def)
qed

theorem unknown_type_is_stored_witness:
  "\<exists>err. write_and_reconfigure (\<lambda>z. True) (\<lambda>i. Reconfigured) (sample_infrastructure ''gopher'') sample_store =
       (Inl err, sample_store\<lparr>st_document := sample_infrastructure ''gopher''\<rparr>) \<and>
     start_infrastructure (\<lambda>z. True) (sample_infrastructure ''gopher'') = Inl err"
  by (rule unknown_type_is_stored[OF sample_declared sample_typed(2)])

text \<open>
  A health update that names a node, where no service has that name and it is no service type,
  changes the health of the node, after which the engine raises ValueError: nothing is published.
\<close>

theorem node_update_not_published:
  assumes "get_node_runtime_by_name (hu_target_name u) (hm_runtime (en_manager en)) = Some nr"
    and "get_service_runtime_by_name (hu_target_name u) (hm_runtime (en_manager en)) = None"
    and "hu_target_name u \<notin> fst ` set service_types"
  shows "\<exists>m en'. process_service_update x u capability latency en = (Inl (ValueError m), en') \<and>
    en_published en' = en_published en \<and>
    map_option nr_health (get_node_runtime_by_name (hu_target_name u) (hm_runtime (en_manager en'))) = Some (hu_health u)"
proof -
  define rt where "rt = hm_runtime (en_manager en)"
  have none: "map_of service_types (hu_target_name u) = None"
    using assms(3) by (simp add: map_of_eq_None_iff)
  define rt' where "rt' = rt\<lparr>ir_node_runtimes := update_first (\<lambda>nr. nd_name (nr_node nr) = hu_target_name u)
    (update_node_health (ec_runtime_now x) (hu_health u)) (ir_node_runtimes rt)\<rparr>"
  have at: "apply_to_node (ec_runtime_now x) u rt = Some rt'"
    using assms(1) by (simp add: apply_to_node_def rt_def rt'_def)
  have rec: "record_update (ec_runtime_now x) u (en_manager en) =
      (True, (en_manager en)\<lparr>hm_observations := hm_observations (en_manager en) @ [u], hm_runtime := rt'\<rparr>)"
    using assms(2) none at by (simp add: record_update_def Let_def apply_to_service_def service_target_def rt_def)
  have "get_service_runtime_by_name (hu_target_name u) rt' = None"
    using assms(2) flat_node_update[OF at] by (simp add: lookup_flat rt_def)
  moreover have "find P (update_first P f xs) = map_option f (find P xs)" if "\<And>y. P (f y) = P y" for P f and xs :: "node_runtime list"
    using that by (induction xs) auto
  from this[of "\<lambda>nr. nd_name (nr_node nr) = hu_target_name u" "update_node_health (ec_runtime_now x) (hu_health u)"]
  have "map_option nr_health (get_node_runtime_by_name (hu_target_name u) rt') = Some (hu_health u)"
    using assms(1) by (simp add: get_node_runtime_by_name_def rt'_def rt_def update_node_health_def)
  ultimately show ?thesis
    using none by (simp add: process_service_update_def rec map_service_update_def)
qed

definition node_update :: health_update where
  "node_update = \<lparr>hu_target_name = ''nas'', hu_health = UNHEALTHY, hu_source = ''ping'', hu_message = ''lost'',
     hu_timestamp = 1, hu_metadata = []\<rparr>"

theorem node_update_not_published_witness:
  "\<exists>m en'. process_service_update sample_call node_update ''ping'' None sample_engine = (Inl (ValueError m), en') \<and>
    en_published en' = [] \<and>
    map_option nr_health (get_node_runtime_by_name ''nas'' (hm_runtime (en_manager en'))) = Some UNHEALTHY"
proof -
  have "hu_target_name node_update = ''nas''" "hu_health node_update = UNHEALTHY" "en_published sample_engine = []"
    "''nas'' \<notin> fst ` set service_types"
    by (simp_all add: node_update_def sample_engine_def service_types_def)
  moreover have "get_node_runtime_by_name ''nas'' (hm_runtime (en_manager sample_engine)) \<noteq> None"
    "get_service_runtime_by_name ''nas'' (hm_runtime (en_manager sample_engine)) = None"
    by (simp_all add: sample_engine_def from_infrastructure_def infrastructure_of_def sample_infrastructure_def from_node_def
        get_node_runtime_by_name_def get_service_runtime_by_name_def node_service_runtime_def services_of_def)
  ultimately show ?thesis
    using node_update_not_published[of node_update sample_engine] by auto
qed

end
