(* ===== verification/Correlation.thy ===== *)
theory Correlation
  imports Incident_Views Infrastructure_Config Samples
begin

text \<open>
  tsunade/incident_correlation.py with its use in tsunade/expertise.py and
  runtime/administration_bootstrap.py: which active incident a symptom is attached to, so that no
  expertise is asked for it while that incident lasts.
\<close>

section \<open>Dependencies\<close>

definition MAXIMUM_DEPENDENCIES :: nat where
  "MAXIMUM_DEPENDENCIES = 8"

text \<open>The alternatives of \<open>_NAME_RESOLUTION_FAILURES\<close>, which has no operator but one class of digits.\<close>

definition NAME_RESOLUTION_FAILURES :: "string list" where
  "NAME_RESOLUTION_FAILURES =
     [''name or service not known'', ''no address associated with hostname'', ''temporary failure in name resolution'',
      ''nodename nor servname'', ''getaddrinfo failed'', ''could not resolve host'',
      ''[errno -2]'', ''[errno -3]'', ''[errno -5]'']"

definition is_name_resolution_failure :: "string \<Rightarrow> bool" where
  "is_name_resolution_failure message =
     (message \<noteq> [] \<and> list_ex (contains (map lower_char message)) NAME_RESOLUTION_FAILURES)"

definition resolves_names :: "declared_service \<Rightarrow> bool" where
  "resolves_names s = (map lower_char (ds_type s) \<in> set [''dns'', ''dhcp''])"

definition name_resolution_providers :: "infrastructure_config \<Rightarrow> string \<Rightarrow> string list" where
  "name_resolution_providers infrastructure service_id =
     take MAXIMUM_DEPENDENCIES
       (map ds_id (filter (\<lambda>s. ds_id s \<noteq> service_id \<and> resolves_names s) (ic_services infrastructure)))"

definition depends_on_of :: "declared_service \<Rightarrow> json list" where
  "depends_on_of s =
     (case jget (JObj (ds_metadata s)) ''depends_on'' of JStr t \<Rightarrow> [JStr t] | JArr xs \<Rightarrow> xs | _ \<Rightarrow> [])"

definition dependency_name :: "string \<Rightarrow> json \<Rightarrow> string option" where
  "dependency_name service_id j =
     (case j of JStr t \<Rightarrow> if strip t = [] \<or> strip t = service_id then None else Some (strip t) | _ \<Rightarrow> None)"

text \<open>\<open>dict.fromkeys\<close> keeps the first of equal names.\<close>

definition declared_dependencies :: "infrastructure_config \<Rightarrow> string \<Rightarrow> string list" where
  "declared_dependencies infrastructure service_id =
     (case find (\<lambda>s. ds_id s = service_id) (ic_services infrastructure) of
        None \<Rightarrow> []
      | Some s \<Rightarrow>
          take MAXIMUM_DEPENDENCIES (rev (remdups (rev (List.map_filter (dependency_name service_id) (depends_on_of s))))))"

text \<open>The links between nodes: for a downstream and an upstream node the reasons, none without a link.\<close>

definition depends_text :: "declared_service \<Rightarrow> declared_service \<Rightarrow> string" where
  "depends_text s u = ds_name s @ '' d'' @ [CHR 0xC3, CHR 0xA9] @ ''pend de '' @ ds_name u"

definition add_link ::
  "infrastructure_config \<Rightarrow> declared_service \<Rightarrow> string \<Rightarrow> (string \<times> string \<Rightarrow> string list) \<Rightarrow> string \<times> string \<Rightarrow> string list" where
  "add_link infrastructure s upstream_id links =
     (case find (\<lambda>u. ds_id u = upstream_id) (rev (ic_services infrastructure)) of
        None \<Rightarrow> links
      | Some u \<Rightarrow>
          if ds_node u = ds_node s \<or> depends_text s u \<in> set (links (ds_node s, ds_node u)) then links
          else links((ds_node s, ds_node u) := links (ds_node s, ds_node u) @ [depends_text s u]))"

definition equipment_dependencies :: "infrastructure_config \<Rightarrow> string \<times> string \<Rightarrow> string list" where
  "equipment_dependencies infrastructure =
     fold (\<lambda>s. fold (add_link infrastructure s) (declared_dependencies infrastructure (ds_id s)))
       (ic_services infrastructure) (\<lambda>link. [])"

section \<open>The upstream incident\<close>

fun earliest :: "incident_view list \<Rightarrow> incident_view option" where
  "earliest [] = None"
| "earliest (v # vs) =
     (case earliest vs of
        None \<Rightarrow> Some v
      | Some w \<Rightarrow> if i_started_at (iv_row v) \<le> i_started_at (iv_row w) then Some v else Some w)"

definition active_upstream_incident :: "incident_view \<Rightarrow> string list \<Rightarrow> incident_view list \<Rightarrow> incident_view option" where
  "active_upstream_incident incident dependencies active_incidents =
     earliest (filter (\<lambda>v. view_state v = ''active'' \<and> i_incident_id (iv_row v) \<noteq> i_incident_id (iv_row incident) \<and>
       i_service_id (iv_row v) \<in> set dependencies) active_incidents)"

definition upstream_dependencies :: "infrastructure_config \<Rightarrow> incident_view \<Rightarrow> string list" where
  "upstream_dependencies infrastructure incident =
     declared_dependencies infrastructure (i_service_id (iv_row incident)) @
     (if is_name_resolution_failure (i_message (iv_row incident))
      then name_resolution_providers infrastructure (i_service_id (iv_row incident)) else [])"

text \<open>
  \<open>_active_upstream\<close>: no reader of the infrastructure, or a list of incidents that cannot be read, is
  no upstream incident. Listing the incidents applies their deadlines.
\<close>

definition active_upstream ::
  "env \<Rightarrow> instant \<Rightarrow> infrastructure_config option \<Rightarrow> incident_view \<Rightarrow> tsdb \<Rightarrow> incident_view option \<times> tsdb" where
  "active_upstream e now infrastructure incident db =
     (case infrastructure of
        None \<Rightarrow> (None, db)
      | Some i \<Rightarrow>
          if upstream_dependencies i incident = [] then (None, db)
          else case list_incidents e now ''active'' 500 db of
                 (Inl err, db1) \<Rightarrow> (None, db1)
               | (Inr views, db1) \<Rightarrow> (active_upstream_incident incident (upstream_dependencies i incident) views, db1))"

definition correlated_upstream_id :: "incident_view \<Rightarrow> string option" where
  "correlated_upstream_id incident =
     (case iv_decision incident of
        None \<Rightarrow> None
      | Some (decision, at') \<Rightarrow>
          if jget decision ''epistemic_status'' \<noteq> JStr ''correlated_with_upstream'' then None
          else case jget decision ''upstream_incident_id'' of JStr k \<Rightarrow> Some k | _ \<Rightarrow> None)"

text \<open>\<open>_upstream_resolved\<close>: whether the expertise that a symptom was spared is to be asked for now.\<close>

definition upstream_resolved :: "env \<Rightarrow> instant \<Rightarrow> incident_view \<Rightarrow> tsdb \<Rightarrow> (error + bool) \<times> tsdb" where
  "upstream_resolved e now incident db =
     (if view_state incident \<noteq> ''active'' then (Inr False, db)
      else case correlated_upstream_id incident of
             None \<Rightarrow> (Inr False, db)
           | Some k \<Rightarrow>
               (case get_incident e now k db of
                  (Inr v, db1) \<Rightarrow> (Inr (view_state v \<noteq> ''active''), db1)
                | (Inl (LookupError m), db1) \<Rightarrow> (Inr True, db1)
                | (Inl err, db1) \<Rightarrow> (Inl err, db1)))"

section \<open>Properties\<close>

lemma earliest_None: "earliest vs = None \<longleftrightarrow> vs = []"
  by (cases vs) (auto split: option.splits)

lemma earliest_Some:
  "earliest vs = Some v \<Longrightarrow> v \<in> set vs \<and> (\<forall>w \<in> set vs. i_started_at (iv_row v) \<le> i_started_at (iv_row w))"
proof (induction vs arbitrary: v)
  case (Cons x vs)
  show ?case
  proof (cases "earliest vs")
    case None
    with Cons.prems show ?thesis by (simp add: earliest_None)
  next
    case (Some w)
    with Cons.prems Cons.IH[OF Some] show ?thesis by (auto split: if_splits)
  qed
qed simp

lemma declared_dependencies_sound:
  assumes "d \<in> set (declared_dependencies infrastructure k)"
  shows "d \<noteq> k \<and> d \<noteq> [] \<and> (\<exists>s \<in> set (ic_services infrastructure). ds_id s = k \<and>
    (\<exists>t. JStr t \<in> set (depends_on_of s) \<and> strip t = d))"
proof -
  from assms obtain s where s: "find (\<lambda>s. ds_id s = k) (ic_services infrastructure) = Some s"
    "d \<in> set (List.map_filter (dependency_name k) (depends_on_of s))"
    by (cases "find (\<lambda>s. ds_id s = k) (ic_services infrastructure)")
      (auto simp: declared_dependencies_def dest!: in_set_takeD)
  then have "s \<in> set (ic_services infrastructure)" "ds_id s = k" by (auto simp: find_Some_iff)
  moreover from s(2) obtain j where j: "j \<in> set (depends_on_of s)" "dependency_name k j = Some d"
    by (auto simp: List.map_filter_def)
  moreover from j(2) obtain t where "j = JStr t" "strip t = d" "d \<noteq> k" "d \<noteq> []"
    by (cases j) (auto simp: dependency_name_def split: if_splits)
  ultimately show ?thesis by blast
qed

lemma declared_dependencies_bounded:
  "length (declared_dependencies infrastructure k) \<le> 8" "distinct (declared_dependencies infrastructure k)"
  by (simp_all add: declared_dependencies_def MAXIMUM_DEPENDENCIES_def split: option.splits)

lemma providers_sound:
  "d \<in> set (name_resolution_providers infrastructure k) \<Longrightarrow>
     d \<noteq> k \<and> (\<exists>s \<in> set (ic_services infrastructure). ds_id s = d \<and> resolves_names s)"
  by (auto simp: name_resolution_providers_def dest!: in_set_takeD)


definition resolver_incident :: incident_row where
  "resolver_incident = \<lparr>i_incident_id = ''i1'', i_node_id = ''n'', i_service_id = ''dns'', i_capability_id = ''dns.resolve'',
     i_equipment_id = ''n'', i_severity = Critical, i_started_at = 100, i_last_observed_at = 100, i_ended_at = None,
     i_last_observation_id = ''o1'', i_message = ''ko'', i_occurrence_count = 1, i_recurrence_count = 0,
     i_context = JObj [], i_final_result = None\<rparr>"

definition symptom :: incident_view where
  "symptom = \<lparr>iv_row = resolver_incident\<lparr>i_incident_id := ''i2'', i_service_id := ''mqtt'', i_message := ''getaddrinfo failed''\<rparr>,
     iv_workflow_state = ''new'', iv_expertise_state = ''none'', iv_decision = None, iv_events = [], iv_repairs = [],
     iv_manual_actions = [], iv_followup = None\<rparr>"

definition resolver_network :: infrastructure_config where
  "resolver_network =
     \<lparr>ic_id = ''home'', ic_name = ''Home'', ic_environment = ''production'', ic_version = ''1.0'', ic_tags = [], ic_nodes = [],
      ic_services = [\<lparr>ds_id = ''dns'', ds_name = ''DNS'', ds_type = ''dns'', ds_node = ''n'', ds_port = None,
        ds_implementation = None, ds_enabled = True, ds_critical = False, ds_metadata = []\<rparr>],
      ic_topology = None\<rparr>"

definition resolver_db :: tsdb where
  "resolver_db = empty_tsdb\<lparr>ts_incidents := [resolver_incident]\<rparr>"

lemma resolver_listed:
  "case fst (list_incidents demo_env 200 ''active'' 500 resolver_db) of
     Inr views \<Rightarrow> map (\<lambda>v. (view_state v, i_incident_id (iv_row v), i_service_id (iv_row v))) views = [(''active'', ''i1'', ''dns'')]
   | Inl err \<Rightarrow> False"
  by code_simp

lemma symptom_depends: "upstream_dependencies resolver_network symptom = [''dns'']"
  by code_simp


text \<open>
  Two services that resolve names, when each fails because a name does not resolve, are attached to
  each other: neither gets the expertise that the other is spared.
\<close>

lemma resolvers_attached_to_each_other:
  assumes "set (map ds_id (ic_services i)) = {j, k}" "length (ic_services i) = 2" "j \<noteq> k"
    and "list_all resolves_names (ic_services i)"
    and "i_service_id (iv_row v) = j" "i_service_id (iv_row w) = k" "i_incident_id (iv_row v) \<noteq> i_incident_id (iv_row w)"
    and "view_state v = ''active''" "view_state w = ''active''"
    and "is_name_resolution_failure (i_message (iv_row v))" "is_name_resolution_failure (i_message (iv_row w))"
  shows "active_upstream_incident v (upstream_dependencies i v) [v, w] = Some w"
    "active_upstream_incident w (upstream_dependencies i w) [v, w] = Some v"
proof -
  have "k \<in> set (name_resolution_providers i j)" "j \<in> set (name_resolution_providers i k)"
    using assms(1-4) by (auto simp: name_resolution_providers_def MAXIMUM_DEPENDENCIES_def list_all_iff
        numeral_2_eq_2 length_Suc_conv)
  then have "k \<in> set (upstream_dependencies i v)" "j \<in> set (upstream_dependencies i w)"
    using assms(5,6,10,11) by (simp_all add: upstream_dependencies_def)
  with assms show "active_upstream_incident v (upstream_dependencies i v) [v, w] = Some w"
    "active_upstream_incident w (upstream_dependencies i w) [v, w] = Some v"
    by (auto simp: active_upstream_incident_def)
qed

end
