(* ===== verification/Companions.thy ===== *)
theory Companions
  imports Pairings Job_Models Py_Repr
begin

text \<open>
  companions/repository.py, \<open>CompanionRepository\<close>: the pairing of personal companion applications, their
  revocable credentials and the push tokens bound to them. The random values (pairing id, polling
  secret, verification code, token) are arguments. The repository stores UTC times as ISO texts,
  all with the same offset, so comparing the texts is comparing the instants.
\<close>

section \<open>Documents\<close>

definition device_id_pattern :: "string \<Rightarrow> bool" where
  "device_id_pattern s =
     (sized 8 80 s \<and> list_all (\<lambda>c. digit c \<or> lower_case c \<or> upper_case c \<or> c \<in> set ''_.:-'') s)"

definition companion_pairing_request :: validator where
  "companion_pairing_request =
     model [defaults ''protocol_version'' (JInt 1) (literal [JInt 1]),
       required ''device_id'' (str_field device_id_pattern), required ''device_name'' (str_field (sized 1 80)),
       defaults ''platform'' (JStr ''ios'') (literal [JStr ''ios'']),
       required ''app_version'' (str_field (sized 1 40))] (\<lambda>j. True)"

definition companion_pairing_poll :: validator where
  "companion_pairing_poll =
     model [defaults ''protocol_version'' (JInt 1) (literal [JInt 1]),
       required ''polling_secret'' (str_field (sized 32 128))] (\<lambda>j. True)"

definition push_token_pattern :: "string \<Rightarrow> bool" where
  "push_token_pattern s = (sized 32 512 s \<and> list_all (\<lambda>c. c \<in> set ''0123456789ABCDEFabcdef'') s)"

definition companion_push_registration :: "env \<Rightarrow> validator" where
  "companion_push_registration e =
     model [defaults ''protocol_version'' (JInt 1) (literal [JInt 1]),
       defaults ''enabled'' (JBool True) (bool_field e),
       defaults ''device_token'' JNull (optional (str_field push_token_pattern)),
       defaults ''environment'' (JStr ''production'') (literal [JStr ''development'', JStr ''production''])] (\<lambda>j. True)"

definition invalid_document :: error where
  "invalid_document = ValueError ''validation error''"

section \<open>Tables\<close>

record companion_pairing =
  cp_pairing_id :: string
  cp_device_id :: string
  cp_device_name :: string
  cp_platform :: string
  cp_app_version :: string
  cp_polling_secret_sha256 :: string
  cp_verification_code :: string
  cp_tls_ca_sha256 :: string
  cp_status :: pairing_status
  cp_created_at :: instant
  cp_expires_at :: instant
  cp_approved_at :: "instant option"
  cp_consumed_at :: "instant option"

record companion_credential =
  cr_device_id :: string
  cr_device_name :: string
  cr_platform :: string
  cr_app_version :: string
  cr_token_sha256 :: string
  cr_created_at :: instant
  cr_expires_at :: instant
  cr_last_seen_at :: "instant option"
  cr_revoked_at :: "instant option"

record companion_push_token =
  pu_device_id :: string
  pu_device_token :: "string option"
  pu_environment :: string
  pu_enabled :: bool
  pu_updated_at :: instant

record companion_db =
  cb_pairings :: "companion_pairing list"
  cb_credentials :: "companion_credential list"
  cb_push_tokens :: "companion_push_token list"

definition empty_companions :: companion_db where
  "empty_companions = \<lparr>cb_pairings = [], cb_credentials = [], cb_push_tokens = []\<rparr>"

record companion_settings =
  cs_pairing_ttl_seconds :: int
  cs_credential_ttl_days :: int
  cs_max_pending_pairings :: int

definition default_companion_settings :: companion_settings where
  "default_companion_settings =
     \<lparr>cs_pairing_ttl_seconds = 600, cs_credential_ttl_days = 90, cs_max_pending_pairings = 10\<rparr>"

text \<open>
  The result of an operation and the committed tables: \<open>with self._connection\<close> rolls back when the
  block raises.
\<close>

type_synonym 'a companion_result = "(error + 'a) \<times> companion_db"

definition select_companion_pairing :: "string \<Rightarrow> companion_db \<Rightarrow> companion_pairing option" where
  "select_companion_pairing pairing_id db = tbl_find cp_pairing_id pairing_id (cb_pairings db)"

definition update_companion_pairing ::
  "string \<Rightarrow> (companion_pairing \<Rightarrow> companion_pairing) \<Rightarrow> companion_db \<Rightarrow> companion_db" where
  "update_companion_pairing pairing_id f db = db\<lparr>cb_pairings := tbl_update cp_pairing_id pairing_id f (cb_pairings db)\<rparr>"

interpretation cpt: keyed_store cb_pairings cp_pairing_id select_companion_pairing update_companion_pairing
  by unfold_locales (simp_all add: select_companion_pairing_def update_companion_pairing_def)

definition select_credential :: "string \<Rightarrow> companion_db \<Rightarrow> companion_credential option" where
  "select_credential device_id db = tbl_find cr_device_id device_id (cb_credentials db)"

definition update_credential ::
  "string \<Rightarrow> (companion_credential \<Rightarrow> companion_credential) \<Rightarrow> companion_db \<Rightarrow> companion_db" where
  "update_credential device_id f db = db\<lparr>cb_credentials := tbl_update cr_device_id device_id f (cb_credentials db)\<rparr>"

interpretation cct: keyed_store cb_credentials cr_device_id select_credential update_credential
  by unfold_locales (simp_all add: select_credential_def update_credential_def)

definition select_push :: "string \<Rightarrow> companion_db \<Rightarrow> companion_push_token option" where
  "select_push device_id db = tbl_find pu_device_id device_id (cb_push_tokens db)"

definition update_push ::
  "string \<Rightarrow> (companion_push_token \<Rightarrow> companion_push_token) \<Rightarrow> companion_db \<Rightarrow> companion_db" where
  "update_push device_id f db = db\<lparr>cb_push_tokens := tbl_update pu_device_id device_id f (cb_push_tokens db)\<rparr>"

interpretation cpu: keyed_store cb_push_tokens pu_device_id select_push update_push
  by unfold_locales (simp_all add: select_push_def update_push_def)

definition required_pairing :: "string \<Rightarrow> companion_db \<Rightarrow> error + companion_pairing" where
  "required_pairing pairing_id db =
     (case select_companion_pairing pairing_id db of
        None \<Rightarrow> Inl (LookupError ''Association Shizune inconnue'') | Some row \<Rightarrow> Inr row)"

definition required_device :: "string \<Rightarrow> companion_db \<Rightarrow> error + companion_credential" where
  "required_device device_id db =
     (case select_credential device_id db of
        None \<Rightarrow> Inl (LookupError ''Appareil Shizune inconnu'') | Some row \<Rightarrow> Inr row)"

definition awaiting :: "companion_pairing \<Rightarrow> bool" where
  "awaiting p = (cp_status p = PENDING \<or> cp_status p = APPROVED)"

definition expire_companion :: "instant \<Rightarrow> companion_pairing \<Rightarrow> companion_pairing" where
  "expire_companion now p = (if awaiting p \<and> cp_expires_at p \<le> now then p\<lparr>cp_status := EXPIRED\<rparr> else p)"

definition expire_companion_pairings :: "instant \<Rightarrow> companion_db \<Rightarrow> companion_db" where
  "expire_companion_pairings now db = db\<lparr>cb_pairings := map (expire_companion now) (cb_pairings db)\<rparr>"

section \<open>Pairing\<close>

record companion_pairing_created =
  cd_pairing_id :: string
  cd_polling_secret :: string
  cd_verification_code :: string
  cd_expires_at :: instant
  cd_tls_ca_sha256 :: string
  cd_tls_ca_certificate_pem :: string

text \<open>Random codes are drawn from this alphabet; the secrets are long enough for the document.\<close>

definition COMPANION_ALPHABET :: string where
  "COMPANION_ALPHABET = ''23456789ABCDEFGHJKLMNPQRSTUVWXYZ''"

definition txt_pairing_active :: string where
  "txt_pairing_active = ''Une demande d'' @ [CHR 0xE2, CHR 0x80, CHR 0x99] @ ''association est d'' @ [CHR 0xC3, CHR 0xA9] @
     ''j'' @ [CHR 0xC3, CHR 0xA0] @ '' active pour cet appareil''"

definition txt_pairing_full :: string where
  "txt_pairing_full = ''La file d'' @ [CHR 0xE2, CHR 0x80, CHR 0x99] @ ''association Shizune est pleine''"

definition from_state :: "string \<Rightarrow> pairing_status \<Rightarrow> string" where
  "from_state what s =
     what @ '' impossible depuis l'' @ [CHR 0xE2, CHR 0x80, CHR 0x99, CHR 0xC3, CHR 0xA9] @ ''tat '' @ pairing_status_value s"

definition new_companion_pairing ::
  "env \<Rightarrow> companion_settings \<Rightarrow> instant \<Rightarrow> json \<Rightarrow> string \<Rightarrow> string \<Rightarrow> string \<Rightarrow> string \<Rightarrow> companion_pairing" where
  "new_companion_pairing e cfg now request pairing_id polling_secret code tls_ca_sha256 =
     \<lparr>cp_pairing_id = pairing_id, cp_device_id = jtext (jget request ''device_id''),
      cp_device_name = jtext (jget request ''device_name''), cp_platform = jtext (jget request ''platform''),
      cp_app_version = jtext (jget request ''app_version''),
      cp_polling_secret_sha256 = secret_digest e polling_secret,
      cp_verification_code = take 4 code @ ''-'' @ drop 4 code, cp_tls_ca_sha256 = tls_ca_sha256,
      cp_status = PENDING, cp_created_at = now, cp_expires_at = now + seconds (cs_pairing_ttl_seconds cfg),
      cp_approved_at = None, cp_consumed_at = None\<rparr>"

text \<open>The answer is built, and its fields are validated, after the commit.\<close>

definition created_answer :: "companion_pairing \<Rightarrow> string \<Rightarrow> string \<Rightarrow> error + companion_pairing_created" where
  "created_answer p polling_secret pem =
     (if sha256_pattern (trim (cp_tls_ca_sha256 p)) \<and> sized 64 16384 (trim pem)
      then Inr \<lparr>cd_pairing_id = cp_pairing_id p, cd_polling_secret = polling_secret,
             cd_verification_code = cp_verification_code p, cd_expires_at = cp_expires_at p,
             cd_tls_ca_sha256 = trim (cp_tls_ca_sha256 p), cd_tls_ca_certificate_pem = trim pem\<rparr>
      else Inl invalid_document)"

definition create_companion_pairing ::
  "env \<Rightarrow> companion_settings \<Rightarrow> instant \<Rightarrow> json \<Rightarrow> string \<Rightarrow> string \<Rightarrow> string \<Rightarrow> string \<Rightarrow> string \<Rightarrow> companion_db \<Rightarrow>
     companion_pairing_created companion_result" where
  "create_companion_pairing e cfg now payload pairing_id polling_secret code tls_ca_sha256 pem db =
     (case companion_pairing_request payload of
        None \<Rightarrow> (Inl invalid_document, db)
      | Some request \<Rightarrow>
          let db1 = expire_companion_pairings now db
          in if \<exists>p \<in> set (cb_pairings db1). cp_device_id p = jtext (jget request ''device_id'') \<and> awaiting p
               then (Inl (ConflictError txt_pairing_active), db)
             else if int (length (filter awaiting (cb_pairings db1))) \<ge> cs_max_pending_pairings cfg
               then (Inl (ValueError txt_pairing_full), db)
             else if select_companion_pairing pairing_id db1 \<noteq> None
               then (Inl (RuntimeError ''UNIQUE constraint failed: companion_pairings.pairing_id''), db)
             else
               let p = new_companion_pairing e cfg now request pairing_id polling_secret code tls_ca_sha256
               in (created_answer p polling_secret pem, db1\<lparr>cb_pairings := cb_pairings db1 @ [p]\<rparr>))"

record companion_pairing_document =
  cv_pairing_id :: string
  cv_device_id :: string
  cv_device_name :: string
  cv_platform :: string
  cv_app_version :: string
  cv_verification_code :: string
  cv_tls_ca_sha256 :: string
  cv_status :: pairing_status
  cv_created_at :: instant
  cv_expires_at :: instant

definition companion_pairing_document_of :: "companion_pairing \<Rightarrow> companion_pairing_document" where
  "companion_pairing_document_of p =
     \<lparr>cv_pairing_id = cp_pairing_id p, cv_device_id = cp_device_id p, cv_device_name = cp_device_name p,
      cv_platform = cp_platform p, cv_app_version = cp_app_version p, cv_verification_code = cp_verification_code p,
      cv_tls_ca_sha256 = cp_tls_ca_sha256 p, cv_status = cp_status p, cv_created_at = cp_created_at p,
      cv_expires_at = cp_expires_at p\<rparr>"

definition list_companion_pairings :: "instant \<Rightarrow> companion_db \<Rightarrow> companion_pairing_document list companion_result" where
  "list_companion_pairings now db =
     (let db1 = expire_companion_pairings now db
      in (Inr (map companion_pairing_document_of (take 100 (order_desc cp_created_at (cb_pairings db1)))), db1))"

definition after_update :: "string \<Rightarrow> companion_db \<Rightarrow> companion_pairing_document companion_result" where
  "after_update pairing_id db =
     (map_sum id companion_pairing_document_of (required_pairing pairing_id db), db)"

definition approve_companion :: "instant \<Rightarrow> string \<Rightarrow> companion_db \<Rightarrow> companion_pairing_document companion_result" where
  "approve_companion now pairing_id db =
     (let db1 = expire_companion_pairings now db
      in case required_pairing pairing_id db1 of
           Inl err \<Rightarrow> (Inl err, db)
         | Inr row \<Rightarrow>
             if cp_status row = APPROVED then (Inr (companion_pairing_document_of row), db1)
             else if cp_status row \<noteq> PENDING then (Inl (ConflictError (from_state ''Association'' (cp_status row))), db)
             else after_update pairing_id (update_companion_pairing pairing_id
                    (\<lambda>p. p\<lparr>cp_status := APPROVED, cp_approved_at := Some now\<rparr>) db1))"

definition reject_companion :: "instant \<Rightarrow> string \<Rightarrow> companion_db \<Rightarrow> companion_pairing_document companion_result" where
  "reject_companion now pairing_id db =
     (let db1 = expire_companion_pairings now db
      in case required_pairing pairing_id db1 of
           Inl err \<Rightarrow> (Inl err, db)
         | Inr row \<Rightarrow>
             if cp_status row = REJECTED then (Inr (companion_pairing_document_of row), db1)
             else if \<not> awaiting row then (Inl (ConflictError (from_state ''Rejet'' (cp_status row))), db)
             else after_update pairing_id (update_companion_pairing pairing_id (\<lambda>p. p\<lparr>cp_status := REJECTED\<rparr>) db1))"

record companion_pairing_result =
  ct_pairing_id :: string
  ct_status :: pairing_status
  ct_expires_at :: instant
  ct_companion_token :: "string option"
  ct_token_expires_at :: "instant option"

definition new_credential :: "env \<Rightarrow> companion_settings \<Rightarrow> instant \<Rightarrow> companion_pairing \<Rightarrow> string \<Rightarrow> companion_credential" where
  "new_credential e cfg now p token =
     \<lparr>cr_device_id = cp_device_id p, cr_device_name = cp_device_name p, cr_platform = cp_platform p,
      cr_app_version = cp_app_version p, cr_token_sha256 = secret_digest e token, cr_created_at = now,
      cr_expires_at = now + days (cs_credential_ttl_days cfg), cr_last_seen_at = None, cr_revoked_at = None\<rparr>"

text \<open>\<open>INSERT ... ON CONFLICT(device_id) DO UPDATE\<close>\<close>

definition put_companion_credential :: "companion_credential \<Rightarrow> companion_db \<Rightarrow> companion_db" where
  "put_companion_credential c db =
     (if select_credential (cr_device_id c) db = None
      then db\<lparr>cb_credentials := cb_credentials db @ [c]\<rparr>
      else update_credential (cr_device_id c) (\<lambda>r. c) db)"

definition poll_companion ::
  "env \<Rightarrow> companion_settings \<Rightarrow> instant \<Rightarrow> string \<Rightarrow> json \<Rightarrow> string \<Rightarrow> companion_db \<Rightarrow>
     companion_pairing_result companion_result" where
  "poll_companion e cfg now pairing_id payload fresh_token db =
     (case companion_pairing_poll payload of
        None \<Rightarrow> (Inl invalid_document, db)
      | Some poll \<Rightarrow>
          let db1 = expire_companion_pairings now db
          in case required_pairing pairing_id db1 of
               Inl err \<Rightarrow> (Inl err, db)
             | Inr row \<Rightarrow>
                 if cp_polling_secret_sha256 row \<noteq> secret_digest e (jtext (jget poll ''polling_secret''))
                   then (Inl (LookupError ''Association Shizune inconnue''), db)
                 else if cp_status row = APPROVED then
                   let db2 = update_companion_pairing pairing_id
                               (\<lambda>p. p\<lparr>cp_status := CONSUMED, cp_consumed_at := Some now\<rparr>)
                               (put_companion_credential (new_credential e cfg now row fresh_token) db1)
                   in (Inr \<lparr>ct_pairing_id = cp_pairing_id row, ct_status = CONSUMED, ct_expires_at = cp_expires_at row,
                          ct_companion_token = Some fresh_token,
                          ct_token_expires_at = Some (now + days (cs_credential_ttl_days cfg))\<rparr>, db2)
                 else (Inr \<lparr>ct_pairing_id = cp_pairing_id row, ct_status = cp_status row,
                         ct_expires_at = cp_expires_at row, ct_companion_token = None,
                         ct_token_expires_at = None\<rparr>, db1))"

section \<open>Sessions\<close>

definition authorize_companion :: "env \<Rightarrow> instant \<Rightarrow> string \<Rightarrow> string \<Rightarrow> companion_db \<Rightarrow> bool \<times> companion_db" where
  "authorize_companion e now device_id token db =
     (case tbl_find cr_device_id device_id (filter (\<lambda>c. cr_revoked_at c = None) (cb_credentials db)) of
        None \<Rightarrow> (False, db)
      | Some c \<Rightarrow>
          if cr_expires_at c \<le> now \<or> cr_token_sha256 c \<noteq> secret_digest e token then (False, db)
          else (True, update_credential device_id (\<lambda>r. r\<lparr>cr_last_seen_at := Some now\<rparr>) db))"

text \<open>The document of a device is its row without the digest; the times it shows in Paris time are the same instants.\<close>

record companion_device_document =
  cw_device_id :: string
  cw_device_name :: string
  cw_platform :: string
  cw_app_version :: string
  cw_created_at :: instant
  cw_expires_at :: instant
  cw_last_seen_at :: "instant option"
  cw_revoked_at :: "instant option"

definition companion_device_document_of :: "companion_credential \<Rightarrow> companion_device_document" where
  "companion_device_document_of c =
     \<lparr>cw_device_id = cr_device_id c, cw_device_name = cr_device_name c, cw_platform = cr_platform c,
      cw_app_version = cr_app_version c, cw_created_at = cr_created_at c, cw_expires_at = cr_expires_at c,
      cw_last_seen_at = cr_last_seen_at c, cw_revoked_at = cr_revoked_at c\<rparr>"

definition list_companions :: "companion_db \<Rightarrow> companion_device_document list" where
  "list_companions db = map companion_device_document_of (take 100 (order_desc cr_created_at (cb_credentials db)))"

definition disable_push_token :: "string \<Rightarrow> companion_db \<Rightarrow> companion_db" where
  "disable_push_token device_id db = update_push device_id (\<lambda>r. r\<lparr>pu_enabled := False\<rparr>) db"

definition revoke_companion :: "instant \<Rightarrow> string \<Rightarrow> companion_db \<Rightarrow> companion_device_document companion_result" where
  "revoke_companion now device_id db =
     (case required_device device_id db of
        Inl err \<Rightarrow> (Inl err, db)
      | Inr row \<Rightarrow>
          let db1 = (if cr_revoked_at row = None
                     then disable_push_token device_id
                            (update_credential device_id (\<lambda>r. r\<lparr>cr_revoked_at := Some now\<rparr>) db)
                     else db)
          in (map_sum id companion_device_document_of (required_device device_id db1), db1))"

section \<open>Push tokens\<close>

definition txt_token_required :: string where
  "txt_token_required = ''Un jeton APNs est requis pour activer les notifications''"

definition txt_session_revoked :: string where
  "txt_session_revoked = ''La session Shizune est r'' @ [CHR 0xC3, CHR 0xA9] @ ''voqu'' @ [CHR 0xC3, CHR 0xA9] @ ''e''"

definition put_push :: "companion_push_token \<Rightarrow> companion_db \<Rightarrow> companion_db" where
  "put_push p db =
     (if select_push (pu_device_id p) db = None then db\<lparr>cb_push_tokens := cb_push_tokens db @ [p]\<rparr>
      else update_push (pu_device_id p) (\<lambda>r. p) db)"

definition lowered_token :: "json \<Rightarrow> string option" where
  "lowered_token v = (case v of JStr s \<Rightarrow> if s = [] then None else Some (map lower_char s) | _ \<Rightarrow> None)"

definition push_answer :: "(instant \<Rightarrow> string) \<Rightarrow> instant \<Rightarrow> json \<Rightarrow> json" where
  "push_answer isoformat now request =
     JObj [(''schema_version'', JInt 1), (''enabled'', jget request ''enabled''),
       (''environment'', jget request ''environment''), (''updated_at'', JStr (isoformat now))]"

definition register_push_token ::
  "env \<Rightarrow> (instant \<Rightarrow> string) \<Rightarrow> instant \<Rightarrow> string \<Rightarrow> json \<Rightarrow> companion_db \<Rightarrow> json companion_result" where
  "register_push_token e isoformat now device_id payload db =
     (case companion_push_registration e payload of
        None \<Rightarrow> (Inl invalid_document, db)
      | Some request \<Rightarrow>
          if jget request ''enabled'' = JBool True \<and> jget request ''device_token'' = JNull
            then (Inl (ValueError txt_token_required), db)
          else case required_device device_id db of
                 Inl err \<Rightarrow> (Inl err, db)
               | Inr c \<Rightarrow>
                   if cr_revoked_at c \<noteq> None then (Inl (ConflictError txt_session_revoked), db)
                   else (Inr (push_answer isoformat now request),
                         put_push \<lparr>pu_device_id = device_id, pu_device_token = lowered_token (jget request ''device_token''),
                           pu_environment = jtext (jget request ''environment''),
                           pu_enabled = (jget request ''enabled'' = JBool True), pu_updated_at = now\<rparr> db))"

text \<open>The JOIN: a push token and the credential of its device, in the order of the push tokens.\<close>

definition push_targets :: "instant \<Rightarrow> string \<Rightarrow> companion_db \<Rightarrow> (string \<times> string) list" where
  "push_targets now environment db =
     [(pu_device_id p, the (pu_device_token p)).
        p \<leftarrow> cb_push_tokens db, c \<leftarrow> cb_credentials db,
        cr_device_id c = pu_device_id p \<and> pu_enabled p \<and> pu_environment p = environment \<and>
        pu_device_token p \<noteq> None \<and> cr_revoked_at c = None \<and> now < cr_expires_at c]"

end
