(* ===== verification/Companion_Properties.thy ===== *)
theory Companion_Properties
  imports Companions Samples
begin

text \<open>
  Who a companion session belongs to, over every history of calls: an authorised token was issued by
  a poll that knew the secret of an approved pairing of that device, and it ends with its revocation.
\<close>

section \<open>Histories\<close>

datatype companion_call =
    CreatePairing instant json string string string string string
  | ListPairings instant
  | ApprovePairing instant string
  | RejectPairing instant string
  | PollPairing instant string json string
  | AuthorizeDevice instant string string
  | RevokeDevice instant string
  | RegisterPush instant string json
  | DisablePush string

fun after_call :: "env \<Rightarrow> companion_settings \<Rightarrow> (instant \<Rightarrow> string) \<Rightarrow> companion_call \<Rightarrow> companion_db \<Rightarrow> companion_db" where
  "after_call e cfg isoformat (CreatePairing now payload i s c sha pem) db =
     snd (create_companion_pairing e cfg now payload i s c sha pem db)"
| "after_call e cfg isoformat (ListPairings now) db = snd (list_companion_pairings now db)"
| "after_call e cfg isoformat (ApprovePairing now i) db = snd (approve_companion now i db)"
| "after_call e cfg isoformat (RejectPairing now i) db = snd (reject_companion now i db)"
| "after_call e cfg isoformat (PollPairing now i payload t) db = snd (poll_companion e cfg now i payload t db)"
| "after_call e cfg isoformat (AuthorizeDevice now d t) db = snd (authorize_companion e now d t db)"
| "after_call e cfg isoformat (RevokeDevice now d) db = snd (revoke_companion now d db)"
| "after_call e cfg isoformat (RegisterPush now d payload) db = snd (register_push_token e isoformat now d payload db)"
| "after_call e cfg isoformat (DisablePush d) db = disable_push_token d db"

definition after_calls ::
  "env \<Rightarrow> companion_settings \<Rightarrow> (instant \<Rightarrow> string) \<Rightarrow> companion_call list \<Rightarrow> companion_db" where
  "after_calls e cfg isoformat calls = fold (after_call e cfg isoformat) calls empty_companions"

section \<open>What a row says of the history\<close>

definition requested :: "env \<Rightarrow> companion_call list \<Rightarrow> string \<Rightarrow> string \<Rightarrow> string \<Rightarrow> bool" where
  "requested e h pairing_id device_id secret_sha =
     (\<exists>now payload request s c sha pem.
        CreatePairing now payload pairing_id s c sha pem \<in> set h \<and> companion_pairing_request payload = Some request \<and>
        jtext (jget request ''device_id'') = device_id \<and> secret_digest e s = secret_sha)"

definition approved :: "companion_call list \<Rightarrow> string \<Rightarrow> bool" where
  "approved h pairing_id = (\<exists>now. ApprovePairing now pairing_id \<in> set h)"

definition pairing_earned :: "env \<Rightarrow> companion_call list \<Rightarrow> companion_pairing \<Rightarrow> bool" where
  "pairing_earned e h p =
     (requested e h (cp_pairing_id p) (cp_device_id p) (cp_polling_secret_sha256 p) \<and>
      (cp_status p = APPROVED \<longrightarrow> approved h (cp_pairing_id p)))"

text \<open>
  A session of a device that ends at \<open>expiry\<close>: a poll of an approved pairing of the device, by who
  knows the secret of its request, that issued a token with this digest and was not followed by a
  revocation of the device.
\<close>

definition issued :: "env \<Rightarrow> companion_settings \<Rightarrow> companion_call list \<Rightarrow> string \<Rightarrow> string \<Rightarrow> instant \<Rightarrow> bool" where
  "issued e cfg h device_id token_sha expiry =
     (\<exists>earlier now pairing_id payload poll token later.
        h = earlier @ PollPairing now pairing_id payload token # later \<and>
        companion_pairing_poll payload = Some poll \<and>
        requested e earlier pairing_id device_id (secret_digest e (jtext (jget poll ''polling_secret''))) \<and>
        approved earlier pairing_id \<and>
        secret_digest e token = token_sha \<and> expiry = now + days (cs_credential_ttl_days cfg) \<and>
        (\<forall>t. RevokeDevice t device_id \<notin> set later))"

definition credential_earned :: "env \<Rightarrow> companion_settings \<Rightarrow> companion_call list \<Rightarrow> companion_credential \<Rightarrow> bool" where
  "credential_earned e cfg h c =
     (cr_revoked_at c = None \<longrightarrow> issued e cfg h (cr_device_id c) (cr_token_sha256 c) (cr_expires_at c))"

definition earned :: "env \<Rightarrow> companion_settings \<Rightarrow> companion_call list \<Rightarrow> companion_db \<Rightarrow> bool" where
  "earned e cfg h db =
     ((\<forall>p \<in> set (cb_pairings db). pairing_earned e h p) \<and> (\<forall>c \<in> set (cb_credentials db). credential_earned e cfg h c) \<and>
      distinct (map cr_device_id (cb_credentials db)))"

lemma requested_mono: "requested e h i d s \<Longrightarrow> requested e (h @ g) i d s"
  by (auto simp: requested_def) blast

lemma approved_mono: "approved h i \<Longrightarrow> approved (h @ g) i"
  by (auto simp: approved_def)

lemma pairing_earned_mono: "pairing_earned e h p \<Longrightarrow> pairing_earned e (h @ g) p"
  by (auto simp: pairing_earned_def requested_mono approved_mono)

lemma issued_mono:
  assumes "issued e cfg h d s x" "\<And>t. k \<noteq> RevokeDevice t d"
  shows "issued e cfg (h @ [k]) d s x"
proof -
  from assms(1) obtain earlier now i payload poll token later where
    "h = earlier @ PollPairing now i payload token # later" "companion_pairing_poll payload = Some poll"
    "requested e earlier i d (secret_digest e (jtext (jget poll ''polling_secret'')))" "approved earlier i"
    "secret_digest e token = s" "x = now + days (cs_credential_ttl_days cfg)" "\<forall>t. RevokeDevice t d \<notin> set later"
    unfolding issued_def by blast
  then have "h @ [k] = earlier @ PollPairing now i payload token # (later @ [k])"
    "\<forall>t. RevokeDevice t d \<notin> set (later @ [k])"
    using assms(2) by (auto simp: eq_commute)
  then show ?thesis
    unfolding issued_def using \<open>companion_pairing_poll payload = Some poll\<close> \<open>approved earlier i\<close>
      \<open>requested e earlier i d (secret_digest e (jtext (jget poll ''polling_secret'')))\<close>
      \<open>secret_digest e token = s\<close> \<open>x = now + days (cs_credential_ttl_days cfg)\<close> by blast
qed

lemma expire_companion_simps [simp]:
  "cp_pairing_id (expire_companion now p) = cp_pairing_id p" "cp_device_id (expire_companion now p) = cp_device_id p"
  "cp_polling_secret_sha256 (expire_companion now p) = cp_polling_secret_sha256 p"
  by (simp_all add: expire_companion_def)

lemma expire_status: "cp_status (expire_companion now p) = s \<Longrightarrow> s \<noteq> EXPIRED \<Longrightarrow> cp_status p = s"
  by (auto simp: expire_companion_def split: if_splits)

lemma earned_expire: "earned e cfg h db \<Longrightarrow> earned e cfg h (expire_companion_pairings now db)"
  by (auto simp: earned_def expire_companion_pairings_def pairing_earned_def dest: expire_status)

lemma required_pairing_Inr: "required_pairing i db = Inr p \<longleftrightarrow> select_companion_pairing i db = Some p"
  by (auto simp: required_pairing_def split: option.splits)

lemma required_device_Inr: "required_device i db = Inr p \<longleftrightarrow> select_credential i db = Some p"
  by (auto simp: required_device_def split: option.splits)

text \<open>A call that keeps the credentials, and the pairings up to the rows it may add or change.\<close>

lemma earned_call:
  assumes "earned e cfg h db" "\<And>t d. k \<noteq> RevokeDevice t d" "cb_credentials db' = cb_credentials db"
    and "\<And>p. p \<in> set (cb_pairings db') \<Longrightarrow> pairing_earned e (h @ [k]) p"
  shows "earned e cfg (h @ [k]) db'"
  using assms by (auto simp: earned_def credential_earned_def intro!: issued_mono)


lemma earned_found:
  assumes "earned e cfg h db" "required_pairing i (expire_companion_pairings now db) = Inr row"
  shows "pairing_earned e h row" "cp_pairing_id row = i"
  using earned_expire[OF assms(1), of now] assms(2) cpt.lookup_member[of i _ row]
  by (auto simp: earned_def required_pairing_Inr)

lemma earned_rows: "earned e cfg h db \<Longrightarrow> p \<in> set (cb_pairings db) \<Longrightarrow> pairing_earned e (h @ g) p"
  by (auto simp: earned_def pairing_earned_mono)

lemma set_update_pairing:
  "q \<in> set (cb_pairings (update_companion_pairing i f db)) \<longleftrightarrow>
     (\<exists>p \<in> set (cb_pairings db). q = (if cp_pairing_id p = i then f p else p))"
  by (simp add: update_companion_pairing_def set_tbl_update)

lemma set_update_credential:
  "q \<in> set (cb_credentials (update_credential d f db)) \<longleftrightarrow>
     (\<exists>c \<in> set (cb_credentials db). q = (if cr_device_id c = d then f c else c))"
  by (simp add: update_credential_def set_tbl_update)

lemma credentials_frames [simp]:
  "cb_credentials (expire_companion_pairings now db) = cb_credentials db"
  "cb_credentials (update_companion_pairing i f db) = cb_credentials db"
  "cb_credentials (put_push p db) = cb_credentials db"
  "cb_credentials (disable_push_token d db) = cb_credentials db"
  "cb_pairings (update_credential d g db) = cb_pairings db"
  "cb_pairings (put_push p db) = cb_pairings db"
  "cb_pairings (disable_push_token d db) = cb_pairings db"
  "cb_pairings (put_companion_credential c db) = cb_pairings db"
  by (simp_all add: expire_companion_pairings_def update_companion_pairing_def put_push_def update_push_def
      disable_push_token_def update_credential_def put_companion_credential_def)

lemma earned_create:
  assumes "earned e cfg h db"
  shows "earned e cfg (h @ [CreatePairing now payload i s c sha pem])
    (snd (create_companion_pairing e cfg now payload i s c sha pem db))"
proof -
  let ?k = "CreatePairing now payload i s c sha pem"
  have new: "pairing_earned e (h @ [?k]) (new_companion_pairing e cfg now request i s c sha)"
    if "companion_pairing_request payload = Some request" for request
    using that by (simp add: pairing_earned_def requested_def new_companion_pairing_def) blast
  show ?thesis
    by (rule earned_call[OF assms])
      (use new earned_rows[OF assms] earned_rows[OF earned_expire[OF assms, of now]] in
        \<open>auto simp: create_companion_pairing_def Let_def split: option.splits if_splits\<close>)
qed

lemma earned_decide:
  assumes "earned e cfg h db"
  shows "earned e cfg (h @ [ApprovePairing now i]) (snd (approve_companion now i db))"
    and "earned e cfg (h @ [RejectPairing now i]) (snd (reject_companion now i db))"
    and "earned e cfg (h @ [ListPairings now]) (snd (list_companion_pairings now db))"
proof -
  note x = earned_rows[OF assms] earned_rows[OF earned_expire[OF assms, of now]]
  have up: "pairing_earned e (h @ g) (p\<lparr>cp_status := APPROVED, cp_approved_at := t\<rparr>)"
    if "pairing_earned e (h @ g) p" "approved (h @ g) (cp_pairing_id p)" for p g t
    using that by (simp add: pairing_earned_def)
  have down: "pairing_earned e (h @ g) (p\<lparr>cp_status := REJECTED\<rparr>)" if "pairing_earned e (h @ g) p" for p g
    using that by (simp add: pairing_earned_def)
  show "earned e cfg (h @ [ApprovePairing now i]) (snd (approve_companion now i db))"
    by (rule earned_call[OF assms])
      (use x in \<open>auto simp: approve_companion_def Let_def after_update_def set_update_pairing approved_def
        intro!: up split: sum.splits if_splits\<close>)
  show "earned e cfg (h @ [RejectPairing now i]) (snd (reject_companion now i db))"
    by (rule earned_call[OF assms])
      (use x in \<open>auto simp: reject_companion_def Let_def after_update_def set_update_pairing
        intro!: down split: sum.splits if_splits\<close>)
  show "earned e cfg (h @ [ListPairings now]) (snd (list_companion_pairings now db))"
    by (rule earned_call[OF assms]) (use x in \<open>auto simp: list_companion_pairings_def Let_def\<close>)
qed

lemma earned_push:
  assumes "earned e cfg h db"
  shows "earned e cfg (h @ [RegisterPush now d payload]) (snd (register_push_token e t now d payload db))"
    and "earned e cfg (h @ [DisablePush d]) (disable_push_token d db)"
  by (rule earned_call[OF assms]; use earned_rows[OF assms] in
      \<open>auto simp: register_push_token_def split: option.splits sum.splits if_splits\<close>)+

lemma set_put_credential:
  assumes "q \<in> set (cb_credentials (put_companion_credential c db))"
  shows "q = c \<or> q \<in> set (cb_credentials db) \<and> cr_device_id q \<noteq> cr_device_id c"
  using assms by (auto simp: put_companion_credential_def set_update_credential cct.lookup_absent image_iff split: if_splits)

lemma distinct_put_credential:
  "distinct (map cr_device_id (cb_credentials db)) \<Longrightarrow>
     distinct (map cr_device_id (cb_credentials (put_companion_credential c db)))"
  by (auto simp: put_companion_credential_def cct.lookup_absent update_credential_def tbl_update_def
      comp_def if_distrib[of cr_device_id] cong: if_cong)


lemma earned_poll:
  assumes "earned e cfg h db"
  shows "earned e cfg (h @ [PollPairing now i payload t]) (snd (poll_companion e cfg now i payload t db))"
proof -
  let ?k = "PollPairing now i payload t" let ?db1 = "expire_companion_pairings now db"
  note x = earned_rows[OF earned_expire[OF assms, of now]]
  have kept: "earned e cfg (h @ [?k]) db" "earned e cfg (h @ [?k]) ?db1"
    by (rule earned_call[OF assms]; use earned_rows[OF assms] x in simp)+
  have "earned e cfg (h @ [?k]) (update_companion_pairing i (\<lambda>p. p\<lparr>cp_status := CONSUMED, cp_consumed_at := Some now\<rparr>)
      (put_companion_credential (new_credential e cfg now row t) ?db1))" (is "earned e cfg (h @ [?k]) ?db2")
    if "companion_pairing_poll payload = Some poll" "required_pairing i ?db1 = Inr row" "cp_status row = APPROVED"
      "cp_polling_secret_sha256 row = secret_digest e (jtext (jget poll ''polling_secret''))" for poll row
  proof -
    have row: "requested e h i (cp_device_id row) (secret_digest e (jtext (jget poll ''polling_secret'')))" "approved h i"
      using earned_found[OF assms that(2)] that(3,4) by (auto simp: pairing_earned_def)
    have "issued e cfg (h @ [?k]) (cp_device_id row) (secret_digest e t) (now + days (cs_credential_ttl_days cfg))"
      unfolding issued_def using row that(1)
      by (intro exI[of _ h] exI[of _ now] exI[of _ i] exI[of _ payload] exI[of _ poll] exI[of _ t] exI[of _ "[]"]) auto
    then have "credential_earned e cfg (h @ [?k]) c" if "c \<in> set (cb_credentials ?db2)" for c
      using set_put_credential[of c "new_credential e cfg now row t" ?db1] that kept(2)
      by (auto simp: earned_def credential_earned_def new_credential_def)
    moreover have "pairing_earned e (h @ [?k]) p" if "p \<in> set (cb_pairings ?db2)" for p
      using that x by (auto simp: set_update_pairing pairing_earned_def split: if_splits)
    moreover have "distinct (map cr_device_id (cb_credentials ?db2))"
      using distinct_put_credential[of ?db1] assms by (simp add: earned_def)
    ultimately show ?thesis by (simp add: earned_def)
  qed
  with kept show ?thesis
    by (auto simp: poll_companion_def Let_def split: option.splits sum.splits if_splits)
qed

lemma earned_authorize:
  assumes "earned e cfg h db"
  shows "earned e cfg (h @ [AuthorizeDevice now d t]) (snd (authorize_companion e now d t db))"
proof -
  let ?k = "AuthorizeDevice now d t"
  have kept: "earned e cfg (h @ [?k]) db"
    by (rule earned_call[OF assms]; use earned_rows[OF assms] in simp)
  moreover have "earned e cfg (h @ [?k]) (update_credential d (\<lambda>r. r\<lparr>cr_last_seen_at := Some now\<rparr>) db)"
    using kept cct.distinct_modify[of "\<lambda>r. r\<lparr>cr_last_seen_at := Some now\<rparr>" db d]
    by (auto simp: earned_def set_update_credential credential_earned_def)
  ultimately show ?thesis
    by (auto simp: authorize_companion_def split: option.splits)
qed

lemma earned_revoke:
  assumes "earned e cfg h db"
  shows "earned e cfg (h @ [RevokeDevice now d]) (snd (revoke_companion now d db))"
proof -
  let ?k = "RevokeDevice now d"
  have old: "credential_earned e cfg (h @ [?k]) c" if "c \<in> set (cb_credentials db)" "cr_device_id c \<noteq> d" for c
    using assms that by (auto simp: earned_def credential_earned_def intro!: issued_mono)
  have rows: "p \<in> set (cb_pairings db) \<Longrightarrow> pairing_earned e (h @ [?k]) p" for p
    by (rule earned_rows[OF assms])
  have dist: "distinct (map cr_device_id (cb_credentials db))" using assms by (simp add: earned_def)
  show ?thesis
  proof (cases "select_credential d db")
    case None
    then have "snd (revoke_companion now d db) = db" "d \<notin> cr_device_id ` set (cb_credentials db)"
      by (simp_all add: revoke_companion_def required_device_def cct.lookup_absent[symmetric])
    then show ?thesis using old rows dist by (auto simp: earned_def)
  next
    case (Some row)
    then have one: "c = row" if "c \<in> set (cb_credentials db)" "cr_device_id c = d" for c
      using that cct.lookup_iff[OF dist, of d c] by simp
    have "credential_earned e cfg (h @ [?k]) (c\<lparr>cr_revoked_at := Some now\<rparr>)" for c
      by (simp add: credential_earned_def)
    then have "earned e cfg (h @ [?k]) (update_credential d (\<lambda>r. r\<lparr>cr_revoked_at := Some now\<rparr>) db)"
      using old rows dist cct.distinct_modify[of "\<lambda>r. r\<lparr>cr_revoked_at := Some now\<rparr>" db d]
      by (auto simp: earned_def set_update_credential)
    moreover have "earned e cfg (h @ [?k]) db" if revoked: "cr_revoked_at row \<noteq> None"
    proof -
      have "credential_earned e cfg (h @ [?k]) c" if "c \<in> set (cb_credentials db)" for c
        using that old[of c] one[of c] revoked by (cases "cr_device_id c = d") (auto simp: credential_earned_def)
      with rows dist show ?thesis by (simp add: earned_def)
    qed
    ultimately show ?thesis
      using Some by (auto simp: revoke_companion_def required_device_def Let_def earned_def)
  qed
qed

lemma earned_calls: "earned e cfg h (after_calls e cfg isoformat h)"
proof (induction h rule: rev_induct)
  case Nil
  then show ?case by (simp add: earned_def after_calls_def empty_companions_def)
next
  case (snoc k h)
  have "earned e cfg (h @ [k]) (after_call e cfg isoformat k (after_calls e cfg isoformat h))"
    using snoc
    by (cases k) (simp_all add: earned_create earned_decide earned_poll earned_authorize earned_revoke earned_push)
  then show ?case by (simp add: after_calls_def)
qed

text \<open>
  C16. After any sequence of calls, a device and a token are authorised only if the session was earned:
  some poll issued a token with this digest to a pairing that was requested for this device and
  approved before, the poll presented the secret of that request, less than the life of a credential
  has passed since, and the device was not revoked after it.
\<close>

theorem companion_session_was_earned:
  assumes "fst (authorize_companion e now device_id token (after_calls e cfg isoformat h))"
  shows "\<exists>expiry. now < expiry \<and> issued e cfg h device_id (secret_digest e token) expiry"
proof -
  from assms obtain c where c: "tbl_find cr_device_id device_id
      (filter (\<lambda>c. cr_revoked_at c = None) (cb_credentials (after_calls e cfg isoformat h))) = Some c"
    "now < cr_expires_at c" "cr_token_sha256 c = secret_digest e token"
    by (auto simp: authorize_companion_def split: option.splits if_splits)
  from tbl_find_Some_D[OF c(1)] have "c \<in> set (cb_credentials (after_calls e cfg isoformat h))"
    "cr_device_id c = device_id" "cr_revoked_at c = None" by auto
  with earned_calls[of e cfg h isoformat] c(3) have "issued e cfg h device_id (secret_digest e token) (cr_expires_at c)"
    by (auto simp: earned_def credential_earned_def)
  with c(2) show ?thesis by blast
qed


definition phone_secret :: string where
  "phone_secret = replicate 43 CHR ''s''"

definition phone_calls :: "companion_call list" where
  "phone_calls =
     [CreatePairing 0 (JObj [(''device_id'', JStr ''phone-01''), (''device_name'', JStr ''Phone''), (''app_version'', JStr ''1.2'')])
        ''p1'' phone_secret ''ABCD2345'' ''sha'' ''pem'',
      ApprovePairing 1 ''p1'',
      PollPairing 2 ''p1'' (JObj [(''polling_secret'', JStr phone_secret)]) ''token'']"

lemma phone_authorized:
  "fst (authorize_companion demo_env 3 ''phone-01'' ''token''
     (after_calls demo_env default_companion_settings (\<lambda>t. []) phone_calls))"
  by code_simp

theorem companion_session_was_earned_witness:
  "\<exists>expiry. 3 < expiry \<and>
     issued demo_env default_companion_settings phone_calls ''phone-01'' (secret_digest demo_env ''token'') expiry"
  by (rule companion_session_was_earned[OF phone_authorized])

end
