(* ===== verification/Notifications.thy ===== *)
theory Notifications
  imports Companion_Properties
begin

text \<open>
  companions/notifications.py, \<open>APNsNotificationPublisher\<close>: the bounded queue of notifications, the
  thread that drains it and the delivery to every registered device. Building the provider token and
  the HTTP/2 request are one call that answers a status or raises; it is a parameter.
\<close>

section \<open>The queue\<close>

definition NOTIFICATION_TYPES :: "string list" where
  "NOTIFICATION_TYPES = [''INFORMATION'', ''ATTENTION'', ''DECISION_REQUIRED'', ''CRITICAL'', ''RESOLVED'']"

record notification =
  no_id :: string
  no_type :: string
  no_title :: string
  no_message :: string
  no_incident_id :: json
  no_occurred_at :: json

text \<open>\<open>str(value or default)\<close>\<close>

definition str_or :: "json \<Rightarrow> string \<Rightarrow> string" where
  "str_or v other = (if jtrue v then py_str v else other)"

definition validated_notification :: "string \<Rightarrow> json \<Rightarrow> error + notification" where
  "validated_notification now_text payload =
     (let notification_id = take 160 (str_or (jget payload ''notification_id'') []);
          notification_type = map upper_char (str_or (jget payload ''type'') []);
          title = take 160 (str_or (jget payload ''title'') ''Tsunade'');
          message = take 1000 (str_or (jget payload ''message'') [])
      in if notification_id = [] \<or> notification_type \<notin> set NOTIFICATION_TYPES \<or> message = []
         then Inl (ValueError ''Invalid Shizune notification payload'')
         else Inr \<lparr>no_id = notification_id, no_type = notification_type, no_title = title, no_message = message,
                no_incident_id = jget payload ''incident_id'',
                no_occurred_at = (if jtrue (jget payload ''occurred_at'') then jget payload ''occurred_at''
                                  else JStr now_text)\<rparr>)"

record publisher =
  pb_queue :: "notification list"
  pb_published_ids :: "string list"
  pb_thread :: bool

definition new_publisher :: publisher where
  "new_publisher = \<lparr>pb_queue = [], pb_published_ids = [], pb_thread = False\<rparr>"

definition last_256 :: "'a list \<Rightarrow> 'a list" where
  "last_256 xs = drop (length xs - 256) xs"

text \<open>A full queue drops the notification with a warning; its identifier is not kept then.\<close>

definition publish_notification :: "bool \<Rightarrow> string \<Rightarrow> json \<Rightarrow> publisher \<Rightarrow> (error + unit) \<times> publisher" where
  "publish_notification enabled now_text payload p =
     (if \<not> enabled then (Inr (), p)
      else case validated_notification now_text payload of
             Inl err \<Rightarrow> (Inl err, p)
           | Inr n \<Rightarrow>
               if no_id n \<in> set (pb_published_ids p) then (Inr (), p)
               else if 100 \<le> length (pb_queue p) then (Inr (), p)
               else (Inr (), p\<lparr>pb_queue := pb_queue p @ [n], pb_published_ids := last_256 (pb_published_ids p @ [no_id n]),
                       pb_thread := True\<rparr>))"

text \<open>One turn of the thread: it takes a notification, or ends when there is none.\<close>

definition take_next :: "publisher \<Rightarrow> notification option \<times> publisher" where
  "take_next p =
     (case pb_queue p of
        [] \<Rightarrow> (None, p\<lparr>pb_thread := False\<rparr>)
      | n # rest \<Rightarrow> (Some n, p\<lparr>pb_queue := rest\<rparr>))"

section \<open>Delivery\<close>

text \<open>The answer of an attempt: a status, or None when the call raises.\<close>

type_synonym push_sender = "string \<Rightarrow> string \<Rightarrow> notification \<Rightarrow> nat \<Rightarrow> int option"

datatype delivery = Delivered nat | Unregistered nat | Undelivered

fun attempts :: "(nat \<Rightarrow> int option) \<Rightarrow> nat list \<Rightarrow> delivery" where
  "attempts send [] = Undelivered"
| "attempts send (k # ks) =
     (if send k = Some 200 then Delivered k
      else if send k = Some 410 then Unregistered k
      else attempts send ks)"

definition deliver_target ::
  "push_sender \<Rightarrow> notification \<Rightarrow> string \<times> string \<Rightarrow> (string \<times> string \<times> delivery) list \<times> companion_db \<Rightarrow>
     (string \<times> string \<times> delivery) list \<times> companion_db" where
  "deliver_target send n target s =
     (let d = attempts (send (fst target) (snd target) n) [1, 2, 3]
      in (fst s @ [(fst target, snd target, d)],
          case d of Unregistered k \<Rightarrow> disable_push_token (fst target) (snd s) | _ \<Rightarrow> snd s))"

definition deliver_with_retries ::
  "push_sender \<Rightarrow> instant \<Rightarrow> string \<Rightarrow> notification \<Rightarrow> companion_db \<Rightarrow>
     (string \<times> string \<times> delivery) list \<times> companion_db" where
  "deliver_with_retries send now environment n db =
     fold (deliver_target send n) (push_targets now environment db) ([], db)"

section \<open>The publisher among the calls of the companions\<close>

record notification_world =
  nw_publisher :: publisher
  nw_companions :: companion_db
  nw_sent :: "(notification \<times> (string \<times> string \<times> delivery) list) list"

datatype notification_event =
    Published string json
  | Drained instant push_sender
  | Called companion_call

definition drain_turn :: "string \<Rightarrow> instant \<Rightarrow> push_sender \<Rightarrow> notification_world \<Rightarrow> notification_world" where
  "drain_turn environment now send w =
     (if \<not> pb_thread (nw_publisher w) then w
      else case take_next (nw_publisher w) of
             (None, p) \<Rightarrow> w\<lparr>nw_publisher := p\<rparr>
           | (Some n, p) \<Rightarrow>
               let (log, db) = deliver_with_retries send now environment n (nw_companions w)
               in w\<lparr>nw_publisher := p, nw_companions := db, nw_sent := nw_sent w @ [(n, log)]\<rparr>)"

fun after_event ::
  "env \<Rightarrow> companion_settings \<Rightarrow> (instant \<Rightarrow> string) \<Rightarrow> string \<Rightarrow> notification_event \<Rightarrow> notification_world \<Rightarrow> notification_world" where
  "after_event e cfg isoformat environment (Published now_text payload) w =
     w\<lparr>nw_publisher := snd (publish_notification True now_text payload (nw_publisher w))\<rparr>"
| "after_event e cfg isoformat environment (Drained now send) w = drain_turn environment now send w"
| "after_event e cfg isoformat environment (Called k) w =
     w\<lparr>nw_companions := after_call e cfg isoformat k (nw_companions w)\<rparr>"

definition new_world :: "companion_db \<Rightarrow> notification_world" where
  "new_world db = \<lparr>nw_publisher = new_publisher, nw_companions = db, nw_sent = []\<rparr>"

section \<open>Order, repetition and bounds\<close>

text \<open>The identifiers that were accepted, in order: those sent and those that wait.\<close>

definition accepted :: "notification_world \<Rightarrow> string list" where
  "accepted w = map (\<lambda>s. no_id (fst s)) (nw_sent w) @ map no_id (pb_queue (nw_publisher w))"

definition publisher_ok :: "notification_world \<Rightarrow> bool" where
  "publisher_ok w =
     (pb_published_ids (nw_publisher w) = last_256 (accepted w) \<and> length (pb_queue (nw_publisher w)) \<le> 100 \<and>
      (pb_queue (nw_publisher w) \<noteq> [] \<longrightarrow> pb_thread (nw_publisher w)))"

definition no_repetition :: "'a list \<Rightarrow> bool" where
  "no_repetition xs = (\<forall>as bs cs. xs = as @ bs @ cs \<longrightarrow> length bs \<le> 257 \<longrightarrow> distinct bs)"

lemma last_256_append: "last_256 (last_256 xs @ [x]) = last_256 (xs @ [x])"
proof (cases "length xs \<le> 256")
  case False
  then have "length xs - 256 + 1 = Suc (length xs) - 256" by simp
  with False show ?thesis by (simp add: last_256_def)
qed (simp add: last_256_def)

lemma no_repetition_snoc:
  assumes "no_repetition xs" "x \<notin> set (last_256 xs)"
  shows "no_repetition (xs @ [x])"
  unfolding no_repetition_def
proof (intro allI impI)
  fix as bs cs assume split: "xs @ [x] = as @ bs @ cs" and len: "length bs \<le> 257"
  show "distinct bs"
  proof (cases cs rule: rev_cases)
    case (snoc cs' c)
    then have "xs = as @ bs @ cs'" using split by simp
    then show ?thesis using assms(1) len by (auto simp: no_repetition_def)
  next
    case Nil
    show ?thesis
    proof (cases bs rule: rev_cases)
      case (snoc bs' b)
      then have xs: "xs = as @ bs'" "b = x" using split Nil by auto
      then have "distinct bs'"
        using assms(1) len snoc unfolding no_repetition_def
        by (metis append_Nil2 length_append_singleton less_or_eq_imp_le Suc_le_eq)
      moreover have "length bs' \<le> 256" using len snoc by simp
      then have "set bs' \<subseteq> set (last_256 xs)"
        using xs(1) by (auto simp: last_256_def)
      ultimately show ?thesis using snoc xs(2) assms(2) by auto
    qed simp
  qed
qed


lemma publish_cases:
  obtains "snd (publish_notification True now_text payload p) = p"
  | n where "validated_notification now_text payload = Inr n" "no_id n \<notin> set (pb_published_ids p)"
    "length (pb_queue p) < 100" "snd (publish_notification True now_text payload p) =
       p\<lparr>pb_queue := pb_queue p @ [n], pb_published_ids := last_256 (pb_published_ids p @ [no_id n]), pb_thread := True\<rparr>"
proof (cases "validated_notification now_text payload")
  case (Inl err)
  then show thesis using that(1) by (simp add: publish_notification_def)
next
  case (Inr n)
  then show thesis
    using that(1) that(2)[OF Inr]
    by (cases "no_id n \<in> set (pb_published_ids p)"; cases "100 \<le> length (pb_queue p)")
      (simp_all add: publish_notification_def)
qed

lemma deliver_targets:
  "map (\<lambda>r. (fst r, fst (snd r))) (fst (deliver_with_retries send now environment n db)) = push_targets now environment db"
proof -
  have "map (\<lambda>r. (fst r, fst (snd r))) (fst (fold (deliver_target send n) ts (log, db))) =
      map (\<lambda>r. (fst r, fst (snd r))) log @ ts" for ts log db
    by (induction ts arbitrary: log db) (simp_all add: deliver_target_def Let_def split: delivery.splits)
  then show ?thesis by (simp add: deliver_with_retries_def)
qed

lemma drain_takes:
  assumes "pb_thread (nw_publisher w)" "pb_queue (nw_publisher w) = n # rest"
  shows "\<exists>log. nw_sent (drain_turn environment now send w) = nw_sent w @ [(n, log)] \<and>
      map (\<lambda>r. (fst r, fst (snd r))) log = push_targets now environment (nw_companions w) \<and>
      nw_publisher (drain_turn environment now send w) = (nw_publisher w)\<lparr>pb_queue := rest\<rparr>"
  using assms deliver_targets[of send now environment n "nw_companions w"]
  by (simp add: drain_turn_def take_next_def case_prod_unfold Let_def)

lemma drain_idle:
  assumes "\<not> pb_thread (nw_publisher w) \<or> pb_queue (nw_publisher w) = []"
  shows "nw_sent (drain_turn environment now send w) = nw_sent w"
    "pb_queue (nw_publisher (drain_turn environment now send w)) = pb_queue (nw_publisher w)"
    "pb_published_ids (nw_publisher (drain_turn environment now send w)) = pb_published_ids (nw_publisher w)"
    "pb_queue (nw_publisher w) \<noteq> [] \<Longrightarrow>
       pb_thread (nw_publisher (drain_turn environment now send w)) = pb_thread (nw_publisher w)"
  using assms by (auto simp: drain_turn_def take_next_def split: list.splits)

text \<open>An event accepts at most one notification, and only a valid one whose identifier is not recent.\<close>

lemma event_accepts:
  assumes "publisher_ok w" "w' = after_event e cfg isoformat environment ev w"
  shows "publisher_ok w' \<and>
    (accepted w' = accepted w \<or>
     (\<exists>now_text payload n. ev = Published now_text payload \<and> validated_notification now_text payload = Inr n \<and>
        no_id n \<notin> set (last_256 (accepted w)) \<and> accepted w' = accepted w @ [no_id n]))"
proof (cases ev)
  case (Published now_text payload)
  show ?thesis
  proof (cases rule: publish_cases[of now_text payload "nw_publisher w"])
    case 1
    then show ?thesis using assms Published by simp
  next
    case (2 n)
    then have "accepted w' = accepted w @ [no_id n]"
      using assms(2) Published by (simp add: accepted_def)
    moreover from this have "publisher_ok w'"
      using 2 assms Published by (simp add: publisher_ok_def last_256_append)
    ultimately show ?thesis using 2 assms(1) Published by (simp add: publisher_ok_def)
  qed
next
  case (Drained now send)
  show ?thesis
  proof (cases "pb_thread (nw_publisher w) \<and> pb_queue (nw_publisher w) \<noteq> []")
    case True
    then obtain n rest where q: "pb_queue (nw_publisher w) = n # rest" by (cases "pb_queue (nw_publisher w)") auto
    from drain_takes[OF _ q, of environment now send] True obtain log where
      "nw_sent w' = nw_sent w @ [(n, log)]" "nw_publisher w' = (nw_publisher w)\<lparr>pb_queue := rest\<rparr>"
      using assms(2) Drained by auto
    then have "accepted w' = accepted w" "publisher_ok w'"
      using assms(1) q True by (simp_all add: accepted_def publisher_ok_def)
    then show ?thesis by simp
  next
    case False
    then show ?thesis
      using assms Drained drain_idle[of w environment now send] by (auto simp: accepted_def publisher_ok_def)
  qed
next
  case (Called k)
  then show ?thesis using assms by (simp add: accepted_def publisher_ok_def)
qed

lemma events_ok:
  "publisher_ok (fold (after_event e cfg isoformat environment) evs (new_world db)) \<and>
   no_repetition (accepted (fold (after_event e cfg isoformat environment) evs (new_world db)))"
proof (induction evs rule: rev_induct)
  case Nil
  then show ?case
    by (auto simp: publisher_ok_def new_world_def new_publisher_def accepted_def no_repetition_def last_256_def)
next
  case (snoc ev evs)
  define w where "w = fold (after_event e cfg isoformat environment) evs (new_world db)"
  define w' where "w' = after_event e cfg isoformat environment ev w"
  have w: "publisher_ok w" "no_repetition (accepted w)" using snoc by (simp_all add: w_def)
  have "no_repetition (accepted w')"
    using event_accepts[OF w(1) w'_def] w(2) no_repetition_snoc[OF w(2)] by auto
  then have "publisher_ok w' \<and> no_repetition (accepted w')"
    using event_accepts[OF w(1) w'_def] by blast
  then show ?case by (simp add: w_def w'_def)
qed

text \<open>
  C22. In every interleaving of publications, turns of the delivery thread and calls of the companions:
  at most 100 notifications wait; an identifier is not accepted again among the next 256 accepted
  ones; while one waits the thread is there, and its next turn sends the oldest one, once, to every
  device that is registered, unrevoked and unexpired at that moment.
\<close>

theorem notifications_sent_in_order:
  assumes "w = fold (after_event e cfg isoformat environment) events (new_world db)"
  shows "length (pb_queue (nw_publisher w)) \<le> 100 \<and> no_repetition (accepted w) \<and>
    (case pb_queue (nw_publisher w) of
       [] \<Rightarrow> True
     | n # rest \<Rightarrow>
         (\<exists>log. nw_sent (drain_turn environment now send w) = nw_sent w @ [(n, log)] \<and>
            map (\<lambda>r. (fst r, fst (snd r))) log = push_targets now environment (nw_companions w) \<and>
            pb_queue (nw_publisher (drain_turn environment now send w)) = rest))"
proof -
  from events_ok[of e cfg isoformat environment events db] have ok: "publisher_ok w" "no_repetition (accepted w)"
    using assms by simp_all
  show ?thesis
  proof (cases "pb_queue (nw_publisher w)")
    case Nil
    with ok show ?thesis by (simp add: publisher_ok_def)
  next
    case (Cons n rest)
    with ok have "pb_thread (nw_publisher w)" by (simp add: publisher_ok_def)
    with drain_takes[OF _ Cons, of environment now send] ok Cons show ?thesis by (auto simp: publisher_ok_def)
  qed
qed

definition alarm :: json where
  "alarm = JObj [(''notification_id'', JStr ''n1''), (''type'', JStr ''critical''), (''message'', JStr ''down'')]"

theorem notifications_sent_in_order_witness:
  "\<exists>w. w = fold (after_event demo_env default_companion_settings (\<lambda>t. []) ''production'') [Published [] alarm, Published [] alarm]
         (new_world empty_companions) \<and>
     map no_id (pb_queue (nw_publisher w)) = [''n1''] \<and>
     nw_sent (drain_turn ''production'' 0 (\<lambda>d t n k. Some 200) w) \<noteq> [] \<and> no_repetition (accepted w)"
proof -
  define w where "w = fold (after_event demo_env default_companion_settings (\<lambda>t. []) ''production'')
    [Published [] alarm, Published [] alarm] (new_world empty_companions)"
  have q: "map no_id (pb_queue (nw_publisher w)) = [''n1'']" unfolding w_def by code_simp
  then obtain n where "pb_queue (nw_publisher w) = [n]" by auto
  with notifications_sent_in_order[OF w_def, where now = 0 and send = "\<lambda>d t n k. Some 200"]
  have "nw_sent (drain_turn ''production'' 0 (\<lambda>d t n k. Some 200) w) \<noteq> []" "no_repetition (accepted w)"
    by auto
  with q show ?thesis by (intro exI[of _ w] conjI) (rule w_def)
qed

end
