(* ===== verification/Memory.thy ===== *)
theory Memory
  imports Prelude
begin

text \<open>
  persistence/: the runtime, session and persistent memories, the manager that selects one by its
  scope and counts, and the storage of the persistent memory in a JSON file. Memories are objects
  that several owners may hold, so they live in a store of their own.
\<close>

section \<open>Memories\<close>

datatype memory_scope = RUNTIME | SESSION | PERSISTENT

record memory_entry =
  me_key :: string
  me_value :: json
  me_scope :: memory_scope

type_synonym memory = "memory_entry list"

definition put_entry :: "memory_entry \<Rightarrow> memory \<Rightarrow> memory" where
  "put_entry x m = (if tbl_find me_key (me_key x) m = None then m @ [x] else tbl_update me_key (me_key x) (\<lambda>y. x) m)"

definition memory_set :: "memory_scope \<Rightarrow> string \<Rightarrow> json \<Rightarrow> memory \<Rightarrow> memory" where
  "memory_set scope k v m = put_entry \<lparr>me_key = k, me_value = v, me_scope = scope\<rparr> m"

definition memory_get :: "string \<Rightarrow> memory \<Rightarrow> json" where
  "memory_get k m = (case tbl_find me_key k m of None \<Rightarrow> JNull | Some x \<Rightarrow> me_value x)"

definition memory_delete :: "string \<Rightarrow> memory \<Rightarrow> memory" where
  "memory_delete k m = filter (\<lambda>x. me_key x \<noteq> k) m"

definition memory_exists :: "string \<Rightarrow> memory \<Rightarrow> bool" where
  "memory_exists k m = (k \<in> me_key ` set m)"

definition memory_items :: "memory \<Rightarrow> (string \<times> json) list" where
  "memory_items m = map (\<lambda>x. (me_key x, me_value x)) m"

section \<open>Serialisation\<close>

definition scope_names :: "(string \<times> memory_scope) list" where
  "scope_names = [(''RUNTIME'', RUNTIME), (''SESSION'', SESSION), (''PERSISTENT'', PERSISTENT)]"

fun scope_name :: "memory_scope \<Rightarrow> string" where
  "scope_name RUNTIME = ''RUNTIME''"
| "scope_name SESSION = ''SESSION''"
| "scope_name PERSISTENT = ''PERSISTENT''"

definition serialize_entry :: "memory_entry \<Rightarrow> json" where
  "serialize_entry x = JObj [(''key'', JStr (me_key x)), (''value'', me_value x), (''scope'', JStr (scope_name (me_scope x)))]"

definition serialize_entries :: "memory_entry list \<Rightarrow> json" where
  "serialize_entries xs = JObj (map (\<lambda>x. (me_key x, serialize_entry x)) xs)"

text \<open>Subscripts of a dict raise KeyError for an absent key, and TypeError on another value.\<close>

definition subscript :: "json \<Rightarrow> string \<Rightarrow> error + json" where
  "subscript j k =
     (case j of
        JObj kvs \<Rightarrow> (case map_of kvs k of None \<Rightarrow> Inl (LookupError k) | Some v \<Rightarrow> Inr v)
      | _ \<Rightarrow> Inl (RuntimeError ''TypeError''))"

definition deserialize_entry :: "json \<Rightarrow> error + memory_entry" where
  "deserialize_entry j =
     (case subscript j ''key'' of
        Inl err \<Rightarrow> Inl err
      | Inr key \<Rightarrow>
          (case subscript j ''value'' of
             Inl err \<Rightarrow> Inl err
           | Inr v \<Rightarrow>
               (case subscript j ''scope'' of
                  Inl err \<Rightarrow> Inl err
                | Inr (JStr s) \<Rightarrow>
                    (case map_of scope_names s of
                       None \<Rightarrow> Inl (LookupError s)
                     | Some scope \<Rightarrow>
                         (case key of
                            JStr k \<Rightarrow> Inr \<lparr>me_key = k, me_value = v, me_scope = scope\<rparr>
                          | _ \<Rightarrow> Inl (RuntimeError ''TypeError'')))
                | Inr _ \<Rightarrow> Inl (LookupError ''scope''))))"

fun deserialize_entries :: "(string \<times> json) list \<Rightarrow> error + memory_entry list" where
  "deserialize_entries [] = Inr []"
| "deserialize_entries (p # ps) =
     (case deserialize_entry (snd p) of
        Inl err \<Rightarrow> Inl err
      | Inr x \<Rightarrow> (case deserialize_entries ps of Inl err \<Rightarrow> Inl err | Inr xs \<Rightarrow> Inr (x # xs)))"

section \<open>Storage\<close>

text \<open>\<open>sort_keys=True\<close> sorts every object of the document that is written.\<close>

primrec sort_json :: "json \<Rightarrow> json" where
  "sort_json JNull = JNull"
| "sort_json (JBool b) = JBool b"
| "sort_json (JInt i) = JInt i"
| "sort_json (JFloat s) = JFloat s"
| "sort_json (JStr s) = JStr s"
| "sort_json (JArr xs) = JArr (map sort_json xs)"
| "sort_json (JObj kvs) = JObj (sort_key fst (map (map_prod id sort_json) kvs))"

text \<open>
  The file: absent, with a text that does not decode, or with a document. Encoding and decoding give
  the same document back, and the keys of the entries that the code writes are texts.
\<close>

datatype stored_file = Missing | Unreadable | Document json

definition storage_save :: "memory_entry list \<Rightarrow> stored_file" where
  "storage_save xs =
     Document (sort_json (JObj [(''entries'', serialize_entries (filter (\<lambda>x. me_scope x = PERSISTENT) xs))]))"

definition storage_load :: "stored_file \<Rightarrow> error + memory_entry list" where
  "storage_load f =
     (case f of
        Missing \<Rightarrow> Inr []
      | Unreadable \<Rightarrow> Inl (ValueError ''JSONDecodeError'')
      | Document j \<Rightarrow>
          (case j of
             JObj kvs \<Rightarrow>
               (case map_of kvs ''entries'' of
                  None \<Rightarrow> Inr []
                | Some (JObj entries) \<Rightarrow> deserialize_entries entries
                | Some _ \<Rightarrow> Inl (RuntimeError ''AttributeError''))
           | _ \<Rightarrow> Inl (RuntimeError ''AttributeError'')))"

definition storage_clear :: "stored_file \<Rightarrow> stored_file" where
  "storage_clear f = Missing"

section \<open>The manager\<close>

record memory_statistics =
  ms_hits :: int
  ms_misses :: int
  ms_sets :: int
  ms_deletes :: int
  ms_clears :: int
  ms_saves :: int
  ms_loads :: int

definition reset_statistics :: memory_statistics where
  "reset_statistics = \<lparr>ms_hits = 0, ms_misses = 0, ms_sets = 0, ms_deletes = 0, ms_clears = 0, ms_saves = 0, ms_loads = 0\<rparr>"

text \<open>The memories by their references, the next free one, and the file of the storage.\<close>

record memory_store =
  hs_memories :: "nat \<Rightarrow> memory"
  hs_next :: nat
  hs_file :: stored_file

record memory_manager =
  mg_runtime :: nat
  mg_session :: nat
  mg_persistent :: nat
  mg_storage :: bool
  mg_statistics :: memory_statistics

text \<open>\<open>memory or Memory()\<close>: a memory has a length, so an empty one is false and a new one takes its place.\<close>

definition given_or_new :: "nat option \<Rightarrow> memory_store \<Rightarrow> nat \<times> memory_store" where
  "given_or_new r s =
     (case r of
        Some i \<Rightarrow> if hs_memories s i \<noteq> [] then (i, s)
                  else (hs_next s, s\<lparr>hs_memories := (hs_memories s)(hs_next s := []), hs_next := hs_next s + 1\<rparr>)
      | None \<Rightarrow> (hs_next s, s\<lparr>hs_memories := (hs_memories s)(hs_next s := []), hs_next := hs_next s + 1\<rparr>))"

definition new_memory_manager ::
  "nat option \<Rightarrow> nat option \<Rightarrow> nat option \<Rightarrow> bool \<Rightarrow> memory_store \<Rightarrow> memory_manager \<times> memory_store" where
  "new_memory_manager runtime session persistent storage s0 =
     (let (a, s1) = given_or_new runtime s0; (b, s2) = given_or_new session s1; (c, s3) = given_or_new persistent s2
      in (\<lparr>mg_runtime = a, mg_session = b, mg_persistent = c, mg_storage = storage, mg_statistics = reset_statistics\<rparr>, s3))"

fun select_memory :: "memory_scope \<Rightarrow> memory_manager \<Rightarrow> nat" where
  "select_memory RUNTIME m = mg_runtime m"
| "select_memory SESSION m = mg_session m"
| "select_memory PERSISTENT m = mg_persistent m"

definition on_memory :: "nat \<Rightarrow> (memory \<Rightarrow> memory) \<Rightarrow> memory_store \<Rightarrow> memory_store" where
  "on_memory i f s = s\<lparr>hs_memories := (hs_memories s)(i := f (hs_memories s i))\<rparr>"

definition count_memory :: "(memory_statistics \<Rightarrow> memory_statistics) \<Rightarrow> memory_manager \<Rightarrow> memory_manager" where
  "count_memory f m = m\<lparr>mg_statistics := f (mg_statistics m)\<rparr>"

definition manager_set ::
  "string \<Rightarrow> json \<Rightarrow> memory_scope \<Rightarrow> memory_manager \<times> memory_store \<Rightarrow> memory_manager \<times> memory_store" where
  "manager_set k v scope = (\<lambda>(m, s).
     (count_memory (\<lambda>t. t\<lparr>ms_sets := ms_sets t + 1\<rparr>) m, on_memory (select_memory scope m) (memory_set scope k v) s))"

definition manager_get ::
  "string \<Rightarrow> memory_scope \<Rightarrow> memory_manager \<times> memory_store \<Rightarrow> json \<times> memory_manager \<times> memory_store" where
  "manager_get k scope = (\<lambda>(m, s).
     let v = memory_get k (hs_memories s (select_memory scope m))
     in (v, count_memory (\<lambda>t. if v = JNull then t\<lparr>ms_misses := ms_misses t + 1\<rparr> else t\<lparr>ms_hits := ms_hits t + 1\<rparr>) m, s))"

definition manager_delete ::
  "string \<Rightarrow> memory_scope \<Rightarrow> memory_manager \<times> memory_store \<Rightarrow> memory_manager \<times> memory_store" where
  "manager_delete k scope = (\<lambda>(m, s).
     (count_memory (\<lambda>t. t\<lparr>ms_deletes := ms_deletes t + 1\<rparr>) m, on_memory (select_memory scope m) (memory_delete k) s))"

definition manager_exists :: "string \<Rightarrow> memory_scope \<Rightarrow> memory_manager \<times> memory_store \<Rightarrow> bool" where
  "manager_exists k scope = (\<lambda>(m, s). memory_exists k (hs_memories s (select_memory scope m)))"

definition manager_clear :: "memory_scope \<Rightarrow> memory_manager \<times> memory_store \<Rightarrow> memory_manager \<times> memory_store" where
  "manager_clear scope = (\<lambda>(m, s).
     (count_memory (\<lambda>t. t\<lparr>ms_clears := ms_clears t + 1\<rparr>) m, on_memory (select_memory scope m) (\<lambda>xs. []) s))"

definition manager_items :: "memory_scope \<Rightarrow> memory_manager \<times> memory_store \<Rightarrow> (string \<times> json) list" where
  "manager_items scope = (\<lambda>(m, s). memory_items (hs_memories s (select_memory scope m)))"

definition save_persistent :: "memory_manager \<times> memory_store \<Rightarrow> memory_manager \<times> memory_store" where
  "save_persistent = (\<lambda>(m, s).
     if \<not> mg_storage m then (m, s)
     else (count_memory (\<lambda>t. t\<lparr>ms_saves := ms_saves t + 1\<rparr>) m,
           s\<lparr>hs_file := storage_save (hs_memories s (mg_persistent m))\<rparr>))"

definition load_persistent :: "memory_manager \<times> memory_store \<Rightarrow> (error + unit) \<times> memory_manager \<times> memory_store" where
  "load_persistent = (\<lambda>(m, s).
     if \<not> mg_storage m then (Inr (), m, s)
     else let s1 = on_memory (mg_persistent m) (\<lambda>xs. []) s
          in case storage_load (hs_file s) of
               Inl err \<Rightarrow> (Inl err, m, s1)
             | Inr xs \<Rightarrow>
                 (Inr (), count_memory (\<lambda>t. t\<lparr>ms_loads := ms_loads t + 1\<rparr>) m,
                  on_memory (mg_persistent m) (fold (\<lambda>x. memory_set PERSISTENT (me_key x) (me_value x)) xs) s1))"

section \<open>Properties\<close>

text \<open>What the operations keep of a persistent memory: one entry for a key, in the persistent scope.\<close>

definition persistent_ok :: "memory \<Rightarrow> bool" where
  "persistent_ok m = (distinct (map me_key m) \<and> list_all (\<lambda>x. me_scope x = PERSISTENT) m)"

lemma put_entry_keys:
  "map me_key (put_entry x m) = (if me_key x \<in> me_key ` set m then map me_key m else map me_key m @ [me_key x])"
  by (auto simp: put_entry_def tbl_find_None tbl_update_def)

lemma set_put_entry: "y \<in> set (put_entry x m) \<Longrightarrow> y = x \<or> y \<in> set m"
  by (auto simp: put_entry_def set_tbl_update split: if_splits)

lemma persistent_set: "persistent_ok m \<Longrightarrow> persistent_ok (memory_set PERSISTENT k v m)"
  by (auto simp: persistent_ok_def memory_set_def put_entry_keys list_all_iff dest!: set_put_entry)

lemma persistent_delete: "persistent_ok m \<Longrightarrow> persistent_ok (memory_delete k m)"
  by (auto simp: persistent_ok_def memory_delete_def list_all_iff distinct_map intro: inj_on_subset)

lemma sort_key_map: "sort_key f (map g xs) = map g (sort_key (\<lambda>x. f (g x)) xs)"
proof -
  have "insort_key f (g x) (map g ys) = map g (insort_key (\<lambda>x. f (g x)) x ys)" for x ys
    by (induction ys) auto
  then show ?thesis by (induction xs) auto
qed

definition normal_entry :: "memory_entry \<Rightarrow> memory_entry" where
  "normal_entry x = x\<lparr>me_value := sort_json (me_value x)\<rparr>"

lemma normal_entry_simps [simp]:
  "me_key (normal_entry x) = me_key x" "me_value (normal_entry x) = sort_json (me_value x)"
  "me_scope (normal_entry x) = me_scope x"
  by (simp_all add: normal_entry_def)

lemma entry_round_trip: "deserialize_entry (sort_json (serialize_entry x)) = Inr (normal_entry x)"
  by (cases "me_scope x") (simp_all add: serialize_entry_def deserialize_entry_def subscript_def scope_names_def normal_entry_def)

lemma entries_round_trip:
  "deserialize_entries (map (\<lambda>x. (me_key x, sort_json (serialize_entry x))) xs) = Inr (map normal_entry xs)"
  by (induction xs) (simp_all add: entry_round_trip)

lemma storage_round_trip:
  assumes "persistent_ok m"
  shows "storage_load (storage_save m) = Inr (map normal_entry (sort_key me_key m))"
proof -
  have "filter (\<lambda>x. me_scope x = PERSISTENT) m = m"
    using assms by (simp add: persistent_ok_def list_all_iff filter_id_conv)
  then show ?thesis
    by (simp add: storage_save_def storage_load_def serialize_entries_def sort_key_map comp_def entries_round_trip)
qed

lemma refill:
  assumes "distinct (map me_key (ys @ xs))" "list_all (\<lambda>x. me_scope x = PERSISTENT) xs"
  shows "fold (\<lambda>x. memory_set PERSISTENT (me_key x) (me_value x)) xs ys = ys @ xs"
  using assms
proof (induction xs arbitrary: ys)
  case (Cons x xs)
  have "memory_set PERSISTENT (me_key x) (me_value x) ys = ys @ [x]"
    using Cons.prems by (cases x) (auto simp: memory_set_def put_entry_def tbl_find_None)
  with Cons show ?case by simp
qed simp

lemma get_normal:
  assumes "distinct (map me_key m)"
  shows "memory_get k (map normal_entry (sort_key me_key m)) = sort_json (memory_get k m)"
proof -
  have "tbl_find me_key k (map normal_entry xs) = map_option normal_entry (tbl_find me_key k xs)" for xs
    by (induction xs) (simp_all add: tbl_find_def)
  moreover have "tbl_find me_key k (sort_key me_key m) = tbl_find me_key k m"
  proof (rule option.expand)
    show "(tbl_find me_key k (sort_key me_key m) = None) = (tbl_find me_key k m = None)"
      by (simp add: tbl_find_None)
    have "distinct (map me_key (sort_key me_key m))" using assms by (simp add: distinct_map)
    then show "the (tbl_find me_key k (sort_key me_key m)) = the (tbl_find me_key k m)"
      if "tbl_find me_key k (sort_key me_key m) \<noteq> None" "tbl_find me_key k m \<noteq> None"
      using that tbl_find_distinct[OF assms, of k] tbl_find_distinct[of me_key "sort_key me_key m" k]
      by (metis option.collapse set_sort)
  qed
  ultimately show ?thesis by (simp add: memory_get_def split: option.splits)
qed

text \<open>
  What one manager saves another manager over the same file loads: the same keys, in sorted order,
  with the same values up to the order of the keys in their objects, whatever the second manager held
  before.
\<close>

theorem memory_survives_restart:
  assumes "mg_storage m1" "mg_storage m2" "persistent_ok (hs_memories s (mg_persistent m1))"
  shows "\<exists>m2' s2 xs. load_persistent (m2, snd (save_persistent (m1, s))) = (Inr (), m2', s2) \<and>
    xs = hs_memories s2 (mg_persistent m2) \<and> persistent_ok xs \<and>
    map me_key xs = sort (map me_key (hs_memories s (mg_persistent m1))) \<and>
    (\<forall>k. memory_get k xs = sort_json (memory_get k (hs_memories s (mg_persistent m1))))"
proof -
  let ?m = "hs_memories s (mg_persistent m1)" let ?xs = "map normal_entry (sort_key me_key ?m)"
  have ok: "persistent_ok ?xs" and dist: "distinct (map me_key ?m)"
    using assms(3) by (auto simp: persistent_ok_def list_all_iff comp_def distinct_map)
  then have "fold (\<lambda>x. memory_set PERSISTENT (me_key x) (me_value x)) ?xs [] = ?xs"
    using refill[of "[]" ?xs] by (simp add: persistent_ok_def)
  then have "load_persistent (m2, snd (save_persistent (m1, s))) =
      (Inr (), count_memory (\<lambda>t. t\<lparr>ms_loads := ms_loads t + 1\<rparr>) m2,
       (s\<lparr>hs_file := storage_save ?m\<rparr>)\<lparr>hs_memories := (hs_memories s)(mg_persistent m2 := ?xs)\<rparr>)"
    using assms storage_round_trip[OF assms(3)]
    by (simp add: load_persistent_def save_persistent_def on_memory_def Let_def)
  moreover have "map me_key ?xs = sort (map me_key ?m)"
    using sort_key_map[of "\<lambda>x. x" me_key ?m] by (simp add: comp_def)
  ultimately show ?thesis
    using ok get_normal[OF dist] by (intro exI[of _ "count_memory (\<lambda>t. t\<lparr>ms_loads := ms_loads t + 1\<rparr>) m2"]) auto
qed

definition sample_memory :: memory_store where
  "sample_memory = \<lparr>hs_memories = (\<lambda>i. [])(2 := memory_set PERSISTENT ''a'' (JInt 1) (memory_set PERSISTENT ''b'' (JInt 2) [])),
     hs_next = 6, hs_file = Missing\<rparr>"

definition sample_manager :: "nat \<Rightarrow> memory_manager" where
  "sample_manager i = \<lparr>mg_runtime = i, mg_session = i + 1, mg_persistent = i + 2, mg_storage = True,
     mg_statistics = reset_statistics\<rparr>"

theorem memory_survives_restart_witness:
  "\<exists>m2' s2. load_persistent (sample_manager 3, snd (save_persistent (sample_manager 0, sample_memory))) = (Inr (), m2', s2) \<and>
     map me_key (hs_memories s2 5) = [''a'', ''b''] \<and> memory_get ''a'' (hs_memories s2 5) = JInt 1"
proof -
  have ok: "persistent_ok (hs_memories sample_memory (mg_persistent (sample_manager 0)))"
    by (simp add: sample_memory_def sample_manager_def persistent_ok_def memory_set_def put_entry_def tbl_find_def)
  have refs: "mg_persistent (sample_manager 0) = 2" "mg_persistent (sample_manager 3) = 5"
    "mg_storage (sample_manager i)" for i by (simp_all add: sample_manager_def)
  have old: "sort (map me_key (hs_memories sample_memory 2)) = [''a'', ''b'']"
    "memory_get ''a'' (hs_memories sample_memory 2) = JInt 1"
    by (simp_all add: sample_memory_def memory_set_def put_entry_def tbl_find_def memory_get_def)
  from memory_survives_restart[OF refs(3) refs(3) ok, of 3] show ?thesis
    unfolding refs old by (auto simp: old)
qed

text \<open>
  A memory that a caller passes to the manager while it is empty is not used: the values the manager
  stores never reach the caller.
\<close>

lemma empty_memory_is_ignored:
  assumes "r < hs_next s" "hs_memories s r = []"
    and "(m, s1) = new_memory_manager (Some r) None None storage s" "(m2, s2) = manager_set k v RUNTIME (m, s1)"
  shows "hs_memories s2 r = [] \<and> memory_exists k (hs_memories s2 (mg_runtime m2))"
proof -
  have "mg_runtime m \<noteq> r" "hs_memories s1 r = []"
    using assms(1-3) by (auto simp: new_memory_manager_def given_or_new_def)
  then show ?thesis
    using assms(4) put_entry_keys[of "\<lparr>me_key = k, me_value = v, me_scope = RUNTIME\<rparr>" "hs_memories s1 (mg_runtime m)"]
    by (auto simp: manager_set_def on_memory_def count_memory_def memory_exists_def memory_set_def simp flip: set_map)
qed

text \<open>A file that does not decode leaves the persistent memory empty: it is cleared before the file is read.\<close>

lemma failed_load_loses_memory:
  assumes "mg_storage m" "hs_file s = Unreadable"
  shows "\<exists>err s'. load_persistent (m, s) = (Inl err, m, s') \<and> hs_memories s' (mg_persistent m) = []"
  using assms by (simp add: load_persistent_def storage_load_def on_memory_def Let_def)

end
