(* ===== verification/Spec2Isabelle.thy ===== *)
theory Spec2Isabelle
  imports Job_Behaviour Job_Properties Job_Protocol Job_Replay Job_Views Worker_Shutdown
    Pairing_Properties
    Scheduler_Properties Monitoring_Properties Delivery_Properties Recovery_Properties
    Incident_Properties Incident_Guarantees Experience_Properties
    Capability_Properties Core_Runtime Observation_Properties Correlation Notifications Memory
begin

text \<open>
  Ohana-Agent supervises a home infrastructure: it observes services, schedules checks, delivers
  observations to Ohana-Vision, and runs heavy work (backups, log analysis, inference) as
  distributed jobs on a worker PC, Katsuyu, that it wakes and shuts down. Faults it observes become
  incidents, and Tsunade proposes repairs for them that a person authorises. This development models
  the parts of src/src/ohana_agent whose correctness is a matter of state: the job control plane
  with the documents it exchanges, the incident repository with its repairs, the scheduler with the
  monitoring windows, the declared infrastructure and the engine that turns checks into observations,
  their durable delivery, health monitoring with recovery, the companion applications with their
  notifications, and the core services (capabilities, events, plugins, memories).

  \<^bold>\<open>The control plane\<close> (jobs/). All its state is one SQLite database behind one lock; every public
  method runs in one transaction. So the database is a record of tables (\<open>jobdb\<close>, theory
  Job_Types, from jobs/schema.py), and a method is a function from the environment, the settings,
  the clock reading and the database to an error, with the database unchanged, or a value and the
  new database (\<open>outcome\<close>). Job_Store holds the locked helpers of jobs/repository.py (journal,
  transitions, recovery of elapsed deadlines and lost leases, purge), Workers the registry of
  jobs/workers.py (registration, availability, the Wake-on-LAN cycle and its journal, shutdown
  permission), Job_Repository the public operations of jobs/repository.py, Pairings those of
  jobs/pairings.py. Job_Recovery computes what recovery does to each row. Job_Operations collects
  every public operation in the type \<open>repo_op\<close> with its execution \<open>exec_op\<close>, and defines the
  databases that are \<open>reachable\<close> from the empty one. Job_Contract describes the effect of any
  operation on the table of jobs and the journal by the inductive relation \<open>job_effect\<close>, proves
  that every operation has such an effect, and states the interface \<open>job_invariant\<close>: a predicate
  kept by each effect holds in every reachable database. Job_Invariants (rows are well formed) and
  Job_Audit (the journal replays along legal edges to the current statuses) interpret it;
  Worker_Power does the same for the journal of power events (\<open>power_effect\<close>, \<open>power_invariant\<close>).
  Job_History follows one row along a run. Job_Properties, Job_Behaviour, Job_Protocol and
  Job_Replay hold the properties of jobs: exclusive leases, final outcomes, dispatch order,
  fencing of stale workers, idempotence, retention. Worker_Properties and Worker_Shutdown hold
  those of the wake cycle, Pairing_Properties those of pairing. Samples has the concrete
  environment and requests of the witnesses.

  \<^bold>\<open>Documents\<close> (contracts/administration.py, jobs/job_types.py, tsunade/evidence_privacy.py). A
  pydantic model is a function from a JSON value to the normalised value or a refusal. Contracts
  holds the fields and models of AdministrationModel (extra keys refused, blanks stripped), the
  patterns and the check of workspace paths; Job_Models the parameter and result models of the nine
  job types and their registry. Json_Text writes and reads JSON text, with the round trip; the
  reader recurses with fuel, the length of the text, which the round trip shows to be enough for
  every written text. Stored_Json masks camera sessions in the stored text before decoding it.
  Contract_Laws shows that models are stable (normalising twice is normalising once) from the laws
  of the scalar conversions (\<open>coercion_law\<close>), Contract_Properties what an accepted document
  guarantees. Job_Payloads shows that the rows of every reachable database hold validated payloads,
  as another interpretation of \<open>job_invariant\<close>; Job_Views the newest log check of each source and
  the listing of workers.

  \<^bold>\<open>Incidents and repairs\<close> (tsunade/incidents.py, incident_repairs.py, incident_manual.py,
  incident_user_requests.py, followup_store.py, repair_catalog.py, evidence_privacy.py, and
  the decisions on repairs of api/service.py). One control database again (\<open>tsdb\<close>, theory
  Incident_Types, from incident_schema.py). Some public methods commit in several steps, so an
  operation returns an error or a value beside the database it leaves; a body under
  \<open>with self._connection\<close> that raises is rolled back (\<open>transaction\<close>). Regex models the backtracking
  matcher of Python's re, whose recursion ends because every repetition consumes text; Privacy the
  masks built on it. Incident_Store holds the journal, the bookkeeping of observations, the sweeps
  that apply deadlines and the verification by observations; Repair_Catalog the five repairs;
  Incident_Views the documents a reader sees; Incidents the processing of an observation and of
  removed devices; Repairs eligibility, proposal, decision and execution; Incident_Requests manual
  resolutions, requests and follow-ups. Incident_Operations collects every public operation
  (\<open>ts_op\<close>, \<open>exec_ts\<close>) and the databases that are \<open>ts_reachable\<close>. Incident_Contract describes any
  operation as a sequence of elementary writes (\<open>ts_write\<close>: a journal entry, an incident opened or
  observed, a repair along a legal edge, a request while it is pending) and of endings of incidents
  that go on until no proposal of an ended incident is left (\<open>closing\<close>); Incident_Effects and
  Incident_Steps prove it of every operation and state the interface \<open>incident_invariant\<close>, with
  \<open>write_invariant\<close> as the special case that only looks at single writes. Incident_Invariants
  interprets them: supervised repairs, counts that agree with the journal, one manual verification
  per incident, live proposals. Incident_Properties holds the life cycle that processing refines and
  the finality of decisions, Incident_Guarantees the deadlines, the execution of authorised repairs,
  answers, and the purge, whose loop of batches ends. Experiences models the comparison of incidents
  (incident_similarity.py), the candidates and the confirmation of experiences, Known_Repairs the
  ranking by the Wilson bound (repair_ranking.py), the known repair a proposal cites and the proposals
  of the service; Experience_Confirmation and Experience_Properties show what is learned, how often,
  and on which evidence it is cited. Correlation models the upstream incident that a symptom is
  attached to (incident_correlation.py). Incident_Texts has the French messages,
  Incident_Samples the run that the witnesses use.

  \<^bold>\<open>The scheduler\<close> (scheduler/, observation/monitoring/schedule.py). Calendar models wall-clock
  time; Cron the five-field expressions and the search for the next run, whose 366 days of minutes
  are the bound of the code's own loop; Scheduler the triggers, tasks and registry; Scheduler_Tick
  the runtime, the tick over any executor and the executors, the dispatcher's callbacks being the
  parameter \<open>answers\<close>; Monitoring the schedules that suspend the monitoring of a node. The
  interface \<open>task_executor\<close> in Scheduler_Properties states what a tick needs of an executor; the
  three executors of the code interpret it. Monitoring_Properties shows that the announced
  activation is never late.

  \<^bold>\<open>The infrastructure and its observations\<close> (configuration/infrastructure.py,
  infrastructure_validator.py and builders/infrastructure_builder.py, infrastructure/, observation/,
  runtime/bootstrap.py). Infrastructure_Config has the declared document and its validation,
  Infrastructure_Model nodes, services and endpoints, their construction, the runtime state and the
  manager of health updates; objects that the code compares by identity carry a number.
  Observation_Engine maps the result of a check to a health update and an observation and publishes
  it, runs plugin commands, and stores a document and rebuilds the runtime from it.
  Infrastructure_Properties characterises the documents that validate (\<open>well_declared\<close>), and gives the
  builder in closed form and the runtime as one list of services, on which Observation_Properties shows, in every state that is \<open>managed\<close>, where the result of a check
  goes, that an accepted document starts again, and two cases in which it does not work out.

  \<^bold>\<open>Delivery to Vision\<close> (observation/exporters/). Outbox models the SQLite outbox with its
  representation invariant and the interface \<open>delivery_queue\<close> of a bounded first-in first-out
  queue; Outbox_Refinement interprets it on the outbox's operations; Vision_Client models the
  client that persists and delivers, its loop terminating because each delivery removes a row;
  Delivery_Properties shows order and absence of loss over every history.

  \<^bold>\<open>Health and recovery\<close> (observation/health/, recovery/, core/mqtt/reconnect.py). Health models
  the monitor and the watchdogs, its statuses ordered by severity; Recovery the engine, strategies,
  policies and the reconnection delays; Recovery_Properties states the interface
  \<open>recovery_contract\<close> of an action that may call the engine back, and what the engine guarantees.

  \<^bold>\<open>Companions\<close> (companions/). Companions models the pairing, the credentials and the push tokens of
  the companion applications, Companion_Properties what an authorised session says of the history of
  calls (\<open>after_calls\<close>, \<open>issued\<close>). Notifications models the bounded queue, the thread that drains it
  and the attempts of delivery, among the calls of the companions, and shows order, bounds and the
  absence of repetition.

  \<^bold>\<open>Core services\<close> (core/, persistence/). Capabilities models capabilities and their manager with the
  topological order of their dependencies, whose loop is a partial function; Capability_Properties
  shows that it ends and what it returns. Core_Runtime models the lifecycle of the agent, services,
  the event bus, the command dispatcher and the lifecycle of plugins; Memory the memories by scope and
  the storage of the persistent one.

  \<^bold>\<open>Prelude\<close> holds errors, JSON values, instants (microseconds), the text order of stored
  timestamps, and keyed tables with the interface \<open>keyed_store\<close>, interpreted for every table.

  \<^bold>\<open>Parameters.\<close> What the repository calls and does not define is an argument: the tz database,
  SHA-256, SQLite's julianday, random secrets and identifiers, the clock, the HTTP client, the
  commands behind the dispatcher, the executors of repairs, what plugins and event handlers do, the
  push service, the conversion of an age in seconds to microseconds, and pydantic's lax conversions of
  integers, floats, booleans, timestamps and UUIDs. The laws a theorem needs of them are its named hypotheses (\<open>paris_law\<close>,
  \<open>coercion_law\<close>, the injectivity of digests), with a witness.

  \<^bold>\<open>Not modelled.\<close> The plugins themselves, host helpers and the HTTP layer (input and output of
  external services), start-up wiring, the expertise and preventive rules of tsunade/ (wording and
  statistics over floats), the loading of YAML files and the configuration of plugins. Text is ASCII
  except for the messages spelled out in UTF-8.
\<close>

end
